(* ===== verification/Prelude.thy ===== *)
theory Prelude
  imports Main "HOL-Library.Word"
begin

text \<open>
  Shared vocabulary of the development: the result type of a contract call,
  Rust's fixed-width integer operations, and the generic lemmas the component
  theories rely on.

  A contract call either commits and returns a value, or is rolled back by the
  host.  A rolled-back call is a value \<^term>\<open>Inl f\<close>, where \<open>failure\<close>
  tells a contract error code (a returned \<^verbatim>\<open>Err\<close> or a
  \<^verbatim>\<open>panic_with_error!\<close>) from a host failure: a missing authorization, an
  arithmetic overflow (the workspace builds with \<^verbatim>\<open>overflow-checks = true\<close>) or
  a trap: of a called contract, or of the host when a stored value does not have
  the type it is read at.
\<close>

named_theorems res_simps "rewriting of results of fallible calls"
named_theorems range_simps "membership in the ranges of the machine integers"

section \<open>Results\<close>

datatype 'e failure = Err 'e | AuthFailure | ArithPanic | CallTrap

type_synonym ('e, 'a) res = "'e failure + 'a"

text \<open>Rust's \<^verbatim>\<open>?\<close> operator: propagate a failure, continue with a value.\<close>

definition and_then :: "('e, 'a) res \<Rightarrow> ('a \<Rightarrow> ('e, 'b) res) \<Rightarrow> ('e, 'b) res" where
  "and_then r f = (case r of Inl e \<Rightarrow> Inl e | Inr x \<Rightarrow> f x)"

definition ok_or :: "'a option \<Rightarrow> 'e failure \<Rightarrow> ('e, 'a) res" where
  "ok_or x e = (case x of None \<Rightarrow> Inl e | Some v \<Rightarrow> Inr v)"

definition map_err :: "('e \<Rightarrow> 'f) \<Rightarrow> ('e, 'a) res \<Rightarrow> ('f, 'a) res" where
  "map_err g r = (case r of
      Inr x \<Rightarrow> Inr x
    | Inl (Err e) \<Rightarrow> Inl (Err (g e))
    | Inl AuthFailure \<Rightarrow> Inl AuthFailure
    | Inl ArithPanic \<Rightarrow> Inl ArithPanic
    | Inl CallTrap \<Rightarrow> Inl CallTrap)"

text \<open>
  \<^verbatim>\<open>let _ = r\<close>: a returned error is dropped and the caller goes on with what it had;
  a host failure is not a value and aborts the caller too.
\<close>

definition ignore_err :: "'a \<Rightarrow> ('e, 'a) res \<Rightarrow> ('f, 'a) res" where
  "ignore_err x r = (case r of
      Inr y \<Rightarrow> Inr y
    | Inl (Err e) \<Rightarrow> Inr x
    | Inl AuthFailure \<Rightarrow> Inl AuthFailure
    | Inl ArithPanic \<Rightarrow> Inl ArithPanic
    | Inl CallTrap \<Rightarrow> Inl CallTrap)"

definition is_ok :: "('e, 'a) res \<Rightarrow> bool" where
  "is_ok r = (case r of Inl _ \<Rightarrow> False | Inr _ \<Rightarrow> True)"

lemma and_then_Inl [simp]: "and_then (Inl e) f = Inl e"
  and and_then_Inr [simp]: "and_then (Inr x) f = f x"
  by (simp_all add: and_then_def)

lemma ok_or_simps [simp]: "ok_or (Some v) e = Inr v" "ok_or None e = Inl e"
  by (simp_all add: ok_or_def)

lemma is_ok_simps [simp]: "is_ok (Inr x)" "\<not> is_ok (Inl e)"
  by (simp_all add: is_ok_def)

lemma is_ok_iff: "is_ok r \<longleftrightarrow> (\<exists>x. r = Inr x)"
  by (cases r) auto

lemma and_then_eq_Inr [res_simps]:
  "and_then r f = Inr y \<longleftrightarrow> (\<exists>x. r = Inr x \<and> f x = Inr y)"
  by (cases r) auto

lemma and_then_eq_Inl [res_simps]:
  "and_then r f = Inl e \<longleftrightarrow> r = Inl e \<or> (\<exists>x. r = Inr x \<and> f x = Inl e)"
  by (cases r) auto

lemma ok_or_eq_Inr [res_simps]: "ok_or x e = Inr v \<longleftrightarrow> x = Some v"
  by (cases x) auto

lemma ok_or_eq_Inl [res_simps]: "ok_or x e = Inl e' \<longleftrightarrow> x = None \<and> e' = e"
  by (cases x) auto

lemma map_err_eq_Inr [res_simps]: "map_err g r = Inr v \<longleftrightarrow> r = Inr v"
  by (auto simp: map_err_def split: sum.splits failure.splits)

lemma ignore_err_eq_Inr: "ignore_err x r = Inr y \<longleftrightarrow> r = Inr y \<or> (\<exists>e. r = Inl (Err e) \<and> y = x)"
  by (auto simp: ignore_err_def split: sum.splits failure.splits)

lemma if_Inl_eq_Inr [res_simps]:
  "(if c then Inl e else r) = Inr y \<longleftrightarrow> \<not> c \<and> r = Inr y"
  "(if c then r else Inl e) = Inr y \<longleftrightarrow> c \<and> r = Inr y"
  by auto

lemma and_then_assoc: "and_then (and_then r f) g = and_then r (\<lambda>x. and_then (f x) g)"
  by (cases r) auto

section \<open>Machine integers\<close>

text \<open>
  Values of \<^verbatim>\<open>i128\<close>, \<^verbatim>\<open>u128\<close>, \<^verbatim>\<open>u64\<close> and \<^verbatim>\<open>u32\<close> are mathematical integers;
  each operation states what happens at the ends of its range.
\<close>

definition i128_max :: int where "i128_max = 2 ^ 127 - 1"
definition i128_min :: int where "i128_min = - (2 ^ 127)"
definition u128_max :: int where "u128_max = 2 ^ 128 - 1"
definition u64_max :: int where "u64_max = 2 ^ 64 - 1"
definition u32_max :: int where "u32_max = 2 ^ 32 - 1"

definition in_i128 :: "int \<Rightarrow> bool" where "in_i128 x \<longleftrightarrow> i128_min \<le> x \<and> x \<le> i128_max"
definition in_u128 :: "int \<Rightarrow> bool" where "in_u128 x \<longleftrightarrow> 0 \<le> x \<and> x \<le> u128_max"
definition in_u64 :: "int \<Rightarrow> bool" where "in_u64 x \<longleftrightarrow> 0 \<le> x \<and> x \<le> u64_max"
definition in_u32 :: "int \<Rightarrow> bool" where "in_u32 x \<longleftrightarrow> 0 \<le> x \<and> x \<le> u32_max"

lemmas int_bounds = i128_max_def i128_min_def u128_max_def u64_max_def u32_max_def

declare in_i128_def [range_simps] in_u128_def [range_simps] in_u64_def [range_simps] in_u32_def [range_simps]

text \<open>\<^verbatim>\<open>checked_add\<close>, \<^verbatim>\<open>checked_sub\<close>, \<^verbatim>\<open>checked_mul\<close>: the exact result, if it fits.\<close>

definition checked_i128 :: "int \<Rightarrow> int option" where
  "checked_i128 x = (if in_i128 x then Some x else None)"

definition checked_u128 :: "int \<Rightarrow> int option" where
  "checked_u128 x = (if in_u128 x then Some x else None)"

definition checked_u64 :: "int \<Rightarrow> int option" where
  "checked_u64 x = (if in_u64 x then Some x else None)"

definition checked_u32 :: "int \<Rightarrow> int option" where
  "checked_u32 x = (if in_u32 x then Some x else None)"

text \<open>\<^verbatim>\<open>saturating_add\<close>, \<^verbatim>\<open>saturating_sub\<close>, \<^verbatim>\<open>saturating_mul\<close>: clamp to the range.\<close>

definition sat_i128 :: "int \<Rightarrow> int" where "sat_i128 x = max i128_min (min i128_max x)"
definition sat_u128 :: "int \<Rightarrow> int" where "sat_u128 x = max 0 (min u128_max x)"
definition sat_u64 :: "int \<Rightarrow> int" where "sat_u64 x = max 0 (min u64_max x)"
definition sat_u32 :: "int \<Rightarrow> int" where "sat_u32 x = max 0 (min u32_max x)"

text \<open>The plain operators \<^verbatim>\<open>+\<close>, \<^verbatim>\<open>-\<close>, \<^verbatim>\<open>*\<close>: overflow aborts the call.\<close>

definition plain_i128 :: "int \<Rightarrow> ('e, int) res" where
  "plain_i128 x = (if in_i128 x then Inr x else Inl ArithPanic)"

definition plain_u64 :: "int \<Rightarrow> ('e, int) res" where
  "plain_u64 x = (if in_u64 x then Inr x else Inl ArithPanic)"

definition plain_u32 :: "int \<Rightarrow> ('e, int) res" where
  "plain_u32 x = (if in_u32 x then Inr x else Inl ArithPanic)"

lemma checked_eq_Some [res_simps]:
  "checked_i128 x = Some y \<longleftrightarrow> in_i128 x \<and> y = x"
  "checked_u64 x = Some y \<longleftrightarrow> in_u64 x \<and> y = x"
  "checked_u32 x = Some y \<longleftrightarrow> in_u32 x \<and> y = x"
  by (auto simp: checked_i128_def checked_u64_def checked_u32_def)

lemma checked_u128_eq [res_simps]:
  "checked_u128 x = Some y \<longleftrightarrow> in_u128 x \<and> y = x" "checked_u128 x = None \<longleftrightarrow> \<not> in_u128 x"
  by (auto simp: checked_u128_def)

lemma checked_eq_None [res_simps]:
  "checked_i128 x = None \<longleftrightarrow> \<not> in_i128 x"
  "checked_u64 x = None \<longleftrightarrow> \<not> in_u64 x"
  "checked_u32 x = None \<longleftrightarrow> \<not> in_u32 x"
  by (auto simp: checked_i128_def checked_u64_def checked_u32_def)

lemma plain_eq_Inr [res_simps]:
  "plain_i128 x = Inr y \<longleftrightarrow> in_i128 x \<and> y = x"
  "plain_u64 x = Inr y \<longleftrightarrow> in_u64 x \<and> y = x"
  "plain_u32 x = Inr y \<longleftrightarrow> in_u32 x \<and> y = x"
  by (auto simp: plain_i128_def plain_u64_def plain_u32_def)

lemma sat_i128_in_range [simp]: "in_i128 (sat_i128 x)"
  by (auto simp: in_i128_def sat_i128_def int_bounds)

lemma sat_u64_in_range [simp]: "in_u64 (sat_u64 x)"
  by (auto simp: in_u64_def sat_u64_def int_bounds)

lemma sat_u64_nonneg [simp]: "0 \<le> sat_u64 x"
  by (simp add: sat_u64_def)

lemma sat_id [simp]:
  "in_i128 x \<Longrightarrow> sat_i128 x = x"
  "in_u64 x \<Longrightarrow> sat_u64 x = x"
  "in_u32 x \<Longrightarrow> sat_u32 x = x"
  by (auto simp: in_i128_def in_u64_def in_u32_def sat_i128_def sat_u64_def sat_u32_def)

lemma in_i128_between: "in_i128 hi \<Longrightarrow> 0 \<le> x \<Longrightarrow> x \<le> hi \<Longrightarrow> in_i128 x"
  by (auto simp: in_i128_def int_bounds)

lemma in_u64_imp_in_i128: "in_u64 x \<Longrightarrow> in_i128 x"
  by (auto simp: in_i128_def in_u64_def int_bounds)

text \<open>The difference of two non-negative \<^verbatim>\<open>i128\<close> values never overflows.\<close>

lemma in_i128_diff_nonneg:
  "in_i128 a \<Longrightarrow> in_i128 b \<Longrightarrow> 0 \<le> a \<Longrightarrow> 0 \<le> b \<Longrightarrow> in_i128 (a - b)"
  by (auto simp: in_i128_def int_bounds)

section \<open>Lists and options\<close>

lemma filter_neq_distinct_length:
  assumes "distinct xs" and "x \<in> set xs"
  shows "length (filter (\<lambda>y. y \<noteq> x) xs) = length xs - 1"
proof -
  have "filter (\<lambda>y. y \<noteq> x) xs = remove1 x xs"
    using assms(1) by (simp add: distinct_remove1_removeAll removeAll_filter_not_eq)
       (metis (mono_tags, lifting) filter_cong)
  then show ?thesis
    using assms(2) by (simp add: length_remove1)
qed

section \<open>Invariants of transition systems\<close>

text \<open>
  The contract shared by the state machines of the development: initial states
  satisfy the invariant and steps keep it.  The lemmas give it for every state
  a run reaches, and for relations between the ends of a run.
\<close>

locale transition_system =
  fixes init :: "'s \<Rightarrow> bool"
    and step :: "'s \<Rightarrow> 's \<Rightarrow> bool"
    and inv :: "'s \<Rightarrow> bool"
  assumes init_inv: "init s \<Longrightarrow> inv s"
    and step_inv: "inv s \<Longrightarrow> step s s' \<Longrightarrow> inv s'"
begin

lemma run_inv: "step\<^sup>*\<^sup>* s s' \<Longrightarrow> inv s \<Longrightarrow> inv s'"
  by (induction rule: rtranclp_induct) (auto intro: step_inv)

lemma reachable_inv: "init s \<Longrightarrow> step\<^sup>*\<^sup>* s s' \<Longrightarrow> inv s'"
  using init_inv run_inv by blast

text \<open>A reflexive and transitive relation that every step from a good state satisfies holds along runs.\<close>

lemma run_relation:
  assumes "step\<^sup>*\<^sup>* s s'" and "inv s" and "\<And>x. R x x"
    and "\<And>x y z. R x y \<Longrightarrow> R y z \<Longrightarrow> R x z"
    and "\<And>x y. inv x \<Longrightarrow> step x y \<Longrightarrow> R x y"
  shows "R s s'"
  using assms(1)
proof (induction rule: rtranclp_induct)
  case (step y z)
  then show ?case using assms run_inv by blast
qed (rule assms(3))

end

section \<open>Reentrancy guards\<close>

text \<open>
  What a guarded operation relies on: a taken guard refuses every further
  acquisition, and acquiring and releasing change the depth by one.
\<close>

locale reentrancy_guard =
  fixes depth :: "'s \<Rightarrow> int"
    and acquire :: "'s \<Rightarrow> ('e, 's) res"
    and release :: "'s \<Rightarrow> 's"
    and limit :: int
  assumes acquire_depth: "acquire s = Inr s1 \<Longrightarrow> depth s < limit \<and> depth s1 = depth s + 1"
    and acquire_free: "0 \<le> depth s \<Longrightarrow> depth s < limit \<Longrightarrow> is_ok (acquire s)"
    and release_depth: "0 < depth s \<Longrightarrow> depth (release s) = depth s - 1"
begin

definition guarded :: "('s \<Rightarrow> ('e, 'a \<times> 's) res) \<Rightarrow> 's \<Rightarrow> ('e, 'a \<times> 's) res" where
  "guarded f s = and_then (acquire s) (\<lambda>s1. and_then (f s1) (\<lambda>(r, s2). Inr (r, release s2)))"

lemma guarded_success:
  assumes "guarded f s = Inr (r, s')"
  obtains s1 s2 where "acquire s = Inr s1" and "f s1 = Inr (r, s2)" and "s' = release s2"
  using assms by (auto simp: guarded_def res_simps)

text \<open>A guarded operation whose body keeps the depth leaves the guard as it found it.\<close>

lemma guarded_balanced:
  assumes "guarded f s = Inr (r, s')" and "0 \<le> depth s"
    and "\<And>s1 s2 r. f s1 = Inr (r, s2) \<Longrightarrow> depth s2 = depth s1"
  shows "depth s' = depth s"
  using assms by (auto elim!: guarded_success dest: acquire_depth simp: release_depth)

text \<open>While the guard is taken to its limit, no guarded operation runs.\<close>

lemma guarded_refused: "limit \<le> depth s \<Longrightarrow> \<not> is_ok (guarded f s)"
  by (auto simp: guarded_def is_ok_iff res_simps dest: acquire_depth)

lemma nested_refused:
  assumes "0 \<le> depth s" and "limit = 1"
  shows "\<not> is_ok (guarded (\<lambda>s1. guarded f s1) s)"
proof
  assume "is_ok (guarded (\<lambda>s1. guarded f s1) s)"
  then obtain r s' where "guarded (\<lambda>s1. guarded f s1) s = Inr (r, s')" by (auto simp: is_ok_iff)
  then obtain s1 s2 where "acquire s = Inr s1" and "guarded f s1 = Inr (r, s2)"
    by (rule guarded_success)
  then show False
    using guarded_refused [of s1 f] acquire_depth [of s s1] assms by simp
qed

end

section \<open>Relations kept along a call\<close>

text \<open>
  A reflexive and transitive relation between states, followed through the body of a
  call: the rules match the ways a body is put together (a step that returns a new
  state, a step that only reads, a guard, a result).
\<close>

locale frame_relation =
  fixes R :: "'s \<Rightarrow> 's \<Rightarrow> bool"
  assumes R_refl: "R s s"
    and R_trans: "R s t \<Longrightarrow> R t u \<Longrightarrow> R s u"
begin

definition holds_after :: "'s \<Rightarrow> ('e, 'a \<times> 's) res \<Rightarrow> bool" where
  "holds_after s r \<longleftrightarrow> (\<forall>x s'. r = Inr (x, s') \<longrightarrow> R s s')"

lemma after_elim: "holds_after s r \<Longrightarrow> r = Inr (x, s') \<Longrightarrow> R s s'"
  by (simp add: holds_after_def)

lemma after_state:
  fixes r :: "('e, 's) res"
  assumes "\<And>s1. r = Inr s1 \<Longrightarrow> R s s1" and "\<And>s1. r = Inr s1 \<Longrightarrow> holds_after s1 (f s1)"
  shows "holds_after s (and_then r f)"
  using assms by (auto simp: holds_after_def and_then_eq_Inr intro: R_trans)

lemma after_read: "(\<And>x. r = Inr x \<Longrightarrow> holds_after s (f x)) \<Longrightarrow> holds_after s (and_then r f)"
  by (auto simp: holds_after_def and_then_eq_Inr)

lemma after_guard: "(\<not> c \<Longrightarrow> holds_after s r) \<Longrightarrow> holds_after s (if c then Inl f else r)"
  by (simp add: holds_after_def)

lemma after_done: "R s s' \<Longrightarrow> holds_after s (Inr (x, s'))"
  by (simp add: holds_after_def)

lemma after_try:
  assumes "holds_after s (g ())" and "\<And>s1. r = Inr s1 \<Longrightarrow> R s s1" and "\<And>s1. holds_after s1 (h s1)"
  shows "holds_after s (case r of Inl _ \<Rightarrow> g () | Inr s1 \<Rightarrow> h s1)"
  using assms by (cases r) (auto simp: holds_after_def intro: R_trans)

end

end
