(* ===== verification/Host.thy ===== *)
theory Host
  imports Prelude
begin

text \<open>
  The parts of the Soroban host a contract sees during one invocation, and the
  SEP-41 token contracts it calls.

  The host supplies the ledger time and sequence number, the address of the
  running contract, and the set of addresses that authorized the invocation.
  Instance storage is a record per contract, with an \<open>option\<close> field per storage
  key; calls of \<^verbatim>\<open>extend_ttl\<close> are recorded with their arguments.

  Token contracts are not part of the repository: a token is a parameter, two
  functions over an unspecified world \<open>'w\<close> of token ledgers.  A call of a token
  may trap (\<^term>\<open>None\<close>).  What the contracts rely on is stated by the two
  predicates \<open>sep41\<close> and \<open>sep41_live\<close>; \<open>ledger_token\<close> is a ledger that has both.
\<close>

type_synonym address = string

text \<open>A WASM hash (and a deployment salt) is 32 bytes.\<close>

type_synonym wasm_hash = "8 word list"

record 'w token_iface =
  tok_balance :: "'w \<Rightarrow> address \<Rightarrow> address \<Rightarrow> int option"
  tok_transfer :: "'w \<Rightarrow> address \<Rightarrow> address \<Rightarrow> address \<Rightarrow> int \<Rightarrow> 'w option"

record 'w env =
  timestamp :: int
  sequence :: int
  contract_address :: address
  authorized :: "address \<Rightarrow> bool"
  tokens :: "'w token_iface"

section \<open>Authorization and token calls\<close>

definition require_auth :: "'w env \<Rightarrow> address \<Rightarrow> ('e, unit) res" where
  "require_auth e a = (if authorized e a then Inr () else Inl AuthFailure)"

definition balance_call :: "'w env \<Rightarrow> 'w \<Rightarrow> address \<Rightarrow> address \<Rightarrow> ('e, int) res" where
  "balance_call e w tok a = ok_or (tok_balance (tokens e) w tok a) CallTrap"

definition transfer_call ::
  "'w env \<Rightarrow> 'w \<Rightarrow> address \<Rightarrow> address \<Rightarrow> address \<Rightarrow> int \<Rightarrow> ('e, 'w) res" where
  "transfer_call e w tok src dst amt = ok_or (tok_transfer (tokens e) w tok src dst amt) CallTrap"

lemma require_auth_eq_Inr [res_simps]: "require_auth e a = Inr u \<longleftrightarrow> authorized e a"
  by (simp add: require_auth_def)

lemma require_auth_eq_Inl [res_simps]:
  "require_auth e a = Inl f \<longleftrightarrow> \<not> authorized e a \<and> f = AuthFailure"
  by (auto simp: require_auth_def)

lemma balance_call_eq_Inr [res_simps]:
  "balance_call e w tok a = Inr b \<longleftrightarrow> tok_balance (tokens e) w tok a = Some b"
  by (simp add: balance_call_def res_simps)

lemma transfer_call_eq_Inr [res_simps]:
  "transfer_call e w tok src dst amt = Inr w' \<longleftrightarrow>
     tok_transfer (tokens e) w tok src dst amt = Some w'"
  by (simp add: transfer_call_def res_simps)

section \<open>Documented behaviour of a SEP-41 token\<close>

text \<open>
  The balances after moving \<open>amt\<close> units of \<open>tok\<close> from \<open>src\<close> to \<open>dst\<close>, as a
  function of the balances before; a transfer to oneself changes nothing.
\<close>

definition moved ::
  "(address \<Rightarrow> address \<Rightarrow> int) \<Rightarrow> address \<Rightarrow> address \<Rightarrow> address \<Rightarrow> int \<Rightarrow> (address \<Rightarrow> address \<Rightarrow> int)" where
  "moved bal tok src dst amt = (\<lambda>t h.
     if t = tok then bal t h - (if h = src then amt else 0) + (if h = dst then amt else 0)
     else bal t h)"

definition bal_of :: "'w env \<Rightarrow> 'w \<Rightarrow> address \<Rightarrow> address \<Rightarrow> int" where
  "bal_of e w t h = (case tok_balance (tokens e) w t h of Some b \<Rightarrow> b | None \<Rightarrow> 0)"

text \<open>
  \<open>sep41\<close>: balances are non-negative \<^verbatim>\<open>i128\<close> values; a transfer that returns moved
  exactly the amount (no fee on transfer), needs a non-negative amount covered
  by the source, and leaves every other balance, and which queries trap, as it was.
\<close>

definition sep41 :: "'w env \<Rightarrow> bool" where
  "sep41 e \<longleftrightarrow>
    (\<forall>w t h b. tok_balance (tokens e) w t h = Some b \<longrightarrow> 0 \<le> b \<and> b \<le> i128_max) \<and>
    (\<forall>w t src dst amt w'. tok_transfer (tokens e) w t src dst amt = Some w' \<longrightarrow>
       0 \<le> amt \<and> amt \<le> bal_of e w t src \<and>
       bal_of e w' = moved (bal_of e w) t src dst amt \<and>
       (\<forall>t' h. tok_balance (tokens e) w' t' h = None \<longleftrightarrow> tok_balance (tokens e) w t' h = None))"

text \<open>
  \<open>sep41_live\<close>: a transfer of a covered amount out of the running contract's own
  account returns, unless the receiver's balance would overflow.
\<close>

definition sep41_live :: "'w env \<Rightarrow> bool" where
  "sep41_live e \<longleftrightarrow>
    (\<forall>w t dst amt. 0 \<le> amt \<longrightarrow> amt \<le> bal_of e w t (contract_address e) \<longrightarrow>
       bal_of e w t dst + amt \<le> i128_max \<longrightarrow>
       tok_transfer (tokens e) w t (contract_address e) dst amt \<noteq> None)"

lemma sep41_bal_range: "sep41 e \<Longrightarrow> 0 \<le> bal_of e w t h \<and> bal_of e w t h \<le> i128_max"
  by (auto simp: sep41_def bal_of_def int_bounds split: option.splits)

lemma sep41_bal_nonneg: "sep41 e \<Longrightarrow> 0 \<le> bal_of e w t h"
  by (simp add: sep41_bal_range)

lemma bal_of_Some [simp]: "tok_balance (tokens e) w t h = Some b \<Longrightarrow> bal_of e w t h = b"
  by (simp add: bal_of_def)

lemma sep41_transfer:
  assumes "sep41 e" and "tok_transfer (tokens e) w t src dst amt = Some w'"
  shows "0 \<le> amt" and "amt \<le> bal_of e w t src"
    and "bal_of e w' = moved (bal_of e w) t src dst amt"
    and "tok_balance (tokens e) w' t' h = None \<longleftrightarrow> tok_balance (tokens e) w t' h = None"
  using assms unfolding sep41_def by blast+

lemma moved_other [simp]:
  "h \<noteq> src \<Longrightarrow> h \<noteq> dst \<Longrightarrow> moved bal tok src dst amt t h = bal t h"
  "t \<noteq> tok \<Longrightarrow> moved bal tok src dst amt t h = bal t h"
  by (simp_all add: moved_def)

lemma moved_src [simp]: "src \<noteq> dst \<Longrightarrow> moved bal tok src dst amt tok src = bal tok src - amt"
  by (simp add: moved_def)

lemma moved_dst [simp]: "src \<noteq> dst \<Longrightarrow> moved bal tok src dst amt tok dst = bal tok dst + amt"
  by (simp add: moved_def)

lemma moved_self [simp]: "moved bal tok a a amt = bal"
  by (auto simp: moved_def fun_eq_iff)

lemma moved_zero [simp]: "moved bal tok a b 0 = bal"
  by (auto simp: moved_def fun_eq_iff)

text \<open>The sum of a token over any finite set of holders that contains both ends is conserved.\<close>

lemma moved_sum:
  assumes "finite A" and "src \<in> A" and "dst \<in> A"
  shows "(\<Sum>h\<in>A. moved bal tok src dst amt t h) = (\<Sum>h\<in>A. bal t h)"
proof (cases "t = tok")
  case True
  then show ?thesis
    using assms by (simp add: moved_def sum.distrib sum_subtractf)
qed simp

section \<open>A ledger with the documented behaviour\<close>

type_synonym ledger = "address \<Rightarrow> address \<Rightarrow> int"

text \<open>A stored number is read as a balance within \<^verbatim>\<open>0 .. i128::MAX\<close>.\<close>

definition ledger_read :: "ledger \<Rightarrow> address \<Rightarrow> address \<Rightarrow> int" where
  "ledger_read l t h = max 0 (min i128_max (l t h))"

definition ledger_balance :: "ledger \<Rightarrow> address \<Rightarrow> address \<Rightarrow> int option" where
  "ledger_balance l t h = Some (ledger_read l t h)"

definition ledger_transfer ::
  "ledger \<Rightarrow> address \<Rightarrow> address \<Rightarrow> address \<Rightarrow> int \<Rightarrow> ledger option" where
  "ledger_transfer l t src dst amt =
     (if 0 \<le> amt \<and> amt \<le> ledger_read l t src \<and> ledger_read l t dst + amt \<le> i128_max
      then Some (moved (ledger_read l) t src dst amt) else None)"

definition ledger_token :: "ledger token_iface" where
  "ledger_token = \<lparr>tok_balance = ledger_balance, tok_transfer = ledger_transfer\<rparr>"

lemma ledger_token_simps [simp]:
  "tok_balance ledger_token = ledger_balance"
  "tok_transfer ledger_token = ledger_transfer"
  by (simp_all add: ledger_token_def)

lemma ledger_read_range: "0 \<le> ledger_read l t h \<and> ledger_read l t h \<le> i128_max"
  by (simp add: ledger_read_def int_bounds)

lemma ledger_read_id: "0 \<le> l t h \<Longrightarrow> l t h \<le> i128_max \<Longrightarrow> ledger_read l t h = l t h"
  by (simp add: ledger_read_def)

lemma ledger_bal_of [simp]:
  "tokens e = ledger_token \<Longrightarrow> bal_of e l = ledger_read l"
  by (simp add: bal_of_def ledger_balance_def fun_eq_iff)

lemma ledger_read_transfer:
  assumes "ledger_transfer l t src dst amt = Some l'"
  shows "ledger_read l' = moved (ledger_read l) t src dst amt"
proof (intro ext)
  fix t' h
  have l': "l' = moved (ledger_read l) t src dst amt"
    and "0 \<le> amt" "amt \<le> ledger_read l t src" "ledger_read l t dst + amt \<le> i128_max"
    using assms by (simp_all add: ledger_transfer_def split: if_splits)
  then have "0 \<le> l' t' h \<and> l' t' h \<le> i128_max"
    using ledger_read_range [of l t' h] unfolding l' moved_def by auto
  then show "ledger_read l' t' h = moved (ledger_read l) t src dst amt t' h"
    by (simp add: ledger_read_id l')
qed

lemma ledger_token_sep41:
  fixes e :: "ledger env"
  assumes "tokens e = ledger_token"
  shows "sep41 e"
  unfolding sep41_def
proof (intro conjI allI impI)
  fix w t h b assume "tok_balance (tokens e) w t h = Some b"
  then show "0 \<le> b" "b \<le> i128_max"
    using assms ledger_read_range [of w t h] by (simp_all add: ledger_balance_def)
next
  fix w t src dst amt w' assume "tok_transfer (tokens e) w t src dst amt = Some w'"
  then have tr: "ledger_transfer w t src dst amt = Some w'"
    using assms by simp
  then show "0 \<le> amt" "amt \<le> bal_of e w t src"
    using assms by (simp_all add: ledger_transfer_def split: if_splits)
  show "bal_of e w' = moved (bal_of e w) t src dst amt"
    using assms ledger_read_transfer [OF tr] by simp
next
  fix w w' :: ledger and t' h
  show "tok_balance (tokens e) w' t' h = None \<longleftrightarrow> tok_balance (tokens e) w t' h = None"
    using assms by (simp add: ledger_balance_def)
qed

lemma ledger_token_live:
  fixes e :: "ledger env"
  assumes "tokens e = ledger_token"
  shows "sep41_live e"
  using assms by (simp add: sep41_live_def ledger_transfer_def)

end
