(* ===== verification/Common_Ttl.thy ===== *)
theory Common_Ttl
  imports Host
begin

text \<open>
  \<^verbatim>\<open>contracts/common/src/lib.rs\<close> (the zero-address test) and
  \<^verbatim>\<open>contracts/common/src/ttl.rs\<close> (storage renewal and the keeper reward pool).

  A call of \<^verbatim>\<open>extend_ttl\<close> is recorded with its arguments; what the host then
  does with the entry is not modelled, except that the call on a persistent
  entry that does not exist fails.
\<close>

section \<open>Zero addresses\<close>

definition zero_account :: address where
  "zero_account = ''GAAAAAAAAAAAAAAAAAAAAAAAAAAAAAAAAAAAAAAAAAAAAAAAAAAAAWHF''"

definition zero_contract :: address where
  "zero_contract = ''CAAAAAAAAAAAAAAAAAAAAAAAAAAAAAAAAAAAAAAAAAAAAAAAAAAABSC4''"

definition is_zero_address :: "address \<Rightarrow> bool" where
  "is_zero_address a \<longleftrightarrow> a = zero_account \<or> a = zero_contract"

definition is_zero_stellar_account :: "address \<Rightarrow> bool" where
  "is_zero_stellar_account a = is_zero_address a"

section \<open>Renewal schedule\<close>

record ttl_config =
  min_ttl_ledgers :: int
  extend_ttl_ledgers :: int

definition TESTNET_TTL_CONFIG :: ttl_config where
  "TESTNET_TTL_CONFIG = \<lparr>min_ttl_ledgers = 17280, extend_ttl_ledgers = 34560\<rparr>"

definition MAINNET_TTL_CONFIG :: ttl_config where
  "MAINNET_TTL_CONFIG = \<lparr>min_ttl_ledgers = 100000, extend_ttl_ledgers = 200000\<rparr>"

text \<open>The default build uses the mainnet schedule.\<close>

definition MIN_TTL_LEDGERS :: int where "MIN_TTL_LEDGERS = min_ttl_ledgers MAINNET_TTL_CONFIG"
definition EXTEND_TTL_LEDGERS :: int where "EXTEND_TTL_LEDGERS = extend_ttl_ledgers MAINNET_TTL_CONFIG"

lemma ttl_values [simp]: "MIN_TTL_LEDGERS = 100000" "EXTEND_TTL_LEDGERS = 200000"
  by (simp_all add: MIN_TTL_LEDGERS_def EXTEND_TTL_LEDGERS_def MAINNET_TTL_CONFIG_def)

datatype 'k ttl_call =
    ExtendInstance (threshold: int) (extend_to: int)
  | ExtendPersistent (entry: 'k) (threshold: int) (extend_to: int)

definition bump_instance :: "'k ttl_call list \<Rightarrow> 'k ttl_call list" where
  "bump_instance log = log @ [ExtendInstance MIN_TTL_LEDGERS EXTEND_TTL_LEDGERS]"

definition bump_persistent ::
  "('k \<Rightarrow> bool) \<Rightarrow> 'k \<Rightarrow> 'k ttl_call list \<Rightarrow> ('e, 'k ttl_call list) res" where
  "bump_persistent present k log =
     (if present k then Inr (log @ [ExtendPersistent k MIN_TTL_LEDGERS EXTEND_TTL_LEDGERS])
      else Inl CallTrap)"

definition ensure_active_ttl :: "'k ttl_call list \<Rightarrow> 'k ttl_call list" where
  "ensure_active_ttl log = bump_instance log"

definition ensure_persistent_active_ttl ::
  "('k \<Rightarrow> bool) \<Rightarrow> 'k \<Rightarrow> 'k ttl_call list \<Rightarrow> ('e, 'k ttl_call list) res" where
  "ensure_persistent_active_ttl present k log = bump_persistent present k log"

section \<open>Keeper reward pool\<close>

record keeper_reward_pool =
  kr_reward_per_key :: int
  kr_balance :: int

definition DEFAULT_KEEPER_REWARD_PER_KEY :: int where "DEFAULT_KEEPER_REWARD_PER_KEY = 1000000"

datatype keeper_reward_error = InvalidReward | InvalidPoolAmount | InsufficientPoolBalance

text \<open>The state the helpers touch: the pool slot, the token ledgers, the TTL calls.\<close>

record ('k, 'w) pool_state =
  ps_pool :: "keeper_reward_pool option"
  ps_world :: 'w
  ps_present :: "'k \<Rightarrow> bool"
  ps_ttl :: "'k ttl_call list"

definition configure_keeper_reward_pool ::
  "int \<Rightarrow> ('k, 'w) pool_state \<Rightarrow>
     (keeper_reward_error, keeper_reward_pool \<times> ('k, 'w) pool_state) res" where
  "configure_keeper_reward_pool reward_per_key s =
     (if reward_per_key \<le> 0 then Inl (Err InvalidReward) else
      let pool = \<lparr>kr_reward_per_key = reward_per_key, kr_balance = 0\<rparr> in
      Inr (pool, s\<lparr>ps_pool := Some pool\<rparr>))"

definition read_keeper_reward_pool :: "('k, 'w) pool_state \<Rightarrow> keeper_reward_pool option" where
  "read_keeper_reward_pool s = ps_pool s"

definition fund_keeper_reward_pool ::
  "'w env \<Rightarrow> address \<Rightarrow> address \<Rightarrow> int \<Rightarrow> ('k, 'w) pool_state \<Rightarrow>
     (keeper_reward_error, keeper_reward_pool \<times> ('k, 'w) pool_state) res" where
  "fund_keeper_reward_pool e tok funder amount s =
     (if amount \<le> 0 then Inl (Err InvalidPoolAmount) else
      and_then (ok_or (ps_pool s) (Err InvalidReward)) (\<lambda>pool.
      and_then (ok_or (checked_i128 (kr_balance pool + amount)) (Err InvalidPoolAmount)) (\<lambda>b.
      let pool = pool\<lparr>kr_balance := b\<rparr> in
      and_then (require_auth e funder) (\<lambda>_.
      and_then (transfer_call e (ps_world s) tok funder (contract_address e) amount) (\<lambda>w.
      Inr (pool, s\<lparr>ps_world := w, ps_pool := Some pool\<rparr>))))))"

definition bump_persistent_with_reward ::
  "'w env \<Rightarrow> 'k \<Rightarrow> address \<Rightarrow> address \<Rightarrow> ('k, 'w) pool_state \<Rightarrow>
     (keeper_reward_error, int \<times> ('k, 'w) pool_state) res" where
  "bump_persistent_with_reward e k tok keeper s =
     and_then (ok_or (ps_pool s) (Err InvalidReward)) (\<lambda>pool.
     if kr_reward_per_key pool \<le> 0 then Inl (Err InvalidReward) else
     if kr_balance pool < kr_reward_per_key pool then Inl (Err InsufficientPoolBalance) else
     and_then (bump_persistent (ps_present s) k (ps_ttl s)) (\<lambda>log.
     and_then (transfer_call e (ps_world s) tok (contract_address e) keeper (kr_reward_per_key pool)) (\<lambda>w.
     and_then (plain_i128 (kr_balance pool - kr_reward_per_key pool)) (\<lambda>b.
     Inr (kr_reward_per_key pool,
          s\<lparr>ps_ttl := log, ps_world := w, ps_pool := Some (pool\<lparr>kr_balance := b\<rparr>)\<rparr>)))))"

subsection \<open>The pool never pays more than it was funded\<close>

definition pool_ok :: "('k, 'w) pool_state \<Rightarrow> bool" where
  "pool_ok s \<longleftrightarrow> (case ps_pool s of None \<Rightarrow> True
     | Some p \<Rightarrow> 0 < kr_reward_per_key p \<and> 0 \<le> kr_balance p \<and> kr_balance p \<le> i128_max)"

lemma configure_pool_ok: "configure_keeper_reward_pool r s = Inr (p, s') \<Longrightarrow> pool_ok s'"
  by (auto simp: configure_keeper_reward_pool_def pool_ok_def Let_def int_bounds split: if_splits)

lemma fund_pool_ok:
  "fund_keeper_reward_pool e tok f amt s = Inr (p, s') \<Longrightarrow> pool_ok s \<Longrightarrow> pool_ok s'"
  by (auto simp: fund_keeper_reward_pool_def pool_ok_def Let_def res_simps range_simps)

lemma reward_pool_ok:
  "bump_persistent_with_reward e k tok kp s = Inr (r, s') \<Longrightarrow> pool_ok s \<Longrightarrow> pool_ok s'"
  by (auto simp: bump_persistent_with_reward_def pool_ok_def Let_def res_simps range_simps)

text \<open>A paid reward left the pool's book balance and the contract's account by the same amount.\<close>

lemma reward_paid:
  assumes "sep41 e" and "bump_persistent_with_reward e k tok kp s = Inr (r, s')"
    and "kp \<noteq> contract_address e"
  obtains p where "ps_pool s = Some p" and "r = kr_reward_per_key p"
    and "ps_pool s' = Some (p\<lparr>kr_balance := kr_balance p - r\<rparr>)"
    and "bal_of e (ps_world s') tok kp = bal_of e (ps_world s) tok kp + r"
    and "bal_of e (ps_world s') tok (contract_address e) =
         bal_of e (ps_world s) tok (contract_address e) - r"
    and "ps_present s k"
  using assms
  by (auto simp: bump_persistent_with_reward_def bump_persistent_def Let_def res_simps
      sep41_transfer(3) split: if_splits)

end
