(* ===== verification/Common_Pause.thy ===== *)
theory Common_Pause
  imports Prelude
begin

text \<open>
  \<^verbatim>\<open>contracts/common/src/pause.rs\<close>: the emergency-pause slot every contract of
  the protocol keeps in instance storage.

  A slot holds nothing, a legacy boolean, a \<^verbatim>\<open>PauseState\<close>, or (the last branch of
  \<^verbatim>\<open>is_paused\<close>) a value of some other type.  Reading the flag may write the slot:
  a legacy \<^verbatim>\<open>true\<close> is migrated and an expired pause is cleared.  A typed read of
  the slot (\<^verbatim>\<open>get::<K, PauseState>\<close>) is absent when the slot is empty and aborts the
  call when the slot holds a value that is not a \<^verbatim>\<open>PauseState\<close>.

  The locale \<open>pause_gate\<close> is the contract the other components rely on; it is
  interpreted here on the definitions of this file.
\<close>

definition DEFAULT_MAX_PAUSE_DURATION :: int where
  "DEFAULT_MAX_PAUSE_DURATION = 14 * 24 * 60 * 60"

datatype paused_error = ContractPaused

record pause_state =
  pst_paused :: bool
  pst_paused_at :: int
  pst_max_duration :: "int option"
  pst_unpaused_at :: "int option"
  pst_unpause_cooldown :: "int option"

datatype pause_val = PauseFlag bool | PauseRecord pause_state | PauseOther

type_synonym pause_slot = "pause_val option"

section \<open>Operations\<close>

definition is_paused :: "int \<Rightarrow> pause_slot \<Rightarrow> bool \<times> pause_slot" where
  "is_paused now slot = (case slot of
      None \<Rightarrow> (False, slot)
    | Some (PauseFlag b) \<Rightarrow>
        (if b then
           (b, Some (PauseRecord \<lparr>pst_paused = True, pst_paused_at = now,
                  pst_max_duration = Some DEFAULT_MAX_PAUSE_DURATION,
                  pst_unpaused_at = None, pst_unpause_cooldown = None\<rparr>))
         else (b, slot))
    | Some (PauseRecord st) \<Rightarrow>
        (if \<not> pst_paused st then (False, slot) else
         (case pst_max_duration st of
            Some max_dur \<Rightarrow>
              (if sat_u64 (pst_paused_at st + max_dur) \<le> now then
                 (False, Some (PauseRecord (st\<lparr>pst_paused := False, pst_paused_at := 0,
                     pst_max_duration := None, pst_unpaused_at := Some now\<rparr>)))
               else (True, slot))
          | None \<Rightarrow> (True, slot)))
    | Some PauseOther \<Rightarrow> (False, slot))"

definition typed_pause_state :: "pause_slot \<Rightarrow> ('e, pause_state option) res" where
  "typed_pause_state slot = (case slot of
      None \<Rightarrow> Inr None
    | Some (PauseRecord st) \<Rightarrow> Inr (Some st)
    | Some (PauseFlag b) \<Rightarrow> Inl CallTrap
    | Some PauseOther \<Rightarrow> Inl CallTrap)"

text \<open>The cooldown test: re-pausing is refused until the cooldown after the last unpause is over.\<close>

definition in_cooldown :: "int \<Rightarrow> pause_state option \<Rightarrow> int option \<Rightarrow> bool" where
  "in_cooldown now current cooldown = (case current of
      None \<Rightarrow> False
    | Some cur \<Rightarrow>
        \<not> pst_paused cur \<and>
        (case pst_unpaused_at cur of
           None \<Rightarrow> False
         | Some last_unpaused \<Rightarrow>
             (case cooldown of
                None \<Rightarrow> False
              | Some cd \<Rightarrow> now \<le> sat_u64 (last_unpaused + cd))))"

definition set_paused_with_cooldown ::
  "int \<Rightarrow> bool \<Rightarrow> int option \<Rightarrow> int option \<Rightarrow> pause_slot \<Rightarrow> (paused_error, pause_slot) res" where
  "set_paused_with_cooldown now p max_dur cooldown slot =
     and_then (typed_pause_state slot) (\<lambda>current.
      if p \<and> in_cooldown now current cooldown then Inl (Err ContractPaused) else
      Inr (Some (PauseRecord \<lparr>pst_paused = p, pst_paused_at = (if p then now else 0),
        pst_max_duration =
          (if p then Some (min (case max_dur of Some d \<Rightarrow> d | None \<Rightarrow> DEFAULT_MAX_PAUSE_DURATION)
                               DEFAULT_MAX_PAUSE_DURATION)
           else None),
        pst_unpaused_at = (if \<not> p \<and> current \<noteq> None then Some now else None),
        pst_unpause_cooldown = cooldown\<rparr>)))"

definition set_paused_with_duration ::
  "int \<Rightarrow> bool \<Rightarrow> int option \<Rightarrow> pause_slot \<Rightarrow> (paused_error, pause_slot) res" where
  "set_paused_with_duration now p max_dur slot = set_paused_with_cooldown now p max_dur None slot"

definition set_paused :: "int \<Rightarrow> bool \<Rightarrow> pause_slot \<Rightarrow> (paused_error, pause_slot) res" where
  "set_paused now p slot = set_paused_with_duration now p None slot"

definition get_pause_state :: "int \<Rightarrow> pause_slot \<Rightarrow> ('e, pause_state option \<times> pause_slot) res" where
  "get_pause_state now slot = (case slot of
      None \<Rightarrow> Inr (None, slot)
    | Some (PauseRecord st) \<Rightarrow>
        (let slot' = snd (is_paused now slot) in and_then (typed_pause_state slot') (\<lambda>st. Inr (st, slot')))
    | Some (PauseFlag b) \<Rightarrow>
        (if b then (let slot' = snd (is_paused now slot) in and_then (typed_pause_state slot') (\<lambda>st. Inr (st, slot')))
         else Inr (Some \<lparr>pst_paused = False, pst_paused_at = 0, pst_max_duration = None,
                 pst_unpaused_at = None, pst_unpause_cooldown = None\<rparr>, slot))
    | Some PauseOther \<Rightarrow> Inr (None, slot))"

definition require_not_paused_flag :: "bool \<Rightarrow> (paused_error, unit) res" where
  "require_not_paused_flag p = (if p then Inl (Err ContractPaused) else Inr ())"

definition require_not_paused :: "int \<Rightarrow> pause_slot \<Rightarrow> (paused_error, pause_slot) res" where
  "require_not_paused now slot =
     (let (p, slot') = is_paused now slot in
      and_then (require_not_paused_flag p) (\<lambda>_. Inr slot'))"

section \<open>The interface\<close>

text \<open>
  What a contract relies on: writing a slot that holds nothing or a state of the
  current format succeeds (no cooldown is configured) and leaves such a slot, as
  every read does; an unpaused slot stays open, and a pause holds for exactly
  \<open>limit\<close> seconds and is over from then on, whoever reads the slot meanwhile.
\<close>

locale pause_gate =
  fixes rd :: "int \<Rightarrow> 's \<Rightarrow> bool \<times> 's"
    and wr :: "int \<Rightarrow> bool \<Rightarrow> 's \<Rightarrow> ('e, 's) res"
    and current :: "'s \<Rightarrow> bool"
    and limit :: int
  assumes write_total: "is_ok (wr now p s) \<longleftrightarrow> current s"
    and write_current: "wr now p s = Inr s' \<Longrightarrow> current s'"
    and read_current: "current s \<Longrightarrow> current (snd (rd t s))"
    and open_stays_open: "rd t s = (False, s') \<Longrightarrow> fst (rd u s') = False"
    and write_opens: "wr now False s = Inr s' \<Longrightarrow> rd t s' = (False, s')"
    and write_closes: "wr now True s = Inr s' \<Longrightarrow> 0 \<le> now \<Longrightarrow> now + limit \<le> u64_max \<Longrightarrow>
      t < now + limit \<Longrightarrow> rd t s' = (True, s')"
    and write_expires: "wr now True s = Inr s' \<Longrightarrow> 0 \<le> now \<Longrightarrow> now + limit \<le> u64_max \<Longrightarrow>
      now + limit \<le> t \<Longrightarrow> fst (rd t s') = False"
begin

text \<open>The slot after the gate has been consulted at the times \<open>ts\<close>.\<close>

definition reads :: "int list \<Rightarrow> 's \<Rightarrow> 's" where
  "reads ts s = fold (\<lambda>t s. snd (rd t s)) ts s"

lemma reads_simps [simp]: "reads [] s = s" "reads (t # ts) s = reads ts (snd (rd t s))"
  by (simp_all add: reads_def)

text \<open>Once written, a slot can be written again after any reads.\<close>

lemma rewritable: "wr now p s = Inr s' \<Longrightarrow> is_ok (wr now' p' (reads ts s'))"
proof -
  have "current s \<Longrightarrow> current (reads ts s)" for s
    by (induction ts arbitrary: s) (simp_all add: read_current)
  then show "wr now p s = Inr s' \<Longrightarrow> ?thesis" using write_total write_current by blast
qed

lemma open_forever: "fst (rd t s) = False \<Longrightarrow> fst (rd u (reads ts (snd (rd t s)))) = False"
proof (induction ts arbitrary: s t)
  case Nil
  then show ?case using open_stays_open by (cases "rd t s") auto
next
  case (Cons v ts)
  then have "fst (rd v (snd (rd t s))) = False"
    using open_stays_open by (cases "rd t s") auto
  from Cons.IH [OF this] show ?case by simp
qed

text \<open>A pause is over \<open>limit\<close> seconds after it was set, whatever reads came between.\<close>

lemma pause_bounded:
  assumes "wr now True s = Inr s'" and "0 \<le> now" and "now + limit \<le> u64_max"
    and "now + limit \<le> t"
  shows "fst (rd t (reads ts s')) = False"
proof (induction ts)
  case Nil
  then show ?case using assms write_expires by simp
next
  case (Cons v ts)
  show ?case
  proof (cases "v < now + limit")
    case True
    then have "rd v s' = (True, s')" using assms write_closes by blast
    then show ?thesis using Cons by simp
  next
    case False
    then have "fst (rd v s') = False" using assms write_expires by simp
    then show ?thesis using open_forever by simp
  qed
qed

text \<open>Until then every read finds the gate closed.\<close>

lemma pause_holds:
  assumes "wr now True s = Inr s'" and "0 \<le> now" and "now + limit \<le> u64_max"
    and "\<And>v. v \<in> set ts \<Longrightarrow> v < now + limit" and "t < now + limit"
  shows "rd t (reads ts s') = (True, s')"
  using assms(4)
proof (induction ts)
  case Nil
  then show ?case using assms write_closes by simp
next
  case (Cons v ts)
  then have "rd v s' = (True, s')" using assms write_closes by simp
  then show ?case using Cons by simp
qed

end

section \<open>The slot implements the interface\<close>

definition pause_current :: "pause_slot \<Rightarrow> bool" where
  "pause_current slot = (case slot of None \<Rightarrow> True | Some (PauseRecord _) \<Rightarrow> True | _ \<Rightarrow> False)"

lemma pause_current_simps [simp]:
  "pause_current None" "pause_current (Some (PauseRecord st))" "\<not> pause_current (Some (PauseFlag b))"
  "\<not> pause_current (Some PauseOther)"
  by (simp_all add: pause_current_def)

lemma set_paused_eq:
  "set_paused now p slot =
     (if pause_current slot then
        Inr (Some (PauseRecord \<lparr>pst_paused = p, pst_paused_at = (if p then now else 0),
          pst_max_duration = (if p then Some DEFAULT_MAX_PAUSE_DURATION else None),
          pst_unpaused_at = (if \<not> p \<and> slot \<noteq> None then Some now else None),
          pst_unpause_cooldown = None\<rparr>))
      else Inl CallTrap)"
  by (auto simp: set_paused_def set_paused_with_duration_def set_paused_with_cooldown_def
      in_cooldown_def typed_pause_state_def pause_current_def split: option.split pause_val.split)

text \<open>A client that drops the result of the write either aborts or has written.\<close>

lemma set_paused_dropped [res_simps]:
  "ignore_err slot (set_paused now p slot) = Inr slot' \<longleftrightarrow> set_paused now p slot = Inr slot'"
  by (auto simp: ignore_err_eq_Inr set_paused_eq split: if_splits)

lemma is_paused_open_iff:
  "is_paused t s = (False, s') \<Longrightarrow> fst (is_paused u s') = False"
  by (auto simp: is_paused_def split: option.splits pause_val.splits if_splits)

interpretation slot: pause_gate is_paused set_paused pause_current DEFAULT_MAX_PAUSE_DURATION
proof (unfold_locales, goal_cases)
  case (1 now p s)
  show ?case by (simp add: set_paused_eq)
next
  case (2 now p s s')
  then show ?case by (auto simp: set_paused_eq split: if_splits)
next
  case (3 s t)
  then show ?case by (auto simp: is_paused_def split: option.splits pause_val.splits)
next
  case (4 t s s' u)
  then show ?case by (rule is_paused_open_iff)
next
  case (5 now s s' t)
  then show ?case by (auto simp: set_paused_eq is_paused_def split: if_splits)
next
  case (6 now s s' t)
  then show ?case
    by (auto simp: set_paused_eq is_paused_def sat_u64_def DEFAULT_MAX_PAUSE_DURATION_def split: if_splits)
next
  case (7 now s s' t)
  then show ?case
    by (auto simp: set_paused_eq is_paused_def sat_u64_def DEFAULT_MAX_PAUSE_DURATION_def split: if_splits)
qed

section \<open>Duration limits, cooldown and migration\<close>

text \<open>Whatever duration is asked for, a pause never outlives the protocol maximum.\<close>

lemma set_paused_with_cooldown_bounded:
  assumes "set_paused_with_cooldown now True d cd slot = Inr slot'"
    and "0 \<le> now" and "now + DEFAULT_MAX_PAUSE_DURATION \<le> t" and "t \<le> u64_max"
  shows "fst (is_paused t slot') = False"
proof -
  define m where "m = min (case d of Some x \<Rightarrow> x | None \<Rightarrow> DEFAULT_MAX_PAUSE_DURATION)
                        DEFAULT_MAX_PAUSE_DURATION"
  have "m \<le> DEFAULT_MAX_PAUSE_DURATION" by (simp add: m_def)
  then have "sat_u64 (now + m) \<le> t"
    using assms(2-4) by (simp add: sat_u64_def DEFAULT_MAX_PAUSE_DURATION_def)
  moreover have "slot' = Some (PauseRecord \<lparr>pst_paused = True, pst_paused_at = now,
      pst_max_duration = Some m, pst_unpaused_at = None, pst_unpause_cooldown = cd\<rparr>)"
    using assms(1) by (auto simp: set_paused_with_cooldown_def m_def and_then_eq_Inr split: if_splits)
  ultimately show ?thesis by (simp add: is_paused_def)
qed

text \<open>Re-pausing within the cooldown is refused; afterwards it is not.\<close>

lemma cooldown_refuses:
  assumes "set_paused_with_cooldown now False d cd slot = Inr slot1"
    and "slot \<noteq> None"
  shows "set_paused_with_cooldown t True d' (Some c) slot1 =
     (if t \<le> sat_u64 (now + c) then Inl (Err ContractPaused)
      else Inr (Some (PauseRecord \<lparr>pst_paused = True, pst_paused_at = t,
        pst_max_duration = Some (min (case d' of Some x \<Rightarrow> x | None \<Rightarrow> DEFAULT_MAX_PAUSE_DURATION)
                                 DEFAULT_MAX_PAUSE_DURATION),
        pst_unpaused_at = None, pst_unpause_cooldown = Some c\<rparr>)))"
proof -
  have "slot1 = Some (PauseRecord \<lparr>pst_paused = False, pst_paused_at = 0, pst_max_duration = None,
      pst_unpaused_at = Some now, pst_unpause_cooldown = cd\<rparr>)"
    using assms
    by (simp add: set_paused_with_cooldown_def typed_pause_state_def split: option.splits pause_val.splits)
  then show ?thesis
    by (simp add: set_paused_with_cooldown_def in_cooldown_def typed_pause_state_def)
qed

text \<open>A legacy \<^verbatim>\<open>true\<close> flag reads as paused and becomes a pause that started at that read.\<close>

lemma legacy_flag_migrates:
  "is_paused now (Some (PauseFlag True)) =
     (True, snd (is_paused now (Some (PauseFlag True))))"
  "Inr (snd (is_paused now (Some (PauseFlag True)))) = set_paused now True None"
  by (simp_all add: is_paused_def set_paused_eq)

text \<open>
  A legacy \<^verbatim>\<open>false\<close> flag reads as running and is never migrated by a read, so every
  write of the slot aborts: such a contract cannot be paused.
\<close>

lemma legacy_false_never_pausable:
  "set_paused now p (slot.reads ts (Some (PauseFlag False))) = Inl CallTrap"
proof -
  have "slot.reads ts (Some (PauseFlag False)) = Some (PauseFlag False)"
  proof (induction ts)
    case (Cons t ts)
    have "is_paused t (Some (PauseFlag False)) = (False, Some (PauseFlag False))" by (simp add: is_paused_def)
    with Cons show ?case by simp
  qed simp
  then show ?thesis by (simp add: set_paused_eq)
qed

text \<open>Reading the state for display never aborts, whatever the slot holds.\<close>

lemma get_pause_state_total: "is_ok (get_pause_state now slot)"
  by (auto simp: get_pause_state_def is_paused_def typed_pause_state_def Let_def
      split: option.split pause_val.split)

lemma require_not_paused_iff:
  "is_ok (require_not_paused now slot) \<longleftrightarrow> \<not> fst (is_paused now slot)"
  by (simp add: require_not_paused_def require_not_paused_flag_def split: prod.split)

text \<open>
  An emergency pause blocks the gate for exactly fourteen days, whatever
  other calls read the flag meanwhile: before \<open>now + 14 days\<close> every call is refused,
  from then on every call passes.
\<close>

theorem emergency_pause_window:
  assumes "set_paused now True slot = Inr slot'" and "0 \<le> now"
    and "now + DEFAULT_MAX_PAUSE_DURATION \<le> u64_max"
    and "\<forall>v \<in> set ts. v \<le> t"
  shows "is_ok (require_not_paused t (fold (\<lambda>v sl. snd (is_paused v sl)) ts slot')) \<longleftrightarrow>
     now + DEFAULT_MAX_PAUSE_DURATION \<le> t"
  unfolding slot.reads_def [symmetric]
proof (cases "now + DEFAULT_MAX_PAUSE_DURATION \<le> t")
  case True
  then show "is_ok (require_not_paused t (slot.reads ts slot')) \<longleftrightarrow> now + DEFAULT_MAX_PAUSE_DURATION \<le> t"
    using slot.pause_bounded [OF assms(1-3) True] by (simp add: require_not_paused_iff)
next
  case False
  then have "is_paused t (slot.reads ts slot') = (True, slot')"
    using assms by (intro slot.pause_holds [OF assms(1-3)]) fastforce+
  then show "is_ok (require_not_paused t (slot.reads ts slot')) \<longleftrightarrow> now + DEFAULT_MAX_PAUSE_DURATION \<le> t"
    using False by (simp add: require_not_paused_iff)
qed

theorem emergency_pause_window_witness:
  "\<not> is_ok (require_not_paused 1209699 (fold (\<lambda>v sl. snd (is_paused v sl)) [200, 1209698]
      (Some (PauseRecord \<lparr>pst_paused = True, pst_paused_at = 100, pst_max_duration = Some 1209600,
         pst_unpaused_at = None, pst_unpause_cooldown = None\<rparr>))))"
  using emergency_pause_window [of 100 None "Some (PauseRecord \<lparr>pst_paused = True,
      pst_paused_at = 100, pst_max_duration = Some 1209600, pst_unpaused_at = None, pst_unpause_cooldown = None\<rparr>)"
      "[200, 1209698]" 1209699]
  by (simp add: set_paused_eq DEFAULT_MAX_PAUSE_DURATION_def int_bounds)

end
