(* ===== verification/Stream_State.thy ===== *)
theory Stream_State
  imports Common_Ttl Common_Pause
begin

unbundle bit_operations_syntax

text \<open>
  The data of \<^verbatim>\<open>DripStream\<close>: \<^verbatim>\<open>contracts/stream/src/storage.rs\<close> (stored types and
  keys), \<^verbatim>\<open>errors.rs\<close>, \<^verbatim>\<open>state.rs\<close> (load, save, the re-entrancy guard),
  \<^verbatim>\<open>events.rs\<close> (the sequenced event log) and \<^verbatim>\<open>ttl.rs\<close>.

  The state of a stream contract is the record \<open>stream\<close>: one optional field per
  \<^verbatim>\<open>DataKey\<close>, the token ledgers it can reach, the events it published and the
  \<^verbatim>\<open>extend_ttl\<close> calls it made.  The locale \<open>reentrancy_guard\<close> states what the
  operations rely on from \<^verbatim>\<open>with_guard\<close>.
\<close>

section \<open>Errors and stored types\<close>

datatype stream_error =
    NotAuthorized | StreamNotFound | StreamCancelled | StreamNotStarted | StreamEnded
  | NothingToWithdraw | InsufficientDeposit | InvalidTimeRange | AlreadyPaused | NotPaused
  | ClawbackDisabled | ArithmeticOverflow | PauseThresholdNotMet | AlreadyInitialized
  | InvalidAmount | ReentrancyForbidden | OperatorAlreadySet | NotInitialized
  | InvalidRecipient | BackdatedStream | StreamUnderfunded | WithdrawalTooFrequent
  | ContractPaused | StreamNotCancelable | ZeroRateStreamNotAllowed | StreamDurationTooShort
  | DescriptionTooLong | InvalidKeeperRewardToken | KeeperRewardPoolNotConfigured
  | InsufficientKeeperRewardPool | KeeperPingTooFrequent | KeeperRewardTransferFailed

definition FLAG_PAUSED :: "32 word" where "FLAG_PAUSED = 1"
definition FLAG_CLAWBACK_ENABLED :: "32 word" where "FLAG_CLAWBACK_ENABLED = push_bit 1 1"
definition FLAG_CANCELLED :: "32 word" where "FLAG_CANCELLED = push_bit 2 1"
definition FLAG_REGULATED_ASSET :: "32 word" where "FLAG_REGULATED_ASSET = push_bit 3 1"

lemmas flag_defs =
  FLAG_PAUSED_def FLAG_CLAWBACK_ENABLED_def FLAG_CANCELLED_def FLAG_REGULATED_ASSET_def

definition CURRENT_STORAGE_VERSION :: int where "CURRENT_STORAGE_VERSION = 1"

record immutable_config =
  ic_start_time :: int
  ic_stop_time :: int
  ic_token :: address
  ic_rate_per_second :: int
  ic_sender :: address
  ic_recipient :: address

record stream_keeper_reward_pool =
  kp_token :: address
  kp_reward_per_ping :: int
  kp_balance :: int

record split_config =
  sp_secondary_recipient :: address
  sp_split_bps :: int

record cliff_config =
  cc_cliff_time :: int
  cc_cliff_unlock_amount :: int

record rate_checkpoint =
  cp_accrued :: int
  cp_at :: int

record stream_config =
  sc_is_cancelable :: bool

datatype stream_status = Pending | Active | Paused | Cancelled | Completed

record stream_info =
  si_sender :: address
  si_recipient :: address
  si_token :: address
  si_rate_per_second :: int
  si_start_time :: int
  si_end_time :: int
  si_withdrawn :: int
  si_paused_at :: int
  si_flags :: "32 word"
  si_event_sequence :: int
  si_cumulative_fees :: int

record stream_summary =
  sm_sender :: address
  sm_recipient :: address
  sm_token :: address
  sm_total_amount :: int
  sm_streamed_amount :: int
  sm_status :: stream_status
  sm_start_time :: int
  sm_stop_time :: int

definition info_is_paused :: "stream_info \<Rightarrow> bool" where
  "info_is_paused info \<longleftrightarrow> si_flags info AND FLAG_PAUSED \<noteq> 0"

definition info_is_cancelled :: "stream_info \<Rightarrow> bool" where
  "info_is_cancelled info \<longleftrightarrow> si_flags info AND FLAG_CANCELLED \<noteq> 0"

definition info_is_clawback_enabled :: "stream_info \<Rightarrow> bool" where
  "info_is_clawback_enabled info \<longleftrightarrow> si_flags info AND FLAG_CLAWBACK_ENABLED \<noteq> 0"

definition info_is_regulated_asset :: "stream_info \<Rightarrow> bool" where
  "info_is_regulated_asset info \<longleftrightarrow> si_flags info AND FLAG_REGULATED_ASSET \<noteq> 0"

definition mark_cancelled :: "stream_info \<Rightarrow> stream_info" where
  "mark_cancelled info = info\<lparr>si_flags := si_flags info OR FLAG_CANCELLED\<rparr>"

definition mark_regulated_asset :: "stream_info \<Rightarrow> stream_info" where
  "mark_regulated_asset info = info\<lparr>si_flags := si_flags info OR FLAG_REGULATED_ASSET\<rparr>"

section \<open>Events\<close>

text \<open>One constructor per event function; \<open>ev_seq\<close> is the sequence number in the topics.\<close>

datatype stream_event =
    EvCreated (ev_seq: int) address address address int int int int
  | EvWithdrawn (ev_seq: int) address int int int
  | EvCancelled (ev_seq: int) address int int int
  | EvForceCancelled (ev_seq: int) address int int int
  | EvPaused (ev_seq: int) address int int
  | EvResumed (ev_seq: int) address int
  | EvToppedUp (ev_seq: int) address int int
  | EvToppedUpAndExtended (ev_seq: int) address int int int int
  | EvRateChanged (ev_seq: int) address int int
  | EvClawback (ev_seq: int) address int
  | EvRecipientTransferred (ev_seq: int) address address
  | EvOperatorSet (ev_seq: int) address address
  | EvOperatorRevoked (ev_seq: int) address
  | EvSplitSet (ev_seq: int) address address int
  | EvSplitRemoved (ev_seq: int) address
  | EvCliffConfigured (ev_seq: int) address int int
  | EvMinWithdrawalInterval (ev_seq: int) address int
  | EvKeeperPing (ev_seq: int) address int
  | EvKeeperConfigured (ev_seq: int) address address int
  | EvKeeperFunded (ev_seq: int) address address int
  | EvKeeperWithdrawn (ev_seq: int) address address int
  | EvEmergencyPaused (ev_seq: int) address int
  | EvEmergencyUnpaused (ev_seq: int) address int
  | EvCliffReached (ev_seq: int) address int int
  | EvStreamCompleted (ev_seq: int) address int

section \<open>The contract state\<close>

record 'w stream =
  k_Config :: "stream_info option"
  k_Guard :: "int option"
  k_StorageVersion :: "int option"
  k_Operator :: "address option"
  k_ForceCancelPauseThresholdSecs :: "int option"
  k_SplitConfig :: "split_config option"
  k_CliffConfig :: "cliff_config option"
  k_MinWithdrawalInterval :: "int option"
  k_LastWithdrawalTime :: "int option"
  k_RateCheckpoint :: "rate_checkpoint option"
  k_EmergencyPaused :: pause_slot
  k_ImmutableConfig :: "immutable_config option"
  k_CliffReached :: "bool option"
  k_StreamCompleted :: "bool option"
  k_StreamConfig :: "stream_config option"
  k_StreamTitle :: "string option"
  k_ReferenceTag :: "string option"
  k_StreamDescription :: "string option"
  k_KeeperRewardPool :: "stream_keeper_reward_pool option"
  k_LastKeeperPingLedger :: "int option"
  k_AutoForwardAddress :: "address option"
  k_CumulativeDeposited :: "int option"
  k_InvoiceMetadataUri :: "string option"
  k_MilestoneMetadataUri :: "string option"
  st_world :: 'w
  st_events :: "stream_event list"
  st_ttl :: "unit ttl_call list"

definition fresh_stream :: "'w \<Rightarrow> 'w stream" where
  "fresh_stream w = \<lparr>
     k_Config = None, k_Guard = None, k_StorageVersion = None, k_Operator = None,
     k_ForceCancelPauseThresholdSecs = None, k_SplitConfig = None, k_CliffConfig = None,
     k_MinWithdrawalInterval = None, k_LastWithdrawalTime = None, k_RateCheckpoint = None,
     k_EmergencyPaused = None, k_ImmutableConfig = None, k_CliffReached = None,
     k_StreamCompleted = None, k_StreamConfig = None, k_StreamTitle = None,
     k_ReferenceTag = None, k_StreamDescription = None, k_KeeperRewardPool = None,
     k_LastKeeperPingLedger = None, k_AutoForwardAddress = None, k_CumulativeDeposited = None,
     k_InvoiceMetadataUri = None, k_MilestoneMetadataUri = None,
     st_world = w, st_events = [], st_ttl = []\<rparr>"

definition try_load :: "'w stream \<Rightarrow> (stream_error, stream_info) res" where
  "try_load s = ok_or (k_Config s) (Err NotInitialized)"

definition load :: "'w stream \<Rightarrow> (stream_error, stream_info) res" where
  "load s = (case try_load s of Inr info \<Rightarrow> Inr info | Inl err \<Rightarrow> Inl err)"

definition save :: "stream_info \<Rightarrow> 'w stream \<Rightarrow> 'w stream" where
  "save info s = s\<lparr>k_Config := Some info\<rparr>"

definition assert_not_cancelled :: "stream_info \<Rightarrow> (stream_error, unit) res" where
  "assert_not_cancelled info = (if info_is_cancelled info then Inl (Err StreamCancelled) else Inr ())"

section \<open>Re-entrancy guard\<close>

definition MAX_REENTRANCY_DEPTH :: int where "MAX_REENTRANCY_DEPTH = 1"

definition guard_depth :: "'w stream \<Rightarrow> int" where
  "guard_depth s = (case k_Guard s of Some d \<Rightarrow> d | None \<Rightarrow> 0)"

definition lock :: "'w stream \<Rightarrow> (stream_error, 'w stream) res" where
  "lock s = (let depth = guard_depth s in
     if MAX_REENTRANCY_DEPTH \<le> depth then Inl (Err ReentrancyForbidden) else
     and_then (plain_u32 (depth + 1)) (\<lambda>d. Inr (s\<lparr>k_Guard := Some d\<rparr>)))"

definition unlock :: "'w stream \<Rightarrow> 'w stream" where
  "unlock s = (let depth = guard_depth s in
     if 0 < depth then s\<lparr>k_Guard := Some (depth - 1)\<rparr> else s)"

text \<open>
  A failing body rolls the whole call back, so only the successful exit has a
  state on which \<^verbatim>\<open>unlock\<close> runs.
\<close>

definition with_guard ::
  "('w stream \<Rightarrow> (stream_error, 'a \<times> 'w stream) res) \<Rightarrow> 'w stream \<Rightarrow> (stream_error, 'a \<times> 'w stream) res" where
  "with_guard f s = and_then (lock s) (\<lambda>s1. and_then (f s1) (\<lambda>(r, s2). Inr (r, unlock s2)))"

section \<open>TTL\<close>

definition MAX_PAUSE_SECS :: int where "MAX_PAUSE_SECS = 2592000"
definition SECONDS_PER_LEDGER :: int where "SECONDS_PER_LEDGER = 5"
definition MAX_TTL_LEDGERS :: int where "MAX_TTL_LEDGERS = 6312000"

definition div_ceil :: "int \<Rightarrow> int \<Rightarrow> int" where
  "div_ceil a b = a div b + (if a mod b > 0 then 1 else 0)"

definition extend_to_for_remaining :: "int \<Rightarrow> int" where
  "extend_to_for_remaining remaining_secs =
     (let remaining_ledgers = min (div_ceil remaining_secs SECONDS_PER_LEDGER) u32_max
      in min MAX_TTL_LEDGERS (max EXTEND_TTL_LEDGERS (sat_u32 (remaining_ledgers + MIN_TTL_LEDGERS))))"

definition bump :: "'w stream \<Rightarrow> 'w stream" where
  "bump s = s\<lparr>st_ttl := bump_instance (st_ttl s)\<rparr>"

definition bump_for_remaining :: "int \<Rightarrow> 'w stream \<Rightarrow> 'w stream" where
  "bump_for_remaining remaining_secs s =
     s\<lparr>st_ttl := st_ttl s @ [ExtendInstance MIN_TTL_LEDGERS (extend_to_for_remaining remaining_secs)]\<rparr>"

definition bump_stream_instance :: "'w env \<Rightarrow> 'w stream \<Rightarrow> (stream_error, 'w stream) res" where
  "bump_stream_instance e s =
     (if k_Config s = None then Inl (Err StreamNotFound) else
      and_then (load s) (\<lambda>info.
      let remaining = (if 0 < si_end_time info then sat_u64 (si_end_time info - timestamp e) else 0)
      in Inr (bump_for_remaining remaining s)))"

end
