(* ===== verification/Stream_Events.thy ===== *)
theory Stream_Events
  imports Stream_State
begin

text \<open>
  \<^verbatim>\<open>contracts/stream/src/events.rs\<close>: every event carries the next value of the
  stream's event counter, which is stored in the \<^verbatim>\<open>Config\<close> record, and event
  functions refuse negative amounts.  Also the lemmas on \<^verbatim>\<open>state.rs\<close>: what
  loading, saving, locking and publishing keep of the state.
\<close>

section \<open>Publishing\<close>

definition next_sequence :: "'w stream \<Rightarrow> (stream_error, int \<times> 'w stream) res" where
  "next_sequence s =
     and_then (load s) (\<lambda>info0.
     and_then (ok_or (checked_u64 (si_event_sequence info0 + 1)) (Err ArithmeticOverflow)) (\<lambda>n.
     and_then (load s) (\<lambda>info.
     Inr (n, save (info\<lparr>si_event_sequence := n\<rparr>) s))))"

definition assert_non_negative_amount :: "int \<Rightarrow> (stream_error, unit) res" where
  "assert_non_negative_amount v = (if v < 0 then Inl (Err InvalidAmount) else Inr ())"

text \<open>Allocate a sequence number and publish the event built from it.\<close>

definition publish :: "(int \<Rightarrow> stream_event) \<Rightarrow> 'w stream \<Rightarrow> (stream_error, 'w stream) res" where
  "publish mk s = and_then (next_sequence s) (\<lambda>(n, s').
     Inr (s'\<lparr>st_events := st_events s' @ [mk n]\<rparr>))"

definition events_created ::
  "address \<Rightarrow> address \<Rightarrow> address \<Rightarrow> int \<Rightarrow> int \<Rightarrow> int \<Rightarrow> int \<Rightarrow> 'w stream \<Rightarrow> (stream_error, 'w stream) res" where
  "events_created sender recipient tok rate_per_second start_time end_time storage_version s =
     and_then (assert_non_negative_amount rate_per_second) (\<lambda>_.
     publish (\<lambda>n. EvCreated n sender recipient tok rate_per_second start_time end_time storage_version) s)"

definition events_withdrawn ::
  "address \<Rightarrow> int \<Rightarrow> int \<Rightarrow> int \<Rightarrow> 'w stream \<Rightarrow> (stream_error, 'w stream) res" where
  "events_withdrawn recipient amount total_withdrawn remaining s =
     and_then (assert_non_negative_amount amount) (\<lambda>_.
     and_then (assert_non_negative_amount total_withdrawn) (\<lambda>_.
     and_then (assert_non_negative_amount remaining) (\<lambda>_.
     publish (\<lambda>n. EvWithdrawn n recipient amount total_withdrawn remaining) s)))"

definition events_cancelled ::
  "address \<Rightarrow> int \<Rightarrow> int \<Rightarrow> int \<Rightarrow> 'w stream \<Rightarrow> (stream_error, 'w stream) res" where
  "events_cancelled sender refund_amount withdrawn_so_far remaining_deposit s =
     and_then (assert_non_negative_amount refund_amount) (\<lambda>_.
     and_then (assert_non_negative_amount withdrawn_so_far) (\<lambda>_.
     and_then (assert_non_negative_amount remaining_deposit) (\<lambda>_.
     publish (\<lambda>n. EvCancelled n sender refund_amount withdrawn_so_far remaining_deposit) s)))"

definition events_force_cancelled ::
  "address \<Rightarrow> int \<Rightarrow> int \<Rightarrow> int \<Rightarrow> 'w stream \<Rightarrow> (stream_error, 'w stream) res" where
  "events_force_cancelled sender refund_amount withdrawn_so_far remaining_deposit s =
     and_then (assert_non_negative_amount refund_amount) (\<lambda>_.
     and_then (assert_non_negative_amount withdrawn_so_far) (\<lambda>_.
     and_then (assert_non_negative_amount remaining_deposit) (\<lambda>_.
     publish (\<lambda>n. EvForceCancelled n sender refund_amount withdrawn_so_far remaining_deposit) s)))"

definition events_paused ::
  "address \<Rightarrow> int \<Rightarrow> int \<Rightarrow> 'w stream \<Rightarrow> (stream_error, 'w stream) res" where
  "events_paused initiator paused_at w s =
     and_then (assert_non_negative_amount w) (\<lambda>_.
     publish (\<lambda>n. EvPaused n initiator paused_at w) s)"

definition events_resumed :: "address \<Rightarrow> int \<Rightarrow> 'w stream \<Rightarrow> (stream_error, 'w stream) res" where
  "events_resumed initiator resumed_at s = publish (\<lambda>n. EvResumed n initiator resumed_at) s"

definition events_topped_up ::
  "address \<Rightarrow> int \<Rightarrow> int \<Rightarrow> 'w stream \<Rightarrow> (stream_error, 'w stream) res" where
  "events_topped_up sender amount new_balance s =
     and_then (assert_non_negative_amount amount) (\<lambda>_.
     and_then (assert_non_negative_amount new_balance) (\<lambda>_.
     publish (\<lambda>n. EvToppedUp n sender amount new_balance) s))"

definition events_topped_up_and_extended ::
  "address \<Rightarrow> int \<Rightarrow> int \<Rightarrow> int \<Rightarrow> int \<Rightarrow> 'w stream \<Rightarrow> (stream_error, 'w stream) res" where
  "events_topped_up_and_extended caller old_balance new_balance old_end_time new_end_time s =
     and_then (assert_non_negative_amount old_balance) (\<lambda>_.
     and_then (assert_non_negative_amount new_balance) (\<lambda>_.
     publish (\<lambda>n. EvToppedUpAndExtended n caller old_balance new_balance old_end_time new_end_time) s))"

definition events_rate_changed ::
  "address \<Rightarrow> int \<Rightarrow> int \<Rightarrow> 'w stream \<Rightarrow> (stream_error, 'w stream) res" where
  "events_rate_changed caller old_rate new_rate s =
     and_then (assert_non_negative_amount old_rate) (\<lambda>_.
     and_then (assert_non_negative_amount new_rate) (\<lambda>_.
     publish (\<lambda>n. EvRateChanged n caller old_rate new_rate) s))"

definition events_clawback :: "address \<Rightarrow> int \<Rightarrow> 'w stream \<Rightarrow> (stream_error, 'w stream) res" where
  "events_clawback sender amount s =
     and_then (assert_non_negative_amount amount) (\<lambda>_. publish (\<lambda>n. EvClawback n sender amount) s)"

definition events_recipient_transferred ::
  "address \<Rightarrow> address \<Rightarrow> 'w stream \<Rightarrow> (stream_error, 'w stream) res" where
  "events_recipient_transferred old_recipient new_recipient s =
     publish (\<lambda>n. EvRecipientTransferred n old_recipient new_recipient) s"

definition events_operator_set ::
  "address \<Rightarrow> address \<Rightarrow> 'w stream \<Rightarrow> (stream_error, 'w stream) res" where
  "events_operator_set sender op s = publish (\<lambda>n. EvOperatorSet n sender op) s"

definition events_operator_revoked :: "address \<Rightarrow> 'w stream \<Rightarrow> (stream_error, 'w stream) res" where
  "events_operator_revoked sender s = publish (\<lambda>n. EvOperatorRevoked n sender) s"

definition events_split_recipient_set ::
  "address \<Rightarrow> address \<Rightarrow> int \<Rightarrow> 'w stream \<Rightarrow> (stream_error, 'w stream) res" where
  "events_split_recipient_set caller secondary_recipient split_bps s =
     publish (\<lambda>n. EvSplitSet n caller secondary_recipient split_bps) s"

definition events_split_recipient_removed :: "address \<Rightarrow> 'w stream \<Rightarrow> (stream_error, 'w stream) res" where
  "events_split_recipient_removed caller s = publish (\<lambda>n. EvSplitRemoved n caller) s"

definition events_cliff_configured ::
  "address \<Rightarrow> int \<Rightarrow> int \<Rightarrow> 'w stream \<Rightarrow> (stream_error, 'w stream) res" where
  "events_cliff_configured sender cliff_time cliff_unlock_amount s =
     and_then (assert_non_negative_amount cliff_unlock_amount) (\<lambda>_.
     publish (\<lambda>n. EvCliffConfigured n sender cliff_time cliff_unlock_amount) s)"

definition events_min_withdrawal_interval_set ::
  "address \<Rightarrow> int \<Rightarrow> 'w stream \<Rightarrow> (stream_error, 'w stream) res" where
  "events_min_withdrawal_interval_set sender interval_seconds s =
     publish (\<lambda>n. EvMinWithdrawalInterval n sender interval_seconds) s"

definition events_keeper_ping :: "address \<Rightarrow> int \<Rightarrow> 'w stream \<Rightarrow> (stream_error, 'w stream) res" where
  "events_keeper_ping keeper bounty_amount s =
     and_then (assert_non_negative_amount bounty_amount) (\<lambda>_.
     publish (\<lambda>n. EvKeeperPing n keeper bounty_amount) s)"

definition events_keeper_reward_pool_configured ::
  "address \<Rightarrow> address \<Rightarrow> int \<Rightarrow> 'w stream \<Rightarrow> (stream_error, 'w stream) res" where
  "events_keeper_reward_pool_configured caller reward_token reward_per_ping s =
     and_then (assert_non_negative_amount reward_per_ping) (\<lambda>_.
     publish (\<lambda>n. EvKeeperConfigured n caller reward_token reward_per_ping) s)"

definition events_keeper_reward_pool_funded ::
  "address \<Rightarrow> address \<Rightarrow> int \<Rightarrow> 'w stream \<Rightarrow> (stream_error, 'w stream) res" where
  "events_keeper_reward_pool_funded funder reward_token amount s =
     and_then (assert_non_negative_amount amount) (\<lambda>_.
     publish (\<lambda>n. EvKeeperFunded n funder reward_token amount) s)"

definition events_keeper_reward_pool_withdrawn ::
  "address \<Rightarrow> address \<Rightarrow> int \<Rightarrow> 'w stream \<Rightarrow> (stream_error, 'w stream) res" where
  "events_keeper_reward_pool_withdrawn caller reward_token amount s =
     and_then (assert_non_negative_amount amount) (\<lambda>_.
     publish (\<lambda>n. EvKeeperWithdrawn n caller reward_token amount) s)"

definition events_emergency_paused :: "address \<Rightarrow> int \<Rightarrow> 'w stream \<Rightarrow> (stream_error, 'w stream) res" where
  "events_emergency_paused caller ts s = publish (\<lambda>n. EvEmergencyPaused n caller ts) s"

definition events_emergency_unpaused :: "address \<Rightarrow> int \<Rightarrow> 'w stream \<Rightarrow> (stream_error, 'w stream) res" where
  "events_emergency_unpaused caller ts s = publish (\<lambda>n. EvEmergencyUnpaused n caller ts) s"

definition events_cliff_reached ::
  "address \<Rightarrow> int \<Rightarrow> int \<Rightarrow> 'w stream \<Rightarrow> (stream_error, 'w stream) res" where
  "events_cliff_reached recipient ts unlock_amount s =
     and_then (assert_non_negative_amount unlock_amount) (\<lambda>_.
     publish (\<lambda>n. EvCliffReached n recipient ts unlock_amount) s)"

definition events_stream_completed :: "address \<Rightarrow> int \<Rightarrow> 'w stream \<Rightarrow> (stream_error, 'w stream) res" where
  "events_stream_completed recipient total_withdrawn s =
     and_then (assert_non_negative_amount total_withdrawn) (\<lambda>_.
     publish (\<lambda>n. EvStreamCompleted n recipient total_withdrawn) s)"

lemmas event_defs =
  events_created_def events_withdrawn_def events_cancelled_def events_force_cancelled_def
  events_paused_def events_resumed_def events_topped_up_def events_topped_up_and_extended_def
  events_rate_changed_def events_clawback_def events_recipient_transferred_def
  events_operator_set_def events_operator_revoked_def events_split_recipient_set_def
  events_split_recipient_removed_def events_cliff_configured_def
  events_min_withdrawal_interval_set_def events_keeper_ping_def
  events_keeper_reward_pool_configured_def events_keeper_reward_pool_funded_def
  events_keeper_reward_pool_withdrawn_def events_emergency_paused_def
  events_emergency_unpaused_def events_cliff_reached_def events_stream_completed_def

section \<open>What loading and publishing do\<close>

lemma load_eq: "load s = ok_or (k_Config s) (Err NotInitialized)"
  by (simp add: load_def try_load_def split: sum.split)

lemma load_eq_Inr [res_simps]: "load s = Inr info \<longleftrightarrow> k_Config s = Some info"
  by (simp add: load_eq res_simps)

lemma load_Some [simp]: "k_Config s = Some info \<Longrightarrow> load s = Inr info"
  by (simp add: load_eq)

lemma assert_non_negative_amount_eq_Inr [res_simps]:
  "assert_non_negative_amount v = Inr u \<longleftrightarrow> 0 \<le> v"
  by (simp add: assert_non_negative_amount_def)

lemma assert_not_cancelled_eq_Inr [res_simps]:
  "assert_not_cancelled info = Inr u \<longleftrightarrow> \<not> info_is_cancelled info"
  by (simp add: assert_not_cancelled_def)

text \<open>The state after an event is published on a stream whose record is \<open>info\<close>.\<close>

definition logged :: "stream_info \<Rightarrow> (int \<Rightarrow> stream_event) \<Rightarrow> 'w stream \<Rightarrow> 'w stream" where
  "logged info mk s =
     s\<lparr>k_Config := Some (info\<lparr>si_event_sequence := si_event_sequence info + 1\<rparr>),
       st_events := st_events s @ [mk (si_event_sequence info + 1)]\<rparr>"

lemma publish_eq_Inr [res_simps]:
  "publish mk s = Inr s' \<longleftrightarrow>
     (\<exists>info. k_Config s = Some info \<and> in_u64 (si_event_sequence info + 1) \<and> s' = logged info mk s)"
  by (auto simp: publish_def next_sequence_def logged_def save_def res_simps)

lemma logged_frame [simp]:
  "k_Config (logged info mk s) = Some (info\<lparr>si_event_sequence := si_event_sequence info + 1\<rparr>)"
  "k_Guard (logged info mk s) = k_Guard s"
  "k_StorageVersion (logged info mk s) = k_StorageVersion s"
  "k_Operator (logged info mk s) = k_Operator s"
  "k_ForceCancelPauseThresholdSecs (logged info mk s) = k_ForceCancelPauseThresholdSecs s"
  "k_SplitConfig (logged info mk s) = k_SplitConfig s"
  "k_CliffConfig (logged info mk s) = k_CliffConfig s"
  "k_MinWithdrawalInterval (logged info mk s) = k_MinWithdrawalInterval s"
  "k_LastWithdrawalTime (logged info mk s) = k_LastWithdrawalTime s"
  "k_RateCheckpoint (logged info mk s) = k_RateCheckpoint s"
  "k_EmergencyPaused (logged info mk s) = k_EmergencyPaused s"
  "k_CliffReached (logged info mk s) = k_CliffReached s"
  "k_StreamCompleted (logged info mk s) = k_StreamCompleted s"
  "k_ImmutableConfig (logged info mk s) = k_ImmutableConfig s"
  "k_StreamConfig (logged info mk s) = k_StreamConfig s"
  "k_KeeperRewardPool (logged info mk s) = k_KeeperRewardPool s"
  "k_LastKeeperPingLedger (logged info mk s) = k_LastKeeperPingLedger s"
  "k_AutoForwardAddress (logged info mk s) = k_AutoForwardAddress s"
  "k_CumulativeDeposited (logged info mk s) = k_CumulativeDeposited s"
  "st_world (logged info mk s) = st_world s"
  "st_events (logged info mk s) = st_events s @ [mk (si_event_sequence info + 1)]"
  "st_ttl (logged info mk s) = st_ttl s"
  by (simp_all add: logged_def)

lemma bump_frame [simp]:
  "k_Config (bump s) = k_Config s" "k_Guard (bump s) = k_Guard s" "k_Operator (bump s) = k_Operator s"
  "k_StorageVersion (bump s) = k_StorageVersion s"
  "k_ForceCancelPauseThresholdSecs (bump s) = k_ForceCancelPauseThresholdSecs s"
  "k_SplitConfig (bump s) = k_SplitConfig s" "k_CliffConfig (bump s) = k_CliffConfig s"
  "k_MinWithdrawalInterval (bump s) = k_MinWithdrawalInterval s"
  "k_LastWithdrawalTime (bump s) = k_LastWithdrawalTime s"
  "k_RateCheckpoint (bump s) = k_RateCheckpoint s" "k_EmergencyPaused (bump s) = k_EmergencyPaused s"
  "k_CliffReached (bump s) = k_CliffReached s" "k_StreamCompleted (bump s) = k_StreamCompleted s"
  "k_ImmutableConfig (bump s) = k_ImmutableConfig s"
  "k_StreamConfig (bump s) = k_StreamConfig s" "k_KeeperRewardPool (bump s) = k_KeeperRewardPool s"
  "k_LastKeeperPingLedger (bump s) = k_LastKeeperPingLedger s"
  "k_AutoForwardAddress (bump s) = k_AutoForwardAddress s"
  "k_CumulativeDeposited (bump s) = k_CumulativeDeposited s"
  "st_world (bump s) = st_world s" "st_events (bump s) = st_events s"
  by (simp_all add: bump_def)

lemma bump_for_remaining_frame [simp]:
  "k_Config (bump_for_remaining n s) = k_Config s" "k_Guard (bump_for_remaining n s) = k_Guard s"
  "k_Operator (bump_for_remaining n s) = k_Operator s"
  "k_StorageVersion (bump_for_remaining n s) = k_StorageVersion s"
  "k_ForceCancelPauseThresholdSecs (bump_for_remaining n s) = k_ForceCancelPauseThresholdSecs s"
  "k_SplitConfig (bump_for_remaining n s) = k_SplitConfig s"
  "k_CliffConfig (bump_for_remaining n s) = k_CliffConfig s"
  "k_MinWithdrawalInterval (bump_for_remaining n s) = k_MinWithdrawalInterval s"
  "k_LastWithdrawalTime (bump_for_remaining n s) = k_LastWithdrawalTime s"
  "k_RateCheckpoint (bump_for_remaining n s) = k_RateCheckpoint s"
  "k_EmergencyPaused (bump_for_remaining n s) = k_EmergencyPaused s"
  "k_CliffReached (bump_for_remaining n s) = k_CliffReached s"
  "k_StreamCompleted (bump_for_remaining n s) = k_StreamCompleted s"
  "k_ImmutableConfig (bump_for_remaining n s) = k_ImmutableConfig s"
  "k_StreamConfig (bump_for_remaining n s) = k_StreamConfig s"
  "k_KeeperRewardPool (bump_for_remaining n s) = k_KeeperRewardPool s"
  "k_LastKeeperPingLedger (bump_for_remaining n s) = k_LastKeeperPingLedger s"
  "k_AutoForwardAddress (bump_for_remaining n s) = k_AutoForwardAddress s"
  "k_CumulativeDeposited (bump_for_remaining n s) = k_CumulativeDeposited s"
  "st_world (bump_for_remaining n s) = st_world s" "st_events (bump_for_remaining n s) = st_events s"
  by (simp_all add: bump_for_remaining_def)

section \<open>Flags\<close>

text \<open>Each flag is one bit of the word, so the flags do not interfere.\<close>

lemma flag_bits:
  "info_is_paused info \<longleftrightarrow> bit (si_flags info) 0"
  "info_is_clawback_enabled info \<longleftrightarrow> bit (si_flags info) 1"
  "info_is_cancelled info \<longleftrightarrow> bit (si_flags info) 2"
  "info_is_regulated_asset info \<longleftrightarrow> bit (si_flags info) 3"
  unfolding info_is_paused_def info_is_clawback_enabled_def info_is_cancelled_def
    info_is_regulated_asset_def flag_defs bit_iff_and_push_bit_not_eq_0
  by simp_all

lemma flag_word_bits:
  "bit FLAG_PAUSED n \<longleftrightarrow> n = 0" "bit FLAG_CLAWBACK_ENABLED n \<longleftrightarrow> n = 1"
  "bit FLAG_CANCELLED n \<longleftrightarrow> n = 2" "bit FLAG_REGULATED_ASSET n \<longleftrightarrow> n = 3"
  unfolding flag_defs bit_push_bit_iff bit_1_iff by auto

lemma flag_updates [simp]:
  "bit (f OR FLAG_PAUSED) n \<longleftrightarrow> bit f n \<or> n = 0"
  "bit (f OR FLAG_CANCELLED) n \<longleftrightarrow> bit f n \<or> n = 2"
  "bit (f OR FLAG_CLAWBACK_ENABLED) n \<longleftrightarrow> bit f n \<or> n = 1"
  "bit (f OR FLAG_REGULATED_ASSET) n \<longleftrightarrow> bit f n \<or> n = 3"
  "bit (f AND NOT FLAG_PAUSED) n \<longleftrightarrow> bit f n \<and> n \<noteq> 0" for f :: "32 word"
  using bit_imp_le_length [of f n] by (auto simp: bit_or_iff bit_and_iff bit_not_iff flag_word_bits)

section \<open>The guard interface\<close>

lemma lock_eq_Inr [res_simps]:
  "lock s = Inr s1 \<longleftrightarrow> guard_depth s < MAX_REENTRANCY_DEPTH \<and> in_u32 (guard_depth s + 1) \<and>
     s1 = s\<lparr>k_Guard := Some (guard_depth s + 1)\<rparr>"
  by (auto simp: lock_def Let_def res_simps)

lemma guard_depth_upd [simp]: "guard_depth (s\<lparr>k_Guard := Some d\<rparr>) = d"
  by (simp add: guard_depth_def)

interpretation stream_guard: reentrancy_guard guard_depth lock unlock MAX_REENTRANCY_DEPTH
proof (unfold_locales, goal_cases)
  case (1 s s1)
  then show ?case by (simp add: res_simps)
next
  case (2 s)
  then show ?case
    by (auto simp: is_ok_iff res_simps range_simps MAX_REENTRANCY_DEPTH_def int_bounds)
next
  case (3 s)
  then show ?case by (simp add: unlock_def Let_def)
qed

lemma with_guard_guarded: "with_guard f = stream_guard.guarded f"
  by (simp add: fun_eq_iff with_guard_def stream_guard.guarded_def)

lemma with_guard_eq_Inr [res_simps]:
  "with_guard f s = Inr (r, s') \<longleftrightarrow>
     guard_depth s < MAX_REENTRANCY_DEPTH \<and> in_u32 (guard_depth s + 1) \<and>
     (\<exists>s2. f (s\<lparr>k_Guard := Some (guard_depth s + 1)\<rparr>) = Inr (r, s2) \<and> s' = unlock s2)"
  by (auto simp: with_guard_def res_simps)

section \<open>Stretches of the event log\<close>

text \<open>
  \<open>log_step s s'\<close>: apart from the two milestone flags, \<open>s'\<close> is \<open>s\<close> with some events
  appended, numbered consecutively from the stored counter, which has moved on
  to the last of them.
\<close>

definition log_step :: "'w stream \<Rightarrow> 'w stream \<Rightarrow> bool" where
  "log_step s s' \<longleftrightarrow> (\<exists>info evs c d. k_Config s = Some info \<and>
     s' = s\<lparr>k_Config := Some (info\<lparr>si_event_sequence := si_event_sequence info + int (length evs)\<rparr>),
            st_events := st_events s @ evs, k_CliffReached := c, k_StreamCompleted := d\<rparr> \<and>
     map ev_seq evs = [si_event_sequence info + 1 .. si_event_sequence info + int (length evs)])"

lemma log_step_refl: "k_Config s = Some info \<Longrightarrow> log_step s s"
  unfolding log_step_def
  by (intro exI [of _ info] exI [of _ "[]"] exI [of _ "k_CliffReached s"] exI [of _ "k_StreamCompleted s"]) simp

lemma log_step_flags:
  "k_Config s = Some info \<Longrightarrow> log_step s (s\<lparr>k_CliffReached := c\<rparr>)"
  "k_Config s = Some info \<Longrightarrow> log_step s (s\<lparr>k_StreamCompleted := c\<rparr>)"
  unfolding log_step_def
  by (intro exI [of _ info] exI [of _ "[]"] exI [of _ "c"] exI [of _ "k_StreamCompleted s"], simp)
     (intro exI [of _ info] exI [of _ "[]"] exI [of _ "k_CliffReached s"] exI [of _ "c"], simp)

lemma log_step_publish:
  assumes "publish mk s = Inr s'" and "\<And>n. ev_seq (mk n) = n"
  shows "log_step s s'"
proof -
  obtain info where "k_Config s = Some info" and "s' = logged info mk s"
    using assms(1) by (auto simp: publish_eq_Inr)
  then show ?thesis
    unfolding log_step_def using assms(2)
    by (intro exI [of _ info] exI [of _ "[mk (si_event_sequence info + 1)]"]
        exI [of _ "k_CliffReached s"] exI [of _ "k_StreamCompleted s"]) (simp add: logged_def)
qed

lemma upto_append: "0 \<le> m \<Longrightarrow> 0 \<le> n \<Longrightarrow> [a + 1 .. a + m] @ [a + m + 1 .. a + m + n] = [a + 1 .. a + m + n :: int]"
  using upto_split1 [of "a + 1" "a + m + 1" "a + m + n"]
  by (cases "n = 0") auto

lemma log_step_trans:
  assumes "log_step s1 s2" and "log_step s2 s3"
  shows "log_step s1 s3"
proof -
  obtain info evs c d where i1: "k_Config s1 = Some info"
    and s2: "s2 = s1\<lparr>k_Config := Some (info\<lparr>si_event_sequence := si_event_sequence info + int (length evs)\<rparr>),
            st_events := st_events s1 @ evs, k_CliffReached := c, k_StreamCompleted := d\<rparr>"
    and e1: "map ev_seq evs = [si_event_sequence info + 1 .. si_event_sequence info + int (length evs)]"
    using assms(1) unfolding log_step_def by blast
  obtain info2 evs2 c2 d2 where i2: "k_Config s2 = Some info2"
    and s3: "s3 = s2\<lparr>k_Config := Some (info2\<lparr>si_event_sequence := si_event_sequence info2 + int (length evs2)\<rparr>),
            st_events := st_events s2 @ evs2, k_CliffReached := c2, k_StreamCompleted := d2\<rparr>"
    and e2: "map ev_seq evs2 = [si_event_sequence info2 + 1 .. si_event_sequence info2 + int (length evs2)]"
    using assms(2) unfolding log_step_def by blast
  have info2: "info2 = info\<lparr>si_event_sequence := si_event_sequence info + int (length evs)\<rparr>"
    using i2 s2 by simp
  have "map ev_seq (evs @ evs2) =
      [si_event_sequence info + 1 .. si_event_sequence info + int (length (evs @ evs2))]"
    using e1 e2 upto_append [of "int (length evs)" "int (length evs2)" "si_event_sequence info"]
    by (simp add: info2 add.assoc)
  then show ?thesis
    unfolding log_step_def using i1
    by (intro exI [of _ info] exI [of _ "evs @ evs2"] exI [of _ c2] exI [of _ d2])
       (simp add: s3 s2 info2 add.assoc)
qed

text \<open>What a stretch of the log keeps: everything but the counter, the log and the two flags.\<close>

lemma log_step_frame:
  assumes "log_step s s'"
  shows "k_Guard s' = k_Guard s" "k_Operator s' = k_Operator s" "k_SplitConfig s' = k_SplitConfig s"
    "k_CliffConfig s' = k_CliffConfig s" "k_RateCheckpoint s' = k_RateCheckpoint s"
    "k_KeeperRewardPool s' = k_KeeperRewardPool s" "st_world s' = st_world s"
    "k_MinWithdrawalInterval s' = k_MinWithdrawalInterval s"
    "k_LastWithdrawalTime s' = k_LastWithdrawalTime s" "k_EmergencyPaused s' = k_EmergencyPaused s"
    "k_AutoForwardAddress s' = k_AutoForwardAddress s" "k_StreamConfig s' = k_StreamConfig s"
    "k_ForceCancelPauseThresholdSecs s' = k_ForceCancelPauseThresholdSecs s"
    "k_CumulativeDeposited s' = k_CumulativeDeposited s"
    "k_LastKeeperPingLedger s' = k_LastKeeperPingLedger s"
  using assms unfolding log_step_def by auto

lemma log_step_config:
  assumes "log_step s s'"
  obtains info evs where "k_Config s = Some info"
    and "k_Config s' = Some (info\<lparr>si_event_sequence := si_event_sequence info + int (length evs)\<rparr>)"
    and "st_events s' = st_events s @ evs"
    and "map ev_seq evs = [si_event_sequence info + 1 .. si_event_sequence info + int (length evs)]"
  using assms unfolding log_step_def by auto

section \<open>Every event function is a stretch of the log\<close>

lemma events_log_step:
  "events_created a1 a2 a3 n4 n5 n6 n7 s = Inr s' \<Longrightarrow> log_step s s'"
  "events_withdrawn a1 n2 n3 n4 s = Inr s' \<Longrightarrow> log_step s s'"
  "events_cancelled a1 n2 n3 n4 s = Inr s' \<Longrightarrow> log_step s s'"
  "events_force_cancelled a1 n2 n3 n4 s = Inr s' \<Longrightarrow> log_step s s'"
  "events_paused a1 n2 n3 s = Inr s' \<Longrightarrow> log_step s s'"
  "events_resumed a1 n2 s = Inr s' \<Longrightarrow> log_step s s'"
  "events_topped_up a1 n2 n3 s = Inr s' \<Longrightarrow> log_step s s'"
  "events_topped_up_and_extended a1 n2 n3 n4 n5 s = Inr s' \<Longrightarrow> log_step s s'"
  "events_rate_changed a1 n2 n3 s = Inr s' \<Longrightarrow> log_step s s'"
  "events_clawback a1 n2 s = Inr s' \<Longrightarrow> log_step s s'"
  "events_recipient_transferred a1 a2 s = Inr s' \<Longrightarrow> log_step s s'"
  "events_operator_set a1 a2 s = Inr s' \<Longrightarrow> log_step s s'"
  "events_operator_revoked a1 s = Inr s' \<Longrightarrow> log_step s s'"
  "events_split_recipient_set a1 a2 n3 s = Inr s' \<Longrightarrow> log_step s s'"
  "events_split_recipient_removed a1 s = Inr s' \<Longrightarrow> log_step s s'"
  "events_cliff_configured a1 n2 n3 s = Inr s' \<Longrightarrow> log_step s s'"
  "events_min_withdrawal_interval_set a1 n2 s = Inr s' \<Longrightarrow> log_step s s'"
  "events_keeper_ping a1 n2 s = Inr s' \<Longrightarrow> log_step s s'"
  "events_keeper_reward_pool_configured a1 a2 n3 s = Inr s' \<Longrightarrow> log_step s s'"
  "events_keeper_reward_pool_funded a1 a2 n3 s = Inr s' \<Longrightarrow> log_step s s'"
  "events_keeper_reward_pool_withdrawn a1 a2 n3 s = Inr s' \<Longrightarrow> log_step s s'"
  "events_emergency_paused a1 n2 s = Inr s' \<Longrightarrow> log_step s s'"
  "events_emergency_unpaused a1 n2 s = Inr s' \<Longrightarrow> log_step s s'"
  "events_cliff_reached a1 n2 n3 s = Inr s' \<Longrightarrow> log_step s s'"
  "events_stream_completed a1 n2 s = Inr s' \<Longrightarrow> log_step s s'"
  by (auto simp: event_defs and_then_eq_Inr intro: log_step_publish)

end
