(* ===== verification/Stream_Math.thy ===== *)
theory Stream_Math
  imports Stream_Events
begin

text \<open>
  \<^verbatim>\<open>contracts/stream/src/math.rs\<close>: how much a stream has released.

  The specification is the piecewise linear function \<open>accrued_upto\<close>: nothing
  before the accrual base, then the base amount plus rate times elapsed time,
  where the base is the rate checkpoint, else the cliff, else the start.
  \<open>streamed_amount_spec\<close> shows that the code computes it at the clamped time
  \<open>effective_now\<close> or reports \<^verbatim>\<open>ArithmeticOverflow\<close>, and never anything else.
\<close>

section \<open>Definitions\<close>

text \<open>
  The product of two \<^verbatim>\<open>u128\<close> values fits a \<^verbatim>\<open>U256\<close>, so only the conversions of
  the quotient can fail.
\<close>

definition mul_div :: "int \<Rightarrow> int \<Rightarrow> int \<Rightarrow> (stream_error, int) res" where
  "mul_div value multiplier divisor =
     (if value < 0 \<or> divisor = 0 then Inl (Err ArithmeticOverflow) else
      let q = value * multiplier div divisor in
      ok_or (Option.bind (if q \<le> u128_max then Some q else None)
                         (\<lambda>v. if v \<le> i128_max then Some v else None))
            (Err ArithmeticOverflow))"

definition effective_now :: "int \<Rightarrow> stream_info \<Rightarrow> int" where
  "effective_now now info =
     (if info_is_paused info then
        (if 0 < si_end_time info \<and> si_end_time info < si_paused_at info
         then si_end_time info else si_paused_at info)
      else if 0 < si_end_time info \<and> si_end_time info < now then si_end_time info
      else now)"

definition streamed_amount :: "int \<Rightarrow> 'w stream \<Rightarrow> stream_info \<Rightarrow> (stream_error, int) res" where
  "streamed_amount now s info =
     (if now < si_start_time info then Inr 0 else
      let eff = effective_now now info in
      (case k_RateCheckpoint s of
         Some cp \<Rightarrow>
           (if eff < cp_at cp then Inr 0 else
            and_then (ok_or (checked_u64 (eff - cp_at cp)) (Err ArithmeticOverflow)) (\<lambda>elapsed.
            and_then (mul_div (si_rate_per_second info) elapsed 1) (\<lambda>linear.
            ok_or (checked_i128 (cp_accrued cp + linear)) (Err ArithmeticOverflow))))
       | None \<Rightarrow>
      (case k_CliffConfig s of
         Some cfg \<Rightarrow>
           (if eff < cc_cliff_time cfg then Inr 0 else
            and_then (ok_or (checked_u64 (eff - cc_cliff_time cfg)) (Err ArithmeticOverflow)) (\<lambda>elapsed.
            and_then (mul_div (si_rate_per_second info) elapsed 1) (\<lambda>linear.
            ok_or (checked_i128 (cc_cliff_unlock_amount cfg + linear)) (Err ArithmeticOverflow))))
       | None \<Rightarrow>
           and_then (ok_or (checked_u64 (eff - si_start_time info)) (Err ArithmeticOverflow)) (\<lambda>elapsed.
           mul_div (si_rate_per_second info) elapsed 1))))"

definition calculate_streamed_amount :: "int \<Rightarrow> int \<Rightarrow> (stream_error, int) res" where
  "calculate_streamed_amount rate_per_second elapsed =
     (if rate_per_second = 0 \<or> elapsed = 0 then Inr 0
      else ok_or (checked_i128 (rate_per_second * elapsed)) (Err ArithmeticOverflow))"

definition rate_duration_saturating :: "int \<Rightarrow> int \<Rightarrow> int" where
  "rate_duration_saturating rate_per_second duration =
     (if rate_per_second = 0 \<or> duration = 0 then 0 else sat_i128 (rate_per_second * duration))"

definition math_withdrawable :: "int \<Rightarrow> 'w stream \<Rightarrow> stream_info \<Rightarrow> (stream_error, int) res" where
  "math_withdrawable now s info =
     and_then (streamed_amount now s info) (\<lambda>streamed.
     let available = sat_i128 (streamed - si_withdrawn info) in Inr (max available 0))"

section \<open>Specification\<close>

text \<open>The amount and time from which the current rate applies.\<close>

definition accrual_base :: "'w stream \<Rightarrow> stream_info \<Rightarrow> int \<times> int" where
  "accrual_base s info = (case k_RateCheckpoint s of
      Some cp \<Rightarrow> (cp_accrued cp, cp_at cp)
    | None \<Rightarrow> (case k_CliffConfig s of
        Some cfg \<Rightarrow> (cc_cliff_unlock_amount cfg, cc_cliff_time cfg)
      | None \<Rightarrow> (0, si_start_time info)))"

definition accrued_upto :: "'w stream \<Rightarrow> stream_info \<Rightarrow> int \<Rightarrow> int" where
  "accrued_upto s info t =
     (if t < snd (accrual_base s info) then 0
      else fst (accrual_base s info) + si_rate_per_second info * (t - snd (accrual_base s info)))"

text \<open>
  The same amount with no clamped time: the seconds from the base time on that have
  passed, lie before the end of a bounded stream and before the pause of a paused one,
  each worth the rate; nothing when the base time is not reached within them.
\<close>

definition streaming_seconds :: "int \<Rightarrow> int \<Rightarrow> stream_info \<Rightarrow> int set" where
  "streaming_seconds t0 now info = {u. t0 \<le> u \<and> u < now \<and>
     (0 < si_end_time info \<longrightarrow> u < si_end_time info) \<and> (info_is_paused info \<longrightarrow> u < si_paused_at info)}"

definition base_reached :: "int \<Rightarrow> int \<Rightarrow> stream_info \<Rightarrow> bool" where
  "base_reached t0 now info \<longleftrightarrow> t0 \<le> now \<and> (0 < si_end_time info \<longrightarrow> t0 \<le> si_end_time info) \<and>
     (info_is_paused info \<longrightarrow> t0 \<le> si_paused_at info)"

definition released :: "int \<Rightarrow> 'w stream \<Rightarrow> stream_info \<Rightarrow> int" where
  "released now s info =
     (if base_reached (snd (accrual_base s info)) now info
      then fst (accrual_base s info) +
        si_rate_per_second info * int (card (streaming_seconds (snd (accrual_base s info)) now info))
      else 0)"

text \<open>The facts about stored values that the accrual arithmetic relies on.\<close>

definition accrual_ok :: "'w stream \<Rightarrow> stream_info \<Rightarrow> bool" where
  "accrual_ok s info \<longleftrightarrow>
     0 < si_rate_per_second info \<and> si_rate_per_second info \<le> i128_max \<and>
     in_u64 (si_start_time info) \<and> in_u64 (si_end_time info) \<and> in_u64 (si_paused_at info) \<and>
     (0 < si_end_time info \<longrightarrow> si_start_time info < si_end_time info) \<and>
     (info_is_paused info \<longrightarrow> si_start_time info \<le> si_paused_at info) \<and>
     0 \<le> fst (accrual_base s info) \<and> fst (accrual_base s info) \<le> i128_max \<and>
     in_u64 (snd (accrual_base s info))"

lemma mul_div_eq_Inr [res_simps]:
  "mul_div v m d = Inr q \<longleftrightarrow> 0 \<le> v \<and> d \<noteq> 0 \<and> q = v * m div d \<and> q \<le> i128_max"
  by (auto simp: mul_div_def Let_def res_simps bind_eq_Some_conv int_bounds)

lemma mul_div_eq_Inl: "mul_div v m d = Inl f \<Longrightarrow> f = Err ArithmeticOverflow"
  by (auto simp: mul_div_def Let_def res_simps split: if_splits)

lemma mul_div_one: "0 \<le> v \<Longrightarrow> mul_div v m 1 = (if v * m \<le> i128_max then Inr (v * m) else Inl (Err ArithmeticOverflow))"
  by (auto simp: mul_div_def Let_def int_bounds)

lemma accrual_base_frame:
  "k_RateCheckpoint s' = k_RateCheckpoint s \<Longrightarrow> k_CliffConfig s' = k_CliffConfig s \<Longrightarrow>
     si_start_time info' = si_start_time info \<Longrightarrow> accrual_base s' info' = accrual_base s info"
  by (simp add: accrual_base_def split: option.split)

text \<open>The streamed amount depends on the state only through the checkpoint and the cliff.\<close>

lemma streamed_amount_frame:
  "k_RateCheckpoint s' = k_RateCheckpoint s \<Longrightarrow> k_CliffConfig s' = k_CliffConfig s \<Longrightarrow>
     streamed_amount now s' info = streamed_amount now s info"
  unfolding streamed_amount_def by (simp only:)

lemma math_frame [simp]:
  "streamed_amount now (bump s) info = streamed_amount now s info"
  "streamed_amount now (s\<lparr>k_Guard := g\<rparr>) info = streamed_amount now s info"
  "streamed_amount now (s\<lparr>k_Config := c\<rparr>) info = streamed_amount now s info"
  "math_withdrawable now (bump s) info = math_withdrawable now s info"
  "math_withdrawable now (s\<lparr>k_Guard := g\<rparr>) info = math_withdrawable now s info"
  unfolding math_withdrawable_def
  using streamed_amount_frame [of "bump s" s] streamed_amount_frame [of "s\<lparr>k_Guard := g\<rparr>" s]
    streamed_amount_frame [of "s\<lparr>k_Config := c\<rparr>" s] by simp_all

text \<open>The clamped time lies between the start and the end of the stream.\<close>

lemma effective_now_bounds:
  assumes "accrual_ok s info" and "si_start_time info \<le> now"
  shows "si_start_time info \<le> effective_now now info"
    and "0 < si_end_time info \<Longrightarrow> effective_now now info \<le> si_end_time info"
    and "in_u64 now \<Longrightarrow> in_u64 (effective_now now info)"
  using assms by (auto simp: effective_now_def accrual_ok_def)

lemma effective_now_mono: "t \<le> u \<Longrightarrow> effective_now t info \<le> effective_now u info"
  by (auto simp: effective_now_def)

lemma effective_now_paused: "info_is_paused info \<Longrightarrow> effective_now t info = effective_now u info"
  by (simp add: effective_now_def)

text \<open>Once a pause has begun, counting seconds is taking the difference to the clamped time.\<close>

lemma streaming_seconds_eq:
  assumes "info_is_paused info \<longrightarrow> si_paused_at info \<le> now"
  shows "streaming_seconds t0 now info = {t0 ..< effective_now now info}"
    and "base_reached t0 now info \<longleftrightarrow> t0 \<le> effective_now now info"
  using assms by (auto simp: streaming_seconds_def base_reached_def effective_now_def)

lemma released_eq:
  assumes "info_is_paused info \<longrightarrow> si_paused_at info \<le> now"
  shows "released now s info = accrued_upto s info (effective_now now info)"
  by (simp add: released_def accrued_upto_def streaming_seconds_eq [OF assms] not_less)

text \<open>One accrual segment: what the code computes from a base amount and time.\<close>

lemma segment_eq:
  assumes "0 \<le> base" and "base \<le> i128_max" and "0 \<le> rate" and "in_u64 eff" and "in_u64 t0"
  shows "(if eff < t0 then Inr 0 else
            and_then (ok_or (checked_u64 (eff - t0)) (Err ArithmeticOverflow)) (\<lambda>elapsed.
            and_then (mul_div rate elapsed 1) (\<lambda>linear.
            ok_or (checked_i128 (base + linear)) (Err ArithmeticOverflow)))) =
         (let v = (if eff < t0 then 0 else base + rate * (eff - t0)) in
          if v \<le> i128_max then Inr v else Inl (Err ArithmeticOverflow))"
proof (cases "eff < t0")
  case True
  then show ?thesis by (simp add: int_bounds)
next
  case False
  then have el: "checked_u64 (eff - t0) = Some (eff - t0)"
    using assms(4,5) by (auto simp: checked_u64_def in_u64_def)
  have lin: "0 \<le> rate * (eff - t0)" using False assms(3) by simp
  have "i128_min \<le> 0" by (simp add: int_bounds)
  then have add: "ok_or (checked_i128 (base + rate * (eff - t0))) (Err ArithmeticOverflow) =
     (if base + rate * (eff - t0) \<le> i128_max then Inr (base + rate * (eff - t0)) else Inl (Err ArithmeticOverflow))"
    using lin assms(1) by (auto simp: checked_i128_def in_i128_def)
  show ?thesis
    using False lin assms(1,3) el add by (auto simp: mul_div_one Let_def)
qed

lemma segment_zero:
  assumes "0 \<le> rate" and "in_u64 eff" and "in_u64 t0" and "t0 \<le> eff"
  shows "and_then (ok_or (checked_u64 (eff - t0)) (Err ArithmeticOverflow)) (\<lambda>elapsed. mul_div rate elapsed 1) =
    (let v = rate * (eff - t0) in if v \<le> i128_max then Inr v else Inl (Err ArithmeticOverflow))"
  using assms by (auto simp: checked_u64_def in_u64_def mul_div_one Let_def)

lemma streamed_amount_spec:
  assumes "accrual_ok s info" and "in_u64 now"
  shows "streamed_amount now s info =
    (if now < si_start_time info then Inr 0 else
     let v = accrued_upto s info (effective_now now info) in
     if v \<le> i128_max then Inr v else Inl (Err ArithmeticOverflow))"
proof (cases "now < si_start_time info")
  case True
  then show ?thesis by (simp add: streamed_amount_def)
next
  case False
  let ?eff = "effective_now now info"
  have eff: "in_u64 ?eff" "si_start_time info \<le> ?eff"
    using effective_now_bounds [OF assms(1)] False assms(2) by auto
  have rate: "0 \<le> si_rate_per_second info" and st: "in_u64 (si_start_time info)"
    using assms(1) by (auto simp: accrual_ok_def)
  show ?thesis
  proof (cases "k_RateCheckpoint s")
    case (Some cp)
    then have "0 \<le> cp_accrued cp" "cp_accrued cp \<le> i128_max" "in_u64 (cp_at cp)"
      using assms(1) by (auto simp: accrual_ok_def accrual_base_def)
    then show ?thesis
      using False Some segment_eq [OF _ _ rate eff(1)]
      by (simp add: streamed_amount_def accrued_upto_def accrual_base_def Let_def)
  next
    case None
    show ?thesis
    proof (cases "k_CliffConfig s")
      case (Some cfg)
      then have "0 \<le> cc_cliff_unlock_amount cfg" "cc_cliff_unlock_amount cfg \<le> i128_max"
        "in_u64 (cc_cliff_time cfg)"
        using assms(1) None by (auto simp: accrual_ok_def accrual_base_def)
      then show ?thesis
        using False None Some segment_eq [OF _ _ rate eff(1)]
        by (simp add: streamed_amount_def accrued_upto_def accrual_base_def Let_def)
    next
      case no_cliff: None
      then show ?thesis
        using False None segment_zero [OF rate eff(1) st eff(2)] eff(2)
        by (simp add: streamed_amount_def accrued_upto_def accrual_base_def Let_def)
    qed
  qed
qed

lemma accrued_upto_nonneg: "accrual_ok s info \<Longrightarrow> 0 \<le> accrued_upto s info t"
  by (auto simp: accrued_upto_def accrual_ok_def)

lemma accrued_upto_mono:
  assumes "accrual_ok s info" and "t \<le> u"
  shows "accrued_upto s info t \<le> accrued_upto s info u"
  using assms
  by (auto simp: accrued_upto_def accrual_ok_def intro!: add_mono mult_left_mono)

lemma streamed_amount_Inr:
  assumes "accrual_ok s info" and "in_u64 now" and "streamed_amount now s info = Inr v"
  shows "0 \<le> v" and "v \<le> i128_max"
    and "v = (if now < si_start_time info then 0 else accrued_upto s info (effective_now now info))"
  using assms accrued_upto_nonneg [OF assms(1)]
  by (auto simp: streamed_amount_spec Let_def int_bounds split: if_splits)

lemma streamed_amount_Inl:
  assumes "accrual_ok s info" and "in_u64 now" and "streamed_amount now s info = Inl f"
  shows "f = Err ArithmeticOverflow"
  using assms by (auto simp: streamed_amount_spec Let_def split: if_splits)

text \<open>What is withdrawable is what has streamed beyond what was withdrawn.\<close>

lemma math_withdrawable_eq:
  assumes "accrual_ok s info" and "in_u64 now" and "0 \<le> si_withdrawn info" and "in_i128 (si_withdrawn info)"
  shows "math_withdrawable now s info =
    and_then (streamed_amount now s info) (\<lambda>v. Inr (max (v - si_withdrawn info) 0))"
proof (cases "streamed_amount now s info")
  case (Inr v)
  have "in_i128 (v - si_withdrawn info)"
    using streamed_amount_Inr(1,2) [OF assms(1,2) Inr] assms(3,4)
    by (intro in_i128_diff_nonneg) (auto simp: in_i128_def int_bounds)
  then show ?thesis using Inr by (simp add: math_withdrawable_def)
qed (simp add: math_withdrawable_def)

end
