(* ===== verification/Stream_Ops.thy ===== *)
theory Stream_Ops
  imports Stream_Math
begin

text \<open>
  The operations of \<^verbatim>\<open>contracts/stream/src/lib.rs\<close> that move the stream through
  its life: creation, withdrawal, cancellation, pause and resume, rate changes,
  funding, clawback, and the read-only dry run of a withdrawal.  Each definition
  is the whole handler; a name ending in \<open>_body\<close> is the private \<^verbatim>\<open>_method\<close> that
  runs inside \<^verbatim>\<open>with_guard\<close>.
\<close>

section \<open>Helpers\<close>

definition MIN_STREAM_DURATION :: int where "MIN_STREAM_DURATION = 60"
definition MAX_STREAM_DURATION :: int where "MAX_STREAM_DURATION = 3155760000"
definition MAX_DESCRIPTION_LEN :: int where "MAX_DESCRIPTION_LEN = 128"

definition stream_require_not_paused :: "stream_info \<Rightarrow> (stream_error, unit) res" where
  "stream_require_not_paused info =
     map_err (\<lambda>_. NotPaused) (require_not_paused_flag (info_is_paused info))"

definition require_sender_or_operator ::
  "'w env \<Rightarrow> 'w stream \<Rightarrow> address \<Rightarrow> address \<Rightarrow> (stream_error, unit) res" where
  "require_sender_or_operator e s caller sender = (case k_Operator s of
      Some op \<Rightarrow>
        (if caller = sender \<or> caller = op then require_auth e caller else Inl (Err NotAuthorized))
    | None \<Rightarrow>
        (if caller \<noteq> sender then Inl (Err NotAuthorized) else require_auth e caller))"

definition auto_forward_address :: "'w stream \<Rightarrow> address \<Rightarrow> address" where
  "auto_forward_address s recipient =
     (case k_AutoForwardAddress s of Some a \<Rightarrow> a | None \<Rightarrow> recipient)"

definition stored_cumulative_deposited ::
  "'w env \<Rightarrow> 'w stream \<Rightarrow> stream_info \<Rightarrow> (stream_error, int) res" where
  "stored_cumulative_deposited e s info = (case k_CumulativeDeposited s of
      Some tot \<Rightarrow> Inr tot
    | None \<Rightarrow>
        and_then (balance_call e (st_world s) (si_token info) (contract_address e)) (\<lambda>b.
        ok_or (checked_i128 (b + si_withdrawn info)) (Err ArithmeticOverflow)))"

definition add_cumulative_deposit ::
  "'w env \<Rightarrow> stream_info \<Rightarrow> int \<Rightarrow> 'w stream \<Rightarrow> (stream_error, 'w stream) res" where
  "add_cumulative_deposit e info amount s =
     and_then (stored_cumulative_deposited e s info) (\<lambda>d.
     and_then (ok_or (checked_i128 (d + amount)) (Err ArithmeticOverflow)) (\<lambda>tot.
     Inr (s\<lparr>k_CumulativeDeposited := Some tot\<rparr>)))"

text \<open>A transfer of the token \<open>tok\<close>, as a step on the contract state.\<close>

definition token_transfer ::
  "'w env \<Rightarrow> address \<Rightarrow> address \<Rightarrow> address \<Rightarrow> int \<Rightarrow> 'w stream \<Rightarrow> (stream_error, 'w stream) res" where
  "token_transfer e tok src dst amt s =
     and_then (transfer_call e (st_world s) tok src dst amt) (\<lambda>w. Inr (s\<lparr>st_world := w\<rparr>))"

section \<open>Creation\<close>

definition initialize ::
  "'w env \<Rightarrow> address \<Rightarrow> address \<Rightarrow> address \<Rightarrow> int \<Rightarrow> int \<Rightarrow> int \<Rightarrow> bool \<Rightarrow> int \<Rightarrow> bool \<Rightarrow>
     string option \<Rightarrow> 'w stream \<Rightarrow> (stream_error, 'w stream) res" where
  "initialize e sender recipient tok rate_per_second start_time end_time clawback_enabled
       force_cancel_pause_secs is_regulated_asset description s =
     (if k_Config s \<noteq> None then Inl (Err AlreadyInitialized) else
      if rate_per_second \<le> 0 then Inl (Err InvalidAmount) else
      if force_cancel_pause_secs = 0 then Inl (Err InvalidAmount) else
      if is_zero_address recipient \<or> recipient = sender then Inl (Err InvalidRecipient) else
      if 0 < end_time \<and> end_time \<le> start_time then Inl (Err InvalidTimeRange) else
      if 0 < end_time \<and> end_time - start_time < MIN_STREAM_DURATION then Inl (Err StreamDurationTooShort) else
      if 0 < end_time \<and> MAX_STREAM_DURATION < end_time - start_time then Inl (Err InvalidTimeRange) else
      if (case description of Some desc \<Rightarrow> MAX_DESCRIPTION_LEN < int (length desc) | None \<Rightarrow> False)
        then Inl (Err DescriptionTooLong) else
      if 0 < end_time \<and> checked_i128 (rate_per_second * (end_time - start_time)) = None
        then Inl (Err ArithmeticOverflow) else
      let now = timestamp e in
      if start_time < now then Inl (Err BackdatedStream) else
      let s1 = bump_for_remaining (sat_u64 (end_time - now)) s;
          fl0 = (if clawback_enabled then 0 OR FLAG_CLAWBACK_ENABLED else 0);
          fl = (if is_regulated_asset then fl0 OR FLAG_REGULATED_ASSET else fl0);
          s2 = (case description of Some desc \<Rightarrow> s1\<lparr>k_StreamDescription := Some desc\<rparr> | None \<Rightarrow> s1);
          s3 = s2\<lparr>k_StorageVersion := Some CURRENT_STORAGE_VERSION,
                  k_ForceCancelPauseThresholdSecs := Some force_cancel_pause_secs,
                  k_ImmutableConfig := Some \<lparr>ic_start_time = start_time, ic_stop_time = end_time,
                     ic_token = tok, ic_rate_per_second = rate_per_second,
                     ic_sender = sender, ic_recipient = recipient\<rparr>\<rparr>
      in
      and_then (if 0 < end_time then plain_i128 (rate_per_second * (end_time - start_time))
                else balance_call e (st_world s3) tok (contract_address e)) (\<lambda>initial_deposit.
      let s4 = s3\<lparr>k_CumulativeDeposited := Some initial_deposit\<rparr>;
          s5 = save \<lparr>si_sender = sender, si_recipient = recipient, si_token = tok,
                 si_rate_per_second = rate_per_second, si_start_time = start_time,
                 si_end_time = end_time, si_withdrawn = 0, si_paused_at = 0, si_flags = fl,
                 si_event_sequence = 0, si_cumulative_fees = 0\<rparr> s4
      in events_created sender recipient tok rate_per_second start_time end_time
           CURRENT_STORAGE_VERSION s5))"

section \<open>Withdrawal\<close>

text \<open>The rate limit between withdrawals.\<close>

definition check_withdrawal_interval :: "'w env \<Rightarrow> 'w stream \<Rightarrow> (stream_error, unit) res" where
  "check_withdrawal_interval e s =
     (let min_interval = (case k_MinWithdrawalInterval s of Some n \<Rightarrow> n | None \<Rightarrow> 0) in
      if 0 < min_interval then
        (let last_withdrawal = (case k_LastWithdrawalTime s of Some t \<Rightarrow> t | None \<Rightarrow> 0) in
         if 0 < last_withdrawal \<and> timestamp e < sat_u64 (last_withdrawal + min_interval)
         then Inl (Err WithdrawalTooFrequent) else Inr ())
      else Inr ())"

text \<open>
  Paying \<open>amount\<close> out of the contract to the recipient's side: the split share to
  the secondary recipient, the rest to the recipient or its forwarding address.
\<close>

definition pay_recipient ::
  "'w env \<Rightarrow> stream_info \<Rightarrow> int \<Rightarrow> 'w stream \<Rightarrow> (stream_error, 'w stream) res" where
  "pay_recipient e info amount s =
     (let payout_recipient = auto_forward_address s (si_recipient info);
          me = contract_address e in
      case k_SplitConfig s of
        Some split \<Rightarrow>
          and_then (mul_div amount (sp_split_bps split) 10000) (\<lambda>secondary_amount.
          and_then (ok_or (checked_i128 (amount - secondary_amount)) (Err ArithmeticOverflow)) (\<lambda>primary_amount.
          and_then (if 0 < primary_amount
                    then token_transfer e (si_token info) me payout_recipient primary_amount s
                    else Inr s) (\<lambda>s1.
          if 0 < secondary_amount
          then token_transfer e (si_token info) me (sp_secondary_recipient split) secondary_amount s1
          else Inr s1)))
      | None \<Rightarrow> token_transfer e (si_token info) me payout_recipient amount s)"

text \<open>The one-time milestone events at the end of a withdrawal.\<close>

definition cliff_milestone ::
  "int \<Rightarrow> stream_info \<Rightarrow> 'w stream \<Rightarrow> (stream_error, 'w stream) res" where
  "cliff_milestone now info s = (case k_CliffConfig s of
      Some cliff \<Rightarrow>
        (if cc_cliff_time cliff \<le> now \<and> k_CliffReached s = None
         then events_cliff_reached (si_recipient info) now (cc_cliff_unlock_amount cliff)
                (s\<lparr>k_CliffReached := Some True\<rparr>)
         else Inr s)
    | None \<Rightarrow> Inr s)"

definition completion_milestone ::
  "stream_info \<Rightarrow> int \<Rightarrow> int \<Rightarrow> int \<Rightarrow> 'w stream \<Rightarrow> (stream_error, 'w stream) res" where
  "completion_milestone info balance remaining new_withdrawn s =
     (if remaining = 0 \<and> (0 < si_end_time info \<or> 0 < balance) \<and> k_StreamCompleted s = None
      then events_stream_completed (si_recipient info) new_withdrawn (s\<lparr>k_StreamCompleted := Some True\<rparr>)
      else Inr s)"

definition withdraw_body :: "'w env \<Rightarrow> int \<Rightarrow> 'w stream \<Rightarrow> (stream_error, int \<times> 'w stream) res" where
  "withdraw_body e amount s0 =
     (if amount \<le> 0 then Inl (Err InvalidAmount) else
      let s1 = bump s0 in
      and_then (load s1) (\<lambda>info.
      and_then (assert_not_cancelled info) (\<lambda>_.
      and_then (require_auth e (si_recipient info)) (\<lambda>_.
      and_then (check_withdrawal_interval e s1) (\<lambda>_.
      and_then (math_withdrawable (timestamp e) s1 info) (\<lambda>available.
      if available = 0 then Inl (Err NothingToWithdraw) else
      and_then (balance_call e (st_world s1) (si_token info) (contract_address e)) (\<lambda>balance.
      let to_send = min (min amount available) balance in
      if to_send = 0 then Inl (Err StreamUnderfunded) else
      and_then (ok_or (checked_i128 (si_withdrawn info + to_send)) (Err ArithmeticOverflow)) (\<lambda>new_withdrawn.
      let s2 = save (info\<lparr>si_withdrawn := new_withdrawn\<rparr>) s1 in
      and_then (pay_recipient e info to_send s2) (\<lambda>s3.
      let s4 = s3\<lparr>k_LastWithdrawalTime := Some (timestamp e)\<rparr> in
      and_then (ok_or (checked_i128 (balance - to_send)) (Err ArithmeticOverflow)) (\<lambda>remaining.
      and_then (events_withdrawn (si_recipient info) to_send new_withdrawn remaining s4) (\<lambda>s5.
      and_then (cliff_milestone (timestamp e) info s5) (\<lambda>s6.
      and_then (completion_milestone info balance remaining new_withdrawn s6) (\<lambda>s7.
      Inr (to_send, s7))))))))))))))"

definition withdraw :: "'w env \<Rightarrow> int \<Rightarrow> 'w stream \<Rightarrow> (stream_error, int \<times> 'w stream) res" where
  "withdraw e amount = with_guard (withdraw_body e amount)"

definition validate_withdraw :: "'w env \<Rightarrow> int \<Rightarrow> 'w stream \<Rightarrow> (stream_error, unit) res" where
  "validate_withdraw e amount s =
     (if amount \<le> 0 then Inl (Err InvalidAmount) else
      and_then (load s) (\<lambda>info.
      and_then (assert_not_cancelled info) (\<lambda>_.
      and_then (check_withdrawal_interval e s) (\<lambda>_.
      and_then (math_withdrawable (timestamp e) s info) (\<lambda>available.
      if available = 0 then Inl (Err NothingToWithdraw) else
      and_then (balance_call e (st_world s) (si_token info) (contract_address e)) (\<lambda>balance.
      let to_send = min (min amount available) balance in
      if to_send = 0 then Inl (Err StreamUnderfunded) else
      and_then (ok_or (checked_i128 (si_withdrawn info + to_send)) (Err ArithmeticOverflow)) (\<lambda>_.
      (case k_SplitConfig s of
         Some split \<Rightarrow>
           and_then (mul_div to_send (sp_split_bps split) 10000) (\<lambda>secondary_amount.
           and_then (ok_or (checked_i128 (to_send - secondary_amount)) (Err ArithmeticOverflow)) (\<lambda>_.
           Inr ()))
       | None \<Rightarrow> Inr ()))))))))"

section \<open>Cancellation\<close>

text \<open>
  The settlement \<^verbatim>\<open>_cancel\<close> and \<^verbatim>\<open>_force_cancel\<close> share line by line: split the
  whole balance between recipient and sender, mark the stream cancelled, pay.
  The result is the refund and the new total withdrawn, for the event.
\<close>

definition settle ::
  "'w env \<Rightarrow> stream_info \<Rightarrow> 'w stream \<Rightarrow> (stream_error, (int \<times> int) \<times> 'w stream) res" where
  "settle e info s1 =
     and_then (balance_call e (st_world s1) (si_token info) (contract_address e)) (\<lambda>balance.
     and_then (streamed_amount (timestamp e) s1 info) (\<lambda>streamed.
     and_then (plain_i128 (streamed - si_withdrawn info)) (\<lambda>owed.
     let owed_to_recipient = min (max owed 0) balance in
     and_then (plain_i128 (balance - owed_to_recipient)) (\<lambda>rest.
     let refund_to_sender = max rest 0 in
     and_then (ok_or (checked_i128 (si_withdrawn info + owed_to_recipient)) (Err ArithmeticOverflow)) (\<lambda>total_withdrawn.
     let s2 = save ((mark_cancelled info)\<lparr>si_withdrawn := total_withdrawn\<rparr>) s1 in
     and_then (if 0 < owed_to_recipient then pay_recipient e info owed_to_recipient s2 else Inr s2) (\<lambda>s3.
     and_then (if 0 < refund_to_sender
               then token_transfer e (si_token info) (contract_address e) (si_sender info) refund_to_sender s3
               else Inr s3) (\<lambda>s4.
     Inr ((refund_to_sender, total_withdrawn), s4))))))))"

definition cancel_body :: "'w env \<Rightarrow> address \<Rightarrow> 'w stream \<Rightarrow> (stream_error, unit \<times> 'w stream) res" where
  "cancel_body e caller s0 =
     (let s1 = bump s0 in
      and_then (load s1) (\<lambda>info.
      and_then (assert_not_cancelled info) (\<lambda>_.
      if (case k_StreamConfig s1 of Some cfg \<Rightarrow> \<not> sc_is_cancelable cfg | None \<Rightarrow> False)
      then Inl (Err StreamNotCancelable) else
      and_then (require_sender_or_operator e s1 caller (si_sender info)) (\<lambda>_.
      and_then (settle e info s1) (\<lambda>((refund_to_sender, total_withdrawn), s2).
      and_then (events_cancelled (si_sender info) refund_to_sender total_withdrawn refund_to_sender s2) (\<lambda>s3.
      Inr ((), s3)))))))"

definition cancel :: "'w env \<Rightarrow> address \<Rightarrow> 'w stream \<Rightarrow> (stream_error, unit \<times> 'w stream) res" where
  "cancel e caller = with_guard (cancel_body e caller)"

definition DEFAULT_PAUSE_THRESHOLD_SECS :: int where "DEFAULT_PAUSE_THRESHOLD_SECS = 2592000"

definition force_cancel_body :: "'w env \<Rightarrow> 'w stream \<Rightarrow> (stream_error, unit \<times> 'w stream) res" where
  "force_cancel_body e s0 =
     (let pause_threshold_secs = (case k_ForceCancelPauseThresholdSecs s0 of
            Some n \<Rightarrow> n | None \<Rightarrow> DEFAULT_PAUSE_THRESHOLD_SECS);
          s1 = bump s0 in
      and_then (load s1) (\<lambda>info.
      and_then (assert_not_cancelled info) (\<lambda>_.
      if \<not> info_is_paused info then Inl (Err NotPaused) else
      let paused_secs = sat_u64 (timestamp e - si_paused_at info) in
      if paused_secs < pause_threshold_secs then Inl (Err PauseThresholdNotMet) else
      and_then (require_auth e (si_recipient info)) (\<lambda>_.
      and_then (settle e info s1) (\<lambda>((refund_to_sender, total_withdrawn), s2).
      and_then (events_force_cancelled (si_sender info) refund_to_sender total_withdrawn refund_to_sender s2) (\<lambda>s3.
      Inr ((), s3)))))))"

definition force_cancel :: "'w env \<Rightarrow> 'w stream \<Rightarrow> (stream_error, unit \<times> 'w stream) res" where
  "force_cancel e = with_guard (force_cancel_body e)"

section \<open>Pause and resume\<close>

definition pause_body :: "'w env \<Rightarrow> address \<Rightarrow> 'w stream \<Rightarrow> (stream_error, unit \<times> 'w stream) res" where
  "pause_body e caller s0 =
     (let s1 = bump s0 in
      and_then (load s1) (\<lambda>info.
      and_then (assert_not_cancelled info) (\<lambda>_.
      if info_is_paused info then Inl (Err AlreadyPaused) else
      and_then (require_sender_or_operator e s1 caller (si_sender info)) (\<lambda>_.
      let now = timestamp e in
      if now < si_start_time info then Inl (Err StreamNotStarted) else
      if 0 < si_end_time info \<and> si_end_time info < now then Inl (Err StreamEnded) else
      and_then (math_withdrawable now s1 info) (\<lambda>w.
      let s2 = save (info\<lparr>si_flags := si_flags info OR FLAG_PAUSED, si_paused_at := now\<rparr>) s1 in
      and_then (events_paused caller now w s2) (\<lambda>s3. Inr ((), s3)))))))"

definition pause :: "'w env \<Rightarrow> address \<Rightarrow> 'w stream \<Rightarrow> (stream_error, unit \<times> 'w stream) res" where
  "pause e caller = with_guard (pause_body e caller)"

text \<open>The accrual checkpoint moves with the pause when it lies before it.\<close>

definition shift_checkpoint ::
  "stream_info \<Rightarrow> int \<Rightarrow> 'w stream \<Rightarrow> (stream_error, 'w stream) res" where
  "shift_checkpoint info paused_duration s = (case k_RateCheckpoint s of
      Some cp \<Rightarrow>
        (if cp_at cp \<le> si_paused_at info then
           and_then (ok_or (checked_u64 (cp_at cp + paused_duration)) (Err ArithmeticOverflow)) (\<lambda>at'.
           Inr (s\<lparr>k_RateCheckpoint := Some (cp\<lparr>cp_at := at'\<rparr>)\<rparr>))
         else Inr s)
    | None \<Rightarrow> Inr s)"

definition resume_body :: "'w env \<Rightarrow> address \<Rightarrow> 'w stream \<Rightarrow> (stream_error, unit \<times> 'w stream) res" where
  "resume_body e caller s0 =
     (let s1 = bump s0 in
      and_then (load s1) (\<lambda>info.
      and_then (assert_not_cancelled info) (\<lambda>_.
      if \<not> info_is_paused info then Inl (Err NotPaused) else
      and_then (require_sender_or_operator e s1 caller (si_sender info)) (\<lambda>_.
      let now = timestamp e in
      and_then (ok_or (checked_u64 (now - si_paused_at info)) (Err ArithmeticOverflow)) (\<lambda>paused_duration.
      and_then (shift_checkpoint info paused_duration s1) (\<lambda>s2.
      if MAX_PAUSE_SECS < paused_duration then Inl (Err PauseThresholdNotMet) else
      and_then (ok_or (checked_u64 (si_start_time info + paused_duration)) (Err ArithmeticOverflow)) (\<lambda>new_start.
      and_then (if 0 < si_end_time info
                then ok_or (checked_u64 (si_end_time info + paused_duration)) (Err ArithmeticOverflow)
                else Inr (si_end_time info)) (\<lambda>new_end.
      let s3 = save (info\<lparr>si_start_time := new_start, si_flags := si_flags info AND NOT FLAG_PAUSED,
                 si_paused_at := 0, si_end_time := new_end\<rparr>) s2;
          s4 = (if 0 < new_end then bump_for_remaining (sat_u64 (new_end - now)) s3 else s3) in
      and_then (events_resumed caller now s4) (\<lambda>s5. Inr ((), s5))))))))))"

definition resume :: "'w env \<Rightarrow> address \<Rightarrow> 'w stream \<Rightarrow> (stream_error, unit \<times> 'w stream) res" where
  "resume e caller = with_guard (resume_body e caller)"

section \<open>Rate changes\<close>

text \<open>The checkpoint \<^verbatim>\<open>(at, accrued)\<close> a rate change writes.\<close>

definition change_point :: "int \<Rightarrow> 'w stream \<Rightarrow> stream_info \<Rightarrow> int \<Rightarrow> int \<times> int" where
  "change_point now s info accrued =
     (let effective_change_time = (if info_is_paused info then si_paused_at info else now) in
      case k_CliffConfig s of
        Some cfg \<Rightarrow>
          (if effective_change_time < cc_cliff_time cfg
           then (cc_cliff_time cfg, cc_cliff_unlock_amount cfg)
           else (effective_change_time, accrued))
      | None \<Rightarrow>
          (if effective_change_time < si_start_time info then (si_start_time info, 0)
           else (effective_change_time, accrued)))"

definition change_rate_body ::
  "'w env \<Rightarrow> address \<Rightarrow> int \<Rightarrow> 'w stream \<Rightarrow> (stream_error, unit \<times> 'w stream) res" where
  "change_rate_body e caller new_rate_per_second s0 =
     (if new_rate_per_second \<le> 0 then Inl (Err InvalidAmount) else
      and_then (load s0) (\<lambda>info.
      and_then (assert_not_cancelled info) (\<lambda>_.
      and_then (require_sender_or_operator e s0 caller (si_sender info)) (\<lambda>_.
      let now = timestamp e in
      if 0 < si_end_time info \<and> si_end_time info \<le> now then Inl (Err StreamEnded) else
      and_then (streamed_amount now s0 info) (\<lambda>accrued.
      let (checkpoint_at, checkpoint_accrued) = change_point now s0 info accrued in
      and_then (if 0 < si_end_time info \<and> checkpoint_at < si_end_time info then
                  and_then (ok_or (checked_u64 (si_end_time info - checkpoint_at)) (Err ArithmeticOverflow)) (\<lambda>remaining.
                  and_then (ok_or (checked_i128 (new_rate_per_second * remaining)) (Err ArithmeticOverflow)) (\<lambda>future.
                  and_then (ok_or (checked_i128 (checkpoint_accrued + future)) (Err ArithmeticOverflow)) (\<lambda>_.
                  Inr ())))
                else Inr ()) (\<lambda>_.
      let s1 = bump s0;
          s2 = save (info\<lparr>si_rate_per_second := new_rate_per_second\<rparr>) s1;
          s3 = s2\<lparr>k_RateCheckpoint := Some \<lparr>cp_accrued = checkpoint_accrued, cp_at = checkpoint_at\<rparr>\<rparr> in
      and_then (events_rate_changed caller (si_rate_per_second info) new_rate_per_second s3) (\<lambda>s4.
      Inr ((), s4))))))))"

definition change_rate ::
  "'w env \<Rightarrow> address \<Rightarrow> int \<Rightarrow> 'w stream \<Rightarrow> (stream_error, unit \<times> 'w stream) res" where
  "change_rate e caller new_rate = with_guard (change_rate_body e caller new_rate)"

section \<open>Funding\<close>

definition top_up_body ::
  "'w env \<Rightarrow> address \<Rightarrow> int \<Rightarrow> 'w stream \<Rightarrow> (stream_error, unit \<times> 'w stream) res" where
  "top_up_body e caller amount s0 =
     (if amount \<le> 0 then Inl (Err InvalidAmount) else
      and_then (load s0) (\<lambda>info.
      and_then (require_auth e caller) (\<lambda>_.
      let s1 = bump s0 in
      and_then (assert_not_cancelled info) (\<lambda>_.
      let now = timestamp e in
      if 0 < si_end_time info \<and> si_end_time info \<le> now then Inl (Err StreamEnded) else
      and_then (add_cumulative_deposit e info amount s1) (\<lambda>s2.
      and_then (token_transfer e (si_token info) caller (contract_address e) amount s2) (\<lambda>s3.
      and_then (balance_call e (st_world s3) (si_token info) (contract_address e)) (\<lambda>new_balance.
      and_then (events_topped_up caller amount new_balance s3) (\<lambda>s4.
      Inr ((), s4)))))))))"

definition top_up ::
  "'w env \<Rightarrow> address \<Rightarrow> int \<Rightarrow> 'w stream \<Rightarrow> (stream_error, unit \<times> 'w stream) res" where
  "top_up e caller amount = with_guard (top_up_body e caller amount)"

definition extend_duration_body ::
  "'w env \<Rightarrow> address \<Rightarrow> int \<Rightarrow> 'w stream \<Rightarrow> (stream_error, unit \<times> 'w stream) res" where
  "extend_duration_body e caller extra_time_seconds s0 =
     (if extra_time_seconds = 0 then Inl (Err InvalidTimeRange) else
      let s1 = bump s0 in
      and_then (load s1) (\<lambda>info.
      and_then (assert_not_cancelled info) (\<lambda>_.
      and_then (require_sender_or_operator e s1 caller (si_sender info)) (\<lambda>_.
      if si_end_time info = 0 then Inl (Err InvalidTimeRange) else
      and_then (ok_or (checked_i128 (extra_time_seconds * si_rate_per_second info)) (Err ArithmeticOverflow)) (\<lambda>required_deposit.
      and_then (add_cumulative_deposit e info required_deposit s1) (\<lambda>s2.
      and_then (token_transfer e (si_token info) caller (contract_address e) required_deposit s2) (\<lambda>s3.
      and_then (ok_or (checked_u64 (si_end_time info + extra_time_seconds)) (Err ArithmeticOverflow)) (\<lambda>end_time.
      let s4 = save (info\<lparr>si_end_time := end_time\<rparr>) s3;
          s5 = bump_for_remaining (sat_u64 (end_time - timestamp e)) s4 in
      and_then (balance_call e (st_world s5) (si_token info) (contract_address e)) (\<lambda>new_balance.
      and_then (events_topped_up caller required_deposit new_balance s5) (\<lambda>s6.
      Inr ((), s6)))))))))))"

definition extend_duration ::
  "'w env \<Rightarrow> address \<Rightarrow> int \<Rightarrow> 'w stream \<Rightarrow> (stream_error, unit \<times> 'w stream) res" where
  "extend_duration e caller extra = with_guard (extend_duration_body e caller extra)"

definition top_up_and_extend_body ::
  "'w env \<Rightarrow> address \<Rightarrow> int \<Rightarrow> int \<Rightarrow> 'w stream \<Rightarrow> (stream_error, unit \<times> 'w stream) res" where
  "top_up_and_extend_body e caller amount extra_time_seconds s0 =
     (if amount \<le> 0 then Inl (Err InvalidAmount) else
      if extra_time_seconds = 0 then Inl (Err InvalidTimeRange) else
      and_then (load s0) (\<lambda>info.
      and_then (require_sender_or_operator e s0 caller (si_sender info)) (\<lambda>_.
      let s1 = bump s0 in
      and_then (assert_not_cancelled info) (\<lambda>_.
      if si_end_time info = 0 then Inl (Err InvalidTimeRange) else
      and_then (balance_call e (st_world s1) (si_token info) (contract_address e)) (\<lambda>old_balance.
      and_then (add_cumulative_deposit e info amount s1) (\<lambda>s2.
      and_then (token_transfer e (si_token info) caller (contract_address e) amount s2) (\<lambda>s3.
      and_then (ok_or (checked_u64 (si_end_time info + extra_time_seconds)) (Err ArithmeticOverflow)) (\<lambda>new_end_time.
      let s4 = save (info\<lparr>si_end_time := new_end_time\<rparr>) s3;
          s5 = bump_for_remaining (sat_u64 (new_end_time - timestamp e)) s4 in
      and_then (balance_call e (st_world s5) (si_token info) (contract_address e)) (\<lambda>new_balance.
      and_then (events_topped_up_and_extended caller old_balance new_balance
                  (si_end_time info) new_end_time s5) (\<lambda>s6.
      Inr ((), s6)))))))))))"

definition top_up_and_extend ::
  "'w env \<Rightarrow> address \<Rightarrow> int \<Rightarrow> int \<Rightarrow> 'w stream \<Rightarrow> (stream_error, unit \<times> 'w stream) res" where
  "top_up_and_extend e caller amount extra = with_guard (top_up_and_extend_body e caller amount extra)"

section \<open>Clawback\<close>

definition clawback_body :: "'w env \<Rightarrow> address \<Rightarrow> 'w stream \<Rightarrow> (stream_error, int \<times> 'w stream) res" where
  "clawback_body e caller s0 =
     (let s1 = bump s0 in
      and_then (load s1) (\<lambda>info.
      and_then (assert_not_cancelled info) (\<lambda>_.
      and_then (stream_require_not_paused info) (\<lambda>_.
      if \<not> info_is_clawback_enabled info then Inl (Err ClawbackDisabled) else
      and_then (require_sender_or_operator e s1 caller (si_sender info)) (\<lambda>_.
      and_then (streamed_amount (timestamp e) s1 info) (\<lambda>streamed.
      and_then (plain_i128 (streamed - si_withdrawn info)) (\<lambda>diff.
      let owed = max diff 0 in
      and_then (balance_call e (st_world s1) (si_token info) (contract_address e)) (\<lambda>balance.
      and_then (plain_i128 (balance - owed)) (\<lambda>rest.
      let amount = max rest 0 in
      and_then (if 0 < amount
                then token_transfer e (si_token info) (contract_address e) (si_sender info) amount s1
                else Inr s1) (\<lambda>s2.
      and_then (events_clawback caller amount s2) (\<lambda>s3.
      Inr (amount, s3))))))))))))"

definition clawback :: "'w env \<Rightarrow> address \<Rightarrow> 'w stream \<Rightarrow> (stream_error, int \<times> 'w stream) res" where
  "clawback e caller = with_guard (clawback_body e caller)"

end
