(* ===== verification/Stream_Admin.thy ===== *)
theory Stream_Admin
  imports Stream_Ops
begin

text \<open>
  The remaining entry points of \<^verbatim>\<open>contracts/stream/src/lib.rs\<close>: the emergency
  flag, the keeper reward pool, recipient and operator management, payout split,
  cliff, rate limit and labels, and the read-only views.
\<close>

section \<open>Emergency flag\<close>

definition is_emergency_paused :: "'w env \<Rightarrow> 'w stream \<Rightarrow> bool \<times> 'w stream" where
  "is_emergency_paused e s =
     (let (p, slot) = is_paused (timestamp e) (k_EmergencyPaused s) in (p, s\<lparr>k_EmergencyPaused := slot\<rparr>))"

text \<open>The result of \<^verbatim>\<open>set_paused\<close> is discarded, as in \<^verbatim>\<open>let _ = ...\<close>.\<close>

definition write_emergency :: "'w env \<Rightarrow> bool \<Rightarrow> 'w stream \<Rightarrow> (stream_error, 'w stream) res" where
  "write_emergency e p s =
     and_then (ignore_err (k_EmergencyPaused s) (set_paused (timestamp e) p (k_EmergencyPaused s))) (\<lambda>slot.
     Inr (s\<lparr>k_EmergencyPaused := slot\<rparr>))"

definition emergency_pause :: "'w env \<Rightarrow> address \<Rightarrow> 'w stream \<Rightarrow> (stream_error, 'w stream) res" where
  "emergency_pause e caller s =
     and_then (require_auth e caller) (\<lambda>_.
     let (p, s1) = is_emergency_paused e s in
     if p then Inl (Err AlreadyPaused) else
     and_then (write_emergency e True (bump s1)) (\<lambda>s2.
     events_emergency_paused caller (timestamp e) s2))"

definition emergency_unpause :: "'w env \<Rightarrow> address \<Rightarrow> 'w stream \<Rightarrow> (stream_error, 'w stream) res" where
  "emergency_unpause e caller s =
     and_then (require_auth e caller) (\<lambda>_.
     let (p, s1) = is_emergency_paused e s in
     if \<not> p then Inl (Err NotPaused) else
     and_then (write_emergency e False (bump s1)) (\<lambda>s2.
     events_emergency_unpaused caller (timestamp e) s2))"

section \<open>Keeper reward pool\<close>

definition configure_keeper_pool_body ::
  "'w env \<Rightarrow> address \<Rightarrow> address \<Rightarrow> int \<Rightarrow> 'w stream \<Rightarrow> (stream_error, unit \<times> 'w stream) res" where
  "configure_keeper_pool_body e caller reward_token reward_per_ping s =
     and_then (load s) (\<lambda>info.
     and_then (require_sender_or_operator e s caller (si_sender info)) (\<lambda>_.
     and_then (assert_not_cancelled info) (\<lambda>_.
     if reward_per_ping \<le> 0 then Inl (Err InvalidAmount) else
     if is_zero_address reward_token \<or> reward_token = si_token info
       then Inl (Err InvalidKeeperRewardToken) else
     if tok_balance (tokens e) (st_world s) reward_token (contract_address e) = None
       then Inl (Err InvalidKeeperRewardToken) else
     and_then (case k_KeeperRewardPool s of
                 Some pool \<Rightarrow>
                   (if kp_token pool \<noteq> reward_token then Inl (Err InvalidKeeperRewardToken)
                    else Inr (kp_balance pool))
               | None \<Rightarrow> Inr 0) (\<lambda>balance.
     let s1 = (bump s)\<lparr>k_KeeperRewardPool := Some \<lparr>kp_token = reward_token,
                 kp_reward_per_ping = reward_per_ping, kp_balance = balance\<rparr>\<rparr> in
     and_then (events_keeper_reward_pool_configured caller reward_token reward_per_ping s1) (\<lambda>s2.
     Inr ((), s2))))))"

definition stream_configure_keeper_reward_pool ::
  "'w env \<Rightarrow> address \<Rightarrow> address \<Rightarrow> int \<Rightarrow> 'w stream \<Rightarrow> (stream_error, unit \<times> 'w stream) res" where
  "stream_configure_keeper_reward_pool e caller reward_token reward_per_ping =
     with_guard (configure_keeper_pool_body e caller reward_token reward_per_ping)"

definition fund_keeper_pool_body ::
  "'w env \<Rightarrow> address \<Rightarrow> int \<Rightarrow> 'w stream \<Rightarrow> (stream_error, unit \<times> 'w stream) res" where
  "fund_keeper_pool_body e caller amount s =
     and_then (load s) (\<lambda>info.
     and_then (require_sender_or_operator e s caller (si_sender info)) (\<lambda>_.
     and_then (assert_not_cancelled info) (\<lambda>_.
     if amount \<le> 0 then Inl (Err InvalidAmount) else
     and_then (ok_or (k_KeeperRewardPool s) (Err KeeperRewardPoolNotConfigured)) (\<lambda>pool.
     and_then (ok_or (checked_i128 (kp_balance pool + amount)) (Err ArithmeticOverflow)) (\<lambda>new_pool_balance.
     let me = contract_address e in
     and_then (balance_call e (st_world s) (kp_token pool) me) (\<lambda>b.
     and_then (ok_or (checked_i128 (b + amount)) (Err ArithmeticOverflow)) (\<lambda>expected_token_balance.
     let s1 = bump (s\<lparr>k_KeeperRewardPool := Some (pool\<lparr>kp_balance := new_pool_balance\<rparr>)\<rparr>) in
     and_then (token_transfer e (kp_token pool) caller me amount s1) (\<lambda>s2.
     and_then (balance_call e (st_world s2) (kp_token pool) me) (\<lambda>b2.
     if b2 \<noteq> expected_token_balance then Inl (Err KeeperRewardTransferFailed) else
     and_then (events_keeper_reward_pool_funded caller (kp_token pool) amount s2) (\<lambda>s3.
     Inr ((), s3)))))))))))"

definition stream_fund_keeper_reward_pool ::
  "'w env \<Rightarrow> address \<Rightarrow> int \<Rightarrow> 'w stream \<Rightarrow> (stream_error, unit \<times> 'w stream) res" where
  "stream_fund_keeper_reward_pool e caller amount = with_guard (fund_keeper_pool_body e caller amount)"

definition withdraw_keeper_pool_body ::
  "'w env \<Rightarrow> address \<Rightarrow> int \<Rightarrow> 'w stream \<Rightarrow> (stream_error, unit \<times> 'w stream) res" where
  "withdraw_keeper_pool_body e caller amount s =
     and_then (load s) (\<lambda>info.
     and_then (require_sender_or_operator e s caller (si_sender info)) (\<lambda>_.
     if amount \<le> 0 then Inl (Err InvalidAmount) else
     and_then (ok_or (k_KeeperRewardPool s) (Err KeeperRewardPoolNotConfigured)) (\<lambda>pool.
     and_then (ok_or (checked_i128 (kp_balance pool - amount)) (Err InsufficientKeeperRewardPool)) (\<lambda>pool_balance.
     let me = contract_address e in
     and_then (balance_call e (st_world s) (kp_token pool) me) (\<lambda>contract_balance.
     and_then (ok_or (checked_i128 (contract_balance - amount)) (Err InsufficientKeeperRewardPool)) (\<lambda>expected_balance.
     and_then (balance_call e (st_world s) (kp_token pool) caller) (\<lambda>cb.
     and_then (ok_or (checked_i128 (cb + amount)) (Err ArithmeticOverflow)) (\<lambda>expected_caller_balance.
     let s1 = bump (s\<lparr>k_KeeperRewardPool := Some (pool\<lparr>kp_balance := pool_balance\<rparr>)\<rparr>) in
     and_then (token_transfer e (kp_token pool) me caller amount s1) (\<lambda>s2.
     and_then (balance_call e (st_world s2) (kp_token pool) me) (\<lambda>b2.
     and_then (if b2 \<noteq> expected_balance then Inr True
               else and_then (balance_call e (st_world s2) (kp_token pool) caller) (\<lambda>c2.
                    Inr (c2 \<noteq> expected_caller_balance))) (\<lambda>wrong.
     if wrong then Inl (Err KeeperRewardTransferFailed) else
     and_then (events_keeper_reward_pool_withdrawn caller (kp_token pool) amount s2) (\<lambda>s3.
     Inr ((), s3)))))))))))))"

definition withdraw_keeper_reward_pool ::
  "'w env \<Rightarrow> address \<Rightarrow> int \<Rightarrow> 'w stream \<Rightarrow> (stream_error, unit \<times> 'w stream) res" where
  "withdraw_keeper_reward_pool e caller amount = with_guard (withdraw_keeper_pool_body e caller amount)"

definition keeper_ping_body ::
  "'w env \<Rightarrow> address \<Rightarrow> 'w stream \<Rightarrow> (stream_error, int \<times> 'w stream) res" where
  "keeper_ping_body e keeper s =
     and_then (require_auth e keeper) (\<lambda>_.
     and_then (load s) (\<lambda>info.
     and_then (assert_not_cancelled info) (\<lambda>_.
     and_then (ok_or (k_KeeperRewardPool s) (Err KeeperRewardPoolNotConfigured)) (\<lambda>pool.
     if kp_balance pool < kp_reward_per_ping pool then Inl (Err InsufficientKeeperRewardPool) else
     let ledger = sequence e in
     if (case k_LastKeeperPingLedger s of
           Some last_ping \<Rightarrow> ledger < sat_u32 (last_ping + MIN_TTL_LEDGERS) | None \<Rightarrow> False)
       then Inl (Err KeeperPingTooFrequent) else
     let bounty_amount = kp_reward_per_ping pool in
     and_then (ok_or (checked_i128 (kp_balance pool - bounty_amount)) (Err ArithmeticOverflow)) (\<lambda>pool_balance.
     let s1 = s\<lparr>k_KeeperRewardPool := Some (pool\<lparr>kp_balance := pool_balance\<rparr>),
                k_LastKeeperPingLedger := Some ledger\<rparr>;
         remaining_secs = (if 0 < si_end_time info then sat_u64 (si_end_time info - timestamp e) else 0);
         s2 = bump_for_remaining remaining_secs s1;
         me = contract_address e in
     and_then (balance_call e (st_world s2) (kp_token pool) me) (\<lambda>b.
     and_then (ok_or (checked_i128 (b - bounty_amount)) (Err InsufficientKeeperRewardPool)) (\<lambda>expected_balance.
     and_then (balance_call e (st_world s2) (kp_token pool) keeper) (\<lambda>kb.
     and_then (ok_or (checked_i128 (kb + bounty_amount)) (Err ArithmeticOverflow)) (\<lambda>expected_keeper_balance.
     and_then (token_transfer e (kp_token pool) me keeper bounty_amount s2) (\<lambda>s3.
     and_then (balance_call e (st_world s3) (kp_token pool) me) (\<lambda>b2.
     and_then (if b2 \<noteq> expected_balance then Inr True
               else and_then (balance_call e (st_world s3) (kp_token pool) keeper) (\<lambda>k2.
                    Inr (k2 \<noteq> expected_keeper_balance))) (\<lambda>wrong.
     if wrong then Inl (Err KeeperRewardTransferFailed) else
     and_then (events_keeper_ping keeper bounty_amount s3) (\<lambda>s4.
     Inr (bounty_amount, s4))))))))))))))"

definition keeper_ping :: "'w env \<Rightarrow> address \<Rightarrow> 'w stream \<Rightarrow> (stream_error, int \<times> 'w stream) res" where
  "keeper_ping e keeper = with_guard (keeper_ping_body e keeper)"

section \<open>Recipient and operator\<close>

definition transfer_recipient_body ::
  "'w env \<Rightarrow> address \<Rightarrow> 'w stream \<Rightarrow> (stream_error, unit \<times> 'w stream) res" where
  "transfer_recipient_body e new_recipient s0 =
     (let s1 = bump s0 in
      and_then (load s1) (\<lambda>info.
      and_then (assert_not_cancelled info) (\<lambda>_.
      and_then (require_auth e (si_recipient info)) (\<lambda>_.
      if is_zero_address new_recipient \<or> new_recipient = si_recipient info
        then Inl (Err InvalidRecipient) else
      if 0 < si_end_time info \<and> si_end_time info \<le> timestamp e then Inl (Err StreamEnded) else
      let s2 = (save (info\<lparr>si_recipient := new_recipient\<rparr>) s1)\<lparr>k_AutoForwardAddress := None\<rparr> in
      and_then (events_recipient_transferred (si_recipient info) new_recipient s2) (\<lambda>s3.
      Inr ((), s3))))))"

definition transfer_recipient ::
  "'w env \<Rightarrow> address \<Rightarrow> 'w stream \<Rightarrow> (stream_error, unit \<times> 'w stream) res" where
  "transfer_recipient e new_recipient = with_guard (transfer_recipient_body e new_recipient)"

definition set_auto_forward_body ::
  "'w env \<Rightarrow> address \<Rightarrow> 'w stream \<Rightarrow> (stream_error, unit \<times> 'w stream) res" where
  "set_auto_forward_body e addr s0 =
     (let s1 = bump s0 in
      and_then (load s1) (\<lambda>info.
      and_then (assert_not_cancelled info) (\<lambda>_.
      and_then (require_auth e (si_recipient info)) (\<lambda>_.
      if is_zero_address addr then Inl (Err InvalidRecipient) else
      if addr = si_recipient info then Inr ((), s1\<lparr>k_AutoForwardAddress := None\<rparr>)
      else Inr ((), s1\<lparr>k_AutoForwardAddress := Some addr\<rparr>)))))"

definition set_auto_forward_address ::
  "'w env \<Rightarrow> address \<Rightarrow> 'w stream \<Rightarrow> (stream_error, unit \<times> 'w stream) res" where
  "set_auto_forward_address e addr = with_guard (set_auto_forward_body e addr)"

definition set_operator ::
  "'w env \<Rightarrow> address \<Rightarrow> address \<Rightarrow> 'w stream \<Rightarrow> (stream_error, 'w stream) res" where
  "set_operator e caller op s =
     and_then (load s) (\<lambda>info.
     and_then (assert_not_cancelled info) (\<lambda>_.
     if caller \<noteq> si_sender info then Inl (Err NotAuthorized) else
     and_then (require_auth e caller) (\<lambda>_.
     let s1 = bump s in
     (case k_Operator s1 of
        Some existing \<Rightarrow>
          (if existing = op then Inr s1 else
           and_then (events_operator_revoked caller s1) (\<lambda>s2.
           events_operator_set caller op (s2\<lparr>k_Operator := Some op\<rparr>)))
      | None \<Rightarrow> events_operator_set caller op (s1\<lparr>k_Operator := Some op\<rparr>)))))"

definition revoke_operator ::
  "'w env \<Rightarrow> address \<Rightarrow> 'w stream \<Rightarrow> (stream_error, 'w stream) res" where
  "revoke_operator e caller s =
     and_then (load s) (\<lambda>info.
     and_then (assert_not_cancelled info) (\<lambda>_.
     if caller \<noteq> si_sender info then Inl (Err NotAuthorized) else
     and_then (require_auth e caller) (\<lambda>_.
     events_operator_revoked caller ((bump s)\<lparr>k_Operator := None\<rparr>))))"

section \<open>Payout split\<close>

text \<open>Sender, operator and recipient may change the split.\<close>

definition is_stream_party :: "'w stream \<Rightarrow> stream_info \<Rightarrow> address \<Rightarrow> bool" where
  "is_stream_party s info caller \<longleftrightarrow>
     caller = si_sender info \<or> k_Operator s = Some caller \<or> caller = si_recipient info"

definition set_split_recipient_body ::
  "'w env \<Rightarrow> address \<Rightarrow> address \<Rightarrow> int \<Rightarrow> 'w stream \<Rightarrow> (stream_error, unit \<times> 'w stream) res" where
  "set_split_recipient_body e caller secondary_recipient split_bps s0 =
     (let s1 = bump s0 in
      and_then (load s1) (\<lambda>info.
      and_then (assert_not_cancelled info) (\<lambda>_.
      if \<not> is_stream_party s1 info caller then Inl (Err NotAuthorized) else
      and_then (require_auth e caller) (\<lambda>_.
      if split_bps = 0 \<or> 10000 \<le> split_bps then Inl (Err InvalidAmount) else
      if is_zero_address secondary_recipient \<or> secondary_recipient = si_sender info \<or>
         secondary_recipient = si_recipient info then Inl (Err InvalidRecipient) else
      let s2 = s1\<lparr>k_SplitConfig := Some \<lparr>sp_secondary_recipient = secondary_recipient,
                  sp_split_bps = split_bps\<rparr>\<rparr> in
      and_then (events_split_recipient_set caller secondary_recipient split_bps s2) (\<lambda>s3.
      Inr ((), s3))))))"

definition set_split_recipient ::
  "'w env \<Rightarrow> address \<Rightarrow> address \<Rightarrow> int \<Rightarrow> 'w stream \<Rightarrow> (stream_error, unit \<times> 'w stream) res" where
  "set_split_recipient e caller sec bps = with_guard (set_split_recipient_body e caller sec bps)"

definition remove_split_recipient_body ::
  "'w env \<Rightarrow> address \<Rightarrow> 'w stream \<Rightarrow> (stream_error, unit \<times> 'w stream) res" where
  "remove_split_recipient_body e caller s0 =
     (let s1 = bump s0 in
      and_then (load s1) (\<lambda>info.
      and_then (assert_not_cancelled info) (\<lambda>_.
      if \<not> is_stream_party s1 info caller then Inl (Err NotAuthorized) else
      and_then (require_auth e caller) (\<lambda>_.
      and_then (events_split_recipient_removed caller (s1\<lparr>k_SplitConfig := None\<rparr>)) (\<lambda>s2.
      Inr ((), s2))))))"

definition remove_split_recipient ::
  "'w env \<Rightarrow> address \<Rightarrow> 'w stream \<Rightarrow> (stream_error, unit \<times> 'w stream) res" where
  "remove_split_recipient e caller = with_guard (remove_split_recipient_body e caller)"

section \<open>Labels\<close>

definition set_stream_title ::
  "'w env \<Rightarrow> address \<Rightarrow> string \<Rightarrow> 'w stream \<Rightarrow> (stream_error, 'w stream) res" where
  "set_stream_title e caller title s =
     and_then (load s) (\<lambda>info.
     and_then (assert_not_cancelled info) (\<lambda>_.
     if caller \<noteq> si_sender info then Inl (Err NotAuthorized) else
     and_then (require_auth e caller) (\<lambda>_.
     Inr ((bump s)\<lparr>k_StreamTitle := Some title\<rparr>))))"

definition set_reference_tag ::
  "'w env \<Rightarrow> address \<Rightarrow> string \<Rightarrow> 'w stream \<Rightarrow> (stream_error, 'w stream) res" where
  "set_reference_tag e caller tag s =
     and_then (load s) (\<lambda>info.
     and_then (assert_not_cancelled info) (\<lambda>_.
     if caller \<noteq> si_sender info then Inl (Err NotAuthorized) else
     and_then (require_auth e caller) (\<lambda>_.
     Inr ((bump s)\<lparr>k_ReferenceTag := Some tag\<rparr>))))"

text \<open>
  The two metadata URIs are stored under keys of their own;
  \<^verbatim>\<open>storage.rs\<close> does not declare the variants the code names.
\<close>

definition set_invoice_metadata_uri ::
  "'w env \<Rightarrow> address \<Rightarrow> string \<Rightarrow> 'w stream \<Rightarrow> (stream_error, 'w stream) res" where
  "set_invoice_metadata_uri e caller uri s =
     and_then (load s) (\<lambda>info.
     and_then (assert_not_cancelled info) (\<lambda>_.
     if caller \<noteq> si_sender info then Inl (Err NotAuthorized) else
     and_then (require_auth e caller) (\<lambda>_.
     Inr ((bump s)\<lparr>k_InvoiceMetadataUri := Some uri\<rparr>))))"

definition set_milestone_metadata_uri ::
  "'w env \<Rightarrow> address \<Rightarrow> string \<Rightarrow> 'w stream \<Rightarrow> (stream_error, 'w stream) res" where
  "set_milestone_metadata_uri e caller uri s =
     and_then (load s) (\<lambda>info.
     and_then (assert_not_cancelled info) (\<lambda>_.
     if caller \<noteq> si_sender info then Inl (Err NotAuthorized) else
     and_then (require_auth e caller) (\<lambda>_.
     Inr ((bump s)\<lparr>k_MilestoneMetadataUri := Some uri\<rparr>))))"

section \<open>Cliff, rate limit and cancelability\<close>

definition set_cliff_body ::
  "'w env \<Rightarrow> address \<Rightarrow> int \<Rightarrow> int \<Rightarrow> 'w stream \<Rightarrow> (stream_error, unit \<times> 'w stream) res" where
  "set_cliff_body e caller cliff_time cliff_unlock_amount s0 =
     (let s1 = bump s0 in
      and_then (load s1) (\<lambda>info.
      and_then (assert_not_cancelled info) (\<lambda>_.
      and_then (require_sender_or_operator e s1 caller (si_sender info)) (\<lambda>_.
      if cliff_unlock_amount < 0 then Inl (Err InvalidAmount) else
      if cliff_time < si_start_time info \<or> (0 < si_end_time info \<and> si_end_time info < cliff_time)
        then Inl (Err InvalidTimeRange) else
      let s2 = s1\<lparr>k_CliffConfig := Some \<lparr>cc_cliff_time = cliff_time,
                  cc_cliff_unlock_amount = cliff_unlock_amount\<rparr>\<rparr> in
      and_then (events_cliff_configured caller cliff_time cliff_unlock_amount s2) (\<lambda>s3.
      Inr ((), s3))))))"

definition set_cliff ::
  "'w env \<Rightarrow> address \<Rightarrow> int \<Rightarrow> int \<Rightarrow> 'w stream \<Rightarrow> (stream_error, unit \<times> 'w stream) res" where
  "set_cliff e caller cliff_time amount = with_guard (set_cliff_body e caller cliff_time amount)"

definition set_min_withdrawal_interval_body ::
  "'w env \<Rightarrow> address \<Rightarrow> int \<Rightarrow> 'w stream \<Rightarrow> (stream_error, unit \<times> 'w stream) res" where
  "set_min_withdrawal_interval_body e caller interval_seconds s0 =
     (let s1 = bump s0 in
      and_then (load s1) (\<lambda>info.
      and_then (assert_not_cancelled info) (\<lambda>_.
      and_then (require_sender_or_operator e s1 caller (si_sender info)) (\<lambda>_.
      let s2 = s1\<lparr>k_MinWithdrawalInterval := Some interval_seconds\<rparr> in
      and_then (events_min_withdrawal_interval_set caller interval_seconds s2) (\<lambda>s3.
      Inr ((), s3))))))"

definition set_min_withdrawal_interval ::
  "'w env \<Rightarrow> address \<Rightarrow> int \<Rightarrow> 'w stream \<Rightarrow> (stream_error, unit \<times> 'w stream) res" where
  "set_min_withdrawal_interval e caller n = with_guard (set_min_withdrawal_interval_body e caller n)"

definition set_stream_config_body ::
  "'w env \<Rightarrow> address \<Rightarrow> stream_config \<Rightarrow> 'w stream \<Rightarrow> (stream_error, unit \<times> 'w stream) res" where
  "set_stream_config_body e caller cfg s0 =
     (let s1 = bump s0 in
      and_then (load s1) (\<lambda>info.
      and_then (assert_not_cancelled info) (\<lambda>_.
      and_then (require_sender_or_operator e s1 caller (si_sender info)) (\<lambda>_.
      Inr ((), s1\<lparr>k_StreamConfig := Some cfg\<rparr>)))))"

definition set_stream_config ::
  "'w env \<Rightarrow> address \<Rightarrow> stream_config \<Rightarrow> 'w stream \<Rightarrow> (stream_error, unit \<times> 'w stream) res" where
  "set_stream_config e caller cfg = with_guard (set_stream_config_body e caller cfg)"

definition set_cancelable ::
  "'w env \<Rightarrow> address \<Rightarrow> bool \<Rightarrow> 'w stream \<Rightarrow> (stream_error, unit \<times> 'w stream) res" where
  "set_cancelable e caller b = set_stream_config e caller \<lparr>sc_is_cancelable = b\<rparr>"

section \<open>Read-only views\<close>

definition withdrawable :: "'w env \<Rightarrow> 'w stream \<Rightarrow> (stream_error, int) res" where
  "withdrawable e s =
     and_then (load s) (\<lambda>info.
     if info_is_cancelled info then Inr 0 else math_withdrawable (timestamp e) s info)"

definition clawback_enabled_view :: "'w stream \<Rightarrow> (stream_error, bool) res" where
  "clawback_enabled_view s = and_then (load s) (\<lambda>info. Inr (info_is_clawback_enabled info))"

definition cumulative_deposited :: "'w env \<Rightarrow> 'w stream \<Rightarrow> (stream_error, int) res" where
  "cumulative_deposited e s = and_then (try_load s) (\<lambda>info. stored_cumulative_deposited e s info)"

definition streamed_total :: "'w env \<Rightarrow> 'w stream \<Rightarrow> (stream_error, int) res" where
  "streamed_total e s =
     and_then (load s) (\<lambda>info.
     if info_is_cancelled info then Inr 0 else streamed_amount (timestamp e) s info)"

definition is_open_ended :: "'w stream \<Rightarrow> (stream_error, bool) res" where
  "is_open_ended s = and_then (load s) (\<lambda>info. Inr (si_end_time info = 0))"

definition event_sequence_view :: "'w stream \<Rightarrow> (stream_error, int) res" where
  "event_sequence_view s = and_then (load s) (\<lambda>info. Inr (si_event_sequence info))"

definition storage_version :: "'w stream \<Rightarrow> int" where
  "storage_version s = (case k_StorageVersion s of Some v \<Rightarrow> v | None \<Rightarrow> 0)"

definition get_summary :: "'w env \<Rightarrow> 'w stream \<Rightarrow> (stream_error, stream_summary) res" where
  "get_summary e s =
     and_then (load s) (\<lambda>info.
     let now = timestamp e;
         status =
           (if info_is_cancelled info then Cancelled
            else if info_is_paused info then Paused
            else if now < si_start_time info then Pending
            else if 0 < si_end_time info \<and> si_end_time info \<le> now then Completed
            else Active) in
     and_then (case streamed_total e s of
                 Inr v \<Rightarrow> Inr v | Inl (Err _) \<Rightarrow> Inr 0 | Inl f \<Rightarrow> Inl f) (\<lambda>streamed.
     and_then (if si_start_time info < si_end_time info
               then plain_i128 ((si_end_time info - si_start_time info) * si_rate_per_second info)
               else and_then (balance_call e (st_world s) (si_token info) (contract_address e)) (\<lambda>b.
                    plain_i128 (b + si_withdrawn info))) (\<lambda>total_amount.
     Inr \<lparr>sm_sender = si_sender info, sm_recipient = si_recipient info, sm_token = si_token info,
          sm_total_amount = total_amount, sm_streamed_amount = streamed, sm_status = status,
          sm_start_time = si_start_time info, sm_stop_time = si_end_time info\<rparr>)))"

definition min_withdrawal_interval :: "'w stream \<Rightarrow> int" where
  "min_withdrawal_interval s = (case k_MinWithdrawalInterval s of Some n \<Rightarrow> n | None \<Rightarrow> 0)"

definition last_withdrawal_time :: "'w stream \<Rightarrow> int" where
  "last_withdrawal_time s = (case k_LastWithdrawalTime s of Some n \<Rightarrow> n | None \<Rightarrow> 0)"

definition immutable_config_view :: "'w stream \<Rightarrow> (stream_error, immutable_config) res" where
  "immutable_config_view s = (case k_ImmutableConfig s of
      Some cfg \<Rightarrow> Inr cfg
    | None \<Rightarrow>
        and_then (try_load s) (\<lambda>info.
        Inr \<lparr>ic_start_time = si_start_time info, ic_stop_time = si_end_time info,
             ic_token = si_token info, ic_rate_per_second = si_rate_per_second info,
             ic_sender = si_sender info, ic_recipient = si_recipient info\<rparr>))"

definition is_cancelable :: "'w stream \<Rightarrow> bool" where
  "is_cancelable s = (case k_StreamConfig s of Some cfg \<Rightarrow> sc_is_cancelable cfg | None \<Rightarrow> True)"

text \<open>The getters: a storage entry as it is, or a field of the record.\<close>

definition keeper_reward_pool_view :: "'w stream \<Rightarrow> stream_keeper_reward_pool option" where
  "keeper_reward_pool_view s = k_KeeperRewardPool s"

definition operator_view :: "'w stream \<Rightarrow> address option" where
  "operator_view s = k_Operator s"

definition split_recipient_view :: "'w stream \<Rightarrow> split_config option" where
  "split_recipient_view s = k_SplitConfig s"

definition description_view :: "'w stream \<Rightarrow> string option" where
  "description_view s = k_StreamDescription s"

definition stream_title_view :: "'w stream \<Rightarrow> string option" where
  "stream_title_view s = k_StreamTitle s"

definition reference_tag_view :: "'w stream \<Rightarrow> string option" where
  "reference_tag_view s = k_ReferenceTag s"

definition invoice_metadata_uri_view :: "'w stream \<Rightarrow> string option" where
  "invoice_metadata_uri_view s = k_InvoiceMetadataUri s"

definition milestone_metadata_uri_view :: "'w stream \<Rightarrow> string option" where
  "milestone_metadata_uri_view s = k_MilestoneMetadataUri s"

definition cliff_config_view :: "'w stream \<Rightarrow> cliff_config option" where
  "cliff_config_view s = k_CliffConfig s"

definition stream_config_view :: "'w stream \<Rightarrow> stream_config option" where
  "stream_config_view s = k_StreamConfig s"

definition info_view :: "'w stream \<Rightarrow> (stream_error, stream_info) res" where
  "info_view s = load s"

definition sender_view :: "'w stream \<Rightarrow> (stream_error, address) res" where
  "sender_view s = and_then (load s) (\<lambda>info. Inr (si_sender info))"

definition recipient_view :: "'w stream \<Rightarrow> (stream_error, address) res" where
  "recipient_view s = and_then (load s) (\<lambda>info. Inr (si_recipient info))"

definition token_view :: "'w stream \<Rightarrow> (stream_error, address) res" where
  "token_view s = and_then (load s) (\<lambda>info. Inr (si_token info))"

definition rate_per_second_view :: "'w stream \<Rightarrow> (stream_error, int) res" where
  "rate_per_second_view s = and_then (load s) (\<lambda>info. Inr (si_rate_per_second info))"

definition total_streamed :: "'w env \<Rightarrow> 'w stream \<Rightarrow> (stream_error, int) res" where
  "total_streamed e s = streamed_total e s"

definition get_stream_summary :: "'w env \<Rightarrow> 'w stream \<Rightarrow> (stream_error, stream_summary) res" where
  "get_stream_summary e s = get_summary e s"

definition get_immutable_config :: "'w stream \<Rightarrow> (stream_error, immutable_config) res" where
  "get_immutable_config s = immutable_config_view s"

definition max_pause_secs :: int where
  "max_pause_secs = MAX_PAUSE_SECS"

text \<open>A label that was set is read back, and setting one leaves the others alone.\<close>

lemma labels_read_back:
  "set_stream_title e a x s = Inr s' \<Longrightarrow> stream_title_view s' = Some x \<and> reference_tag_view s' = reference_tag_view s \<and>
     invoice_metadata_uri_view s' = invoice_metadata_uri_view s \<and> milestone_metadata_uri_view s' = milestone_metadata_uri_view s"
  "set_reference_tag e a x s = Inr s' \<Longrightarrow> reference_tag_view s' = Some x \<and> stream_title_view s' = stream_title_view s \<and>
     invoice_metadata_uri_view s' = invoice_metadata_uri_view s \<and> milestone_metadata_uri_view s' = milestone_metadata_uri_view s"
  "set_invoice_metadata_uri e a x s = Inr s' \<Longrightarrow> invoice_metadata_uri_view s' = Some x \<and>
     milestone_metadata_uri_view s' = milestone_metadata_uri_view s \<and>
     stream_title_view s' = stream_title_view s \<and> reference_tag_view s' = reference_tag_view s"
  "set_milestone_metadata_uri e a x s = Inr s' \<Longrightarrow> milestone_metadata_uri_view s' = Some x \<and>
     invoice_metadata_uri_view s' = invoice_metadata_uri_view s \<and>
     stream_title_view s' = stream_title_view s \<and> reference_tag_view s' = reference_tag_view s"
  by (auto simp: set_stream_title_def set_reference_tag_def set_invoice_metadata_uri_def set_milestone_metadata_uri_def
      stream_title_view_def reference_tag_view_def invoice_metadata_uri_view_def milestone_metadata_uri_view_def
      and_then_eq_Inr if_Inl_eq_Inr bump_def)

end
