(* ===== verification/Stream_Settlement.thy ===== *)
theory Stream_Settlement
  imports Stream_Admin
begin

text \<open>
  What the paying operations of a stream do to the token ledgers: withdrawal,
  cancellation, forced cancellation and clawback.  The token contracts are
  assumed to behave as documented (\<open>sep41\<close>).
\<close>

section \<open>Payments\<close>

lemma token_transfer_eq_Inr [res_simps]:
  "token_transfer e tok src dst amt s = Inr s' \<longleftrightarrow>
     (\<exists>w. tok_transfer (tokens e) (st_world s) tok src dst amt = Some w \<and> s' = s\<lparr>st_world := w\<rparr>)"
  by (auto simp: token_transfer_def res_simps)

text \<open>A transfer that is skipped when the amount is zero.\<close>

lemma optional_transfer_effect:
  assumes "sep41 e" and "0 \<le> amt"
    and "(if 0 < amt then token_transfer e tok src dst amt s else Inr s) = Inr s'"
  shows "\<exists>w. s' = s\<lparr>st_world := w\<rparr> \<and> bal_of e w = moved (bal_of e (st_world s)) tok src dst amt"
proof (cases "0 < amt")
  case True
  then obtain w where "tok_transfer (tokens e) (st_world s) tok src dst amt = Some w"
    and s': "s' = s\<lparr>st_world := w\<rparr>"
    using assms(3) by (auto simp: token_transfer_eq_Inr)
  then have "bal_of e w = moved (bal_of e (st_world s)) tok src dst amt"
    using sep41_transfer(3) [OF assms(1)] by blast
  with s' show ?thesis by blast
next
  case False
  then have "amt = 0" and "s' = s\<lparr>st_world := st_world s\<rparr>" using assms(2,3) by simp_all
  then show ?thesis by (metis moved_zero)
qed

text \<open>The primary and secondary share of a payout.\<close>

definition split_shares :: "'w stream \<Rightarrow> int \<Rightarrow> int \<times> int" where
  "split_shares s amount = (case k_SplitConfig s of
      None \<Rightarrow> (amount, 0)
    | Some split \<Rightarrow> (amount - amount * sp_split_bps split div 10000, amount * sp_split_bps split div 10000))"

definition secondary_recipient :: "'w stream \<Rightarrow> address" where
  "secondary_recipient s = (case k_SplitConfig s of None \<Rightarrow> [] | Some split \<Rightarrow> sp_secondary_recipient split)"

definition split_ok :: "split_config option \<Rightarrow> bool" where
  "split_ok c = (case c of None \<Rightarrow> True | Some split \<Rightarrow> 0 < sp_split_bps split \<and> sp_split_bps split < 10000)"

lemma split_shares_sum: "fst (split_shares s amount) + snd (split_shares s amount) = amount"
  by (simp add: split_shares_def split: option.split)

lemma split_shares_bounds:
  assumes "split_ok (k_SplitConfig s)" and "0 \<le> amount"
  shows "0 \<le> snd (split_shares s amount)" and "snd (split_shares s amount) \<le> amount"
    and "0 \<le> fst (split_shares s amount)" and "fst (split_shares s amount) \<le> amount"
proof -
  have "amount * b div 10000 \<le> amount" "0 \<le> amount * b div 10000" if "0 < b" "b < 10000" for b :: int
  proof -
    have "amount * b \<le> amount * 10000" using assms(2) that by (intro mult_left_mono) auto
    then have "amount * b div 10000 \<le> amount * 10000 div 10000" by (intro zdiv_mono1) auto
    then show "amount * b div 10000 \<le> amount" by simp
    have "0 \<le> amount * b" using assms(2) that by simp
    then show "0 \<le> amount * b div 10000" by (simp add: pos_imp_zdiv_nonneg_iff)
  qed
  then show "0 \<le> snd (split_shares s amount)" and "snd (split_shares s amount) \<le> amount"
    and "0 \<le> fst (split_shares s amount)" and "fst (split_shares s amount) \<le> amount"
    using assms by (auto simp: split_shares_def split_ok_def split: option.splits)
qed

text \<open>The token balances after a payout of \<open>amount\<close> to the recipient's side.\<close>

definition paid_out ::
  "'w env \<Rightarrow> 'w stream \<Rightarrow> stream_info \<Rightarrow> int \<Rightarrow> (address \<Rightarrow> address \<Rightarrow> int) \<Rightarrow> (address \<Rightarrow> address \<Rightarrow> int)" where
  "paid_out e s info amount bal =
     moved (moved bal (si_token info) (contract_address e) (auto_forward_address s (si_recipient info))
              (fst (split_shares s amount)))
       (si_token info) (contract_address e) (secondary_recipient s) (snd (split_shares s amount))"

lemma pay_recipient_effect:
  assumes "sep41 e" and "split_ok (k_SplitConfig s)" and "0 \<le> amount"
    and "pay_recipient e info amount s = Inr s'"
  shows "\<exists>w. s' = s\<lparr>st_world := w\<rparr> \<and> bal_of e w = paid_out e s info amount (bal_of e (st_world s))"
proof (cases "k_SplitConfig s")
  case None
  then obtain w where "tok_transfer (tokens e) (st_world s) (si_token info) (contract_address e)
      (auto_forward_address s (si_recipient info)) amount = Some w" and "s' = s\<lparr>st_world := w\<rparr>"
    using assms(4) by (auto simp: pay_recipient_def Let_def res_simps)
  then show ?thesis
    using None sep41_transfer(3) [OF assms(1)] by (auto simp: paid_out_def split_shares_def)
next
  case (Some split)
  let ?me = "contract_address e" and ?tok = "si_token info"
  let ?to = "auto_forward_address s (si_recipient info)"
  define q where "q = snd (split_shares s amount)"
  have q: "amount * sp_split_bps split div 10000 = q" and p: "fst (split_shares s amount) = amount - q"
    using Some by (simp_all add: split_shares_def q_def)
  obtain s1 where s1: "(if 0 < amount - q then token_transfer e ?tok ?me ?to (amount - q) s else Inr s) = Inr s1"
    and s2: "(if 0 < q then token_transfer e ?tok ?me (sp_secondary_recipient split) q s1 else Inr s1) = Inr s'"
    using assms(4) Some
    by (auto simp: pay_recipient_def Let_def and_then_eq_Inr ok_or_eq_Inr mul_div_eq_Inr checked_eq_Some q)
  have nn: "0 \<le> amount - q" "0 \<le> q"
    using split_shares_bounds(1,2) [OF assms(2,3)] by (auto simp: q_def)
  obtain w1 where w1: "s1 = s\<lparr>st_world := w1\<rparr>"
    and b1: "bal_of e w1 = moved (bal_of e (st_world s)) ?tok ?me ?to (amount - q)"
    using optional_transfer_effect [OF assms(1) nn(1) s1] by blast
  obtain w2 where w2: "s' = s1\<lparr>st_world := w2\<rparr>"
    and b2: "bal_of e w2 = moved (bal_of e (st_world s1)) ?tok ?me (sp_secondary_recipient split) q"
    using optional_transfer_effect [OF assms(1) nn(2) s2] by blast
  have "bal_of e w2 = paid_out e s info amount (bal_of e (st_world s))"
    using b1 b2 w1 Some p by (simp add: paid_out_def secondary_recipient_def q_def)
  moreover have "s' = s\<lparr>st_world := w2\<rparr>" using w1 w2 by simp
  ultimately show ?thesis by blast
qed

text \<open>
  Seen from the contract: a payout costs exactly its amount, provided the
  recipient's side is not the contract itself.
\<close>

definition payees_external :: "'w env \<Rightarrow> 'w stream \<Rightarrow> stream_info \<Rightarrow> bool" where
  "payees_external e s info \<longleftrightarrow>
     auto_forward_address s (si_recipient info) \<noteq> contract_address e \<and>
     (k_SplitConfig s \<noteq> None \<longrightarrow> secondary_recipient s \<noteq> contract_address e)"

lemma paid_out_contract:
  assumes "payees_external e s info"
  shows "paid_out e s info amount bal (si_token info) (contract_address e) =
    bal (si_token info) (contract_address e) - amount"
proof (cases "k_SplitConfig s")
  case None
  then show ?thesis
    using assms by (simp add: paid_out_def payees_external_def split_shares_def moved_def)
next
  case (Some split)
  then show ?thesis
    using assms split_shares_sum [of s amount]
    by (auto simp: paid_out_def payees_external_def moved_def)
qed

text \<open>The recipient's side receives exactly the amount.\<close>

lemma paid_out_recipient:
  assumes "payees_external e s info"
  shows "paid_out e s info amount bal (si_token info) (auto_forward_address s (si_recipient info)) =
     bal (si_token info) (auto_forward_address s (si_recipient info)) + fst (split_shares s amount) +
     (if secondary_recipient s = auto_forward_address s (si_recipient info)
      then snd (split_shares s amount) else 0)"
  using assms by (simp add: paid_out_def payees_external_def moved_def)

lemma paid_out_secondary:
  assumes "payees_external e s info" and "k_SplitConfig s \<noteq> None"
    and "secondary_recipient s \<noteq> auto_forward_address s (si_recipient info)"
  shows "paid_out e s info amount bal (si_token info) (secondary_recipient s) =
     bal (si_token info) (secondary_recipient s) + snd (split_shares s amount)"
  using assms by (simp add: paid_out_def payees_external_def moved_def)

lemma payout_config_frame [simp]:
  "auto_forward_address (s\<lparr>k_Config := c\<rparr>) r = auto_forward_address s r"
  "split_shares (s\<lparr>k_Config := c\<rparr>) n = split_shares s n"
  "secondary_recipient (s\<lparr>k_Config := c\<rparr>) = secondary_recipient s"
  "auto_forward_address (s\<lparr>st_world := w\<rparr>) r = auto_forward_address s r"
  "split_shares (s\<lparr>st_world := w\<rparr>) n = split_shares s n"
  "secondary_recipient (s\<lparr>st_world := w\<rparr>) = secondary_recipient s"
  "auto_forward_address (s\<lparr>k_Guard := g\<rparr>) r = auto_forward_address s r"
  "split_shares (s\<lparr>k_Guard := g\<rparr>) n = split_shares s n"
  "secondary_recipient (s\<lparr>k_Guard := g\<rparr>) = secondary_recipient s"
  "auto_forward_address (bump s) r = auto_forward_address s r"
  "split_shares (bump s) n = split_shares s n"
  "secondary_recipient (bump s) = secondary_recipient s"
  by (simp_all add: auto_forward_address_def split_shares_def secondary_recipient_def)

lemma paid_out_frame [simp]:
  "paid_out e (s\<lparr>k_Config := c\<rparr>) info n bal = paid_out e s info n bal"
  "paid_out e (s\<lparr>k_Guard := g\<rparr>) info n bal = paid_out e s info n bal"
  "paid_out e (bump s) info n bal = paid_out e s info n bal"
  by (simp_all add: paid_out_def)

lemma paid_out_zero [simp]: "paid_out e s info 0 bal = bal"
  by (simp add: paid_out_def split_shares_def split: option.split)

section \<open>Settlement\<close>

text \<open>How the whole balance is divided when a stream ends early.\<close>

definition owed_now :: "'w env \<Rightarrow> 'w stream \<Rightarrow> stream_info \<Rightarrow> int" where
  "owed_now e s info =
     (case streamed_amount (timestamp e) s info of
        Inr v \<Rightarrow> max (v - si_withdrawn info) 0 | Inl _ \<Rightarrow> 0)"

definition escrow :: "'w env \<Rightarrow> 'w stream \<Rightarrow> stream_info \<Rightarrow> int" where
  "escrow e s info = bal_of e (st_world s) (si_token info) (contract_address e)"

lemma owed_now_nonneg: "0 \<le> owed_now e s info"
  by (simp add: owed_now_def split: sum.split)

definition settled ::
  "'w env \<Rightarrow> 'w stream \<Rightarrow> stream_info \<Rightarrow> (address \<Rightarrow> address \<Rightarrow> int) \<Rightarrow> (address \<Rightarrow> address \<Rightarrow> int)" where
  "settled e s info bal =
     (let owed = min (owed_now e s info) (escrow e s info) in
      moved (paid_out e s info owed bal) (si_token info) (contract_address e) (si_sender info)
        (escrow e s info - owed))"

lemma settle_effect:
  assumes "sep41 e" and "split_ok (k_SplitConfig s)"
    and "settle e info s = Inr ((refund, paid), s')"
  defines "owed \<equiv> min (owed_now e s info) (escrow e s info)"
  shows "refund = escrow e s info - owed" and "paid = si_withdrawn info + owed" and "in_i128 paid"
    and "\<exists>w. s' = s\<lparr>k_Config := Some ((mark_cancelled info)\<lparr>si_withdrawn := paid\<rparr>), st_world := w\<rparr> \<and>
           bal_of e w = settled e s info (bal_of e (st_world s))"
proof -
  let ?me = "contract_address e" and ?tok = "si_token info"
  let ?s2 = "s\<lparr>k_Config := Some ((mark_cancelled info)\<lparr>si_withdrawn := paid\<rparr>)\<rparr>"
  obtain v b where b: "tok_balance (tokens e) (st_world s) ?tok ?me = Some b"
    and v: "streamed_amount (timestamp e) s info = Inr v"
    using assms(3) by (auto simp: settle_def res_simps)
  have esc: "escrow e s info = b" using b by (simp add: escrow_def)
  have ow: "owed = min (max (v - si_withdrawn info) 0) b" using v by (simp add: owed_def owed_now_def esc)
  have nn: "0 \<le> b" "0 \<le> owed" "0 \<le> b - owed"
    using sep41_bal_nonneg [OF assms(1), of "st_world s" ?tok ?me] esc ow by (auto simp: escrow_def)
  have d: "plain_i128 (v - si_withdrawn info) = (Inr (v - si_withdrawn info) :: (stream_error, int) res)"
    using assms(3) b v by (cases "in_i128 (v - si_withdrawn info)")
      (auto simp: settle_def balance_call_def plain_i128_def)
  note h = assms(3) [unfolded settle_def balance_call_def b v d ok_or_simps and_then_Inr Let_def save_def,
      folded ow]
  obtain s3 where ref: "refund = b - owed" and tot: "paid = si_withdrawn info + owed"
    and ran: "in_i128 paid"
    and s3: "(if 0 < owed then pay_recipient e info owed ?s2 else Inr ?s2) = Inr s3"
    and s4: "(if owed < b then token_transfer e ?tok ?me (si_sender info) (b - owed) s3 else Inr s3) = Inr s'"
    using h nn(3)
    by (auto simp: and_then_eq_Inr ok_or_eq_Inr checked_eq_Some plain_eq_Inr cong: if_cong)
  show "refund = escrow e s info - owed" using ref nn esc by simp
  show "paid = si_withdrawn info + owed" by (rule tot)
  show "in_i128 paid" by (rule ran)
  have "\<exists>w. s3 = ?s2\<lparr>st_world := w\<rparr> \<and> bal_of e w = paid_out e s info owed (bal_of e (st_world s))"
  proof (cases "0 < owed")
    case True
    then show ?thesis
      using pay_recipient_effect [OF assms(1) _ nn(2), of ?s2 info s3] assms(2) s3 by simp
  next
    case False
    then have "owed = 0" and "s3 = ?s2" using nn(2) s3 by simp_all
    then show ?thesis by (intro exI [of _ "st_world s"]) simp
  qed
  then obtain w where w: "s3 = ?s2\<lparr>st_world := w\<rparr>"
    and bw: "bal_of e w = paid_out e s info owed (bal_of e (st_world s))" by blast
  have "(if 0 < b - owed then token_transfer e ?tok ?me (si_sender info) (b - owed) s3 else Inr s3) = Inr s'"
    using s4 by simp
  from optional_transfer_effect [OF assms(1) nn(3) this]
  obtain w' where w': "s' = s3\<lparr>st_world := w'\<rparr>"
    and bw': "bal_of e w' = moved (bal_of e (st_world s3)) ?tok ?me (si_sender info) (b - owed)" by blast
  have "bal_of e w' = settled e s info (bal_of e (st_world s))"
    using bw' bw w by (simp add: settled_def Let_def owed_def esc)
  then show "\<exists>w. s' = s\<lparr>k_Config := Some ((mark_cancelled info)\<lparr>si_withdrawn := paid\<rparr>), st_world := w\<rparr> \<and>
           bal_of e w = settled e s info (bal_of e (st_world s))"
    using w w' by (intro exI [of _ w']) simp
qed

text \<open>
  The settlement empties the contract: recipient side and sender together get
  the whole escrow.
\<close>

lemma settled_contract_empty:
  assumes "payees_external e s info" and "si_sender info \<noteq> contract_address e"
  shows "settled e s info (bal_of e (st_world s)) (si_token info) (contract_address e) = 0"
  using assms by (simp add: settled_def Let_def paid_out_contract escrow_def)

lemma settled_sender:
  assumes "si_sender info \<noteq> contract_address e"
    and "si_sender info \<noteq> auto_forward_address s (si_recipient info)"
    and "si_sender info \<noteq> secondary_recipient s"
  shows "settled e s info bal (si_token info) (si_sender info) =
     bal (si_token info) (si_sender info) + (escrow e s info - min (owed_now e s info) (escrow e s info))"
  using assms by (simp add: settled_def Let_def paid_out_def)

section \<open>Withdrawal\<close>

lemma check_withdrawal_interval_bump [simp]:
  "check_withdrawal_interval e (bump s) = check_withdrawal_interval e s"
  unfolding check_withdrawal_interval_def by (simp only: bump_frame)

lemma cliff_milestone_log_step:
  assumes "cliff_milestone now info s = Inr s'" and "k_Config s = Some i"
  shows "log_step s s'"
  using assms
  by (auto simp: cliff_milestone_def split: option.splits if_splits
      intro: log_step_refl log_step_trans [OF log_step_flags(1)] events_log_step)

lemma completion_milestone_log_step:
  assumes "completion_milestone info b r n s = Inr s'" and "k_Config s = Some i"
  shows "log_step s s'"
  using assms
  by (auto simp: completion_milestone_def split: if_splits
      intro: log_step_refl log_step_trans [OF log_step_flags(2)] events_log_step)

text \<open>A committed withdrawal: its guards, its amount, its payout and its new state.\<close>

text \<open>A committed withdrawal, step by step.\<close>

lemma withdraw_body_run:
  assumes "withdraw_body e amount s = Inr (r, s')"
  obtains info available b s3 s5 s6 where "k_Config s = Some info" and "\<not> info_is_cancelled info"
    and "0 < amount" and "authorized e (si_recipient info)"
    and "check_withdrawal_interval e (bump s) = Inr ()"
    and "math_withdrawable (timestamp e) (bump s) info = Inr available" and "available \<noteq> 0"
    and "tok_balance (tokens e) (st_world s) (si_token info) (contract_address e) = Some b"
    and "r = min (min amount available) b" and "r \<noteq> 0" and "in_i128 (si_withdrawn info + r)"
    and "pay_recipient e info r ((bump s)\<lparr>k_Config := Some (info\<lparr>si_withdrawn := si_withdrawn info + r\<rparr>)\<rparr>) = Inr s3"
    and "events_withdrawn (si_recipient info) r (si_withdrawn info + r) (b - r)
        (s3\<lparr>k_LastWithdrawalTime := Some (timestamp e)\<rparr>) = Inr s5"
    and "cliff_milestone (timestamp e) info s5 = Inr s6"
    and "completion_milestone info b (b - r) (si_withdrawn info + r) s6 = Inr s'"
    and "log_step (s3\<lparr>k_LastWithdrawalTime := Some (timestamp e)\<rparr>) s'"
proof -
  obtain info available b where info: "k_Config s = Some info" and nc: "\<not> info_is_cancelled info"
    and am: "0 < amount" and au: "authorized e (si_recipient info)"
    and ci: "check_withdrawal_interval e (bump s) = Inr ()"
    and av: "math_withdrawable (timestamp e) (bump s) info = Inr available" and anz: "available \<noteq> 0"
    and b: "tok_balance (tokens e) (st_world s) (si_token info) (contract_address e) = Some b"
    using assms by (auto simp: withdraw_body_def res_simps Let_def)
  define q where "q = min (min amount available) b"
  obtain s3 s5 s6 where qnz: "q \<noteq> 0" and rng: "in_i128 (si_withdrawn info + q)"
    and pay: "pay_recipient e info q
        ((bump s)\<lparr>k_Config := Some (info\<lparr>si_withdrawn := si_withdrawn info + q\<rparr>)\<rparr>) = Inr s3"
    and ev: "events_withdrawn (si_recipient info) q (si_withdrawn info + q) (b - q)
        (s3\<lparr>k_LastWithdrawalTime := Some (timestamp e)\<rparr>) = Inr s5"
    and m1: "cliff_milestone (timestamp e) info s5 = Inr s6"
    and m2: "completion_milestone info b (b - q) (si_withdrawn info + q) s6 = Inr s'"
    and rq: "r = q"
    using assms info nc am au ci av anz b
    by (auto simp: withdraw_body_def balance_call_def Let_def q_def save_def
        and_then_eq_Inr ok_or_eq_Inr checked_eq_Some split: if_splits)
  have l1: "log_step (s3\<lparr>k_LastWithdrawalTime := Some (timestamp e)\<rparr>) s5"
    using ev by (rule events_log_step)
  obtain i5 where "k_Config s5 = Some i5" using l1 by (auto elim: log_step_config)
  with m1 have l2: "log_step s5 s6" by (rule cliff_milestone_log_step)
  obtain i6 where "k_Config s6 = Some i6" using l2 by (auto elim: log_step_config)
  with m2 have l3: "log_step s6 s'" by (rule completion_milestone_log_step)
  show thesis
    by (rule that [OF info nc am au ci av anz b rq [unfolded q_def] qnz [folded rq] rng [folded rq] pay [folded rq]
          ev [folded rq] m1 m2 [folded rq] log_step_trans [OF l1 log_step_trans [OF l2 l3]]])
qed

lemma withdraw_body_success:
  assumes "sep41 e" and "split_ok (k_SplitConfig s)"
    and "withdraw_body e amount s = Inr (r, s')"
  obtains info available w where "k_Config s = Some info" and "\<not> info_is_cancelled info"
    and "0 < amount" and "authorized e (si_recipient info)"
    and "check_withdrawal_interval e s = Inr ()"
    and "math_withdrawable (timestamp e) s info = Inr available" and "available \<noteq> 0"
    and "r = min (min amount available) (escrow e s info)" and "0 < r"
    and "in_i128 (si_withdrawn info + r)"
    and "bal_of e w = paid_out e s info r (bal_of e (st_world s))"
    and "log_step (s\<lparr>k_Config := Some (info\<lparr>si_withdrawn := si_withdrawn info + r\<rparr>), st_world := w,
           k_LastWithdrawalTime := Some (timestamp e), st_ttl := st_ttl (bump s)\<rparr>) s'"
proof -
  obtain info available b s3 s5 where info: "k_Config s = Some info" and nc: "\<not> info_is_cancelled info"
    and am: "0 < amount" and au: "authorized e (si_recipient info)"
    and ci: "check_withdrawal_interval e (bump s) = Inr ()"
    and av: "math_withdrawable (timestamp e) (bump s) info = Inr available" and anz: "available \<noteq> 0"
    and b: "tok_balance (tokens e) (st_world s) (si_token info) (contract_address e) = Some b"
    and rq: "r = min (min amount available) b" and rnz: "r \<noteq> 0" and rng: "in_i128 (si_withdrawn info + r)"
    and pay: "pay_recipient e info r
        ((bump s)\<lparr>k_Config := Some (info\<lparr>si_withdrawn := si_withdrawn info + r\<rparr>)\<rparr>) = Inr s3"
    and ev: "events_withdrawn (si_recipient info) r (si_withdrawn info + r) (b - r)
        (s3\<lparr>k_LastWithdrawalTime := Some (timestamp e)\<rparr>) = Inr s5"
    and log: "log_step (s3\<lparr>k_LastWithdrawalTime := Some (timestamp e)\<rparr>) s'"
    using assms(3) by (rule withdraw_body_run)
  have r0: "0 \<le> r" using ev by (auto simp: events_withdrawn_def and_then_eq_Inr res_simps)
  obtain w where s3: "s3 = (bump s)\<lparr>k_Config := Some (info\<lparr>si_withdrawn := si_withdrawn info + r\<rparr>), st_world := w\<rparr>"
    and bw: "bal_of e w = paid_out e s info r (bal_of e (st_world s))"
    using pay_recipient_effect [OF assms(1) _ r0 pay] assms(2) by auto
  have same: "s3\<lparr>k_LastWithdrawalTime := Some (timestamp e)\<rparr> =
      s\<lparr>k_Config := Some (info\<lparr>si_withdrawn := si_withdrawn info + r\<rparr>), st_world := w,
        k_LastWithdrawalTime := Some (timestamp e), st_ttl := st_ttl (bump s)\<rparr>"
    by (simp add: s3 bump_def)
  have ci': "check_withdrawal_interval e s = Inr ()" using ci by simp
  have av': "math_withdrawable (timestamp e) s info = Inr available" using av by simp
  have rr: "r = min (min amount available) (escrow e s info)" using b by (simp add: escrow_def rq)
  have pos: "0 < r" using r0 rnz by simp
  show thesis by (rule that [OF info nc am au ci' av' anz rr pos rng bw log [unfolded same]])
qed

text \<open>Paying takes from the contract's own account only.\<close>

lemma payment_inflow:
  assumes "sep41 e" and "pay_recipient e info amount s = Inr s'" and "h \<noteq> contract_address e"
  shows "bal_of e (st_world s) t h \<le> bal_of e (st_world s') t h"
proof -
  have tr: "bal_of e (st_world s1) t h \<le> bal_of e (st_world s2) t h"
    if "token_transfer e tok (contract_address e) dst amt s1 = Inr s2" for s1 s2 :: "'a stream" and tok dst amt
    using that assms(3) sep41_transfer(1,3) [OF assms(1)] by (auto simp: token_transfer_eq_Inr moved_def)
  show ?thesis
    using assms(2) unfolding pay_recipient_def Let_def
    by (auto simp: and_then_eq_Inr dest!: tr split: option.splits if_splits intro: order_trans)
qed

lemma withdraw_inflow:
  assumes "sep41 e" and "withdraw e amount s = Inr (r, s')" and "h \<noteq> contract_address e"
  shows "bal_of e (st_world s) t h \<le> bal_of e (st_world s') t h"
proof -
  obtain s1 s2 where lk: "lock s = Inr s1" and run: "withdraw_body e amount s1 = Inr (r, s2)" and s': "s' = unlock s2"
    using assms(2) by (auto simp: withdraw_def with_guard_def and_then_eq_Inr)
  from run obtain info s3 where
    pay: "pay_recipient e info r ((bump s1)\<lparr>k_Config := Some (info\<lparr>si_withdrawn := si_withdrawn info + r\<rparr>)\<rparr>) = Inr s3"
    and log: "log_step (s3\<lparr>k_LastWithdrawalTime := Some (timestamp e)\<rparr>) s2"
    by (rule withdraw_body_run)
  have "st_world s1 = st_world s" using lk by (auto simp: lock_def Let_def res_simps split: if_splits option.splits)
  moreover have "st_world s' = st_world s3" using log_step_frame(7) [OF log] by (simp add: s' unlock_def Let_def)
  ultimately show ?thesis using payment_inflow [OF assms(1) pay assms(3), of t] by (simp add: bump_def)
qed

section \<open>Cancellation\<close>

text \<open>The state a settlement leaves, before the final event is logged.\<close>

definition settled_state :: "stream_info \<Rightarrow> int \<Rightarrow> 'w \<Rightarrow> 'w stream \<Rightarrow> 'w stream" where
  "settled_state info paid w s =
     s\<lparr>k_Config := Some ((mark_cancelled info)\<lparr>si_withdrawn := paid\<rparr>), st_world := w,
       st_ttl := st_ttl (bump s)\<rparr>"

lemma settle_bump:
  assumes "sep41 e" and "split_ok (k_SplitConfig s)"
    and st: "settle e info (bump s) = Inr ((refund, paid), s2)"
  obtains w where "paid = si_withdrawn info + min (owed_now e s info) (escrow e s info)" and "in_i128 paid"
    and "refund = escrow e s info - min (owed_now e s info) (escrow e s info)"
    and "is_ok (streamed_amount (timestamp e) s info)"
    and "bal_of e w = settled e s info (bal_of e (st_world s))"
    and "s2 = settled_state info paid w s"
proof -
  have fr: "owed_now e (bump s) info = owed_now e s info" "escrow e (bump s) info = escrow e s info"
    by (simp_all add: owed_now_def escrow_def)
  have ok: "is_ok (streamed_amount (timestamp e) s info)"
    using st by (auto simp: settle_def and_then_eq_Inr)
  have sp: "split_ok (k_SplitConfig (bump s))" using assms(2) by simp
  obtain w where s2: "s2 = (bump s)\<lparr>k_Config := Some ((mark_cancelled info)\<lparr>si_withdrawn := paid\<rparr>), st_world := w\<rparr>"
    and bw: "bal_of e w = settled e (bump s) info (bal_of e (st_world (bump s)))"
    using settle_effect(4) [OF assms(1) sp st] by blast
  have "settled e (bump s) info = settled e s info" by (simp add: settled_def fr Let_def fun_eq_iff)
  then have bw': "bal_of e w = settled e s info (bal_of e (st_world s))" using bw by simp
  have "s2 = settled_state info paid w s" by (simp add: s2 settled_state_def bump_def)
  with that settle_effect(1-3) [OF assms(1) sp st] ok bw' show thesis unfolding fr by blast
qed

lemma cancel_body_success:
  assumes "sep41 e" and "split_ok (k_SplitConfig s)"
    and "cancel_body e caller s = Inr (u, s')"
  obtains info w paid where "k_Config s = Some info" and "\<not> info_is_cancelled info" and "is_cancelable s"
    and "require_sender_or_operator e s caller (si_sender info) = Inr ()"
    and "paid = si_withdrawn info + min (owed_now e s info) (escrow e s info)" and "in_i128 paid"
    and "0 \<le> paid" and "is_ok (streamed_amount (timestamp e) s info)"
    and "bal_of e w = settled e s info (bal_of e (st_world s))"
    and "log_step (settled_state info paid w s) s'"
proof -
  obtain info refund paid s2 where info: "k_Config s = Some info" and nc: "\<not> info_is_cancelled info"
    and cn: "is_cancelable s"
    and au: "require_sender_or_operator e (bump s) caller (si_sender info) = Inr ()"
    and st: "settle e info (bump s) = Inr ((refund, paid), s2)"
    and ev: "events_cancelled (si_sender info) refund paid refund s2 = Inr s'"
    using assms(3) by (auto simp: cancel_body_def res_simps Let_def is_cancelable_def split: option.splits)
  have nn: "0 \<le> paid" using ev by (auto simp: events_cancelled_def and_then_eq_Inr res_simps)
  have ls: "log_step s2 s'" using ev by (rule events_log_step)
  have au': "require_sender_or_operator e s caller (si_sender info) = Inr ()"
    using au by (simp add: require_sender_or_operator_def)
  from settle_bump [OF assms(1,2) st] obtain w
    where "paid = si_withdrawn info + min (owed_now e s info) (escrow e s info)" "in_i128 paid"
      "is_ok (streamed_amount (timestamp e) s info)"
      "bal_of e w = settled e s info (bal_of e (st_world s))" "s2 = settled_state info paid w s" .
  with ls show thesis by (intro that [OF info nc cn au' _ _ nn]) simp_all
qed

definition pause_threshold :: "'w stream \<Rightarrow> int" where
  "pause_threshold s = (case k_ForceCancelPauseThresholdSecs s of
      Some n \<Rightarrow> n | None \<Rightarrow> DEFAULT_PAUSE_THRESHOLD_SECS)"

lemma force_cancel_body_success:
  assumes "sep41 e" and "split_ok (k_SplitConfig s)"
    and "force_cancel_body e s = Inr (u, s')"
  obtains info w paid where "k_Config s = Some info" and "\<not> info_is_cancelled info" and "info_is_paused info"
    and "pause_threshold s \<le> sat_u64 (timestamp e - si_paused_at info)"
    and "authorized e (si_recipient info)"
    and "paid = si_withdrawn info + min (owed_now e s info) (escrow e s info)" and "in_i128 paid"
    and "0 \<le> paid" and "is_ok (streamed_amount (timestamp e) s info)"
    and "bal_of e w = settled e s info (bal_of e (st_world s))"
    and "log_step (settled_state info paid w s) s'"
proof -
  obtain info refund paid s2 where info: "k_Config s = Some info" and nc: "\<not> info_is_cancelled info"
    and pz: "info_is_paused info"
    and th: "pause_threshold s \<le> sat_u64 (timestamp e - si_paused_at info)"
    and au: "authorized e (si_recipient info)"
    and st: "settle e info (bump s) = Inr ((refund, paid), s2)"
    and ev: "events_force_cancelled (si_sender info) refund paid refund s2 = Inr s'"
    using assms(3) by (auto simp: force_cancel_body_def res_simps Let_def pause_threshold_def)
  have nn: "0 \<le> paid" using ev by (auto simp: events_force_cancelled_def and_then_eq_Inr res_simps)
  have ls: "log_step s2 s'" using ev by (rule events_log_step)
  from settle_bump [OF assms(1,2) st] obtain w
    where "paid = si_withdrawn info + min (owed_now e s info) (escrow e s info)" "in_i128 paid"
      "is_ok (streamed_amount (timestamp e) s info)"
      "bal_of e w = settled e s info (bal_of e (st_world s))" "s2 = settled_state info paid w s" .
  with ls show thesis by (intro that [OF info nc pz th au _ _ nn]) simp_all
qed

section \<open>Clawback\<close>

lemma clawback_body_success:
  assumes "sep41 e" and "clawback_body e caller s = Inr (amount, s')"
  obtains info w where "k_Config s = Some info" and "\<not> info_is_cancelled info"
    and "\<not> info_is_paused info" and "info_is_clawback_enabled info"
    and "require_sender_or_operator e s caller (si_sender info) = Inr ()"
    and "is_ok (streamed_amount (timestamp e) s info)"
    and "amount = max (escrow e s info - owed_now e s info) 0"
    and "bal_of e w = moved (bal_of e (st_world s)) (si_token info) (contract_address e) (si_sender info) amount"
    and "log_step (s\<lparr>st_world := w, st_ttl := st_ttl (bump s)\<rparr>) s'"
proof -
  obtain info v b s2 where info: "k_Config s = Some info" and nc: "\<not> info_is_cancelled info"
    and np: "\<not> info_is_paused info" and ce: "info_is_clawback_enabled info"
    and au: "require_sender_or_operator e (bump s) caller (si_sender info) = Inr ()"
    and v: "streamed_amount (timestamp e) s info = Inr v"
    and b: "tok_balance (tokens e) (st_world s) (si_token info) (contract_address e) = Some b"
    and am: "amount = max (b - max (v - si_withdrawn info) 0) 0"
    and tr: "(if 0 < amount then token_transfer e (si_token info) (contract_address e) (si_sender info) amount (bump s)
              else Inr (bump s)) = Inr s2"
    and ev: "events_clawback caller amount s2 = Inr s'"
    using assms(2)
    by (auto simp: clawback_body_def stream_require_not_paused_def require_not_paused_flag_def res_simps Let_def)
  have amt: "amount = max (escrow e s info - owed_now e s info) 0"
    using b v am by (simp add: escrow_def owed_now_def)
  have "0 \<le> amount" using am by simp
  from optional_transfer_effect [OF assms(1) this tr]
  obtain w where s2: "s2 = (bump s)\<lparr>st_world := w\<rparr>"
    and bw: "bal_of e w = moved (bal_of e (st_world (bump s))) (si_token info) (contract_address e) (si_sender info) amount"
    by blast
  have "s2 = s\<lparr>st_world := w, st_ttl := st_ttl (bump s)\<rparr>" by (simp add: s2 bump_def)
  moreover have "log_step s2 s'" using ev by (rule events_log_step)
  ultimately have ls: "log_step (s\<lparr>st_world := w, st_ttl := st_ttl (bump s)\<rparr>) s'" by simp
  have au': "require_sender_or_operator e s caller (si_sender info) = Inr ()"
    using au by (simp add: require_sender_or_operator_def)
  have ok: "is_ok (streamed_amount (timestamp e) s info)" using v by simp
  show thesis by (rule that [OF info nc np ce au' ok amt _ ls]) (simp add: bw)
qed

end
