(* ===== verification/Stream_Invariant.thy ===== *)
theory Stream_Invariant
  imports Stream_Settlement
begin

text \<open>
  The state invariant of a stream, that every entry point preserves it, and the
  reachable states of a stream under any sequence of calls.

  A call is a value of \<open>stream_call\<close>; \<open>stream_exec\<close> runs the entry point it names.
  \<open>stream_step\<close> is one committed call, or a movement of tokens the stream takes no
  part in.  Ledger time never decreases along a run.
\<close>

section \<open>The invariant\<close>

definition info_ok :: "int \<Rightarrow> stream_info \<Rightarrow> bool" where
  "info_ok t info \<longleftrightarrow>
     0 < si_rate_per_second info \<and> si_rate_per_second info \<le> i128_max \<and>
     in_u64 (si_start_time info) \<and> in_u64 (si_end_time info) \<and> in_u64 (si_paused_at info) \<and>
     (0 < si_end_time info \<longrightarrow> si_start_time info < si_end_time info) \<and>
     (info_is_paused info \<longrightarrow> si_start_time info \<le> si_paused_at info \<and> si_paused_at info \<le> t \<and>
        (0 < si_end_time info \<longrightarrow> si_paused_at info \<le> si_end_time info)) \<and>
     0 \<le> si_withdrawn info \<and> in_i128 (si_withdrawn info) \<and>
     \<not> is_zero_address (si_recipient info)"

definition checkpoint_ok :: "rate_checkpoint option \<Rightarrow> bool" where
  "checkpoint_ok c = (case c of None \<Rightarrow> True
     | Some cp \<Rightarrow> 0 \<le> cp_accrued cp \<and> cp_accrued cp \<le> i128_max \<and> in_u64 (cp_at cp))"

definition cliff_ok :: "cliff_config option \<Rightarrow> bool" where
  "cliff_ok c = (case c of None \<Rightarrow> True
     | Some cfg \<Rightarrow> 0 \<le> cc_cliff_unlock_amount cfg \<and> cc_cliff_unlock_amount cfg \<le> i128_max \<and>
                   in_u64 (cc_cliff_time cfg))"

definition pool_valid :: "address \<Rightarrow> stream_keeper_reward_pool option \<Rightarrow> bool" where
  "pool_valid tok c = (case c of None \<Rightarrow> True
     | Some p \<Rightarrow> 0 < kp_reward_per_ping p \<and> kp_token p \<noteq> tok)"

definition log_ok :: "stream_info \<Rightarrow> stream_event list \<Rightarrow> bool" where
  "log_ok info evs \<longleftrightarrow> map ev_seq evs = [1 .. si_event_sequence info] \<and> 0 \<le> si_event_sequence info"

definition stream_inv :: "int \<Rightarrow> 'w stream \<Rightarrow> bool" where
  "stream_inv t s = (case k_Config s of None \<Rightarrow> False
     | Some info \<Rightarrow> info_ok t info \<and> checkpoint_ok (k_RateCheckpoint s) \<and> cliff_ok (k_CliffConfig s) \<and>
         split_ok (k_SplitConfig s) \<and> pool_valid (si_token info) (k_KeeperRewardPool s) \<and>
         log_ok info (st_events s))"

lemma stream_inv_Some:
  "k_Config s = Some info \<Longrightarrow> stream_inv t s \<longleftrightarrow> info_ok t info \<and> checkpoint_ok (k_RateCheckpoint s) \<and>
     cliff_ok (k_CliffConfig s) \<and> split_ok (k_SplitConfig s) \<and>
     pool_valid (si_token info) (k_KeeperRewardPool s) \<and> log_ok info (st_events s)"
  by (simp add: stream_inv_def)

lemma stream_inv_config: "stream_inv t s \<Longrightarrow> \<exists>info. k_Config s = Some info"
  by (simp add: stream_inv_def split: option.splits)

lemma stream_inv_mono: "stream_inv t s \<Longrightarrow> t \<le> u \<Longrightarrow> stream_inv u s"
  by (auto simp: stream_inv_def info_ok_def split: option.splits)

lemma stream_inv_accrual:
  "stream_inv t s \<Longrightarrow> k_Config s = Some info \<Longrightarrow> accrual_ok s info"
  by (auto simp: stream_inv_Some info_ok_def checkpoint_ok_def cliff_ok_def accrual_ok_def
      accrual_base_def int_bounds split: option.splits)

text \<open>The invariant reads only six fields.\<close>

lemma stream_inv_cong:
  "k_Config s' = k_Config s \<Longrightarrow> k_RateCheckpoint s' = k_RateCheckpoint s \<Longrightarrow>
     k_CliffConfig s' = k_CliffConfig s \<Longrightarrow> k_SplitConfig s' = k_SplitConfig s \<Longrightarrow>
     k_KeeperRewardPool s' = k_KeeperRewardPool s \<Longrightarrow> st_events s' = st_events s \<Longrightarrow>
     stream_inv t s' = stream_inv t s"
  unfolding stream_inv_def by (simp only:)

lemma stream_inv_upd [simp]:
  "stream_inv t (s\<lparr>k_Guard := v1\<rparr>) = stream_inv t s"
  "stream_inv t (s\<lparr>k_Operator := v2\<rparr>) = stream_inv t s"
  "stream_inv t (s\<lparr>k_MinWithdrawalInterval := v3\<rparr>) = stream_inv t s"
  "stream_inv t (s\<lparr>k_LastWithdrawalTime := v4\<rparr>) = stream_inv t s"
  "stream_inv t (s\<lparr>k_EmergencyPaused := v5\<rparr>) = stream_inv t s"
  "stream_inv t (s\<lparr>k_StreamConfig := v6\<rparr>) = stream_inv t s"
  "stream_inv t (s\<lparr>k_StreamTitle := v7\<rparr>) = stream_inv t s"
  "stream_inv t (s\<lparr>k_ReferenceTag := v8\<rparr>) = stream_inv t s"
  "stream_inv t (s\<lparr>k_LastKeeperPingLedger := v9\<rparr>) = stream_inv t s"
  "stream_inv t (s\<lparr>k_AutoForwardAddress := v10\<rparr>) = stream_inv t s"
  "stream_inv t (s\<lparr>k_CumulativeDeposited := v11\<rparr>) = stream_inv t s"
  "stream_inv t (s\<lparr>st_world := v12\<rparr>) = stream_inv t s"
  "stream_inv t (s\<lparr>st_ttl := v13\<rparr>) = stream_inv t s"
  "stream_inv t (s\<lparr>k_InvoiceMetadataUri := v14\<rparr>) = stream_inv t s"
  "stream_inv t (s\<lparr>k_MilestoneMetadataUri := v15\<rparr>) = stream_inv t s"
  "stream_inv t (bump s) = stream_inv t s"
  "stream_inv t (bump_for_remaining n s) = stream_inv t s"
  "stream_inv t (unlock s) = stream_inv t s"
  by (rule stream_inv_cong; simp add: unlock_def Let_def)+

lemma stream_inv_log:
  assumes "stream_inv t s" and "log_step s s'"
  shows "stream_inv t s'"
proof -
  obtain info evs where info: "k_Config s = Some info"
    and c': "k_Config s' = Some (info\<lparr>si_event_sequence := si_event_sequence info + int (length evs)\<rparr>)"
    and e': "st_events s' = st_events s @ evs"
    and n: "map ev_seq evs = [si_event_sequence info + 1 .. si_event_sequence info + int (length evs)]"
    using assms(2) by (rule log_step_config)
  have lo: "map ev_seq (st_events s) = [1 .. si_event_sequence info]" "0 \<le> si_event_sequence info"
    using assms(1) info by (simp_all add: stream_inv_Some log_ok_def)
  have "map ev_seq (st_events s') = [1 .. si_event_sequence info + int (length evs)]"
    using upto_append [of "si_event_sequence info" "int (length evs)" 0] lo n e' by simp
  then have "log_ok (info\<lparr>si_event_sequence := si_event_sequence info + int (length evs)\<rparr>) (st_events s')"
    using lo(2) by (simp add: log_ok_def)
  then show ?thesis
    using assms(1) info c' log_step_frame [OF assms(2)]
    by (simp add: stream_inv_Some info_ok_def info_is_paused_def)
qed

section \<open>Every operation preserves it\<close>

definition keeps :: "int \<Rightarrow> 'w stream \<Rightarrow> 'w stream \<Rightarrow> bool" where
  "keeps t s s' \<longleftrightarrow> stream_inv t s' \<and> k_Guard s' = k_Guard s"

lemma keeps_log:
  assumes "stream_inv t m" and "k_Guard m = k_Guard s" and "log_step m s'"
  shows "keeps t s s'"
  using assms stream_inv_log log_step_frame(1) by (fastforce simp: keeps_def)

text \<open>The environment of a call at or after time \<open>t\<close>.\<close>

definition env_ok :: "int \<Rightarrow> 'w env \<Rightarrow> bool" where
  "env_ok t e \<longleftrightarrow> sep41 e \<and> t \<le> timestamp e \<and> in_u64 (timestamp e) \<and> in_u32 (sequence e)"

lemma env_inv: "stream_inv t s \<Longrightarrow> env_ok t e \<Longrightarrow> stream_inv (timestamp e) s"
  using stream_inv_mono by (auto simp: env_ok_def)

lemma info_ok_upd [simp]:
  "info_ok t (info\<lparr>si_event_sequence := n\<rparr>) = info_ok t info"
  "log_ok (info\<lparr>si_withdrawn := n\<rparr>) evs = log_ok info evs"
  "log_ok (info\<lparr>si_end_time := n\<rparr>) evs = log_ok info evs"
  "log_ok (info\<lparr>si_recipient := a\<rparr>) evs = log_ok info evs"
  "log_ok (info\<lparr>si_rate_per_second := n\<rparr>) evs = log_ok info evs"
  "log_ok (info\<lparr>si_flags := f\<rparr>) evs = log_ok info evs"
  "log_ok (info\<lparr>si_paused_at := n\<rparr>) evs = log_ok info evs"
  "log_ok (info\<lparr>si_start_time := n\<rparr>) evs = log_ok info evs"
  by (simp_all add: info_ok_def log_ok_def info_is_paused_def)

lemma info_is_paused_upd [simp]:
  "info_is_paused (info\<lparr>si_withdrawn := n\<rparr>) = info_is_paused info"
  "info_is_paused (info\<lparr>si_end_time := n\<rparr>) = info_is_paused info"
  "info_is_paused (info\<lparr>si_recipient := a\<rparr>) = info_is_paused info"
  "info_is_paused (info\<lparr>si_rate_per_second := n\<rparr>) = info_is_paused info"
  "info_is_paused (mark_cancelled info) = info_is_paused info"
  by (simp_all add: flag_bits mark_cancelled_def)

lemma withdraw_keeps:
  assumes "stream_inv t s" and "env_ok t e" and "withdraw_body e amount s = Inr (r, s')"
  shows "keeps (timestamp e) s s'"
proof -
  have inv: "stream_inv (timestamp e) s" using assms env_inv by blast
  have "split_ok (k_SplitConfig s)" "sep41 e"
    using assms(1,2) by (auto simp: stream_inv_def env_ok_def split: option.splits)
  then obtain info av w where info: "k_Config s = Some info" and r: "0 < r"
    and rng: "in_i128 (si_withdrawn info + r)"
    and ls: "log_step (s\<lparr>k_Config := Some (info\<lparr>si_withdrawn := si_withdrawn info + r\<rparr>), st_world := w,
           k_LastWithdrawalTime := Some (timestamp e), st_ttl := st_ttl (bump s)\<rparr>) s'"
    using withdraw_body_success [OF _ _ assms(3)] by metis
  show ?thesis
    by (rule keeps_log [OF _ _ ls]) (use inv info r rng in \<open>simp_all add: stream_inv_Some info_ok_def\<close>)
qed

lemma settled_inv:
  assumes "stream_inv t s" and "k_Config s = Some info" and "in_i128 paid" and "0 \<le> paid"
  shows "stream_inv t (settled_state info paid w s)" and "k_Guard (settled_state info paid w s) = k_Guard s"
  using assms
  by (simp_all add: stream_inv_Some info_ok_def settled_state_def log_ok_def)
     (simp add: mark_cancelled_def)

lemma cancel_keeps:
  assumes "stream_inv t s" and "env_ok t e" and "cancel_body e caller s = Inr (u, s')"
  shows "keeps (timestamp e) s s'"
proof -
  have inv: "stream_inv (timestamp e) s" using assms env_inv by blast
  have "split_ok (k_SplitConfig s)" "sep41 e"
    using assms(1,2) by (auto simp: stream_inv_def env_ok_def split: option.splits)
  then obtain info w paid where "k_Config s = Some info" "in_i128 paid" "0 \<le> paid"
    "log_step (settled_state info paid w s) s'"
    using cancel_body_success [OF _ _ assms(3)] by metis
  then show ?thesis using keeps_log settled_inv [OF inv] by blast
qed

lemma force_cancel_keeps:
  assumes "stream_inv t s" and "env_ok t e" and "force_cancel_body e s = Inr (u, s')"
  shows "keeps (timestamp e) s s'"
proof -
  have inv: "stream_inv (timestamp e) s" using assms env_inv by blast
  have "split_ok (k_SplitConfig s)" "sep41 e"
    using assms(1,2) by (auto simp: stream_inv_def env_ok_def split: option.splits)
  then obtain info w paid where "k_Config s = Some info" "in_i128 paid" "0 \<le> paid"
    "log_step (settled_state info paid w s) s'"
    using force_cancel_body_success [OF _ _ assms(3)] by metis
  then show ?thesis using keeps_log settled_inv [OF inv] by blast
qed

lemma clawback_keeps:
  assumes "stream_inv t s" and "env_ok t e" and "clawback_body e caller s = Inr (r, s')"
  shows "keeps (timestamp e) s s'"
proof -
  have inv: "stream_inv (timestamp e) s" using assms env_inv by blast
  obtain w where ls: "log_step (s\<lparr>st_world := w, st_ttl := st_ttl (bump s)\<rparr>) s'"
    using clawback_body_success [OF _ assms(3)] assms(2) unfolding env_ok_def by metis
  show ?thesis by (rule keeps_log [OF _ _ ls]) (use inv in simp_all)
qed

subsection \<open>Pause, resume, rate changes\<close>

lemma require_sender_or_operator_frame [simp]:
  "require_sender_or_operator e (bump s) c a = require_sender_or_operator e s c a"
  "require_sender_or_operator e (s\<lparr>k_Guard := g\<rparr>) c a = require_sender_or_operator e s c a"
  by (simp_all add: require_sender_or_operator_def)

lemma pause_body_success:
  assumes "pause_body e caller s = Inr (u, s')"
  obtains info where "k_Config s = Some info" and "\<not> info_is_cancelled info" and "\<not> info_is_paused info"
    and "require_sender_or_operator e s caller (si_sender info) = Inr ()"
    and "si_start_time info \<le> timestamp e"
    and "0 < si_end_time info \<longrightarrow> timestamp e \<le> si_end_time info"
    and "log_step ((bump s)\<lparr>k_Config := Some (info\<lparr>si_flags := si_flags info OR FLAG_PAUSED,
           si_paused_at := timestamp e\<rparr>)\<rparr>) s'"
  using assms
  by (auto simp: pause_body_def res_simps Let_def save_def dest!: events_log_step)

lemma pause_keeps:
  assumes "stream_inv t s" and "env_ok t e" and "pause_body e caller s = Inr (u, s')"
  shows "keeps (timestamp e) s s'"
proof -
  have inv: "stream_inv (timestamp e) s" using assms env_inv by blast
  obtain info where *: "k_Config s = Some info" "si_start_time info \<le> timestamp e"
    "0 < si_end_time info \<longrightarrow> timestamp e \<le> si_end_time info"
    and ls: "log_step ((bump s)\<lparr>k_Config := Some (info\<lparr>si_flags := si_flags info OR FLAG_PAUSED,
           si_paused_at := timestamp e\<rparr>)\<rparr>) s'"
    using pause_body_success [OF assms(3)] by blast
  show ?thesis
    by (rule keeps_log [OF _ _ ls])
       (use inv * assms(2) in \<open>auto simp: stream_inv_Some info_ok_def env_ok_def log_ok_def\<close>)
qed

text \<open>The checkpoint after a resume.\<close>

definition shifted :: "stream_info \<Rightarrow> int \<Rightarrow> rate_checkpoint option \<Rightarrow> rate_checkpoint option" where
  "shifted info d c = (case c of None \<Rightarrow> None
     | Some cp \<Rightarrow> Some (if cp_at cp \<le> si_paused_at info then cp\<lparr>cp_at := cp_at cp + d\<rparr> else cp))"

lemma shift_checkpoint_success:
  "shift_checkpoint info d s = Inr s' \<Longrightarrow>
     s' = s\<lparr>k_RateCheckpoint := shifted info d (k_RateCheckpoint s)\<rparr> \<and>
     (\<forall>cp. k_RateCheckpoint s = Some cp \<longrightarrow> cp_at cp \<le> si_paused_at info \<longrightarrow> in_u64 (cp_at cp + d))"
  by (auto simp: shift_checkpoint_def shifted_def res_simps split: option.splits if_splits)

definition resumed_info :: "int \<Rightarrow> stream_info \<Rightarrow> stream_info" where
  "resumed_info d info = info\<lparr>si_start_time := si_start_time info + d,
     si_flags := si_flags info AND NOT FLAG_PAUSED, si_paused_at := 0,
     si_end_time := (if 0 < si_end_time info then si_end_time info + d else si_end_time info)\<rparr>"

lemma resume_body_success:
  assumes "resume_body e caller s = Inr (u, s')"
  obtains info m where "k_Config s = Some info" and "\<not> info_is_cancelled info" and "info_is_paused info"
    and "require_sender_or_operator e s caller (si_sender info) = Inr ()"
    and "si_paused_at info \<le> timestamp e" and "timestamp e - si_paused_at info \<le> MAX_PAUSE_SECS"
    and "in_u64 (si_start_time info + (timestamp e - si_paused_at info))"
    and "0 < si_end_time info \<longrightarrow> in_u64 (si_end_time info + (timestamp e - si_paused_at info))"
    and "k_Config m = Some (resumed_info (timestamp e - si_paused_at info) info)"
    and "k_RateCheckpoint m = shifted info (timestamp e - si_paused_at info) (k_RateCheckpoint s)"
    and "\<forall>cp. k_RateCheckpoint s = Some cp \<longrightarrow> cp_at cp \<le> si_paused_at info \<longrightarrow>
      in_u64 (cp_at cp + (timestamp e - si_paused_at info))"
    and "k_CliffConfig m = k_CliffConfig s" and "k_SplitConfig m = k_SplitConfig s"
    and "k_KeeperRewardPool m = k_KeeperRewardPool s" and "st_events m = st_events s"
    and "k_Guard m = k_Guard s" and "st_world m = st_world s" and "log_step m s'"
proof -
  obtain info where info: "k_Config s = Some info" and nc: "\<not> info_is_cancelled info"
    and pz: "info_is_paused info"
    and au: "require_sender_or_operator e s caller (si_sender info) = Inr ()"
    using assms by (auto simp: resume_body_def res_simps Let_def)
  define d where "d = timestamp e - si_paused_at info"
  obtain s2 new_end where du: "in_u64 d" and dm: "d \<le> MAX_PAUSE_SECS"
    and sc: "shift_checkpoint info d (bump s) = Inr s2"
    and st: "in_u64 (si_start_time info + d)"
    and ne: "(if 0 < si_end_time info
              then ok_or (checked_u64 (si_end_time info + d)) (Err ArithmeticOverflow)
              else Inr (si_end_time info)) = (Inr new_end :: (stream_error, int) res)"
    and ev: "events_resumed caller (timestamp e)
       (if 0 < new_end
        then bump_for_remaining (sat_u64 (new_end - timestamp e))
          (save (info\<lparr>si_start_time := si_start_time info + d, si_flags := si_flags info AND NOT FLAG_PAUSED,
                  si_paused_at := 0, si_end_time := new_end\<rparr>) s2)
        else save (info\<lparr>si_start_time := si_start_time info + d, si_flags := si_flags info AND NOT FLAG_PAUSED,
                  si_paused_at := 0, si_end_time := new_end\<rparr>) s2) = Inr s'"
    using assms unfolding resume_body_def d_def
    by (simp add: info nc pz au assert_not_cancelled_def Let_def and_then_eq_Inr ok_or_eq_Inr checked_eq_Some
        if_Inl_eq_Inr not_less) blast
  let ?i = "info\<lparr>si_start_time := si_start_time info + d,
     si_flags := si_flags info AND NOT FLAG_PAUSED, si_paused_at := 0, si_end_time := new_end\<rparr>"
  let ?m = "if 0 < new_end then bump_for_remaining (sat_u64 (new_end - timestamp e)) (save ?i s2) else save ?i s2"
  have i: "?i = resumed_info d info"
    using ne by (auto simp: resumed_info_def ok_or_eq_Inr checked_eq_Some split: if_splits)
  have en: "0 < si_end_time info \<Longrightarrow> in_u64 (si_end_time info + d)"
    using ne by (simp add: ok_or_eq_Inr checked_eq_Some)
  have s2: "s2 = (bump s)\<lparr>k_RateCheckpoint := shifted info d (k_RateCheckpoint s)\<rparr>"
    and cp: "\<forall>cp. k_RateCheckpoint s = Some cp \<longrightarrow> cp_at cp \<le> si_paused_at info \<longrightarrow> in_u64 (cp_at cp + d)"
    using shift_checkpoint_success [OF sc] by simp_all
  have ls: "log_step ?m s'" using ev by (simp add: Let_def events_log_step)
  have pa: "si_paused_at info \<le> timestamp e" using du by (simp add: d_def in_u64_def)
  show thesis
    by (rule that [OF info nc pz au pa _ _ _ _ _ _ _ _ _ _ _ _ ls])
       (use dm st en cp in \<open>simp_all add: d_def [symmetric] save_def i s2\<close>)
qed

lemma resumed_info_ok:
  assumes "info_ok t info" and "in_u64 (si_start_time info + d)"
    and "0 < si_end_time info \<Longrightarrow> in_u64 (si_end_time info + d)"
  shows "info_ok t (resumed_info d info)"
  using assms by (auto simp: info_ok_def resumed_info_def flag_bits in_u64_def int_bounds)

lemma resume_keeps:
  assumes "stream_inv t s" and "env_ok t e" and "resume_body e caller s = Inr (u, s')"
  shows "keeps (timestamp e) s s'"
  using assms(3)
proof (rule resume_body_success)
  fix info :: stream_info and m :: "'a stream"
  let ?d = "timestamp e - si_paused_at info"
  assume *: "k_Config s = Some info" "in_u64 (si_start_time info + ?d)"
    "0 < si_end_time info \<longrightarrow> in_u64 (si_end_time info + ?d)"
    "k_Config m = Some (resumed_info ?d info)"
    "k_RateCheckpoint m = shifted info ?d (k_RateCheckpoint s)"
    "\<forall>cp. k_RateCheckpoint s = Some cp \<longrightarrow> cp_at cp \<le> si_paused_at info \<longrightarrow> in_u64 (cp_at cp + ?d)"
    "k_CliffConfig m = k_CliffConfig s" "k_SplitConfig m = k_SplitConfig s"
    "k_KeeperRewardPool m = k_KeeperRewardPool s" "st_events m = st_events s"
    and g: "k_Guard m = k_Guard s" and ls: "log_step m s'"
  have inv: "stream_inv (timestamp e) s" using assms env_inv by blast
  then have io: "info_ok (timestamp e) (resumed_info ?d info)" and cs: "checkpoint_ok (k_RateCheckpoint s)"
    using *(1-3) by (auto simp: stream_inv_Some intro: resumed_info_ok)
  have "checkpoint_ok (k_RateCheckpoint m)"
    using cs *(5,6) by (auto simp: checkpoint_ok_def shifted_def split: option.splits if_splits)
  with io have "stream_inv (timestamp e) m"
    using inv * by (simp add: stream_inv_Some resumed_info_def log_ok_def)
  then show ?thesis using keeps_log g ls by blast
qed

definition rate_changed_state :: "int \<Rightarrow> stream_info \<Rightarrow> int \<Rightarrow> int \<Rightarrow> 'w stream \<Rightarrow> 'w stream" where
  "rate_changed_state now info accrued new_rate s =
     (bump s)\<lparr>k_Config := Some (info\<lparr>si_rate_per_second := new_rate\<rparr>),
        k_RateCheckpoint := Some \<lparr>cp_accrued = snd (change_point now s info accrued),
                                  cp_at = fst (change_point now s info accrued)\<rparr>\<rparr>"

lemma change_rate_body_success:
  assumes "change_rate_body e caller new_rate s = Inr (u, s')"
  obtains info accrued where "0 < new_rate" and "k_Config s = Some info" and "\<not> info_is_cancelled info"
    and "require_sender_or_operator e s caller (si_sender info) = Inr ()"
    and "0 < si_end_time info \<longrightarrow> timestamp e < si_end_time info"
    and "streamed_amount (timestamp e) s info = Inr accrued"
    and "0 < si_end_time info \<and> fst (change_point (timestamp e) s info accrued) < si_end_time info \<longrightarrow>
      in_i128 (snd (change_point (timestamp e) s info accrued) +
        new_rate * (si_end_time info - fst (change_point (timestamp e) s info accrued)))"
    and "log_step (rate_changed_state (timestamp e) info accrued new_rate s) s'"
proof -
  obtain info accrued where pos: "0 < new_rate" and info: "k_Config s = Some info"
    and nc: "\<not> info_is_cancelled info"
    and au: "require_sender_or_operator e s caller (si_sender info) = Inr ()"
    and en: "0 < si_end_time info \<longrightarrow> timestamp e < si_end_time info"
    and ac: "streamed_amount (timestamp e) s info = Inr accrued"
    using assms by (auto simp: change_rate_body_def res_simps Let_def)
  obtain at' amt where cp: "change_point (timestamp e) s info accrued = (at', amt)" by (cases "change_point (timestamp e) s info accrued") auto
  have "\<not> (0 < si_end_time info \<and> si_end_time info \<le> timestamp e)" using en by auto
  then have "0 < si_end_time info \<and> at' < si_end_time info \<longrightarrow> in_i128 (amt + new_rate * (si_end_time info - at'))"
    and "log_step (rate_changed_state (timestamp e) info accrued new_rate s) s'"
    using assms pos info nc au ac cp
    by (auto simp: change_rate_body_def assert_not_cancelled_def save_def rate_changed_state_def
        and_then_eq_Inr ok_or_eq_Inr checked_eq_Some if_Inl_eq_Inr Let_def split: if_splits dest!: events_log_step)
  then show thesis using that pos info nc au en ac cp by simp
qed

lemma change_point_ok:
  assumes "stream_inv t s" and "k_Config s = Some info" and "in_u64 now"
    and "streamed_amount now s info = Inr v"
  shows "0 \<le> snd (change_point now s info v)" and "snd (change_point now s info v) \<le> i128_max"
    and "in_u64 (fst (change_point now s info v))"
  using assms(1,2,3) streamed_amount_Inr(1,2) [OF stream_inv_accrual [OF assms(1,2)] assms(3,4)]
  by (auto simp: change_point_def stream_inv_Some info_ok_def cliff_ok_def Let_def int_bounds split: option.splits)

lemma change_rate_keeps:
  assumes "stream_inv t s" and "env_ok t e" and "in_i128 new_rate"
    and "change_rate_body e caller new_rate s = Inr (u, s')"
  shows "keeps (timestamp e) s s'"
proof -
  have inv: "stream_inv (timestamp e) s" using assms env_inv by blast
  have now: "in_u64 (timestamp e)" using assms(2) by (simp add: env_ok_def)
  obtain info v where *: "0 < new_rate" "k_Config s = Some info"
    and v: "streamed_amount (timestamp e) s info = Inr v"
    and ls: "log_step (rate_changed_state (timestamp e) info v new_rate s) s'"
    using change_rate_body_success [OF assms(4)] by metis
  have "stream_inv (timestamp e) (rate_changed_state (timestamp e) info v new_rate s)"
    using inv * assms(3) change_point_ok [OF inv *(2) now v]
    by (simp add: stream_inv_Some info_ok_def rate_changed_state_def checkpoint_ok_def in_i128_def)
  moreover have "k_Guard (rate_changed_state (timestamp e) info v new_rate s) = k_Guard s"
    by (simp add: rate_changed_state_def)
  ultimately show ?thesis using keeps_log ls by blast
qed

subsection \<open>Funding\<close>

lemma add_cumulative_deposit_success:
  "add_cumulative_deposit e info n s = Inr s' \<Longrightarrow> \<exists>d. s' = s\<lparr>k_CumulativeDeposited := Some d\<rparr>"
  by (auto simp: add_cumulative_deposit_def res_simps)

lemma top_up_keeps:
  assumes "stream_inv t s" and "env_ok t e" and "top_up_body e caller amount s = Inr (u, s')"
  shows "keeps (timestamp e) s s'"
proof -
  have inv: "stream_inv (timestamp e) s" using assms env_inv by blast
  obtain w d where ls: "log_step ((bump s)\<lparr>k_CumulativeDeposited := Some d, st_world := w\<rparr>) s'"
    using assms(3)
    by (auto simp: top_up_body_def res_simps Let_def
        dest!: events_log_step add_cumulative_deposit_success)
  show ?thesis by (rule keeps_log [OF _ _ ls]) (use inv in simp_all)
qed

text \<open>Moving the end forward keeps the record well-formed.\<close>

lemma info_ok_extend:
  "info_ok t info \<Longrightarrow> 0 < si_end_time info \<Longrightarrow> 0 \<le> n \<Longrightarrow> in_u64 (si_end_time info + n) \<Longrightarrow>
     info_ok t (info\<lparr>si_end_time := si_end_time info + n\<rparr>)"
  by (auto simp: info_ok_def)

lemma extended_keeps:
  assumes "stream_inv t s" and "k_Config s = Some info" and "si_end_time info \<noteq> 0" and "0 \<le> n"
    and "in_u64 (si_end_time info + n)"
    and "log_step (bump_for_remaining k ((bump s)\<lparr>k_CumulativeDeposited := Some d, st_world := w,
      k_Config := Some (info\<lparr>si_end_time := si_end_time info + n\<rparr>)\<rparr>)) s'"
  shows "keeps t s s'"
proof (rule keeps_log [OF _ _ assms(6)])
  have "0 < si_end_time info"
    using assms(1-3) by (auto simp: stream_inv_Some info_ok_def in_u64_def)
  then have "info_ok t (info\<lparr>si_end_time := si_end_time info + n\<rparr>)"
    using assms by (intro info_ok_extend) (auto simp: stream_inv_Some)
  then show "stream_inv t (bump_for_remaining k ((bump s)\<lparr>k_CumulativeDeposited := Some d, st_world := w,
      k_Config := Some (info\<lparr>si_end_time := si_end_time info + n\<rparr>)\<rparr>))"
    using assms(1,2) by (simp add: stream_inv_Some)
qed simp

lemma extend_duration_keeps:
  assumes "stream_inv t s" and "env_ok t e" and "in_u64 extra"
    and "extend_duration_body e caller extra s = Inr (u, s')"
  shows "keeps (timestamp e) s s'"
proof -
  have inv: "stream_inv (timestamp e) s" using assms env_inv by blast
  obtain info d w k where *: "k_Config s = Some info" "si_end_time info \<noteq> 0" "in_u64 (si_end_time info + extra)"
    and ls: "log_step (bump_for_remaining k ((bump s)\<lparr>k_CumulativeDeposited := Some d, st_world := w,
      k_Config := Some (info\<lparr>si_end_time := si_end_time info + extra\<rparr>)\<rparr>)) s'"
    using assms(4)
    by (auto simp: extend_duration_body_def res_simps Let_def save_def
        dest!: events_log_step add_cumulative_deposit_success)
  show ?thesis
    using extended_keeps [OF inv *(1,2) _ *(3) ls] assms(3) by (simp add: in_u64_def)
qed

lemma top_up_and_extend_keeps:
  assumes "stream_inv t s" and "env_ok t e" and "in_u64 extra"
    and "top_up_and_extend_body e caller amount extra s = Inr (u, s')"
  shows "keeps (timestamp e) s s'"
proof -
  have inv: "stream_inv (timestamp e) s" using assms env_inv by blast
  obtain info d w k where *: "k_Config s = Some info" "si_end_time info \<noteq> 0" "in_u64 (si_end_time info + extra)"
    and ls: "log_step (bump_for_remaining k ((bump s)\<lparr>k_CumulativeDeposited := Some d, st_world := w,
      k_Config := Some (info\<lparr>si_end_time := si_end_time info + extra\<rparr>)\<rparr>)) s'"
    using assms(4)
    by (auto simp: top_up_and_extend_body_def res_simps Let_def save_def
        dest!: events_log_step add_cumulative_deposit_success)
  show ?thesis
    using extended_keeps [OF inv *(1,2) _ *(3) ls] assms(3) by (simp add: in_u64_def)
qed

subsection \<open>Keeper pool\<close>

lemma pool_keeps:
  assumes "stream_inv t s" and "k_Config s = Some info" and "pool_valid (si_token info) p"
    and "k_Config m = k_Config s" and "k_RateCheckpoint m = k_RateCheckpoint s"
    and "k_CliffConfig m = k_CliffConfig s" and "k_SplitConfig m = k_SplitConfig s"
    and "k_KeeperRewardPool m = p" and "st_events m = st_events s" and "k_Guard m = k_Guard s"
    and "log_step m s'"
  shows "keeps t s s'"
proof (rule keeps_log [OF _ assms(10,11)])
  show "stream_inv t m" using assms by (simp add: stream_inv_Some)
qed

lemma configure_keeper_pool_keeps:
  assumes "stream_inv t s" and "env_ok t e"
    and "configure_keeper_pool_body e caller tok reward s = Inr (u, s')"
  shows "keeps (timestamp e) s s'"
proof -
  have inv: "stream_inv (timestamp e) s" using assms env_inv by blast
  obtain info b where "k_Config s = Some info" "0 < reward" "tok \<noteq> si_token info"
    and ls: "log_step ((bump s)\<lparr>k_KeeperRewardPool := Some \<lparr>kp_token = tok, kp_reward_per_ping = reward,
      kp_balance = b\<rparr>\<rparr>) s'"
    using assms(3)
    by (auto simp: configure_keeper_pool_body_def res_simps Let_def dest!: events_log_step split: option.splits)
  then show ?thesis by (intro pool_keeps [OF inv _ _ _ _ _ _ _ _ _ ls]) (simp_all add: pool_valid_def)
qed

lemma fund_keeper_pool_keeps:
  assumes "stream_inv t s" and "env_ok t e" and "fund_keeper_pool_body e caller amount s = Inr (u, s')"
  shows "keeps (timestamp e) s s'"
proof -
  have inv: "stream_inv (timestamp e) s" using assms env_inv by blast
  obtain info p b w where "k_Config s = Some info" "k_KeeperRewardPool s = Some p"
    and ls: "log_step ((bump (s\<lparr>k_KeeperRewardPool := Some (p\<lparr>kp_balance := b\<rparr>)\<rparr>))\<lparr>st_world := w\<rparr>) s'"
    using assms(3)
    by (auto simp: fund_keeper_pool_body_def res_simps Let_def dest!: events_log_step)
  then show ?thesis
    using inv by (intro pool_keeps [OF inv _ _ _ _ _ _ _ _ _ ls]) (auto simp: pool_valid_def stream_inv_Some)
qed

lemma withdraw_keeper_pool_keeps:
  assumes "stream_inv t s" and "env_ok t e" and "withdraw_keeper_pool_body e caller amount s = Inr (u, s')"
  shows "keeps (timestamp e) s s'"
proof -
  have inv: "stream_inv (timestamp e) s" using assms env_inv by blast
  obtain info p b w where "k_Config s = Some info" "k_KeeperRewardPool s = Some p"
    and ls: "log_step ((bump (s\<lparr>k_KeeperRewardPool := Some (p\<lparr>kp_balance := b\<rparr>)\<rparr>))\<lparr>st_world := w\<rparr>) s'"
    using assms(3)
    by (auto simp: withdraw_keeper_pool_body_def res_simps Let_def dest!: events_log_step)
  then show ?thesis
    using inv by (intro pool_keeps [OF inv _ _ _ _ _ _ _ _ _ ls]) (auto simp: pool_valid_def stream_inv_Some)
qed

lemma keeper_ping_keeps:
  assumes "stream_inv t s" and "env_ok t e" and "keeper_ping_body e keeper s = Inr (r, s')"
  shows "keeps (timestamp e) s s'"
proof -
  have inv: "stream_inv (timestamp e) s" using assms env_inv by blast
  obtain info p b w k l where "k_Config s = Some info" "k_KeeperRewardPool s = Some p"
    and ls: "log_step ((bump_for_remaining k (s\<lparr>k_KeeperRewardPool := Some (p\<lparr>kp_balance := b\<rparr>),
      k_LastKeeperPingLedger := l\<rparr>))\<lparr>st_world := w\<rparr>) s'"
    using assms(3)
    by (auto simp: keeper_ping_body_def res_simps Let_def dest!: events_log_step)
  then show ?thesis
    using inv by (intro pool_keeps [OF inv _ _ _ _ _ _ _ _ _ ls]) (auto simp: pool_valid_def stream_inv_Some)
qed

subsection \<open>Parties, split, labels, cliff, limits\<close>

lemma transfer_recipient_keeps:
  assumes "stream_inv t s" and "env_ok t e" and "transfer_recipient_body e a s = Inr (u, s')"
  shows "keeps (timestamp e) s s'"
proof -
  have inv: "stream_inv (timestamp e) s" using assms env_inv by blast
  obtain info where *: "k_Config s = Some info" "\<not> is_zero_address a"
    and ls: "log_step ((bump s)\<lparr>k_Config := Some (info\<lparr>si_recipient := a\<rparr>), k_AutoForwardAddress := None\<rparr>) s'"
    using assms(3) by (auto simp: transfer_recipient_body_def res_simps Let_def save_def dest!: events_log_step)
  show ?thesis by (rule keeps_log [OF _ _ ls]) (use inv * in \<open>simp_all add: stream_inv_Some info_ok_def\<close>)
qed

lemma set_auto_forward_keeps:
  assumes "stream_inv t s" and "env_ok t e" and "set_auto_forward_body e a s = Inr (u, s')"
  shows "keeps (timestamp e) s s'"
proof -
  have "s' = (bump s)\<lparr>k_AutoForwardAddress := None\<rparr> \<or> s' = (bump s)\<lparr>k_AutoForwardAddress := Some a\<rparr>"
    using assms(3)
    by (auto simp: set_auto_forward_body_def and_then_eq_Inr if_Inl_eq_Inr Let_def split: if_splits)
  then show ?thesis using env_inv [OF assms(1,2)] by (elim disjE) (simp_all add: keeps_def)
qed

lemma set_operator_keeps:
  assumes "stream_inv t s" and "env_ok t e" and "set_operator e caller a s = Inr s'"
  shows "keeps (timestamp e) s s'"
proof -
  have inv: "stream_inv (timestamp e) s" using assms env_inv by blast
  show ?thesis
  proof (cases "k_Operator s")
    case None
    then have ls: "log_step ((bump s)\<lparr>k_Operator := Some a\<rparr>) s'"
      using assms(3) by (auto simp: set_operator_def res_simps Let_def dest!: events_log_step)
    show ?thesis using inv by (intro keeps_log [OF _ _ ls]) simp_all
  next
    case (Some old)
    show ?thesis
    proof (cases "old = a")
      case True
      then have "s' = bump s" using assms(3) Some by (auto simp: set_operator_def res_simps Let_def)
      then show ?thesis using inv by (simp add: keeps_def)
    next
      case False
      then obtain s2 where ls: "log_step (bump s) s2" "log_step (s2\<lparr>k_Operator := Some a\<rparr>) s'"
        using assms(3) Some
        by (auto simp: set_operator_def and_then_eq_Inr if_Inl_eq_Inr Let_def dest!: events_log_step)
      have "stream_inv (timestamp e) s2" using stream_inv_log [OF _ ls(1)] inv by simp
      then show ?thesis
        using log_step_frame(1) [OF ls(1)] by (intro keeps_log [OF _ _ ls(2)]) simp_all
    qed
  qed
qed

lemma revoke_operator_keeps:
  assumes "stream_inv t s" and "env_ok t e" and "revoke_operator e caller s = Inr s'"
  shows "keeps (timestamp e) s s'"
proof -
  have ls: "log_step ((bump s)\<lparr>k_Operator := None\<rparr>) s'"
    using assms(3) by (auto simp: revoke_operator_def res_simps Let_def dest!: events_log_step)
  show ?thesis by (rule keeps_log [OF _ _ ls]) (use env_inv [OF assms(1,2)] in simp_all)
qed

lemma set_split_keeps:
  assumes "stream_inv t s" and "env_ok t e" and "in_u32 bps"
    and "set_split_recipient_body e caller a bps s = Inr (u, s')"
  shows "keeps (timestamp e) s s'"
proof -
  have inv: "stream_inv (timestamp e) s" using assms env_inv by blast
  obtain info where "k_Config s = Some info" "bps \<noteq> 0" "bps < 10000"
    and ls: "log_step ((bump s)\<lparr>k_SplitConfig := Some \<lparr>sp_secondary_recipient = a, sp_split_bps = bps\<rparr>\<rparr>) s'"
    using assms(4) by (auto simp: set_split_recipient_body_def res_simps Let_def not_le dest!: events_log_step)
  then show ?thesis
    using inv assms(3) by (intro keeps_log [OF _ _ ls]) (auto simp: stream_inv_Some split_ok_def in_u32_def)
qed

lemma remove_split_keeps:
  assumes "stream_inv t s" and "env_ok t e" and "remove_split_recipient_body e caller s = Inr (u, s')"
  shows "keeps (timestamp e) s s'"
proof -
  have inv: "stream_inv (timestamp e) s" using assms env_inv by blast
  obtain info where "k_Config s = Some info" and ls: "log_step ((bump s)\<lparr>k_SplitConfig := None\<rparr>) s'"
    using assms(3) by (auto simp: remove_split_recipient_body_def res_simps Let_def dest!: events_log_step)
  then show ?thesis
    using inv by (intro keeps_log [OF _ _ ls]) (auto simp: stream_inv_Some split_ok_def)
qed

lemma label_keeps:
  assumes "stream_inv t s" and "env_ok t e"
  shows "set_stream_title e caller x s = Inr s' \<Longrightarrow> keeps (timestamp e) s s'"
    and "set_reference_tag e caller x s = Inr s' \<Longrightarrow> keeps (timestamp e) s s'"
    and "set_invoice_metadata_uri e caller x s = Inr s' \<Longrightarrow> keeps (timestamp e) s s'"
    and "set_milestone_metadata_uri e caller x s = Inr s' \<Longrightarrow> keeps (timestamp e) s s'"
  using env_inv [OF assms]
  by (auto simp: set_stream_title_def set_reference_tag_def set_invoice_metadata_uri_def set_milestone_metadata_uri_def
      res_simps keeps_def)

lemma set_cliff_keeps:
  assumes "stream_inv t s" and "env_ok t e" and "in_u64 ct" and "in_i128 amt"
    and "set_cliff_body e caller ct amt s = Inr (u, s')"
  shows "keeps (timestamp e) s s'"
proof -
  have inv: "stream_inv (timestamp e) s" using assms env_inv by blast
  obtain info where "k_Config s = Some info" "0 \<le> amt"
    and ls: "log_step ((bump s)\<lparr>k_CliffConfig := Some \<lparr>cc_cliff_time = ct, cc_cliff_unlock_amount = amt\<rparr>\<rparr>) s'"
    using assms(5) by (auto simp: set_cliff_body_def res_simps Let_def not_less dest!: events_log_step)
  then show ?thesis
    using inv assms(3,4) by (intro keeps_log [OF _ _ ls]) (auto simp: stream_inv_Some cliff_ok_def in_i128_def)
qed

lemma set_min_interval_keeps:
  assumes "stream_inv t s" and "env_ok t e" and "set_min_withdrawal_interval_body e caller n s = Inr (u, s')"
  shows "keeps (timestamp e) s s'"
proof -
  have ls: "log_step ((bump s)\<lparr>k_MinWithdrawalInterval := Some n\<rparr>) s'"
    using assms(3) by (auto simp: set_min_withdrawal_interval_body_def res_simps Let_def dest!: events_log_step)
  show ?thesis by (rule keeps_log [OF _ _ ls]) (use env_inv [OF assms(1,2)] in simp_all)
qed

lemma set_stream_config_keeps:
  assumes "stream_inv t s" and "env_ok t e" and "set_stream_config_body e caller c s = Inr (u, s')"
  shows "keeps (timestamp e) s s'"
  using assms(3) env_inv [OF assms(1,2)]
  by (auto simp: set_stream_config_body_def res_simps Let_def keeps_def)

lemma emergency_frame:
  "\<exists>slot. snd (is_emergency_paused e s) = s\<lparr>k_EmergencyPaused := slot\<rparr>"
  "write_emergency e p s = Inr s' \<Longrightarrow> \<exists>slot. s' = s\<lparr>k_EmergencyPaused := slot\<rparr>"
  by (auto simp: is_emergency_paused_def write_emergency_def and_then_eq_Inr split: prod.splits)

text \<open>Both calls change the flag in the state they log their event in.\<close>

lemma emergency_success:
  assumes "emergency_pause e caller s = Inr s' \<or> emergency_unpause e caller s = Inr s'"
  obtains x y where "log_step ((bump (s\<lparr>k_EmergencyPaused := x\<rparr>))\<lparr>k_EmergencyPaused := y\<rparr>) s'"
proof -
  obtain p s1 where s1: "is_emergency_paused e s = (p, s1)" by (metis surj_pair)
  obtain x where x: "s1 = s\<lparr>k_EmergencyPaused := x\<rparr>" using emergency_frame(1) [of e s] s1 by auto
  obtain b m where m: "write_emergency e b (bump s1) = Inr m" and log: "log_step m s'"
    using assms unfolding emergency_pause_def emergency_unpause_def s1 and_then_eq_Inr Let_def prod.case if_Inl_eq_Inr
    by (elim disjE exE conjE) (auto intro: events_log_step)
  obtain y where "m = (bump s1)\<lparr>k_EmergencyPaused := y\<rparr>" using emergency_frame(2) [OF m] by blast
  then show thesis using that log x by blast
qed

lemma emergency_keeps:
  assumes "stream_inv t s" and "env_ok t e"
  shows "emergency_pause e caller s = Inr s' \<Longrightarrow> keeps (timestamp e) s s'"
    and "emergency_unpause e caller s = Inr s' \<Longrightarrow> keeps (timestamp e) s s'"
proof -
  have "keeps (timestamp e) s s'" if ok: "emergency_pause e caller s = Inr s' \<or> emergency_unpause e caller s = Inr s'"
  proof -
    obtain x y where log: "log_step ((bump (s\<lparr>k_EmergencyPaused := x\<rparr>))\<lparr>k_EmergencyPaused := y\<rparr>) s'"
      using emergency_success [OF ok] .
    show ?thesis by (rule keeps_log [OF _ _ log]) (use env_inv [OF assms] in simp_all)
  qed
  then show "emergency_pause e caller s = Inr s' \<Longrightarrow> keeps (timestamp e) s s'"
    "emergency_unpause e caller s = Inr s' \<Longrightarrow> keeps (timestamp e) s s'" by blast+
qed

section \<open>Calls\<close>

datatype stream_call =
    Initialize address address address int int int bool int bool "string option"
  | Withdraw int | Cancel address | ForceCancel | Pause address | Resume address
  | ChangeRate address int | TopUp address int | ExtendDuration address int
  | TopUpAndExtend address int int | Clawback address
  | EmergencyPause address | EmergencyUnpause address
  | ConfigureKeeperPool address address int | FundKeeperPool address int
  | WithdrawKeeperPool address int | KeeperPing address
  | TransferRecipient address | SetAutoForward address
  | SetOperator address address | RevokeOperator address
  | SetSplit address address int | RemoveSplit address
  | SetTitle address string | SetTag address string
  | SetInvoiceUri address string | SetMilestoneUri address string
  | SetCliff address int int | SetMinInterval address int | SetConfig address stream_config

definition drop_value :: "(stream_error, 'a \<times> 'w stream) res \<Rightarrow> (stream_error, 'w stream) res" where
  "drop_value r = and_then r (\<lambda>(v, s). Inr s)"

fun stream_exec :: "'w env \<Rightarrow> stream_call \<Rightarrow> 'w stream \<Rightarrow> (stream_error, 'w stream) res" where
  "stream_exec e (Initialize sender recipient tok rate start_time end_time claw fc reg desc) s =
     initialize e sender recipient tok rate start_time end_time claw fc reg desc s"
| "stream_exec e (Withdraw n) s = drop_value (withdraw e n s)"
| "stream_exec e (Cancel a) s = drop_value (cancel e a s)"
| "stream_exec e ForceCancel s = drop_value (force_cancel e s)"
| "stream_exec e (Pause a) s = drop_value (pause e a s)"
| "stream_exec e (Resume a) s = drop_value (resume e a s)"
| "stream_exec e (ChangeRate a n) s = drop_value (change_rate e a n s)"
| "stream_exec e (TopUp a n) s = drop_value (top_up e a n s)"
| "stream_exec e (ExtendDuration a n) s = drop_value (extend_duration e a n s)"
| "stream_exec e (TopUpAndExtend a n m) s = drop_value (top_up_and_extend e a n m s)"
| "stream_exec e (Clawback a) s = drop_value (clawback e a s)"
| "stream_exec e (EmergencyPause a) s = emergency_pause e a s"
| "stream_exec e (EmergencyUnpause a) s = emergency_unpause e a s"
| "stream_exec e (ConfigureKeeperPool a tok n) s = drop_value (stream_configure_keeper_reward_pool e a tok n s)"
| "stream_exec e (FundKeeperPool a n) s = drop_value (stream_fund_keeper_reward_pool e a n s)"
| "stream_exec e (WithdrawKeeperPool a n) s = drop_value (withdraw_keeper_reward_pool e a n s)"
| "stream_exec e (KeeperPing a) s = drop_value (keeper_ping e a s)"
| "stream_exec e (TransferRecipient a) s = drop_value (transfer_recipient e a s)"
| "stream_exec e (SetAutoForward a) s = drop_value (set_auto_forward_address e a s)"
| "stream_exec e (SetOperator a b) s = set_operator e a b s"
| "stream_exec e (RevokeOperator a) s = revoke_operator e a s"
| "stream_exec e (SetSplit a b n) s = drop_value (set_split_recipient e a b n s)"
| "stream_exec e (RemoveSplit a) s = drop_value (remove_split_recipient e a s)"
| "stream_exec e (SetTitle a x) s = set_stream_title e a x s"
| "stream_exec e (SetTag a x) s = set_reference_tag e a x s"
| "stream_exec e (SetInvoiceUri a x) s = set_invoice_metadata_uri e a x s"
| "stream_exec e (SetMilestoneUri a x) s = set_milestone_metadata_uri e a x s"
| "stream_exec e (SetCliff a t n) s = drop_value (set_cliff e a t n s)"
| "stream_exec e (SetMinInterval a n) s = drop_value (set_min_withdrawal_interval e a n s)"
| "stream_exec e (SetConfig a c) s = drop_value (set_stream_config e a c s)"

text \<open>The arguments of a call lie in the range of their Rust types.\<close>

fun call_ok :: "stream_call \<Rightarrow> bool" where
  "call_ok (Initialize sender recipient tok rate start_time end_time claw fc reg desc) =
     (in_i128 rate \<and> in_u64 start_time \<and> in_u64 end_time \<and> in_u64 fc)"
| "call_ok (Withdraw n) = in_i128 n"
| "call_ok (ChangeRate a n) = in_i128 n"
| "call_ok (TopUp a n) = in_i128 n"
| "call_ok (ExtendDuration a n) = in_u64 n"
| "call_ok (TopUpAndExtend a n m) = (in_i128 n \<and> in_u64 m)"
| "call_ok (ConfigureKeeperPool a tok n) = in_i128 n"
| "call_ok (FundKeeperPool a n) = in_i128 n"
| "call_ok (WithdrawKeeperPool a n) = in_i128 n"
| "call_ok (SetSplit a b n) = in_u32 n"
| "call_ok (SetCliff a t n) = (in_u64 t \<and> in_i128 n)"
| "call_ok (SetMinInterval a n) = in_u64 n"
| "call_ok _ = True"

lemma drop_value_eq_Inr [res_simps]: "drop_value r = Inr s' \<longleftrightarrow> (\<exists>v. r = Inr (v, s'))"
  by (auto simp: drop_value_def res_simps)

text \<open>The invariant of a stream between calls: the guard is free.\<close>

definition stream_idle :: "int \<Rightarrow> 'w stream \<Rightarrow> bool" where
  "stream_idle t s \<longleftrightarrow> stream_inv t s \<and> guard_depth s = 0"

lemma keeps_idle: "keeps u s s' \<Longrightarrow> stream_idle t s \<Longrightarrow> stream_idle u s'"
  by (auto simp: keeps_def stream_idle_def guard_depth_def)

text \<open>A body that keeps the invariant keeps it under the guard.\<close>

lemma with_guard_idle:
  assumes "with_guard f s = Inr (v, s')" and "stream_idle t s"
    and "\<And>s1 v s2. stream_inv t s1 \<Longrightarrow> f s1 = Inr (v, s2) \<Longrightarrow> keeps u s1 s2"
  shows "stream_idle u s'"
proof -
  obtain s2 where f: "f (s\<lparr>k_Guard := Some 1\<rparr>) = Inr (v, s2)" and s': "s' = unlock s2"
    using assms(1,2) by (auto simp: with_guard_eq_Inr stream_idle_def)
  have "stream_inv t (s\<lparr>k_Guard := Some 1\<rparr>)" using assms(2) by (simp add: stream_idle_def)
  from assms(3) [OF this f] have "stream_inv u s2" and "guard_depth s2 = 1"
    by (simp_all add: keeps_def guard_depth_def)
  then show ?thesis
    using s' stream_guard.release_depth [of s2] by (simp add: stream_idle_def)
qed

lemma guarded_idle:
  assumes "drop_value (with_guard f s) = Inr s'" and "stream_idle t s"
    and "\<And>s1 v s2. stream_inv t s1 \<Longrightarrow> f s1 = Inr (v, s2) \<Longrightarrow> keeps u s1 s2"
  shows "stream_idle u s'"
proof -
  obtain v where "with_guard f s = Inr (v, s')" using assms(1) by (auto simp: drop_value_eq_Inr)
  then show ?thesis by (rule with_guard_idle [OF _ assms(2,3)])
qed

lemmas guarded_ops =
  withdraw_def cancel_def force_cancel_def pause_def resume_def change_rate_def top_up_def
  extend_duration_def top_up_and_extend_def clawback_def stream_configure_keeper_reward_pool_def
  stream_fund_keeper_reward_pool_def withdraw_keeper_reward_pool_def keeper_ping_def
  transfer_recipient_def set_auto_forward_address_def set_split_recipient_def
  remove_split_recipient_def set_cliff_def set_min_withdrawal_interval_def set_stream_config_def

lemmas guarded_keeps =
  withdraw_keeps cancel_keeps force_cancel_keeps pause_keeps resume_keeps change_rate_keeps top_up_keeps
  extend_duration_keeps top_up_and_extend_keeps clawback_keeps configure_keeper_pool_keeps
  fund_keeper_pool_keeps withdraw_keeper_pool_keeps keeper_ping_keeps transfer_recipient_keeps
  set_auto_forward_keeps set_split_keeps remove_split_keeps set_cliff_keeps set_min_interval_keeps
  set_stream_config_keeps

lemmas unguarded_keeps =
  emergency_keeps set_operator_keeps revoke_operator_keeps label_keeps

text \<open>A stream is initialized once: a second \<^verbatim>\<open>initialize\<close> is refused whatever its arguments.\<close>

lemma initialize_again:
  "k_Config s \<noteq> None \<Longrightarrow>
     initialize e sender recipient tok rate start_time end_time claw fc reg desc s = Inl (Err AlreadyInitialized)"
  by (simp add: initialize_def)

lemma idle_configured: "stream_idle t s \<Longrightarrow> k_Config s \<noteq> None"
  by (auto simp: stream_idle_def stream_inv_def split: option.splits)

lemma stream_exec_idle:
  assumes "stream_idle t s" and "env_ok t e" and "call_ok c" and "stream_exec e c s = Inr s'"
  shows "stream_idle (timestamp e) s'"
proof -
  have inv: "stream_inv t s" using assms(1) by (simp add: stream_idle_def)
  show ?thesis
    by (insert assms(3,4); cases c; simp only: stream_exec.simps call_ok.simps guarded_ops;
        ((erule guarded_idle [OF _ assms(1)], (rule guarded_keeps [OF _ assms(2)]; (assumption | blast)))
        | (rule keeps_idle [OF _ assms(1)], erule unguarded_keeps [OF inv assms(2)])
        | simp add: initialize_again [OF idle_configured [OF assms(1)]]))
qed

section \<open>Creation\<close>

lemma initialize_success:
  assumes "initialize e sender recipient tok rate start_time end_time claw fc reg desc s = Inr s'"
  obtains fl dep where "k_Config s = None" and "0 < rate" and "fc \<noteq> 0"
    and "\<not> is_zero_address recipient" and "recipient \<noteq> sender"
    and "0 < end_time \<longrightarrow> start_time + MIN_STREAM_DURATION \<le> end_time \<and>
           end_time - start_time \<le> MAX_STREAM_DURATION \<and> in_i128 (rate * (end_time - start_time))"
    and "timestamp e \<le> start_time"
    and "k_Config s' = Some \<lparr>si_sender = sender, si_recipient = recipient, si_token = tok,
           si_rate_per_second = rate, si_start_time = start_time, si_end_time = end_time, si_withdrawn = 0,
           si_paused_at = 0, si_flags = fl, si_event_sequence = 1, si_cumulative_fees = 0\<rparr>"
    and "fl = (if claw then FLAG_CLAWBACK_ENABLED else 0) OR (if reg then FLAG_REGULATED_ASSET else 0)"
    and "st_events s' = st_events s @
           [EvCreated 1 sender recipient tok rate start_time end_time CURRENT_STORAGE_VERSION]"
    and "k_RateCheckpoint s' = k_RateCheckpoint s" and "k_CliffConfig s' = k_CliffConfig s"
    and "k_SplitConfig s' = k_SplitConfig s" and "k_KeeperRewardPool s' = k_KeeperRewardPool s"
    and "k_Guard s' = k_Guard s" and "st_world s' = st_world s"
    and "k_CumulativeDeposited s' = Some dep"
    and "0 < end_time \<longrightarrow> dep = rate * (end_time - start_time)"
proof -
  have g: "k_Config s = None" "0 < rate" "fc \<noteq> 0" "\<not> is_zero_address recipient" "recipient \<noteq> sender"
    "0 < end_time \<longrightarrow> start_time + MIN_STREAM_DURATION \<le> end_time \<and>
           end_time - start_time \<le> MAX_STREAM_DURATION \<and> in_i128 (rate * (end_time - start_time))"
    "timestamp e \<le> start_time"
    using assms unfolding initialize_def
    by (auto simp: if_Inl_eq_Inr Let_def checked_eq_None not_less)
  define fl where "fl = (if claw then FLAG_CLAWBACK_ENABLED else 0) OR (if reg then FLAG_REGULATED_ASSET else 0)"
  let ?info = "\<lparr>si_sender = sender, si_recipient = recipient, si_token = tok,
           si_rate_per_second = rate, si_start_time = start_time, si_end_time = end_time, si_withdrawn = 0,
           si_paused_at = 0, si_flags = fl, si_event_sequence = 0, si_cumulative_fees = 0\<rparr>"
  obtain m dep where dep: "0 < end_time \<longrightarrow> dep = rate * (end_time - start_time)"
    and m: "k_RateCheckpoint m = k_RateCheckpoint s" "k_CliffConfig m = k_CliffConfig s"
      "k_SplitConfig m = k_SplitConfig s" "k_KeeperRewardPool m = k_KeeperRewardPool s"
      "k_Guard m = k_Guard s" "st_world m = st_world s" "k_CumulativeDeposited m = Some dep"
      "st_events m = st_events s"
    and ev: "events_created sender recipient tok rate start_time end_time CURRENT_STORAGE_VERSION
       (m\<lparr>k_Config := Some ?info\<rparr>) = Inr s'"
  proof -
    define m where "m = (\<lambda>dep. (case desc of
        Some d \<Rightarrow> (bump_for_remaining (sat_u64 (end_time - timestamp e)) s)\<lparr>k_StreamDescription := Some d\<rparr>
      | None \<Rightarrow> bump_for_remaining (sat_u64 (end_time - timestamp e)) s)
       \<lparr>k_StorageVersion := Some CURRENT_STORAGE_VERSION,
        k_ForceCancelPauseThresholdSecs := Some fc,
        k_ImmutableConfig := Some \<lparr>ic_start_time = start_time, ic_stop_time = end_time,
           ic_token = tok, ic_rate_per_second = rate, ic_sender = sender, ic_recipient = recipient\<rparr>,
        k_CumulativeDeposited := Some dep\<rparr>)"
    have fl: "(if reg then (if claw then 0 OR FLAG_CLAWBACK_ENABLED else 0) OR FLAG_REGULATED_ASSET
       else (if claw then 0 OR FLAG_CLAWBACK_ENABLED else 0)) = fl" by (simp add: fl_def)
    obtain dep where d: "0 < end_time \<longrightarrow> dep = rate * (end_time - start_time)"
      and ev: "events_created sender recipient tok rate start_time end_time CURRENT_STORAGE_VERSION
       ((m dep)\<lparr>k_Config := Some ?info\<rparr>) = Inr s'"
      using assms unfolding initialize_def Let_def fl if_Inl_eq_Inr and_then_eq_Inr save_def m_def
      by (auto simp: plain_eq_Inr split: if_splits)
    show thesis
      by (rule that [OF d _ _ _ _ _ _ _ _ ev]) (simp_all add: m_def split: option.split)
  qed
  have "s' = logged ?info (\<lambda>n. EvCreated n sender recipient tok rate start_time end_time
      CURRENT_STORAGE_VERSION) (m\<lparr>k_Config := Some ?info\<rparr>)"
    using ev by (auto simp: events_created_def res_simps)
  with m dep show thesis
    by (intro that [OF g _ fl_def]) simp_all
qed

lemma initialize_idle:
  assumes "initialize e sender recipient tok rate start_time end_time claw fc reg desc (fresh_stream w) = Inr s"
    and "env_ok 0 e" and "in_i128 rate" and "in_u64 start_time" and "in_u64 end_time"
  shows "stream_idle (timestamp e) s"
  using assms(1)
proof (rule initialize_success)
  fix fl :: "32 word"
  assume "0 < rate" "\<not> is_zero_address recipient"
    "0 < end_time \<longrightarrow> start_time + MIN_STREAM_DURATION \<le> end_time \<and>
       end_time - start_time \<le> MAX_STREAM_DURATION \<and> in_i128 (rate * (end_time - start_time))"
    "k_Config s = Some \<lparr>si_sender = sender, si_recipient = recipient, si_token = tok,
           si_rate_per_second = rate, si_start_time = start_time, si_end_time = end_time, si_withdrawn = 0,
           si_paused_at = 0, si_flags = fl, si_event_sequence = 1, si_cumulative_fees = 0\<rparr>"
    "fl = (if claw then FLAG_CLAWBACK_ENABLED else 0) OR (if reg then FLAG_REGULATED_ASSET else 0)"
    "st_events s = st_events (fresh_stream w) @
       [EvCreated 1 sender recipient tok rate start_time end_time CURRENT_STORAGE_VERSION]"
    "k_RateCheckpoint s = k_RateCheckpoint (fresh_stream w)" "k_CliffConfig s = k_CliffConfig (fresh_stream w)"
    "k_SplitConfig s = k_SplitConfig (fresh_stream w)"
    "k_KeeperRewardPool s = k_KeeperRewardPool (fresh_stream w)" "k_Guard s = k_Guard (fresh_stream w)"
  moreover have "\<not> bit fl 0" if "fl = (if claw then FLAG_CLAWBACK_ENABLED else 0) OR (if reg then FLAG_REGULATED_ASSET else 0)"
    using that by (auto simp: bit_or_iff flag_word_bits)
  ultimately show ?thesis
    using assms(3-5)
    by (auto simp: stream_idle_def stream_inv_Some info_ok_def checkpoint_ok_def cliff_ok_def split_ok_def
        pool_valid_def log_ok_def fresh_stream_def guard_depth_def flag_bits in_i128_def in_u64_def
        MIN_STREAM_DURATION_def int_bounds)
qed

section \<open>Reachable states\<close>

text \<open>States are paired with the latest ledger time.\<close>

inductive stream_init :: "int \<times> 'w stream \<Rightarrow> bool" where
  created: "initialize e sender recipient tok rate start_time end_time claw fc reg desc (fresh_stream w) = Inr s \<Longrightarrow>
     env_ok 0 e \<Longrightarrow> in_i128 rate \<Longrightarrow> in_u64 start_time \<Longrightarrow> in_u64 end_time \<Longrightarrow> in_u64 fc \<Longrightarrow>
     stream_init (timestamp e, s)"

inductive stream_step :: "int \<times> 'w stream \<Rightarrow> int \<times> 'w stream \<Rightarrow> bool" where
  call: "env_ok t e \<Longrightarrow> call_ok c \<Longrightarrow> stream_exec e c s = Inr s' \<Longrightarrow> stream_step (t, s) (timestamp e, s')"
| tokens_move: "t \<le> t' \<Longrightarrow> stream_step (t, s) (t', s\<lparr>st_world := w\<rparr>)"

inductive_cases stream_stepE: "stream_step (t, s) (t', s')"

interpretation streams: transition_system stream_init stream_step "\<lambda>(t, s). stream_idle t s"
proof (unfold_locales, goal_cases)
  case (1 x)
  then show ?case by (auto elim!: stream_init.cases intro: initialize_idle)
next
  case (2 x y)
  obtain t s t' s' where xy: "x = (t, s)" "y = (t', s')" by (metis surj_pair)
  from 2(2) [unfolded xy] show ?case
  proof (rule stream_stepE)
    fix e c assume "t' = timestamp e" "env_ok t e" "call_ok c" "stream_exec e c s = Inr s'"
    then show ?thesis using 2(1) stream_exec_idle by (simp add: xy)
  next
    fix w assume "s' = s\<lparr>st_world := w\<rparr>" "t \<le> t'"
    then show ?thesis using 2(1) by (auto simp: xy stream_idle_def guard_depth_def intro: stream_inv_mono)
  qed
qed

end
