(* ===== verification/Stream_Accrual.thy ===== *)
theory Stream_Accrual
  imports Stream_Invariant
begin

text \<open>
  How pausing, resuming and rate changes act on the accrued amount, and a
  sample stream for the concrete instances of the theorems.
\<close>

section \<open>A sample stream\<close>

text \<open>
  Alice streams 10 units of token \<open>T\<close> per second to Bob from time 100 to time 700;
  the stream contract \<open>C\<close> holds the 6000 units of the deposit.
\<close>

definition sample_ledger :: ledger where
  "sample_ledger = (\<lambda>t h. if h = ''C'' then 6000 else if h = ''alice'' then 500 else 0)"

definition sample_env :: "int \<Rightarrow> ledger env" where
  "sample_env now = \<lparr>timestamp = now, sequence = 1, contract_address = ''C'',
     authorized = (\<lambda>_. True), tokens = ledger_token\<rparr>"

definition sample_info :: stream_info where
  "sample_info = \<lparr>si_sender = ''alice'', si_recipient = ''bob'', si_token = ''T'',
     si_rate_per_second = 10, si_start_time = 100, si_end_time = 700, si_withdrawn = 0,
     si_paused_at = 0, si_flags = FLAG_CLAWBACK_ENABLED, si_event_sequence = 1, si_cumulative_fees = 0\<rparr>"

definition sample_stream :: "ledger stream" where
  "sample_stream = (fresh_stream sample_ledger)\<lparr>k_Config := Some sample_info,
     st_events := [EvCreated 1 ''alice'' ''bob'' ''T'' 10 100 700 1]\<rparr>"

lemma sample_stream_fields [simp]:
  "k_Config sample_stream = Some sample_info" "k_Guard sample_stream = None"
  "k_Operator sample_stream = None" "k_SplitConfig sample_stream = None"
  "k_CliffConfig sample_stream = None" "k_RateCheckpoint sample_stream = None"
  "k_MinWithdrawalInterval sample_stream = None" "k_LastWithdrawalTime sample_stream = None"
  "k_KeeperRewardPool sample_stream = None" "k_AutoForwardAddress sample_stream = None"
  "k_StreamConfig sample_stream = None" "k_StreamCompleted sample_stream = None"
  "k_CumulativeDeposited sample_stream = None" "k_EmergencyPaused sample_stream = None"
  "st_world sample_stream = sample_ledger"
  by (simp_all add: sample_stream_def fresh_stream_def)

lemma sample_env_simps [simp]:
  "timestamp (sample_env n) = n" "contract_address (sample_env n) = ''C''"
  "authorized (sample_env n) a" "tokens (sample_env n) = ledger_token" "sequence (sample_env n) = 1"
  by (simp_all add: sample_env_def)

lemma sample_env_ok: "0 \<le> t \<Longrightarrow> t \<le> n \<Longrightarrow> n \<le> 1000000 \<Longrightarrow> env_ok t (sample_env n)"
  by (auto simp: env_ok_def ledger_token_sep41 in_u64_def in_u32_def int_bounds)

lemma sample_flags [simp]:
  "\<not> info_is_paused sample_info" "\<not> info_is_cancelled sample_info" "info_is_clawback_enabled sample_info"
  by (simp_all add: flag_bits sample_info_def flag_word_bits)

lemma sample_info_fields [simp]:
  "si_sender sample_info = ''alice''" "si_recipient sample_info = ''bob''" "si_token sample_info = ''T''"
  "si_rate_per_second sample_info = 10" "si_start_time sample_info = 100" "si_end_time sample_info = 700"
  "si_withdrawn sample_info = 0" "si_paused_at sample_info = 0" "si_event_sequence sample_info = 1"
  by (simp_all add: sample_info_def)

lemma sample_not_zero [simp]:
  "\<not> is_zero_address ''bob''" "\<not> is_zero_address ''alice''" "\<not> is_zero_address ''carol''"
  by (simp_all add: is_zero_address_def zero_account_def zero_contract_def)

lemma sample_idle: "0 \<le> t \<Longrightarrow> stream_idle t sample_stream"
  by (simp add: stream_idle_def stream_inv_Some info_ok_def checkpoint_ok_def cliff_ok_def split_ok_def
      pool_valid_def log_ok_def guard_depth_def in_i128_def in_u64_def int_bounds)
     (simp add: sample_stream_def)

section \<open>The streamed amount\<close>

lemma idle_accrual: "stream_idle t s \<Longrightarrow> k_Config s = Some info \<Longrightarrow> accrual_ok s info"
  using stream_inv_accrual by (auto simp: stream_idle_def)



text \<open>
  Accrual is monotone and frozen by a pause: between two ledger times the
  streamed amount never decreases, and while the stream is paused it does not
  change at all.
\<close>

theorem streamed_amount_monotone:
  assumes "stream_idle t s" and "k_Config s = Some info" and "in_u64 now1" and "in_u64 now2"
    and "now1 \<le> now2" and "streamed_amount now1 s info = Inr v1" and "streamed_amount now2 s info = Inr v2"
  shows "v1 \<le> v2 \<and> (info_is_paused info \<and> si_start_time info \<le> now1 \<longrightarrow> v1 = v2)"
proof -
  have ok: "accrual_ok s info" by (rule idle_accrual [OF assms(1,2)])
  have v: "v1 = (if now1 < si_start_time info then 0 else accrued_upto s info (effective_now now1 info))"
    "v2 = (if now2 < si_start_time info then 0 else accrued_upto s info (effective_now now2 info))"
    using streamed_amount_Inr(3) [OF ok] assms by blast+
  have "v1 \<le> v2"
    using v assms(5) accrued_upto_nonneg [OF ok] accrued_upto_mono [OF ok effective_now_mono [OF assms(5)]]
    by auto
  moreover have "v1 = v2" if "info_is_paused info" "si_start_time info \<le> now1"
    using v that assms(5) effective_now_paused [OF that(1), of now1 now2] by auto
  ultimately show ?thesis by blast
qed

theorem streamed_amount_monotone_witness:
  "\<exists>v1 v2. streamed_amount 250 sample_stream sample_info = Inr v1 \<and>
     streamed_amount 900 sample_stream sample_info = Inr v2 \<and> v1 \<le> v2"
proof -
  have v: "streamed_amount 250 sample_stream sample_info = Inr 1500"
    "streamed_amount 900 sample_stream sample_info = Inr 6000"
    by (simp_all add: streamed_amount_def effective_now_def checked_u64_def mul_div_def in_u64_def int_bounds Let_def)
  show ?thesis
    using streamed_amount_monotone [OF sample_idle [of 0] _ _ _ _ v(1) v(2)] v
    by (simp add: in_u64_def int_bounds)
qed

text \<open>
  C8.  The up-front check of \<^verbatim>\<open>initialize\<close> is enough: a stream created with an end
  time never overflows its accrual, at any later ledger time, and never releases
  more than rate times duration.
\<close>

theorem bounded_stream_never_overflows:
  assumes "initialize e sender recipient tok rate start_time end_time claw fc reg desc (fresh_stream w) = Inr s"
    and "env_ok 0 e" and "in_i128 rate" and "in_u64 start_time" and "in_u64 end_time" and "0 < end_time"
    and "in_u64 now"
  shows "\<exists>info v. k_Config s = Some info \<and> streamed_amount now s info = Inr v \<and>
     0 \<le> v \<and> v \<le> rate * (end_time - start_time) \<and>
     (end_time \<le> now \<longrightarrow> v = rate * (end_time - start_time))"
  using assms(1)
proof (rule initialize_success)
  fix fl :: "32 word"
  let ?info = "\<lparr>si_sender = sender, si_recipient = recipient, si_token = tok,
           si_rate_per_second = rate, si_start_time = start_time, si_end_time = end_time, si_withdrawn = 0,
           si_paused_at = 0, si_flags = fl, si_event_sequence = 1, si_cumulative_fees = 0\<rparr>"
  assume c: "k_Config s = Some ?info"
    and fl: "fl = (if claw then FLAG_CLAWBACK_ENABLED else 0) OR (if reg then FLAG_REGULATED_ASSET else 0)"
    and g: "0 < rate" "0 < end_time \<longrightarrow> start_time + MIN_STREAM_DURATION \<le> end_time \<and>
       end_time - start_time \<le> MAX_STREAM_DURATION \<and> in_i128 (rate * (end_time - start_time))"
    and f: "k_RateCheckpoint s = k_RateCheckpoint (fresh_stream w)" "k_CliffConfig s = k_CliffConfig (fresh_stream w)"
  have idle: "stream_idle (timestamp e) s" by (rule initialize_idle [OF assms(1-5)])
  have np: "\<not> info_is_paused ?info" by (auto simp: flag_bits fl bit_or_iff flag_word_bits)
  define info where "info = ?info"
  have info: "k_Config s = Some info" "si_rate_per_second info = rate"
      "si_start_time info = start_time" "si_end_time info = end_time" "\<not> info_is_paused info"
    using c np by (simp_all add: info_def)
  have b: "in_i128 (rate * (end_time - start_time))" "start_time < end_time" "0 < rate"
    using g assms(6) by (auto simp: MIN_STREAM_DURATION_def)
  have st: "k_RateCheckpoint s = None" "k_CliffConfig s = None"
    using f by (simp_all add: fresh_stream_def)
  have base: "accrual_base s info = (0, start_time)" using st info by (simp add: accrual_base_def)
  have "effective_now now info = min now end_time"
    using info(4,5) assms(6) by (auto simp: effective_now_def)
  then have eq: "streamed_amount now s info = (if now < start_time then Inr 0 else
      let v = rate * (min now end_time - start_time) in if v \<le> i128_max then Inr v else Inl (Err ArithmeticOverflow))"
    using streamed_amount_spec [OF idle_accrual [OF idle info(1)] assms(7)] base info(2,3) b(2)
    by (auto simp: accrued_upto_def)
  have le: "rate * (min now end_time - start_time) \<le> rate * (end_time - start_time)"
    using b(3) by (intro mult_left_mono) auto
  then have "rate * (min now end_time - start_time) \<le> i128_max" using b(1) by (simp add: in_i128_def)
  moreover have "0 \<le> rate * (end_time - start_time)" using b by simp
  ultimately show ?thesis
    using eq le info(1) b by (intro exI [of _ info]) (auto simp: Let_def min_def)
qed

theorem bounded_stream_never_overflows_witness:
  "\<exists>s info v. (initialize (sample_env 50) ''alice'' ''bob'' ''T'' 10 100 700 True 1000 False None
       (fresh_stream sample_ledger) :: (stream_error, _) res) = Inr s \<and>
     k_Config s = Some info \<and> streamed_amount 800 s info = Inr v \<and> v = 6000"
proof -
  obtain s where s: "initialize (sample_env 50) ''alice'' ''bob'' ''T'' 10 100 700 True 1000 False None
       (fresh_stream sample_ledger) = Inr s"
    by (simp add: initialize_def fresh_stream_def MIN_STREAM_DURATION_def MAX_STREAM_DURATION_def
        checked_i128_def plain_i128_def in_i128_def int_bounds events_created_def
        assert_non_negative_amount_def publish_def next_sequence_def save_def bump_for_remaining_def
        checked_u64_def in_u64_def Let_def)
  then show ?thesis
    using bounded_stream_never_overflows [OF s sample_env_ok, of 800]
    by (auto simp: in_i128_def in_u64_def int_bounds)
qed

section \<open>Resuming\<close>

lemma unlock_frame [simp]:
  "k_Config (unlock s) = k_Config s" "k_RateCheckpoint (unlock s) = k_RateCheckpoint s"
  "k_CliffConfig (unlock s) = k_CliffConfig s" "st_world (unlock s) = st_world s"
  "k_SplitConfig (unlock s) = k_SplitConfig s" "k_KeeperRewardPool (unlock s) = k_KeeperRewardPool s"
  "st_events (unlock s) = st_events s" "k_Operator (unlock s) = k_Operator s"
  "k_LastKeeperPingLedger (unlock s) = k_LastKeeperPingLedger s"
  "k_AutoForwardAddress (unlock s) = k_AutoForwardAddress s"
  by (simp_all add: unlock_def Let_def)

lemma guarded_run:
  assumes "with_guard f s = Inr (v, s')" and "stream_idle t s"
  obtains s2 where "f (s\<lparr>k_Guard := Some 1\<rparr>) = Inr (v, s2)" and "s' = unlock s2"
  using assms by (auto simp: with_guard_eq_Inr stream_idle_def)

lemma resume_success:
  assumes "resume e caller s = Inr (u, s')" and "stream_idle t s" and "k_Config s = Some info"
  obtains n where "info_is_paused info" and "si_paused_at info \<le> timestamp e"
    and "k_Config s' = Some ((resumed_info (timestamp e - si_paused_at info) info)\<lparr>si_event_sequence := n\<rparr>)"
    and "k_RateCheckpoint s' = shifted info (timestamp e - si_paused_at info) (k_RateCheckpoint s)"
    and "k_CliffConfig s' = k_CliffConfig s"
proof -
  obtain s2 where body: "resume_body e caller (s\<lparr>k_Guard := Some 1\<rparr>) = Inr (u, s2)" and s': "s' = unlock s2"
    using assms(1,2) unfolding resume_def by (rule guarded_run)
  from body show thesis
  proof (rule resume_body_success)
    fix i :: stream_info and m :: "'a stream"
    assume i: "k_Config (s\<lparr>k_Guard := Some 1\<rparr>) = Some i" "info_is_paused i" "si_paused_at i \<le> timestamp e"
      and m: "k_Config m = Some (resumed_info (timestamp e - si_paused_at i) i)"
        "k_RateCheckpoint m = shifted i (timestamp e - si_paused_at i) (k_RateCheckpoint (s\<lparr>k_Guard := Some 1\<rparr>))"
        "k_CliffConfig m = k_CliffConfig (s\<lparr>k_Guard := Some 1\<rparr>)"
      and ls: "log_step m s2"
    have "i = info" using i assms(3) by simp
    obtain n where "k_Config s2 = Some ((resumed_info (timestamp e - si_paused_at i) i)\<lparr>si_event_sequence := n\<rparr>)"
      using ls m(1) by (auto elim!: log_step_config)
    then show thesis
      using that [of n] i m log_step_frame [OF ls] s' \<open>i = info\<close> by simp
  qed
qed

text \<open>The stream's record with the pause bit cleared and nothing else changed.\<close>

definition unpaused :: "stream_info \<Rightarrow> stream_info" where
  "unpaused info = info\<lparr>si_flags := si_flags info AND NOT FLAG_PAUSED\<rparr>"

lemma unpaused_simps [simp]:
  "\<not> info_is_paused (unpaused info)" "accrual_base s (unpaused info) = accrual_base s info"
  "accrued_upto s (unpaused info) t = accrued_upto s info t"
  "si_start_time (unpaused info) = si_start_time info" "si_end_time (unpaused info) = si_end_time info"
  by (simp_all add: unpaused_def flag_bits accrual_base_def accrued_upto_def split: option.split)

lemma accrual_ok_unpaused: "accrual_ok s info \<Longrightarrow> accrual_ok s (unpaused info)"
  by (simp add: accrual_ok_def) (simp add: unpaused_def)

text \<open>The accrual base moves with the pause, when no fixed cliff is in force.\<close>

definition base_moves :: "'w stream \<Rightarrow> stream_info \<Rightarrow> bool" where
  "base_moves s info = (case k_RateCheckpoint s of
      Some cp \<Rightarrow> cp_at cp \<le> si_paused_at info | None \<Rightarrow> k_CliffConfig s = None)"

text \<open>
  A record whose start, end and accrual base are all moved forward by \<open>d\<close> accrues at
  \<open>x\<close> what the original, running, accrues \<open>d\<close> seconds earlier; and
  a paused record accrues at any time what it had accrued when it was paused.
\<close>

lemma shifted_streamed_amount:
  assumes "accrual_ok s info" and "accrual_ok s' info'"
    and "accrual_base s' info' = (fst (accrual_base s info), snd (accrual_base s info) + d)"
    and "si_start_time info' = si_start_time info + d" and "si_rate_per_second info' = si_rate_per_second info"
    and "si_end_time info' = (if 0 < si_end_time info then si_end_time info + d else si_end_time info)"
    and "\<not> info_is_paused info'" and "0 \<le> d" and "d \<le> x" and "in_u64 x"
  shows "streamed_amount x s' info' = streamed_amount (x - d) s (unpaused info)"
proof -
  have acc: "accrued_upto s' info' (y + d) = accrued_upto s info y" for y
    by (simp add: accrued_upto_def assms(3,5))
  have eff: "effective_now x info' = effective_now (x - d) (unpaused info) + d"
    using assms(6-8) by (auto simp: effective_now_def)
  have "in_u64 (x - d)" using assms(8-10) by (auto simp: in_u64_def)
  then show ?thesis
    using streamed_amount_spec [OF assms(2,10)] streamed_amount_spec [OF accrual_ok_unpaused [OF assms(1)]]
    by (simp add: assms(4) eff acc)
qed

lemma paused_streamed_amount:
  assumes "accrual_ok s info" and "info_is_paused info" and "si_start_time info \<le> si_paused_at info"
    and "0 < si_end_time info \<longrightarrow> si_paused_at info \<le> si_end_time info"
    and "si_paused_at info \<le> x" and "in_u64 x"
  shows "streamed_amount x s info = streamed_amount (si_paused_at info) s (unpaused info)"
proof -
  have "in_u64 (si_paused_at info)" using assms(1) by (simp add: accrual_ok_def)
  moreover have "effective_now (si_paused_at info) (unpaused info) = effective_now x info"
    using assms(2,4) by (simp add: effective_now_def)
  ultimately show ?thesis
    using streamed_amount_spec [OF assms(1,6)] streamed_amount_spec [OF accrual_ok_unpaused [OF assms(1)]]
      assms(3,5) by simp
qed

text \<open>
  C9.  For a stream whose accrual base moves with the pause (it has a rate checkpoint
  not later than the pause, or neither a checkpoint nor a cliff), paused time does not
  count: after a resume the stream has accrued exactly what it had when it was paused,
  and from then on it accrues as if the clock had been turned back by the length of
  the pause.  With a cliff and no checkpoint the code does pay for paused time
  (\<open>resume_with_cliff_counts_pause\<close> below).
\<close>

theorem resume_discounts_pause:
  assumes "stream_idle t s" and "env_ok t e" and "k_Config s = Some info" and "base_moves s info"
    and "resume e caller s = Inr (u, s')" and "timestamp e \<le> now" and "in_u64 now"
  shows "\<exists>info'. k_Config s' = Some info' \<and> \<not> info_is_paused info' \<and>
     streamed_amount now s' info' =
       streamed_amount (now - (timestamp e - si_paused_at info)) s (unpaused info) \<and>
     streamed_amount (timestamp e) s' info' = streamed_amount (timestamp e) s info"
proof -
  let ?d = "timestamp e - si_paused_at info"
  obtain n where pz: "info_is_paused info" and le: "si_paused_at info \<le> timestamp e"
    and c': "k_Config s' = Some ((resumed_info ?d info)\<lparr>si_event_sequence := n\<rparr>)"
    and cp': "k_RateCheckpoint s' = shifted info ?d (k_RateCheckpoint s)"
    and cl': "k_CliffConfig s' = k_CliffConfig s"
    using assms(5,1,3) by (rule resume_success)
  define info' where "info' = (resumed_info ?d info)\<lparr>si_event_sequence := n\<rparr>"
  have i': "si_start_time info' = si_start_time info + ?d" "si_rate_per_second info' = si_rate_per_second info"
    "si_end_time info' = (if 0 < si_end_time info then si_end_time info + ?d else si_end_time info)"
    "\<not> info_is_paused info'"
    by (simp_all add: info'_def resumed_info_def flag_bits)
  have ok: "accrual_ok s info" by (rule idle_accrual [OF assms(1,3)])
  have io: "info_ok t info" using assms(1,3) by (simp add: stream_idle_def stream_inv_Some)
  have pe: "0 < si_end_time info \<longrightarrow> si_paused_at info \<le> si_end_time info" "si_start_time info \<le> si_paused_at info"
    "0 \<le> si_paused_at info"
    using io pz by (auto simp: info_ok_def in_u64_def)
  have "call_ok (Resume caller)" by simp
  moreover have "stream_exec e (Resume caller) s = Inr s'" using assms(5) by (simp add: drop_value_def)
  ultimately have "stream_idle (timestamp e) s'" using stream_exec_idle assms(1,2) by blast
  then have ok': "accrual_ok s' info'" using idle_accrual c' info'_def by blast
  have base': "accrual_base s' info' = (fst (accrual_base s info), snd (accrual_base s info) + ?d)"
    using assms(4) cp' cl' i'(1)
    by (auto simp: accrual_base_def base_moves_def shifted_def split: option.splits)
  have shift: "streamed_amount x s' info' = streamed_amount (x - ?d) s (unpaused info)"
    if "timestamp e \<le> x" "in_u64 x" for x
    using shifted_streamed_amount [OF ok ok' base' i'(1-4), of x] that le pe(3) by simp
  have now: "in_u64 (timestamp e)" using assms(2) by (simp add: env_ok_def)
  have "streamed_amount (timestamp e) s' info' = streamed_amount (timestamp e) s info"
    using shift [OF order_refl now] paused_streamed_amount [OF ok pz pe(2,1) le now] by simp
  then show ?thesis using c' i'(4) shift [OF assms(6,7)] by (auto simp: info'_def)
qed

text \<open>The sample stream paused at 250.\<close>

definition sample_paused :: "ledger stream" where
  "sample_paused = sample_stream\<lparr>
     k_Config := Some (sample_info\<lparr>si_flags := FLAG_CLAWBACK_ENABLED OR FLAG_PAUSED, si_paused_at := 250,
                                   si_event_sequence := 2\<rparr>),
     st_events := [EvCreated 1 ''alice'' ''bob'' ''T'' 10 100 700 1, EvPaused 2 ''alice'' 250 1500]\<rparr>"

lemma sample_paused_fields [simp]:
  "k_Config sample_paused = Some (sample_info\<lparr>si_flags := FLAG_CLAWBACK_ENABLED OR FLAG_PAUSED, si_paused_at := 250,
                                   si_event_sequence := 2\<rparr>)"
  "k_Guard sample_paused = None" "k_Operator sample_paused = None" "k_SplitConfig sample_paused = None"
  "k_CliffConfig sample_paused = None" "k_RateCheckpoint sample_paused = None"
  "k_KeeperRewardPool sample_paused = None" "st_world sample_paused = sample_ledger"
  "k_ForceCancelPauseThresholdSecs sample_paused = None" "k_AutoForwardAddress sample_paused = None"
  by (simp_all add: sample_paused_def sample_stream_def fresh_stream_def)

lemma sample_paused_idle: "250 \<le> t \<Longrightarrow> stream_idle t sample_paused"
  by (simp add: stream_idle_def stream_inv_Some info_ok_def checkpoint_ok_def cliff_ok_def split_ok_def
      pool_valid_def log_ok_def guard_depth_def in_i128_def in_u64_def int_bounds)
     (simp add: sample_paused_def upto.simps)

lemma paused_bits [simp]:
  "info_is_paused (info\<lparr>si_flags := f OR FLAG_PAUSED, si_paused_at := n, si_event_sequence := m\<rparr>)"
  "info_is_cancelled (info\<lparr>si_flags := FLAG_CLAWBACK_ENABLED OR FLAG_PAUSED, si_paused_at := n, si_event_sequence := m\<rparr>)
     \<longleftrightarrow> False"
  by (simp_all add: flag_bits flag_word_bits)

lemmas resume_eval =
  resume_def with_guard_def lock_def guard_depth_def MAX_REENTRANCY_DEPTH_def plain_u32_def in_u32_def
  resume_body_def bump_def load_eq assert_not_cancelled_def require_sender_or_operator_def require_auth_def
  checked_u64_def in_u64_def shift_checkpoint_def MAX_PAUSE_SECS_def save_def bump_for_remaining_def
  events_resumed_def publish_def next_sequence_def int_bounds Let_def

lemma sample_resumes: "\<exists>s'. resume (sample_env 400) ''alice'' sample_paused = Inr ((), s')"
  by (simp add: resume_eval)

theorem resume_discounts_pause_witness:
  "\<exists>s' info'. resume (sample_env 400) ''alice'' sample_paused = Inr ((), s') \<and> k_Config s' = Some info' \<and>
     streamed_amount 400 s' info' = Inr 1500"
proof -
  obtain s' where s': "resume (sample_env 400) ''alice'' sample_paused = Inr ((), s')"
    using sample_resumes by blast
  let ?i = "sample_info\<lparr>si_flags := FLAG_CLAWBACK_ENABLED OR FLAG_PAUSED, si_paused_at := 250, si_event_sequence := 2\<rparr>"
  have "streamed_amount 400 sample_paused ?i = Inr 1500"
    by (simp add: streamed_amount_def effective_now_def checked_u64_def mul_div_def in_u64_def int_bounds Let_def)
  then show ?thesis
    using resume_discounts_pause [OF sample_paused_idle sample_env_ok _ _ s', of 400 ?i 400] s'
    by (auto simp: base_moves_def in_u64_def int_bounds)
qed

text \<open>
  A cliff does not move with the pause: on a stream with a cliff in force and
  no rate checkpoint, resuming after a pause of 150 seconds adds 150 seconds' worth
  of tokens at once.  (Cliff at 200 with nothing unlocked, paused at 250, resumed
  at 400: 500 units before the resume, 2000 right after it.)
\<close>

theorem resume_with_cliff_counts_pause:
  "\<exists>info s' info'.
     k_Config sample_paused = Some info \<and>
     streamed_amount 400 (sample_paused\<lparr>k_CliffConfig := Some \<lparr>cc_cliff_time = 200, cc_cliff_unlock_amount = 0\<rparr>\<rparr>) info
       = Inr 500 \<and>
     resume (sample_env 400) ''alice''
       (sample_paused\<lparr>k_CliffConfig := Some \<lparr>cc_cliff_time = 200, cc_cliff_unlock_amount = 0\<rparr>\<rparr>) = Inr ((), s') \<and>
     k_Config s' = Some info' \<and> streamed_amount 400 s' info' = Inr 2000"
  by (simp add: resume_eval unlock_def streamed_amount_def effective_now_def mul_div_def checked_i128_def in_i128_def
      flag_bits flag_word_bits)

section \<open>Rate changes\<close>

lemma change_rate_success:
  assumes "change_rate e caller r s = Inr (u, s')" and "stream_idle t s" and "k_Config s = Some info"
  obtains v n where "0 < r" and "0 < si_end_time info \<longrightarrow> timestamp e < si_end_time info"
    and "streamed_amount (timestamp e) s info = Inr v"
    and "0 < si_end_time info \<and> fst (change_point (timestamp e) s info v) < si_end_time info \<longrightarrow>
      in_i128 (snd (change_point (timestamp e) s info v) +
        r * (si_end_time info - fst (change_point (timestamp e) s info v)))"
    and "k_Config s' = Some (info\<lparr>si_rate_per_second := r, si_event_sequence := n\<rparr>)"
    and "k_RateCheckpoint s' = Some \<lparr>cp_accrued = snd (change_point (timestamp e) s info v),
           cp_at = fst (change_point (timestamp e) s info v)\<rparr>"
proof -
  obtain s2 where body: "change_rate_body e caller r (s\<lparr>k_Guard := Some 1\<rparr>) = Inr (u, s2)" and s': "s' = unlock s2"
    using assms(1,2) unfolding change_rate_def by (rule guarded_run)
  have cpt: "change_point x (s\<lparr>k_Guard := g\<rparr>) i v = change_point x s i v" for x g i v
    by (simp add: change_point_def)
  from body show thesis
  proof (rule change_rate_body_success)
    fix i :: stream_info and v
    assume i: "0 < r" "k_Config (s\<lparr>k_Guard := Some 1\<rparr>) = Some i"
      "0 < si_end_time i \<longrightarrow> timestamp e < si_end_time i"
      "streamed_amount (timestamp e) (s\<lparr>k_Guard := Some 1\<rparr>) i = Inr v"
      "0 < si_end_time i \<and> fst (change_point (timestamp e) (s\<lparr>k_Guard := Some 1\<rparr>) i v) < si_end_time i \<longrightarrow>
        in_i128 (snd (change_point (timestamp e) (s\<lparr>k_Guard := Some 1\<rparr>) i v) +
          r * (si_end_time i - fst (change_point (timestamp e) (s\<lparr>k_Guard := Some 1\<rparr>) i v)))"
      and ls: "log_step (rate_changed_state (timestamp e) i v r (s\<lparr>k_Guard := Some 1\<rparr>)) s2"
    have "i = info" using i(2) assms(3) by simp
    obtain n where "k_Config s2 = Some (i\<lparr>si_rate_per_second := r, si_event_sequence := n\<rparr>)"
      using ls by (auto elim!: log_step_config simp: rate_changed_state_def)
    moreover have "k_RateCheckpoint s2 = Some \<lparr>cp_accrued = snd (change_point (timestamp e) s i v),
           cp_at = fst (change_point (timestamp e) s i v)\<rparr>"
      using log_step_frame(5) [OF ls] by (simp add: rate_changed_state_def cpt)
    ultimately show thesis
      using that [of v n] i s' \<open>i = info\<close> by (simp add: cpt)
  qed
qed

text \<open>What a record accrues from a base that already counts \<open>v\<close> at time \<open>t0\<close>.\<close>

lemma streamed_amount_from_base:
  assumes "accrual_ok s info" and "accrual_base s info = (v, t0)" and "si_start_time info \<le> x"
    and "t0 \<le> effective_now x info" and "in_u64 x"
  shows "streamed_amount x s info =
    (if v + si_rate_per_second info * (effective_now x info - t0) \<le> i128_max
     then Inr (v + si_rate_per_second info * (effective_now x info - t0)) else Inl (Err ArithmeticOverflow))"
  using streamed_amount_spec [OF assms(1,5)] assms(2-4) by (simp add: accrued_upto_def Let_def)

text \<open>Accrual up to a time before the end is bounded by accrual up to the end.\<close>

lemma accrual_before_end:
  fixes v r :: int
  assumes "0 < r" and "till \<le> en" and "in_i128 (v + r * (en - t0))"
  shows "v + r * (till - t0) \<le> i128_max"
proof -
  have "r * (till - t0) \<le> r * (en - t0)" using assms(1,2) by (intro mult_left_mono) auto
  then show ?thesis using assms(3) by (simp add: in_i128_def)
qed

text \<open>
  C10.  On a stream that has started, is not paused and whose cliff, if it has one, has
  passed, a rate change is prospective: the amount accrued so far is unchanged by the
  call, and from then on the stream accrues at the new rate, stopping at its end time.
  A bounded stream cannot be driven into overflow this way.  (With a cliff still ahead
  the code replaces what has accrued by the cliff amount; that case is excluded.)
\<close>

theorem change_rate_prospective:
  assumes "stream_idle t s" and "env_ok t e" and "k_Config s = Some info" and "\<not> info_is_paused info"
    and "si_start_time info \<le> timestamp e"
    and "\<forall>cfg. k_CliffConfig s = Some cfg \<longrightarrow> cc_cliff_time cfg \<le> timestamp e"
    and "in_i128 r" and "change_rate e caller r s = Inr (u, s')"
    and "timestamp e \<le> now" and "in_u64 now"
    and "till = (if 0 < si_end_time info then min now (si_end_time info) else now)"
  shows "\<exists>info' v. k_Config s' = Some info' \<and> si_rate_per_second info' = r \<and>
     streamed_amount (timestamp e) s info = Inr v \<and> streamed_amount (timestamp e) s' info' = Inr v \<and>
     streamed_amount now s' info' =
       (if v + r * (till - timestamp e) \<le> i128_max then Inr (v + r * (till - timestamp e))
        else Inl (Err ArithmeticOverflow)) \<and>
     (0 < si_end_time info \<longrightarrow> streamed_amount now s' info' = Inr (v + r * (till - timestamp e)))"
proof -
  obtain v n where r: "0 < r" and en: "0 < si_end_time info \<longrightarrow> timestamp e < si_end_time info"
    and v: "streamed_amount (timestamp e) s info = Inr v"
    and bound: "0 < si_end_time info \<and> fst (change_point (timestamp e) s info v) < si_end_time info \<longrightarrow>
      in_i128 (snd (change_point (timestamp e) s info v) +
        r * (si_end_time info - fst (change_point (timestamp e) s info v)))"
    and c': "k_Config s' = Some (info\<lparr>si_rate_per_second := r, si_event_sequence := n\<rparr>)"
    and cp': "k_RateCheckpoint s' = Some \<lparr>cp_accrued = snd (change_point (timestamp e) s info v),
           cp_at = fst (change_point (timestamp e) s info v)\<rparr>"
    using assms(8,1,3) by (rule change_rate_success)
  have cpt: "change_point (timestamp e) s info v = (timestamp e, v)"
    using assms(4-6) by (auto simp: change_point_def Let_def split: option.splits)
  define info' where "info' = info\<lparr>si_rate_per_second := r, si_event_sequence := n\<rparr>"
  have "stream_exec e (ChangeRate caller r) s = Inr s'" using assms(8) by (simp add: drop_value_def)
  then have "stream_idle (timestamp e) s'"
    by (rule stream_exec_idle [OF assms(1,2), rotated]) (use assms(7) in simp)
  then have ok': "accrual_ok s' info'" using idle_accrual c' info'_def by blast
  have base': "accrual_base s' info' = (v, timestamp e)" by (simp add: accrual_base_def cp' cpt)
  have np: "\<not> info_is_paused info'" using assms(4) by (simp add: info'_def flag_bits)
  have val: "v \<le> i128_max"
    using streamed_amount_Inr(2) [OF idle_accrual [OF assms(1,3)] _ v] assms(2) by (simp add: env_ok_def)
  have eff: "effective_now x info' = (if 0 < si_end_time info then min x (si_end_time info) else x)" for x
    using np by (auto simp: effective_now_def info'_def)
  have at: "streamed_amount x s' info' =
      (if v + r * (effective_now x info' - timestamp e) \<le> i128_max
       then Inr (v + r * (effective_now x info' - timestamp e)) else Inl (Err ArithmeticOverflow))"
    if "timestamp e \<le> x" "in_u64 x" for x
  proof -
    have "si_start_time info' \<le> x" "timestamp e \<le> effective_now x info'" "si_rate_per_second info' = r"
      using that assms(5) eff [of x] en by (auto simp: info'_def)
    then show ?thesis using streamed_amount_from_base [OF ok' base'] that(2) by simp
  qed
  have "in_u64 (timestamp e)" using assms(2) by (simp add: env_ok_def)
  moreover have "effective_now (timestamp e) info' = timestamp e" using eff en by auto
  ultimately have now0: "streamed_amount (timestamp e) s' info' = Inr v" using at [of "timestamp e"] val by simp
  have till: "effective_now now info' = till" using eff assms(11) by simp
  have "v + r * (till - timestamp e) \<le> i128_max" if "0 < si_end_time info"
    by (rule accrual_before_end [OF r, of _ "si_end_time info"]) (use that en bound assms(11) in \<open>simp_all add: cpt\<close>)
  then show ?thesis
    using c' v now0 at [OF assms(9,10)] till by (intro exI [of _ info'] exI [of _ v]) (auto simp: info'_def)
qed

lemmas change_rate_eval =
  change_rate_def with_guard_def lock_def unlock_def guard_depth_def MAX_REENTRANCY_DEPTH_def plain_u32_def in_u32_def
  change_rate_body_def bump_def load_eq assert_not_cancelled_def require_sender_or_operator_def require_auth_def
  checked_u64_def in_u64_def checked_i128_def in_i128_def save_def streamed_amount_def effective_now_def
  mul_div_def change_point_def events_rate_changed_def assert_non_negative_amount_def publish_def
  next_sequence_def int_bounds Let_def

lemma sample_changes_rate: "\<exists>s'. change_rate (sample_env 300) ''alice'' 5 sample_stream = Inr ((), s')"
  by (simp add: change_rate_eval)

theorem change_rate_prospective_witness:
  "\<exists>s' info'. change_rate (sample_env 300) ''alice'' 5 sample_stream = Inr ((), s') \<and> k_Config s' = Some info' \<and>
     streamed_amount 300 s' info' = Inr 2000 \<and> streamed_amount 900 s' info' = Inr 4000"
proof -
  obtain s' where s': "change_rate (sample_env 300) ''alice'' 5 sample_stream = Inr ((), s')"
    using sample_changes_rate by blast
  have v: "streamed_amount 300 sample_stream sample_info = Inr 2000"
    by (simp add: streamed_amount_def effective_now_def checked_u64_def mul_div_def in_u64_def int_bounds Let_def)
  show ?thesis
    using change_rate_prospective [OF sample_idle sample_env_ok _ _ _ _ _ s', of 0 sample_info 900 700] s' v
    by (auto simp: in_u64_def in_i128_def int_bounds)
qed

text \<open>
  With a cliff still ahead, a second rate change discards what was earned:
  the sample stream changes its rate at 200 (1000 units earned), gets a cliff at
  600, and at 300, with 2000 units accrued, changes its rate again.  Right after
  that call nothing counts as accrued.
\<close>

theorem change_rate_before_cliff_drops_accrued:
  "\<exists>s' info'.
     streamed_amount 300 (sample_stream\<lparr>k_RateCheckpoint := Some \<lparr>cp_accrued = 1000, cp_at = 200\<rparr>,
         k_CliffConfig := Some \<lparr>cc_cliff_time = 600, cc_cliff_unlock_amount = 0\<rparr>\<rparr>) sample_info = Inr 2000 \<and>
     change_rate (sample_env 300) ''alice'' 5 (sample_stream\<lparr>k_RateCheckpoint := Some \<lparr>cp_accrued = 1000, cp_at = 200\<rparr>,
         k_CliffConfig := Some \<lparr>cc_cliff_time = 600, cc_cliff_unlock_amount = 0\<rparr>\<rparr>) = Inr ((), s') \<and>
     k_Config s' = Some info' \<and> streamed_amount 300 s' info' = Inr 0"
  by (simp add: change_rate_eval flag_bits sample_info_def flag_word_bits)

end
