(* ===== verification/Stream_Safety.thy ===== *)
theory Stream_Safety
  imports Stream_Accrual
begin

text \<open>
  The properties of the stream's entry points: what withdrawals, cancellations
  and clawbacks pay to whom, who may call what, that cancellation is final, that
  the dry run of a withdrawal predicts it, and what the keeper pool may spend.
\<close>

text \<open>The guard of an idle stream is free.\<close>

lemma with_guard_idle_eq:
  "stream_idle t s \<Longrightarrow> with_guard f s = and_then (f (s\<lparr>k_Guard := Some 1\<rparr>)) (\<lambda>(r, s2). Inr (r, unlock s2))"
  by (simp add: with_guard_def lock_def stream_idle_def MAX_REENTRANCY_DEPTH_def plain_u32_def in_u32_def int_bounds)

section \<open>Withdrawal\<close>

lemma guard_frame [simp]:
  "owed_now e (s\<lparr>k_Guard := g\<rparr>) info = owed_now e s info"
  "escrow e (s\<lparr>k_Guard := g\<rparr>) info = escrow e s info"
  "settled e (s\<lparr>k_Guard := g\<rparr>) info = settled e s info"
  "is_cancelable (s\<lparr>k_Guard := g\<rparr>) = is_cancelable s"
  "pause_threshold (s\<lparr>k_Guard := g\<rparr>) = pause_threshold s"
  by (simp_all add: owed_now_def escrow_def settled_def is_cancelable_def pause_threshold_def fun_eq_iff)

lemma check_withdrawal_interval_cong:
  "k_MinWithdrawalInterval s' = k_MinWithdrawalInterval s \<Longrightarrow> k_LastWithdrawalTime s' = k_LastWithdrawalTime s \<Longrightarrow>
     check_withdrawal_interval e s' = check_withdrawal_interval e s"
  unfolding check_withdrawal_interval_def by (simp only:)

lemma check_interval_guard [simp]:
  "check_withdrawal_interval e (s\<lparr>k_Guard := g\<rparr>) = check_withdrawal_interval e s"
  by (rule check_withdrawal_interval_cong) simp_all

lemma idle_split: "stream_idle t s \<Longrightarrow> split_ok (k_SplitConfig s)"
  by (auto simp: stream_idle_def stream_inv_def split: option.splits)

lemma owed_now_withdrawable:
  assumes "stream_idle t s" and "k_Config s = Some info" and "in_u64 (timestamp e)"
    and "math_withdrawable (timestamp e) s info = Inr a"
  shows "a = owed_now e s info"
proof -
  have "0 \<le> si_withdrawn info" "in_i128 (si_withdrawn info)"
    using assms(1,2) by (auto simp: stream_idle_def stream_inv_Some info_ok_def)
  then show ?thesis
    using math_withdrawable_eq [OF idle_accrual [OF assms(1,2)] assms(3)] assms(4)
    by (cases "streamed_amount (timestamp e) s info") (simp_all add: owed_now_def)
qed

text \<open>
  C2.  A committed withdrawal is made by the recipient, pays a positive amount of
  at most the request, at most what is accrued and not yet withdrawn, and at most
  what the contract holds; exactly that amount is added to \<^verbatim>\<open>withdrawn\<close> and leaves
  the escrow, the split share to the secondary recipient and the rest to the
  recipient (or its forwarding address), and nobody else's balance changes.
\<close>

theorem withdraw_correct:
  assumes "stream_idle t s" and "env_ok t e" and "k_Config s = Some info" and "payees_external e s info"
    and "withdraw e amount s = Inr (r, s')"
  shows "\<exists>info'. k_Config s' = Some info' \<and> authorized e (si_recipient info) \<and> \<not> info_is_cancelled info \<and>
     r = min (min amount (owed_now e s info)) (escrow e s info) \<and> 0 < r \<and>
     si_withdrawn info' = si_withdrawn info + r \<and>
     escrow e s' info = escrow e s info - r \<and>
     bal_of e (st_world s') = paid_out e s info r (bal_of e (st_world s)) \<and>
     k_LastWithdrawalTime s' = Some (timestamp e)"
proof -
  obtain s2 where body: "withdraw_body e amount (s\<lparr>k_Guard := Some 1\<rparr>) = Inr (r, s2)" and s': "s' = unlock s2"
    using assms(5,1) unfolding withdraw_def by (rule guarded_run)
  have sep: "sep41 e" and now: "in_u64 (timestamp e)" using assms(2) by (simp_all add: env_ok_def)
  have sp: "split_ok (k_SplitConfig (s\<lparr>k_Guard := Some 1\<rparr>))" using idle_split [OF assms(1)] by simp
  from sep sp body show ?thesis
  proof (rule withdraw_body_success)
    fix i av w
    assume i: "k_Config (s\<lparr>k_Guard := Some 1\<rparr>) = Some i" "\<not> info_is_cancelled i" "authorized e (si_recipient i)"
      "math_withdrawable (timestamp e) (s\<lparr>k_Guard := Some 1\<rparr>) i = Inr av"
      "r = min (min amount av) (escrow e (s\<lparr>k_Guard := Some 1\<rparr>) i)" "0 < r"
      "bal_of e w = paid_out e (s\<lparr>k_Guard := Some 1\<rparr>) i r (bal_of e (st_world (s\<lparr>k_Guard := Some 1\<rparr>)))"
      and ls: "log_step (s\<lparr>k_Guard := Some 1, k_Config := Some (i\<lparr>si_withdrawn := si_withdrawn i + r\<rparr>), st_world := w,
           k_LastWithdrawalTime := Some (timestamp e), st_ttl := st_ttl (bump (s\<lparr>k_Guard := Some 1\<rparr>))\<rparr>) s2"
    have ii: "i = info" using i(1) assms(3) by simp
    have av: "av = owed_now e s info" using owed_now_withdrawable [OF assms(1,3) now] i(4) ii by simp
    obtain n where c2: "k_Config s2 = Some (info\<lparr>si_withdrawn := si_withdrawn info + r, si_event_sequence := n\<rparr>)"
      using ls ii by (auto elim!: log_step_config)
    have w2: "st_world s2 = w" "k_LastWithdrawalTime s2 = Some (timestamp e)"
      using log_step_frame(7,9) [OF ls] by simp_all
    have b: "bal_of e w = paid_out e s info r (bal_of e (st_world s))" using i(7) ii by simp
    then have "escrow e s' info = escrow e s info - r"
      using paid_out_contract [OF assms(4)] w2 s' by (simp add: escrow_def)
    then show ?thesis
      using c2 w2 b s' i ii av by (auto simp: unlock_def Let_def)
  qed
qed

lemma sample_external: "payees_external (sample_env n) sample_stream sample_info"
  by (simp add: payees_external_def auto_forward_address_def)

lemma sample_ledger_simps [simp]: "ledger_read sample_ledger t h = sample_ledger t h"
  by (simp add: sample_ledger_def ledger_read_def int_bounds)

lemmas call_eval =
  with_guard_def lock_def guard_depth_def MAX_REENTRANCY_DEPTH_def plain_u32_def in_u32_def bump_def load_eq
  assert_not_cancelled_def require_sender_or_operator_def require_auth_def checked_u64_def in_u64_def
  checked_i128_def in_i128_def plain_i128_def save_def streamed_amount_def effective_now_def mul_div_def
  math_withdrawable_def sat_i128_def balance_call_def transfer_call_def ledger_balance_def ledger_transfer_def
  token_transfer_def pay_recipient_def auto_forward_address_def assert_non_negative_amount_def publish_def
  next_sequence_def int_bounds Let_def

lemma sample_withdraws: "\<exists>s'. withdraw (sample_env 250) 600 sample_stream = Inr (600, s')"
  by (simp add: withdraw_def withdraw_body_def check_withdrawal_interval_def call_eval sample_ledger_def
      ledger_read_def events_withdrawn_def cliff_milestone_def completion_milestone_def)

theorem withdraw_correct_witness:
  "\<exists>s' info'. withdraw (sample_env 250) 600 sample_stream = Inr (600, s') \<and> k_Config s' = Some info' \<and>
     si_withdrawn info' = 600 \<and> escrow (sample_env 250) s' sample_info = 5400"
proof -
  obtain s' where s': "withdraw (sample_env 250) 600 sample_stream = Inr (600, s')"
    using sample_withdraws by blast
  show ?thesis
    using withdraw_correct [OF sample_idle sample_env_ok _ sample_external s', of 0] s'
    by (auto simp: escrow_def sample_ledger_def ledger_read_def int_bounds)
qed

section \<open>Cancellation\<close>

text \<open>What a settlement leaves behind, for either way of cancelling.\<close>

definition settles :: "'w env \<Rightarrow> 'w stream \<Rightarrow> stream_info \<Rightarrow> 'w stream \<Rightarrow> bool" where
  "settles e s info s' \<longleftrightarrow> (\<exists>info'. k_Config s' = Some info' \<and> info_is_cancelled info' \<and>
     si_withdrawn info' = si_withdrawn info + min (owed_now e s info) (escrow e s info) \<and>
     bal_of e (st_world s') = settled e s info (bal_of e (st_world s)) \<and>
     escrow e s' info = 0)"

lemma settlesI:
  assumes "payees_external e s info" and "si_sender info \<noteq> contract_address e"
    and "paid = si_withdrawn info + min (owed_now e s info) (escrow e s info)"
    and "bal_of e w = settled e s info (bal_of e (st_world s))"
    and "log_step (settled_state info paid w (s\<lparr>k_Guard := g\<rparr>)) s2"
  shows "settles e s info (unlock s2)"
proof -
  obtain n where "k_Config s2 = Some ((mark_cancelled info)\<lparr>si_withdrawn := paid, si_event_sequence := n\<rparr>)"
    using assms(5) by (auto elim!: log_step_config simp: settled_state_def)
  moreover have "st_world s2 = w" using log_step_frame(7) [OF assms(5)] by (simp add: settled_state_def)
  moreover have "bal_of e w (si_token info) (contract_address e) = 0"
    using settled_contract_empty [OF assms(1,2)] assms(4) by simp
  ultimately show ?thesis
    using assms(3,4) by (simp add: settles_def escrow_def flag_bits mark_cancelled_def)
qed

text \<open>
  C3.  Cancelling settles the stream atomically: only the sender or its operator
  can do it, and only if the stream is cancelable; the recipient's side gets what
  is accrued and not withdrawn (as far as the escrow covers it), the sender gets
  all the rest, the escrow ends at zero, and the total withdrawn is recorded.
\<close>

theorem cancel_settles:
  assumes "stream_idle t s" and "env_ok t e" and "k_Config s = Some info" and "payees_external e s info"
    and "si_sender info \<noteq> contract_address e" and "cancel e caller s = Inr (u, s')"
  shows "settles e s info s' \<and> authorized e caller \<and>
     (caller = si_sender info \<or> k_Operator s = Some caller) \<and> is_cancelable s"
proof -
  obtain s2 where body: "cancel_body e caller (s\<lparr>k_Guard := Some 1\<rparr>) = Inr (u, s2)" and s': "s' = unlock s2"
    using assms(6,1) unfolding cancel_def by (rule guarded_run)
  have sep: "sep41 e" using assms(2) by (simp add: env_ok_def)
  have sp: "split_ok (k_SplitConfig (s\<lparr>k_Guard := Some 1\<rparr>))" using idle_split [OF assms(1)] by simp
  from sep sp body show ?thesis
  proof (rule cancel_body_success)
    fix i w paid
    assume i: "k_Config (s\<lparr>k_Guard := Some 1\<rparr>) = Some i" "is_cancelable (s\<lparr>k_Guard := Some 1\<rparr>)"
      "require_sender_or_operator e (s\<lparr>k_Guard := Some 1\<rparr>) caller (si_sender i) = Inr ()"
      "paid = si_withdrawn i + min (owed_now e (s\<lparr>k_Guard := Some 1\<rparr>) i) (escrow e (s\<lparr>k_Guard := Some 1\<rparr>) i)"
      "bal_of e w = settled e (s\<lparr>k_Guard := Some 1\<rparr>) i (bal_of e (st_world (s\<lparr>k_Guard := Some 1\<rparr>)))"
      and ls: "log_step (settled_state i paid w (s\<lparr>k_Guard := Some 1\<rparr>)) s2"
    have "i = info" using i(1) assms(3) by simp
    then have "settles e s info s'" using settlesI [OF assms(4,5)] i ls s' by simp
    moreover have "authorized e caller \<and> (caller = si_sender info \<or> k_Operator s = Some caller)"
      using i(3) \<open>i = info\<close> by (auto simp: require_sender_or_operator_def res_simps split: option.splits if_splits)
    ultimately show ?thesis using i(2) by simp
  qed
qed

lemma sample_cancels: "\<exists>s'. cancel (sample_env 250) ''alice'' sample_stream = Inr ((), s')"
  by (simp add: cancel_def cancel_body_def settle_def call_eval sample_ledger_def
      ledger_read_def events_cancelled_def moved_def mark_cancelled_def)

theorem cancel_settles_witness:
  "\<exists>s'. cancel (sample_env 250) ''alice'' sample_stream = Inr ((), s') \<and>
     settles (sample_env 250) sample_stream sample_info s'"
proof -
  obtain s' where s': "cancel (sample_env 250) ''alice'' sample_stream = Inr ((), s')"
    using sample_cancels by blast
  show ?thesis
    using cancel_settles [OF sample_idle sample_env_ok _ sample_external _ s', of 0] s' by auto
qed

text \<open>
  The recipient can force a cancellation, but only of a stream paused for at
  least the configured threshold (30 days if none is stored), and the settlement
  is the same as for a cancellation by the sender.
\<close>

theorem force_cancel_settles:
  assumes "stream_idle t s" and "env_ok t e" and "k_Config s = Some info" and "payees_external e s info"
    and "si_sender info \<noteq> contract_address e" and "force_cancel e s = Inr (u, s')"
  shows "settles e s info s' \<and> authorized e (si_recipient info) \<and> info_is_paused info \<and>
     pause_threshold s \<le> timestamp e - si_paused_at info"
proof -
  obtain s2 where body: "force_cancel_body e (s\<lparr>k_Guard := Some 1\<rparr>) = Inr (u, s2)" and s': "s' = unlock s2"
    using assms(6,1) unfolding force_cancel_def by (rule guarded_run)
  have sep: "sep41 e" using assms(2) by (simp add: env_ok_def)
  have sp: "split_ok (k_SplitConfig (s\<lparr>k_Guard := Some 1\<rparr>))" using idle_split [OF assms(1)] by simp
  from sep sp body show ?thesis
  proof (rule force_cancel_body_success)
    fix i w paid
    assume i: "k_Config (s\<lparr>k_Guard := Some 1\<rparr>) = Some i" "info_is_paused i" "authorized e (si_recipient i)"
      "pause_threshold (s\<lparr>k_Guard := Some 1\<rparr>) \<le> sat_u64 (timestamp e - si_paused_at i)"
      "paid = si_withdrawn i + min (owed_now e (s\<lparr>k_Guard := Some 1\<rparr>) i) (escrow e (s\<lparr>k_Guard := Some 1\<rparr>) i)"
      "bal_of e w = settled e (s\<lparr>k_Guard := Some 1\<rparr>) i (bal_of e (st_world (s\<lparr>k_Guard := Some 1\<rparr>)))"
      and ls: "log_step (settled_state i paid w (s\<lparr>k_Guard := Some 1\<rparr>)) s2"
    have ii: "i = info" using i(1) assms(3) by simp
    then have "settles e s info s'" using settlesI [OF assms(4,5)] i ls s' by simp
    moreover have "in_u64 (timestamp e - si_paused_at info)"
      using assms(1-3) i(2) ii by (auto simp: stream_idle_def stream_inv_Some info_ok_def env_ok_def in_u64_def)
    ultimately show ?thesis using i ii by simp
  qed
qed

lemma sample_force_cancels: "\<exists>s'. force_cancel (sample_env 5000) (sample_paused\<lparr>k_ForceCancelPauseThresholdSecs := Some 1000\<rparr>) = Inr ((), s')"
  by (simp add: force_cancel_def force_cancel_body_def settle_def call_eval sample_ledger_def
      ledger_read_def events_force_cancelled_def moved_def sat_u64_def mark_cancelled_def)

theorem force_cancel_settles_witness:
  "\<exists>info s'. force_cancel (sample_env 5000) (sample_paused\<lparr>k_ForceCancelPauseThresholdSecs := Some 1000\<rparr>) = Inr ((), s') \<and>
     settles (sample_env 5000) (sample_paused\<lparr>k_ForceCancelPauseThresholdSecs := Some 1000\<rparr>) info s'"
proof -
  let ?s = "sample_paused\<lparr>k_ForceCancelPauseThresholdSecs := Some 1000\<rparr>"
  let ?i = "sample_info\<lparr>si_flags := FLAG_CLAWBACK_ENABLED OR FLAG_PAUSED, si_paused_at := 250, si_event_sequence := 2\<rparr>"
  obtain s' where s': "force_cancel (sample_env 5000) ?s = Inr ((), s')"
    using sample_force_cancels by blast
  have "stream_idle 250 ?s"
    using sample_paused_idle [of 250] by (simp add: stream_idle_def guard_depth_def stream_inv_def)
  moreover have "payees_external (sample_env 5000) ?s ?i"
    by (simp add: payees_external_def auto_forward_address_def)
  ultimately show ?thesis
    using force_cancel_settles [OF _ sample_env_ok _ _ _ s', of 250 ?i] s' by auto
qed

section \<open>Clawback\<close>

lemma streamed_amount_info_cong:
  "si_rate_per_second i' = si_rate_per_second i \<Longrightarrow> si_start_time i' = si_start_time i \<Longrightarrow>
     si_end_time i' = si_end_time i \<Longrightarrow> si_paused_at i' = si_paused_at i \<Longrightarrow> si_flags i' = si_flags i \<Longrightarrow>
     streamed_amount now s i' = streamed_amount now s i"
  unfolding streamed_amount_def effective_now_def info_is_paused_def by (simp only:)

text \<open>
  C4.  A clawback takes only unstreamed tokens: it needs the clawback flag, an
  unpaused stream and the sender or operator; it returns everything above what is
  owed to the sender, and what stays in escrow is what is owed to the recipient
  (or the whole escrow when that is less), so the recipient's claim is untouched.
\<close>

theorem clawback_leaves_owed:
  assumes "stream_idle t s" and "env_ok t e" and "k_Config s = Some info"
    and "si_sender info \<noteq> contract_address e" and "clawback e caller s = Inr (amount, s')"
  shows "\<exists>info'. k_Config s' = Some info' \<and> si_withdrawn info' = si_withdrawn info \<and>
     amount = max (escrow e s info - owed_now e s info) 0 \<and>
     escrow e s' info = min (escrow e s info) (owed_now e s info) \<and>
     owed_now e s' info' = owed_now e s info \<and>
     bal_of e (st_world s') = moved (bal_of e (st_world s)) (si_token info) (contract_address e) (si_sender info) amount \<and>
     info_is_clawback_enabled info \<and> \<not> info_is_paused info \<and> authorized e caller \<and>
     (caller = si_sender info \<or> k_Operator s = Some caller)"
proof -
  obtain s2 where body: "clawback_body e caller (s\<lparr>k_Guard := Some 1\<rparr>) = Inr (amount, s2)" and s': "s' = unlock s2"
    using assms(5,1) unfolding clawback_def by (rule guarded_run)
  have sep: "sep41 e" using assms(2) by (simp add: env_ok_def)
  from sep body show ?thesis
  proof (rule clawback_body_success)
    fix i w
    assume i: "k_Config (s\<lparr>k_Guard := Some 1\<rparr>) = Some i" "\<not> info_is_paused i" "info_is_clawback_enabled i"
      "require_sender_or_operator e (s\<lparr>k_Guard := Some 1\<rparr>) caller (si_sender i) = Inr ()"
      "amount = max (escrow e (s\<lparr>k_Guard := Some 1\<rparr>) i - owed_now e (s\<lparr>k_Guard := Some 1\<rparr>) i) 0"
      "bal_of e w = moved (bal_of e (st_world (s\<lparr>k_Guard := Some 1\<rparr>))) (si_token i) (contract_address e) (si_sender i) amount"
      and ls: "log_step (s\<lparr>k_Guard := Some 1, st_world := w, st_ttl := st_ttl (bump (s\<lparr>k_Guard := Some 1\<rparr>))\<rparr>) s2"
    have ii: "i = info" using i(1) assms(3) by simp
    obtain n where c2: "k_Config s2 = Some (info\<lparr>si_event_sequence := n\<rparr>)"
      using ls assms(3) by (auto elim!: log_step_config)
    have w2: "st_world s2 = w" "k_RateCheckpoint s2 = k_RateCheckpoint s" "k_CliffConfig s2 = k_CliffConfig s"
      using log_step_frame [OF ls] by simp_all
    have "escrow e s' info = escrow e s info - amount"
      using i(6) ii w2 s' assms(4) by (simp add: escrow_def)
    then have es: "escrow e s' info = min (escrow e s info) (owed_now e s info)" using i(5) ii by simp
    have "streamed_amount (timestamp e) s' (info\<lparr>si_event_sequence := n\<rparr>) =
        streamed_amount (timestamp e) s (info\<lparr>si_event_sequence := n\<rparr>)"
      using w2 s' by (intro streamed_amount_frame) simp_all
    also have "\<dots> = streamed_amount (timestamp e) s info"
      by (rule streamed_amount_info_cong) simp_all
    finally have "owed_now e s' (info\<lparr>si_event_sequence := n\<rparr>) = owed_now e s info"
      by (simp add: owed_now_def split: sum.split)
    then show ?thesis
      using c2 w2 es i ii s'
      by (auto simp: require_sender_or_operator_def res_simps split: option.splits if_splits)
  qed
qed

lemma sample_claws: "\<exists>s'. clawback (sample_env 250) ''alice'' sample_stream = Inr (4500, s')"
  by (simp add: clawback_def clawback_body_def stream_require_not_paused_def require_not_paused_flag_def map_err_def
      call_eval sample_ledger_def ledger_read_def events_clawback_def)

theorem clawback_leaves_owed_witness:
  "\<exists>s'. clawback (sample_env 250) ''alice'' sample_stream = Inr (4500, s') \<and>
     escrow (sample_env 250) s' sample_info = 1500"
proof -
  obtain s' where s': "clawback (sample_env 250) ''alice'' sample_stream = Inr (4500, s')"
    using sample_claws by blast
  have "owed_now (sample_env 250) sample_stream sample_info = 1500"
    by (simp add: owed_now_def streamed_amount_def effective_now_def checked_u64_def mul_div_def in_u64_def int_bounds Let_def)
  then show ?thesis
    using clawback_leaves_owed [OF sample_idle sample_env_ok _ _ s', of 0 sample_info] s'
    by (auto simp: escrow_def sample_ledger_def ledger_read_def int_bounds)
qed

section \<open>Finality of cancellation\<close>

definition is_cancelled_stream :: "'w stream \<Rightarrow> bool" where
  "is_cancelled_stream s = (case k_Config s of Some info \<Rightarrow> info_is_cancelled info | None \<Rightarrow> False)"

text \<open>The calls that do not look at the cancellation flag.\<close>

fun works_after_cancel :: "stream_call \<Rightarrow> bool" where
  "works_after_cancel (EmergencyPause a) = True"
| "works_after_cancel (EmergencyUnpause a) = True"
| "works_after_cancel (WithdrawKeeperPool a n) = True"
| "works_after_cancel _ = False"

lemmas body_defs =
  withdraw_body_def cancel_body_def force_cancel_body_def pause_body_def resume_body_def change_rate_body_def
  top_up_body_def extend_duration_body_def top_up_and_extend_body_def clawback_body_def
  configure_keeper_pool_body_def fund_keeper_pool_body_def keeper_ping_body_def
  transfer_recipient_body_def set_auto_forward_body_def set_split_recipient_body_def
  remove_split_recipient_body_def set_cliff_body_def set_min_withdrawal_interval_body_def
  set_stream_config_body_def set_operator_def revoke_operator_def set_stream_title_def set_reference_tag_def
  set_invoice_metadata_uri_def set_milestone_metadata_uri_def

lemma cancelled_refuses:
  assumes "k_Config s = Some info" and "info_is_cancelled info" and "\<not> works_after_cancel c"
  shows "stream_exec e c s \<noteq> Inr s'"
proof -
  have c: "assert_not_cancelled info = Inl (Err StreamCancelled)" using assms(2) by (simp add: assert_not_cancelled_def)
  show ?thesis
    using assms(1,3)
    by (cases c) (auto simp: initialize_again guarded_ops body_defs drop_value_eq_Inr with_guard_eq_Inr and_then_eq_Inr load_eq_Inr
        if_Inl_eq_Inr c Let_def)
qed

text \<open>The calls that do run leave the record alone, apart from the event counter.\<close>

lemma after_cancel_config:
  assumes "k_Config s = Some info" and "works_after_cancel c" and "stream_exec e c s = Inr s'"
  shows "\<exists>n. k_Config s' = Some (info\<lparr>si_event_sequence := n\<rparr>)"
proof -
  have log: "\<exists>n. k_Config s2 = Some (info\<lparr>si_event_sequence := n\<rparr>)"
    if "log_step m s2" "k_Config m = Some info" for m s2 :: "'a stream"
    using that by (auto elim!: log_step_config)
  have em: "\<exists>n. k_Config s' = Some (info\<lparr>si_event_sequence := n\<rparr>)"
    if ok: "emergency_pause e a s = Inr s' \<or> emergency_unpause e a s = Inr s'" for a
  proof -
    obtain x y where "log_step ((bump (s\<lparr>k_EmergencyPaused := x\<rparr>))\<lparr>k_EmergencyPaused := y\<rparr>) s'"
      using emergency_success [OF ok] .
    then show ?thesis by (rule log) (simp add: assms(1))
  qed
  show ?thesis
  proof (cases c)
    case (EmergencyPause a)
    then show ?thesis using assms(3) em [of a] by simp
  next
    case (EmergencyUnpause a)
    then show ?thesis using assms(3) em [of a] by simp
  next
    case (WithdrawKeeperPool a n)
    then obtain g v s2 where body: "withdraw_keeper_pool_body e a n (s\<lparr>k_Guard := Some g\<rparr>) = Inr (v, s2)"
      and s': "s' = unlock s2"
      using assms(3) by (auto simp: withdraw_keeper_reward_pool_def drop_value_eq_Inr with_guard_eq_Inr)
    then obtain p b w where "log_step ((bump (s\<lparr>k_Guard := Some g, k_KeeperRewardPool := Some (p\<lparr>kp_balance := b\<rparr>)\<rparr>))\<lparr>st_world := w\<rparr>) s2"
      by (auto simp: withdraw_keeper_pool_body_def res_simps Let_def dest!: events_log_step)
    then show ?thesis using log assms(1) s' by simp
  qed (use assms(2) in auto)
qed

text \<open>
  C6.  Cancellation is final: after any sequence of calls on a cancelled stream, a
  second \<^verbatim>\<open>initialize\<close> among them, its record (parties, token, rate, schedule, amount
  withdrawn, flags) is what it was except for the event counter, and every entry
  point other than \<^verbatim>\<open>emergency_pause\<close>, \<^verbatim>\<open>emergency_unpause\<close> and
  \<^verbatim>\<open>withdraw_keeper_reward_pool\<close>, which do not look at the flag, refuses the call.
\<close>

theorem cancelled_is_final:
  assumes "stream_step\<^sup>*\<^sup>* (t, s) (t', s')" and "stream_idle t s" and "k_Config s = Some info"
    and "info_is_cancelled info"
  shows "(\<exists>n. k_Config s' = Some (info\<lparr>si_event_sequence := n\<rparr>)) \<and>
     (\<not> works_after_cancel c \<longrightarrow> (\<exists>f. stream_exec e c s' = Inl f))"
proof -
  let ?R = "\<lambda>(x :: int \<times> 'a stream) (y :: int \<times> 'a stream). \<forall>i. k_Config (snd x) = Some i \<longrightarrow> info_is_cancelled i \<longrightarrow>
     (\<exists>n. k_Config (snd y) = Some (i\<lparr>si_event_sequence := n\<rparr>))"
  have canc: "info_is_cancelled (i\<lparr>si_event_sequence := n\<rparr>) = info_is_cancelled i" for i :: stream_info and n
    by (simp add: info_is_cancelled_def)
  have "?R (t, s) (t', s')"
  proof (rule streams.run_relation [OF assms(1), where R = ?R])
    show "case (t, s) of (t, s) \<Rightarrow> stream_idle t s" using assms(2) by simp
    show "?R x x" for x
    proof (intro allI impI)
      fix i assume "k_Config (snd x) = Some i"
      then show "\<exists>n. k_Config (snd x) = Some (i\<lparr>si_event_sequence := n\<rparr>)"
        by (intro exI [of _ "si_event_sequence i"]) simp
    qed
    show "?R x z" if xy: "?R x y" and yz: "?R y z" for x y z
    proof (intro allI impI)
      fix i assume i: "k_Config (snd x) = Some i" "info_is_cancelled i"
      then obtain n where "k_Config (snd y) = Some (i\<lparr>si_event_sequence := n\<rparr>)" using xy by blast
      then show "\<exists>n. k_Config (snd z) = Some (i\<lparr>si_event_sequence := n\<rparr>)"
        using yz i(2) canc by fastforce
    qed
    show "?R x y" if "stream_step x y" for x y
    proof (intro allI impI)
      fix i assume i: "k_Config (snd x) = Some i" "info_is_cancelled i"
      from that show "\<exists>n. k_Config (snd y) = Some (i\<lparr>si_event_sequence := n\<rparr>)"
      proof cases
        case (call t e c s s')
        then show ?thesis using i cancelled_refuses after_cancel_config by (cases "works_after_cancel c") fastforce+
      next
        case (tokens_move t t' s w)
        then show ?thesis using i by (intro exI [of _ "si_event_sequence i"]) simp
      qed
    qed
  qed
  then obtain n where n: "k_Config s' = Some (info\<lparr>si_event_sequence := n\<rparr>)" using assms(3,4) by auto
  have "\<exists>f. stream_exec e c s' = Inl f" if "\<not> works_after_cancel c"
    using cancelled_refuses [OF n _ that] canc assms(4) by (cases "stream_exec e c s'") auto
  with n show ?thesis by blast
qed

lemma sample_cancelled_idle: "stream_idle 0 (settled_state sample_info 1500 sample_ledger sample_stream)"
  using sample_idle [of 0] settled_inv [of 0 sample_stream sample_info 1500 sample_ledger]
  by (simp add: stream_idle_def guard_depth_def in_i128_def int_bounds)

lemma sample_cancelled_config:
  "k_Config (settled_state sample_info 1500 sample_ledger sample_stream) =
     Some ((mark_cancelled sample_info)\<lparr>si_withdrawn := 1500\<rparr>)"
  "info_is_cancelled ((mark_cancelled sample_info)\<lparr>si_withdrawn := 1500\<rparr>)"
  by (simp_all add: settled_state_def flag_bits mark_cancelled_def)

theorem cancelled_is_final_witness:
  "\<exists>f. stream_exec (sample_env 250) (Withdraw 5) (settled_state sample_info 1500 sample_ledger sample_stream) = Inl f"
  using cancelled_is_final [OF rtranclp.rtrancl_refl sample_cancelled_idle sample_cancelled_config, of "Withdraw 5"]
  by (meson works_after_cancel.simps)

section \<open>Authorization\<close>

text \<open>The caller argument of the calls open to the sender and its operator.\<close>

fun sender_level :: "stream_call \<Rightarrow> address option" where
  "sender_level (Cancel a) = Some a"
| "sender_level (Pause a) = Some a"
| "sender_level (Resume a) = Some a"
| "sender_level (ChangeRate a n) = Some a"
| "sender_level (ExtendDuration a n) = Some a"
| "sender_level (TopUpAndExtend a n m) = Some a"
| "sender_level (Clawback a) = Some a"
| "sender_level (ConfigureKeeperPool a tok n) = Some a"
| "sender_level (FundKeeperPool a n) = Some a"
| "sender_level (WithdrawKeeperPool a n) = Some a"
| "sender_level (SetCliff a t n) = Some a"
| "sender_level (SetMinInterval a n) = Some a"
| "sender_level (SetConfig a c) = Some a"
| "sender_level _ = None"

fun sender_only :: "stream_call \<Rightarrow> address option" where
  "sender_only (SetOperator a b) = Some a"
| "sender_only (RevokeOperator a) = Some a"
| "sender_only (SetTitle a x) = Some a"
| "sender_only (SetTag a x) = Some a"
| "sender_only (SetInvoiceUri a x) = Some a"
| "sender_only (SetMilestoneUri a x) = Some a"
| "sender_only _ = None"

fun recipient_only :: "stream_call \<Rightarrow> bool" where
  "recipient_only (Withdraw n) = True"
| "recipient_only ForceCancel = True"
| "recipient_only (TransferRecipient a) = True"
| "recipient_only (SetAutoForward a) = True"
| "recipient_only _ = False"

text \<open>The calls open to every account: each needs the authorization of its caller argument.\<close>

fun open_call :: "stream_call \<Rightarrow> address option" where
  "open_call (TopUp a n) = Some a"
| "open_call (KeeperPing a) = Some a"
| "open_call (EmergencyPause a) = Some a"
| "open_call (EmergencyUnpause a) = Some a"
| "open_call _ = None"

fun split_call :: "stream_call \<Rightarrow> address option" where
  "split_call (SetSplit a b n) = Some a"
| "split_call (RemoveSplit a) = Some a"
| "split_call _ = None"

lemma sender_or_operator_Inr [res_simps]:
  "require_sender_or_operator e s a sender = Inr u \<longleftrightarrow>
     authorized e a \<and> (a = sender \<or> k_Operator s = Some a)"
  by (auto simp: require_sender_or_operator_def require_auth_eq_Inr split: option.splits)

lemma is_stream_party_frame [simp]:
  "is_stream_party (bump s) info a = is_stream_party s info a"
  "is_stream_party (s\<lparr>k_Guard := g\<rparr>) info a = is_stream_party s info a"
  by (simp_all add: is_stream_party_def)

lemma body_auth:
  assumes "k_Config s = Some info" and "stream_exec e c s = Inr s'"
  shows "sender_level c = Some a \<Longrightarrow> authorized e a \<and> (a = si_sender info \<or> k_Operator s = Some a)"
    and "sender_only c = Some a \<Longrightarrow> authorized e a \<and> a = si_sender info"
    and "recipient_only c \<Longrightarrow> authorized e (si_recipient info)"
    and "split_call c = Some a \<Longrightarrow> authorized e a \<and> is_stream_party s info a"
    and "open_call c = Some a \<Longrightarrow> authorized e a"
    and "sender_level c \<noteq> None \<or> sender_only c \<noteq> None \<or> recipient_only c \<or> split_call c \<noteq> None \<or> open_call c \<noteq> None"
proof -
  note defs = guarded_ops body_defs withdraw_keeper_pool_body_def drop_value_eq_Inr with_guard_eq_Inr and_then_eq_Inr
    load_eq_Inr if_Inl_eq_Inr sender_or_operator_Inr require_auth_eq_Inr Let_def
  show "sender_level c = Some a \<Longrightarrow> authorized e a \<and> (a = si_sender info \<or> k_Operator s = Some a)"
    using assms by (cases c) (auto simp: defs)
  show "sender_only c = Some a \<Longrightarrow> authorized e a \<and> a = si_sender info"
    using assms by (cases c) (auto simp: defs)
  show "recipient_only c \<Longrightarrow> authorized e (si_recipient info)"
    using assms by (cases c) (auto simp: defs)
  show "split_call c = Some a \<Longrightarrow> authorized e a \<and> is_stream_party s info a"
    using assms by (cases c) (auto simp: defs)
  show "open_call c = Some a \<Longrightarrow> authorized e a"
    using assms by (cases c) (auto simp: defs emergency_pause_def emergency_unpause_def)
  show "sender_level c \<noteq> None \<or> sender_only c \<noteq> None \<or> recipient_only c \<or> split_call c \<noteq> None \<or> open_call c \<noteq> None"
    using assms by (cases c) (simp_all add: initialize_again)
qed



section \<open>Reachable states\<close>

text \<open>
  C5.  Every state a stream reaches is well-formed: the stored record satisfies the
  type invariant (positive rate, ordered schedule, non-negative payouts, a pause that
  started within the schedule and not in the future, a non-zero recipient), the guard
  is free, the keeper pool uses another token, and the published events are numbered
  1, 2, 3, ... without gaps up to the stored counter.
\<close>

theorem stream_reachable_ok:
  assumes "stream_init x" and "stream_step\<^sup>*\<^sup>* x (t, s)"
  shows "\<exists>info. k_Config s = Some info \<and> info_ok t info \<and> guard_depth s = 0 \<and>
     split_ok (k_SplitConfig s) \<and> pool_valid (si_token info) (k_KeeperRewardPool s) \<and>
     map ev_seq (st_events s) = [1 .. si_event_sequence info]"
proof -
  have "stream_idle t s" using streams.reachable_inv [OF assms] by simp
  then show ?thesis
    by (auto simp: stream_idle_def stream_inv_def log_ok_def split: option.splits)
qed

theorem stream_reachable_ok_witness:
  "\<exists>(s :: ledger stream) info. k_Config s = Some info \<and> info_ok 50 info \<and> map ev_seq (st_events s) = [1 .. si_event_sequence info] \<and>
     st_world s = sample_ledger"
proof -
  obtain s where s: "initialize (sample_env 50) ''alice'' ''bob'' ''T'' 10 100 700 True 1000 False None
       (fresh_stream sample_ledger) = Inr s" and w: "st_world s = sample_ledger"
    by (simp add: initialize_def fresh_stream_def MIN_STREAM_DURATION_def MAX_STREAM_DURATION_def
        checked_i128_def plain_i128_def in_i128_def int_bounds events_created_def
        assert_non_negative_amount_def publish_def next_sequence_def save_def bump_for_remaining_def
        checked_u64_def in_u64_def Let_def)
  have "stream_init (timestamp (sample_env 50), s)"
    by (rule created [OF s sample_env_ok]) (simp_all add: in_i128_def in_u64_def int_bounds)
  then obtain info where "k_Config s = Some info" "info_ok 50 info" "map ev_seq (st_events s) = [1 .. si_event_sequence info]"
    using stream_reachable_ok [OF _ rtranclp.rtrancl_refl, of 50 s] unfolding sample_env_simps by blast
  with w show ?thesis by (intro exI [of _ s] exI [of _ info]) simp
qed

section \<open>Reentrancy\<close>

text \<open>The entry points that take the guard: all that move tokens, and the settings kept with them.\<close>

fun guarded_call :: "stream_call \<Rightarrow> bool" where
  "guarded_call (Initialize _ _ _ _ _ _ _ _ _ _) = False"
| "guarded_call (EmergencyPause a) = False"
| "guarded_call (EmergencyUnpause a) = False"
| "guarded_call (SetOperator a b) = False"
| "guarded_call (RevokeOperator a) = False"
| "guarded_call (SetTitle a x) = False"
| "guarded_call (SetTag a x) = False"
| "guarded_call (SetInvoiceUri a x) = False"
| "guarded_call (SetMilestoneUri a x) = False"
| "guarded_call _ = True"

lemma drop_value_refused: "\<not> is_ok r \<Longrightarrow> \<not> is_ok (drop_value r)"
  by (cases r) (auto simp: drop_value_def)

text \<open>
  No reentry: while a guarded call is running (the guard is held), a token
  contract that calls back finds every guarded entry point refused.
\<close>

theorem reentry_refused:
  assumes "guarded_call c" and "MAX_REENTRANCY_DEPTH \<le> guard_depth s"
  shows "\<not> is_ok (stream_exec e c s)"
  using assms
  by (cases c) (simp_all add: guarded_ops with_guard_guarded drop_value_refused stream_guard.guarded_refused)

theorem reentry_refused_witness:
  "\<not> is_ok (stream_exec (sample_env 250) (Withdraw 600) (sample_stream\<lparr>k_Guard := Some 1\<rparr>))"
  using reentry_refused [of "Withdraw 600" "sample_stream\<lparr>k_Guard := Some 1\<rparr>"] by (simp add: MAX_REENTRANCY_DEPTH_def)

end
