(* ===== verification/Stream_Liveness.thy ===== *)
theory Stream_Liveness
  imports Stream_Safety
begin

text \<open>
  When a call goes through.  The dry run of a withdrawal predicts the withdrawal,
  and neither the recipient's money nor the sender's can be locked in: with
  well-behaved tokens (\<open>sep41_live\<close>) a withdrawal of accrued and funded value and
  the cancellation of a cancelable stream succeed.
\<close>

section \<open>Room for what follows\<close>

text \<open>No holder's balance overflows when it receives all the contract has.\<close>

definition room :: "'w env \<Rightarrow> 'w \<Rightarrow> address \<Rightarrow> bool" where
  "room e w tok \<longleftrightarrow> (\<forall>h. h \<noteq> contract_address e \<longrightarrow>
     bal_of e w tok h + bal_of e w tok (contract_address e) \<le> i128_max)"

text \<open>The event counter can move on \<open>n\<close> times.\<close>

definition seq_room :: "int \<Rightarrow> 'w stream \<Rightarrow> bool" where
  "seq_room n s = (case k_Config s of None \<Rightarrow> False
     | Some info \<Rightarrow> 0 \<le> si_event_sequence info \<and> si_event_sequence info + n \<le> u64_max)"

lemma seq_room_cong: "k_Config s' = k_Config s \<Longrightarrow> seq_room n s' = seq_room n s"
  by (simp add: seq_room_def)

lemma seq_room_weaken: "seq_room n s \<Longrightarrow> m \<le> n \<Longrightarrow> seq_room m s"
  by (auto simp: seq_room_def split: option.splits)

lemma publish_live:
  assumes "seq_room (n + 1) s" and "0 \<le> n"
  shows "\<exists>s'. publish mk s = Inr s' \<and> seq_room n s'"
proof -
  obtain info where "k_Config s = Some info" "0 \<le> si_event_sequence info" "si_event_sequence info + (n + 1) \<le> u64_max"
    using assms(1) by (auto simp: seq_room_def split: option.splits)
  then show ?thesis
    using assms(2) by (intro exI [of _ "logged info mk s"]) (auto simp: publish_eq_Inr in_u64_def seq_room_def)
qed

lemma room_frame:
  assumes "bal_of e w' = moved (bal_of e w) tok (contract_address e) dst amt" and "0 \<le> amt"
    and "dst \<noteq> contract_address e" and "room e w t"
  shows "room e w' t"
proof -
  have "moved (bal_of e w) tok (contract_address e) dst amt t h +
      moved (bal_of e w) tok (contract_address e) dst amt t (contract_address e) \<le>
      bal_of e w t h + bal_of e w t (contract_address e)" if "h \<noteq> contract_address e" for h
    using that assms(2,3) by (auto simp: moved_def)
  then show ?thesis
    using assms(1,4) unfolding room_def by (metis order_trans)
qed

lemma transfer_live:
  assumes "sep41 e" and "sep41_live e" and "room e (st_world s) tok" and "0 \<le> amt"
    and "amt \<le> bal_of e (st_world s) tok (contract_address e)" and "dst \<noteq> contract_address e"
  shows "\<exists>w. (if 0 < amt then token_transfer e tok (contract_address e) dst amt s else Inr s) = Inr (s\<lparr>st_world := w\<rparr>) \<and>
     room e w tok \<and> bal_of e w = moved (bal_of e (st_world s)) tok (contract_address e) dst amt"
proof (cases "0 < amt")
  case True
  have "bal_of e (st_world s) tok dst + bal_of e (st_world s) tok (contract_address e) \<le> i128_max"
    using assms(3,6) by (auto simp: room_def)
  then have "tok_transfer (tokens e) (st_world s) tok (contract_address e) dst amt \<noteq> None"
    using assms(2,4,5) unfolding sep41_live_def by force
  then obtain w where w: "tok_transfer (tokens e) (st_world s) tok (contract_address e) dst amt = Some w" by blast
  have b: "bal_of e w = moved (bal_of e (st_world s)) tok (contract_address e) dst amt"
    by (rule sep41_transfer(3) [OF assms(1) w])
  then show ?thesis
    using True w room_frame [OF b assms(4,6,3)] by (intro exI [of _ w]) (simp add: token_transfer_def transfer_call_def)
next
  case False
  then have "amt = 0" using assms(4) by simp
  then show ?thesis using assms(3) by (intro exI [of _ "st_world s"]) simp
qed

section \<open>Payouts\<close>

lemma pay_recipient_unfold:
  assumes "split_ok (k_SplitConfig s)" and "0 < amount" and "in_i128 amount"
  shows "pay_recipient e info amount s =
     and_then (if 0 < fst (split_shares s amount)
               then token_transfer e (si_token info) (contract_address e)
                      (auto_forward_address s (si_recipient info)) (fst (split_shares s amount)) s
               else Inr s) (\<lambda>s1.
     if 0 < snd (split_shares s amount)
     then token_transfer e (si_token info) (contract_address e) (secondary_recipient s) (snd (split_shares s amount)) s1
     else Inr s1)"
proof (cases "k_SplitConfig s")
  case None
  then show ?thesis
    using assms(2) by (cases "token_transfer e (si_token info) (contract_address e)
      (auto_forward_address s (si_recipient info)) amount s")
      (simp_all add: pay_recipient_def split_shares_def)
next
  case (Some split)
  note b = split_shares_bounds [OF assms(1), of amount]
  have sh: "split_shares s amount = (amount - amount * sp_split_bps split div 10000, amount * sp_split_bps split div 10000)"
    using Some by (simp add: split_shares_def)
  have "mul_div amount (sp_split_bps split) 10000 = Inr (amount * sp_split_bps split div 10000)"
    unfolding mul_div_eq_Inr using b assms(2,3) sh by (simp add: in_i128_def)
  moreover have "checked_i128 (amount - amount * sp_split_bps split div 10000) =
      Some (amount - amount * sp_split_bps split div 10000)"
    using b assms(2,3) sh by (auto simp: checked_eq_Some intro: in_i128_between)
  ultimately show ?thesis
    using Some by (simp add: pay_recipient_def sh secondary_recipient_def Let_def)
qed

lemma pay_recipient_live:
  assumes "sep41 e" and "sep41_live e" and "room e (st_world s) (si_token info)" and "split_ok (k_SplitConfig s)"
    and "payees_external e s info" and "0 < amount" and "amount \<le> escrow e s info"
  shows "\<exists>w. pay_recipient e info amount s = Inr (s\<lparr>st_world := w\<rparr>) \<and> room e w (si_token info) \<and>
     bal_of e w = paid_out e s info amount (bal_of e (st_world s))"
proof -
  let ?me = "contract_address e" and ?t = "si_token info" and ?to = "auto_forward_address s (si_recipient info)"
  define p q where "p = fst (split_shares s amount)" and "q = snd (split_shares s amount)"
  have pq: "p + q = amount" "0 \<le> p" "0 \<le> q"
    using split_shares_sum [of s amount] split_shares_bounds [OF assms(4), of amount] assms(6)
    by (simp_all add: p_def q_def)
  have i: "in_i128 amount"
    using assms(6,7) sep41_bal_range [OF assms(1), of "st_world s" ?t ?me] by (auto simp: escrow_def in_i128_def int_bounds)
  have to: "?to \<noteq> ?me" using assms(5) by (simp add: payees_external_def)
  obtain w1 where w1: "(if 0 < p then token_transfer e ?t ?me ?to p s else Inr s) = Inr (s\<lparr>st_world := w1\<rparr>)"
    and r1: "room e w1 ?t" and b1: "bal_of e w1 = moved (bal_of e (st_world s)) ?t ?me ?to p"
    using transfer_live [OF assms(1,2,3) pq(2) _ to] pq assms(7) by (auto simp: escrow_def)
  have "\<exists>w. (if 0 < q then token_transfer e ?t ?me (secondary_recipient s) q (s\<lparr>st_world := w1\<rparr>)
        else Inr (s\<lparr>st_world := w1\<rparr>)) = Inr (s\<lparr>st_world := w\<rparr>) \<and> room e w ?t \<and>
      bal_of e w = moved (bal_of e w1) ?t ?me (secondary_recipient s) q"
  proof (cases "k_SplitConfig s")
    case None
    then have "q = 0" by (simp add: q_def split_shares_def)
    then show ?thesis using r1 by (intro exI [of _ w1]) simp
  next
    case (Some split)
    then have "secondary_recipient s \<noteq> ?me" using assms(5) by (simp add: payees_external_def)
    moreover have "q \<le> bal_of e w1 ?t ?me" using b1 to pq assms(7) by (simp add: escrow_def)
    ultimately show ?thesis
      using transfer_live [OF assms(1,2), of "s\<lparr>st_world := w1\<rparr>" ?t q "secondary_recipient s"] r1 pq(3) by simp
  qed
  then show ?thesis
    using w1 b1 pay_recipient_unfold [OF assms(4,6) i, of e info]
    by (auto simp: p_def q_def paid_out_def)
qed

section \<open>The dry run\<close>

lemma events_withdrawn_live:
  assumes "seq_room (n + 1) s" and "0 \<le> n" and "0 \<le> a" and "0 \<le> b" and "0 \<le> c"
  shows "\<exists>s'. events_withdrawn r a b c s = Inr s' \<and> seq_room n s'"
  using publish_live [OF assms(1,2)] assms(3-5) by (simp add: events_withdrawn_def assert_non_negative_amount_def)

lemma cliff_milestone_live:
  assumes "seq_room (n + 1) s" and "0 \<le> n" and "cliff_ok (k_CliffConfig s)"
  shows "\<exists>s'. cliff_milestone now info s = Inr s' \<and> seq_room n s'"
proof (cases "k_CliffConfig s")
  case None
  then show ?thesis using seq_room_weaken [OF assms(1), of n] by (simp add: cliff_milestone_def)
next
  case (Some cliff)
  have "seq_room (n + 1) (s\<lparr>k_CliffReached := Some True\<rparr>)" using assms(1) by (simp add: seq_room_def)
  from publish_live [OF this assms(2)] show ?thesis
    using Some assms(3) seq_room_weaken [OF assms(1), of n]
    by (auto simp: cliff_milestone_def cliff_ok_def events_cliff_reached_def assert_non_negative_amount_def)
qed

lemma completion_milestone_live:
  assumes "seq_room (n + 1) s" and "0 \<le> n" and "0 \<le> paid"
  shows "\<exists>s'. completion_milestone info b r paid s = Inr s' \<and> seq_room n s'"
proof -
  have "seq_room (n + 1) (s\<lparr>k_StreamCompleted := Some True\<rparr>)" using assms(1) by (simp add: seq_room_def)
  from publish_live [OF this assms(2)] show ?thesis
    using assms(3) seq_room_weaken [OF assms(1), of n]
    by (auto simp: completion_milestone_def events_stream_completed_def assert_non_negative_amount_def)
qed

lemma withdraw_body_tail_live:
  assumes "sep41 e" and "sep41_live e" and "room e (st_world s) (si_token info)" and "split_ok (k_SplitConfig s)"
    and "payees_external e s info" and "seq_room 3 s" and "cliff_ok (k_CliffConfig s)"
    and "k_Config s = Some info" and "0 \<le> si_withdrawn info" and "0 < q" and "q \<le> escrow e s info"
  shows "\<exists>s'. and_then (pay_recipient e info q (s\<lparr>k_Config := Some (info\<lparr>si_withdrawn := si_withdrawn info + q\<rparr>)\<rparr>)) (\<lambda>s3.
      and_then (ok_or (checked_i128 (escrow e s info - q)) (Err ArithmeticOverflow)) (\<lambda>remaining.
      and_then (events_withdrawn (si_recipient info) q (si_withdrawn info + q) remaining
          (s3\<lparr>k_LastWithdrawalTime := Some (timestamp e)\<rparr>)) (\<lambda>s5.
      and_then (cliff_milestone (timestamp e) info s5) (\<lambda>s6.
      and_then (completion_milestone info (escrow e s info) remaining (si_withdrawn info + q) s6) (\<lambda>s7.
      Inr (q, s7)))))) = Inr (q, s')"
proof -
  let ?s2 = "s\<lparr>k_Config := Some (info\<lparr>si_withdrawn := si_withdrawn info + q\<rparr>)\<rparr>"
  have ext: "payees_external e ?s2 info" using assms(5) by (simp add: payees_external_def)
  have esc: "escrow e ?s2 info = escrow e s info" by (simp add: escrow_def)
  obtain w where pay: "pay_recipient e info q ?s2 = Inr (?s2\<lparr>st_world := w\<rparr>)"
    using pay_recipient_live [OF assms(1,2) _ _ ext assms(10)] assms(3,4,11) esc by auto
  have rng: "checked_i128 (escrow e s info - q) = Some (escrow e s info - q)"
    using assms(10,11) sep41_bal_range [OF assms(1), of "st_world s" "si_token info" "contract_address e"]
    by (auto simp: checked_eq_Some escrow_def in_i128_def int_bounds)
  have nn: "0 \<le> q" "0 \<le> si_withdrawn info + q" "0 \<le> escrow e s info - q" using assms(9-11) by simp_all
  have "seq_room (2 + 1) (?s2\<lparr>st_world := w, k_LastWithdrawalTime := Some (timestamp e)\<rparr>)"
    using assms(6,8) by (simp add: seq_room_def)
  from events_withdrawn_live [OF this _ nn] obtain s5 where s5: "events_withdrawn (si_recipient info) q (si_withdrawn info + q) (escrow e s info - q)
      (?s2\<lparr>st_world := w, k_LastWithdrawalTime := Some (timestamp e)\<rparr>) = Inr s5" and "seq_room 2 s5" by auto
  then have r5: "seq_room (1 + 1) s5" by simp
  have "k_CliffConfig s5 = k_CliffConfig s" using log_step_frame(4) [OF events_log_step(2) [OF s5]] by simp
  then obtain s6 where s6: "cliff_milestone (timestamp e) info s5 = Inr s6" and "seq_room 1 s6"
    using cliff_milestone_live [OF r5] assms(7) by auto
  then have r6: "seq_room (0 + 1) s6" by simp
  obtain s7 where s7: "completion_milestone info (escrow e s info) (escrow e s info - q) (si_withdrawn info + q) s6 = Inr s7"
    using completion_milestone_live [OF r6 order_refl nn(2)] by blast
  show ?thesis using pay rng s5 s6 s7 by simp
qed

lemma validate_withdraw_success:
  assumes "validate_withdraw e amount s = Inr u"
  obtains info available b where "k_Config s = Some info" and "0 < amount" and "assert_not_cancelled info = Inr ()"
    and "check_withdrawal_interval e s = Inr ()" and "math_withdrawable (timestamp e) s info = Inr available"
    and "available \<noteq> 0" and "tok_balance (tokens e) (st_world s) (si_token info) (contract_address e) = Some b"
    and "min (min amount available) b \<noteq> 0" and "in_i128 (si_withdrawn info + min (min amount available) b)"
proof -
  note res = assms [unfolded validate_withdraw_def Let_def and_then_eq_Inr load_eq_Inr balance_call_def ok_or_eq_Inr checked_eq_Some if_Inl_eq_Inr]
  then obtain info available b u1 u2 where "k_Config s = Some info" "assert_not_cancelled info = Inr u1"
    "check_withdrawal_interval e s = Inr u2" "math_withdrawable (timestamp e) s info = Inr available" "available \<noteq> 0"
    "tok_balance (tokens e) (st_world s) (si_token info) (contract_address e) = Some b"
    "min (min amount available) b \<noteq> 0" "in_i128 (si_withdrawn info + min (min amount available) b)"
    by blast
  moreover have "0 < amount" using res by simp
  ultimately show thesis using that by simp
qed

text \<open>Under the invariant the split arithmetic of a payout never fails.\<close>

lemma split_checks_pass:
  fixes s :: "'w stream"
  assumes "split_ok (k_SplitConfig s)" and "0 < q" and "in_i128 q"
  shows "(case k_SplitConfig s of
         Some split \<Rightarrow>
           and_then (mul_div q (sp_split_bps split) 10000) (\<lambda>secondary_amount.
           and_then (ok_or (checked_i128 (q - secondary_amount)) (Err ArithmeticOverflow)) (\<lambda>_. Inr ()))
       | None \<Rightarrow> Inr ()) = Inr ()"
proof (cases "k_SplitConfig s")
  case (Some split)
  note b = split_shares_bounds [OF assms(1), of q]
  have sh: "split_shares s q = (q - q * sp_split_bps split div 10000, q * sp_split_bps split div 10000)"
    using Some by (simp add: split_shares_def)
  have "mul_div q (sp_split_bps split) 10000 = Inr (q * sp_split_bps split div 10000)"
    unfolding mul_div_eq_Inr using b assms(2,3) sh by (simp add: in_i128_def)
  moreover have "in_i128 (q - q * sp_split_bps split div 10000)"
    using b assms(2,3) sh by (auto intro: in_i128_between)
  ultimately show ?thesis using Some by (simp add: checked_i128_def)
qed simp

lemma math_withdrawable_nonneg: "math_withdrawable now s info = Inr a \<Longrightarrow> 0 \<le> a"
  by (auto simp: math_withdrawable_def and_then_eq_Inr Let_def)

text \<open>Both calls behind their common guards.\<close>

lemma validate_withdraw_past_guards:
  assumes "k_Config s = Some info" and "0 < amount" and "\<not> info_is_cancelled info"
    and "check_withdrawal_interval e s = Inr ()" and "math_withdrawable (timestamp e) s info = Inr a"
  shows "validate_withdraw e amount s = (if a = 0 then Inl (Err NothingToWithdraw) else
     and_then (balance_call e (st_world s) (si_token info) (contract_address e)) (\<lambda>balance.
     if min (min amount a) balance = 0 then Inl (Err StreamUnderfunded) else
     and_then (ok_or (checked_i128 (si_withdrawn info + min (min amount a) balance)) (Err ArithmeticOverflow)) (\<lambda>_.
     (case k_SplitConfig s of
        Some split \<Rightarrow>
          and_then (mul_div (min (min amount a) balance) (sp_split_bps split) 10000) (\<lambda>secondary_amount.
          and_then (ok_or (checked_i128 (min (min amount a) balance - secondary_amount)) (Err ArithmeticOverflow)) (\<lambda>_.
          Inr ()))
      | None \<Rightarrow> Inr ()))))"
  using assms by (simp add: validate_withdraw_def assert_not_cancelled_def load_eq Let_def cong: if_cong)

lemma withdraw_body_past_guards:
  assumes "k_Config s = Some info" and "0 < amount" and "\<not> info_is_cancelled info"
    and "check_withdrawal_interval e s = Inr ()" and "math_withdrawable (timestamp e) s info = Inr a"
    and "authorized e (si_recipient info)"
  shows "withdraw_body e amount s = (if a = 0 then Inl (Err NothingToWithdraw) else
     and_then (balance_call e (st_world s) (si_token info) (contract_address e)) (\<lambda>balance.
     if min (min amount a) balance = 0 then Inl (Err StreamUnderfunded) else
     and_then (ok_or (checked_i128 (si_withdrawn info + min (min amount a) balance)) (Err ArithmeticOverflow)) (\<lambda>n.
     and_then (pay_recipient e info (min (min amount a) balance) ((bump s)\<lparr>k_Config := Some (info\<lparr>si_withdrawn := n\<rparr>)\<rparr>)) (\<lambda>s3.
     and_then (ok_or (checked_i128 (balance - min (min amount a) balance)) (Err ArithmeticOverflow)) (\<lambda>remaining.
     and_then (events_withdrawn (si_recipient info) (min (min amount a) balance) n remaining
        (s3\<lparr>k_LastWithdrawalTime := Some (timestamp e)\<rparr>)) (\<lambda>s5.
     and_then (cliff_milestone (timestamp e) info s5) (\<lambda>s6.
     and_then (completion_milestone info balance remaining n s6) (\<lambda>s7.
     Inr (min (min amount a) balance, s7)))))))))"
  using assms
  by (simp add: withdraw_body_def assert_not_cancelled_def load_eq require_auth_def save_def Let_def cong: if_cong)

text \<open>The payout is positive once it is not zero.\<close>

lemma payout_positive:
  assumes "sep41 e" and "math_withdrawable (timestamp e) s info = Inr a" and "0 < amount"
    and "tok_balance (tokens e) (st_world s) (si_token info) (contract_address e) = Some b"
    and "min (min amount a) b \<noteq> 0"
  shows "0 < min (min amount a) b" and "in_i128 (min (min amount a) b)" and "min (min amount a) b \<le> escrow e s info"
  using sep41_bal_range [OF assms(1), of "st_world s" "si_token info" "contract_address e"] assms(3-5)
    math_withdrawable_nonneg [OF assms(2)]
  by (auto simp: in_i128_def int_bounds escrow_def)

lemma withdraw_refused_as_validated:
  assumes "validate_withdraw e amount s = Inl f" and "k_Config s = Some info" and "authorized e (si_recipient info)"
    and "sep41 e" and "split_ok (k_SplitConfig s)"
  shows "withdraw_body e amount s = Inl f"
proof -
  note defs = validate_withdraw_def withdraw_body_def load_eq require_auth_def assms(2,3) Let_def assert_not_cancelled_def
  consider (guard) "amount \<le> 0 \<or> info_is_cancelled info \<or> check_withdrawal_interval e s \<noteq> Inr ()"
    | (accrual) g where "0 < amount" "\<not> info_is_cancelled info" "check_withdrawal_interval e s = Inr ()"
        "math_withdrawable (timestamp e) s info = Inl g"
    | (past) a where "0 < amount" "\<not> info_is_cancelled info" "check_withdrawal_interval e s = Inr ()"
        "math_withdrawable (timestamp e) s info = Inr a"
    by (cases "math_withdrawable (timestamp e) s info") force+
  then show ?thesis
  proof cases
    case guard
    then show ?thesis using assms(1) by (cases "check_withdrawal_interval e s") (auto simp: defs)
  next
    case accrual
    then show ?thesis using assms(1) by (simp add: defs)
  next
    case past
    note va = assms(1) [unfolded validate_withdraw_past_guards [OF assms(2) past]]
    note wa = withdraw_body_past_guards [OF assms(2) past assms(3)]
    show ?thesis
    proof (cases "tok_balance (tokens e) (st_world s) (si_token info) (contract_address e)")
      case None
      then show ?thesis using va wa by (cases "a = 0") (simp_all add: balance_call_def)
    next
      case (Some b)
      define q where "q = min (min amount a) b"
      note qp = payout_positive [OF assms(4) past(4,1) Some]
      have "and_then (ok_or (checked_i128 (si_withdrawn info + q)) (Err ArithmeticOverflow)) (\<lambda>_. Inr ()) = Inl f"
        if "a \<noteq> 0" "q \<noteq> 0"
        using va that qp(1,2) split_checks_pass [OF assms(5), of q]
        unfolding balance_call_def Some ok_or_simps and_then_Inr q_def [symmetric] by simp
      then show ?thesis
        using va wa unfolding balance_call_def Some ok_or_simps and_then_Inr q_def [symmetric]
        by (cases "checked_i128 (si_withdrawn info + q)") (auto split: if_splits)
    qed
  qed
qed

lemma room_bump [simp]: "seq_room n (bump s) = seq_room n s" "seq_room n (s\<lparr>k_Guard := g\<rparr>) = seq_room n s"
  by (simp_all add: seq_room_def)

lemma payees_frame [simp]:
  "payees_external e (bump s) info = payees_external e s info"
  "payees_external e (s\<lparr>k_Guard := g\<rparr>) info = payees_external e s info"
  by (simp_all add: payees_external_def)

lemma escrow_bump [simp]: "escrow e (bump s) info = escrow e s info"
  by (simp add: escrow_def)

lemma withdraw_runs_when_validated:
  assumes "validate_withdraw e amount s = Inr u" and "k_Config s = Some info" and "authorized e (si_recipient info)"
    and "sep41 e" and "sep41_live e" and "room e (st_world s) (si_token info)" and "split_ok (k_SplitConfig s)"
    and "payees_external e s info" and "seq_room 3 s" and "cliff_ok (k_CliffConfig s)" and "0 \<le> si_withdrawn info"
  shows "\<exists>r s'. withdraw_body e amount s = Inr (r, s')"
proof -
  obtain i a b where i: "k_Config s = Some i" "assert_not_cancelled i = Inr ()" and ci: "check_withdrawal_interval e s = Inr ()"
    and am: "0 < amount" and a: "math_withdrawable (timestamp e) s i = Inr a" "a \<noteq> 0"
    and b: "tok_balance (tokens e) (st_world s) (si_token i) (contract_address e) = Some b"
    and q: "min (min amount a) b \<noteq> 0" "in_i128 (si_withdrawn i + min (min amount a) b)"
    using assms(1) by (rule validate_withdraw_success)
  have ii: "i = info" using i(1) assms(2) by simp
  have nc: "\<not> info_is_cancelled info" using i(2) ii by (simp add: assert_not_cancelled_def split: if_splits)
  have esc: "escrow e s info = b" using b ii by (simp add: escrow_def)
  have pos: "0 < min (min amount a) b" "min (min amount a) b \<le> escrow e (bump s) info"
    using payout_positive [OF assms(4) a(1) am b q(1)] ii by simp_all
  have bal: "balance_call e (st_world s) (si_token info) (contract_address e) = Inr b"
    using b ii by (simp add: balance_call_def)
  have chk: "checked_i128 (si_withdrawn info + min (min amount a) b) = Some (si_withdrawn info + min (min amount a) b)"
    using q(2) ii by (simp add: checked_i128_def)
  show ?thesis
    using withdraw_body_tail_live [OF assms(4,5) _ _ _ _ _ _ assms(11) pos] assms(2,6-10) a(2) q(1)
    unfolding withdraw_body_past_guards [OF assms(2) am nc ci a(1) [unfolded ii] assms(3)] bal chk ok_or_simps and_then_Inr
    by (auto simp: esc)
qed

text \<open>
  C27.  The dry run predicts the withdrawal: for the recipient's own request, when
  \<^verbatim>\<open>validate_withdraw\<close> accepts, \<^verbatim>\<open>withdraw\<close> succeeds, and when it reports an error,
  \<^verbatim>\<open>withdraw\<close> fails with that very error.  (The token returns covered transfers, the
  receivers' balances and the event counter have room.)
\<close>

theorem validate_withdraw_predicts:
  assumes "stream_idle t s" and "env_ok t e" and "k_Config s = Some info" and "payees_external e s info"
    and "authorized e (si_recipient info)" and "sep41_live e" and "room e (st_world s) (si_token info)" and "seq_room 3 s"
  shows "case validate_withdraw e amount s of
       Inr _ \<Rightarrow> \<exists>r s'. withdraw e amount s = Inr (r, s')
     | Inl f \<Rightarrow> withdraw e amount s = Inl f"
proof -
  let ?s = "s\<lparr>k_Guard := Some 1\<rparr>"
  have sep: "sep41 e" using assms(2) by (simp add: env_ok_def)
  have inv: "split_ok (k_SplitConfig ?s)" "cliff_ok (k_CliffConfig ?s)" "0 \<le> si_withdrawn info"
    using assms(1,3) by (auto simp: stream_idle_def stream_inv_Some info_ok_def)
  have v: "validate_withdraw e amount ?s = validate_withdraw e amount s"
    unfolding validate_withdraw_def load_eq by (simp cong: if_cong)
  have c: "k_Config ?s = Some info" using assms(3) by simp
  show ?thesis
  proof (cases "validate_withdraw e amount s")
    case (Inl f)
    then show ?thesis
      using withdraw_refused_as_validated [OF _ c assms(5) sep inv(1)] v
      by (simp add: withdraw_def with_guard_idle_eq [OF assms(1)])
  next
    case (Inr u)
    then have "\<exists>r s'. withdraw_body e amount ?s = Inr (r, s')"
      using withdraw_runs_when_validated [OF _ c assms(5) sep assms(6) _ inv(1) _ _ inv(2,3)] assms(4,7,8) v by simp
    then show ?thesis
      using Inr by (auto simp: withdraw_def with_guard_idle_eq [OF assms(1)])
  qed
qed

lemma sample_room: "room (sample_env n) sample_ledger ''T''"
  by (simp add: room_def sample_ledger_def ledger_read_def int_bounds)

lemma sample_live: "sep41_live (sample_env n)"
  by (rule ledger_token_live) simp

lemma sample_seq_room: "n \<le> 1000 \<Longrightarrow> seq_room n sample_stream"
  by (simp add: seq_room_def int_bounds)

theorem validate_withdraw_predicts_witness:
  "validate_withdraw (sample_env 250) 600 sample_stream = Inr () \<and>
     (\<exists>r s'. withdraw (sample_env 250) 600 sample_stream = Inr (r, s')) \<and>
     withdraw (sample_env 250) 0 sample_stream = Inl (Err InvalidAmount)"
proof -
  note pred = validate_withdraw_predicts [OF sample_idle sample_env_ok _ sample_external _ sample_live, of 0 250]
  have v: "validate_withdraw (sample_env 250) 600 sample_stream = Inr ()"
    by (simp add: validate_withdraw_def check_withdrawal_interval_def call_eval sample_ledger_def ledger_read_def)
  have z: "validate_withdraw (sample_env 250) 0 sample_stream = Inl (Err InvalidAmount)"
    by (simp add: validate_withdraw_def)
  show ?thesis
    using pred [of 600] pred [of 0] v z sample_room [of 250] sample_seq_room [of 3] by simp
qed

section \<open>Cancellation cannot be blocked\<close>

lemma settle_live:
  assumes "sep41 e" and "sep41_live e" and "room e (st_world s) (si_token info)" and "split_ok (k_SplitConfig s)"
    and "payees_external e s info" and "si_sender info \<noteq> contract_address e"
    and "tok_balance (tokens e) (st_world s) (si_token info) (contract_address e) = Some b"
    and "streamed_amount (timestamp e) s info = Inr v" and "0 \<le> v" and "v \<le> i128_max"
    and "0 \<le> si_withdrawn info" and "in_i128 (si_withdrawn info)"
  shows "\<exists>refund paid s'. settle e info s = Inr ((refund, paid), s') \<and> 0 \<le> refund \<and> 0 \<le> paid \<and>
     k_Config s' = Some ((mark_cancelled info)\<lparr>si_withdrawn := paid\<rparr>)"
proof -
  let ?me = "contract_address e" and ?t = "si_token info"
  define owed where "owed = min (max (v - si_withdrawn info) 0) b"
  define s2 where "s2 = s\<lparr>k_Config := Some ((mark_cancelled info)\<lparr>si_withdrawn := si_withdrawn info + owed\<rparr>)\<rparr>"
  have b: "0 \<le> b" "b \<le> i128_max" "escrow e s info = b"
    using sep41_bal_range [OF assms(1), of "st_world s" ?t ?me] assms(7) by (auto simp: escrow_def)
  then have ow: "0 \<le> owed" "owed \<le> b" by (auto simp: owed_def)
  have rng: "in_i128 (v - si_withdrawn info)" "in_i128 (b - owed)" "in_i128 (si_withdrawn info + owed)"
    using assms(9-12) b ow by (auto simp: in_i128_def int_bounds owed_def)
  have fits: "plain_i128 (v - si_withdrawn info) = (Inr (v - si_withdrawn info) :: (stream_error, int) res)"
    "plain_i128 (b - owed) = (Inr (b - owed) :: (stream_error, int) res)"
    "checked_i128 (si_withdrawn info + owed) = Some (si_withdrawn info + owed)"
    using rng by (simp_all add: plain_i128_def checked_i128_def)
  have ext: "payees_external e s2 info" using assms(5) by (simp add: payees_external_def s2_def)
  have "\<exists>w. (if 0 < owed then pay_recipient e info owed s2 else Inr s2) = Inr (s2\<lparr>st_world := w\<rparr>) \<and> room e w ?t \<and>
      bal_of e w ?t ?me = b - owed"
  proof (cases "0 < owed")
    case True
    have "owed \<le> escrow e s2 info" using ow b by (simp add: s2_def escrow_def)
    then show ?thesis
      using pay_recipient_live [OF assms(1,2) _ _ ext True] assms(3,4) True paid_out_contract [OF ext] b
      by (auto simp: s2_def escrow_def)
  next
    case False
    then have "owed = 0" using ow by simp
    then show ?thesis using assms(3) b by (intro exI [of _ "st_world s2"]) (simp add: s2_def escrow_def)
  qed
  then obtain w where w: "(if 0 < owed then pay_recipient e info owed s2 else Inr s2) = Inr (s2\<lparr>st_world := w\<rparr>)"
    and r: "room e w ?t" and bw: "bal_of e w ?t ?me = b - owed" by blast
  obtain s3 where s3: "s3 = s2\<lparr>st_world := w\<rparr>" by blast
  obtain s4 where s4: "(if 0 < b - owed then token_transfer e ?t ?me (si_sender info) (b - owed) s3 else Inr s3) = Inr s4"
    and c4: "k_Config s4 = k_Config s2"
    using transfer_live [OF assms(1,2), of s3 ?t "b - owed" "si_sender info"] r bw ow assms(6) s3 by auto
  have "settle e info s = Inr ((b - owed, si_withdrawn info + owed), s4)"
    using ow s4 unfolding settle_def balance_call_def assms(7,8) ok_or_simps and_then_Inr fits(1) Let_def owed_def [symmetric] save_def
      fits(2,3) s2_def [symmetric] w s3 [symmetric] by (cases "owed < b") simp_all
  then show ?thesis using ow assms(11) c4 by (auto simp: s2_def)
qed

lemma settle_overflow:
  assumes "tok_balance (tokens e) (st_world s) (si_token info) (contract_address e) = Some b"
    and "streamed_amount (timestamp e) s info = Inl f"
  shows "settle e info s = Inl f"
  by (simp add: settle_def balance_call_def assms)

text \<open>A bounded stream whose whole schedule is representable never overflows.\<close>

lemma bounded_streamed_amount:
  assumes "accrual_ok s info" and "in_u64 now" and "0 < si_end_time info"
    and "accrued_upto s info (si_end_time info) \<le> i128_max"
  shows "\<exists>v. streamed_amount now s info = Inr v"
proof (cases "now < si_start_time info")
  case False
  then have "accrued_upto s info (effective_now now info) \<le> i128_max"
    using assms(4) accrued_upto_mono [OF assms(1) effective_now_bounds(2) [OF assms(1) _ assms(3)], of now] by simp
  then show ?thesis using streamed_amount_spec [OF assms(1,2)] False by simp
qed (simp add: streamed_amount_spec [OF assms(1,2)])

lemma cancel_succeeds:
  assumes "stream_idle t s" and "env_ok t e" and "k_Config s = Some info" and "payees_external e s info"
    and "si_sender info \<noteq> contract_address e" and "sep41_live e" and "room e (st_world s) (si_token info)"
    and "tok_balance (tokens e) (st_world s) (si_token info) (contract_address e) \<noteq> None" and "seq_room 1 s"
    and "\<not> info_is_cancelled info" and "is_cancelable s"
    and "authorized e caller" and "caller = si_sender info \<or> k_Operator s = Some caller"
    and "streamed_amount (timestamp e) s info = Inr v"
  shows "\<exists>s'. cancel e caller s = Inr ((), s')"
proof -
  let ?s = "bump (s\<lparr>k_Guard := Some 1\<rparr>)"
  have sep: "sep41 e" and now: "in_u64 (timestamp e)" using assms(2) by (simp_all add: env_ok_def)
  have inv: "split_ok (k_SplitConfig ?s)" "0 \<le> si_withdrawn info" "in_i128 (si_withdrawn info)"
    using assms(1,3) by (auto simp: stream_idle_def stream_inv_Some info_ok_def)
  obtain b where b: "tok_balance (tokens e) (st_world ?s) (si_token info) (contract_address e) = Some b"
    using assms(8) by auto
  have v: "streamed_amount (timestamp e) ?s info = Inr v" "0 \<le> v" "v \<le> i128_max"
    using streamed_amount_Inr [OF idle_accrual [OF assms(1,3)] now assms(14)] assms(14) by simp_all
  have ext: "payees_external e ?s info" "room e (st_world ?s) (si_token info)" using assms(4,7) by simp_all
  obtain refund paid s2 where st: "settle e info ?s = Inr ((refund, paid), s2)" and nn: "0 \<le> refund" "0 \<le> paid"
    and c2: "k_Config s2 = Some ((mark_cancelled info)\<lparr>si_withdrawn := paid\<rparr>)"
    using settle_live [OF sep assms(6) ext(2) inv(1) ext(1) assms(5) b v inv(2,3)] by blast
  have "seq_room (0 + 1) s2" using assms(3,9) c2 by (simp add: seq_room_def mark_cancelled_def)
  then obtain s3 where "events_cancelled (si_sender info) refund paid refund s2 = Inr s3"
    using publish_live [of 0 s2] nn by (auto simp: events_cancelled_def assert_non_negative_amount_def)
  moreover have "require_sender_or_operator e ?s caller (si_sender info) = Inr ()"
    using assms(12,13) by (simp add: sender_or_operator_Inr)
  ultimately have "cancel_body e caller (s\<lparr>k_Guard := Some 1\<rparr>) = Inr ((), s3)"
    using assms(3,10,11) st
    by (simp add: cancel_body_def load_eq assert_not_cancelled_def is_cancelable_def Let_def split: option.splits)
  then show ?thesis by (simp add: cancel_def with_guard_idle_eq [OF assms(1)])
qed

lemma cancel_overflows:
  assumes "stream_idle t s" and "k_Config s = Some info"
    and "tok_balance (tokens e) (st_world s) (si_token info) (contract_address e) \<noteq> None"
    and "\<not> info_is_cancelled info" and "is_cancelable s"
    and "authorized e caller" and "caller = si_sender info \<or> k_Operator s = Some caller"
    and "streamed_amount (timestamp e) s info = Inl f"
  shows "cancel e caller s = Inl f"
proof -
  let ?s = "bump (s\<lparr>k_Guard := Some 1\<rparr>)"
  obtain b where b: "tok_balance (tokens e) (st_world ?s) (si_token info) (contract_address e) = Some b"
    using assms(3) by auto
  have "settle e info ?s = Inl f" by (rule settle_overflow [OF b]) (use assms(8) in simp)
  moreover have "require_sender_or_operator e ?s caller (si_sender info) = Inr ()"
    using assms(6,7) by (simp add: sender_or_operator_Inr)
  ultimately have "cancel_body e caller (s\<lparr>k_Guard := Some 1\<rparr>) = Inl f"
    using assms(2,4,5)
    by (simp add: cancel_body_def load_eq assert_not_cancelled_def is_cancelable_def Let_def split: option.splits)
  then show ?thesis by (simp add: cancel_def with_guard_idle_eq [OF assms(1)])
qed

text \<open>
  C28.  What a cancellation depends on.  Take a well-formed stream that is not cancelled
  and is configured as cancelable, its sender or stored operator as the authorizing
  caller, a token that answers the balance query and carries out every covered transfer
  for which the receiver's balance has room, payees and a sender other than the contract
  itself, and an event counter below its maximum.  Then \<^verbatim>\<open>cancel\<close> succeeds whenever the
  streamed amount is representable, in particular for every bounded stream whose
  schedule is; otherwise it fails with the \<^verbatim>\<open>ArithmeticOverflow\<close> of the streamed amount.
  Neither the recipient nor a pause, a cliff, a split or a rate limit can prevent it.
\<close>

theorem cancel_goes_through:
  assumes "stream_idle t s" and "env_ok t e" and "k_Config s = Some info" and "payees_external e s info"
    and "si_sender info \<noteq> contract_address e" and "sep41_live e" and "room e (st_world s) (si_token info)"
    and "tok_balance (tokens e) (st_world s) (si_token info) (contract_address e) \<noteq> None" and "seq_room 1 s"
    and "\<not> info_is_cancelled info" and "is_cancelable s"
    and "authorized e caller" and "caller = si_sender info \<or> k_Operator s = Some caller"
  shows "(case streamed_amount (timestamp e) s info of
       Inr v \<Rightarrow> \<exists>s'. cancel e caller s = Inr ((), s')
     | Inl f \<Rightarrow> f = Err ArithmeticOverflow \<and> cancel e caller s = Inl (Err ArithmeticOverflow)) \<and>
     (0 < si_end_time info \<longrightarrow> accrued_upto s info (si_end_time info) \<le> i128_max \<longrightarrow>
       (\<exists>s'. cancel e caller s = Inr ((), s')))"
proof -
  have ok: "accrual_ok s info" by (rule idle_accrual [OF assms(1,3)])
  have now: "in_u64 (timestamp e)" using assms(2) by (simp add: env_ok_def)
  have "\<exists>s'. cancel e caller s = Inr ((), s')" if "streamed_amount (timestamp e) s info = Inr v" for v
    by (rule cancel_succeeds [OF assms that])
  moreover have "f = Err ArithmeticOverflow \<and> cancel e caller s = Inl (Err ArithmeticOverflow)"
    if "streamed_amount (timestamp e) s info = Inl f" for f
    using streamed_amount_Inl [OF ok now that] cancel_overflows [OF assms(1,3,8,10-13) that] by simp
  ultimately show ?thesis
    using bounded_streamed_amount [OF ok now] by (auto split: sum.split)
qed

theorem cancel_goes_through_witness: "\<exists>s'. cancel (sample_env 250) ''alice'' sample_stream = Inr ((), s')"
proof -
  have "streamed_amount 250 sample_stream sample_info = Inr 1500"
    by (simp add: call_eval)
  then show ?thesis
    using cancel_goes_through [OF sample_idle sample_env_ok _ sample_external _ sample_live, of 0 250 "''alice''"]
      sample_room [of 250] sample_seq_room [of 1]
    by (simp add: ledger_balance_def is_cancelable_def)
qed

end
