(* ===== verification/Stream_Funding.thy ===== *)
theory Stream_Funding
  imports Stream_Safety
begin

text \<open>
  Solvency of a bounded stream: when the escrow covers everything the schedule can
  still pay, it keeps covering it through withdrawals, top-ups and paid
  extensions, and a withdrawal is never cut short by the balance.  The unpaid
  extension \<^verbatim>\<open>top_up_and_extend\<close> does not have this property.
\<close>

section \<open>Funded streams\<close>

text \<open>What the schedule pays in total, and that the escrow covers the rest of it.\<close>

definition total_due :: "'w stream \<Rightarrow> stream_info \<Rightarrow> int" where
  "total_due s info = accrued_upto s info (si_end_time info)"

definition funded :: "'w env \<Rightarrow> 'w stream \<Rightarrow> bool" where
  "funded e s = (case k_Config s of None \<Rightarrow> False
     | Some info \<Rightarrow> 0 < si_end_time info \<and> snd (accrual_base s info) \<le> si_end_time info \<and>
         total_due s info - si_withdrawn info \<le> escrow e s info)"

lemma funded_Some:
  "k_Config s = Some info \<Longrightarrow> funded e s \<longleftrightarrow> 0 < si_end_time info \<and>
     snd (accrual_base s info) \<le> si_end_time info \<and> total_due s info - si_withdrawn info \<le> escrow e s info"
  by (simp add: funded_def)

text \<open>At no time is more owed than what is held.\<close>

lemma funded_covers_owed:
  assumes "stream_idle t s" and "k_Config s = Some info" and "in_u64 (timestamp e)" and "funded e s" and "sep41 e"
  shows "owed_now e s info \<le> escrow e s info"
proof (cases "streamed_amount (timestamp e) s info")
  case (Inl f)
  then show ?thesis using sep41_bal_nonneg [OF assms(5)] by (simp add: owed_now_def escrow_def)
next
  case (Inr v)
  have ok: "accrual_ok s info" by (rule idle_accrual [OF assms(1,2)])
  have "v \<le> total_due s info"
  proof (cases "timestamp e < si_start_time info")
    case True
    then show ?thesis
      using streamed_amount_Inr(3) [OF ok assms(3) Inr] accrued_upto_nonneg [OF ok] by (simp add: total_due_def)
  next
    case False
    then have "effective_now (timestamp e) info \<le> si_end_time info"
      using effective_now_bounds(2) [OF ok] assms(2,4) by (simp add: funded_Some)
    then show ?thesis
      using streamed_amount_Inr(3) [OF ok assms(3) Inr] accrued_upto_mono [OF ok] False by (simp add: total_due_def)
  qed
  moreover have "total_due s info - si_withdrawn info \<le> escrow e s info" using assms(2,4) by (simp add: funded_Some)
  ultimately show ?thesis
    using Inr sep41_bal_nonneg [OF assms(5), of "st_world s" "si_token info" "contract_address e"]
    by (simp add: owed_now_def escrow_def)
qed

text \<open>The schedule of a stream whose accrual inputs are the same.\<close>

lemma accrued_upto_cong:
  "accrual_base s' info' = accrual_base s info \<Longrightarrow> si_rate_per_second info' = si_rate_per_second info \<Longrightarrow>
     accrued_upto s' info' t = accrued_upto s info t"
  by (simp add: accrued_upto_def)

lemma funded_transfer:
  assumes "funded e s" and "k_Config s = Some info" and "k_Config s' = Some info'"
    and "k_RateCheckpoint s' = k_RateCheckpoint s" and "k_CliffConfig s' = k_CliffConfig s"
    and "si_start_time info' = si_start_time info" and "si_rate_per_second info' = si_rate_per_second info"
    and "si_end_time info' = si_end_time info + n" and "0 \<le> n"
    and "escrow e s' info' - escrow e s info \<ge> si_withdrawn info - si_withdrawn info' + n * si_rate_per_second info"
  shows "funded e s'"
proof -
  have base: "accrual_base s' info' = accrual_base s info" by (rule accrual_base_frame [OF assms(4-6)])
  have f: "0 < si_end_time info" "snd (accrual_base s info) \<le> si_end_time info"
    "total_due s info - si_withdrawn info \<le> escrow e s info"
    using assms(1,2) by (simp_all add: funded_Some)
  have "total_due s' info' = total_due s info + n * si_rate_per_second info"
    using f(2) assms(8,9) accrued_upto_cong [OF base assms(7), of "si_end_time info'"]
    by (simp add: total_due_def accrued_upto_def algebra_simps)
  then show ?thesis using assms(3,8-10) f base by (simp add: funded_Some)
qed

section \<open>The funding operations\<close>

lemma top_up_body_success:
  assumes "sep41 e" and "top_up_body e caller amount s = Inr (u, s')"
  obtains info d w where "k_Config s = Some info" and "0 < amount" and "authorized e caller"
    and "bal_of e w = moved (bal_of e (st_world s)) (si_token info) caller (contract_address e) amount"
    and "log_step ((bump s)\<lparr>k_CumulativeDeposited := Some d, st_world := w\<rparr>) s'"
proof -
  obtain info d w where *: "k_Config s = Some info" "\<not> amount \<le> 0" "authorized e caller"
    "tok_transfer (tokens e) (st_world s) (si_token info) caller (contract_address e) amount = Some w"
    "log_step ((bump s)\<lparr>k_CumulativeDeposited := Some d, st_world := w\<rparr>) s'"
    using assms(2)
    by (auto simp: top_up_body_def res_simps Let_def dest!: events_log_step add_cumulative_deposit_success)
  have "0 < amount" using *(2) by simp
  then show thesis using that * sep41_transfer(3) [OF assms(1) *(4)] by blast
qed

lemma extend_duration_body_success:
  assumes "sep41 e" and "extend_duration_body e caller extra s = Inr (u, s')"
  obtains info d w k where "k_Config s = Some info" and "si_end_time info \<noteq> 0"
    and "bal_of e w = moved (bal_of e (st_world s)) (si_token info) caller (contract_address e)
           (extra * si_rate_per_second info)"
    and "log_step (bump_for_remaining k ((bump s)\<lparr>k_CumulativeDeposited := Some d, st_world := w,
      k_Config := Some (info\<lparr>si_end_time := si_end_time info + extra\<rparr>)\<rparr>)) s'"
proof -
  obtain info d w k where *: "k_Config s = Some info" "si_end_time info \<noteq> 0"
    "tok_transfer (tokens e) (st_world s) (si_token info) caller (contract_address e) (extra * si_rate_per_second info) = Some w"
    "log_step (bump_for_remaining k ((bump s)\<lparr>k_CumulativeDeposited := Some d, st_world := w,
      k_Config := Some (info\<lparr>si_end_time := si_end_time info + extra\<rparr>)\<rparr>)) s'"
    using assms(2)
    by (auto simp: extend_duration_body_def res_simps Let_def save_def dest!: events_log_step add_cumulative_deposit_success)
  then show thesis using that sep41_transfer(3) [OF assms(1) *(3)] by blast
qed

text \<open>A funded stream that pays others than itself.\<close>

definition solvent :: "'w env \<Rightarrow> 'w stream \<Rightarrow> bool" where
  "solvent e s \<longleftrightarrow> funded e s \<and> (\<forall>info. k_Config s = Some info \<longrightarrow> payees_external e s info)"

lemma payees_external_frame:
  assumes "payees_external e s info" and "k_AutoForwardAddress s' = k_AutoForwardAddress s"
    and "k_SplitConfig s' = k_SplitConfig s" and "si_recipient info' = si_recipient info"
  shows "payees_external e s' info'"
  using assms by (simp add: payees_external_def auto_forward_address_def secondary_recipient_def)

lemma log_step_funded:
  assumes "log_step m s'" and "k_Config m = Some info"
  obtains n where "k_Config s' = Some (info\<lparr>si_event_sequence := n\<rparr>)" and "st_world s' = st_world m"
    and "k_RateCheckpoint s' = k_RateCheckpoint m" and "k_CliffConfig s' = k_CliffConfig m"
    and "k_AutoForwardAddress s' = k_AutoForwardAddress m" and "k_SplitConfig s' = k_SplitConfig m"
  using log_step_frame [OF assms(1)] log_step_config [OF assms(1)] assms(2) by (metis option.inject)

lemma unlock_funded [simp]: "funded e (unlock s) = funded e s" "funded e (s\<lparr>k_Guard := g\<rparr>) = funded e s"
  by (simp_all add: funded_def total_due_def accrued_upto_def accrual_base_def escrow_def unlock_def Let_def split: option.split)

lemma withdraw_keeps_solvent:
  assumes "sep41 e" and "split_ok (k_SplitConfig s)" and "k_Config s = Some info" and "payees_external e s info"
    and "funded e s" and "withdraw_body e amount s = Inr (r, s')"
  shows "solvent e s'"
  using assms(1,2,6)
proof (rule withdraw_body_success)
  fix i w
  assume i: "k_Config s = Some i" and bw: "bal_of e w = paid_out e s i r (bal_of e (st_world s))"
    and ls: "log_step (s\<lparr>k_Config := Some (i\<lparr>si_withdrawn := si_withdrawn i + r\<rparr>), st_world := w,
           k_LastWithdrawalTime := Some (timestamp e), st_ttl := st_ttl (bump s)\<rparr>) s'"
  have ii: "i = info" using i assms(3) by simp
  obtain n where c: "k_Config s' = Some (info\<lparr>si_withdrawn := si_withdrawn info + r, si_event_sequence := n\<rparr>)"
    and fr: "st_world s' = w" "k_RateCheckpoint s' = k_RateCheckpoint s" "k_CliffConfig s' = k_CliffConfig s"
      "k_AutoForwardAddress s' = k_AutoForwardAddress s" "k_SplitConfig s' = k_SplitConfig s"
    using ii log_step_funded [OF ls, of "info\<lparr>si_withdrawn := si_withdrawn info + r\<rparr>"] by auto
  have "funded e s'"
    by (rule funded_transfer [OF assms(5,3) c, where n = 0])
      (use fr bw ii paid_out_contract [OF assms(4)] in \<open>simp_all add: escrow_def\<close>)
  then show ?thesis using c payees_external_frame [OF assms(4) fr(4,5)] by (simp add: solvent_def)
qed

lemma top_up_keeps_solvent:
  assumes "sep41 e" and "k_Config s = Some info" and "caller \<noteq> contract_address e" and "funded e s"
    and "payees_external e s info" and "top_up_body e caller amount s = Inr (u, s')"
  shows "solvent e s'"
  using assms(1,6)
proof (rule top_up_body_success)
  fix i d w
  assume i: "k_Config s = Some i" "0 < amount"
    and bw: "bal_of e w = moved (bal_of e (st_world s)) (si_token i) caller (contract_address e) amount"
    and ls: "log_step ((bump s)\<lparr>k_CumulativeDeposited := Some d, st_world := w\<rparr>) s'"
  have ii: "i = info" using i assms(2) by simp
  obtain n where c: "k_Config s' = Some (info\<lparr>si_event_sequence := n\<rparr>)"
    and fr: "st_world s' = w" "k_RateCheckpoint s' = k_RateCheckpoint s" "k_CliffConfig s' = k_CliffConfig s"
      "k_AutoForwardAddress s' = k_AutoForwardAddress s" "k_SplitConfig s' = k_SplitConfig s"
    using assms(2) log_step_funded [OF ls, of info] by auto
  have "funded e s'"
    by (rule funded_transfer [OF assms(4,2) c, where n = 0])
      (use fr bw ii i assms(3) in \<open>simp_all add: escrow_def\<close>)
  then show ?thesis using c payees_external_frame [OF assms(5) fr(4,5)] by (simp add: solvent_def)
qed

lemma extend_keeps_solvent:
  assumes "sep41 e" and "k_Config s = Some info" and "caller \<noteq> contract_address e" and "funded e s" and "in_u64 extra"
    and "payees_external e s info" and "extend_duration_body e caller extra s = Inr (u, s')"
  shows "solvent e s'"
  using assms(1,7)
proof (rule extend_duration_body_success)
  fix i d w k
  assume i: "k_Config s = Some i"
    and bw: "bal_of e w = moved (bal_of e (st_world s)) (si_token i) caller (contract_address e) (extra * si_rate_per_second i)"
    and ls: "log_step (bump_for_remaining k ((bump s)\<lparr>k_CumulativeDeposited := Some d, st_world := w,
      k_Config := Some (i\<lparr>si_end_time := si_end_time i + extra\<rparr>)\<rparr>)) s'"
  have ii: "i = info" using i assms(2) by simp
  obtain n where c: "k_Config s' = Some (info\<lparr>si_end_time := si_end_time info + extra, si_event_sequence := n\<rparr>)"
    and fr: "st_world s' = w" "k_RateCheckpoint s' = k_RateCheckpoint s" "k_CliffConfig s' = k_CliffConfig s"
      "k_AutoForwardAddress s' = k_AutoForwardAddress s" "k_SplitConfig s' = k_SplitConfig s"
    using ii log_step_funded [OF ls, of "info\<lparr>si_end_time := si_end_time info + extra\<rparr>"] by auto
  have "funded e s'"
    by (rule funded_transfer [OF assms(4,2) c, where n = extra])
      (use fr bw ii i assms(3,5) in \<open>simp_all add: escrow_def in_u64_def\<close>)
  then show ?thesis using c payees_external_frame [OF assms(6) fr(4,5)] by (simp add: solvent_def)
qed

text \<open>The calls that pay for what they promise, made by an account other than the stream itself.\<close>

fun pays_its_way :: "address \<Rightarrow> stream_call \<Rightarrow> bool" where
  "pays_its_way me (Withdraw n) = True"
| "pays_its_way me (TopUp a n) = (a \<noteq> me)"
| "pays_its_way me (ExtendDuration a n) = (a \<noteq> me)"
| "pays_its_way me _ = False"

lemma paying_call_body:
  assumes "pays_its_way me c" and "stream_exec e c s = Inr s'" and "stream_idle t s"
  obtains s2 where "s' = unlock s2"
    and "(\<exists>n r. c = Withdraw n \<and> withdraw_body e n (s\<lparr>k_Guard := Some 1\<rparr>) = Inr (r, s2)) \<or>
      (\<exists>a n. c = TopUp a n \<and> a \<noteq> me \<and> top_up_body e a n (s\<lparr>k_Guard := Some 1\<rparr>) = Inr ((), s2)) \<or>
      (\<exists>a n. c = ExtendDuration a n \<and> a \<noteq> me \<and> extend_duration_body e a n (s\<lparr>k_Guard := Some 1\<rparr>) = Inr ((), s2))"
  using assms
  by (cases c) (auto simp: drop_value_eq_Inr guarded_ops with_guard_idle_eq [OF assms(3)] and_then_eq_Inr)

lemma solvent_frame [simp]:
  "solvent e (unlock s) = solvent e s" "solvent e (s\<lparr>k_Guard := g\<rparr>) = solvent e s"
  by (simp_all add: solvent_def payees_external_def auto_forward_address_def secondary_recipient_def)

lemma paying_call_keeps_solvent:
  assumes "stream_idle t s" and "sep41 e" and "call_ok c" and "solvent e s"
    and "pays_its_way (contract_address e) c" and "stream_exec e c s = Inr s'"
  shows "solvent e s'"
  using assms(5,6,1)
proof (rule paying_call_body)
  let ?s = "s\<lparr>k_Guard := Some 1\<rparr>"
  obtain info where info: "k_Config s = Some info" using assms(4) by (auto simp: solvent_def funded_def split: option.splits)
  then have c: "k_Config ?s = Some info" "payees_external e ?s info" "funded e ?s" "split_ok (k_SplitConfig ?s)"
    using assms(4) idle_split [OF assms(1)] by (simp_all add: solvent_def payees_external_def)
  fix s2 assume s': "s' = unlock s2" and
    "(\<exists>n r. c = Withdraw n \<and> withdraw_body e n ?s = Inr (r, s2)) \<or>
     (\<exists>a n. c = TopUp a n \<and> a \<noteq> contract_address e \<and> top_up_body e a n ?s = Inr ((), s2)) \<or>
     (\<exists>a n. c = ExtendDuration a n \<and> a \<noteq> contract_address e \<and> extend_duration_body e a n ?s = Inr ((), s2))"
  then have "solvent e s2"
    using withdraw_keeps_solvent [OF assms(2) c(4,1,2,3)] top_up_keeps_solvent [OF assms(2) c(1) _ c(3,2)]
      extend_keeps_solvent [OF assms(2) c(1) _ c(3) _ c(2)] assms(3) by auto
  then show ?thesis using s' by simp
qed

section \<open>Histories\<close>

text \<open>
  What happens to a stream on the host \<open>h\<close> (its token contracts and the stream's own
  address), paired with the latest ledger time: a committed paying call, at any later
  time and with any authorizations, or token movements elsewhere, which may add to the
  escrow but not take from it.
\<close>

inductive funding_step :: "'w env \<Rightarrow> int \<times> 'w stream \<Rightarrow> int \<times> 'w stream \<Rightarrow> bool" for h where
  paying_call: "env_ok t e \<Longrightarrow> tokens e = tokens h \<Longrightarrow> contract_address e = contract_address h \<Longrightarrow> call_ok c \<Longrightarrow>
     pays_its_way (contract_address h) c \<Longrightarrow> stream_exec e c s = Inr s' \<Longrightarrow> funding_step h (t, s) (timestamp e, s')"
| others_move: "t \<le> t' \<Longrightarrow> k_Config s = Some info \<Longrightarrow> escrow h s info \<le> escrow h (s\<lparr>st_world := w\<rparr>) info \<Longrightarrow>
     funding_step h (t, s) (t', s\<lparr>st_world := w\<rparr>)"

inductive_cases funding_stepE: "funding_step h (t, s) (t', s')"

lemma same_host:
  assumes "tokens e = tokens h" and "contract_address e = contract_address h"
  shows "solvent e s = solvent h s" and "sep41 e = sep41 h"
proof -
  have bal: "bal_of e = bal_of h" by (simp add: fun_eq_iff bal_of_def assms)
  then show "solvent e s = solvent h s"
    by (simp add: solvent_def funded_def escrow_def payees_external_def assms split: option.split)
  show "sep41 e = sep41 h" using bal by (simp add: sep41_def assms)
qed

lemma others_move_solvent:
  assumes "solvent h s" and "k_Config s = Some info" and "escrow h s info \<le> escrow h (s\<lparr>st_world := w\<rparr>) info"
  shows "solvent h (s\<lparr>st_world := w\<rparr>)"
proof -
  have "payees_external h (s\<lparr>st_world := w\<rparr>) info"
    using assms(1,2) by (simp add: solvent_def payees_external_frame [of h s info])
  moreover have "total_due (s\<lparr>st_world := w\<rparr>) info = total_due s info"
    "accrual_base (s\<lparr>st_world := w\<rparr>) info = accrual_base s info"
    by (simp_all add: total_due_def accrued_upto_def accrual_base_def split: option.split)
  ultimately show ?thesis using assms by (simp add: solvent_def funded_Some)
qed

interpretation funding: transition_system "\<lambda>(t, s). stream_idle t s \<and> solvent h s" "funding_step h"
    "\<lambda>(t, s). stream_idle t s \<and> solvent h s" for h :: "'w env"
proof (unfold_locales, goal_cases)
  case (2 x y)
  obtain t s t' s' where xy: "x = (t, s)" "y = (t', s')" by (metis surj_pair)
  have inv: "stream_idle t s" "solvent h s" using 2(1) by (simp_all add: xy)
  from 2(2) [unfolded xy] show ?case
  proof (rule funding_stepE)
    fix e c assume *: "t' = timestamp e" "env_ok t e" "tokens e = tokens h" "contract_address e = contract_address h"
      "call_ok c" "pays_its_way (contract_address h) c" "stream_exec e c s = Inr s'"
    have "solvent e s'"
      using paying_call_keeps_solvent [OF inv(1) _ *(5) _ _ *(7)] inv(2) *(2,6) same_host(1) [OF *(3,4)]
      by (simp add: *(4) env_ok_def)
    then show ?thesis using stream_exec_idle [OF inv(1) *(2,5,7)] same_host(1) [OF *(3,4)] by (simp add: xy *(1))
  next
    fix info w assume "s' = s\<lparr>st_world := w\<rparr>" "t \<le> t'" "k_Config s = Some info"
      "escrow h s info \<le> escrow h (s\<lparr>st_world := w\<rparr>) info"
    then show ?thesis
      using inv others_move_solvent by (auto simp: xy stream_idle_def guard_depth_def intro: stream_inv_mono)
  qed
qed simp

text \<open>
  C29.  A funded stream stays funded: when the escrow of a bounded stream covers everything
  the schedule can still pay, it does so after any sequence of withdrawals, top-ups and
  duration extensions (made by accounts other than the stream itself, at any times, with
  the payees outside the contract, and with other token movements that do not take from
  the escrow in between), and in the state reached no more is owed than the contract
  holds, at whatever ledger time the amount is computed.  The combined
  \<^verbatim>\<open>top_up_and_extend\<close> is not among these calls: \<open>top_up_and_extend_underfunds\<close> shows
  that it breaks the property.
\<close>

theorem funded_stays_funded:
  assumes "stream_idle t s" and "sep41 h" and "k_Config s = Some info" and "payees_external h s info" and "funded h s"
    and "(funding_step h)\<^sup>*\<^sup>* (t, s) (t', s')"
  shows "\<exists>info'. k_Config s' = Some info' \<and> 0 < si_end_time info' \<and>
     accrued_upto s' info' (si_end_time info') - si_withdrawn info' \<le> escrow h s' info' \<and>
     (\<forall>now. in_u64 now \<longrightarrow> owed_now (h\<lparr>timestamp := now\<rparr>) s' info' \<le> escrow h s' info')"
proof -
  have "solvent h s" using assms(3-5) by (simp add: solvent_def)
  then have "stream_idle t' s'" and "solvent h s'"
    using funding.run_inv [OF assms(6)] assms(1) by auto
  moreover obtain info' where c: "k_Config s' = Some info'"
    using idle_configured [OF \<open>stream_idle t' s'\<close>] by blast
  moreover have "owed_now (h\<lparr>timestamp := now\<rparr>) s' info' \<le> escrow h s' info'" if "in_u64 now" for now
  proof -
    have "solvent (h\<lparr>timestamp := now\<rparr>) s'" "sep41 (h\<lparr>timestamp := now\<rparr>)"
      using same_host [of "h\<lparr>timestamp := now\<rparr>" h] assms(2) \<open>solvent h s'\<close> by simp_all
    then show ?thesis
      using funded_covers_owed [OF \<open>stream_idle t' s'\<close> c, of "h\<lparr>timestamp := now\<rparr>"] that
      by (simp add: solvent_def escrow_def bal_of_def)
  qed
  ultimately show ?thesis by (auto simp: solvent_def funded_Some total_due_def)
qed

lemma sample_funded: "funded (sample_env n) sample_stream"
  by (simp add: funded_def total_due_def accrued_upto_def accrual_base_def escrow_def sample_ledger_def ledger_read_def int_bounds)

theorem funded_stays_funded_witness:
  "\<exists>s' info'. stream_exec (sample_env 250) (Withdraw 600) sample_stream = Inr s' \<and> k_Config s' = Some info' \<and>
     (\<forall>now. in_u64 now \<longrightarrow> owed_now (sample_env now) s' info' \<le> escrow (sample_env 0) s' info')"
proof -
  obtain s' where s': "stream_exec (sample_env 250) (Withdraw 600) sample_stream = Inr s'"
    using sample_withdraws by (auto simp: drop_value_def)
  have "funding_step (sample_env 0) (0, sample_stream) (timestamp (sample_env 250), s')"
    by (rule paying_call [OF sample_env_ok _ _ _ _ s']) (simp_all add: in_i128_def int_bounds)
  moreover have "sep41 (sample_env 0)" using sample_env_ok [of 0 0] by (simp add: env_ok_def)
  moreover have "(sample_env 0)\<lparr>timestamp := now\<rparr> = sample_env now" for now by (simp add: sample_env_def)
  ultimately show ?thesis
    using funded_stays_funded [OF sample_idle _ sample_stream_fields(1) sample_external sample_funded r_into_rtranclp, of 0 0 250 s'] s'
    by auto
qed

text \<open>
  The combined \<^verbatim>\<open>top_up_and_extend\<close> does not check that the amount pays for the
  extension: a sender extends a fully funded stream (6000 held, 6000 due) by 1000
  seconds at rate 10 for a single unit, and the stream is underfunded by 9999.
\<close>

theorem top_up_and_extend_underfunds:
  "funded (sample_env 250) sample_stream \<and>
   (\<exists>s' info'. top_up_and_extend (sample_env 250) ''alice'' 1 1000 sample_stream = Inr ((), s') \<and>
     k_Config s' = Some info' \<and> si_end_time info' = 1700 \<and>
     total_due s' info' - si_withdrawn info' = 16000 \<and> escrow (sample_env 250) s' info' = 6001)"
  by (simp add: sample_funded)
     (simp add: top_up_and_extend_def top_up_and_extend_body_def call_eval sample_ledger_def ledger_read_def moved_def
      add_cumulative_deposit_def stored_cumulative_deposited_def events_topped_up_and_extended_def sat_u64_def
      unlock_def escrow_def total_due_def accrued_upto_def accrual_base_def)

end
