(* ===== verification/Stream_Keeper.thy ===== *)
theory Stream_Keeper
  imports Stream_Safety
begin

text \<open>
  The keeper pool and the stream's time-to-live: what a ping pays and how often,
  that its money is separate from the escrow, how far an extension reaches, and
  two places where the code promises more than it does (the pool can be
  overdrawn; the emergency flag stops nothing).
\<close>

section \<open>Pings\<close>

lemma keeper_ping_body_success:
  assumes "keeper_ping_body e keeper s = Inr (r, s')"
  obtains info pool w k where "k_Config s = Some info" and "k_KeeperRewardPool s = Some pool"
    and "\<not> info_is_cancelled info" and "authorized e keeper"
    and "r = kp_reward_per_ping pool" and "r \<le> kp_balance pool"
    and "\<forall>l. k_LastKeeperPingLedger s = Some l \<longrightarrow> sat_u32 (l + MIN_TTL_LEDGERS) \<le> sequence e"
    and "tok_transfer (tokens e) (st_world s) (kp_token pool) (contract_address e) keeper r = Some w"
    and "bal_of e w (kp_token pool) (contract_address e) = bal_of e (st_world s) (kp_token pool) (contract_address e) - r"
    and "bal_of e w (kp_token pool) keeper = bal_of e (st_world s) (kp_token pool) keeper + r"
    and "log_step ((bump_for_remaining k (s\<lparr>k_KeeperRewardPool := Some (pool\<lparr>kp_balance := kp_balance pool - r\<rparr>),
           k_LastKeeperPingLedger := Some (sequence e)\<rparr>))\<lparr>st_world := w\<rparr>) s'"
proof -
  obtain info pool b kb w k where *: "k_Config s = Some info" "k_KeeperRewardPool s = Some pool"
    "assert_not_cancelled info = Inr ()" "authorized e keeper" "\<not> kp_balance pool < kp_reward_per_ping pool"
    "\<not> (case k_LastKeeperPingLedger s of Some l \<Rightarrow> sequence e < sat_u32 (l + MIN_TTL_LEDGERS) | None \<Rightarrow> False)"
    "r = kp_reward_per_ping pool"
    "tok_balance (tokens e) (st_world s) (kp_token pool) (contract_address e) = Some b"
    "tok_balance (tokens e) (st_world s) (kp_token pool) keeper = Some kb"
    "tok_transfer (tokens e) (st_world s) (kp_token pool) (contract_address e) keeper r = Some w"
    "tok_balance (tokens e) w (kp_token pool) (contract_address e) = Some (b - r)"
    "tok_balance (tokens e) w (kp_token pool) keeper = Some (kb + r)"
    "log_step ((bump_for_remaining k (s\<lparr>k_KeeperRewardPool := Some (pool\<lparr>kp_balance := kp_balance pool - r\<rparr>),
           k_LastKeeperPingLedger := Some (sequence e)\<rparr>))\<lparr>st_world := w\<rparr>) s'"
    using assms
    by (auto simp: keeper_ping_body_def res_simps Let_def dest!: events_log_step split: if_splits)
  show thesis
    by (rule that [OF *(1,2) _ *(4,7) _ _ *(10) _ _ *(13)])
      (use * in \<open>auto simp: assert_not_cancelled_def not_less split: if_splits option.splits\<close>)
qed

text \<open>
  A committed ping pays the keeper exactly the configured bounty, out of a
  pool that recorded at least that much, at most once per
  \<^verbatim>\<open>MIN_TTL_LEDGERS\<close> ledgers, and never touches the stream's own money: no balance
  of the streamed token changes, nor does anything the recipient is owed.
\<close>

theorem keeper_ping_pays_bounty:
  assumes "stream_idle t s" and "env_ok t e" and "k_Config s = Some info" and "keeper_ping e keeper s = Inr (r, s')"
  shows "\<exists>pool. k_KeeperRewardPool s = Some pool \<and> r = kp_reward_per_ping pool \<and> 0 < r \<and>
     k_KeeperRewardPool s' = Some (pool\<lparr>kp_balance := kp_balance pool - r\<rparr>) \<and> 0 \<le> kp_balance pool - r \<and>
     k_LastKeeperPingLedger s' = Some (sequence e) \<and>
     (\<forall>l. k_LastKeeperPingLedger s = Some l \<longrightarrow> sat_u32 (l + MIN_TTL_LEDGERS) \<le> sequence e) \<and>
     bal_of e (st_world s') = moved (bal_of e (st_world s)) (kp_token pool) (contract_address e) keeper r \<and>
     (\<forall>h. bal_of e (st_world s') (si_token info) h = bal_of e (st_world s) (si_token info) h) \<and>
     (\<exists>n. k_Config s' = Some (info\<lparr>si_event_sequence := n\<rparr>))"
proof -
  obtain s2 where body: "keeper_ping_body e keeper (s\<lparr>k_Guard := Some 1\<rparr>) = Inr (r, s2)" and s': "s' = unlock s2"
    using assms(4,1) unfolding keeper_ping_def by (rule guarded_run)
  have sep: "sep41 e" using assms(2) by (simp add: env_ok_def)
  from body show ?thesis
  proof (rule keeper_ping_body_success)
    fix i pool w k
    assume p: "k_Config (s\<lparr>k_Guard := Some 1\<rparr>) = Some i" "k_KeeperRewardPool (s\<lparr>k_Guard := Some 1\<rparr>) = Some pool"
      "r = kp_reward_per_ping pool" "r \<le> kp_balance pool"
      "\<forall>l. k_LastKeeperPingLedger (s\<lparr>k_Guard := Some 1\<rparr>) = Some l \<longrightarrow> sat_u32 (l + MIN_TTL_LEDGERS) \<le> sequence e"
      "tok_transfer (tokens e) (st_world (s\<lparr>k_Guard := Some 1\<rparr>)) (kp_token pool) (contract_address e) keeper r = Some w"
      and ls: "log_step ((bump_for_remaining k (s\<lparr>k_Guard := Some 1, k_KeeperRewardPool := Some (pool\<lparr>kp_balance := kp_balance pool - r\<rparr>),
           k_LastKeeperPingLedger := Some (sequence e)\<rparr>))\<lparr>st_world := w\<rparr>) s2"
    have "pool_valid (si_token info) (Some pool)"
      using assms(1,3) p(2) by (auto simp: stream_idle_def stream_inv_Some)
    then have pv: "0 < r" "kp_token pool \<noteq> si_token info" using p(3) by (simp_all add: pool_valid_def)
    have bw: "bal_of e w = moved (bal_of e (st_world s)) (kp_token pool) (contract_address e) keeper r"
      using sep41_transfer(3) [OF sep p(6)] by simp
    obtain n where "k_Config s2 = Some (info\<lparr>si_event_sequence := n\<rparr>)"
      using ls assms(3) by (auto elim!: log_step_config)
    moreover have "k_KeeperRewardPool s2 = Some (pool\<lparr>kp_balance := kp_balance pool - r\<rparr>)"
      "k_LastKeeperPingLedger s2 = Some (sequence e)" "st_world s2 = w"
      using log_step_frame(6,15,7) [OF ls] by simp_all
    ultimately show ?thesis
      using p pv bw s' by (auto simp: unlock_def Let_def)
  qed
qed

section \<open>A sample pool\<close>

definition pool_stream :: "ledger stream" where
  "pool_stream = sample_stream\<lparr>k_KeeperRewardPool := Some \<lparr>kp_token = ''R'', kp_reward_per_ping = 7, kp_balance = 20\<rparr>\<rparr>"

lemma pool_stream_fields [simp]:
  "k_Config pool_stream = Some sample_info" "k_Guard pool_stream = None" "k_Operator pool_stream = None"
  "k_KeeperRewardPool pool_stream = Some \<lparr>kp_token = ''R'', kp_reward_per_ping = 7, kp_balance = 20\<rparr>"
  "st_world pool_stream = sample_ledger" "k_LastKeeperPingLedger pool_stream = None"
  by (simp_all add: pool_stream_def sample_stream_def fresh_stream_def)

lemma pool_stream_idle: "0 \<le> t \<Longrightarrow> stream_idle t pool_stream"
  using sample_idle [of t] by (simp add: stream_idle_def guard_depth_def stream_inv_def pool_stream_def pool_valid_def)

lemma pool_stream_pings: "\<exists>s'. keeper_ping (sample_env 250) ''carol'' pool_stream = Inr (7, s')"
  by (simp add: keeper_ping_def keeper_ping_body_def call_eval sample_ledger_def ledger_read_def moved_def
      bump_for_remaining_def events_keeper_ping_def)

theorem keeper_ping_pays_bounty_witness:
  "\<exists>s'. keeper_ping (sample_env 250) ''carol'' pool_stream = Inr (7, s') \<and>
     bal_of (sample_env 250) (st_world s') ''R'' ''carol'' = 7 \<and>
     bal_of (sample_env 250) (st_world s') ''T'' ''C'' = 6000"
proof -
  obtain s' where s': "keeper_ping (sample_env 250) ''carol'' pool_stream = Inr (7, s')"
    using pool_stream_pings by blast
  have "ledger_read sample_ledger = sample_ledger" by (intro ext) simp
  then show ?thesis
    using keeper_ping_pays_bounty [OF pool_stream_idle sample_env_ok _ s', of 0 sample_info] s'
    by (auto simp: moved_def) (simp_all add: sample_ledger_def)
qed

text \<open>
  The pool can be overdrawn: \<^verbatim>\<open>withdraw_keeper_reward_pool\<close> subtracts with an
  \<^verbatim>\<open>i128\<close> \<^verbatim>\<open>checked_sub\<close>, which accepts a negative result, so the sender withdraws
  50 from a pool that records 20, the call commits, and the recorded balance is
  -30; \<^verbatim>\<open>InsufficientKeeperRewardPool\<close> is not reported.
\<close>

theorem keeper_pool_overdrawn:
  "\<exists>s'. withdraw_keeper_reward_pool (sample_env 250) ''alice'' 50 pool_stream = Inr ((), s') \<and>
     k_KeeperRewardPool s' = Some \<lparr>kp_token = ''R'', kp_reward_per_ping = 7, kp_balance = -30\<rparr>"
  by (simp add: withdraw_keeper_reward_pool_def withdraw_keeper_pool_body_def call_eval sample_ledger_def ledger_read_def
      moved_def events_keeper_reward_pool_withdrawn_def unlock_def)

section \<open>The emergency flag\<close>

text \<open>
  The emergency flag guards nothing: any account sets it on its own
  authorization, and with the flag set the recipient's withdrawal is paid as before.
\<close>

theorem emergency_flag_stops_nothing:
  "\<exists>s1 s2. emergency_pause (sample_env 250) ''mallory'' sample_stream = Inr s1 \<and>
     fst (is_emergency_paused (sample_env 250) s1) \<and>
     withdraw (sample_env 250) 600 s1 = Inr (600, s2)"
  by (simp add: emergency_pause_def is_emergency_paused_def write_emergency_def set_paused_eq ignore_err_def
      is_paused_def DEFAULT_MAX_PAUSE_DURATION_def
      call_eval events_emergency_paused_def withdraw_def withdraw_body_def check_withdrawal_interval_def sample_ledger_def
      ledger_read_def events_withdrawn_def cliff_milestone_def completion_milestone_def sat_u64_def)
     (simp add: info_is_paused_def info_is_cancelled_def sample_info_def flag_defs)

section \<open>Time to live\<close>

text \<open>
  The target of a TTL extension is never below the policy's default and never
  above the host's maximum, and unless that maximum cuts it off it outlasts the
  remaining stream time by the policy's minimum.
\<close>

theorem extend_to_covers_remaining:
  assumes "0 \<le> remaining_secs"
  shows "EXTEND_TTL_LEDGERS \<le> extend_to_for_remaining remaining_secs \<and>
     extend_to_for_remaining remaining_secs \<le> MAX_TTL_LEDGERS \<and>
     (extend_to_for_remaining remaining_secs < MAX_TTL_LEDGERS \<longrightarrow>
        remaining_secs + MIN_TTL_LEDGERS * SECONDS_PER_LEDGER \<le>
          extend_to_for_remaining remaining_secs * SECONDS_PER_LEDGER)"
proof -
  have "remaining_secs \<le> div_ceil remaining_secs 5 * 5"
    by (simp add: div_ceil_def) presburger
  then show ?thesis
    using assms
    by (auto simp: extend_to_for_remaining_def EXTEND_TTL_LEDGERS_def MAX_TTL_LEDGERS_def MIN_TTL_LEDGERS_def
        SECONDS_PER_LEDGER_def sat_u32_def int_bounds Let_def min_def max_def)
qed

theorem extend_to_covers_remaining_witness:
  "EXTEND_TTL_LEDGERS \<le> extend_to_for_remaining 31536000 \<and> extend_to_for_remaining 31536000 \<le> MAX_TTL_LEDGERS"
  using extend_to_covers_remaining [of 31536000] by simp

end
