(* ===== verification/Batch.thy ===== *)
theory Batch
  imports Common_Ttl
begin

text \<open>
  \<^verbatim>\<open>contracts/batch-processor/src/lib.rs\<close>: the batch transfer processor.  One
  transfer pulls the total of a batch from the funder, one transfer per entry pays
  it out.

  The state holds the admin, the lock (temporary storage, so the lock is the
  presence of a key), the code hash, the token ledgers, the published events and
  the TTL calls.
\<close>

definition MAX_BATCH_SIZE :: int where "MAX_BATCH_SIZE = 30"
definition VERSION :: int where "VERSION = 3"

datatype batch_error =
    LengthMismatch | BatchTooLarge | InvalidAmount | ArithmeticOverflow | InvalidToken | NotAuthorized
  | InvalidWasmHash | AlreadyInitialized | NotInitialized | ReentrancyForbidden | InvalidBatchLimit

record batch_result =
  br_item_index :: int
  br_success :: bool
  br_error_code :: "int option"

record partial_batch_result =
  pb_results :: "batch_result list"
  pb_requested_count :: int
  pb_processed_count :: int
  pb_remaining_count :: int
  pb_transferred_total :: int

datatype batch_event =
    EvBatchInit address
  | EvBatchUpgraded address int
  | EvBatchTransferred address address int int

record 'w processor =
  bp_admin :: "address option"
  bp_lock :: "bool option"
  bp_code :: wasm_hash
  bp_world :: 'w
  bp_events :: "batch_event list"
  bp_ttl :: "unit ttl_call list"

section \<open>Validation\<close>

fun sum_amounts :: "int \<Rightarrow> int list \<Rightarrow> (batch_error, int) res" where
  "sum_amounts acc [] = Inr acc"
| "sum_amounts acc (amount # rest) =
     (if amount \<le> 0 then Inl (Err InvalidAmount) else
      and_then (ok_or (checked_i128 (acc + amount)) (Err ArithmeticOverflow)) (\<lambda>t. sum_amounts t rest))"

definition validate_total :: "address list \<Rightarrow> int list \<Rightarrow> (batch_error, int) res" where
  "validate_total recipients amounts =
     (if length recipients \<noteq> length amounts then Inl (Err LengthMismatch) else
      if MAX_BATCH_SIZE < int (length amounts) then Inl (Err BatchTooLarge) else
      sum_amounts 0 amounts)"

text \<open>Addresses are in strkey form: 56 characters, the first tells an account from a contract.\<close>

definition is_stellar_account :: "address \<Rightarrow> bool" where
  "is_stellar_account a = (if length a \<noteq> 56 then False else hd a = CHR ''G'')"

definition validate_token :: "'w env \<Rightarrow> 'w \<Rightarrow> address \<Rightarrow> (batch_error, unit) res" where
  "validate_token e w tok =
     (if is_zero_address tok then Inl (Err InvalidToken) else
      if is_stellar_account tok then Inl (Err InvalidToken) else
      (case tok_balance (tokens e) w tok (contract_address e) of
         Some _ \<Rightarrow> Inr ()
       | None \<Rightarrow> Inl (Err InvalidToken)))"

section \<open>Entry points\<close>

definition batch_initialize :: "address \<Rightarrow> 'w processor \<Rightarrow> (batch_error, 'w processor) res" where
  "batch_initialize admin s =
     (if bp_admin s \<noteq> None then Inl (Err AlreadyInitialized) else
      Inr (s\<lparr>bp_ttl := bump_instance (bp_ttl s), bp_admin := Some admin,
             bp_events := bp_events s @ [EvBatchInit admin]\<rparr>))"

definition acquire_lock :: "'w processor \<Rightarrow> (batch_error, 'w processor) res" where
  "acquire_lock s = (if bp_lock s \<noteq> None then Inl (Err ReentrancyForbidden) else Inr (s\<lparr>bp_lock := Some True\<rparr>))"

definition release_lock :: "'w processor \<Rightarrow> 'w processor" where
  "release_lock s = s\<lparr>bp_lock := None\<rparr>"

definition batch_transfer ::
  "'w env \<Rightarrow> address \<Rightarrow> address \<Rightarrow> address \<Rightarrow> int \<Rightarrow> 'w processor \<Rightarrow> (batch_error, 'w processor) res" where
  "batch_transfer e tok src dst amt s =
     and_then (transfer_call e (bp_world s) tok src dst amt) (\<lambda>w. Inr (s\<lparr>bp_world := w\<rparr>))"

text \<open>The payout loop over \<^verbatim>\<open>recipients.iter().zip(amounts.iter())\<close>.\<close>

fun fan_out ::
  "'w env \<Rightarrow> address \<Rightarrow> (address \<times> int) list \<Rightarrow> 'w processor \<Rightarrow> (batch_error, 'w processor) res" where
  "fan_out e tok [] s = Inr s"
| "fan_out e tok ((recipient, amount) # rest) s =
     and_then (batch_transfer e tok (contract_address e) recipient amount s) (\<lambda>s1. fan_out e tok rest s1)"

definition process_batch ::
  "'w env \<Rightarrow> address \<Rightarrow> address \<Rightarrow> address list \<Rightarrow> int list \<Rightarrow> 'w processor \<Rightarrow>
   (batch_error, int \<times> 'w processor) res" where
  "process_batch e funder tok recipients amounts s =
     and_then (validate_total recipients amounts) (\<lambda>total.
     and_then (validate_token e (bp_world s) tok) (\<lambda>_.
     if total = 0 then Inr (0, s) else
     let s1 = s\<lparr>bp_ttl := bump_instance (bp_ttl s)\<rparr> in
     and_then (acquire_lock s1) (\<lambda>s2.
     and_then (require_auth e funder) (\<lambda>_.
     and_then (batch_transfer e tok funder (contract_address e) total s2) (\<lambda>s3.
     and_then (fan_out e tok (zip recipients amounts) s3) (\<lambda>s4.
     let s5 = release_lock s4 in
     Inr (total, s5\<lparr>bp_events := bp_events s5 @ [EvBatchTransferred funder tok (int (length recipients)) total]\<rparr>)))))))"

text \<open>The loop of \<^verbatim>\<open>process_batch_detailed\<close> also collects a status per entry.\<close>

fun fan_out_detailed ::
  "'w env \<Rightarrow> address \<Rightarrow> int \<Rightarrow> (address \<times> int) list \<Rightarrow> batch_result list \<Rightarrow> 'w processor \<Rightarrow>
   (batch_error, batch_result list \<times> 'w processor) res" where
  "fan_out_detailed e tok idx [] results s = Inr (results, s)"
| "fan_out_detailed e tok idx ((recipient, amount) # rest) results s =
     and_then (batch_transfer e tok (contract_address e) recipient amount s) (\<lambda>s1.
     fan_out_detailed e tok (idx + 1) rest
       (results @ [\<lparr>br_item_index = idx, br_success = True, br_error_code = None\<rparr>]) s1)"

definition process_batch_detailed ::
  "'w env \<Rightarrow> address \<Rightarrow> address \<Rightarrow> address list \<Rightarrow> int list \<Rightarrow> 'w processor \<Rightarrow>
   (batch_error, batch_result list \<times> 'w processor) res" where
  "process_batch_detailed e funder tok recipients amounts s =
     and_then (validate_total recipients amounts) (\<lambda>total.
     and_then (validate_token e (bp_world s) tok) (\<lambda>_.
     if total = 0 then Inr ([], s) else
     let s1 = s\<lparr>bp_ttl := bump_instance (bp_ttl s)\<rparr> in
     and_then (acquire_lock s1) (\<lambda>s2.
     and_then (require_auth e funder) (\<lambda>_.
     and_then (batch_transfer e tok funder (contract_address e) total s2) (\<lambda>s3.
     and_then (fan_out_detailed e tok 0 (zip recipients amounts) [] s3) (\<lambda>(results, s4).
     let s5 = release_lock s4 in
     Inr (results, s5\<lparr>bp_events := bp_events s5 @ [EvBatchTransferred funder tok (int (length recipients)) total]\<rparr>)))))))"

definition execute_batch ::
  "'w env \<Rightarrow> address \<Rightarrow> address \<Rightarrow> address list \<Rightarrow> int list \<Rightarrow> 'w processor \<Rightarrow>
   (batch_error, batch_result list \<times> 'w processor) res" where
  "execute_batch e funder tok recipients amounts s = process_batch_detailed e funder tok recipients amounts s"

text \<open>\<^verbatim>\<open>Vec::get\<close>: an index out of range gives nothing.\<close>

definition vec_get :: "'a list \<Rightarrow> nat \<Rightarrow> 'a option" where
  "vec_get xs i = (if i < length xs then Some (xs ! i) else None)"

text \<open>The two loops of \<^verbatim>\<open>process_batch_with_limit\<close>, over the indices \<^verbatim>\<open>0..processed_count\<close>.\<close>

fun limit_total :: "int list \<Rightarrow> nat list \<Rightarrow> int \<Rightarrow> (batch_error, int) res" where
  "limit_total amounts [] acc = Inr acc"
| "limit_total amounts (index # rest) acc =
     and_then (ok_or (vec_get amounts index) (Err LengthMismatch)) (\<lambda>amount.
     if amount \<le> 0 then Inl (Err InvalidAmount) else
     and_then (ok_or (checked_i128 (acc + amount)) (Err ArithmeticOverflow)) (\<lambda>t. limit_total amounts rest t))"

fun limit_fan_out ::
  "'w env \<Rightarrow> address \<Rightarrow> address list \<Rightarrow> int list \<Rightarrow> nat list \<Rightarrow> batch_result list \<Rightarrow> 'w processor \<Rightarrow>
   (batch_error, batch_result list \<times> 'w processor) res" where
  "limit_fan_out e tok recipients amounts [] results s = Inr (results, s)"
| "limit_fan_out e tok recipients amounts (index # rest) results s =
     and_then (ok_or (vec_get recipients index) (Err LengthMismatch)) (\<lambda>recipient.
     and_then (ok_or (vec_get amounts index) (Err LengthMismatch)) (\<lambda>amount.
     and_then (batch_transfer e tok (contract_address e) recipient amount s) (\<lambda>s1.
     limit_fan_out e tok recipients amounts rest
       (results @ [\<lparr>br_item_index = int index, br_success = True, br_error_code = None\<rparr>]) s1)))"

definition process_batch_with_limit ::
  "'w env \<Rightarrow> address \<Rightarrow> address \<Rightarrow> address list \<Rightarrow> int list \<Rightarrow> int \<Rightarrow> 'w processor \<Rightarrow>
   (batch_error, partial_batch_result \<times> 'w processor) res" where
  "process_batch_with_limit e funder tok recipients amounts max_items s =
     (if length recipients \<noteq> length amounts then Inl (Err LengthMismatch) else
      if max_items = 0 \<or> MAX_BATCH_SIZE < max_items then Inl (Err InvalidBatchLimit) else
      let requested_count = int (length recipients);
          processed_count = min requested_count max_items;
          remaining_count = requested_count - processed_count;
          indices = [0 ..< nat processed_count] in
      and_then (limit_total amounts indices 0) (\<lambda>total.
      and_then (validate_token e (bp_world s) tok) (\<lambda>_.
      if processed_count = 0
      then Inr (\<lparr>pb_results = [], pb_requested_count = requested_count, pb_processed_count = processed_count,
                 pb_remaining_count = remaining_count, pb_transferred_total = 0\<rparr>, s) else
      let s1 = s\<lparr>bp_ttl := bump_instance (bp_ttl s)\<rparr> in
      and_then (acquire_lock s1) (\<lambda>s2.
      and_then (require_auth e funder) (\<lambda>_.
      and_then (batch_transfer e tok funder (contract_address e) total s2) (\<lambda>s3.
      and_then (limit_fan_out e tok recipients amounts indices [] s3) (\<lambda>(results, s4).
      let s5 = release_lock s4 in
      Inr (\<lparr>pb_results = results, pb_requested_count = requested_count, pb_processed_count = processed_count,
            pb_remaining_count = remaining_count, pb_transferred_total = total\<rparr>,
           s5\<lparr>bp_events := bp_events s5 @ [EvBatchTransferred funder tok processed_count total]\<rparr>))))))))"

definition preview_batch :: "address list \<Rightarrow> int list \<Rightarrow> (batch_error, int) res" where
  "preview_batch recipients amounts = validate_total recipients amounts"

definition max_batch_size :: int where "max_batch_size = MAX_BATCH_SIZE"
definition version :: int where "version = VERSION"

definition upgrade ::
  "'w env \<Rightarrow> address \<Rightarrow> wasm_hash \<Rightarrow> 'w processor \<Rightarrow> (batch_error, 'w processor) res" where
  "upgrade e caller new_wasm_hash s =
     and_then (ok_or (bp_admin s) (Err NotInitialized)) (\<lambda>admin.
     if caller \<noteq> admin then Inl (Err NotAuthorized) else
     and_then (require_auth e caller) (\<lambda>_.
     if new_wasm_hash = replicate 32 0 then Inl (Err InvalidWasmHash) else
     let s1 = s\<lparr>bp_ttl := bump_instance (bp_ttl s), bp_code := new_wasm_hash\<rparr> in
     Inr (s1\<lparr>bp_events := bp_events s1 @ [EvBatchUpgraded caller (timestamp e)]\<rparr>)))"

section \<open>What validation accepts\<close>

lemma sum_amounts_eq_Inr:
  "0 \<le> acc \<Longrightarrow> sum_amounts acc xs = Inr t \<longleftrightarrow> (\<forall>x\<in>set xs. 0 < x) \<and> (xs = [] \<or> acc + sum_list xs \<le> i128_max) \<and> t = acc + sum_list xs"
proof (induction xs arbitrary: acc)
  case (Cons x xs)
  have nn: "0 \<le> sum_list xs" if "\<forall>y\<in>set xs. 0 < y" using that by (intro sum_list_nonneg) auto
  show ?case
  proof (cases "0 < x \<and> in_i128 (acc + x)")
    case True
    then have "sum_amounts acc (x # xs) = sum_amounts (acc + x) xs" by (simp add: checked_i128_def)
    moreover have "acc + x \<le> i128_max" using True by (simp add: in_i128_def)
    ultimately show ?thesis
      using Cons.IH [of "acc + x"] Cons.prems True by (auto simp: add.assoc)
  next
    case False
    then have "\<nexists>t. sum_amounts acc (x # xs) = Inr t" by (auto simp: checked_i128_def)
    moreover have "\<not> (0 < x \<and> acc + x + sum_list xs \<le> i128_max)" if "\<forall>y\<in>set xs. 0 < y"
      using False Cons.prems nn [OF that] by (auto simp: in_i128_def int_bounds)
    ultimately show ?thesis by (auto simp: add.assoc)
  qed
qed auto

lemma positive_sum_zero:
  fixes xs :: "int list"
  assumes "\<forall>x\<in>set xs. 0 < x"
  shows "sum_list xs = 0 \<longleftrightarrow> xs = []"
proof (cases xs)
  case (Cons x ys)
  then have "0 < x" and "0 \<le> sum_list ys" using assms by (auto intro!: sum_list_nonneg simp: less_imp_le)
  then show ?thesis using Cons by simp
qed simp

lemma sum_amounts_errors:
  "sum_amounts acc xs = Inl f \<Longrightarrow> f = Err InvalidAmount \<or> f = Err ArithmeticOverflow"
  by (induction xs arbitrary: acc) (auto simp: and_then_eq_Inl ok_or_eq_Inl split: if_splits)

lemma validate_total_eq_Inr:
  "validate_total rs xs = Inr t \<longleftrightarrow> length rs = length xs \<and> length xs \<le> 30 \<and> (\<forall>x\<in>set xs. 0 < x) \<and>
     sum_list xs \<le> i128_max \<and> t = sum_list xs"
  by (auto simp: validate_total_def sum_amounts_eq_Inr MAX_BATCH_SIZE_def int_bounds)

lemma validate_total_Nil [simp]: "validate_total [] [] = Inr 0"
  by (simp add: validate_total_def MAX_BATCH_SIZE_def)

text \<open>
  The preview accepts exactly the well-formed batches: as many amounts as
  recipients, at most 30 entries, every amount positive and the sum within
  \<^verbatim>\<open>i128\<close>; the previewed total is the exact sum, and the paying call fails with
  the same error whenever the preview does.
\<close>

theorem preview_batch_exact:
  "(preview_batch recipients amounts = Inr t \<longleftrightarrow>
      length recipients = length amounts \<and> length amounts \<le> 30 \<and> list_all ((<) 0) amounts \<and>
      sum_list amounts \<le> i128_max \<and> t = sum_list amounts) \<and>
   process_batch e funder tok recipients amounts s =
     and_then (preview_batch recipients amounts) (\<lambda>_. process_batch e funder tok recipients amounts s)"
  unfolding preview_batch_def validate_total_eq_Inr list_all_iff
  by (cases "validate_total recipients amounts") (simp_all add: process_batch_def)

section \<open>Payout\<close>

text \<open>What the entries of a batch pay to one holder.\<close>

fun received :: "(address \<times> int) list \<Rightarrow> address \<Rightarrow> int" where
  "received [] h = 0"
| "received ((r, a) # rest) h = (if h = r then a else 0) + received rest h"

lemma batch_transfer_eq_Inr [res_simps]:
  "batch_transfer e tok src dst amt s = Inr s' \<longleftrightarrow>
     (\<exists>w. tok_transfer (tokens e) (bp_world s) tok src dst amt = Some w \<and> s' = s\<lparr>bp_world := w\<rparr>)"
  by (auto simp: batch_transfer_def res_simps)

lemma fan_out_effect:
  assumes "sep41 e" and "fan_out e tok ps s = Inr s'"
  shows "\<exists>w. s' = s\<lparr>bp_world := w\<rparr> \<and> bal_of e w = (\<lambda>t h. bal_of e (bp_world s) t h +
     (if t = tok then received ps h - (if h = contract_address e then sum_list (map snd ps) else 0) else 0))"
  using assms(2)
proof (induction ps arbitrary: s)
  case Nil
  then show ?case by (intro exI [of _ "bp_world s"]) (auto simp: fun_eq_iff)
next
  case (Cons p ps)
  obtain r a where p: "p = (r, a)" by (cases p)
  obtain w1 where t: "tok_transfer (tokens e) (bp_world s) tok (contract_address e) r a = Some w1"
    and f: "fan_out e tok ps (s\<lparr>bp_world := w1\<rparr>) = Inr s'"
    using Cons.prems p by (auto simp: res_simps)
  from Cons.IH [OF f] obtain w where "s' = s\<lparr>bp_world := w\<rparr>"
    and "bal_of e w = (\<lambda>t h. bal_of e w1 t h +
     (if t = tok then received ps h - (if h = contract_address e then sum_list (map snd ps) else 0) else 0))"
    by auto
  then show ?case
    using sep41_transfer(3) [OF assms(1) t] p by (intro exI [of _ w]) (auto simp: fun_eq_iff moved_def)
qed

text \<open>What a committed batch leaves behind.\<close>

definition batch_paid ::
  "'w env \<Rightarrow> address \<Rightarrow> address \<Rightarrow> address list \<Rightarrow> int list \<Rightarrow> 'w processor \<Rightarrow> 'w processor \<Rightarrow> bool" where
  "batch_paid e funder tok recipients amounts s s' \<longleftrightarrow>
     (\<forall>t h. bal_of e (bp_world s') t h = bal_of e (bp_world s) t h +
        (if t = tok then received (zip recipients amounts) h - (if h = funder then sum_list amounts else 0) else 0)) \<and>
     bp_lock s' = bp_lock s \<and> bp_admin s' = bp_admin s \<and> bp_code s' = bp_code s"

lemma process_batch_success:
  assumes "sep41 e" and "process_batch e funder tok rs xs s = Inr (v, s')"
  shows "v = sum_list xs" and "batch_paid e funder tok rs xs s s'" and "v \<noteq> 0 \<longrightarrow> authorized e funder"
proof -
  have val: "validate_total rs xs = Inr v" and body: "v = 0 \<and> s' = s \<or> v \<noteq> 0 \<and> authorized e funder \<and> bp_lock s = None \<and>
      (\<exists>w s4. tok_transfer (tokens e) (bp_world s) tok funder (contract_address e) v = Some w \<and>
         fan_out e tok (zip rs xs) (s\<lparr>bp_ttl := bump_instance (bp_ttl s), bp_lock := Some True, bp_world := w\<rparr>) = Inr s4 \<and>
         s' = (release_lock s4)\<lparr>bp_events := bp_events s4 @ [EvBatchTransferred funder tok (int (length rs)) v]\<rparr>)"
    using assms(2) by (auto simp: process_batch_def acquire_lock_def res_simps Let_def release_lock_def split: if_splits)
  have v: "length rs = length xs" "\<forall>x\<in>set xs. 0 < x" "v = sum_list xs" using val by (simp_all add: validate_total_eq_Inr)
  then show "v = sum_list xs" by simp
  show "v \<noteq> 0 \<longrightarrow> authorized e funder" using body by auto
  show "batch_paid e funder tok rs xs s s'"
  proof (cases "v = 0")
    case True
    then have "xs = []" using v(2,3) positive_sum_zero by simp
    then show ?thesis using body True by (simp add: batch_paid_def)
  next
    case False
    then obtain w s4 where t: "tok_transfer (tokens e) (bp_world s) tok funder (contract_address e) v = Some w"
      and f: "fan_out e tok (zip rs xs) (s\<lparr>bp_ttl := bump_instance (bp_ttl s), bp_lock := Some True, bp_world := w\<rparr>) = Inr s4"
      and s': "s' = (release_lock s4)\<lparr>bp_events := bp_events s4 @ [EvBatchTransferred funder tok (int (length rs)) v]\<rparr>"
      and lk: "bp_lock s = None"
      using body by auto
    have "map snd (zip rs xs) = xs" using v(1) by simp
    then show ?thesis
      using fan_out_effect [OF assms(1) f] sep41_transfer(3) [OF assms(1) t] s' lk v(3)
      by (auto simp: batch_paid_def release_lock_def moved_def)
  qed
qed

text \<open>
  C30.  A committed batch pays everybody exactly what its entries say: each holder
  gains the sum of the amounts listed for it (duplicates add up), the funder loses
  the total, no other balance changes (in particular nothing stays in the
  processor), the result is the exact sum, and the lock is free again.  The funder
  authorized it, unless the batch is empty.
\<close>

theorem process_batch_pays_all:
  assumes "sep41 e" and "process_batch e funder tok recipients amounts s = Inr (v, s')"
  shows "v = sum_list amounts \<and> batch_paid e funder tok recipients amounts s s' \<and> (v \<noteq> 0 \<longrightarrow> authorized e funder)"
  using process_batch_success [OF assms] by blast

section \<open>The variants agree\<close>

definition item_ok :: "nat \<Rightarrow> batch_result" where
  "item_ok i = \<lparr>br_item_index = int i, br_success = True, br_error_code = None\<rparr>"

lemma upt_step: "k < n \<Longrightarrow> [k ..< n] = k # [Suc k ..< n]"
  by (rule upt_conv_Cons)

lemma fan_out_detailed_eq:
  "fan_out_detailed e tok (int i) ps results s =
     and_then (fan_out e tok ps s) (\<lambda>s'. Inr (results @ map item_ok [i ..< i + length ps], s'))"
proof (induction ps arbitrary: i results s)
  case (Cons p ps)
  obtain r a where p: "p = (r, a)" by (cases p)
  have "[i ..< i + length (p # ps)] = i # [Suc i ..< Suc i + length ps]"
    using upt_step [of i "i + length (p # ps)"] by (simp del: upt_Suc)
  then show ?case
    using Cons.IH [of "Suc i"] p
    by (cases "batch_transfer e tok (contract_address e) r a s") (simp_all add: item_ok_def algebra_simps)
qed simp

lemma drop_step: "k < n \<Longrightarrow> n \<le> length xs \<Longrightarrow> take (n - k) (drop k xs) = xs ! k # take (n - Suc k) (drop (Suc k) xs)"
  by (simp add: Cons_nth_drop_Suc [symmetric] Suc_diff_Suc [symmetric])

lemma limit_total_eq:
  "n \<le> length xs \<Longrightarrow> k \<le> n \<Longrightarrow> limit_total xs [k ..< n] acc = sum_amounts acc (take (n - k) (drop k xs))"
proof (induction "n - k" arbitrary: k acc)
  case (Suc d)
  then have k: "k < n" by simp
  have "limit_total xs [Suc k ..< n] = (\<lambda>t. sum_amounts t (take (n - Suc k) (drop (Suc k) xs)))"
    using Suc.hyps(1) [of "Suc k"] Suc.hyps(2) Suc.prems k by (intro ext) simp
  then show ?case
    using k Suc.prems(1) by (simp add: upt_step drop_step vec_get_def)
qed simp

lemma limit_fan_out_eq:
  "n \<le> length rs \<Longrightarrow> n \<le> length xs \<Longrightarrow> k \<le> n \<Longrightarrow>
   limit_fan_out e tok rs xs [k ..< n] results s =
     and_then (fan_out e tok (zip (take (n - k) (drop k rs)) (take (n - k) (drop k xs))) s)
       (\<lambda>s'. Inr (results @ map item_ok [k ..< n], s'))"
proof (induction "n - k" arbitrary: k results s)
  case (Suc d)
  then have "k < n" by simp
  then show ?case
    using Suc.prems Suc.hyps(1) [of "Suc k"] Suc.hyps(2)
    by (cases "batch_transfer e tok (contract_address e) (rs ! k) (xs ! k) s")
      (simp_all add: upt_step drop_step vec_get_def item_ok_def [symmetric])
qed simp

lemma total_zero_iff: "sum_amounts 0 xs = Inr v \<Longrightarrow> v = 0 \<longleftrightarrow> xs = []"
  by (auto simp: sum_amounts_eq_Inr positive_sum_zero)

lemma process_batch_detailed_eq:
  "process_batch_detailed e funder tok rs xs s =
     and_then (process_batch e funder tok rs xs s) (\<lambda>(v, s'). Inr (map item_ok [0 ..< length rs], s'))"
proof (cases "validate_total rs xs")
  case (Inl f)
  then show ?thesis by (simp add: process_batch_detailed_def process_batch_def)
next
  case (Inr v)
  then have len: "length rs = length xs" and z: "v = 0 \<longleftrightarrow> xs = []"
    by (auto simp: validate_total_eq_Inr positive_sum_zero)
  show ?thesis
    using fan_out_detailed_eq [of e tok 0 "zip rs xs" "[]"] len z
    unfolding process_batch_detailed_def process_batch_def Inr and_then_Inr and_then_assoc
    by (cases "v = 0") (simp_all add: and_then_assoc Let_def)
qed

text \<open>
  The three batch entry points agree: \<^verbatim>\<open>process_batch_detailed\<close> does what
  \<^verbatim>\<open>process_batch\<close> does and reports one success per entry, and
  \<^verbatim>\<open>process_batch_with_limit\<close> with a limit between 1 and 30 does exactly what
  \<^verbatim>\<open>process_batch\<close> does on the first \<open>max_items\<close> entries, errors included, and
  accounts for the rest as remaining.
\<close>

theorem batch_variants_agree:
  assumes "length recipients = length amounts" and "0 < max_items" and "max_items \<le> 30"
  defines "n \<equiv> min (length recipients) (nat max_items)"
  shows "process_batch_detailed e funder tok recipients amounts s =
      and_then (process_batch e funder tok recipients amounts s)
        (\<lambda>(v, s'). Inr (map item_ok [0 ..< length recipients], s')) \<and>
    process_batch_with_limit e funder tok recipients amounts max_items s =
      and_then (process_batch e funder tok (take n recipients) (take n amounts) s)
        (\<lambda>(v, s'). Inr (\<lparr>pb_results = map item_ok [0 ..< n], pb_requested_count = int (length recipients),
           pb_processed_count = int n, pb_remaining_count = int (length recipients) - int n,
           pb_transferred_total = v\<rparr>, s'))"
proof -
  have n: "n \<le> length recipients" "n \<le> length amounts" "n \<le> 30" "nat (min (int (length recipients)) max_items) = n"
    "min (int (length recipients)) max_items = int n"
    using assms(1-3) by (auto simp: n_def)
  have guards: "\<not> (max_items = 0 \<or> MAX_BATCH_SIZE < max_items)"
    using assms(2,3) by (simp add: MAX_BATCH_SIZE_def)
  have val: "validate_total (take n recipients) (take n amounts) = sum_amounts 0 (take n amounts)"
    using n by (simp add: validate_total_def MAX_BATCH_SIZE_def)
  have tot: "limit_total amounts [0 ..< n] 0 = sum_amounts 0 (take n amounts)"
    using limit_total_eq [of n amounts 0 0] n by simp
  have out: "limit_fan_out e tok recipients amounts [0 ..< n] [] s' =
      and_then (fan_out e tok (zip (take n recipients) (take n amounts)) s') (\<lambda>s'. Inr (map item_ok [0 ..< n], s'))" for s'
    using limit_fan_out_eq [of n recipients amounts 0 e tok "[]" s'] n by simp
  have "process_batch_with_limit e funder tok recipients amounts max_items s =
      and_then (process_batch e funder tok (take n recipients) (take n amounts) s)
        (\<lambda>(v, s'). Inr (\<lparr>pb_results = map item_ok [0 ..< n], pb_requested_count = int (length recipients),
           pb_processed_count = int n, pb_remaining_count = int (length recipients) - int n,
           pb_transferred_total = v\<rparr>, s'))"
  proof (cases "sum_amounts 0 (take n amounts)")
    case (Inl f)
    then show ?thesis
      using assms(1) [symmetric] guards by (simp add: process_batch_with_limit_def process_batch_def val tot n Let_def)
  next
    case (Inr v)
    have z: "v = 0 \<longleftrightarrow> n = 0"
      using total_zero_iff [OF Inr] n(1,2) by (cases "n = 0") auto
    have len: "length (take n recipients) = n" using n(1) by simp
    show ?thesis
      using assms(1) [symmetric] guards z
      by (cases "n = 0") (simp_all add: process_batch_with_limit_def process_batch_def val tot out Inr n len Let_def and_then_assoc)
  qed
  then show ?thesis using process_batch_detailed_eq by blast
qed

text \<open>A concrete batch: two entries for the same recipient and one for another.\<close>

definition batch_ledger :: ledger where
  "batch_ledger = (\<lambda>t h. if h = ''fay'' then 1000 else 0)"

definition batch_env :: "ledger env" where
  "batch_env = \<lparr>timestamp = 5, sequence = 1, contract_address = ''P'', authorized = (\<lambda>a. a = ''fay''), tokens = ledger_token\<rparr>"

definition batch_start :: "ledger processor" where
  "batch_start = \<lparr>bp_admin = None, bp_lock = None, bp_code = [], bp_world = batch_ledger, bp_events = [], bp_ttl = []\<rparr>"

lemmas batch_eval =
  process_batch_def validate_total_def validate_token_def is_zero_address_def is_stellar_account_def zero_account_def
  zero_contract_def acquire_lock_def release_lock_def batch_transfer_def transfer_call_def require_auth_def ledger_balance_def
  ledger_transfer_def ledger_read_def moved_def checked_i128_def in_i128_def int_bounds MAX_BATCH_SIZE_def Let_def
  batch_env_def batch_start_def batch_ledger_def

lemma batch_env_sep41: "sep41 batch_env"
  by (rule ledger_token_sep41) (simp add: batch_env_def)

lemma batch_runs: "\<exists>s'. process_batch batch_env ''fay'' ''T'' [''bob'', ''kim'', ''bob''] [10, 5, 20] batch_start = Inr (35, s')"
  by (simp add: batch_eval)

theorem process_batch_pays_all_witness:
  "\<exists>s'. process_batch batch_env ''fay'' ''T'' [''bob'', ''kim'', ''bob''] [10, 5, 20] batch_start = Inr (35, s') \<and>
     bal_of batch_env (bp_world s') ''T'' ''bob'' = 30 \<and> bal_of batch_env (bp_world s') ''T'' ''fay'' = 965 \<and>
     bal_of batch_env (bp_world s') ''T'' ''P'' = 0"
proof -
  obtain s' where s': "process_batch batch_env ''fay'' ''T'' [''bob'', ''kim'', ''bob''] [10, 5, 20] batch_start = Inr (35, s')"
    using batch_runs by blast
  have l: "bal_of batch_env (bp_world batch_start) = batch_ledger"
    by (intro ext) (simp add: batch_env_def batch_start_def batch_ledger_def ledger_read_def int_bounds)
  have "batch_paid batch_env ''fay'' ''T'' [''bob'', ''kim'', ''bob''] [10, 5, 20] batch_start s'"
    using process_batch_pays_all [OF batch_env_sep41 s'] by blast
  then show ?thesis using s' by (simp add: batch_paid_def l) (simp add: batch_ledger_def)
qed

theorem batch_variants_agree_witness:
  "\<exists>s'. process_batch_with_limit batch_env ''fay'' ''T'' [''bob'', ''kim'', ''bob''] [10, 5, 20] 2 batch_start =
     Inr (\<lparr>pb_results = map item_ok [0, 1], pb_requested_count = 3, pb_processed_count = 2, pb_remaining_count = 1,
           pb_transferred_total = 15\<rparr>, s')"
proof -
  have "\<exists>s'. process_batch batch_env ''fay'' ''T'' [''bob'', ''kim''] [10, 5] batch_start = Inr (15, s')"
    by (simp add: batch_eval)
  then show ?thesis
    using batch_variants_agree [of "[''bob'', ''kim'', ''bob'']" "[10, 5, 20]" 2 batch_env "''fay''" "''T''" batch_start]
    by (auto simp: upt_rec numeral_2_eq_2)
qed

section \<open>The lock\<close>

definition lock_depth :: "'w processor \<Rightarrow> int" where
  "lock_depth s = (if bp_lock s = None then 0 else 1)"

interpretation batch_lock: reentrancy_guard lock_depth acquire_lock release_lock 1
proof (unfold_locales, goal_cases)
  case (1 s s1)
  then show ?case by (auto simp: acquire_lock_def lock_depth_def split: if_splits)
next
  case (2 s)
  then show ?case by (auto simp: acquire_lock_def lock_depth_def split: if_splits)
next
  case (3 s)
  then show ?case by (auto simp: release_lock_def lock_depth_def split: if_splits)
qed

text \<open>The paying part of a batch is a guarded section of that lock.\<close>

lemma process_batch_guarded:
  assumes "validate_total rs xs = Inr v" and "validate_token e (bp_world s) tok = Inr ()" and "v \<noteq> 0"
  shows "process_batch e funder tok rs xs s =
     and_then (batch_lock.guarded (\<lambda>s2.
         and_then (require_auth e funder) (\<lambda>_.
         and_then (batch_transfer e tok funder (contract_address e) v s2) (\<lambda>s3.
         and_then (fan_out e tok (zip rs xs) s3) (\<lambda>s4. Inr (v, s4)))))
       (s\<lparr>bp_ttl := bump_instance (bp_ttl s)\<rparr>))
     (\<lambda>(v, s5). Inr (v, s5\<lparr>bp_events := bp_events s5 @ [EvBatchTransferred funder tok (int (length rs)) v]\<rparr>))"
  using assms by (simp add: process_batch_def batch_lock.guarded_def and_then_assoc Let_def)

text \<open>
  While a batch is being paid, no other batch can move tokens: with the lock
  held, every batch entry point either fails or had nothing to pay.
\<close>

theorem locked_batch_refused:
  assumes "bp_lock s \<noteq> None" and "process_batch e funder tok recipients amounts s = Inr (v, s')"
  shows "v = 0 \<and> s' = s \<and> amounts = []"
proof -
  obtain t where val: "validate_total recipients amounts = Inr t" and tok: "validate_token e (bp_world s) tok = Inr ()"
    using assms(2) by (auto simp: process_batch_def and_then_eq_Inr)
  have "t = 0"
  proof (rule ccontr)
    assume "t \<noteq> 0"
    have "1 \<le> lock_depth (s\<lparr>bp_ttl := bump_instance (bp_ttl s)\<rparr>)" using assms(1) by (simp add: lock_depth_def)
    from batch_lock.guarded_refused [OF this] show False
      using assms(2) unfolding process_batch_guarded [OF val tok \<open>t \<noteq> 0\<close>] and_then_eq_Inr is_ok_iff by blast
  qed
  then show ?thesis
    using assms(2) val tok by (auto simp: process_batch_def validate_total_eq_Inr positive_sum_zero)
qed

theorem locked_batch_refused_witness:
  "\<not> (\<exists>s'. process_batch batch_env ''fay'' ''T'' [''bob''] [10] (batch_start\<lparr>bp_lock := Some True\<rparr>) = Inr (10, s'))"
  using locked_batch_refused [of "batch_start\<lparr>bp_lock := Some True\<rparr>" batch_env "''fay''" "''T''" "[''bob'']" "[10]" 10]
  by auto

end
