(* ===== verification/Root_Batch.thy ===== *)
theory Root_Batch
  imports Prelude
begin

text \<open>
  \<^verbatim>\<open>src/batch_transfer_processor.rs\<close> of the root crate: a counter of processed batches in
  instance storage, the slot of which is the state.
\<close>

definition load_state_version :: "int option \<Rightarrow> int" where
  "load_state_version slot = (case slot of Some n \<Rightarrow> n | None \<Rightarrow> 0)"

definition bump_state_version :: "int \<Rightarrow> int option \<Rightarrow> ('e, int option) res" where
  "bump_state_version version slot = and_then (plain_u64 (version + 1)) (\<lambda>n. Inr (Some n))"

definition root_process_batch :: "int option \<Rightarrow> ('e, int option) res" where
  "root_process_batch slot = bump_state_version (load_state_version slot) slot"

fun process_batches :: "nat \<Rightarrow> int option \<Rightarrow> ('e, int option) res" where
  "process_batches 0 slot = Inr slot"
| "process_batches (Suc n) slot = and_then (process_batches n slot) root_process_batch"

text \<open>The counter counts the batches, up to the range of \<^verbatim>\<open>u64\<close>, and the next batch aborts.\<close>

lemma version_counts_batches:
  "process_batches (Suc n) None = (if int (Suc n) \<le> u64_max then Inr (Some (int (Suc n))) else Inl ArithPanic)"
proof (induction n)
  case 0
  then show ?case
    by (simp add: root_process_batch_def bump_state_version_def load_state_version_def plain_u64_def in_u64_def int_bounds)
next
  case (Suc n)
  show ?case
    unfolding process_batches.simps(2) [of "Suc n"] Suc
    by (auto simp: root_process_batch_def bump_state_version_def load_state_version_def plain_u64_def in_u64_def)
qed

end
