(* ===== verification/Factory_Index.thy ===== *)
theory Factory_Index
  imports Common_Ttl
begin

text \<open>
  \<^verbatim>\<open>contracts/factory/src/index.rs\<close> and \<^verbatim>\<open>contracts/factory/src/query.rs\<close>: the
  paged list of stream ids the factory keeps per sender and per recipient, with
  the incremental migration from the earlier one-entry layout, and its reads.

  The five kinds of storage keys of one account's index form one record; the
  Rust functions take the keys as arguments, the model takes the record.  Values
  of \<^verbatim>\<open>u32\<close> are natural numbers, with the saturation and the overflow written out.
\<close>

section \<open>Pagination\<close>

definition MAX_PAGE_SIZE :: nat where "MAX_PAGE_SIZE = 100"
definition PAGE_SIZE :: nat where "PAGE_SIZE = MAX_PAGE_SIZE"
definition MIGRATION_PAGES_PER_APPEND :: nat where "MIGRATION_PAGES_PER_APPEND = 1"
definition MAX_MIGRATION_PAGES :: nat where "MAX_MIGRATION_PAGES = 20"
definition U32_MAX :: nat where "U32_MAX = 4294967295"

definition u32_saturating_add :: "nat \<Rightarrow> nat \<Rightarrow> nat" where
  "u32_saturating_add a b = min U32_MAX (a + b)"

text \<open>\<^verbatim>\<open>paginate\<close>: the loop \<^verbatim>\<open>for i in start..end.min(v.len())\<close> copies the entries in order.\<close>

definition paginate :: "'a list \<Rightarrow> nat \<Rightarrow> nat \<Rightarrow> 'a list" where
  "paginate v offset limit =
     (let effective_limit = min limit MAX_PAGE_SIZE;
          stop = min (offset + effective_limit) (length v)
      in map (\<lambda>i. v ! i) [offset ..< stop])"

section \<open>Storage of one index\<close>

datatype index_key = IxCount | IxLegacy | IxCursor | IxLegacyCount | IxPage nat

record index_slot =
  ix_count :: "nat option"
  ix_legacy :: "int list option"
  ix_cursor :: "nat option"
  ix_legacy_count :: "nat option"
  ix_pages :: "nat \<Rightarrow> int list option"
  ix_ttl :: "index_key ttl_call list"

definition empty_index :: index_slot where
  "empty_index = \<lparr>ix_count = None, ix_legacy = None, ix_cursor = None, ix_legacy_count = None,
     ix_pages = (\<lambda>_. None), ix_ttl = []\<rparr>"

fun ix_present :: "index_slot \<Rightarrow> index_key \<Rightarrow> bool" where
  "ix_present s IxCount = (ix_count s \<noteq> None)"
| "ix_present s IxLegacy = (ix_legacy s \<noteq> None)"
| "ix_present s IxCursor = (ix_cursor s \<noteq> None)"
| "ix_present s IxLegacyCount = (ix_legacy_count s \<noteq> None)"
| "ix_present s (IxPage p) = (ix_pages s p \<noteq> None)"

definition extend_ttl :: "index_key \<Rightarrow> index_slot \<Rightarrow> ('e, index_slot) res" where
  "extend_ttl k s = and_then (bump_persistent (ix_present s) k (ix_ttl s)) (\<lambda>l. Inr (s\<lparr>ix_ttl := l\<rparr>))"

text \<open>The read paths renew an entry only if it is there.\<close>

definition extend_if_present :: "index_key \<Rightarrow> index_slot \<Rightarrow> ('e, index_slot) res" where
  "extend_if_present k s = (if ix_present s k then extend_ttl k s else Inr s)"

definition write_page :: "nat \<Rightarrow> int list \<Rightarrow> index_slot \<Rightarrow> ('e, index_slot) res" where
  "write_page p page s = extend_ttl (IxPage p) (s\<lparr>ix_pages := (ix_pages s)(p := Some page)\<rparr>)"

definition append_base :: "nat \<Rightarrow> ('e, nat) res" where
  "append_base legacy_count =
     (if legacy_count = 0 then Inr 0 else
      let v = ((legacy_count - 1) div PAGE_SIZE + 1) * PAGE_SIZE in
      if v \<le> U32_MAX then Inr v else Inl ArithPanic)"

definition logical_to_physical_offset :: "nat \<Rightarrow> nat option \<Rightarrow> ('e, nat) res" where
  "logical_to_physical_offset logical legacy_count = (case legacy_count of
      Some lc \<Rightarrow>
        (if lc \<le> logical
         then and_then (append_base lc) (\<lambda>b. Inr (u32_saturating_add b (logical - lc)))
         else Inr logical)
    | None \<Rightarrow> Inr logical)"

section \<open>Migration\<close>

text \<open>\<^verbatim>\<open>Vec::get\<close>; the callers unwrap, so a missing entry aborts.\<close>

definition entry_at :: "int list \<Rightarrow> nat \<Rightarrow> ('e, int) res" where
  "entry_at xs i = (if i < length xs then Inr (xs ! i) else Inl CallTrap)"

text \<open>
  The loop that copies \<^verbatim>\<open>entries[i .. end]\<close>.  Its counter stays below a \<^verbatim>\<open>u32\<close>, so the
  saturating increment is an increment.
\<close>

function copy_entries :: "int list \<Rightarrow> nat \<Rightarrow> nat \<Rightarrow> int list \<Rightarrow> ('e, int list) res" where
  "copy_entries entries stop i page =
     (if i < stop
      then and_then (entry_at entries i) (\<lambda>x. copy_entries entries stop (Suc i) (page @ [x]))
      else Inr page)"
  by pat_completeness auto
termination by (relation "measure (\<lambda>(entries, stop, i, page). stop - i)") auto

declare copy_entries.simps [simp del]

text \<open>One round writes one page; the number of rounds is capped.\<close>

function migrate_pages ::
  "int list \<Rightarrow> nat \<Rightarrow> nat \<Rightarrow> nat \<Rightarrow> nat \<Rightarrow> index_slot \<Rightarrow> ('e, nat \<times> index_slot) res" where
  "migrate_pages entries legacy_count capped_pages cursor migrated_pages s =
     (if cursor < legacy_count \<and> migrated_pages < capped_pages then
        (let page_index = cursor div PAGE_SIZE;
             stop = min (u32_saturating_add cursor PAGE_SIZE) legacy_count in
         and_then (copy_entries entries stop cursor []) (\<lambda>page.
         and_then (write_page page_index page s) (\<lambda>s1.
         migrate_pages entries legacy_count capped_pages stop (Suc migrated_pages) s1)))
      else Inr (cursor, s))"
  by pat_completeness auto
termination by (relation "measure (\<lambda>(entries, lc, cap, cursor, m, s). cap - m)") auto

declare migrate_pages.simps [simp del]

definition migrate_legacy_index :: "nat \<Rightarrow> index_slot \<Rightarrow> ('e, nat \<times> index_slot) res" where
  "migrate_legacy_index max_pages s = (case ix_legacy s of
      None \<Rightarrow> Inr (case ix_count s of Some n \<Rightarrow> n | None \<Rightarrow> 0, s)
    | Some entries \<Rightarrow>
        (let legacy_count = (case ix_legacy_count s of Some n \<Rightarrow> n | None \<Rightarrow> length entries);
             total_count = (case ix_count s of Some n \<Rightarrow> n | None \<Rightarrow> legacy_count);
             cursor = (case ix_cursor s of Some n \<Rightarrow> n | None \<Rightarrow> 0) in
         if legacy_count \<le> cursor then Inr (total_count, s\<lparr>ix_legacy := None, ix_cursor := None\<rparr>) else
         let capped_pages = min max_pages MAX_MIGRATION_PAGES in
         if capped_pages = 0 then Inr (total_count, s) else
         and_then (migrate_pages entries legacy_count capped_pages cursor 0 s) (\<lambda>(cursor, s1).
         and_then (extend_ttl IxCount (s1\<lparr>ix_count := Some total_count\<rparr>)) (\<lambda>s2.
         and_then (extend_ttl IxLegacyCount (s2\<lparr>ix_legacy_count := Some legacy_count\<rparr>)) (\<lambda>s3.
         if legacy_count \<le> cursor then Inr (total_count, s3\<lparr>ix_legacy := None, ix_cursor := None\<rparr>) else
         and_then (extend_ttl IxCursor (s3\<lparr>ix_cursor := Some cursor\<rparr>)) (\<lambda>s4.
         and_then (extend_ttl IxLegacy s4) (\<lambda>s5.
         Inr (total_count, s5))))))))"

section \<open>Appending\<close>

text \<open>The bounded walk that keeps full pages alive: three pages, chosen by the ledger sequence.\<close>

fun extend_pages :: "nat \<Rightarrow> nat \<Rightarrow> nat list \<Rightarrow> index_slot \<Rightarrow> ('e, index_slot) res" where
  "extend_pages num_pages start_page [] s = Inr s"
| "extend_pages num_pages start_page (i # rest) s =
     and_then (extend_if_present (IxPage (u32_saturating_add start_page i mod num_pages)) s)
       (\<lambda>s1. extend_pages num_pages start_page rest s1)"

definition extend_page_ttls :: "nat \<Rightarrow> nat \<Rightarrow> index_slot \<Rightarrow> ('e, index_slot) res" where
  "extend_page_ttls seq count s =
     (if count = 0 then Inr s else
      let num_pages = u32_saturating_add ((count - 1) div PAGE_SIZE) 1
      in extend_pages num_pages (seq mod num_pages) [0, 1, 2] s)"

definition append_index_entry :: "nat \<Rightarrow> int \<Rightarrow> index_slot \<Rightarrow> ('e, index_slot) res" where
  "append_index_entry seq stream_id s =
     and_then (migrate_legacy_index MIGRATION_PAGES_PER_APPEND s) (\<lambda>(count, s1).
     and_then (logical_to_physical_offset count (ix_legacy_count s1)) (\<lambda>physical_offset.
     let page_index = physical_offset div PAGE_SIZE;
         page = (case ix_pages s1 page_index of Some xs \<Rightarrow> xs | None \<Rightarrow> []) in
     and_then (write_page page_index (page @ [stream_id]) s1) (\<lambda>s2.
     let new_count = u32_saturating_add count 1 in
     and_then (extend_ttl IxCount (s2\<lparr>ix_count := Some new_count\<rparr>)) (\<lambda>s3.
     extend_page_ttls seq new_count s3))))"

section \<open>Reading\<close>

definition collect_page :: "nat \<Rightarrow> index_slot \<Rightarrow> ('e, int list \<times> index_slot) res" where
  "collect_page page_index s =
     and_then (extend_if_present (IxPage page_index) s) (\<lambda>s1.
     Inr (case ix_pages s1 page_index of Some xs \<Rightarrow> xs | None \<Rightarrow> [], s1))"

text \<open>
  The read loop over the logical positions: the part of the legacy entry that is
  not migrated yet is read from there, the rest from the pages.
\<close>

function read_loop ::
  "nat option \<Rightarrow> nat option \<Rightarrow> int list option \<Rightarrow> nat \<Rightarrow> nat \<Rightarrow> int list \<Rightarrow> index_slot \<Rightarrow>
   ('e, int list \<times> index_slot) res" where
  "read_loop legacy_count cursor legacy stop logical result s =
     (if logical < stop then
        (case (legacy_count, cursor, legacy) of
           (Some lc, Some cu, Some entries) \<Rightarrow>
             (if logical < lc \<and> cu \<le> logical
              then and_then (entry_at entries logical) (\<lambda>x.
                   read_loop legacy_count cursor legacy stop (Suc logical) (result @ [x]) s)
              else
                and_then (logical_to_physical_offset logical legacy_count) (\<lambda>physical.
                and_then (collect_page (physical div PAGE_SIZE) s) (\<lambda>(page, s1).
                if length page \<le> physical mod PAGE_SIZE then Inr (result, s1)
                else read_loop legacy_count cursor legacy stop (Suc logical)
                       (result @ [page ! (physical mod PAGE_SIZE)]) s1)))
         | _ \<Rightarrow>
             and_then (logical_to_physical_offset logical legacy_count) (\<lambda>physical.
             and_then (collect_page (physical div PAGE_SIZE) s) (\<lambda>(page, s1).
             if length page \<le> physical mod PAGE_SIZE then Inr (result, s1)
             else read_loop legacy_count cursor legacy stop (Suc logical)
                    (result @ [page ! (physical mod PAGE_SIZE)]) s1)))
      else Inr (result, s))"
  by pat_completeness auto
termination by (relation "measure (\<lambda>(lc, cu, le, stop, logical, result, s). stop - logical)") auto

declare read_loop.simps [simp del]

definition read_index :: "nat \<Rightarrow> nat \<Rightarrow> nat \<Rightarrow> index_slot \<Rightarrow> ('e, int list \<times> index_slot) res" where
  "read_index seq offset limit s = (case ix_count s of
      Some count \<Rightarrow>
        and_then (extend_ttl IxCount s) (\<lambda>s1.
        and_then (extend_page_ttls seq count s1) (\<lambda>s2.
        if count \<le> offset then Inr ([], s2) else
        and_then (extend_if_present IxLegacyCount s2) (\<lambda>s3.
        and_then (extend_if_present IxCursor s3) (\<lambda>s4.
        and_then (extend_if_present IxLegacy s4) (\<lambda>s5.
        let effective_limit = min limit PAGE_SIZE;
            stop = min (u32_saturating_add offset effective_limit) count in
        read_loop (ix_legacy_count s5) (ix_cursor s5) (ix_legacy s5) stop offset [] s5)))))
    | None \<Rightarrow>
        (let legacy = (case ix_legacy s of Some xs \<Rightarrow> xs | None \<Rightarrow> []) in
         and_then (extend_if_present IxLegacy s) (\<lambda>s1.
         Inr (paginate legacy offset limit, s1))))"

definition count_index :: "index_slot \<Rightarrow> ('e, nat \<times> index_slot) res" where
  "count_index s = (case ix_count s of
      Some count \<Rightarrow> and_then (extend_ttl IxCount s) (\<lambda>s1. Inr (count, s1))
    | None \<Rightarrow>
        (let legacy = (case ix_legacy s of Some xs \<Rightarrow> xs | None \<Rightarrow> []) in
         and_then (extend_if_present IxLegacy s) (\<lambda>s1. Inr (length legacy, s1))))"

text \<open>What the public migration entry points return: how far the migration has come.\<close>

definition migrate_index :: "nat \<Rightarrow> index_slot \<Rightarrow> ('e, nat \<times> index_slot) res" where
  "migrate_index max_pages s =
     and_then (migrate_legacy_index max_pages s) (\<lambda>(_, s1).
     Inr (case ix_cursor s1 of Some n \<Rightarrow> n | None \<Rightarrow> (case ix_count s1 of Some n \<Rightarrow> n | None \<Rightarrow> 0), s1))"

record stream_page =
  pg_ids :: "int list"
  pg_total :: nat

definition streams_by :: "nat \<Rightarrow> nat \<Rightarrow> nat \<Rightarrow> index_slot \<Rightarrow> ('e, stream_page \<times> index_slot) res" where
  "streams_by seq offset limit s =
     and_then (read_index seq offset limit s) (\<lambda>(ids, s1).
     and_then (count_index s1) (\<lambda>(tot, s2).
     Inr (\<lparr>pg_ids = ids, pg_total = tot\<rparr>, s2)))"

end
