(* ===== verification/Factory.thy ===== *)
theory Factory
  imports Stream_Ops Factory_Index
begin

text \<open>
  \<^verbatim>\<open>DripFactory\<close>: \<^verbatim>\<open>contracts/factory/src/lib.rs\<close> with \<^verbatim>\<open>storage.rs\<close>, \<^verbatim>\<open>errors.rs\<close>,
  \<^verbatim>\<open>events.rs\<close>, \<^verbatim>\<open>governance.rs\<close>, \<^verbatim>\<open>deploy.rs\<close>, \<^verbatim>\<open>pause.rs\<close> and \<^verbatim>\<open>ttl.rs\<close>.

  The state is the record \<open>factory\<close>: a field per storage key (the keys of one
  account's stream index are the record of \<open>Factory_Index\<close>), and beside it the part
  of the chain the factory acts on: the token ledgers and the deployed contracts.
  A deployed contract is its code hash and its storage.  What the chain supplies
  from outside is the record \<open>chain\<close>: the invocation's \<open>env\<close>, the uploaded code per
  hash, the governor's answer to \<^verbatim>\<open>config\<close>, the hash function and the derivation of
  an address from a salt.  The code of this repository's stream contract is
  \<open>drip_stream\<close>; other code may be uploaded and called too.
\<close>

section \<open>Types\<close>

datatype factory_error =
    NotInitialized | InvalidDeposit | InvalidRate | InvalidTimeRange | InsufficientDeposit
  | BackdatedStream | AlreadyInitialized | RateExceedsMax | DurationTooShort | ArithmeticOverflow
  | ContractPaused | AlreadyPaused | NotPaused | DurationExceedsMax | GovernorNotResponding
  | EmptyBatch | BatchTooLarge | InvalidRecipient | CreateLocked | DepositTransferFailed
  | StreamFundingFailed | InvalidWasmHash | InvalidDuration | InvalidToken
  | StartTimeTooFarInFuture | StorageVersionMismatch | InvalidGovernor | SaltAlreadyUsed
  | DuplicateStreamId | DescriptionTooLong | InvalidFactoryConfiguration

datatype stream_operation =
    CreateStream | CancelStream | Withdraw | PauseStream | ResumeStream | SetOperator | RevokeOperator
  | ExtendDuration | TopUp | TopUpAndExtend | Clawback | ForceCancel | TransferRecipient

record fee_estimate =
  fe_fee_stroops :: int
  fe_fee_xlm :: int
  fe_cpu_instructions :: int
  fe_ledger_entries :: int

record batch_stream_request =
  bq_recipient :: address
  bq_token :: address
  bq_deposit :: int
  bq_rate_per_sec :: int
  bq_start_time :: int
  bq_end_time :: int

record stream_init_params =
  sq_sender :: address
  sq_recipient :: address
  sq_token :: address
  sq_deposit :: int
  sq_rate_per_sec :: int
  sq_start_time :: int
  sq_end_time :: int
  sq_clawback :: bool

record factory_status =
  fs_is_paused :: bool
  fs_protocol_fee_bps :: "int option"

record aggregate =
  ag_total_supply :: int
  ag_active_streams :: int

text \<open>\<^verbatim>\<open>GovernorConfig\<close> of \<^verbatim>\<open>contracts/governor/src/config.rs\<close>.\<close>

record governor_config =
  gc_fee_bps :: int
  gc_fee_recipient :: address
  gc_min_duration_seconds :: int
  gc_max_duration_seconds :: int
  gc_max_rate_per_second :: int
  gc_factory_address :: address
  gc_force_cancel_pause_secs :: int
  gc_min_quorum_bps :: int
  gc_voting_period_ledgers :: int
  gc_proposal_stake_token :: "address option"
  gc_min_proposal_stake :: int

datatype factory_event =
    EvFactoryPaused address int
  | EvFactoryUnpaused address int
  | EvFactoryUpgraded address int
  | EvProtocolFee address int
  | EvStreamCreated address address address wasm_hash wasm_hash
  | EvStreamContractUpgraded wasm_hash wasm_hash

text \<open>The persistent keys whose TTL the factory itself renews.\<close>

datatype factory_key =
    FkStreamAddr int | FkIsKnownStream address | FkCancelledStream address | FkTokenStreamCount address

text \<open>The entry points of a stream contract the factory calls.\<close>

record 'w stream_code =
  code_initialize :: "'w env \<Rightarrow> address \<Rightarrow> address \<Rightarrow> address \<Rightarrow> int \<Rightarrow> int \<Rightarrow> int \<Rightarrow> bool \<Rightarrow> int \<Rightarrow> bool \<Rightarrow>
     string option \<Rightarrow> 'w stream \<Rightarrow> (stream_error, 'w stream) res"
  code_cancel :: "'w env \<Rightarrow> address \<Rightarrow> 'w stream \<Rightarrow> (stream_error, unit \<times> 'w stream) res"
  code_info :: "'w stream \<Rightarrow> (stream_error, stream_info) res"

definition drip_stream :: "'w stream_code" where
  "drip_stream = \<lparr>code_initialize = initialize, code_cancel = cancel, code_info = load\<rparr>"

record 'w contract =
  ct_code :: wasm_hash
  ct_state :: "'w stream"

record 'w chain =
  ch_env :: "'w env"
  ch_uploaded :: "wasm_hash \<Rightarrow> 'w stream_code option"
  ch_governor :: "address \<Rightarrow> governor_config option"
  ch_sha256 :: "8 word list \<Rightarrow> wasm_hash"
  ch_address_of :: "wasm_hash \<Rightarrow> address"

record 'w factory =
  fk_StreamCount :: "int option"
  fk_StreamWasmHash :: "wasm_hash option"
  fk_GovernorAddress :: "address option"
  fk_Paused :: pause_slot
  fk_LastBumpedId :: "int option"
  fk_Aggregate :: "aggregate option"
  fk_CreateLock :: "bool option"
  fk_FactoryStorageVersion :: "int option"
  fk_StreamAddr :: "int \<Rightarrow> address option"
  fk_BySender :: "address \<Rightarrow> index_slot"
  fk_ByRecipient :: "address \<Rightarrow> index_slot"
  fk_SaltUsed :: "wasm_hash \<Rightarrow> bool option"
  fk_IsKnownStream :: "address \<Rightarrow> bool option"
  fk_CancelledStream :: "address \<Rightarrow> bool option"
  fk_TokenStreamCount :: "address \<Rightarrow> int option"
  fa_code :: wasm_hash
  fa_world :: 'w
  fa_contracts :: "address \<Rightarrow> 'w contract option"
  fa_events :: "factory_event list"
  fa_ttl :: "factory_key ttl_call list"

definition fresh_factory :: "wasm_hash \<Rightarrow> 'w \<Rightarrow> (address \<Rightarrow> 'w contract option) \<Rightarrow> 'w factory" where
  "fresh_factory code w contracts = \<lparr>
     fk_StreamCount = None, fk_StreamWasmHash = None, fk_GovernorAddress = None, fk_Paused = None,
     fk_LastBumpedId = None, fk_Aggregate = None, fk_CreateLock = None, fk_FactoryStorageVersion = None,
     fk_StreamAddr = (\<lambda>_. None), fk_BySender = (\<lambda>_. empty_index), fk_ByRecipient = (\<lambda>_. empty_index),
     fk_SaltUsed = (\<lambda>_. None), fk_IsKnownStream = (\<lambda>_. None), fk_CancelledStream = (\<lambda>_. None),
     fk_TokenStreamCount = (\<lambda>_. None), fa_code = code, fa_world = w, fa_contracts = contracts,
     fa_events = [], fa_ttl = []\<rparr>"

section \<open>TTL and pause helpers\<close>

definition FACTORY_MAX_BATCH_SIZE :: int where "FACTORY_MAX_BATCH_SIZE = 10"
definition FACTORY_STORAGE_VERSION :: int where "FACTORY_STORAGE_VERSION = 1"
definition BATCH_LIMIT :: int where "BATCH_LIMIT = 8"

fun fk_present :: "'w factory \<Rightarrow> factory_key \<Rightarrow> bool" where
  "fk_present s (FkStreamAddr i) = (fk_StreamAddr s i \<noteq> None)"
| "fk_present s (FkIsKnownStream a) = (fk_IsKnownStream s a \<noteq> None)"
| "fk_present s (FkCancelledStream a) = (fk_CancelledStream s a \<noteq> None)"
| "fk_present s (FkTokenStreamCount a) = (fk_TokenStreamCount s a \<noteq> None)"

definition renew :: "factory_key \<Rightarrow> 'w factory \<Rightarrow> ('e, 'w factory) res" where
  "renew k s = and_then (bump_persistent (fk_present s) k (fa_ttl s)) (\<lambda>l. Inr (s\<lparr>fa_ttl := l\<rparr>))"

definition renew_instance :: "'w factory \<Rightarrow> 'w factory" where
  "renew_instance s = s\<lparr>fa_ttl := bump_instance (fa_ttl s)\<rparr>"

definition emit :: "factory_event \<Rightarrow> 'w factory \<Rightarrow> 'w factory" where
  "emit ev s = s\<lparr>fa_events := fa_events s @ [ev]\<rparr>"

text \<open>The walk over the next \<^verbatim>\<open>BATCH_LIMIT\<close> ids; the result is the last id visited and the number touched.\<close>

fun bump_ids :: "int \<Rightarrow> int \<Rightarrow> int list \<Rightarrow> int \<times> int \<Rightarrow> 'w factory \<Rightarrow> ('e, (int \<times> int) \<times> 'w factory) res" where
  "bump_ids cnt cursor [] (new_last, touched) s = Inr ((new_last, touched), s)"
| "bump_ids cnt cursor (i # rest) (new_last, touched) s =
     (let next = sat_u64 (sat_u64 (cursor + 1) + i);
          id = next mod cnt in
      if fk_StreamAddr s id \<noteq> None then
        and_then (renew (FkStreamAddr id) s) (\<lambda>s1.
        and_then (plain_u32 (touched + 1)) (\<lambda>t. bump_ids cnt cursor rest (id, t) s1))
      else bump_ids cnt cursor rest (id, touched) s)"

definition bump_persistent_bucket :: "'w factory \<Rightarrow> ('e, int \<times> 'w factory) res" where
  "bump_persistent_bucket s =
     (let cnt = (case fk_StreamCount s of Some n \<Rightarrow> n | None \<Rightarrow> 0) in
      if cnt = 0 then Inr (0, s) else
      let cursor = (case fk_LastBumpedId s of Some n \<Rightarrow> n | None \<Rightarrow> 0) in
      and_then (bump_ids cnt cursor [0 .. BATCH_LIMIT - 1] (cursor, 0) s) (\<lambda>((new_last, touched), s1).
      Inr (touched, s1\<lparr>fk_LastBumpedId := Some new_last\<rparr>)))"

definition factory_is_paused :: "'w env \<Rightarrow> 'w factory \<Rightarrow> bool \<times> 'w factory" where
  "factory_is_paused e s =
     (let (p, slot) = is_paused (timestamp e) (fk_Paused s) in (p, s\<lparr>fk_Paused := slot\<rparr>))"

text \<open>The result of the shared helper is dropped, so a refusal leaves the slot as it was; a host failure still aborts.\<close>

definition factory_set_paused :: "'w env \<Rightarrow> bool \<Rightarrow> 'w factory \<Rightarrow> (factory_error, 'w factory) res" where
  "factory_set_paused e p s =
     and_then (ignore_err (fk_Paused s) (set_paused (timestamp e) p (fk_Paused s))) (\<lambda>slot. Inr (s\<lparr>fk_Paused := slot\<rparr>))"

definition factory_require_not_paused :: "'w env \<Rightarrow> 'w factory \<Rightarrow> (factory_error, 'w factory) res" where
  "factory_require_not_paused e s =
     and_then (map_err (\<lambda>_. ContractPaused) (require_not_paused (timestamp e) (fk_Paused s))) (\<lambda>slot.
     Inr (s\<lparr>fk_Paused := slot\<rparr>))"

section \<open>Governor bounds\<close>

definition governance_config :: "'w chain \<Rightarrow> address \<Rightarrow> (factory_error, governor_config) res" where
  "governance_config c governor = ok_or (ch_governor c governor) (Err GovernorNotResponding)"

definition enforce_bounds ::
  "governor_config \<Rightarrow> int \<Rightarrow> int \<Rightarrow> int \<Rightarrow> int \<Rightarrow> (factory_error, unit) res" where
  "enforce_bounds config rate_per_sec start_time end_time now =
     (if gc_max_rate_per_second config < rate_per_sec then Inl (Err RateExceedsMax) else
      let start_offset = sat_u64 (start_time - now) in
      if gc_max_duration_seconds config < start_offset then Inl (Err StartTimeTooFarInFuture) else
      if 0 < end_time then
        and_then (ok_or (checked_u64 (end_time - start_time)) (Err ArithmeticOverflow)) (\<lambda>duration.
        if duration < gc_min_duration_seconds config then Inl (Err DurationTooShort) else
        if gc_max_duration_seconds config < duration then Inl (Err DurationExceedsMax) else
        Inr ())
      else Inr ())"

section \<open>Calls of deployed contracts\<close>

text \<open>
  A call runs the code behind the contract's hash on its storage, with the token
  ledgers shared, and writes both back; a failing callee fails the caller.
\<close>

definition on_stream ::
  "'w chain \<Rightarrow> address \<Rightarrow> ('w stream_code \<Rightarrow> 'w env \<Rightarrow> 'w stream \<Rightarrow> (stream_error, 'a \<times> 'w stream) res) \<Rightarrow>
   'w factory \<Rightarrow> ('e, 'a \<times> 'w factory) res" where
  "on_stream c addr call s = (case fa_contracts s addr of
      None \<Rightarrow> Inl CallTrap
    | Some ct \<Rightarrow> (case ch_uploaded c (ct_code ct) of
        None \<Rightarrow> Inl CallTrap
      | Some code \<Rightarrow>
          (case call code ((ch_env c)\<lparr>contract_address := addr\<rparr>) ((ct_state ct)\<lparr>st_world := fa_world s\<rparr>) of
             Inl _ \<Rightarrow> Inl CallTrap
           | Inr (r, st) \<Rightarrow>
               Inr (r, s\<lparr>fa_world := st_world st, fa_contracts := (fa_contracts s)(addr \<mapsto> ct\<lparr>ct_state := st\<rparr>)\<rparr>))))"

section \<open>Deployment\<close>

definition to_be_bytes :: "int \<Rightarrow> 8 word list" where
  "to_be_bytes n = map (\<lambda>i. word_of_int (n div 256 ^ i)) [7, 6, 5, 4, 3, 2, 1, 0]"

definition compute_salt :: "'w chain \<Rightarrow> int \<Rightarrow> wasm_hash" where
  "compute_salt c stream_id = ch_sha256 c (to_be_bytes stream_id)"

text \<open>\<^verbatim>\<open>deployer().deploy\<close>: the host refuses code that is not uploaded and an address in use.\<close>

definition host_deploy :: "'w chain \<Rightarrow> wasm_hash \<Rightarrow> wasm_hash \<Rightarrow> 'w factory \<Rightarrow> ('e, address \<times> 'w factory) res" where
  "host_deploy c salt code s =
     (let addr = ch_address_of c salt in
      if ch_uploaded c code = None \<or> fa_contracts s addr \<noteq> None then Inl CallTrap else
      Inr (addr, s\<lparr>fa_contracts := (fa_contracts s)(addr \<mapsto> \<lparr>ct_code = code, ct_state = fresh_stream (fa_world s)\<rparr>)\<rparr>))"

definition deploy_stream ::
  "'w chain \<Rightarrow> wasm_hash \<Rightarrow> int \<Rightarrow> ('w stream_code \<Rightarrow> 'w env \<Rightarrow> 'w stream \<Rightarrow> (stream_error, unit \<times> 'w stream) res) \<Rightarrow>
   'w factory \<Rightarrow> (factory_error, address \<times> 'w factory) res" where
  "deploy_stream c code stream_id init_call s =
     (let salt = compute_salt c stream_id in
      if fk_SaltUsed s salt \<noteq> None then Inl (Err SaltAlreadyUsed) else
      and_then (host_deploy c salt code s) (\<lambda>(addr, s1).
      let s2 = s1\<lparr>fk_SaltUsed := (fk_SaltUsed s1)(salt \<mapsto> True)\<rparr> in
      and_then (on_stream c addr init_call s2) (\<lambda>(_, s3).
      Inr (addr, s3))))"

definition is_zero_wasm_hash :: "wasm_hash \<Rightarrow> bool" where
  "is_zero_wasm_hash hash \<longleftrightarrow> hash = replicate 32 0"

definition set_stream_wasm_hash :: "'w chain \<Rightarrow> wasm_hash \<Rightarrow> 'w factory \<Rightarrow> (factory_error, 'w factory) res" where
  "set_stream_wasm_hash c new_wasm_hash s =
     and_then (ok_or (fk_GovernorAddress s) (Err NotInitialized)) (\<lambda>governor.
     and_then (require_auth (ch_env c) governor) (\<lambda>_.
     if is_zero_wasm_hash new_wasm_hash then Inl (Err InvalidWasmHash) else
     and_then (factory_require_not_paused (ch_env c) s) (\<lambda>s1.
     and_then (ok_or (fk_StreamWasmHash s1) (Err NotInitialized)) (\<lambda>old_wasm_hash.
     and_then (bump_persistent_bucket (renew_instance s1)) (\<lambda>(_, s2).
     if old_wasm_hash \<noteq> new_wasm_hash
     then Inr (emit (EvStreamContractUpgraded old_wasm_hash new_wasm_hash)
                 (s2\<lparr>fk_StreamWasmHash := Some new_wasm_hash\<rparr>))
     else Inr s2)))))"

section \<open>Creation\<close>

definition factory_initialize :: "wasm_hash \<Rightarrow> address \<Rightarrow> 'w factory \<Rightarrow> (factory_error, 'w factory) res" where
  "factory_initialize stream_wasm_hash governor s =
     (if fk_StreamCount s \<noteq> None then Inl (Err AlreadyInitialized) else
      if is_zero_wasm_hash stream_wasm_hash then Inl (Err InvalidWasmHash) else
      if is_zero_address governor then Inl (Err InvalidGovernor) else
      Inr ((renew_instance s)\<lparr>fk_StreamWasmHash := Some stream_wasm_hash, fk_GovernorAddress := Some governor,
             fk_StreamCount := Some 0, fk_Aggregate := Some \<lparr>ag_total_supply = 0, ag_active_streams = 0\<rparr>,
             fk_FactoryStorageVersion := Some FACTORY_STORAGE_VERSION\<rparr>))"

definition validate_stream_request :: "'w env \<Rightarrow> stream_init_params \<Rightarrow> (factory_error, int) res" where
  "validate_stream_request e q =
     (if is_zero_address (sq_recipient q) \<or> sq_recipient q = sq_sender q then Inl (Err InvalidRecipient) else
      if is_zero_address (sq_token q) then Inl (Err InvalidToken) else
      if 0 < sq_end_time q \<and> sq_end_time q \<le> sq_start_time q then Inl (Err InvalidDuration) else
      if 0 < sq_end_time q \<and> sq_end_time q - sq_start_time q < MIN_STREAM_DURATION then Inl (Err DurationTooShort) else
      if sq_deposit q \<le> 0 then Inl (Err InvalidDeposit) else
      if sq_rate_per_sec q \<le> 0 then Inl (Err InvalidRate) else
      if sq_deposit q < sq_rate_per_sec q then Inl (Err InsufficientDeposit) else
      let now = timestamp e in
      if sq_start_time q < now then Inl (Err BackdatedStream) else
      if 0 < sq_end_time q then
        and_then (ok_or (checked_i128 (sq_rate_per_sec q * (sq_end_time q - sq_start_time q))) (Err ArithmeticOverflow))
          (\<lambda>required. if sq_deposit q < required then Inl (Err InsufficientDeposit) else Inr now)
      else Inr now)"

text \<open>The arguments of the new stream's \<^verbatim>\<open>initialize\<close>.\<close>

definition init_args ::
  "governor_config \<Rightarrow> stream_init_params \<Rightarrow> string option \<Rightarrow>
   'w stream_code \<Rightarrow> 'w env \<Rightarrow> 'w stream \<Rightarrow> (stream_error, unit \<times> 'w stream) res" where
  "init_args config q description code e st =
     and_then (code_initialize code e (sq_sender q) (sq_recipient q) (sq_token q) (sq_rate_per_sec q)
                 (sq_start_time q) (sq_end_time q) (sq_clawback q) (gc_force_cancel_pause_secs config)
                 False description st) (\<lambda>st1. Inr ((), st1))"

definition factory_transfer ::
  "'w env \<Rightarrow> address \<Rightarrow> address \<Rightarrow> address \<Rightarrow> int \<Rightarrow> 'w factory \<Rightarrow> ('e, 'w factory) res" where
  "factory_transfer e tok src dst amt s =
     and_then (transfer_call e (fa_world s) tok src dst amt) (\<lambda>w. Inr (s\<lparr>fa_world := w\<rparr>))"

text \<open>The transfer whose arrival is confirmed by the receiver's balance.\<close>

definition confirmed_transfer ::
  "'w env \<Rightarrow> factory_error \<Rightarrow> address \<Rightarrow> address \<Rightarrow> address \<Rightarrow> int \<Rightarrow> 'w factory \<Rightarrow> (factory_error, 'w factory) res" where
  "confirmed_transfer e err tok src dst amt s =
     and_then (balance_call e (fa_world s) tok dst) (\<lambda>balance_before.
     and_then (factory_transfer e tok src dst amt s) (\<lambda>s1.
     and_then (balance_call e (fa_world s1) tok dst) (\<lambda>balance_after.
     and_then (plain_i128 (balance_before + amt)) (\<lambda>expected.
     if balance_after \<noteq> expected then Inl (Err err) else Inr s1))))"

definition read_aggregate :: "'w factory \<Rightarrow> aggregate" where
  "read_aggregate s = (case fk_Aggregate s of Some a \<Rightarrow> a | None \<Rightarrow> \<lparr>ag_total_supply = 0, ag_active_streams = 0\<rparr>)"

definition count_created :: "'w factory \<Rightarrow> ('e, 'w factory) res" where
  "count_created s =
     (let a = read_aggregate s in
      and_then (ok_or (checked_u64 (ag_total_supply a + 1)) CallTrap) (\<lambda>tot.
      and_then (ok_or (checked_u64 (ag_active_streams a + 1)) CallTrap) (\<lambda>active.
      Inr (s\<lparr>fk_Aggregate := Some \<lparr>ag_total_supply = tot, ag_active_streams = active\<rparr>\<rparr>))))"

definition append_sender_index :: "'w env \<Rightarrow> address \<Rightarrow> int \<Rightarrow> 'w factory \<Rightarrow> ('e, 'w factory) res" where
  "append_sender_index e sender stream_id s =
     and_then (append_index_entry (nat (sequence e)) stream_id (fk_BySender s sender)) (\<lambda>ix.
     Inr (s\<lparr>fk_BySender := (fk_BySender s)(sender := ix)\<rparr>))"

definition append_recipient_index :: "'w env \<Rightarrow> address \<Rightarrow> int \<Rightarrow> 'w factory \<Rightarrow> ('e, 'w factory) res" where
  "append_recipient_index e recipient stream_id s =
     and_then (append_index_entry (nat (sequence e)) stream_id (fk_ByRecipient s recipient)) (\<lambda>ix.
     Inr (s\<lparr>fk_ByRecipient := (fk_ByRecipient s)(recipient := ix)\<rparr>))"

text \<open>What is written once the stream is deployed and funded.\<close>

definition register_stream ::
  "'w env \<Rightarrow> stream_init_params \<Rightarrow> int \<Rightarrow> address \<Rightarrow> 'w factory \<Rightarrow> (factory_error, 'w factory) res" where
  "register_stream e q stream_id stream_addr s =
     (let s1 = s\<lparr>fk_StreamAddr := (fk_StreamAddr s)(stream_id \<mapsto> stream_addr),
                 fk_IsKnownStream := (fk_IsKnownStream s)(stream_addr \<mapsto> True)\<rparr> in
      and_then (renew (FkStreamAddr stream_id) s1) (\<lambda>s2.
      and_then (renew (FkIsKnownStream stream_addr) s2) (\<lambda>s3.
      and_then (plain_u64 (stream_id + 1)) (\<lambda>cnt.
      and_then (count_created (s3\<lparr>fk_StreamCount := Some cnt\<rparr>)) (\<lambda>s4.
      and_then (append_sender_index e (sq_sender q) stream_id s4) (\<lambda>s5.
      append_recipient_index e (sq_recipient q) stream_id s5))))))"

text \<open>\<^verbatim>\<open>deposit * fee_bps / 10000\<close>; both factors are non-negative, so the division rounds down.\<close>

definition protocol_fee :: "governor_config \<Rightarrow> int \<Rightarrow> (factory_error, int) res" where
  "protocol_fee config deposit =
     and_then (ok_or (checked_i128 (deposit * gc_fee_bps config)) (Err ArithmeticOverflow)) (\<lambda>x.
     Inr (x div 10000))"

definition create_stream_with_config ::
  "'w chain \<Rightarrow> governor_config \<Rightarrow> int \<Rightarrow> stream_init_params \<Rightarrow> string option \<Rightarrow> 'w factory \<Rightarrow>
   (factory_error, int \<times> 'w factory) res" where
  "create_stream_with_config c config now q description s =
     (let e = ch_env c; me = contract_address e in
      and_then (enforce_bounds config (sq_rate_per_sec q) (sq_start_time q) (sq_end_time q) now) (\<lambda>_.
      and_then (protocol_fee config (sq_deposit q)) (\<lambda>fee.
      and_then (ok_or (checked_i128 (sq_deposit q + fee)) (Err ArithmeticOverflow)) (\<lambda>total_funding.
      if (case fk_CreateLock s of Some b \<Rightarrow> b | None \<Rightarrow> False) then Inl (Err CreateLocked) else
      let s1 = renew_instance (s\<lparr>fk_CreateLock := Some True\<rparr>) in
      and_then (confirmed_transfer e DepositTransferFailed (sq_token q) (sq_sender q) me total_funding s1) (\<lambda>s2.
      and_then (if 0 < fee then factory_transfer e (sq_token q) me (gc_fee_recipient config) fee s2 else Inr s2) (\<lambda>s3.
      let s4 = emit (EvProtocolFee (gc_fee_recipient config) fee) s3;
          stream_id = (case fk_StreamCount s4 of Some n \<Rightarrow> n | None \<Rightarrow> 0) in
      and_then (ok_or (fk_StreamWasmHash s4) (Err NotInitialized)) (\<lambda>code.
      and_then (deploy_stream c code stream_id (init_args config q description) s4) (\<lambda>(stream_addr, s5).
      and_then (confirmed_transfer e StreamFundingFailed (sq_token q) me stream_addr (sq_deposit q) s5) (\<lambda>s6.
      let s7 = emit (EvStreamCreated (sq_sender q) (sq_recipient q) stream_addr (compute_salt c stream_id) code) s6 in
      and_then (register_stream e q stream_id stream_addr s7) (\<lambda>s8.
      Inr (stream_id, s8\<lparr>fk_CreateLock := Some False\<rparr>)))))))))))"

definition create_stream ::
  "'w chain \<Rightarrow> stream_init_params \<Rightarrow> string option \<Rightarrow> 'w factory \<Rightarrow> (factory_error, int \<times> 'w factory) res" where
  "create_stream c q description s =
     and_then (require_auth (ch_env c) (sq_sender q)) (\<lambda>_.
     and_then (factory_require_not_paused (ch_env c) s) (\<lambda>s1.
     and_then (validate_stream_request (ch_env c) q) (\<lambda>now.
     if (case description of Some desc \<Rightarrow> MAX_DESCRIPTION_LEN < int (length desc) | None \<Rightarrow> False)
     then Inl (Err DescriptionTooLong) else
     and_then (ok_or (fk_GovernorAddress s1) (Err NotInitialized)) (\<lambda>governor.
     and_then (governance_config c governor) (\<lambda>config.
     create_stream_with_config c config now q description s1)))))"

fun create_each ::
  "'w chain \<Rightarrow> governor_config \<Rightarrow> stream_init_params list \<Rightarrow> address list \<Rightarrow> 'w factory \<Rightarrow>
   (factory_error, address list \<times> 'w factory) res" where
  "create_each c config [] deployed s = Inr (deployed, s)"
| "create_each c config (cfg # rest) deployed s =
     and_then (require_auth (ch_env c) (sq_sender cfg)) (\<lambda>_.
     and_then (validate_stream_request (ch_env c) cfg) (\<lambda>now.
     and_then (create_stream_with_config c config now cfg None s) (\<lambda>(stream_id, s1).
     and_then (ok_or (fk_StreamAddr s1 stream_id) CallTrap) (\<lambda>addr.
     create_each c config rest (deployed @ [addr]) s1))))"

definition batch_create_streams ::
  "'w chain \<Rightarrow> stream_init_params list \<Rightarrow> 'w factory \<Rightarrow> (factory_error, address list \<times> 'w factory) res" where
  "batch_create_streams c configs s =
     (if configs = [] then Inl (Err EmptyBatch) else
      if FACTORY_MAX_BATCH_SIZE < int (length configs) then Inl (Err BatchTooLarge) else
      and_then (factory_require_not_paused (ch_env c) s) (\<lambda>s1.
      and_then (ok_or (fk_GovernorAddress s1) (Err NotInitialized)) (\<lambda>governor.
      and_then (governance_config c governor) (\<lambda>config.
      create_each c config configs [] s1))))"

definition batch_deploy_streams ::
  "'w chain \<Rightarrow> stream_init_params list \<Rightarrow> 'w factory \<Rightarrow> (factory_error, address list \<times> 'w factory) res" where
  "batch_deploy_streams c configs s = batch_create_streams c configs s"

text \<open>A batch request with the sender and the clawback flag of the batch.\<close>

definition with_sender :: "address \<Rightarrow> bool \<Rightarrow> batch_stream_request \<Rightarrow> stream_init_params" where
  "with_sender sender claw b = \<lparr>sq_sender = sender, sq_recipient = bq_recipient b, sq_token = bq_token b,
     sq_deposit = bq_deposit b, sq_rate_per_sec = bq_rate_per_sec b, sq_start_time = bq_start_time b,
     sq_end_time = bq_end_time b, sq_clawback = claw\<rparr>"

fun create_requests ::
  "'w chain \<Rightarrow> governor_config \<Rightarrow> address \<Rightarrow> bool \<Rightarrow> batch_stream_request list \<Rightarrow> int list \<Rightarrow> 'w factory \<Rightarrow>
   (factory_error, int list \<times> 'w factory) res" where
  "create_requests c config sender claw [] stream_ids s = Inr (stream_ids, s)"
| "create_requests c config sender claw (request # rest) stream_ids s =
     and_then (validate_stream_request (ch_env c) (with_sender sender claw request)) (\<lambda>now.
     and_then (create_stream_with_config c config now (with_sender sender claw request) None s) (\<lambda>(stream_id, s1).
     create_requests c config sender claw rest (stream_ids @ [stream_id]) s1))"

definition create_batch_streams ::
  "'w chain \<Rightarrow> address \<Rightarrow> batch_stream_request list \<Rightarrow> bool \<Rightarrow> 'w factory \<Rightarrow>
   (factory_error, int list \<times> 'w factory) res" where
  "create_batch_streams c sender requests claw s =
     (if requests = [] then Inl (Err EmptyBatch) else
      if FACTORY_MAX_BATCH_SIZE < int (length requests) then Inl (Err BatchTooLarge) else
      and_then (require_auth (ch_env c) sender) (\<lambda>_.
      and_then (factory_require_not_paused (ch_env c) s) (\<lambda>s1.
      and_then (ok_or (fk_GovernorAddress s1) (Err NotInitialized)) (\<lambda>governor.
      and_then (governance_config c governor) (\<lambda>config.
      create_requests c config sender claw requests [] s1)))))"

section \<open>Cancellation\<close>

text \<open>The map-backed duplicate test.\<close>

fun has_duplicate :: "address list \<Rightarrow> (address \<rightharpoonup> unit) \<Rightarrow> bool" where
  "has_duplicate [] seen = False"
| "has_duplicate (a # rest) seen = (if seen a \<noteq> None then True else has_duplicate rest (seen(a \<mapsto> ())))"

text \<open>Marking a stream's cancellation and taking it off the active count.\<close>

definition mark_cancel :: "address \<Rightarrow> 'w factory \<Rightarrow> ('e, 'w factory) res" where
  "mark_cancel stream_addr s =
     and_then (renew (FkCancelledStream stream_addr)
       (s\<lparr>fk_CancelledStream := (fk_CancelledStream s)(stream_addr \<mapsto> True)\<rparr>)) (\<lambda>s1.
     let a = read_aggregate s1 in
     Inr (s1\<lparr>fk_Aggregate := Some (a\<lparr>ag_active_streams := sat_u64 (ag_active_streams a - 1)\<rparr>)\<rparr>))"

definition already_recorded :: "address \<Rightarrow> 'w factory \<Rightarrow> bool" where
  "already_recorded stream_addr s = (case fk_CancelledStream s stream_addr of Some b \<Rightarrow> b | None \<Rightarrow> False)"

fun cancel_each :: "'w chain \<Rightarrow> address \<Rightarrow> address list \<Rightarrow> 'w factory \<Rightarrow> (factory_error, 'w factory) res" where
  "cancel_each c sender [] s = Inr s"
| "cancel_each c sender (stream_addr # rest) s =
     and_then (on_stream c stream_addr (\<lambda>code e st. code_cancel code e sender st) s) (\<lambda>(_, s1).
     and_then (if already_recorded stream_addr s1 then Inr s1 else mark_cancel stream_addr s1) (\<lambda>s2.
     cancel_each c sender rest s2))"

definition cancel_batch_streams ::
  "'w chain \<Rightarrow> address \<Rightarrow> address list \<Rightarrow> 'w factory \<Rightarrow> (factory_error, 'w factory) res" where
  "cancel_batch_streams c sender stream_addresses s =
     and_then (require_auth (ch_env c) sender) (\<lambda>_.
     if stream_addresses = [] then Inl (Err EmptyBatch) else
     if FACTORY_MAX_BATCH_SIZE < int (length stream_addresses) then Inl (Err BatchTooLarge) else
     if has_duplicate stream_addresses Map.empty then Inl (Err DuplicateStreamId) else
     cancel_each c sender stream_addresses s)"

definition record_cancel :: "'w chain \<Rightarrow> address \<Rightarrow> 'w factory \<Rightarrow> (factory_error, 'w factory) res" where
  "record_cancel c stream_addr s =
     (if \<not> (case fk_IsKnownStream s stream_addr of Some b \<Rightarrow> b | None \<Rightarrow> False) then Inr s else
      if already_recorded stream_addr s then Inr s else
      and_then (on_stream c stream_addr (\<lambda>code e st. and_then (code_info code st) (\<lambda>info. Inr (info, st))) s) (\<lambda>(info, s1).
      if \<not> info_is_cancelled info then Inr s1 else mark_cancel stream_addr s1))"

section \<open>Administration\<close>

definition upgrade_stream_wasm :: "'w chain \<Rightarrow> wasm_hash \<Rightarrow> 'w factory \<Rightarrow> (factory_error, 'w factory) res" where
  "upgrade_stream_wasm c new_wasm_hash s = set_stream_wasm_hash c new_wasm_hash s"

definition upgrade_self :: "'w chain \<Rightarrow> wasm_hash \<Rightarrow> int \<Rightarrow> 'w factory \<Rightarrow> (factory_error, 'w factory) res" where
  "upgrade_self c new_wasm_hash expected_storage_version s =
     and_then (ok_or (fk_GovernorAddress s) (Err NotInitialized)) (\<lambda>governor.
     and_then (require_auth (ch_env c) governor) (\<lambda>_.
     if is_zero_wasm_hash new_wasm_hash then Inl (Err InvalidWasmHash) else
     and_then (factory_require_not_paused (ch_env c) s) (\<lambda>s1.
     and_then (ok_or (fk_FactoryStorageVersion s1) (Err NotInitialized)) (\<lambda>stored_version.
     if expected_storage_version \<noteq> stored_version then Inl (Err StorageVersionMismatch) else
     Inr (emit (EvFactoryUpgraded governor (timestamp (ch_env c)))
            ((renew_instance s1)\<lparr>fa_code := new_wasm_hash\<rparr>))))))"

definition factory_pause :: "'w chain \<Rightarrow> 'w factory \<Rightarrow> (factory_error, 'w factory) res" where
  "factory_pause c s =
     and_then (ok_or (fk_GovernorAddress s) (Err NotInitialized)) (\<lambda>governor.
     and_then (require_auth (ch_env c) governor) (\<lambda>_.
     let (p, s1) = factory_is_paused (ch_env c) s in
     if p then Inl (Err AlreadyPaused) else
     and_then (bump_persistent_bucket (renew_instance s1)) (\<lambda>(_, s2).
     and_then (factory_set_paused (ch_env c) True s2) (\<lambda>s3.
     Inr (emit (EvFactoryPaused governor (timestamp (ch_env c))) s3)))))"

definition factory_unpause :: "'w chain \<Rightarrow> 'w factory \<Rightarrow> (factory_error, 'w factory) res" where
  "factory_unpause c s =
     and_then (ok_or (fk_GovernorAddress s) (Err NotInitialized)) (\<lambda>governor.
     and_then (require_auth (ch_env c) governor) (\<lambda>_.
     let (p, s1) = factory_is_paused (ch_env c) s in
     if \<not> p then Inl (Err NotPaused) else
     and_then (bump_persistent_bucket (renew_instance s1)) (\<lambda>(_, s2).
     and_then (factory_set_paused (ch_env c) False s2) (\<lambda>s3.
     Inr (emit (EvFactoryUnpaused governor (timestamp (ch_env c))) s3)))))"

section \<open>Queries\<close>

definition stream_address :: "int \<Rightarrow> 'w factory \<Rightarrow> ('e, address option \<times> 'w factory) res" where
  "stream_address stream_id s = (case fk_StreamAddr s stream_id of
      Some addr \<Rightarrow> and_then (renew (FkStreamAddr stream_id) s) (\<lambda>s1. Inr (Some addr, s1))
    | None \<Rightarrow> Inr (None, s))"

fun resolve_each :: "int list \<Rightarrow> address option list \<Rightarrow> 'w factory \<Rightarrow> ('e, address option list \<times> 'w factory) res" where
  "resolve_each [] out s = Inr (out, s)"
| "resolve_each (i # rest) out s =
     and_then (stream_address i s) (\<lambda>(a, s1). resolve_each rest (out @ [a]) s1)"

definition stream_addresses :: "int list \<Rightarrow> 'w factory \<Rightarrow> (factory_error, address option list \<times> 'w factory) res" where
  "stream_addresses ids s =
     (if MAX_PAGE_SIZE < length ids then Inl (Err BatchTooLarge) else resolve_each ids [] s)"

definition factory_migrate_sender_index :: "address \<Rightarrow> nat \<Rightarrow> 'w factory \<Rightarrow> ('e, nat \<times> 'w factory) res" where
  "factory_migrate_sender_index sender max_pages s =
     and_then (migrate_index max_pages (fk_BySender s sender)) (\<lambda>(n, ix).
     Inr (n, s\<lparr>fk_BySender := (fk_BySender s)(sender := ix)\<rparr>))"

definition factory_migrate_recipient_index :: "address \<Rightarrow> nat \<Rightarrow> 'w factory \<Rightarrow> ('e, nat \<times> 'w factory) res" where
  "factory_migrate_recipient_index recipient max_pages s =
     and_then (migrate_index max_pages (fk_ByRecipient s recipient)) (\<lambda>(n, ix).
     Inr (n, s\<lparr>fk_ByRecipient := (fk_ByRecipient s)(recipient := ix)\<rparr>))"

definition streams_by_sender :: "'w env \<Rightarrow> address \<Rightarrow> nat \<Rightarrow> nat \<Rightarrow> 'w factory \<Rightarrow> ('e, stream_page \<times> 'w factory) res" where
  "streams_by_sender e sender offset limit s =
     and_then (streams_by (nat (sequence e)) offset limit (fk_BySender s sender)) (\<lambda>(page, ix).
     Inr (page, s\<lparr>fk_BySender := (fk_BySender s)(sender := ix)\<rparr>))"

definition streams_by_recipient :: "'w env \<Rightarrow> address \<Rightarrow> nat \<Rightarrow> nat \<Rightarrow> 'w factory \<Rightarrow> ('e, stream_page \<times> 'w factory) res" where
  "streams_by_recipient e recipient offset limit s =
     and_then (streams_by (nat (sequence e)) offset limit (fk_ByRecipient s recipient)) (\<lambda>(page, ix).
     Inr (page, s\<lparr>fk_ByRecipient := (fk_ByRecipient s)(recipient := ix)\<rparr>))"

definition stream_count_by_sender :: "address \<Rightarrow> 'w factory \<Rightarrow> ('e, nat \<times> 'w factory) res" where
  "stream_count_by_sender sender s =
     and_then (count_index (fk_BySender s sender)) (\<lambda>(n, ix).
     Inr (n, s\<lparr>fk_BySender := (fk_BySender s)(sender := ix)\<rparr>))"

definition stream_count_by_recipient :: "address \<Rightarrow> 'w factory \<Rightarrow> ('e, nat \<times> 'w factory) res" where
  "stream_count_by_recipient recipient s =
     and_then (count_index (fk_ByRecipient s recipient)) (\<lambda>(n, ix).
     Inr (n, s\<lparr>fk_ByRecipient := (fk_ByRecipient s)(recipient := ix)\<rparr>))"

definition get_streams_by_creator_paged ::
  "'w env \<Rightarrow> address \<Rightarrow> nat \<Rightarrow> nat \<Rightarrow> 'w factory \<Rightarrow> ('e, address list \<times> 'w factory) res" where
  "get_streams_by_creator_paged e creator start_index limit s =
     and_then (streams_by_sender e creator start_index limit s) (\<lambda>(page, s1).
     and_then (resolve_each (pg_ids page) [] s1) (\<lambda>(addrs, s2).
     Inr (List.map_filter (\<lambda>a. a) addrs, s2)))"

definition stream_count :: "'w factory \<Rightarrow> int" where
  "stream_count s = (case fk_StreamCount s of Some n \<Rightarrow> n | None \<Rightarrow> 0)"

definition deployed_stream_count_by_token :: "address \<Rightarrow> 'w factory \<Rightarrow> ('e, int \<times> 'w factory) res" where
  "deployed_stream_count_by_token tok s =
     (let cnt = (case fk_TokenStreamCount s tok of Some n \<Rightarrow> n | None \<Rightarrow> 0) in
      if 0 < cnt then and_then (renew (FkTokenStreamCount tok) s) (\<lambda>s1. Inr (cnt, s1)) else Inr (cnt, s))"

definition protocol_fee_bps :: "'w chain \<Rightarrow> 'w factory \<Rightarrow> (factory_error, int) res" where
  "protocol_fee_bps c s =
     and_then (ok_or (fk_GovernorAddress s) (Err NotInitialized)) (\<lambda>governor.
     and_then (governance_config c governor) (\<lambda>config. Inr (gc_fee_bps config)))"

definition protocol_fee_bps_or_default :: "'w chain \<Rightarrow> int \<Rightarrow> 'w factory \<Rightarrow> int" where
  "protocol_fee_bps_or_default c default_bps s = (case protocol_fee_bps c s of Inr n \<Rightarrow> n | Inl _ \<Rightarrow> default_bps)"

definition stream_wasm_hash :: "'w factory \<Rightarrow> (factory_error, wasm_hash) res" where
  "stream_wasm_hash s = ok_or (fk_StreamWasmHash s) (Err NotInitialized)"

definition factory_storage_version :: "'w factory \<Rightarrow> int" where
  "factory_storage_version s = (case fk_FactoryStorageVersion s of Some n \<Rightarrow> n | None \<Rightarrow> 0)"

definition get_factory_status :: "'w chain \<Rightarrow> 'w factory \<Rightarrow> factory_status \<times> 'w factory" where
  "get_factory_status c s =
     (let (p, s1) = factory_is_paused (ch_env c) s in
      (\<lparr>fs_is_paused = p, fs_protocol_fee_bps = (case protocol_fee_bps c s1 of Inr n \<Rightarrow> Some n | Inl _ \<Rightarrow> None)\<rparr>, s1))"

definition is_known_stream :: "address \<Rightarrow> 'w factory \<Rightarrow> ('e, bool \<times> 'w factory) res" where
  "is_known_stream a s =
     (let known = (case fk_IsKnownStream s a of Some b \<Rightarrow> b | None \<Rightarrow> False) in
      if known then and_then (renew (FkIsKnownStream a) s) (\<lambda>s1. Inr (known, s1)) else Inr (known, s))"

fun operation_cost :: "stream_operation \<Rightarrow> int \<times> int" where
  "operation_cost CreateStream = (2500000, 5)"
| "operation_cost CancelStream = (800000, 2)"
| "operation_cost Withdraw = (500000, 1)"
| "operation_cost PauseStream = (400000, 2)"
| "operation_cost ResumeStream = (400000, 2)"
| "operation_cost SetOperator = (400000, 2)"
| "operation_cost RevokeOperator = (400000, 2)"
| "operation_cost ExtendDuration = (600000, 2)"
| "operation_cost TopUp = (700000, 2)"
| "operation_cost TopUpAndExtend = (900000, 3)"
| "operation_cost Clawback = (700000, 2)"
| "operation_cost ForceCancel = (800000, 2)"
| "operation_cost TransferRecipient = (400000, 2)"

definition estimate_fee :: "stream_operation \<Rightarrow> fee_estimate" where
  "estimate_fee operation =
     (let (cpu_instructions, ledger_entries) = operation_cost operation in
      \<lparr>fe_fee_stroops = 0, fe_fee_xlm = 0, fe_cpu_instructions = cpu_instructions, fe_ledger_entries = ledger_entries\<rparr>)"

end
