(* ===== verification/Factory_Index_Correct.thy ===== *)
theory Factory_Index_Correct
  imports Factory_Index
begin

text \<open>
  The paged index refines a plain list of stream ids: appending adds at the end,
  migrating changes nothing, a read returns the requested window, the count is
  the length.  This holds at every stage of the migration from the old layout,
  and no storage access of the index ever aborts.
\<close>

section \<open>The layout of a list\<close>

text \<open>Page \<open>q\<close> of a list cut into pages of 100.\<close>

definition chunk :: "int list \<Rightarrow> nat \<Rightarrow> int list option" where
  "chunk ys q = (if length ys \<le> 100 * q then None else Some (take 100 (drop (100 * q) ys)))"

lemma chunk_Nil [simp]: "chunk [] q = None"
  by (simp add: chunk_def)

lemma chunk_append:
  "chunk (ys @ [x]) q = (if q = length ys div 100
     then Some ((case chunk ys q of None \<Rightarrow> [] | Some z \<Rightarrow> z) @ [x]) else chunk ys q)"
proof -
  consider "q < length ys div 100" | "q = length ys div 100" | "length ys div 100 < q" by linarith
  then show ?thesis
  proof cases
    case 1
    then have "100 * q + 100 \<le> length ys" using div_le_dividend by (simp add: less_eq_div_iff_mult_less_eq)
    then show ?thesis using 1 by (simp add: chunk_def)
  next
    case 2
    then have "100 * q \<le> length ys" "length ys < 100 * q + 100" by (auto simp: dividend_less_times_div)
    then show ?thesis using 2 by (auto simp: chunk_def)
  next
    case 3
    then have "length ys < 100 * q" by (simp add: div_less_iff_less_mult mult.commute)
    then show ?thesis using 3 by (auto simp: chunk_def)
  qed
qed

text \<open>The pages the legacy entries occupy; appended entries start on a fresh page behind them.\<close>

definition legacy_pages :: "nat \<Rightarrow> nat" where
  "legacy_pages n = (n + 99) div 100"

definition layout :: "nat \<Rightarrow> nat \<Rightarrow> int list \<Rightarrow> nat \<Rightarrow> int list option" where
  "layout l c xs p =
     (if p < legacy_pages l then (if 100 * p < c then chunk (take l xs) p else None)
      else chunk (drop l xs) (p - legacy_pages l))"

definition index_rep :: "index_slot \<Rightarrow> int list \<Rightarrow> bool" where
  "index_rep s xs = (case ix_count s of
      None \<Rightarrow> ix_cursor s = None \<and> ix_legacy_count s = None \<and> ix_pages s = (\<lambda>p. None) \<and>
        xs = (case ix_legacy s of None \<Rightarrow> [] | Some es \<Rightarrow> es)
    | Some n \<Rightarrow> n = length xs \<and> (\<exists>l c. l \<le> length xs \<and>
        ix_legacy_count s = (if l = 0 then None else Some l) \<and>
        (if c < l then ix_legacy s = Some (take l xs) \<and> ix_cursor s = Some c \<and> c mod 100 = 0
         else c = l \<and> ix_legacy s = None \<and> ix_cursor s = None) \<and>
        ix_pages s = layout l c xs))"

lemma index_rep_cong:
  "ix_count s' = ix_count s \<Longrightarrow> ix_legacy s' = ix_legacy s \<Longrightarrow> ix_cursor s' = ix_cursor s \<Longrightarrow>
   ix_legacy_count s' = ix_legacy_count s \<Longrightarrow> ix_pages s' = ix_pages s \<Longrightarrow> index_rep s' xs = index_rep s xs"
  unfolding index_rep_def by (simp only:)

lemma index_rep_ttl [simp]: "index_rep (s\<lparr>ix_ttl := t\<rparr>) xs = index_rep s xs"
  by (rule index_rep_cong) simp_all

lemma index_repI:
  assumes "ix_count s = Some (length xs)" and "l \<le> length xs" and "ix_legacy_count s = (if l = 0 then None else Some l)"
    and "if c < l then ix_legacy s = Some (take l xs) \<and> ix_cursor s = Some c \<and> c mod 100 = 0
         else c = l \<and> ix_legacy s = None \<and> ix_cursor s = None"
    and "ix_pages s = layout l c xs"
  shows "index_rep s xs"
  unfolding index_rep_def assms(1) option.case using assms(2-5) by blast

lemma empty_index_rep: "index_rep empty_index []"
  by (simp add: index_rep_def empty_index_def)

section \<open>Renewals succeed and change nothing else\<close>

lemma page_size [simp]: "PAGE_SIZE = 100" "MAX_PAGE_SIZE = 100"
  by (simp_all add: PAGE_SIZE_def MAX_PAGE_SIZE_def)

lemma extend_ttl_ok: "ix_present s k \<Longrightarrow> \<exists>t. extend_ttl k s = Inr (s\<lparr>ix_ttl := t\<rparr>)"
  by (auto simp: extend_ttl_def bump_persistent_def)

lemma extend_if_present_ok: "\<exists>t. extend_if_present k s = Inr (s\<lparr>ix_ttl := t\<rparr>)"
proof (cases "ix_present s k")
  case True
  then show ?thesis using extend_ttl_ok by (simp add: extend_if_present_def)
next
  case False
  then show ?thesis by (intro exI [of _ "ix_ttl s"]) (simp add: extend_if_present_def)
qed

lemma extend_pages_ok: "\<exists>t. extend_pages n st is s = Inr (s\<lparr>ix_ttl := t\<rparr>)"
proof (induction "is" arbitrary: s)
  case Nil
  then show ?case by (intro exI [of _ "ix_ttl s"]) simp
next
  case (Cons i "is")
  obtain t where "extend_if_present (IxPage (u32_saturating_add st i mod n)) s = (Inr (s\<lparr>ix_ttl := t\<rparr>) :: ('a, index_slot) res)"
    using extend_if_present_ok by blast
  then show ?case using Cons.IH [of "s\<lparr>ix_ttl := t\<rparr>"] by simp
qed

lemma extend_page_ttls_ok: "\<exists>t. extend_page_ttls seq n s = Inr (s\<lparr>ix_ttl := t\<rparr>)"
proof (cases "n = 0")
  case True
  then show ?thesis by (intro exI [of _ "ix_ttl s"]) (simp add: extend_page_ttls_def)
next
  case False
  then show ?thesis
    using extend_pages_ok [of "u32_saturating_add ((n - 1) div PAGE_SIZE) 1" _ "[0, 1, 2]" s]
    unfolding extend_page_ttls_def Let_def by (simp del: extend_pages.simps)
qed

lemma write_page_ok: "\<exists>t. write_page p xs s = Inr (s\<lparr>ix_pages := (ix_pages s)(p := Some xs), ix_ttl := t\<rparr>)"
  using extend_ttl_ok [of "s\<lparr>ix_pages := (ix_pages s)(p := Some xs)\<rparr>" "IxPage p"] by (auto simp: write_page_def)

section \<open>Migration keeps the list\<close>

lemma copy_entries_eq:
  "stop \<le> length es \<Longrightarrow> copy_entries es stop i page = Inr (page @ take (stop - i) (drop i es))"
proof (induction "stop - i" arbitrary: i page)
  case 0
  then show ?case by (simp add: copy_entries.simps)
next
  case (Suc d)
  then have i: "i < stop" "i < length es" by simp_all
  have "take (stop - i) (drop i es) = es ! i # take (stop - Suc i) (drop (Suc i) es)"
    using i by (simp add: Cons_nth_drop_Suc [symmetric] Suc_diff_Suc [symmetric])
  then show ?case
    using Suc i by (subst copy_entries.simps) (simp add: entry_at_def)
qed

lemma migrate_pages_eq:
  assumes "length es + 100 \<le> U32_MAX" and "c mod 100 = 0" and "c < length es" and "m < cap"
  shows "\<exists>c' t. migrate_pages es (length es) cap c m s =
       Inr (c', s\<lparr>ix_pages := (\<lambda>p. if c \<le> 100 * p \<and> 100 * p < c' then chunk es p else ix_pages s p), ix_ttl := t\<rparr>) \<and>
     c < c' \<and> (c' = length es \<or> c' < length es \<and> c' mod 100 = 0)"
  using assms(2-4)
proof (induction "cap - m" arbitrary: c m s)
  case (Suc d)
  let ?stop = "min (c + 100) (length es)"
  have sat: "min (u32_saturating_add c 100) (length es) = ?stop"
    using assms(1) Suc.prems(2) by (simp add: u32_saturating_add_def)
  have c: "100 * (c div 100) = c" using Suc.prems(1) by auto
  have pg: "take (?stop - c) (drop c es) = take 100 (drop c es)" using Suc.prems(2) by (simp add: min_def)
  have ck: "chunk es (c div 100) = Some (take 100 (drop c es))" using c Suc.prems(2) by (simp add: chunk_def)
  obtain t1 where w: "write_page (c div 100) (take 100 (drop c es)) s =
      (Inr (s\<lparr>ix_pages := (ix_pages s)(c div 100 := Some (take 100 (drop c es))), ix_ttl := t1\<rparr>) :: ('a, index_slot) res)"
    using write_page_ok by blast
  define s1 where "s1 = s\<lparr>ix_pages := (ix_pages s)(c div 100 := Some (take 100 (drop c es))), ix_ttl := t1\<rparr>"
  have step: "migrate_pages es (length es) cap c m s = (migrate_pages es (length es) cap ?stop (Suc m) s1 :: ('a, nat \<times> index_slot) res)"
    using Suc.prems w by (subst migrate_pages.simps)
      (simp add: Let_def sat copy_entries_eq pg s1_def)
  have ps: "ix_pages s1 = (\<lambda>p. if c \<le> 100 * p \<and> 100 * p < ?stop then chunk es p else ix_pages s p)"
  proof
    fix p
    have "c \<le> 100 * p \<and> 100 * p < ?stop \<longleftrightarrow> p = c div 100" using c Suc.prems(2) by (auto simp: min_def)
    then show "ix_pages s1 p = (if c \<le> 100 * p \<and> 100 * p < ?stop then chunk es p else ix_pages s p)"
      using ck by (auto simp: s1_def)
  qed
  show ?case
  proof (cases "?stop < length es \<and> Suc m < cap")
    case True
    then have st: "?stop = c + 100" by linarith
    then have m: "?stop mod 100 = 0" using Suc.prems(1) by simp
    have d: "d = cap - Suc m" using Suc.hyps(2) by simp
    obtain c' t where ih: "migrate_pages es (length es) cap ?stop (Suc m) s1 =
        (Inr (c', s1\<lparr>ix_pages := (\<lambda>p. if ?stop \<le> 100 * p \<and> 100 * p < c' then chunk es p else ix_pages s1 p), ix_ttl := t\<rparr>)
          :: ('a, nat \<times> index_slot) res)" and c': "?stop < c'" "c' = length es \<or> c' < length es \<and> c' mod 100 = 0"
      using Suc.hyps(1) [OF d m conjunct1 [OF True] conjunct2 [OF True], where s = s1]
      by (elim exE conjE) (rule that)
    have "(\<lambda>p. if ?stop \<le> 100 * p \<and> 100 * p < c' then chunk es p else ix_pages s1 p) =
        (\<lambda>p. if c \<le> 100 * p \<and> 100 * p < c' then chunk es p else ix_pages s p)"
      using c'(1) st by (auto simp: ps fun_eq_iff)
    then show ?thesis
      using step ih c' st by (intro exI [of _ c'] exI [of _ t]) (simp add: s1_def)
  next
    case False
    then have "migrate_pages es (length es) cap ?stop (Suc m) s1 = (Inr (?stop, s1) :: ('a, nat \<times> index_slot) res)"
      by (subst migrate_pages.simps) auto
    moreover have "s1 = s\<lparr>ix_pages := (\<lambda>p. if c \<le> 100 * p \<and> 100 * p < ?stop then chunk es p else ix_pages s p), ix_ttl := t1\<rparr>"
      using ps by (simp add: s1_def)
    moreover have "?stop = length es \<or> ?stop < length es \<and> ?stop mod 100 = 0"
      using Suc.prems(1) by (auto simp: min_def mod_add_eq [symmetric])
    ultimately show ?thesis
      using step Suc.prems(2) by (intro exI [of _ ?stop] exI [of _ t1]) simp
  qed
qed simp

lemma legacy_pages_le: "legacy_pages l \<le> p \<Longrightarrow> l \<le> 100 * p"
  by (simp add: legacy_pages_def)

lemma layout_advance:
  assumes "c < c'" and "c' \<le> l"
  shows "(\<lambda>p. if c \<le> 100 * p \<and> 100 * p < c' then chunk (take l xs) p else layout l c xs p) = layout l c' xs"
proof
  fix p
  show "(if c \<le> 100 * p \<and> 100 * p < c' then chunk (take l xs) p else layout l c xs p) = layout l c' xs p"
    using assms legacy_pages_le [of l p] by (auto simp: layout_def)
qed

text \<open>What the migration writes after its page loop.\<close>

definition migrate_finish :: "nat \<Rightarrow> nat \<Rightarrow> nat \<times> index_slot \<Rightarrow> ('e, nat \<times> index_slot) res" where
  "migrate_finish legacy_count total_count = (\<lambda>(cursor, s1).
     and_then (extend_ttl IxCount (s1\<lparr>ix_count := Some total_count\<rparr>)) (\<lambda>s2.
     and_then (extend_ttl IxLegacyCount (s2\<lparr>ix_legacy_count := Some legacy_count\<rparr>)) (\<lambda>s3.
     if legacy_count \<le> cursor then Inr (total_count, s3\<lparr>ix_legacy := None, ix_cursor := None\<rparr>) else
     and_then (extend_ttl IxCursor (s3\<lparr>ix_cursor := Some cursor\<rparr>)) (\<lambda>s4.
     and_then (extend_ttl IxLegacy s4) (\<lambda>s5.
     Inr (total_count, s5))))))"

lemma migrate_finish_rep:
  assumes "0 < l" and "l \<le> length xs" and "ix_pages s = layout l c xs" and "ix_legacy s = Some (take l xs)"
    and "c = l \<or> c < l \<and> c mod 100 = 0"
  shows "\<exists>s'. migrate_finish l (length xs) (c, s) = Inr (length xs, s') \<and> index_rep s' xs \<and> ix_count s' = Some (length xs)"
proof -
  obtain t1 where t1: "extend_ttl IxCount (s\<lparr>ix_count := Some (length xs)\<rparr>) =
      (Inr (s\<lparr>ix_count := Some (length xs), ix_ttl := t1\<rparr>) :: ('a, index_slot) res)"
    using extend_ttl_ok [of "s\<lparr>ix_count := Some (length xs)\<rparr>" IxCount] by auto
  let ?s2 = "s\<lparr>ix_count := Some (length xs), ix_ttl := t1, ix_legacy_count := Some l\<rparr>"
  obtain t2 where t2: "extend_ttl IxLegacyCount ?s2 = (Inr (?s2\<lparr>ix_ttl := t2\<rparr>) :: ('a, index_slot) res)"
    using extend_ttl_ok [of ?s2 IxLegacyCount] by auto
  show ?thesis
  proof (cases "c < l")
    case False
    then have "c = l" using assms(5) by simp
    then show ?thesis
      using t1 t2 assms by (auto simp: migrate_finish_def intro!: index_repI [of _ _ l l])
  next
    case True
    let ?s3 = "?s2\<lparr>ix_ttl := t2, ix_cursor := Some c\<rparr>"
    obtain t3 where t3: "extend_ttl IxCursor ?s3 = (Inr (?s3\<lparr>ix_ttl := t3\<rparr>) :: ('a, index_slot) res)"
      using extend_ttl_ok [of ?s3 IxCursor] by auto
    obtain t4 where t4: "extend_ttl IxLegacy (?s3\<lparr>ix_ttl := t3\<rparr>) = (Inr (?s3\<lparr>ix_ttl := t4\<rparr>) :: ('a, index_slot) res)"
      using extend_ttl_ok [of "?s3\<lparr>ix_ttl := t3\<rparr>" IxLegacy] assms(4) by auto
    have "index_rep (?s3\<lparr>ix_ttl := t4\<rparr>) xs"
      using assms True by (intro index_repI [of _ _ l c]) auto
    then show ?thesis using t1 t2 t3 t4 True by (simp add: migrate_finish_def)
  qed
qed

lemma migrate_core:
  assumes "0 < l" and "l \<le> length xs" and "ix_pages s = layout l c xs" and "ix_legacy s = Some (take l xs)"
    and "c < l" and "c mod 100 = 0" and "length xs + 100 \<le> U32_MAX" and "0 < cap"
  shows "\<exists>s'. and_then (migrate_pages (take l xs) l cap c 0 s) (migrate_finish l (length xs)) = Inr (length xs, s') \<and>
    index_rep s' xs \<and> ix_count s' = Some (length xs)"
proof -
  have len: "length (take l xs) = l" using assms(2) by simp
  obtain c' t where m: "migrate_pages (take l xs) l cap c 0 s =
       (Inr (c', s\<lparr>ix_pages := (\<lambda>p. if c \<le> 100 * p \<and> 100 * p < c' then chunk (take l xs) p else ix_pages s p), ix_ttl := t\<rparr>)
         :: ('a, nat \<times> index_slot) res)" and c': "c < c'" "c' = l \<or> c' < l \<and> c' mod 100 = 0"
    using migrate_pages_eq [of "take l xs" c 0 cap s, unfolded len, OF _ assms(6,5,8)] assms(2,7)
    by (elim exE conjE meta_impE) (simp, rule that)
  let ?s1 = "s\<lparr>ix_pages := (\<lambda>p. if c \<le> 100 * p \<and> 100 * p < c' then chunk (take l xs) p else ix_pages s p), ix_ttl := t\<rparr>"
  have "c' \<le> l" using c'(2) by auto
  from layout_advance [OF c'(1) this, of xs] have "ix_pages ?s1 = layout l c' xs" by (simp add: assms(3) cong: if_cong)
  then show ?thesis
    using migrate_finish_rep [of l xs ?s1 c'] assms(1,2,4) c'(2) m by simp
qed

lemma migrate_legacy_index_rep:
  assumes "index_rep s xs" and "length xs + 100 \<le> U32_MAX"
  shows "\<exists>s'. migrate_legacy_index k s = Inr (length xs, s') \<and> index_rep s' xs \<and>
     (0 < k \<longrightarrow> ix_count s' = None \<longrightarrow> xs = [] \<and> ix_legacy s' = None)"
proof (cases "ix_legacy s")
  case None
  then show ?thesis using assms(1) by (auto simp: migrate_legacy_index_def index_rep_def split: option.splits)
next
  case (Some es)
  obtain l c where lc: "l \<le> length xs" "es = take l xs" "c < l \<or> l = 0" "100 dvd c" "ix_pages s = layout l c xs"
    "(case ix_legacy_count s of Some n \<Rightarrow> n | None \<Rightarrow> length es) = l"
    "(case ix_count s of Some n \<Rightarrow> n | None \<Rightarrow> l) = length xs" "(case ix_cursor s of Some n \<Rightarrow> n | None \<Rightarrow> 0) = c"
    "l = 0 \<longrightarrow> xs = [] \<and> ix_count s = None"
  proof (cases "ix_count s")
    case None
    have "layout (length xs) 0 xs = (\<lambda>p. None)" by (auto simp: layout_def fun_eq_iff)
    then show thesis using that [of "length xs" 0] None Some assms(1) by (auto simp: index_rep_def)
  next
    case (Some n)
    then show thesis using that assms(1) \<open>ix_legacy s = Some es\<close>
      by (auto simp: index_rep_def split: if_splits)
  qed
  note un = migrate_legacy_index_def Some option.case Let_def lc(6,7,8) migrate_finish_def [symmetric]
  show ?thesis
  proof (cases "l = 0")
    case True
    then show ?thesis
      using lc(9) assms(1) unfolding un by (simp add: index_rep_def)
  next
    case False
    then have cl: "c < l" using lc(3) by simp
    show ?thesis
    proof (cases "min k MAX_MIGRATION_PAGES = 0")
      case True
      then have "k = 0" by (simp add: MAX_MIGRATION_PAGES_def)
      then show ?thesis using cl assms(1) unfolding un by simp
    next
      case k: False
      then have "0 < min k MAX_MIGRATION_PAGES" by simp
      from migrate_core [OF _ lc(1,5) _ cl _ assms(2) this] obtain s' where
        "and_then (migrate_pages (take l xs) l (min k MAX_MIGRATION_PAGES) c 0 s) (migrate_finish l (length xs)) =
          (Inr (length xs, s') :: ('a, nat \<times> index_slot) res)" "index_rep s' xs" "ix_count s' = Some (length xs)"
        using lc(2,4) Some cl by auto
      then show ?thesis using cl lc(2) unfolding un if_not_P [OF k] by (intro exI [of _ s']) simp
    qed
  qed
qed

section \<open>Appending adds at the end\<close>

lemma append_base_eq: "l + 100 \<le> U32_MAX \<Longrightarrow> append_base l = Inr (100 * legacy_pages l)"
proof -
  assume l: "l + 100 \<le> U32_MAX"
  have "0 < l \<Longrightarrow> (l - 1) div 100 + 1 = (l + 99) div 100"
    by (cases l) auto
  then have "0 < l \<Longrightarrow> ((l - 1) div 100 + 1) * 100 = 100 * legacy_pages l" by (simp add: legacy_pages_def)
  moreover have "100 * legacy_pages l \<le> l + 99" by (simp add: legacy_pages_def)
  ultimately show ?thesis
    using l by (cases "l = 0") (auto simp: append_base_def legacy_pages_def Let_def)
qed

lemma physical_appended:
  assumes "l \<le> n" and "n + 100 \<le> U32_MAX"
  shows "logical_to_physical_offset n (if l = 0 then None else Some l) = Inr (100 * legacy_pages l + (n - l))"
proof -
  have "100 * legacy_pages l \<le> l + 99" by (simp add: legacy_pages_def)
  then have "100 * legacy_pages l + (n - l) \<le> U32_MAX" using assms by simp
  then show ?thesis
    using assms
    by (cases "l = 0") (auto simp: logical_to_physical_offset_def append_base_eq u32_saturating_add_def legacy_pages_def)
qed

lemma layout_append:
  assumes "l \<le> length xs"
  defines "p \<equiv> legacy_pages l + (length xs - l) div 100"
  shows "layout l c (xs @ [x]) = (layout l c xs)(p := Some ((case layout l c xs p of None \<Rightarrow> [] | Some z \<Rightarrow> z) @ [x]))"
proof
  fix q
  have "take l (xs @ [x]) = take l xs" "drop l (xs @ [x]) = drop l xs @ [x]" "length (drop l xs) = length xs - l"
    using assms(1) by simp_all
  then show "layout l c (xs @ [x]) q = ((layout l c xs)(p := Some ((case layout l c xs p of None \<Rightarrow> [] | Some z \<Rightarrow> z) @ [x]))) q"
    using chunk_append [of "drop l xs" x] by (auto simp: layout_def p_def)
qed

lemma append_index_entry_rep:
  assumes "index_rep s xs" and "length xs + 100 \<le> U32_MAX"
  shows "\<exists>s'. append_index_entry seq x s = Inr s' \<and> index_rep s' (xs @ [x])"
proof -
  obtain s1 where m: "migrate_legacy_index 1 s = (Inr (length xs, s1) :: ('a, nat \<times> index_slot) res)" and r: "index_rep s1 xs"
    and e: "ix_count s1 = None \<longrightarrow> xs = [] \<and> ix_legacy s1 = None"
    using migrate_legacy_index_rep [OF assms, of 1] by auto
  obtain l c where l: "l \<le> length xs" "ix_legacy_count s1 = (if l = 0 then None else Some l)" "ix_pages s1 = layout l c xs"
    and lc: "if c < l then ix_legacy s1 = Some (take l xs) \<and> ix_cursor s1 = Some c \<and> c mod 100 = 0
         else c = l \<and> ix_legacy s1 = None \<and> ix_cursor s1 = None"
  proof (cases "ix_count s1")
    case None
    have "layout 0 0 [] = (\<lambda>p. None)" by (auto simp: layout_def fun_eq_iff)
    then show thesis using that [of 0 0] None r e by (simp add: index_rep_def)
  next
    case (Some n)
    then show thesis using r that unfolding index_rep_def by auto
  qed
  define p where "p = legacy_pages l + (length xs - l) div 100"
  define page where "page = (case layout l c xs p of None \<Rightarrow> [] | Some z \<Rightarrow> z)"
  have off: "(100 * legacy_pages l + (length xs - l)) div 100 = p" by (simp add: p_def)
  obtain t where w: "write_page p (page @ [x]) s1 =
      (Inr (s1\<lparr>ix_pages := (ix_pages s1)(p := Some (page @ [x])), ix_ttl := t\<rparr>) :: ('a, index_slot) res)"
    using write_page_ok by blast
  define s2 where "s2 = s1\<lparr>ix_pages := (ix_pages s1)(p := Some (page @ [x])), ix_ttl := t, ix_count := Some (length xs + 1)\<rparr>"
  obtain t2 where t2: "extend_ttl IxCount s2 = (Inr (s2\<lparr>ix_ttl := t2\<rparr>) :: ('a, index_slot) res)"
    using extend_ttl_ok [of s2 IxCount] by (auto simp: s2_def)
  obtain t3 where t3: "extend_page_ttls seq (length xs + 1) (s2\<lparr>ix_ttl := t2\<rparr>) = (Inr (s2\<lparr>ix_ttl := t3\<rparr>) :: ('a, index_slot) res)"
    using extend_page_ttls_ok [of seq "length xs + 1" "s2\<lparr>ix_ttl := t2\<rparr>"] by auto
  have sat: "u32_saturating_add (length xs) 1 = length xs + 1" using assms(2) by (simp add: u32_saturating_add_def)
  have "append_index_entry seq x s = (Inr (s2\<lparr>ix_ttl := t3\<rparr>) :: ('a, index_slot) res)"
    unfolding append_index_entry_def MIGRATION_PAGES_PER_APPEND_def m and_then_Inr prod.case l(2,3)
      physical_appended [OF l(1) assms(2)] Let_def page_size off page_def [symmetric] w sat s2_def [symmetric]
    using t2 t3 by (simp add: s2_def l(3))
  moreover have "index_rep (s2\<lparr>ix_ttl := t3\<rparr>) (xs @ [x])"
    using l lc layout_append [OF l(1), of c x] by (intro index_repI [of _ _ l c]) (auto simp: s2_def p_def page_def)
  ultimately show ?thesis by blast
qed

section \<open>Reading returns the window\<close>

lemma chunk_lookup:
  "i < length ys \<Longrightarrow> \<exists>z. chunk ys (i div 100) = Some z \<and> i mod 100 < length z \<and> z ! (i mod 100) = ys ! i"
proof -
  assume i: "i < length ys"
  have d: "100 * (i div 100) + i mod 100 = i" by simp
  then have "i mod 100 < length ys - 100 * (i div 100)" using i by linarith
  then have "i mod 100 < length (take 100 (drop (100 * (i div 100)) ys))" by simp
  moreover have "take 100 (drop (100 * (i div 100)) ys) ! (i mod 100) = ys ! i" using i d by simp
  ultimately show ?thesis using i by (auto simp: chunk_def)
qed

definition physical :: "nat \<Rightarrow> nat \<Rightarrow> nat" where
  "physical l i = (if l \<le> i then 100 * legacy_pages l + (i - l) else i)"

lemma physical_eq:
  assumes "l \<le> n" and "i < n" and "n + 100 \<le> U32_MAX"
  shows "logical_to_physical_offset i (if l = 0 then None else Some l) = Inr (physical l i)"
proof (cases "l \<le> i")
  case True
  then show ?thesis using physical_appended [of l i] assms by (simp add: physical_def)
next
  case False
  then show ?thesis by (simp add: logical_to_physical_offset_def physical_def)
qed

lemma layout_lookup:
  assumes "l \<le> length xs" and "i < length xs" and "i < l \<Longrightarrow> i < c"
  shows "\<exists>z. layout l c xs (physical l i div 100) = Some z \<and> physical l i mod 100 < length z \<and>
     z ! (physical l i mod 100) = xs ! i"
proof (cases "l \<le> i")
  case True
  then obtain k where k: "i = l + k" using le_Suc_ex by blast
  have "physical l i div 100 = legacy_pages l + (i - l) div 100" "physical l i mod 100 = (i - l) mod 100"
    unfolding k by (simp_all add: physical_def)
  then show ?thesis
    using chunk_lookup [of "i - l" "drop l xs"] assms(2) True by (simp add: layout_def)
next
  case False
  have "100 * (i div 100) \<le> i" by simp
  then have "i div 100 < legacy_pages l" "100 * (i div 100) < c"
    using False assms(3) by (auto simp: legacy_pages_def)
  then show ?thesis
    using chunk_lookup [of i "take l xs"] assms(2) False by (simp add: layout_def physical_def)
qed

lemma collect_page_ok:
  "\<exists>t. collect_page p s = Inr (case ix_pages s p of Some z \<Rightarrow> z | None \<Rightarrow> [], s\<lparr>ix_ttl := t\<rparr>)"
proof -
  obtain t where "extend_if_present (IxPage p) s = (Inr (s\<lparr>ix_ttl := t\<rparr>) :: ('a, index_slot) res)"
    using extend_if_present_ok by blast
  then show ?thesis by (auto simp: collect_page_def)
qed

lemma read_loop_step:
  assumes "l \<le> length xs" and "lcount = (if l = 0 then None else Some l)" and "ix_pages s = layout l c xs"
    and "if c < l then legacy = Some (take l xs) \<and> cursor = Some c else c = l \<and> legacy = None \<and> cursor = None"
    and "length xs + 100 \<le> U32_MAX" and "i < stop" and "stop \<le> length xs"
  shows "\<exists>t. read_loop lcount cursor legacy stop i acc s =
     read_loop lcount cursor legacy stop (Suc i) (acc @ [xs ! i]) (s\<lparr>ix_ttl := t\<rparr>)"
proof (cases "c < l \<and> c \<le> i \<and> i < l")
  case True
  then have "read_loop lcount cursor legacy stop i acc s =
     (read_loop lcount cursor legacy stop (Suc i) (acc @ [xs ! i]) (s\<lparr>ix_ttl := ix_ttl s\<rparr>) :: ('a, int list \<times> index_slot) res)"
    using assms by (subst read_loop.simps) (simp add: entry_at_def)
  then show ?thesis by blast
next
  case False
  have i: "i < length xs" "i < l \<Longrightarrow> i < c" using False assms(4,6,7) by (auto split: if_splits)
  obtain z where z: "layout l c xs (physical l i div 100) = Some z" "physical l i mod 100 < length z"
    "z ! (physical l i mod 100) = xs ! i"
    using layout_lookup [OF assms(1) i] by blast
  obtain t where t: "collect_page (physical l i div 100) s =
      (Inr (case ix_pages s (physical l i div 100) of Some z \<Rightarrow> z | None \<Rightarrow> [], s\<lparr>ix_ttl := t\<rparr>) :: ('a, int list \<times> index_slot) res)"
    using collect_page_ok by blast
  have ph: "logical_to_physical_offset i lcount = (Inr (physical l i) :: ('a, nat) res)"
    using physical_eq [OF assms(1) i(1) assms(5)] assms(2) by simp
  have "read_loop lcount cursor legacy stop i acc s =
     (read_loop lcount cursor legacy stop (Suc i) (acc @ [xs ! i]) (s\<lparr>ix_ttl := t\<rparr>) :: ('a, int list \<times> index_slot) res)"
    using False assms(2,4,6) z t ph
    by (subst read_loop.simps) (auto simp: assms(3) split: option.splits if_splits)
  then show ?thesis by blast
qed

lemma read_loop_eq:
  assumes "l \<le> length xs" and "lcount = (if l = 0 then None else Some l)" and "ix_pages s = layout l c xs"
    and "if c < l then legacy = Some (take l xs) \<and> cursor = Some c else c = l \<and> legacy = None \<and> cursor = None"
    and "length xs + 100 \<le> U32_MAX" and "stop \<le> length xs"
  shows "\<exists>t. read_loop lcount cursor legacy stop i acc s = Inr (acc @ take (stop - i) (drop i xs), s\<lparr>ix_ttl := t\<rparr>)"
  using assms(3)
proof (induction "stop - i" arbitrary: i acc s)
  case 0
  then show ?case by (intro exI [of _ "ix_ttl s"]) (simp add: read_loop.simps)
next
  case (Suc d)
  then have i: "i < stop" by simp
  obtain t where st: "read_loop lcount cursor legacy stop i acc s =
     (read_loop lcount cursor legacy stop (Suc i) (acc @ [xs ! i]) (s\<lparr>ix_ttl := t\<rparr>) :: ('a, int list \<times> index_slot) res)"
    using read_loop_step [OF assms(1,2) Suc.prems assms(4,5) i assms(6)] by blast
  have d: "d = stop - Suc i" using Suc.hyps(2) by simp
  obtain t' where "read_loop lcount cursor legacy stop (Suc i) (acc @ [xs ! i]) (s\<lparr>ix_ttl := t\<rparr>) =
      (Inr ((acc @ [xs ! i]) @ take (stop - Suc i) (drop (Suc i) xs), s\<lparr>ix_ttl := t\<rparr>\<lparr>ix_ttl := t'\<rparr>) :: ('a, int list \<times> index_slot) res)"
    using Suc.hyps(1) [OF d, of "s\<lparr>ix_ttl := t\<rparr>" "acc @ [xs ! i]"] Suc.prems by auto
  moreover have "take (stop - i) (drop i xs) = xs ! i # take (stop - Suc i) (drop (Suc i) xs)"
    using i assms(6) by (simp add: Cons_nth_drop_Suc [symmetric] Suc_diff_Suc [symmetric])
  ultimately show ?case using st by auto
qed

lemma paginate_eq: "paginate v offset limit = take (min limit 100) (drop offset v)"
  by (rule nth_equalityI) (auto simp: paginate_def Let_def less_diff_conv add.commute)

text \<open>The window a read returns.\<close>

definition window :: "nat \<Rightarrow> nat \<Rightarrow> int list \<Rightarrow> int list" where
  "window offset limit xs = take (min limit 100) (drop offset xs)"

lemma read_index_rep:
  assumes "index_rep s xs" and "length xs + 100 \<le> U32_MAX"
  shows "\<exists>t. read_index seq offset limit s = Inr (window offset limit xs, s\<lparr>ix_ttl := t\<rparr>)"
proof (cases "ix_count s")
  case None
  obtain t where "extend_if_present IxLegacy s = (Inr (s\<lparr>ix_ttl := t\<rparr>) :: ('a, index_slot) res)"
    using extend_if_present_ok by blast
  then show ?thesis
    using None assms(1) by (auto simp: read_index_def index_rep_def paginate_eq window_def)
next
  case (Some n)
  then obtain l c where n: "n = length xs" and l: "l \<le> length xs" "ix_legacy_count s = (if l = 0 then None else Some l)"
    "ix_pages s = layout l c xs"
    and lc: "if c < l then ix_legacy s = Some (take l xs) \<and> ix_cursor s = Some c \<and> c mod 100 = 0
         else c = l \<and> ix_legacy s = None \<and> ix_cursor s = None"
    using assms(1) unfolding index_rep_def by auto
  obtain t1 where t1: "extend_ttl IxCount s = (Inr (s\<lparr>ix_ttl := t1\<rparr>) :: ('a, index_slot) res)"
    using extend_ttl_ok [of s IxCount] Some by auto
  obtain t2 where t2: "extend_page_ttls seq n (s\<lparr>ix_ttl := t1\<rparr>) = (Inr (s\<lparr>ix_ttl := t2\<rparr>) :: ('a, index_slot) res)"
    using extend_page_ttls_ok [of seq n "s\<lparr>ix_ttl := t1\<rparr>"] by auto
  obtain t3 where t3: "extend_if_present IxLegacyCount (s\<lparr>ix_ttl := t2\<rparr>) = (Inr (s\<lparr>ix_ttl := t3\<rparr>) :: ('a, index_slot) res)"
    using extend_if_present_ok [of IxLegacyCount "s\<lparr>ix_ttl := t2\<rparr>"] by auto
  obtain t4 where t4: "extend_if_present IxCursor (s\<lparr>ix_ttl := t3\<rparr>) = (Inr (s\<lparr>ix_ttl := t4\<rparr>) :: ('a, index_slot) res)"
    using extend_if_present_ok [of IxCursor "s\<lparr>ix_ttl := t3\<rparr>"] by auto
  obtain t5 where t5: "extend_if_present IxLegacy (s\<lparr>ix_ttl := t4\<rparr>) = (Inr (s\<lparr>ix_ttl := t5\<rparr>) :: ('a, index_slot) res)"
    using extend_if_present_ok [of IxLegacy "s\<lparr>ix_ttl := t4\<rparr>"] by auto
  show ?thesis
  proof (cases "n \<le> offset")
    case True
    then show ?thesis using Some t1 t2 n by (auto simp: read_index_def window_def)
  next
    case False
    let ?stop = "min (u32_saturating_add offset (min limit 100)) n"
    have "?stop - offset = min (min limit 100) (n - offset)"
      using False n assms(2) by (auto simp: u32_saturating_add_def)
    then have w: "take (?stop - offset) (drop offset xs) = window offset limit xs"
      using n by (simp add: window_def min_def)
    have lc': "if c < l then ix_legacy s = Some (take l xs) \<and> ix_cursor s = Some c
        else c = l \<and> ix_legacy s = None \<and> ix_cursor s = None" using lc by (auto split: if_splits)
    have "?stop \<le> length xs" using n by simp
    then obtain t where "read_loop (ix_legacy_count s) (ix_cursor s) (ix_legacy s) ?stop offset [] (s\<lparr>ix_ttl := t5\<rparr>) =
        (Inr (window offset limit xs, s\<lparr>ix_ttl := t\<rparr>) :: ('a, int list \<times> index_slot) res)"
      using read_loop_eq [OF l(1,2) _ lc' assms(2), of "s\<lparr>ix_ttl := t5\<rparr>" ?stop offset "[]"] l(3) w by auto
    then show ?thesis using Some t1 t2 t3 t4 t5 False by (auto simp: read_index_def Let_def)
  qed
qed

lemma count_index_rep:
  assumes "index_rep s xs"
  shows "\<exists>t. count_index s = Inr (length xs, s\<lparr>ix_ttl := t\<rparr>)"
proof (cases "ix_count s")
  case None
  obtain t where "extend_if_present IxLegacy s = (Inr (s\<lparr>ix_ttl := t\<rparr>) :: ('a, index_slot) res)"
    using extend_if_present_ok by blast
  then show ?thesis using None assms by (auto simp: count_index_def index_rep_def)
next
  case (Some n)
  then obtain t where "extend_ttl IxCount s = (Inr (s\<lparr>ix_ttl := t\<rparr>) :: ('a, index_slot) res)"
    using extend_ttl_ok [of s IxCount] by auto
  then show ?thesis using Some assms by (auto simp: count_index_def index_rep_def)
qed

section \<open>The registry interface\<close>

text \<open>
  What the factory relies on: an index stands for a list, every operation
  succeeds while there is room and adds at most one entry at the end, and a
  query returns the requested window and the length.
\<close>

locale list_registry =
  fixes rep :: "'s \<Rightarrow> int list \<Rightarrow> bool"
    and exec :: "'o \<Rightarrow> 's \<Rightarrow> ('e, 's) res"
    and effect :: "'o \<Rightarrow> int list"
    and query :: "nat \<Rightarrow> nat \<Rightarrow> 's \<Rightarrow> ('e, (int list \<times> nat) \<times> 's) res"
    and capacity :: nat
  assumes exec_law: "rep s xs \<Longrightarrow> length xs < capacity \<Longrightarrow> \<exists>s'. exec op s = Inr s' \<and> rep s' (xs @ effect op)"
    and effect_law: "length (effect op) \<le> 1"
    and query_law: "rep s xs \<Longrightarrow> length xs \<le> capacity \<Longrightarrow>
      \<exists>s'. query offset limit s = Inr ((take (min limit 100) (drop offset xs), length xs), s') \<and> rep s' xs"
begin

fun run :: "'o list \<Rightarrow> 's \<Rightarrow> ('e, 's) res" where
  "run [] s = Inr s"
| "run (op # ops) s = and_then (exec op s) (\<lambda>s1. run ops s1)"

lemma run_law:
  "rep s xs \<Longrightarrow> length xs + length ops \<le> capacity \<Longrightarrow>
     \<exists>s'. run ops s = Inr s' \<and> rep s' (xs @ concat (map effect ops))"
proof (induction ops arbitrary: s xs)
  case (Cons op ops)
  obtain s1 where s1: "exec op s = Inr s1" "rep s1 (xs @ effect op)"
    using exec_law [OF Cons.prems(1), of op] Cons.prems(2) by auto
  then show ?case using Cons.IH [OF s1(2)] Cons.prems(2) effect_law [of op] by auto
qed simp

text \<open>After any history a page holds exactly the ids of its window, and consecutive windows cover the list.\<close>

lemma query_after_run:
  assumes "rep s xs" and "length xs + length ops \<le> capacity"
  shows "\<exists>s1 s2. run ops s = Inr s1 \<and>
     query offset limit s1 = Inr ((take (min limit 100) (drop offset (xs @ concat (map effect ops))),
        length (xs @ concat (map effect ops))), s2) \<and> rep s2 (xs @ concat (map effect ops))"
proof -
  have "length (concat (map effect ops)) \<le> length ops"
    using effect_law by (induction ops) (auto intro: add_le_mono [of _ 1, simplified])
  then show ?thesis
    using run_law [OF assms] query_law [of _ "xs @ concat (map effect ops)" offset limit] assms(2) by fastforce
qed

end

datatype index_op = Append nat int | Migrate nat | Read nat nat nat

fun index_exec :: "index_op \<Rightarrow> index_slot \<Rightarrow> ('e, index_slot) res" where
  "index_exec (Append seq x) s = append_index_entry seq x s"
| "index_exec (Migrate k) s = and_then (migrate_index k s) (\<lambda>(_, s1). Inr s1)"
| "index_exec (Read seq offset limit) s = and_then (streams_by seq offset limit s) (\<lambda>(_, s1). Inr s1)"

fun index_effect :: "index_op \<Rightarrow> int list" where
  "index_effect (Append seq x) = [x]"
| "index_effect _ = []"

definition index_query :: "nat \<Rightarrow> nat \<Rightarrow> nat \<Rightarrow> index_slot \<Rightarrow> ('e, (int list \<times> nat) \<times> index_slot) res" where
  "index_query seq offset limit s =
     and_then (streams_by seq offset limit s) (\<lambda>(page, s1). Inr ((pg_ids page, pg_total page), s1))"

lemma streams_by_rep:
  assumes "index_rep s xs" and "length xs + 100 \<le> U32_MAX"
  shows "\<exists>t. streams_by seq offset limit s =
     Inr (\<lparr>pg_ids = window offset limit xs, pg_total = length xs\<rparr>, s\<lparr>ix_ttl := t\<rparr>)"
proof -
  obtain t where "read_index seq offset limit s = (Inr (window offset limit xs, s\<lparr>ix_ttl := t\<rparr>) :: ('a, int list \<times> index_slot) res)"
    using read_index_rep [OF assms] by blast
  moreover obtain t' where "count_index (s\<lparr>ix_ttl := t\<rparr>) = (Inr (length xs, s\<lparr>ix_ttl := t'\<rparr>) :: ('a, nat \<times> index_slot) res)"
    using count_index_rep [of "s\<lparr>ix_ttl := t\<rparr>" xs] assms(1) by auto
  ultimately show ?thesis by (auto simp: streams_by_def)
qed

definition index_capacity :: nat where
  "index_capacity = U32_MAX - 100"

interpretation stream_index: list_registry index_rep index_exec index_effect "index_query seq" index_capacity for seq
proof (unfold_locales, goal_cases)
  case (1 s xs op)
  then have cap: "length xs + 100 \<le> U32_MAX" by (simp add: index_capacity_def)
  show ?case
  proof (cases op)
    case (Append sq x)
    then show ?thesis using append_index_entry_rep [OF 1(1) cap] by auto
  next
    case (Migrate k)
    obtain s' where "migrate_legacy_index k s = (Inr (length xs, s') :: ('a, nat \<times> index_slot) res)" "index_rep s' xs"
      using migrate_legacy_index_rep [OF 1(1) cap] by blast
    then show ?thesis using Migrate by (simp add: migrate_index_def)
  next
    case (Read sq offset limit)
    obtain t where "streams_by sq offset limit s =
        (Inr (\<lparr>pg_ids = window offset limit xs, pg_total = length xs\<rparr>, s\<lparr>ix_ttl := t\<rparr>) :: ('a, stream_page \<times> index_slot) res)"
      using streams_by_rep [OF 1(1) cap] by blast
    then show ?thesis using Read 1(1) by simp
  qed
next
  case (2 op)
  then show ?case by (cases op) simp_all
next
  case (3 s xs offset limit)
  then have cap: "length xs + 100 \<le> U32_MAX" by (simp add: index_capacity_def U32_MAX_def)
  obtain t where "streams_by seq offset limit s =
      (Inr (\<lparr>pg_ids = window offset limit xs, pg_total = length xs\<rparr>, s\<lparr>ix_ttl := t\<rparr>) :: ('a, stream_page \<times> index_slot) res)"
    using streams_by_rep [OF 3(1) cap] by blast
  then show ?case using 3(1) by (simp add: index_query_def window_def)
qed

text \<open>Running a history of index operations.\<close>

fun index_run :: "index_op list \<Rightarrow> index_slot \<Rightarrow> ('e, index_slot) res" where
  "index_run [] s = Inr s"
| "index_run (op # ops) s = and_then (index_exec op s) (\<lambda>s1. index_run ops s1)"

lemma index_run_eq: "stream_index.run ops = index_run ops"
proof (induction ops)
  case (Cons op ops)
  show ?case by (rule ext) (simp add: Cons.IH)
qed (simp add: fun_eq_iff)

text \<open>
  C26.  The paged index is a list: starting from any list the old one-entry layout
  (or the new one) stores, after any interleaving of appends, partial migrations
  and reads, nothing has aborted, a query for a window returns exactly the ids of
  that window in creation order (at most 100), and the reported total is the
  number of ids, at every stage of the migration.
\<close>

theorem index_refines_list:
  assumes "index_rep s xs" and "length xs + length ops + 100 \<le> U32_MAX"
  shows "\<exists>s1 s2. index_run ops s = Inr s1 \<and>
     streams_by seq offset limit s1 = Inr (\<lparr>pg_ids = window offset limit (xs @ concat (map index_effect ops)),
       pg_total = length (xs @ concat (map index_effect ops))\<rparr>, s2)"
proof -
  have cap: "length xs + length ops \<le> index_capacity" using assms(2) unfolding index_capacity_def by linarith
  obtain s1 where s1: "stream_index.run ops s = (Inr s1 :: ('a, index_slot) res)" "index_rep s1 (xs @ concat (map index_effect ops))"
    using stream_index.run_law [OF assms(1), of ops] cap by blast
  have "length (concat (map index_effect ops)) \<le> length ops"
    by (induction ops) (auto intro: add_le_mono [OF stream_index.effect_law, simplified])
  then have "length (xs @ concat (map index_effect ops)) + 100 \<le> U32_MAX" using assms(2) by simp
  from streams_by_rep [OF s1(2) this] show ?thesis using s1(1) unfolding index_run_eq by blast
qed

text \<open>A legacy index of 150 ids, as the earlier version stored it.\<close>

definition legacy_index :: index_slot where
  "legacy_index = empty_index\<lparr>ix_legacy := Some (map int [0 ..< 150])\<rparr>"

lemma legacy_index_rep: "index_rep legacy_index (map int [0 ..< 150])"
  by (simp add: index_rep_def legacy_index_def empty_index_def)

theorem index_refines_list_witness:
  "\<exists>s1 s2 p. index_run [Append 7 1000, Read 7 0 50, Migrate 1, Append 8 1001] legacy_index = (Inr s1 :: (unit, index_slot) res) \<and>
     streams_by 9 149 10 s1 = (Inr (p, s2) :: (unit, stream_page \<times> index_slot) res) \<and> pg_total p = 152 \<and> pg_ids p = [149, 1000, 1001]"
proof -
  let ?ops = "[Append 7 1000, Read 7 0 50, Migrate 1, Append 8 1001]"
  have "window 149 10 (map int [0 ..< 150] @ concat (map index_effect ?ops)) = [149, 1000, 1001]"
    by (simp add: window_def drop_map upt_conv_Cons)
  then obtain s1 s2 where "index_run ?ops legacy_index = (Inr s1 :: (unit, index_slot) res)"
    "streams_by 9 149 10 s1 = (Inr (\<lparr>pg_ids = [149, 1000, 1001], pg_total = 152\<rparr>, s2) :: (unit, stream_page \<times> index_slot) res)"
    using index_refines_list [OF legacy_index_rep, of ?ops 9 149 10] by (auto simp: U32_MAX_def simp del: index_run.simps)
  then show ?thesis by (intro exI [of _ s1] exI [of _ s2] exI [of _ "\<lparr>pg_ids = [149, 1000, 1001], pg_total = 152\<rparr>"]) simp
qed

end
