(* ===== verification/Factory_Registry.thy ===== *)
theory Factory_Registry
  imports Factory Factory_Index_Correct
begin

text \<open>
  The factory's registry refines a plain list of registrations: the counter, the
  id-to-address table, the set of known streams, the two indices and the total in
  the aggregate always describe the same list, whatever calls are made and
  whatever other contracts do in between.
\<close>

section \<open>The abstract registry\<close>

record registration =
  rg_sender :: address
  rg_recipient :: address
  rg_addr :: address

definition ids_where :: "(registration \<Rightarrow> bool) \<Rightarrow> registration list \<Rightarrow> int list" where
  "ids_where P rs = map int (filter (\<lambda>i. P (rs ! i)) [0 ..< length rs])"

lemma ids_where_Nil [simp]: "ids_where P [] = []"
  by (simp add: ids_where_def)

lemma ids_where_snoc:
  "ids_where P (rs @ [r]) = ids_where P rs @ (if P r then [int (length rs)] else [])"
proof -
  have "filter (\<lambda>i. P ((rs @ [r]) ! i)) [0 ..< length rs] = filter (\<lambda>i. P (rs ! i)) [0 ..< length rs]"
    by (rule filter_cong) (auto simp: nth_append)
  then show ?thesis by (simp add: ids_where_def)
qed

lemma length_ids_where: "length (ids_where P rs) \<le> length rs"
  unfolding ids_where_def by (metis length_filter_le length_map length_upt minus_nat.diff_0)

definition factory_rep :: "'w factory \<Rightarrow> registration list \<Rightarrow> bool" where
  "factory_rep s rs \<longleftrightarrow>
     fk_StreamCount s = Some (int (length rs)) \<and>
     fk_StreamAddr s = (\<lambda>i. if 0 \<le> i \<and> i < int (length rs) then Some (rg_addr (rs ! nat i)) else None) \<and>
     fk_IsKnownStream s = (\<lambda>a. if a \<in> rg_addr ` set rs then Some True else None) \<and>
     (\<forall>a. index_rep (fk_BySender s a) (ids_where (\<lambda>r. rg_sender r = a) rs)) \<and>
     (\<forall>a. index_rep (fk_ByRecipient s a) (ids_where (\<lambda>r. rg_recipient r = a) rs)) \<and>
     ag_total_supply (read_aggregate s) = int (length rs) \<and>
     distinct (map rg_addr rs) \<and> (\<forall>a\<in>rg_addr ` set rs. fa_contracts s a \<noteq> None)"

section \<open>Calls that leave the registry alone\<close>

definition registry_kept :: "'w factory \<Rightarrow> 'w factory \<Rightarrow> bool" where
  "registry_kept s s' \<longleftrightarrow>
     fk_StreamCount s' = fk_StreamCount s \<and> fk_StreamAddr s' = fk_StreamAddr s \<and>
     fk_IsKnownStream s' = fk_IsKnownStream s \<and> fk_BySender s' = fk_BySender s \<and>
     fk_ByRecipient s' = fk_ByRecipient s \<and>
     ag_total_supply (read_aggregate s') = ag_total_supply (read_aggregate s) \<and>
     (\<forall>a. fa_contracts s a \<noteq> None \<longrightarrow> fa_contracts s' a \<noteq> None)"

named_theorems kept_intros "operations that leave the registry alone"

lemma registry_kept_refl [kept_intros]: "registry_kept s s"
  by (simp add: registry_kept_def)

lemma registry_kept_trans: "registry_kept s1 s2 \<Longrightarrow> registry_kept s2 s3 \<Longrightarrow> registry_kept s1 s3"
  by (auto simp: registry_kept_def)

lemma factory_rep_kept: "factory_rep s rs \<Longrightarrow> registry_kept s s' \<Longrightarrow> factory_rep s' rs"
  by (auto simp: factory_rep_def registry_kept_def)

lemma kept_updates [kept_intros]:
  "registry_kept s (s\<lparr>fk_Paused := p\<rparr>)"
  "registry_kept s (s\<lparr>fk_CreateLock := l\<rparr>)"
  "registry_kept s (s\<lparr>fk_LastBumpedId := n\<rparr>)"
  "registry_kept s (s\<lparr>fk_StreamWasmHash := h\<rparr>)"
  "registry_kept s (s\<lparr>fk_SaltUsed := u\<rparr>)"
  "registry_kept s (s\<lparr>fk_CancelledStream := x\<rparr>)"
  "registry_kept s (s\<lparr>fa_code := k\<rparr>)"
  "registry_kept s (s\<lparr>fa_world := w\<rparr>)"
  "registry_kept s (s\<lparr>fa_ttl := t\<rparr>)"
  "registry_kept s (renew_instance s)"
  "registry_kept s (emit ev s)"
  "factory_set_paused e b s = Inr s' \<Longrightarrow> registry_kept s s'"
  by (auto simp: registry_kept_def read_aggregate_def renew_instance_def emit_def factory_set_paused_def and_then_eq_Inr)

lemma renew_eq_Inr [res_simps]: "renew k s = Inr s' \<longleftrightarrow> fk_present s k \<and>
    s' = s\<lparr>fa_ttl := fa_ttl s @ [ExtendPersistent k MIN_TTL_LEDGERS EXTEND_TTL_LEDGERS]\<rparr>"
  by (auto simp: renew_def bump_persistent_def)

lemma renew_kept [kept_intros]: "renew k s = Inr s' \<Longrightarrow> registry_kept s s'"
  by (auto simp: renew_eq_Inr intro: kept_intros)

lemma require_not_paused_kept [kept_intros]: "factory_require_not_paused e s = Inr s' \<Longrightarrow> registry_kept s s'"
  by (auto simp: factory_require_not_paused_def res_simps intro: kept_intros)

lemma is_paused_kept [kept_intros]: "factory_is_paused e s = (b, s') \<Longrightarrow> registry_kept s s'"
  by (auto simp: factory_is_paused_def split: prod.splits intro: kept_intros)

lemma bump_ids_kept: "bump_ids n cur is acc s = Inr (r, s') \<Longrightarrow> registry_kept s s'"
proof (induction "is" arbitrary: acc s)
  case Nil
  then show ?case by (cases acc) (simp add: kept_intros)
next
  case (Cons i "is")
  then show ?case
    by (cases acc) (auto simp: Let_def res_simps split: if_splits intro: registry_kept_trans [OF kept_updates(9)])
qed

lemma bump_bucket_kept [kept_intros]: "bump_persistent_bucket s = Inr (n, s') \<Longrightarrow> registry_kept s s'"
  by (auto simp: bump_persistent_bucket_def Let_def res_simps split: if_splits option.splits
      intro: kept_intros registry_kept_trans [OF bump_ids_kept])

lemma on_stream_success:
  assumes "on_stream c addr call s = Inr (r, s')"
  obtains ct code st where "fa_contracts s addr = Some ct" and "ch_uploaded c (ct_code ct) = Some code"
    and "call code ((ch_env c)\<lparr>contract_address := addr\<rparr>) ((ct_state ct)\<lparr>st_world := fa_world s\<rparr>) = Inr (r, st)"
    and "s' = s\<lparr>fa_world := st_world st, fa_contracts := (fa_contracts s)(addr \<mapsto> ct\<lparr>ct_state := st\<rparr>)\<rparr>"
  using assms by (auto simp: on_stream_def split: option.splits sum.splits)

lemma on_stream_kept [kept_intros]: "on_stream c addr call s = Inr (r, s') \<Longrightarrow> registry_kept s s'"
  by (auto elim!: on_stream_success simp: registry_kept_def read_aggregate_def)

lemma mark_cancel_kept [kept_intros]: "mark_cancel a s = Inr s' \<Longrightarrow> registry_kept s s'"
  by (auto simp: mark_cancel_def Let_def res_simps registry_kept_def read_aggregate_def split: option.splits)

lemma factory_transfer_kept [kept_intros]: "factory_transfer e tok src dst amt s = Inr s' \<Longrightarrow> registry_kept s s'"
  by (auto simp: factory_transfer_def res_simps intro: kept_intros)

lemma confirmed_transfer_kept [kept_intros]: "confirmed_transfer e err tok src dst amt s = Inr s' \<Longrightarrow> registry_kept s s'"
  by (auto simp: confirmed_transfer_def res_simps if_Inl_eq_Inr intro: kept_intros)

lemma cancel_each_kept: "cancel_each c sender as s = Inr s' \<Longrightarrow> registry_kept s s'"
proof (induction "as" arbitrary: s)
  case (Cons a "as")
  then show ?case
    by (auto simp: res_simps split: if_splits
        intro: registry_kept_trans [OF on_stream_kept] registry_kept_trans [OF mark_cancel_kept])
qed (simp add: kept_intros)

lemma resolve_each_kept: "resolve_each ids out s = Inr (r, s') \<Longrightarrow> registry_kept s s'"
proof (induction ids arbitrary: out s)
  case (Cons i ids)
  then show ?case
    by (auto simp: res_simps stream_address_def split: option.splits intro: registry_kept_trans [OF kept_updates(9)])
qed (simp add: kept_intros)

text \<open>The administrative calls and the cancellations.\<close>

lemma cancel_batch_kept: "cancel_batch_streams c sender as s = Inr s' \<Longrightarrow> registry_kept s s'"
  by (auto simp: cancel_batch_streams_def res_simps if_Inl_eq_Inr intro: cancel_each_kept)

lemma record_cancel_kept: "record_cancel c a s = Inr s' \<Longrightarrow> registry_kept s s'"
  by (auto simp: record_cancel_def res_simps split: if_splits option.splits
      intro: kept_intros registry_kept_trans [OF on_stream_kept])

lemma upgrade_stream_wasm_kept:
  assumes "upgrade_stream_wasm c h s = Inr s'"
  shows "registry_kept s s'"
proof -
  obtain s1 n s2 where s1: "factory_require_not_paused (ch_env c) s = Inr s1"
    and s2: "bump_persistent_bucket (renew_instance s1) = (Inr (n, s2) :: (factory_error, int \<times> 'a factory) res)"
    and s': "s' = s2 \<or> (\<exists>ev. s' = emit ev (s2\<lparr>fk_StreamWasmHash := Some h\<rparr>))"
    using assms unfolding upgrade_stream_wasm_def set_stream_wasm_hash_def res_simps if_Inl_eq_Inr
    by (auto split: if_splits)
  have "registry_kept s s2"
    using require_not_paused_kept [OF s1] kept_updates(10) [of s1] bump_bucket_kept [OF s2]
    by (blast intro: registry_kept_trans)
  then show ?thesis
    using s' kept_updates(4) [of s2] kept_updates(11) by (blast intro: registry_kept_trans)
qed

lemma upgrade_self_kept:
  assumes "upgrade_self c h v s = Inr s'"
  shows "registry_kept s s'"
proof -
  obtain s1 ev where s1: "factory_require_not_paused (ch_env c) s = Inr s1"
    and s': "s' = emit ev ((renew_instance s1)\<lparr>fa_code := h\<rparr>)"
    using assms unfolding upgrade_self_def res_simps if_Inl_eq_Inr by blast
  have "registry_kept s1 s'"
    unfolding s' by (simp add: registry_kept_def emit_def renew_instance_def read_aggregate_def)
  then show ?thesis by (rule registry_kept_trans [OF require_not_paused_kept [OF s1]])
qed

lemma pause_kept:
  assumes "factory_pause c s = Inr s' \<or> factory_unpause c s = Inr s'"
  shows "registry_kept s s'"
proof -
  obtain p s1 where s1: "factory_is_paused (ch_env c) s = (p, s1)" by (metis surj_pair)
  obtain n s2 s3 ev b where s2: "bump_persistent_bucket (renew_instance s1) = (Inr (n, s2) :: (factory_error, int \<times> 'a factory) res)"
    and s3: "factory_set_paused (ch_env c) b s2 = Inr s3" and s': "s' = emit ev s3"
    using assms unfolding factory_pause_def factory_unpause_def s1 res_simps Let_def prod.case if_Inl_eq_Inr
    by (elim disjE exE conjE) (auto simp: and_then_eq_Inr split: if_splits)
  have "registry_kept s s2"
    using is_paused_kept [OF s1] kept_updates(10) [of s1] bump_bucket_kept [OF s2]
    by (blast intro: registry_kept_trans)
  then show ?thesis
    unfolding s' using kept_updates(11) kept_updates(12) [OF s3] by (blast intro: registry_kept_trans)
qed

section \<open>Creation adds one registration\<close>

lemma deploy_stream_success:
  assumes "deploy_stream c code stream_id call s = Inr (addr, s')"
  obtains codef st where "addr = ch_address_of c (compute_salt c stream_id)"
    and "fa_contracts s addr = None" and "ch_uploaded c code = Some codef"
    and "fk_SaltUsed s (compute_salt c stream_id) = None"
    and "call codef ((ch_env c)\<lparr>contract_address := addr\<rparr>) (fresh_stream (fa_world s)) = Inr ((), st)"
    and "s' = s\<lparr>fk_SaltUsed := (fk_SaltUsed s)(compute_salt c stream_id \<mapsto> True), fa_world := st_world st,
               fa_contracts := (fa_contracts s)(addr \<mapsto> \<lparr>ct_code = code, ct_state = st\<rparr>)\<rparr>"
proof -
  let ?salt = "compute_salt c stream_id" let ?addr = "ch_address_of c (compute_salt c stream_id)"
  let ?s2 = "s\<lparr>fa_contracts := (fa_contracts s)(?addr \<mapsto> \<lparr>ct_code = code, ct_state = fresh_stream (fa_world s)\<rparr>),
       fk_SaltUsed := (fk_SaltUsed s)(?salt \<mapsto> True)\<rparr>"
  have g: "fk_SaltUsed s ?salt = None" "fa_contracts s ?addr = None" "ch_uploaded c code \<noteq> None"
    using assms by (auto simp: deploy_stream_def host_deploy_def Let_def split: if_splits)
  then have eq: "deploy_stream c code stream_id call s = and_then (on_stream c ?addr call ?s2) (\<lambda>(_, s3). Inr (?addr, s3))"
    by (auto simp: deploy_stream_def host_deploy_def Let_def)
  obtain u where call: "on_stream c ?addr call ?s2 = (Inr (u, s') :: (factory_error, unit \<times> 'a factory) res)"
    and addr: "addr = ?addr"
    using assms unfolding eq and_then_eq_Inr split_paired_Ex prod.case sum.inject prod.inject by blast
  show thesis
    using call
  proof (rule on_stream_success)
    fix ct codef st
    assume "fa_contracts ?s2 ?addr = Some ct" "ch_uploaded c (ct_code ct) = Some codef"
      "call codef ((ch_env c)\<lparr>contract_address := ?addr\<rparr>) ((ct_state ct)\<lparr>st_world := fa_world ?s2\<rparr>) = Inr (u, st)"
      "s' = ?s2\<lparr>fa_world := st_world st, fa_contracts := (fa_contracts ?s2)(?addr \<mapsto> ct\<lparr>ct_state := st\<rparr>)\<rparr>"
    then show thesis
      using g addr by (intro that [of codef st]) (auto simp: fresh_stream_def)
  qed
qed

lemma deploy_stream_kept [kept_intros]:
  "deploy_stream c code stream_id call s = Inr (addr, s') \<Longrightarrow> registry_kept s s'"
  by (auto elim!: deploy_stream_success simp: registry_kept_def read_aggregate_def)

lemma create_success:
  assumes "create_stream_with_config c config now q desc s = Inr (stream_id, s')"
  obtains fee s1 s2 s3 s4 code addr s5 s6 s7 s8 where
      "enforce_bounds config (sq_rate_per_sec q) (sq_start_time q) (sq_end_time q) now = Inr ()"
    and "protocol_fee config (sq_deposit q) = Inr fee" and "in_i128 (sq_deposit q + fee)"
    and "fk_CreateLock s \<noteq> Some True" and "s1 = renew_instance (s\<lparr>fk_CreateLock := Some True\<rparr>)"
    and "confirmed_transfer (ch_env c) DepositTransferFailed (sq_token q) (sq_sender q)
           (contract_address (ch_env c)) (sq_deposit q + fee) s1 = Inr s2"
    and "(if 0 < fee then factory_transfer (ch_env c) (sq_token q) (contract_address (ch_env c))
           (gc_fee_recipient config) fee s2 else Inr s2) = (Inr s3 :: (factory_error, 'w factory) res)"
    and "s4 = emit (EvProtocolFee (gc_fee_recipient config) fee) s3"
    and "stream_id = (case fk_StreamCount s4 of Some n \<Rightarrow> n | None \<Rightarrow> 0)" and "fk_StreamWasmHash s4 = Some code"
    and "deploy_stream c code stream_id (init_args config q desc) s4 = Inr (addr, s5)"
    and "confirmed_transfer (ch_env c) StreamFundingFailed (sq_token q) (contract_address (ch_env c)) addr
           (sq_deposit q) s5 = Inr s6"
    and "s7 = emit (EvStreamCreated (sq_sender q) (sq_recipient q) addr (compute_salt c stream_id) code) s6"
    and "register_stream (ch_env c) q stream_id addr s7 = Inr s8"
    and "s' = s8\<lparr>fk_CreateLock := Some False\<rparr>"
  using assms unfolding create_stream_with_config_def Let_def and_then_eq_Inr if_Inl_eq_Inr ok_or_eq_Inr checked_eq_Some
    split_paired_Ex prod.case sum.inject prod.inject
  apply (elim exE conjE)
  apply (simp only:)
  apply (rule that [OF _ _ _ _ refl _ _ refl _ _ _ _ refl])
  apply (assumption | (force split: option.splits))+
  done

lemma create_parts_kept:
  assumes "create_stream_with_config c config now q desc s = Inr (stream_id, s')"
  obtains addr s7 s8 where "registry_kept s s7" and "fa_contracts s addr = None" and "fa_contracts s7 addr \<noteq> None"
    and "stream_id = (case fk_StreamCount s of Some n \<Rightarrow> n | None \<Rightarrow> 0)"
    and "register_stream (ch_env c) q stream_id addr s7 = Inr s8" and "s' = s8\<lparr>fk_CreateLock := Some False\<rparr>"
  using assms
proof (rule create_success)
  fix fee s1 s2 s3 s4 code addr s5 s6 s7 s8
  assume s1: "s1 = renew_instance (s\<lparr>fk_CreateLock := Some True\<rparr>)"
    and s2: "confirmed_transfer (ch_env c) DepositTransferFailed (sq_token q) (sq_sender q)
           (contract_address (ch_env c)) (sq_deposit q + fee) s1 = Inr s2"
    and s3: "(if 0 < fee then factory_transfer (ch_env c) (sq_token q) (contract_address (ch_env c))
           (gc_fee_recipient config) fee s2 else Inr s2) = (Inr s3 :: (factory_error, 'a factory) res)"
    and s4: "s4 = emit (EvProtocolFee (gc_fee_recipient config) fee) s3"
    and sid: "stream_id = (case fk_StreamCount s4 of Some n \<Rightarrow> n | None \<Rightarrow> 0)"
    and s5: "deploy_stream c code stream_id (init_args config q desc) s4 = Inr (addr, s5)"
    and s6: "confirmed_transfer (ch_env c) StreamFundingFailed (sq_token q) (contract_address (ch_env c)) addr
           (sq_deposit q) s5 = Inr s6"
    and s7: "s7 = emit (EvStreamCreated (sq_sender q) (sq_recipient q) addr (compute_salt c stream_id) code) s6"
    and s8: "register_stream (ch_env c) q stream_id addr s7 = Inr s8" "s' = s8\<lparr>fk_CreateLock := Some False\<rparr>"
  have k1: "registry_kept s s1" unfolding s1 by (rule registry_kept_trans [OF kept_updates(2) kept_updates(10)])
  have "registry_kept s2 s3" using s3 by (auto split: if_splits intro: kept_intros)
  then have k4: "registry_kept s s4"
    unfolding s4 using k1 confirmed_transfer_kept [OF s2] kept_updates(11) by (blast intro: registry_kept_trans)
  have k57: "registry_kept s5 s7"
    unfolding s7 using confirmed_transfer_kept [OF s6] kept_updates(11) by (blast intro: registry_kept_trans)
  have "fa_contracts s4 addr = None" "fa_contracts s5 addr \<noteq> None"
    using s5 by (auto elim!: deploy_stream_success)
  then have "fa_contracts s addr = None" "fa_contracts s7 addr \<noteq> None"
    using k4 k57 by (auto simp: registry_kept_def)
  moreover have "stream_id = (case fk_StreamCount s of Some n \<Rightarrow> n | None \<Rightarrow> 0)"
    using sid k4 by (simp add: registry_kept_def)
  moreover have "registry_kept s s7"
    using k4 deploy_stream_kept [OF s5] k57 by (blast intro: registry_kept_trans)
  ultimately show thesis using s8 that by blast
qed

lemma append_index_rep:
  assumes "append_index_entry seq x ix = (Inr ix' :: ('e, index_slot) res)" and "index_rep ix xs" and "length xs + 100 \<le> U32_MAX"
  shows "index_rep ix' (xs @ [x])"
proof -
  obtain s' where "append_index_entry seq x ix = (Inr s' :: ('e, index_slot) res)" "index_rep s' (xs @ [x])"
    using append_index_entry_rep [OF assms(2,3)] by blast
  then show ?thesis using assms(1) by simp
qed

lemma register_stream_rep:
  assumes "register_stream e q (int (length rs)) addr s = Inr s'" and "factory_rep s rs"
    and "addr \<notin> rg_addr ` set rs" and "fa_contracts s addr \<noteq> None" and "length rs + 100 \<le> U32_MAX"
  shows "factory_rep s' (rs @ [\<lparr>rg_sender = sq_sender q, rg_recipient = sq_recipient q, rg_addr = addr\<rparr>])"
proof -
  obtain a1 a2 t where
      a1: "append_index_entry (nat (sequence e)) (int (length rs)) (fk_BySender s (sq_sender q)) = (Inr a1 :: (factory_error, index_slot) res)"
    and a2: "append_index_entry (nat (sequence e)) (int (length rs)) (fk_ByRecipient s (sq_recipient q)) = (Inr a2 :: (factory_error, index_slot) res)"
    and s': "s' = s\<lparr>fk_StreamAddr := (fk_StreamAddr s)(int (length rs) \<mapsto> addr),
        fk_IsKnownStream := (fk_IsKnownStream s)(addr \<mapsto> True), fa_ttl := t, fk_StreamCount := Some (int (length rs) + 1),
        fk_Aggregate := Some \<lparr>ag_total_supply = ag_total_supply (read_aggregate s) + 1,
          ag_active_streams = ag_active_streams (read_aggregate s) + 1\<rparr>,
        fk_BySender := (fk_BySender s)(sq_sender q := a1), fk_ByRecipient := (fk_ByRecipient s)(sq_recipient q := a2)\<rparr>"
    using assms(1) unfolding register_stream_def Let_def
    by (auto simp: res_simps count_created_def Let_def append_sender_index_def append_recipient_index_def read_aggregate_def)
  let ?r = "\<lparr>rg_sender = sq_sender q, rg_recipient = sq_recipient q, rg_addr = addr\<rparr>"
  have rep: "index_rep (fk_BySender s a) (ids_where (\<lambda>r. rg_sender r = a) rs)"
    "index_rep (fk_ByRecipient s a) (ids_where (\<lambda>r. rg_recipient r = a) rs)" for a
    using assms(2) by (simp_all add: factory_rep_def)
  have cap: "length (ids_where P rs) + 100 \<le> U32_MAX" for P
    using length_ids_where [of P rs] assms(5) by linarith
  have "index_rep (fk_BySender s' a) (ids_where (\<lambda>r. rg_sender r = a) (rs @ [?r]))" for a
    using rep(1) [of a] append_index_rep [OF a1 rep(1) cap] by (simp add: s' ids_where_snoc)
  moreover have "index_rep (fk_ByRecipient s' a) (ids_where (\<lambda>r. rg_recipient r = a) (rs @ [?r]))" for a
    using rep(2) [of a] append_index_rep [OF a2 rep(2) cap] by (simp add: s' ids_where_snoc)
  moreover have "fk_StreamAddr s' = (\<lambda>i. if 0 \<le> i \<and> i < int (length (rs @ [?r])) then Some (rg_addr ((rs @ [?r]) ! nat i)) else None)"
    using assms(2) by (auto simp: s' factory_rep_def fun_eq_iff nth_append)
  moreover have "fk_IsKnownStream s' = (\<lambda>a. if a \<in> rg_addr ` set (rs @ [?r]) then Some True else None)"
    using assms(2) by (auto simp: s' factory_rep_def fun_eq_iff)
  moreover have "distinct (map rg_addr (rs @ [?r]))"
    using assms(2,3) by (auto simp: factory_rep_def)
  ultimately show ?thesis
    using assms(2,4) by (auto simp: factory_rep_def s' read_aggregate_def)
qed

lemma create_rep:
  assumes "create_stream_with_config c config now q desc s = Inr (stream_id, s')" and "factory_rep s rs"
    and "length rs + 100 \<le> U32_MAX"
  shows "stream_id = int (length rs)"
    and "\<exists>addr. factory_rep s' (rs @ [\<lparr>rg_sender = sq_sender q, rg_recipient = sq_recipient q, rg_addr = addr\<rparr>])"
proof -
  obtain addr s7 s8 where k: "registry_kept s s7" and fresh: "fa_contracts s addr = None" "fa_contracts s7 addr \<noteq> None"
    and sid: "stream_id = (case fk_StreamCount s of Some n \<Rightarrow> n | None \<Rightarrow> 0)"
    and s8: "register_stream (ch_env c) q stream_id addr s7 = Inr s8" and s': "s' = s8\<lparr>fk_CreateLock := Some False\<rparr>"
    by (rule create_parts_kept [OF assms(1)])
  show id: "stream_id = int (length rs)" using sid assms(2) by (simp add: factory_rep_def)
  have "addr \<notin> rg_addr ` set rs" using assms(2) fresh(1) by (auto simp: factory_rep_def)
  from register_stream_rep [OF s8 [unfolded id] factory_rep_kept [OF assms(2) k] this fresh(2) assms(3)]
  show "\<exists>addr. factory_rep s' (rs @ [\<lparr>rg_sender = sq_sender q, rg_recipient = sq_recipient q, rg_addr = addr\<rparr>])"
    unfolding s' using factory_rep_kept [OF _ kept_updates(2)] by blast
qed

text \<open>The registrations a list of requests adds: their ends, in order.\<close>

definition ends :: "registration \<Rightarrow> address \<times> address" where
  "ends r = (rg_sender r, rg_recipient r)"

definition request_ends :: "stream_init_params \<Rightarrow> address \<times> address" where
  "request_ends q = (sq_sender q, sq_recipient q)"

lemma create_rep_ends:
  assumes "create_stream_with_config c config now q desc s = Inr (stream_id, s')" and "factory_rep s rs"
    and "length rs + 100 \<le> U32_MAX"
  obtains r where "ends r = request_ends q" and "factory_rep s' (rs @ [r])" and "stream_id = int (length rs)"
proof -
  obtain addr where "factory_rep s' (rs @ [\<lparr>rg_sender = sq_sender q, rg_recipient = sq_recipient q, rg_addr = addr\<rparr>])"
    using create_rep(2) [OF assms] by blast
  then show thesis using create_rep(1) [OF assms] by (intro that) (auto simp: ends_def request_ends_def)
qed

lemma create_each_rep:
  "create_each c config cfgs deployed s = Inr (out, s') \<Longrightarrow> factory_rep s rs \<Longrightarrow>
   length rs + length cfgs + 100 \<le> U32_MAX \<Longrightarrow>
   \<exists>new. map ends new = map request_ends cfgs \<and> factory_rep s' (rs @ new) \<and> out = deployed @ map rg_addr new"
proof (induction cfgs arbitrary: deployed s rs)
  case (Cons q cfgs)
  obtain now sid s1 addr where cr: "create_stream_with_config c config now q None s = Inr (sid, s1)"
    and addr: "fk_StreamAddr s1 sid = Some addr"
    and rest: "create_each c config cfgs (deployed @ [addr]) s1 = Inr (out, s')"
    using Cons.prems(1) by (auto simp: res_simps)
  obtain r where r: "ends r = request_ends q" "factory_rep s1 (rs @ [r])" "sid = int (length rs)"
    using create_rep_ends [OF cr Cons.prems(2)] Cons.prems(3) by auto
  then have "addr = rg_addr r" using addr by (simp add: factory_rep_def)
  moreover obtain new where "map ends new = map request_ends cfgs" "factory_rep s' ((rs @ [r]) @ new)"
    "out = (deployed @ [addr]) @ map rg_addr new"
    using Cons.IH [OF rest r(2)] Cons.prems(3) by auto
  ultimately show ?case using r(1) by (intro exI [of _ "r # new"]) simp
qed auto

lemma create_requests_rep:
  "create_requests c config sender claw reqs ids s = Inr (out, s') \<Longrightarrow> factory_rep s rs \<Longrightarrow>
   length rs + length reqs + 100 \<le> U32_MAX \<Longrightarrow>
   \<exists>new. map ends new = map (\<lambda>b. (sender, bq_recipient b)) reqs \<and> factory_rep s' (rs @ new) \<and>
     out = ids @ map int [length rs ..< length rs + length reqs]"
proof (induction reqs arbitrary: ids s rs)
  case (Cons b reqs)
  obtain now sid s1 where cr: "create_stream_with_config c config now (with_sender sender claw b) None s = Inr (sid, s1)"
    and rest: "create_requests c config sender claw reqs (ids @ [sid]) s1 = Inr (out, s')"
    using Cons.prems(1) by (auto simp: res_simps)
  obtain r where r: "ends r = (sender, bq_recipient b)" "factory_rep s1 (rs @ [r])" "sid = int (length rs)"
    using create_rep_ends [OF cr Cons.prems(2)] Cons.prems(3) by (auto simp: request_ends_def with_sender_def)
  obtain new where "map ends new = map (\<lambda>b. (sender, bq_recipient b)) reqs" "factory_rep s' ((rs @ [r]) @ new)"
    "out = (ids @ [sid]) @ map int [length (rs @ [r]) ..< length (rs @ [r]) + length reqs]"
    using Cons.IH [OF rest r(2)] Cons.prems(3) by auto
  then show ?case
    using r by (intro exI [of _ "r # new"]) (simp add: upt_conv_Cons del: upt_Suc)
qed auto

section \<open>Histories\<close>

datatype 'w factory_call =
    CallCreate stream_init_params "string option"
  | CallBatchCreate "stream_init_params list"
  | CallCreateBatch address "batch_stream_request list" bool
  | CallCancelBatch address "address list"
  | CallRecordCancel address
  | CallUpgradeStreamWasm wasm_hash
  | CallUpgradeSelf wasm_hash int
  | CallPause
  | CallUnpause
  | CallMigrateSender address nat
  | CallMigrateRecipient address nat
  | CallStreamsBySender address nat nat
  | CallStreamsByRecipient address nat nat
  | CallStreamAddresses "int list"
  | CallStatus
  | Elsewhere 'w "address \<Rightarrow> 'w contract option"

text \<open>
  One entry into the chain: a call of the factory, or anything that happens
  elsewhere (tokens move, contracts run and are deployed; none disappears).
\<close>

fun factory_exec :: "'w chain \<Rightarrow> 'w factory_call \<Rightarrow> 'w factory \<Rightarrow> (factory_error, 'w factory) res" where
  "factory_exec c (CallCreate q desc) s = and_then (create_stream c q desc s) (\<lambda>(_, s1). Inr s1)"
| "factory_exec c (CallBatchCreate cfgs) s = and_then (batch_create_streams c cfgs s) (\<lambda>(_, s1). Inr s1)"
| "factory_exec c (CallCreateBatch sender reqs claw) s =
     and_then (create_batch_streams c sender reqs claw s) (\<lambda>(_, s1). Inr s1)"
| "factory_exec c (CallCancelBatch sender addrs) s = cancel_batch_streams c sender addrs s"
| "factory_exec c (CallRecordCancel a) s = record_cancel c a s"
| "factory_exec c (CallUpgradeStreamWasm h) s = upgrade_stream_wasm c h s"
| "factory_exec c (CallUpgradeSelf h v) s = upgrade_self c h v s"
| "factory_exec c CallPause s = factory_pause c s"
| "factory_exec c CallUnpause s = factory_unpause c s"
| "factory_exec c (CallMigrateSender a n) s = and_then (factory_migrate_sender_index a n s) (\<lambda>(_, s1). Inr s1)"
| "factory_exec c (CallMigrateRecipient a n) s = and_then (factory_migrate_recipient_index a n s) (\<lambda>(_, s1). Inr s1)"
| "factory_exec c (CallStreamsBySender a off lim) s = and_then (streams_by_sender (ch_env c) a off lim s) (\<lambda>(_, s1). Inr s1)"
| "factory_exec c (CallStreamsByRecipient a off lim) s = and_then (streams_by_recipient (ch_env c) a off lim s) (\<lambda>(_, s1). Inr s1)"
| "factory_exec c (CallStreamAddresses ids) s = and_then (stream_addresses ids s) (\<lambda>(_, s1). Inr s1)"
| "factory_exec c CallStatus s = Inr (snd (get_factory_status c s))"
| "factory_exec c (Elsewhere w cs) s =
     Inr (s\<lparr>fa_world := w, fa_contracts := (\<lambda>a. case cs a of Some ct \<Rightarrow> Some ct | None \<Rightarrow> fa_contracts s a)\<rparr>)"

fun requested :: "'w factory_call \<Rightarrow> (address \<times> address) list" where
  "requested (CallCreate q desc) = [request_ends q]"
| "requested (CallBatchCreate cfgs) = map request_ends cfgs"
| "requested (CallCreateBatch sender reqs claw) = map (\<lambda>b. (sender, bq_recipient b)) reqs"
| "requested _ = []"

text \<open>The interface: a representation that grows by what each committed call adds.\<close>

locale growing_registry =
  fixes rep :: "'s \<Rightarrow> 'r list \<Rightarrow> bool"
    and exec :: "'c \<Rightarrow> 's \<Rightarrow> ('e, 's) res"
    and adds :: "'c \<Rightarrow> 'v list"
    and view :: "'r \<Rightarrow> 'v"
    and capacity :: nat
    and burst :: nat
  assumes exec_grows: "exec c s = Inr s' \<Longrightarrow> rep s rs \<Longrightarrow> length rs + burst \<le> capacity \<Longrightarrow>
      \<exists>new. map view new = adds c \<and> rep s' (rs @ new)"
    and exec_burst: "exec c s = Inr s' \<Longrightarrow> length (adds c) \<le> burst"
begin

text \<open>A call that fails is rolled back.\<close>

fun run :: "'c list \<Rightarrow> 's \<Rightarrow> 's" where
  "run [] s = s"
| "run (c # cs) s = run cs (case exec c s of Inr s1 \<Rightarrow> s1 | Inl _ \<Rightarrow> s)"

fun added :: "'c list \<Rightarrow> 's \<Rightarrow> 'v list" where
  "added [] s = []"
| "added (c # cs) s = (case exec c s of Inr s1 \<Rightarrow> adds c @ added cs s1 | Inl _ \<Rightarrow> added cs s)"

lemma run_grows:
  "rep s rs \<Longrightarrow> length rs + burst * length cs \<le> capacity \<Longrightarrow>
   \<exists>new. map view new = added cs s \<and> rep (run cs s) (rs @ new)"
proof (induction cs arbitrary: s rs)
  case (Cons c cs)
  show ?case
  proof (cases "exec c s")
    case (Inl f)
    then show ?thesis using Cons.IH [OF Cons.prems(1)] Cons.prems(2) by simp
  next
    case (Inr s1)
    obtain new where new: "map view new = adds c" "rep s1 (rs @ new)"
      using exec_grows [OF Inr Cons.prems(1)] Cons.prems(2) by auto
    have "length new \<le> burst" using exec_burst [OF Inr] new(1) by (metis length_map)
    then obtain new' where "map view new' = added cs s1" "rep (run cs s1) ((rs @ new) @ new')"
      using Cons.IH [OF new(2)] Cons.prems(2) by auto
    then show ?thesis using Inr new(1) by (intro exI [of _ "new @ new'"]) simp
  qed
qed (auto intro: exI [of _ "[]"])

lemma length_added: "length (added cs s) \<le> burst * length cs"
proof (induction cs arbitrary: s)
  case (Cons c cs)
  show ?case
  proof (cases "exec c s")
    case (Inl f)
    then show ?thesis using Cons.IH [of s] by simp
  next
    case (Inr s1)
    then show ?thesis using Cons.IH [of s1] exec_burst [OF Inr] by simp
  qed
qed simp

end

text \<open>What the queries touch stays a representation of the same list.\<close>

lemma factory_rep_index:
  assumes "factory_rep s rs" and "index_rep ix (ids_where (\<lambda>r. rg_sender r = a) rs)"
  shows "factory_rep (s\<lparr>fk_BySender := (fk_BySender s)(a := ix)\<rparr>) rs"
  using assms by (auto simp: factory_rep_def read_aggregate_def)

lemma factory_rep_index_recipient:
  assumes "factory_rep s rs" and "index_rep ix (ids_where (\<lambda>r. rg_recipient r = a) rs)"
  shows "factory_rep (s\<lparr>fk_ByRecipient := (fk_ByRecipient s)(a := ix)\<rparr>) rs"
  using assms by (auto simp: factory_rep_def read_aggregate_def)

lemma index_ops_rep:
  assumes "index_rep ix xs" and "length xs + 100 \<le> U32_MAX"
  shows "migrate_index k ix = (Inr (n, ix') :: ('e, nat \<times> index_slot) res) \<Longrightarrow> index_rep ix' xs"
    and "streams_by seq off lim ix = (Inr (p, ix') :: ('e, stream_page \<times> index_slot) res) \<Longrightarrow> index_rep ix' xs"
proof -
  obtain s' where "migrate_legacy_index k ix = (Inr (length xs, s') :: ('e, nat \<times> index_slot) res)" "index_rep s' xs"
    using migrate_legacy_index_rep [OF assms] by blast
  then show "migrate_index k ix = (Inr (n, ix') :: ('e, nat \<times> index_slot) res) \<Longrightarrow> index_rep ix' xs"
    by (simp add: migrate_index_def)
next
  obtain t where "streams_by seq off lim ix =
      (Inr (\<lparr>pg_ids = window off lim xs, pg_total = length xs\<rparr>, ix\<lparr>ix_ttl := t\<rparr>) :: ('e, stream_page \<times> index_slot) res)"
    using streams_by_rep [OF assms] by blast
  then show "streams_by seq off lim ix = (Inr (p, ix') :: ('e, stream_page \<times> index_slot) res) \<Longrightarrow> index_rep ix' xs"
    using assms(1) by auto
qed

lemma factory_exec_kept:
  assumes "factory_exec c call s = Inr s'" and "requested call = []"
    and "\<And>a n. call \<noteq> CallMigrateSender a n" and "\<And>a n. call \<noteq> CallMigrateRecipient a n"
    and "\<And>a m n. call \<noteq> CallStreamsBySender a m n" and "\<And>a m n. call \<noteq> CallStreamsByRecipient a m n"
    and "\<And>q d. call \<noteq> CallBatchCreate q" and "\<And>a q d. call \<noteq> CallCreateBatch a q d"
  shows "registry_kept s s'"
proof (cases call)
  case (CallStreamAddresses ids)
  then show ?thesis
    using assms(1) by (auto simp: res_simps stream_addresses_def if_Inl_eq_Inr intro: resolve_each_kept)
next
  case CallStatus
  obtain p s1 where "factory_is_paused (ch_env c) s = (p, s1)" by (metis surj_pair)
  then show ?thesis using assms(1) CallStatus is_paused_kept by (fastforce simp: get_factory_status_def)
next
  case (Elsewhere w cs)
  then show ?thesis using assms(1) by (auto simp: registry_kept_def read_aggregate_def split: option.splits)
qed (use assms in \<open>auto intro: cancel_batch_kept record_cancel_kept upgrade_stream_wasm_kept upgrade_self_kept pause_kept\<close>)

lemma create_calls_grow:
  assumes "factory_exec c call s = Inr s'" and "factory_rep s rs" and "length rs + 10 \<le> index_capacity"
    and "call = CallCreate q desc \<or> call = CallBatchCreate cfgs \<or> call = CallCreateBatch sender reqs claw"
  shows "(\<exists>new. map ends new = requested call \<and> factory_rep s' (rs @ new)) \<and> length (requested call) \<le> 10"
proof -
  note cap = assms(3) [unfolded index_capacity_def]
  note unf = factory_exec.simps create_stream_def batch_create_streams_def create_batch_streams_def res_simps
    if_Inl_eq_Inr FACTORY_MAX_BATCH_SIZE_def
  have rep: "factory_rep s1 rs" if "factory_require_not_paused (ch_env c) s = Inr s1" for s1
    by (rule factory_rep_kept [OF assms(2) require_not_paused_kept [OF that]])
  from assms(4) show ?thesis
  proof (elim disjE)
    assume call: "call = CallCreate q desc"
    obtain s1 config now sid where s1: "factory_require_not_paused (ch_env c) s = Inr s1"
      and cr: "create_stream_with_config c config now q desc s1 = Inr (sid, s')"
      using assms(1) by (auto simp: call unf)
    have "length rs + 100 \<le> U32_MAX" using cap by linarith
    with rep [OF s1] obtain r where "ends r = request_ends q" "factory_rep s' (rs @ [r])"
      by (rule create_rep_ends [OF cr])
    then show ?thesis by (auto simp: call intro!: exI [of _ "[r]"])
  next
    assume call: "call = CallBatchCreate cfgs"
    obtain s1 config out where "factory_require_not_paused (ch_env c) s = Inr s1" and len: "length cfgs \<le> 10"
      and cr: "create_each c config cfgs [] s1 = Inr (out, s')"
      using assms(1) by (auto simp: call unf)
    moreover have "length rs + length cfgs + 100 \<le> U32_MAX" using cap len by linarith
    ultimately show ?thesis using create_each_rep [OF cr rep] by (auto simp: call)
  next
    assume call: "call = CallCreateBatch sender reqs claw"
    obtain s1 config out where "factory_require_not_paused (ch_env c) s = Inr s1" and len: "length reqs \<le> 10"
      and cr: "create_requests c config sender claw reqs [] s1 = Inr (out, s')"
      using assms(1) by (auto simp: call unf)
    moreover have "length rs + length reqs + 100 \<le> U32_MAX" using cap len by linarith
    ultimately show ?thesis using create_requests_rep [OF cr rep] by (auto simp: call)
  qed
qed

lemma index_calls_rep:
  assumes "factory_exec c call s = Inr s'" and "factory_rep s rs" and "length rs + 10 \<le> index_capacity"
    and "call = CallMigrateSender a n \<or> call = CallMigrateRecipient a n \<or> call = CallStreamsBySender a m n \<or>
         call = CallStreamsByRecipient a m n"
  shows "factory_rep s' rs"
proof -
  have cap: "length (ids_where P rs) + 100 \<le> U32_MAX" for P
    using length_ids_where [of P rs] assms(3) unfolding index_capacity_def by linarith
  have rep: "index_rep (fk_BySender s a) (ids_where (\<lambda>r. rg_sender r = a) rs)"
    "index_rep (fk_ByRecipient s a) (ids_where (\<lambda>r. rg_recipient r = a) rs)"
    using assms(2) by (simp_all add: factory_rep_def)
  note ops = index_ops_rep [OF rep(1) cap] index_ops_rep [OF rep(2) cap]
  from assms(1,4) show ?thesis
    by (auto simp: res_simps factory_migrate_sender_index_def factory_migrate_recipient_index_def
        streams_by_sender_def streams_by_recipient_def
        intro!: factory_rep_index [OF assms(2)] factory_rep_index_recipient [OF assms(2)] dest: ops)
qed

interpretation registry: growing_registry factory_rep "\<lambda>(c, call). factory_exec c call" "\<lambda>(c, call). requested call"
  ends index_capacity 10
proof (unfold_locales, goal_cases)
  case (1 cc s s' rs)
  obtain c call where cc: "cc = (c, call)" by (metis surj_pair)
  have ex: "factory_exec c call s = Inr s'" using 1(1) by (simp add: cc)
  show ?case
  proof (cases call)
    case (CallCreate q desc)
    then show ?thesis using create_calls_grow [OF ex 1(2,3)] by (simp add: cc)
  next
    case (CallBatchCreate cfgs)
    then show ?thesis using create_calls_grow [OF ex 1(2,3)] by (simp add: cc)
  next
    case (CallCreateBatch sender reqs claw)
    then show ?thesis using create_calls_grow [OF ex 1(2,3)] by (simp add: cc)
  next
    case (CallMigrateSender a n)
    then show ?thesis using index_calls_rep [OF ex 1(2,3)] by (simp add: cc)
  next
    case (CallMigrateRecipient a n)
    then show ?thesis using index_calls_rep [OF ex 1(2,3)] by (simp add: cc)
  next
    case (CallStreamsBySender a m n)
    then show ?thesis using index_calls_rep [OF ex 1(2,3)] by (simp add: cc)
  next
    case (CallStreamsByRecipient a m n)
    then show ?thesis using index_calls_rep [OF ex 1(2,3)] by (simp add: cc)
  qed (use factory_rep_kept [OF 1(2) factory_exec_kept [OF ex]] in \<open>simp_all add: cc\<close>)
next
  case (2 cc s s')
  obtain c call where cc: "cc = (c, call)" by (metis surj_pair)
  then have "factory_exec c call s = Inr s'" using 2 by simp
  then have "length (requested call) \<le> 10"
    by (cases call) (auto simp: res_simps if_Inl_eq_Inr batch_create_streams_def create_batch_streams_def FACTORY_MAX_BATCH_SIZE_def)
  then show ?case by (simp add: cc)
qed

text \<open>A new factory represents the empty registry.\<close>

lemma initialize_rep:
  assumes "factory_initialize h governor (fresh_factory code w cs) = Inr s"
  shows "factory_rep s []"
  using assms
  by (auto simp: factory_initialize_def if_Inl_eq_Inr factory_rep_def fresh_factory_def read_aggregate_def
      renew_instance_def empty_index_rep fun_eq_iff)

text \<open>What the queries say about a represented registry.\<close>

lemma queries_rep:
  assumes "factory_rep s rs" and "length rs + 100 \<le> U32_MAX"
  shows "\<exists>s1. streams_by_sender e a off lim s = (Inr (\<lparr>pg_ids = window off lim (ids_where (\<lambda>r. rg_sender r = a) rs),
           pg_total = length (ids_where (\<lambda>r. rg_sender r = a) rs)\<rparr>, s1) :: ('e, stream_page \<times> 'w factory) res)"
    and "\<exists>s1. streams_by_recipient e a off lim s = (Inr (\<lparr>pg_ids = window off lim (ids_where (\<lambda>r. rg_recipient r = a) rs),
           pg_total = length (ids_where (\<lambda>r. rg_recipient r = a) rs)\<rparr>, s1) :: ('e, stream_page \<times> 'w factory) res)"
    and "\<exists>s1. stream_address i s = (Inr (if 0 \<le> i \<and> i < int (length rs) then Some (rg_addr (rs ! nat i)) else None, s1)
           :: ('e, address option \<times> 'w factory) res)"
    and "\<exists>s1. is_known_stream a s = (Inr (a \<in> rg_addr ` set rs, s1) :: ('e, bool \<times> 'w factory) res)"
proof -
  have cap: "length (ids_where P rs) + 100 \<le> U32_MAX" for P
    using length_ids_where [of P rs] assms(2) by linarith
  have rep: "index_rep (fk_BySender s a) (ids_where (\<lambda>r. rg_sender r = a) rs)"
    "index_rep (fk_ByRecipient s a) (ids_where (\<lambda>r. rg_recipient r = a) rs)"
    using assms(1) by (simp_all add: factory_rep_def)
  show "\<exists>s1. streams_by_sender e a off lim s = (Inr (\<lparr>pg_ids = window off lim (ids_where (\<lambda>r. rg_sender r = a) rs),
           pg_total = length (ids_where (\<lambda>r. rg_sender r = a) rs)\<rparr>, s1) :: ('e, stream_page \<times> 'w factory) res)"
    using streams_by_rep [OF rep(1) cap, where ?'a = 'e, of "nat (sequence e)" off lim] by (auto simp: streams_by_sender_def)
  show "\<exists>s1. streams_by_recipient e a off lim s = (Inr (\<lparr>pg_ids = window off lim (ids_where (\<lambda>r. rg_recipient r = a) rs),
           pg_total = length (ids_where (\<lambda>r. rg_recipient r = a) rs)\<rparr>, s1) :: ('e, stream_page \<times> 'w factory) res)"
    using streams_by_rep [OF rep(2) cap, where ?'a = 'e, of "nat (sequence e)" off lim] by (auto simp: streams_by_recipient_def)
qed (use assms(1) in \<open>auto simp: stream_address_def is_known_stream_def factory_rep_def renew_def bump_persistent_def
       split: option.splits\<close>)

end
