(* ===== verification/Factory_Create.thy ===== *)
theory Factory_Create
  imports Factory_Registry Stream_Funding
begin

text \<open>
  What a creation through the factory delivers: the money it moves, the stream it
  deploys and in which state, that a bounded stream is fully funded, that a batch
  is the sequence of its single creations, and what cancelling through the factory
  does to the streams and to the counters.
\<close>

section \<open>Money\<close>

definition at_address :: "'w env \<Rightarrow> address \<Rightarrow> 'w env" where
  "at_address e a = e\<lparr>contract_address := a\<rparr>"

lemma at_address_simps [simp]:
  "timestamp (at_address e a) = timestamp e" "sequence (at_address e a) = sequence e"
  "contract_address (at_address e a) = a" "authorized (at_address e a) = authorized e"
  "tokens (at_address e a) = tokens e"
  by (simp_all add: at_address_def)

lemma bal_of_at [simp]: "bal_of (at_address e a) = bal_of e"
  by (simp add: bal_of_def fun_eq_iff)

lemma sep41_at [simp]: "sep41 (at_address e a) = sep41 e"
  by (simp add: sep41_def)

lemma env_ok_at [simp]: "env_ok t (at_address e a) = env_ok t e"
  by (simp add: env_ok_def)

text \<open>What the types of the chain's answers promise.\<close>

definition chain_ok :: "'w chain \<Rightarrow> bool" where
  "chain_ok c \<longleftrightarrow> env_ok 0 (ch_env c) \<and> (\<forall>g config. ch_governor c g = Some config \<longrightarrow> in_u32 (gc_fee_bps config))"

definition request_ok :: "stream_init_params \<Rightarrow> bool" where
  "request_ok q \<longleftrightarrow> in_i128 (sq_deposit q) \<and> in_i128 (sq_rate_per_sec q) \<and> in_u64 (sq_start_time q) \<and> in_u64 (sq_end_time q)"

lemma factory_transfer_success:
  assumes "factory_transfer e tok src dst amt s = Inr s'" and "sep41 e"
  obtains w where "s' = s\<lparr>fa_world := w\<rparr>" and "bal_of e w = moved (bal_of e (fa_world s)) tok src dst amt" and "0 \<le> amt"
proof -
  obtain w where w: "tok_transfer (tokens e) (fa_world s) tok src dst amt = Some w" "s' = s\<lparr>fa_world := w\<rparr>"
    using assms(1) by (auto simp: factory_transfer_def res_simps)
  show thesis using sep41_transfer [OF assms(2) w(1)] by (intro that [OF w(2)])
qed

lemma confirmed_transfer_success:
  assumes "confirmed_transfer e err tok src dst amt s = Inr s'" and "sep41 e"
  obtains w where "s' = s\<lparr>fa_world := w\<rparr>" and "bal_of e w = moved (bal_of e (fa_world s)) tok src dst amt"
    and "bal_of e w tok dst = bal_of e (fa_world s) tok dst + amt"
proof -
  obtain b s1 b' where b: "tok_balance (tokens e) (fa_world s) tok dst = Some b"
    and tr: "factory_transfer e tok src dst amt s = (Inr s1 :: (factory_error, 'a factory) res)"
    and b': "tok_balance (tokens e) (fa_world s1) tok dst = Some b'" "b' = b + amt" "s' = s1"
    using assms(1) by (auto simp: confirmed_transfer_def res_simps)
  from tr assms(2) show thesis
  proof (rule factory_transfer_success)
    fix w assume "s1 = s\<lparr>fa_world := w\<rparr>" "bal_of e w = moved (bal_of e (fa_world s)) tok src dst amt"
    moreover from this(1) have "bal_of e w tok dst = bal_of e (fa_world s) tok dst + amt" using b b' by simp
    ultimately show thesis using b'(3) by (intro that [of w]) simp_all
  qed
qed

section \<open>Creating one stream\<close>

definition fee_of :: "governor_config \<Rightarrow> int \<Rightarrow> int" where
  "fee_of config deposit = deposit * gc_fee_bps config div 10000"

text \<open>The balances of the token after a creation, as three movements.\<close>

definition funded_by ::
  "address \<Rightarrow> governor_config \<Rightarrow> stream_init_params \<Rightarrow> address \<Rightarrow> (address \<Rightarrow> address \<Rightarrow> int) \<Rightarrow> (address \<Rightarrow> address \<Rightarrow> int)" where
  "funded_by me config q addr bal =
     (let fee = fee_of config (sq_deposit q);
          paid_in = moved bal (sq_token q) (sq_sender q) me (sq_deposit q + fee);
          fee_out = moved paid_in (sq_token q) me (gc_fee_recipient config) fee
      in moved fee_out (sq_token q) me addr (sq_deposit q))"

lemma register_frame:
  assumes "register_stream e q stream_id addr s = Inr s'"
  shows "fa_world s' = fa_world s" "fa_contracts s' = fa_contracts s"
    "fk_StreamAddr s' = (fk_StreamAddr s)(stream_id \<mapsto> addr)" "fk_IsKnownStream s' = (fk_IsKnownStream s)(addr \<mapsto> True)"
    "fk_StreamCount s' = Some (stream_id + 1)" "fk_GovernorAddress s' = fk_GovernorAddress s"
    "fk_Paused s' = fk_Paused s"
  using assms unfolding register_stream_def Let_def
  by (auto simp: res_simps count_created_def Let_def append_sender_index_def append_recipient_index_def)

lemma create_with_config_correct:
  assumes "create_stream_with_config c config now q desc s = Inr (stream_id, s')" and "sep41 (ch_env c)"
    and "0 \<le> gc_fee_bps config" and "0 < sq_deposit q"
    and "fk_StreamWasmHash s = Some h" and "ch_uploaded c h = Some drip_stream"
  obtains addr st where
      "stream_id = stream_count s" and "fk_StreamAddr s' stream_id = Some addr" and "fk_IsKnownStream s' addr = Some True"
    and "fk_StreamCount s' = Some (stream_id + 1)"
    and "fa_contracts s addr = None" and "fa_contracts s' = (fa_contracts s)(addr \<mapsto> \<lparr>ct_code = h, ct_state = st\<rparr>)"
    and "initialize (at_address (ch_env c) addr) (sq_sender q) (sq_recipient q) (sq_token q) (sq_rate_per_sec q)
           (sq_start_time q) (sq_end_time q) (sq_clawback q) (gc_force_cancel_pause_secs config) False desc
           (fresh_stream (st_world st)) = Inr st"
    and "bal_of (ch_env c) (fa_world s') =
           funded_by (contract_address (ch_env c)) config q addr (bal_of (ch_env c) (fa_world s))"
    and "0 \<le> bal_of (ch_env c) (fa_world s') (sq_token q) addr - sq_deposit q"
    and "fk_CreateLock s \<noteq> Some True" and "fk_CreateLock s' = Some False"
    and "enforce_bounds config (sq_rate_per_sec q) (sq_start_time q) (sq_end_time q) now = Inr ()"
    and "fk_GovernorAddress s' = fk_GovernorAddress s" and "fk_Paused s' = fk_Paused s"
  using assms(1)
proof (rule create_success)
  let ?e = "ch_env c" let ?me = "contract_address (ch_env c)"
  fix fee s1 s2 s3 s4 code addr s5 s6 s7 s8
  assume eb: "enforce_bounds config (sq_rate_per_sec q) (sq_start_time q) (sq_end_time q) now = Inr ()"
    and fee: "protocol_fee config (sq_deposit q) = Inr fee" and lock: "fk_CreateLock s \<noteq> Some True"
    and s1: "s1 = renew_instance (s\<lparr>fk_CreateLock := Some True\<rparr>)"
    and s2: "confirmed_transfer ?e DepositTransferFailed (sq_token q) (sq_sender q) ?me (sq_deposit q + fee) s1 = Inr s2"
    and s3: "(if 0 < fee then factory_transfer ?e (sq_token q) ?me (gc_fee_recipient config) fee s2 else Inr s2)
       = (Inr s3 :: (factory_error, 'a factory) res)"
    and s4: "s4 = emit (EvProtocolFee (gc_fee_recipient config) fee) s3"
    and sid: "stream_id = (case fk_StreamCount s4 of Some n \<Rightarrow> n | None \<Rightarrow> 0)" and code: "fk_StreamWasmHash s4 = Some code"
    and s5: "deploy_stream c code stream_id (init_args config q desc) s4 = Inr (addr, s5)"
    and s6: "confirmed_transfer ?e StreamFundingFailed (sq_token q) ?me addr (sq_deposit q) s5 = Inr s6"
    and s7: "s7 = emit (EvStreamCreated (sq_sender q) (sq_recipient q) addr (compute_salt c stream_id) code) s6"
    and s8: "register_stream ?e q stream_id addr s7 = Inr s8" and s': "s' = s8\<lparr>fk_CreateLock := Some False\<rparr>"
  have feq: "fee = fee_of config (sq_deposit q)" using fee by (simp add: protocol_fee_def res_simps fee_of_def)
  then have fee0: "0 \<le> fee" using assms(3,4) by (simp add: fee_of_def pos_imp_zdiv_nonneg_iff)
  obtain w2 where w2: "s2 = s1\<lparr>fa_world := w2\<rparr>"
    "bal_of ?e w2 = moved (bal_of ?e (fa_world s1)) (sq_token q) (sq_sender q) ?me (sq_deposit q + fee)"
    by (rule confirmed_transfer_success [OF s2 assms(2)])
  obtain w3 where w3: "s3 = s2\<lparr>fa_world := w3\<rparr>" "bal_of ?e w3 = moved (bal_of ?e w2) (sq_token q) ?me (gc_fee_recipient config) fee"
  proof (cases "0 < fee")
    case True
    then have "factory_transfer ?e (sq_token q) ?me (gc_fee_recipient config) fee s2 = (Inr s3 :: (factory_error, 'a factory) res)"
      using s3 by simp
    from this assms(2) show thesis
    proof (rule factory_transfer_success)
      fix w assume "s3 = s2\<lparr>fa_world := w\<rparr>"
        "bal_of ?e w = moved (bal_of ?e (fa_world s2)) (sq_token q) ?me (gc_fee_recipient config) fee"
      moreover have "fa_world s2 = w2" by (simp add: w2(1))
      ultimately show thesis by (intro that [of w]) simp_all
    qed
  next
    case False
    then have "s3 = s2" "fee = 0" using s3 fee0 by simp_all
    moreover have "s2 = s2\<lparr>fa_world := w2\<rparr>" unfolding w2(1) by simp
    ultimately show thesis by (intro that [of w2]) simp_all
  qed
  have frame: "fk_StreamCount s4 = fk_StreamCount s" "fk_StreamWasmHash s4 = fk_StreamWasmHash s" "fa_world s4 = w3"
      "fa_contracts s4 = fa_contracts s" "fk_GovernorAddress s4 = fk_GovernorAddress s" "fk_Paused s4 = fk_Paused s"
    by (simp_all add: s4 w3(1) w2(1) s1 emit_def renew_instance_def)
  then have "code = h" using code assms(5) by simp
  obtain codef st where d: "fa_contracts s4 addr = None" "ch_uploaded c code = Some codef"
    "init_args config q desc codef (?e\<lparr>contract_address := addr\<rparr>) (fresh_stream (fa_world s4)) = Inr ((), st)"
    "s5 = s4\<lparr>fk_SaltUsed := (fk_SaltUsed s4)(compute_salt c stream_id \<mapsto> True), fa_world := st_world st,
               fa_contracts := (fa_contracts s4)(addr \<mapsto> \<lparr>ct_code = code, ct_state = st\<rparr>)\<rparr>"
    by (rule deploy_stream_success [OF s5])
  have "codef = drip_stream" using d(2) assms(6) \<open>code = h\<close> by simp
  then have init: "initialize (at_address ?e addr) (sq_sender q) (sq_recipient q) (sq_token q) (sq_rate_per_sec q)
           (sq_start_time q) (sq_end_time q) (sq_clawback q) (gc_force_cancel_pause_secs config) False desc
           (fresh_stream (fa_world s4)) = Inr st"
    using d(3) by (simp add: init_args_def drip_stream_def res_simps at_address_def)
  have stw: "st_world st = fa_world s4"
    using init by (rule initialize_success) (simp add: fresh_stream_def)
  obtain w6 where w6: "s6 = s5\<lparr>fa_world := w6\<rparr>"
    "bal_of ?e w6 = moved (bal_of ?e (fa_world s5)) (sq_token q) ?me addr (sq_deposit q)"
    "bal_of ?e w6 (sq_token q) addr = bal_of ?e (fa_world s5) (sq_token q) addr + sq_deposit q"
    by (rule confirmed_transfer_success [OF s6 assms(2)])
  note r = register_frame [OF s8]
  have bal: "bal_of ?e (fa_world s') = funded_by ?me config q addr (bal_of ?e (fa_world s))"
    by (simp add: s' r s7 emit_def w6(1,2) d(4) stw frame(3) w3(2) w2(2) s1 renew_instance_def
        funded_by_def Let_def feq)
  show thesis
  proof (rule that [OF _ _ _ _ _ _ _ bal _ lock _ eb])
    show "stream_id = stream_count s" using sid frame(1) by (simp add: stream_count_def)
    show "fa_contracts s' = (fa_contracts s)(addr \<mapsto> \<lparr>ct_code = h, ct_state = st\<rparr>)"
      by (simp add: s' r s7 emit_def w6(1) d(4) frame(4) \<open>code = h\<close>)
    show "0 \<le> bal_of ?e (fa_world s') (sq_token q) addr - sq_deposit q"
      using sep41_bal_nonneg [OF assms(2)] by (simp add: s' r s7 emit_def w6(1,3))
  qed (use d(1) init frame in \<open>simp_all add: s' r stw s7 emit_def w6(1) d(4)\<close>)
qed

lemma create_stream_success:
  assumes "create_stream c q desc s = Inr r"
  obtains s1 now governor config where "authorized (ch_env c) (sq_sender q)"
    and "factory_require_not_paused (ch_env c) s = Inr s1" and "validate_stream_request (ch_env c) q = Inr now"
    and "fk_GovernorAddress s1 = Some governor" and "ch_governor c governor = Some config"
    and "create_stream_with_config c config now q desc s1 = Inr r"
  using assms unfolding create_stream_def governance_config_def res_simps by blast

lemma validate_request_success:
  assumes "validate_stream_request e q = Inr now"
  shows "0 < sq_deposit q" and "now = timestamp e"
    and "0 < sq_end_time q \<Longrightarrow> sq_rate_per_sec q * (sq_end_time q - sq_start_time q) \<le> sq_deposit q"
    and "\<not> is_zero_address (sq_token q)"
  using assms unfolding validate_stream_request_def Let_def by (auto simp: res_simps split: if_splits)

lemma require_not_paused_frame:
  assumes "factory_require_not_paused e s = Inr s1"
  obtains slot where "s1 = s\<lparr>fk_Paused := slot\<rparr>" and "require_not_paused (timestamp e) (fk_Paused s) = Inr slot"
  using assms by (auto simp: factory_require_not_paused_def res_simps)

lemma bounds_enforced:
  assumes "enforce_bounds config rate start_time end_time now = Inr ()"
  shows "rate \<le> gc_max_rate_per_second config"
    and "0 < end_time \<Longrightarrow> gc_min_duration_seconds config \<le> end_time - start_time \<and>
           end_time - start_time \<le> gc_max_duration_seconds config"
  using assms unfolding enforce_bounds_def Let_def by (auto simp: res_simps split: if_splits)

text \<open>A freshly initialized bounded stream is funded as soon as the deposit has arrived.\<close>

lemma fresh_stream_funded:
  assumes "initialize e sender recipient tok rate start_time end_time claw fc reg desc (fresh_stream w) = Inr st"
    and "0 < end_time" and "rate * (end_time - start_time) \<le> bal_of e w' tok (contract_address e)"
  shows "funded e (st\<lparr>st_world := w'\<rparr>)"
  using assms(1)
proof (rule initialize_success)
  fix fl :: "32 word"
  assume a: "0 < end_time \<longrightarrow> start_time + MIN_STREAM_DURATION \<le> end_time \<and>
           end_time - start_time \<le> MAX_STREAM_DURATION \<and> in_i128 (rate * (end_time - start_time))"
    "k_Config st = Some \<lparr>si_sender = sender, si_recipient = recipient, si_token = tok,
           si_rate_per_second = rate, si_start_time = start_time, si_end_time = end_time, si_withdrawn = 0,
           si_paused_at = 0, si_flags = fl, si_event_sequence = 1, si_cumulative_fees = 0\<rparr>"
    "k_RateCheckpoint st = k_RateCheckpoint (fresh_stream w)" "k_CliffConfig st = k_CliffConfig (fresh_stream w)"
  then have "accrual_base (st\<lparr>st_world := w'\<rparr>) info = (0, si_start_time info)" for info
    by (simp add: accrual_base_def fresh_stream_def)
  then show ?thesis
    using a assms(2,3)
    by (simp add: funded_def total_due_def accrued_upto_def escrow_def MIN_STREAM_DURATION_def)
qed

text \<open>
  C11.  A stream created through the factory is what was asked for: it was authorized
  by the sender and lies within the governor's bounds; its id is the next number,
  the contract deployed under the address recorded for that id runs the
  configured code, is in a valid initial state with the requested parties, rate
  and times; exactly the deposit reached it, the fee of the deposit reached the fee
  recipient, the sender paid both, and no other balance changed.  A bounded stream
  is fully funded, whatever its deposit was.
\<close>

theorem create_stream_correct:
  assumes "create_stream c q desc s = Inr (stream_id, s')" and "chain_ok c" and "request_ok q"
    and "fk_StreamWasmHash s = Some h" and "ch_uploaded c h = Some drip_stream"
  shows "\<exists>governor config addr st info.
     authorized (ch_env c) (sq_sender q) \<and> fk_GovernorAddress s = Some governor \<and> ch_governor c governor = Some config \<and>
     sq_rate_per_sec q \<le> gc_max_rate_per_second config \<and>
     (0 < sq_end_time q \<longrightarrow> gc_min_duration_seconds config \<le> sq_end_time q - sq_start_time q \<and>
        sq_end_time q - sq_start_time q \<le> gc_max_duration_seconds config) \<and>
     stream_id = stream_count s \<and> stream_count s' = stream_id + 1 \<and> fk_StreamAddr s' stream_id = Some addr \<and>
     fa_contracts s addr = None \<and> fa_contracts s' = (fa_contracts s)(addr \<mapsto> \<lparr>ct_code = h, ct_state = st\<rparr>) \<and>
     stream_idle (timestamp (ch_env c)) st \<and> k_Config st = Some info \<and>
     si_sender info = sq_sender q \<and> si_recipient info = sq_recipient q \<and> si_token info = sq_token q \<and>
     si_rate_per_second info = sq_rate_per_sec q \<and> si_start_time info = sq_start_time q \<and>
     si_end_time info = sq_end_time q \<and> si_withdrawn info = 0 \<and>
     bal_of (ch_env c) (fa_world s') = funded_by (contract_address (ch_env c)) config q addr (bal_of (ch_env c) (fa_world s)) \<and>
     (0 < sq_end_time q \<longrightarrow> funded (at_address (ch_env c) addr) (st\<lparr>st_world := fa_world s'\<rparr>)) \<and>
     fk_CreateLock s' = Some False"
  using assms(1)
proof (rule create_stream_success)
  fix s1 now governor config
  assume au: "authorized (ch_env c) (sq_sender q)" and s1: "factory_require_not_paused (ch_env c) s = Inr s1"
    and v: "validate_stream_request (ch_env c) q = Inr now" and gov: "fk_GovernorAddress s1 = Some governor"
    and cfg: "ch_governor c governor = Some config"
    and cr: "create_stream_with_config c config now q desc s1 = Inr (stream_id, s')"
  obtain slot where slot: "s1 = s\<lparr>fk_Paused := slot\<rparr>" by (rule require_not_paused_frame [OF s1])
  have ok: "env_ok 0 (ch_env c)" "sep41 (ch_env c)" "0 \<le> gc_fee_bps config"
    using assms(2) cfg by (auto simp: chain_ok_def env_ok_def in_u32_def)
  have h: "fk_StreamWasmHash s1 = Some h" using assms(4) by (simp add: slot)
  show ?thesis
    using cr ok(2,3) validate_request_success(1) [OF v] h assms(5)
  proof (rule create_with_config_correct)
    fix addr st
    assume a: "stream_id = stream_count s1" "fk_StreamAddr s' stream_id = Some addr" "fk_StreamCount s' = Some (stream_id + 1)"
      "fa_contracts s1 addr = None" "fa_contracts s' = (fa_contracts s1)(addr \<mapsto> \<lparr>ct_code = h, ct_state = st\<rparr>)"
      "bal_of (ch_env c) (fa_world s') = funded_by (contract_address (ch_env c)) config q addr (bal_of (ch_env c) (fa_world s1))"
      "0 \<le> bal_of (ch_env c) (fa_world s') (sq_token q) addr - sq_deposit q" "fk_CreateLock s' = Some False"
      and eb: "enforce_bounds config (sq_rate_per_sec q) (sq_start_time q) (sq_end_time q) now = Inr ()"
      and init: "initialize (at_address (ch_env c) addr) (sq_sender q) (sq_recipient q) (sq_token q) (sq_rate_per_sec q)
           (sq_start_time q) (sq_end_time q) (sq_clawback q) (gc_force_cancel_pause_secs config) False desc
           (fresh_stream (st_world st)) = Inr st"
    obtain info where info: "k_Config st = Some info" "si_sender info = sq_sender q" "si_recipient info = sq_recipient q"
      "si_token info = sq_token q" "si_rate_per_second info = sq_rate_per_sec q" "si_start_time info = sq_start_time q"
      "si_end_time info = sq_end_time q" "si_withdrawn info = 0"
      using init by (rule initialize_success) auto
    have idle: "stream_idle (timestamp (ch_env c)) st"
      using initialize_idle [OF init] ok(1) assms(3) by (simp add: request_ok_def)
    have fnd: "funded (at_address (ch_env c) addr) (st\<lparr>st_world := fa_world s'\<rparr>)" if "0 < sq_end_time q"
      using fresh_stream_funded [OF init that, of "fa_world s'"] validate_request_success(3) [OF v that] a(7) by simp
    have cnt: "stream_count s' = stream_id + 1" using a(3) by (simp add: stream_count_def)
    show ?thesis
      using a(1,2,4,5,6,8) info idle fnd cnt bounds_enforced [OF eb] au gov cfg
      by (intro exI [of _ governor] exI [of _ config] exI [of _ addr] exI [of _ st] exI [of _ info])
         (simp add: slot stream_count_def)
  qed
qed

section \<open>A sample factory\<close>

definition sample_config :: governor_config where
  "sample_config = \<lparr>gc_fee_bps = 30, gc_fee_recipient = ''fees'', gc_min_duration_seconds = 60,
     gc_max_duration_seconds = 315360000, gc_max_rate_per_second = 1000000, gc_factory_address = ''F'',
     gc_force_cancel_pause_secs = 1000, gc_min_quorum_bps = 0, gc_voting_period_ledgers = 17280,
     gc_proposal_stake_token = None, gc_min_proposal_stake = 0\<rparr>"

definition sample_hash :: wasm_hash where "sample_hash = replicate 32 7"

definition factory_env :: "int \<Rightarrow> ledger env" where
  "factory_env now = \<lparr>timestamp = now, sequence = 1, contract_address = ''F'',
     authorized = (\<lambda>_. True), tokens = ledger_token\<rparr>"

definition sample_chain :: "int \<Rightarrow> ledger chain" where
  "sample_chain now = \<lparr>ch_env = factory_env now,
     ch_uploaded = (\<lambda>h. if h = sample_hash then Some drip_stream else None),
     ch_governor = (\<lambda>g. if g = ''gov'' then Some sample_config else None),
     ch_sha256 = (\<lambda>bytes. bytes), ch_address_of = (\<lambda>salt. CHR ''S'' # replicate (unat (last salt)) CHR ''x'')\<rparr>"

definition rich_ledger :: ledger where
  "rich_ledger = (\<lambda>t h. if h = ''alice'' then 100000 else 0)"

definition sample_factory :: "ledger factory" where
  "sample_factory = (fresh_factory [] rich_ledger (\<lambda>_. None))\<lparr>fk_StreamWasmHash := Some sample_hash,
     fk_GovernorAddress := Some ''gov'', fk_StreamCount := Some 0,
     fk_Aggregate := Some \<lparr>ag_total_supply = 0, ag_active_streams = 0\<rparr>,
     fk_FactoryStorageVersion := Some 1, fa_ttl := bump_instance []\<rparr>"

definition sample_request :: stream_init_params where
  "sample_request = \<lparr>sq_sender = ''alice'', sq_recipient = ''bob'', sq_token = ''T'', sq_deposit = 10000,
     sq_rate_per_sec = 10, sq_start_time = 100, sq_end_time = 700, sq_clawback = True\<rparr>"

lemma sample_hash_nonzero [simp]: "\<not> is_zero_wasm_hash sample_hash"
  by (simp add: is_zero_wasm_hash_def sample_hash_def)

lemma sample_initialized:
  "factory_initialize sample_hash ''gov'' (fresh_factory [] rich_ledger (\<lambda>_. None)) = Inr sample_factory"
  by (simp add: factory_initialize_def fresh_factory_def sample_factory_def
      is_zero_address_def zero_account_def zero_contract_def renew_instance_def FACTORY_STORAGE_VERSION_def)

lemma sample_chain_ok: "0 \<le> n \<Longrightarrow> n \<le> 1000000 \<Longrightarrow> chain_ok (sample_chain n)"
  by (auto simp: chain_ok_def sample_chain_def env_ok_def factory_env_def ledger_token_sep41 in_u64_def in_u32_def
      int_bounds sample_config_def split: if_splits)

lemma sample_request_ok: "request_ok sample_request"
  by (simp add: request_ok_def sample_request_def in_i128_def in_u64_def int_bounds)

lemma first_entry:
  obtains ix where "append_index_entry seq x empty_index = (Inr ix :: ('e, index_slot) res)"
  using append_index_entry_rep [OF empty_index_rep, where ?'a = 'e, of seq x] by (auto simp: U32_MAX_def)

lemmas create_eval =
  create_stream_def factory_require_not_paused_def require_not_paused_def is_paused_def require_not_paused_flag_def
  validate_stream_request_def governance_config_def create_stream_with_config_def enforce_bounds_def protocol_fee_def
  confirmed_transfer_def factory_transfer_def transfer_call_def balance_call_def emit_def renew_instance_def
  deploy_stream_def host_deploy_def on_stream_def init_args_def drip_stream_def initialize_def
  register_stream_def renew_def bump_persistent_def count_created_def read_aggregate_def append_sender_index_def
  append_recipient_index_def compute_salt_def to_be_bytes_def require_auth_def map_err_def
  events_created_def assert_non_negative_amount_def publish_def next_sequence_def save_def bump_for_remaining_def
  checked_i128_def checked_u64_def plain_i128_def plain_u64_def in_i128_def in_u64_def int_bounds Let_def
  MIN_STREAM_DURATION_def MAX_STREAM_DURATION_def is_zero_address_def zero_account_def zero_contract_def
  ledger_balance_def ledger_transfer_def ledger_read_def moved_def sat_u64_def

lemmas sample_eval =
  sample_chain_def factory_env_def sample_config_def sample_factory_def fresh_factory_def rich_ledger_def
  sample_request_def fresh_stream_def

lemma sample_create:
  obtains s' where "create_stream (sample_chain 50) sample_request None sample_factory = Inr (0, s')"
    and "fk_StreamAddr s' 0 = Some ''S''"
proof -
  obtain ix where ix: "append_index_entry (Suc 0) 0 empty_index = (Inr ix :: (factory_error, index_slot) res)"
    by (rule first_entry)
  have "\<exists>s'. create_stream (sample_chain 50) sample_request None sample_factory = Inr (0, s') \<and> fk_StreamAddr s' 0 = Some ''S''"
    by (simp add: create_eval sample_eval ix ex_bool_eq)
  then show thesis using that by blast
qed

theorem create_stream_correct_witness:
  "\<exists>s' st. create_stream (sample_chain 50) sample_request None sample_factory = Inr (0, s') \<and>
     fa_contracts s' ''S'' = Some \<lparr>ct_code = sample_hash, ct_state = st\<rparr> \<and>
     bal_of (factory_env 50) (fa_world s') ''T'' ''S'' = 10000 \<and> bal_of (factory_env 50) (fa_world s') ''T'' ''fees'' = 30 \<and>
     bal_of (factory_env 50) (fa_world s') ''T'' ''alice'' = 89970 \<and>
     funded (at_address (factory_env 50) ''S'') (st\<lparr>st_world := fa_world s'\<rparr>)"
proof -
  obtain s' where s': "create_stream (sample_chain 50) sample_request None sample_factory = Inr (0, s')"
    and addr: "fk_StreamAddr s' 0 = Some ''S''" by (rule sample_create)
  have h: "fk_StreamWasmHash sample_factory = Some sample_hash" "ch_uploaded (sample_chain 50) sample_hash = Some drip_stream"
    "fk_GovernorAddress sample_factory = Some ''gov''" "ch_governor (sample_chain 50) ''gov'' = Some sample_config"
    "ch_env (sample_chain 50) = factory_env 50" "fa_world sample_factory = rich_ledger"
    by (simp_all add: sample_factory_def sample_chain_def fresh_factory_def)
  have bal: "bal_of (factory_env 50) rich_ledger = (\<lambda>t h. if h = ''alice'' then 100000 else 0)"
    by (simp add: factory_env_def rich_ledger_def ledger_read_def int_bounds fun_eq_iff)
  from create_stream_correct [OF s' sample_chain_ok sample_request_ok h(1,2)] addr h
  obtain st where st: "fa_contracts s' ''S'' = Some \<lparr>ct_code = sample_hash, ct_state = st\<rparr>"
    "bal_of (factory_env 50) (fa_world s') = funded_by ''F'' sample_config sample_request ''S'' (bal_of (factory_env 50) rich_ledger)"
    "funded (at_address (factory_env 50) ''S'') (st\<lparr>st_world := fa_world s'\<rparr>)"
    by (auto simp: sample_request_def factory_env_def)
  show ?thesis
    using s' st by (intro exI [of _ s'] exI [of _ st]) (simp add: bal funded_by_def fee_of_def sample_config_def
      sample_request_def moved_def Let_def)
qed

section \<open>Histories of a factory\<close>

text \<open>A call that fails is rolled back and the next one runs on the same state.\<close>

fun factory_run :: "('w chain \<times> 'w factory_call) list \<Rightarrow> 'w factory \<Rightarrow> 'w factory" where
  "factory_run [] s = s"
| "factory_run ((c, call) # rest) s =
     factory_run rest (case factory_exec c call s of Inr s1 \<Rightarrow> s1 | Inl _ \<Rightarrow> s)"

text \<open>The parties of the streams the committed calls created, in order.\<close>

fun created :: "('w chain \<times> 'w factory_call) list \<Rightarrow> 'w factory \<Rightarrow> (address \<times> address) list" where
  "created [] s = []"
| "created ((c, call) # rest) s = (case factory_exec c call s of
      Inr s1 \<Rightarrow> requested call @ created rest s1
    | Inl _ \<Rightarrow> created rest s)"

lemma factory_run_eq: "registry.run cs s = factory_run cs s"
  by (induction cs s rule: factory_run.induct) (simp_all split: sum.split)

lemma created_eq: "registry.added cs s = created cs s"
  by (induction cs s rule: created.induct) (simp_all split: sum.split)

text \<open>
  C12.  The registry is the list of the creations: whatever calls are made of a
  factory, in whatever order, with whatever fails or happens elsewhere in between,
  the streams are numbered from 0 in the order of their creation, every id leads
  to one address of its own, exactly these addresses are known, and the paged
  queries by sender and by recipient return exactly the ids of that party's
  streams, in order, with the right total.
\<close>

theorem factory_refines_registry:
  assumes "factory_initialize h governor (fresh_factory code w cs) = Inr s0"
    and "10 * length history + 100 \<le> U32_MAX" and "s = factory_run history s0"
  shows "\<exists>rs. map ends rs = created history s0 \<and> distinct (map rg_addr rs) \<and>
     stream_count s = int (length rs) \<and> ag_total_supply (read_aggregate s) = int (length rs) \<and>
     (\<forall>i. \<exists>s1. stream_address i s = (Inr (if 0 \<le> i \<and> i < int (length rs) then Some (rg_addr (rs ! nat i)) else None, s1)
        :: (factory_error, address option \<times> 'w factory) res)) \<and>
     (\<forall>a. \<exists>s1. is_known_stream a s = (Inr (a \<in> rg_addr ` set rs, s1) :: (factory_error, bool \<times> 'w factory) res)) \<and>
     (\<forall>a off lim. \<exists>s1. streams_by_sender e a off lim s =
        (Inr (\<lparr>pg_ids = window off lim (ids_where (\<lambda>r. rg_sender r = a) rs),
               pg_total = length (ids_where (\<lambda>r. rg_sender r = a) rs)\<rparr>, s1) :: (factory_error, stream_page \<times> 'w factory) res)) \<and>
     (\<forall>a off lim. \<exists>s1. streams_by_recipient e a off lim s =
        (Inr (\<lparr>pg_ids = window off lim (ids_where (\<lambda>r. rg_recipient r = a) rs),
               pg_total = length (ids_where (\<lambda>r. rg_recipient r = a) rs)\<rparr>, s1) :: (factory_error, stream_page \<times> 'w factory) res))"
proof -
  obtain rs where rs: "map ends rs = created history s0" "factory_rep s rs"
  proof -
    have "length ([] :: registration list) + 10 * length history \<le> index_capacity"
      using assms(2) unfolding index_capacity_def by simp
    from registry.run_grows [OF initialize_rep [OF assms(1)] this] show thesis
      using that assms(3) by (auto simp: factory_run_eq created_eq)
  qed
  have "length rs \<le> 10 * length history"
    using registry.length_added [of history s0] arg_cong [OF rs(1), of length] by (simp add: created_eq)
  then have "length rs + 100 \<le> U32_MAX" using assms(2) by linarith
  note q = queries_rep [OF rs(2) this, where ?'e = factory_error]
  have "distinct (map rg_addr rs)" "stream_count s = int (length rs)" "ag_total_supply (read_aggregate s) = int (length rs)"
    using rs(2) by (simp_all add: factory_rep_def stream_count_def)
  then show ?thesis using rs(1) q by (intro exI [of _ rs]) blast
qed

text \<open>Alice creates a stream to bob, tries one to herself, and lists her streams.\<close>

definition sample_history :: "(ledger chain \<times> ledger factory_call) list" where
  "sample_history = [(sample_chain 50, CallCreate sample_request None),
     (sample_chain 50, CallCreate (sample_request\<lparr>sq_recipient := ''alice''\<rparr>) None),
     (sample_chain 60, CallStreamsBySender ''alice'' 0 10)]"

theorem factory_refines_registry_witness:
  "\<exists>s1. streams_by_sender (factory_env 60) ''alice'' 0 10 (factory_run sample_history sample_factory) =
     (Inr (\<lparr>pg_ids = [0], pg_total = 1\<rparr>, s1) :: (factory_error, stream_page \<times> ledger factory) res)"
proof -
  obtain s' where s': "create_stream (sample_chain 50) sample_request None sample_factory = Inr (0, s')"
    by (rule sample_create)
  have "create_stream c (sample_request\<lparr>sq_recipient := ''alice''\<rparr>) None s \<noteq> Inr r" for c :: "ledger chain" and s r
    by (auto simp: create_stream_def res_simps validate_stream_request_def sample_request_def)
  then have "factory_exec (sample_chain 50) (CallCreate (sample_request\<lparr>sq_recipient := ''alice''\<rparr>) None) s \<noteq> Inr r" for s r
    by (auto simp: res_simps)
  then have fails: "\<exists>f. factory_exec (sample_chain 50) (CallCreate (sample_request\<lparr>sq_recipient := ''alice''\<rparr>) None) s = Inl f" for s
    by (cases "factory_exec (sample_chain 50) (CallCreate (sample_request\<lparr>sq_recipient := ''alice''\<rparr>) None) s") auto
  have first: "factory_exec (sample_chain 50) (CallCreate sample_request None) sample_factory = Inr s'" by (simp add: s')
  have "created sample_history sample_factory = [(''alice'', ''bob'')]"
    using fails [of s'] unfolding sample_history_def created.simps first sum.case
    by (auto simp: request_ends_def sample_request_def split: sum.split simp del: factory_exec.simps)
  moreover obtain rs where rs: "map ends rs = created sample_history sample_factory"
    and q: "\<forall>a off lim. \<exists>s1. streams_by_sender (factory_env 60) a off lim (factory_run sample_history sample_factory) =
        (Inr (\<lparr>pg_ids = window off lim (ids_where (\<lambda>r. rg_sender r = a) rs),
               pg_total = length (ids_where (\<lambda>r. rg_sender r = a) rs)\<rparr>, s1) :: (factory_error, stream_page \<times> ledger factory) res)"
    using factory_refines_registry [OF sample_initialized, of sample_history _ "factory_env 60"]
    by (auto simp: sample_history_def U32_MAX_def)
  ultimately obtain r where "rs = [r]" "rg_sender r = ''alice''" by (auto simp: ends_def)
  then have "ids_where (\<lambda>r. rg_sender r = ''alice'') rs = [0]" by (simp add: ids_where_def)
  then show ?thesis using q [rule_format, of "''alice''" 0 10] by (simp add: window_def)
qed

end
