(* ===== verification/Factory_Batch.thy ===== *)
theory Factory_Batch
  imports Factory_Create Stream_Safety
begin

text \<open>
  The batch entry points of the factory: creating a batch is creating its streams
  one after the other, cancelling a batch cancels and settles every stream of it.
  Further: the bounded TTL walker reaches every stream, and three places where the
  factory and the stream contract together do not do what their comments say.
\<close>

section \<open>Batches are sequences\<close>

fun create_sequence ::
  "'w chain \<Rightarrow> stream_init_params list \<Rightarrow> 'w factory \<Rightarrow> (factory_error, int list \<times> 'w factory) res" where
  "create_sequence c [] s = Inr ([], s)"
| "create_sequence c (q # qs) s =
     and_then (create_stream c q None s) (\<lambda>(i, s1).
     and_then (create_sequence c qs s1) (\<lambda>(is, s2). Inr (i # is, s2)))"

text \<open>The gate is idempotent within one ledger.\<close>

lemma require_not_paused_idem:
  "require_not_paused now slot = Inr slot' \<Longrightarrow> require_not_paused now slot' = Inr slot'"
  by (auto simp: require_not_paused_def is_paused_def require_not_paused_flag_def res_simps
      split: option.splits pause_val.splits if_splits prod.splits)

definition gate_open :: "'w chain \<Rightarrow> governor_config \<Rightarrow> 'w factory \<Rightarrow> bool" where
  "gate_open c config s \<longleftrightarrow> require_not_paused (timestamp (ch_env c)) (fk_Paused s) = Inr (fk_Paused s) \<and>
     (\<exists>g. fk_GovernorAddress s = Some g \<and> ch_governor c g = Some config)"

lemma gate_open_passes: "gate_open c config s \<Longrightarrow> factory_require_not_paused (ch_env c) s = Inr s"
  by (simp add: gate_open_def factory_require_not_paused_def map_err_def)

lemma gate_open_after:
  assumes "factory_require_not_paused (ch_env c) s = Inr s1" and "fk_GovernorAddress s = Some g"
    and "ch_governor c g = Some config"
  shows "gate_open c config s1"
proof -
  obtain slot where "s1 = s\<lparr>fk_Paused := slot\<rparr>" "require_not_paused (timestamp (ch_env c)) (fk_Paused s) = Inr slot"
    by (rule require_not_paused_frame [OF assms(1)])
  then show ?thesis
    using assms(2,3) require_not_paused_idem by (auto simp: gate_open_def)
qed

lemma create_keeps_gate:
  assumes "create_stream_with_config c config now q desc s = Inr (stream_id, s')" and "gate_open c config s"
  shows "gate_open c config s'" and "fk_StreamAddr s' stream_id \<noteq> None"
proof -
  have "fk_Paused s' = fk_Paused s \<and> fk_GovernorAddress s' = fk_GovernorAddress s \<and> fk_StreamAddr s' stream_id \<noteq> None"
    using assms(1)
  proof (rule create_success)
    fix fee s1 s2 s3 s4 code addr s5 s6 s7 s8
    assume s1: "s1 = renew_instance (s\<lparr>fk_CreateLock := Some True\<rparr>)"
      and s2: "confirmed_transfer (ch_env c) DepositTransferFailed (sq_token q) (sq_sender q)
           (contract_address (ch_env c)) (sq_deposit q + fee) s1 = Inr s2"
      and s3: "(if 0 < fee then factory_transfer (ch_env c) (sq_token q) (contract_address (ch_env c))
           (gc_fee_recipient config) fee s2 else Inr s2) = (Inr s3 :: (factory_error, 'a factory) res)"
      and s4: "s4 = emit (EvProtocolFee (gc_fee_recipient config) fee) s3"
      and s5: "deploy_stream c code stream_id (init_args config q desc) s4 = Inr (addr, s5)"
      and s6: "confirmed_transfer (ch_env c) StreamFundingFailed (sq_token q) (contract_address (ch_env c)) addr
           (sq_deposit q) s5 = Inr s6"
      and s7: "s7 = emit (EvStreamCreated (sq_sender q) (sq_recipient q) addr (compute_salt c stream_id) code) s6"
      and s8: "register_stream (ch_env c) q stream_id addr s7 = Inr s8" and s': "s' = s8\<lparr>fk_CreateLock := Some False\<rparr>"
    have ct: "fk_Paused u' = fk_Paused u \<and> fk_GovernorAddress u' = fk_GovernorAddress u"
      if "confirmed_transfer e err tok a b n u = Inr u'" for e err tok a b n and u u' :: "'a factory"
      using that by (auto simp: confirmed_transfer_def factory_transfer_def res_simps)
    have "fk_Paused s3 = fk_Paused s2 \<and> fk_GovernorAddress s3 = fk_GovernorAddress s2"
      using s3 by (auto simp: factory_transfer_def res_simps split: if_splits)
    moreover have "fk_Paused s5 = fk_Paused s4 \<and> fk_GovernorAddress s5 = fk_GovernorAddress s4"
      using s5 by (auto elim!: deploy_stream_success)
    ultimately show ?thesis
      using ct [OF s2] ct [OF s6] register_frame [OF s8] by (simp add: s1 s4 s7 s' emit_def renew_instance_def)
  qed
  then show "gate_open c config s'" and "fk_StreamAddr s' stream_id \<noteq> None"
    using assms(2) by (auto simp: gate_open_def)
qed

lemma create_stream_open:
  assumes "gate_open c config s" and "authorized (ch_env c) (sq_sender q)"
  shows "create_stream c q None s =
     and_then (validate_stream_request (ch_env c) q) (\<lambda>now. create_stream_with_config c config now q None s)"
  using assms gate_open_passes [OF assms(1)]
  by (auto simp: create_stream_def gate_open_def require_auth_def governance_config_def)

lemma create_requests_sequence:
  assumes "gate_open c config s" and "authorized (ch_env c) sender"
  shows "create_requests c config sender claw reqs ids s =
     and_then (create_sequence c (map (with_sender sender claw) reqs) s) (\<lambda>(is, s1). Inr (ids @ is, s1))"
  using assms(1)
proof (induction reqs arbitrary: ids s)
  case (Cons b reqs)
  let ?q = "with_sender sender claw b"
  have open1: "create_stream c ?q None s =
     and_then (validate_stream_request (ch_env c) ?q) (\<lambda>now. create_stream_with_config c config now ?q None s)"
    using create_stream_open [OF Cons.prems] assms(2) by (simp add: with_sender_def)
  show ?case
  proof (cases "create_stream c ?q None s")
    case (Inl f)
    then show ?thesis using open1 by (auto simp: res_simps)
  next
    case (Inr r)
    obtain i s1 where r: "r = (i, s1)" by (metis surj_pair)
    obtain now where v: "validate_stream_request (ch_env c) ?q = Inr now"
      and cr: "create_stream_with_config c config now ?q None s = Inr (i, s1)"
      using Inr open1 r by (auto simp: res_simps)
    show ?thesis
      using Cons.IH [OF create_keeps_gate(1) [OF cr Cons.prems]] Inr r v cr
      by (simp add: and_then_assoc case_prod_beta')
  qed
qed simp

lemma create_each_sequence:
  assumes "gate_open c config s"
  shows "and_then (create_each c config cfgs out s) (\<lambda>(_, s1). Inr s1) =
     and_then (create_sequence c cfgs s) (\<lambda>(_, s1). Inr s1)"
  using assms
proof (induction cfgs arbitrary: out s)
  case (Cons q cfgs)
  show ?case
  proof (cases "authorized (ch_env c) (sq_sender q)")
    case True
    note open1 = create_stream_open [OF Cons.prems True]
    show ?thesis
    proof (cases "create_stream c q None s")
      case (Inl f)
      then show ?thesis using open1 True by (auto simp: res_simps require_auth_def)
    next
      case (Inr r)
      obtain i s1 where r: "r = (i, s1)" by (metis surj_pair)
      obtain now where v: "validate_stream_request (ch_env c) q = Inr now"
        and cr: "create_stream_with_config c config now q None s = Inr (i, s1)"
        using Inr open1 r by (auto simp: res_simps)
      obtain addr where "fk_StreamAddr s1 i = Some addr" using create_keeps_gate(2) [OF cr Cons.prems] by auto
      then show ?thesis
        using Cons.IH [OF create_keeps_gate(1) [OF cr Cons.prems]] Inr r v cr True
        by (simp add: and_then_assoc case_prod_beta' require_auth_def)
    qed
  qed (simp add: create_stream_def require_auth_def)
qed simp

text \<open>
  C13.  A batch is the sequence of its creations: with a governor that answers, a
  batch of at most ten requests gives the same ids and the same state as creating
  its streams one after the other with \<^verbatim>\<open>create_stream\<close>, and fails with the error of
  the first creation that fails; the same holds of the variant whose requests
  carry their own senders.
\<close>

theorem batch_is_sequence:
  assumes "fk_GovernorAddress s = Some g" and "ch_governor c g = Some config"
    and "reqs \<noteq> []" and "length reqs \<le> 10" and "cfgs \<noteq> []" and "length cfgs \<le> 10"
    and "\<exists>s1. factory_require_not_paused (ch_env c) s = Inr s1" and "authorized (ch_env c) sender"
  shows "create_batch_streams c sender reqs claw s = create_sequence c (map (with_sender sender claw) reqs) s \<and>
     and_then (batch_create_streams c cfgs s) (\<lambda>(_, s1). Inr s1) = and_then (create_sequence c cfgs s) (\<lambda>(_, s1). Inr s1)"
proof -
  obtain s1 where s1: "factory_require_not_paused (ch_env c) s = Inr s1" using assms(7) by blast
  have gate: "gate_open c config s1" by (rule gate_open_after [OF s1 assms(1,2)])
  obtain slot where slot: "s1 = s\<lparr>fk_Paused := slot\<rparr>" by (rule require_not_paused_frame [OF s1])
  then have gov: "fk_GovernorAddress s1 = Some g" using assms(1) by simp
  have s1': "factory_require_not_paused (ch_env c) s1 = Inr s1" by (rule gate_open_passes [OF gate])
  have first: "create_stream c q d s = create_stream c q d s1" for q d
    using s1 s1' by (simp add: create_stream_def)
  have seq: "create_sequence c qs s = create_sequence c qs s1" if "qs \<noteq> []" for qs
    using that by (cases qs) (simp_all add: first)
  have "create_batch_streams c sender reqs claw s = create_sequence c (map (with_sender sender claw) reqs) s"
    using assms(2-4,8) s1 gov create_requests_sequence [OF gate assms(8), of claw reqs "[]"] seq
    by (auto simp: create_batch_streams_def FACTORY_MAX_BATCH_SIZE_def require_auth_def governance_config_def and_then_def
        split: sum.split)
  moreover have "and_then (batch_create_streams c cfgs s) (\<lambda>(_, s1). Inr s1) = and_then (create_sequence c cfgs s) (\<lambda>(_, s1). Inr s1)"
    using assms(2,5,6) s1 gov create_each_sequence [OF gate, of cfgs "[]"] seq [OF assms(5)]
    by (simp add: batch_create_streams_def FACTORY_MAX_BATCH_SIZE_def governance_config_def)
  ultimately show ?thesis ..
qed

definition sample_batch_request :: batch_stream_request where
  "sample_batch_request = \<lparr>bq_recipient = ''bob'', bq_token = ''T'', bq_deposit = 10000, bq_rate_per_sec = 10,
     bq_start_time = 100, bq_end_time = 700\<rparr>"

theorem batch_is_sequence_witness:
  "\<exists>s'. create_batch_streams (sample_chain 50) ''alice'' [sample_batch_request] True sample_factory = Inr ([0], s')"
proof -
  obtain s' where s': "create_stream (sample_chain 50) sample_request None sample_factory = Inr (0, s')"
    by (rule sample_create)
  have q: "with_sender ''alice'' True sample_batch_request = sample_request"
    by (simp add: with_sender_def sample_batch_request_def sample_request_def)
  have "\<exists>s1. factory_require_not_paused (ch_env (sample_chain 50)) sample_factory = Inr s1"
    by (simp add: factory_require_not_paused_def require_not_paused_def is_paused_def require_not_paused_flag_def
        sample_factory_def fresh_factory_def map_err_def)
  then have "create_batch_streams (sample_chain 50) ''alice'' [sample_batch_request] True sample_factory =
      create_sequence (sample_chain 50) [sample_request] sample_factory"
    using batch_is_sequence [of sample_factory "''gov''" "sample_chain 50" sample_config "[sample_batch_request]"
        "[sample_request]" "''alice''" True]
    by (simp add: q sample_factory_def fresh_factory_def sample_chain_def factory_env_def)
  then show ?thesis using s' by simp
qed

section \<open>Cancelling a batch\<close>

lemma cancel_marks:
  assumes "stream_idle t st" and "env_ok t e" and "cancel e caller st = Inr (u, st')"
  obtains info info' where "k_Config st = Some info" and "\<not> info_is_cancelled info"
    and "caller = si_sender info \<or> k_Operator st = Some caller"
    and "k_Config st' = Some info'" and "info_is_cancelled info'"
proof -
  obtain s2 where body: "cancel_body e caller (st\<lparr>k_Guard := Some 1\<rparr>) = Inr (u, s2)" and st': "st' = unlock s2"
    using assms(3,1) unfolding cancel_def by (rule guarded_run)
  have sp: "split_ok (k_SplitConfig (st\<lparr>k_Guard := Some 1\<rparr>))" using idle_split [OF assms(1)] by simp
  have "sep41 e" using assms(2) by (simp add: env_ok_def)
  from this sp body show thesis
  proof (rule cancel_body_success)
    fix i w paid
    assume i: "k_Config (st\<lparr>k_Guard := Some 1\<rparr>) = Some i" "\<not> info_is_cancelled i"
      "require_sender_or_operator e (st\<lparr>k_Guard := Some 1\<rparr>) caller (si_sender i) = Inr ()"
      and ls: "log_step (settled_state i paid w (st\<lparr>k_Guard := Some 1\<rparr>)) s2"
    obtain j evs where "k_Config s2 = Some j" "info_is_cancelled j"
      using ls by (rule log_step_config) (auto simp: settled_state_def flag_bits mark_cancelled_def)
    moreover have "caller = si_sender i \<or> k_Operator st = Some caller"
      using i(3) by (auto simp: require_sender_or_operator_def res_simps split: option.splits if_splits)
    ultimately show thesis using i by (intro that [of i j]) (simp_all add: st')
  qed
qed

text \<open>A deployed stream of this repository's code, in a valid state.\<close>

definition stream_at :: "'w chain \<Rightarrow> int \<Rightarrow> 'w factory \<Rightarrow> address \<Rightarrow> bool" where
  "stream_at c t s a \<longleftrightarrow> (\<exists>ct. fa_contracts s a = Some ct \<and> ch_uploaded c (ct_code ct) = Some drip_stream \<and>
     stream_idle t (ct_state ct))"

definition cancelled_at :: "'w factory \<Rightarrow> address \<Rightarrow> bool" where
  "cancelled_at s a \<longleftrightarrow> (\<exists>ct info. fa_contracts s a = Some ct \<and> k_Config (ct_state ct) = Some info \<and> info_is_cancelled info)"

definition controls :: "address \<Rightarrow> 'w factory \<Rightarrow> address \<Rightarrow> bool" where
  "controls who s a \<longleftrightarrow> (\<exists>ct info. fa_contracts s a = Some ct \<and> k_Config (ct_state ct) = Some info \<and>
     (who = si_sender info \<or> k_Operator (ct_state ct) = Some who))"

definition active_count :: "'w factory \<Rightarrow> int" where
  "active_count s = ag_active_streams (read_aggregate s)"

lemma mark_cancel_effect:
  assumes "mark_cancel a s = Inr s'"
  shows "fa_contracts s' = fa_contracts s" "already_recorded a s'" "\<And>b. b \<noteq> a \<Longrightarrow> already_recorded b s' = already_recorded b s"
    "active_count s' = sat_u64 (active_count s - 1)"
  using assms by (auto simp: mark_cancel_def res_simps Let_def already_recorded_def active_count_def read_aggregate_def
      split: option.splits)

lemma cancel_one:
  assumes "on_stream c a (\<lambda>code e st. code_cancel code e sender st) s = Inr (u, s1)"
    and "stream_at c t s a" and "env_ok t (ch_env c)"
  shows "controls sender s a" and "\<not> cancelled_at s a" and "cancelled_at s1 a"
    and "\<And>b. b \<noteq> a \<Longrightarrow> fa_contracts s1 b = fa_contracts s b"
    and "fk_CancelledStream s1 = fk_CancelledStream s" and "active_count s1 = active_count s"
proof -
  obtain ct code st where ct: "fa_contracts s a = Some ct" "ch_uploaded c (ct_code ct) = Some code"
    and call: "code_cancel code ((ch_env c)\<lparr>contract_address := a\<rparr>) sender ((ct_state ct)\<lparr>st_world := fa_world s\<rparr>) = Inr (u, st)"
    and s1: "s1 = s\<lparr>fa_world := st_world st, fa_contracts := (fa_contracts s)(a \<mapsto> ct\<lparr>ct_state := st\<rparr>)\<rparr>"
    by (rule on_stream_success [OF assms(1)])
  have code: "code = drip_stream" and idle: "stream_idle t ((ct_state ct)\<lparr>st_world := fa_world s\<rparr>)"
    using assms(2) ct by (auto simp: stream_at_def stream_idle_def guard_depth_def)
  have run: "cancel (at_address (ch_env c) a) sender ((ct_state ct)\<lparr>st_world := fa_world s\<rparr>) = Inr (u, st)"
    using call by (simp add: code drip_stream_def at_address_def)
  have env: "env_ok t (at_address (ch_env c) a)" using assms(3) by simp
  have m: "controls sender s a \<and> \<not> cancelled_at s a \<and> cancelled_at s1 a"
    by (rule cancel_marks [OF idle env run]) (use ct in \<open>auto simp: controls_def cancelled_at_def s1\<close>)
  then show "controls sender s a" "\<not> cancelled_at s a" "cancelled_at s1 a" by simp_all
  show "b \<noteq> a \<Longrightarrow> fa_contracts s1 b = fa_contracts s b" for b by (simp add: s1)
  show "fk_CancelledStream s1 = fk_CancelledStream s" "active_count s1 = active_count s"
    by (simp_all add: s1 active_count_def read_aggregate_def)
qed

lemma has_duplicate_eq: "has_duplicate as seen \<longleftrightarrow> \<not> distinct as \<or> set as \<inter> dom seen \<noteq> {}"
  by (induction "as" arbitrary: seen) (auto simp: dom_def split: if_splits)

lemma sat_pred: "0 \<le> n \<Longrightarrow> n \<le> u64_max \<Longrightarrow> sat_u64 (n - 1) = max 0 (n - 1)"
  by (simp add: sat_u64_def)

lemma cancel_each_effect:
  assumes "cancel_each c sender as s = Inr s'" and "distinct as" and "env_ok t (ch_env c)"
    and "\<forall>a\<in>set as. stream_at c t s a" and "in_u64 (active_count s)"
  shows "(\<forall>a\<in>set as. controls sender s a \<and> \<not> cancelled_at s a \<and> cancelled_at s' a \<and> already_recorded a s') \<and>
     (\<forall>a. a \<notin> set as \<longrightarrow> fa_contracts s' a = fa_contracts s a \<and> already_recorded a s' = already_recorded a s) \<and>
     active_count s' = max 0 (active_count s - int (length (filter (\<lambda>a. \<not> already_recorded a s) as)))"
  using assms
proof (induction "as" arbitrary: s)
  case Nil
  then show ?case by (simp add: in_u64_def)
next
  case (Cons a "as")
  obtain u s1 s2 where s1: "on_stream c a (\<lambda>code e st. code_cancel code e sender st) s = (Inr (u, s1) :: (factory_error, unit \<times> 'a factory) res)"
    and s2: "(if already_recorded a s1 then Inr s1 else mark_cancel a s1) = (Inr s2 :: (factory_error, 'a factory) res)"
    and rest: "cancel_each c sender as s2 = Inr s'"
    using Cons.prems(1) by (auto simp: res_simps)
  note one = cancel_one [OF s1 _ Cons.prems(3)]
  have at: "stream_at c t s a" using Cons.prems(4) by simp
  have rec: "already_recorded b s1 = already_recorded b s" for b using one(5) [OF at] by (simp add: already_recorded_def)
  have m: "fa_contracts s2 = fa_contracts s1" "already_recorded a s2" "\<And>b. b \<noteq> a \<Longrightarrow> already_recorded b s2 = already_recorded b s"
    "active_count s2 = (if already_recorded a s then active_count s else max 0 (active_count s - 1))"
    using s2 mark_cancel_effect [of a s1 s2] one(6) [OF at] Cons.prems(5) rec sat_pred
    by (auto split: if_splits simp: in_u64_def)
  have ne: "b \<noteq> a" if "b \<in> set as" for b using that Cons.prems(2) by auto
  have same: "fa_contracts s2 b = fa_contracts s b" if "b \<noteq> a" for b using one(4) [OF at that] by (simp add: m(1))
  have at2: "\<forall>b\<in>set as. stream_at c t s2 b" using Cons.prems(4) ne same by (simp add: stream_at_def)
  have cnt: "in_u64 (active_count s2)" using Cons.prems(5) by (auto simp: m(4) in_u64_def)
  have "distinct as" "a \<notin> set as" using Cons.prems(2) by simp_all
  note ih = Cons.IH [OF rest this(1) Cons.prems(3) at2 cnt]
  have a': "cancelled_at s' a" "already_recorded a s'"
    using ih \<open>a \<notin> set as\<close> one(3) [OF at] m(1,2) by (simp_all add: cancelled_at_def)
  have eq: "controls sender s2 b = controls sender s b" "cancelled_at s2 b = cancelled_at s b" if "b \<in> set as" for b
    using same [OF ne [OF that]] by (simp_all add: controls_def cancelled_at_def)
  have "filter (\<lambda>b. \<not> already_recorded b s2) as = filter (\<lambda>b. \<not> already_recorded b s) as"
    using m(3) ne by (intro filter_cong) auto
  then show ?case
    using ih a' one(1,2) [OF at] eq same m(3,4) by (auto simp: max_def)
qed

text \<open>
  C14.  Cancelling a batch through the factory: every stream of the batch was running
  and controlled by the sender (as its sender or operator), ends cancelled and is
  recorded as such; no other contract is touched, duplicates are refused, and the
  count of active streams drops by exactly the streams not recorded before.
\<close>

theorem cancel_batch_cancels:
  assumes "cancel_batch_streams c sender addrs s = Inr s'" and "env_ok t (ch_env c)"
    and "\<forall>a\<in>set addrs. stream_at c t s a" and "in_u64 (active_count s)"
  shows "distinct addrs \<and> authorized (ch_env c) sender \<and>
     (\<forall>a\<in>set addrs. controls sender s a \<and> \<not> cancelled_at s a \<and> cancelled_at s' a \<and> already_recorded a s') \<and>
     (\<forall>a. a \<notin> set addrs \<longrightarrow> fa_contracts s' a = fa_contracts s a) \<and>
     active_count s' = max 0 (active_count s - int (length (filter (\<lambda>a. \<not> already_recorded a s) addrs)))"
proof -
  have "authorized (ch_env c) sender" and d: "distinct addrs" and run: "cancel_each c sender addrs s = Inr s'"
    using assms(1) by (auto simp: cancel_batch_streams_def res_simps has_duplicate_eq)
  then show ?thesis using cancel_each_effect [OF run d assms(2-4)] by auto
qed

text \<open>The sample factory with the sample stream of 6000 units deployed at \<open>C\<close>.\<close>

definition stocked_factory :: "ledger factory" where
  "stocked_factory = sample_factory\<lparr>fa_world := sample_ledger,
     fa_contracts := (\<lambda>a. if a = ''C'' then Some \<lparr>ct_code = sample_hash, ct_state = sample_stream\<rparr> else None),
     fk_IsKnownStream := (\<lambda>a. if a = ''C'' then Some True else None),
     fk_Aggregate := Some \<lparr>ag_total_supply = 1, ag_active_streams = 1\<rparr>\<rparr>"

lemma stocked_call:
  "(ch_env (sample_chain n))\<lparr>contract_address := ''C''\<rparr> = sample_env n"
  "sample_stream\<lparr>st_world := sample_ledger\<rparr> = sample_stream"
  by (simp_all add: sample_chain_def factory_env_def sample_env_def sample_stream_def fresh_stream_def)

theorem cancel_batch_cancels_witness:
  "\<exists>s'. cancel_batch_streams (sample_chain 250) ''alice'' [''C''] stocked_factory = Inr s' \<and>
     cancelled_at s' ''C'' \<and> active_count s' = 0"
proof -
  obtain st where st: "cancel (sample_env 250) ''alice'' sample_stream = Inr ((), st)"
    using sample_cancels by blast
  have up: "ch_uploaded (sample_chain 250) sample_hash = Some drip_stream" "authorized (ch_env (sample_chain 250)) ''alice''"
    "env_ok 0 (ch_env (sample_chain 250))"
    using sample_chain_ok [of 250] by (simp_all add: sample_chain_def factory_env_def chain_ok_def)
  have "\<exists>s'. cancel_batch_streams (sample_chain 250) ''alice'' [''C''] stocked_factory = Inr s'"
    using up by (simp add: cancel_batch_streams_def require_auth_def FACTORY_MAX_BATCH_SIZE_def on_stream_def
        stocked_factory_def stocked_call st drip_stream_def already_recorded_def mark_cancel_def renew_def
        bump_persistent_def sample_factory_def fresh_factory_def Let_def ex_bool_eq)
  then obtain s' where s': "cancel_batch_streams (sample_chain 250) ''alice'' [''C''] stocked_factory = Inr s'" by blast
  have "\<forall>a\<in>set [''C'']. stream_at (sample_chain 250) 0 stocked_factory a"
    using up sample_idle by (simp add: stream_at_def stocked_factory_def)
  from cancel_batch_cancels [OF s' up(3) this] show ?thesis
    using s' by (auto simp: active_count_def stocked_factory_def read_aggregate_def in_u64_def int_bounds
        already_recorded_def sample_factory_def fresh_factory_def)
qed

section \<open>Foreign contracts and the active count\<close>

definition foreign_code :: "ledger stream_code" where
  "foreign_code = drip_stream\<lparr>code_cancel := (\<lambda>e caller st. Inr ((), st))\<rparr>"

definition foreign_chain :: "ledger chain" where
  "foreign_chain = (sample_chain 250)\<lparr>ch_uploaded := (\<lambda>h. if h = replicate 32 9 then Some foreign_code
     else ch_uploaded (sample_chain 250) h)\<rparr>"

text \<open>
  \<^verbatim>\<open>cancel_batch_streams\<close> does not check that an address is a stream of this
  factory: mallory passes a contract of its own whose \<^verbatim>\<open>cancel\<close> does nothing, the call
  commits, and the count of active streams drops to 0 while the only stream of the
  factory is still running.  (\<^verbatim>\<open>record_cancel\<close> does make that check.)
\<close>

theorem foreign_cancel_uncounts:
  "\<exists>s s'. s = stocked_factory\<lparr>fa_contracts := (fa_contracts stocked_factory)(''E'' \<mapsto>
        \<lparr>ct_code = replicate 32 9, ct_state = fresh_stream sample_ledger\<rparr>)\<rparr> \<and>
     fk_IsKnownStream s ''E'' = None \<and> active_count s = 1 \<and>
     cancel_batch_streams foreign_chain ''mallory'' [''E''] s = Inr s' \<and>
     active_count s' = 0 \<and> fa_contracts s' ''C'' = fa_contracts s ''C'' \<and> \<not> cancelled_at s' ''C''"
  by (simp add: cancel_batch_streams_def foreign_chain_def foreign_code_def require_auth_def FACTORY_MAX_BATCH_SIZE_def
      on_stream_def stocked_factory_def sample_chain_def factory_env_def already_recorded_def mark_cancel_def renew_def
      bump_persistent_def sample_factory_def fresh_factory_def Let_def ex_bool_eq active_count_def read_aggregate_def
      sat_u64_def cancelled_at_def int_bounds)

section \<open>The recorded deposit of a new stream\<close>

text \<open>
  What the stream records as its total deposit is not what was deposited: the
  factory forwards the deposit after \<^verbatim>\<open>initialize\<close>, so an open-ended stream created
  with 10000 units records 0 as \<^verbatim>\<open>cumulative_deposited\<close>, and stays short by them.
\<close>

theorem open_ended_deposit_unrecorded:
  "\<exists>s' st. create_stream (sample_chain 50) (sample_request\<lparr>sq_end_time := 0\<rparr>) None sample_factory = Inr (0, s') \<and>
     fa_contracts s' ''S'' = Some \<lparr>ct_code = sample_hash, ct_state = st\<rparr> \<and>
     bal_of (factory_env 50) (fa_world s') ''T'' ''S'' = 10000 \<and>
     cumulative_deposited (at_address (factory_env 50) ''S'') (st\<lparr>st_world := fa_world s'\<rparr>) = Inr 0"
proof -
  obtain ix where ix: "append_index_entry (Suc 0) 0 empty_index = (Inr ix :: (factory_error, index_slot) res)"
    by (rule first_entry)
  show ?thesis
    by (simp add: create_eval sample_eval ix ex_bool_eq cumulative_deposited_def try_load_def
        stored_cumulative_deposited_def ledger_bal_of)
qed

section \<open>The TTL walker\<close>

definition renewed :: "int \<Rightarrow> factory_key ttl_call" where
  "renewed i = ExtendPersistent (FkStreamAddr i) MIN_TTL_LEDGERS EXTEND_TTL_LEDGERS"

text \<open>The walker's part of the state: every id below the count has an address, the cursor is one of them.\<close>

definition walker_ok :: "int \<Rightarrow> 'w factory \<Rightarrow> bool" where
  "walker_ok n s \<longleftrightarrow> fk_StreamCount s = Some n \<and> 0 < n \<and> n + 8 \<le> u64_max \<and>
     (\<forall>i. 0 \<le> i \<longrightarrow> i < n \<longrightarrow> fk_StreamAddr s i \<noteq> None) \<and>
     (case fk_LastBumpedId s of None \<Rightarrow> True | Some cur \<Rightarrow> 0 \<le> cur \<and> cur < n)"

definition cursor_of :: "'w factory \<Rightarrow> int" where
  "cursor_of s = (case fk_LastBumpedId s of Some n \<Rightarrow> n | None \<Rightarrow> 0)"

lemma bump_ids_eq:
  assumes "0 < n" and "0 \<le> cur" and "cur + 8 \<le> u64_max" and "\<forall>i. 0 \<le> i \<longrightarrow> i < n \<longrightarrow> fk_StreamAddr s i \<noteq> None"
  shows "\<forall>i\<in>set is. 0 \<le> i \<and> i < 8 \<Longrightarrow> 0 \<le> k \<Longrightarrow> k + int (length is) \<le> u32_max \<Longrightarrow>
     bump_ids n cur is (l, k) s = Inr ((if is = [] then l else (cur + 1 + last is) mod n, k + int (length is)),
       s\<lparr>fa_ttl := fa_ttl s @ map (\<lambda>i. renewed ((cur + 1 + i) mod n)) is\<rparr>)"
  using assms(4)
proof (induction "is" arbitrary: l k s)
  case (Cons i "is")
  let ?id = "(cur + 1 + i) mod n"
  have sat: "sat_u64 (sat_u64 (cur + 1) + i) = cur + 1 + i"
    using assms(2,3) Cons.prems(1) by (simp add: in_u64_def)
  have id: "0 \<le> ?id" "?id < n" using assms(1) by simp_all
  then obtain x where x: "fk_StreamAddr s ?id = Some x" using Cons.prems(4) by blast
  let ?s = "s\<lparr>fa_ttl := fa_ttl s @ [renewed ?id]\<rparr>"
  have "renew (FkStreamAddr ?id) s = (Inr ?s :: ('b, 'a factory) res)" using x by (simp add: res_simps renewed_def)
  moreover have "plain_u32 (k + 1) = (Inr (k + 1) :: ('b, int) res)"
    using Cons.prems(2,3) by (simp add: plain_u32_def in_u32_def)
  moreover have "bump_ids n cur is (?id, k + 1) ?s = (Inr ((if is = [] then ?id else (cur + 1 + last is) mod n, k + 1 + int (length is)),
       ?s\<lparr>fa_ttl := fa_ttl ?s @ map (\<lambda>i. renewed ((cur + 1 + i) mod n)) is\<rparr>) :: ('b, (int \<times> int) \<times> 'a factory) res)"
    using Cons.prems by (intro Cons.IH) auto
  ultimately show ?case using sat x by (simp add: Let_def)
qed simp

lemma bucket_eq:
  assumes "walker_ok n s"
  obtains k s' where "bump_persistent_bucket s = (Inr (k, s') :: ('e, int \<times> 'w factory) res)"
    and "walker_ok n s'" and "cursor_of s' = (cursor_of s + 8) mod n"
    and "fa_ttl s' = fa_ttl s @ map (\<lambda>i. renewed ((cursor_of s + 1 + i) mod n)) [0 .. 7]"
proof -
  let ?s = "s\<lparr>fa_ttl := fa_ttl s @ map (\<lambda>i. renewed ((cursor_of s + 1 + i) mod n)) [0 .. 7]\<rparr>"
  have cur: "0 \<le> cursor_of s" "cursor_of s < n" and n: "0 < n" "n + 8 \<le> u64_max" "fk_StreamCount s = Some n"
    using assms by (auto simp: walker_ok_def cursor_of_def split: option.splits)
  have "bump_ids n (cursor_of s) [0 .. 7] (cursor_of s, 0) s =
      (Inr (((cursor_of s + 1 + 7) mod n, 8), ?s) :: ('e, (int \<times> int) \<times> 'w factory) res)"
    using bump_ids_eq [OF n(1) cur(1), of s "[0 .. 7]" 0 "cursor_of s", where ?'b = 'e] cur n assms
    by (simp add: walker_ok_def int_bounds upto_rec1)
  then have "bump_persistent_bucket s = (Inr (8, ?s\<lparr>fk_LastBumpedId := Some ((cursor_of s + 1 + 7) mod n)\<rparr>) :: ('e, int \<times> 'w factory) res)"
    using n unfolding bump_persistent_bucket_def Let_def BATCH_LIMIT_def cursor_of_def [symmetric] by simp
  then show thesis
  proof (rule that)
    show "walker_ok n (?s\<lparr>fk_LastBumpedId := Some ((cursor_of s + 1 + 7) mod n)\<rparr>)"
      using assms by (simp add: walker_ok_def)
  qed (simp_all add: cursor_of_def algebra_simps)
qed

text \<open>A number of maintenance calls, one after the other.\<close>

fun walks :: "nat \<Rightarrow> 'w factory \<Rightarrow> ('e, 'w factory) res" where
  "walks 0 s = Inr s"
| "walks (Suc k) s = and_then (bump_persistent_bucket s) (\<lambda>(_, s1). walks k s1)"

lemma walks_eq:
  "walker_ok n s \<Longrightarrow> \<exists>s'. walks k s = (Inr s' :: ('e, 'w factory) res) \<and>
     set (fa_ttl s') = set (fa_ttl s) \<union> {renewed ((cursor_of s + j) mod n) | j. 1 \<le> j \<and> j \<le> 8 * int k}"
proof (induction k arbitrary: s)
  case 0
  then show ?case by auto
next
  case (Suc k)
  obtain m s1 where s1: "bump_persistent_bucket s = (Inr (m, s1) :: ('e, int \<times> 'w factory) res)" "walker_ok n s1"
    "cursor_of s1 = (cursor_of s + 8) mod n"
    "fa_ttl s1 = fa_ttl s @ map (\<lambda>i. renewed ((cursor_of s + 1 + i) mod n)) [0 .. 7]"
    by (rule bucket_eq [OF Suc.prems])
  obtain s' where s': "walks k s1 = (Inr s' :: ('e, 'w factory) res)"
    "set (fa_ttl s') = set (fa_ttl s1) \<union> {renewed ((cursor_of s1 + j) mod n) | j. 1 \<le> j \<and> j \<le> 8 * int k}"
    using Suc.IH [OF s1(2)] by blast
  have first: "set (map (\<lambda>i. renewed ((cursor_of s + 1 + i) mod n)) [0 .. 7]) =
      {renewed ((cursor_of s + j) mod n) | j. 1 \<le> j \<and> j \<le> 8}"
    by (auto intro!: image_eqI [where x = "j - 1" for j] exI [of _ "1 + i" for i] simp: add.assoc)
  have shift: "(cursor_of s1 + j) mod n = (cursor_of s + (j + 8)) mod n" for j
    unfolding s1(3) mod_add_left_eq by (simp add: ac_simps)
  have "{renewed ((cursor_of s1 + j) mod n) | j. 1 \<le> j \<and> j \<le> 8 * int k} =
      {renewed ((cursor_of s + j) mod n) | j. 9 \<le> j \<and> j \<le> 8 * int (Suc k)}"
  proof (intro set_eqI iffI, goal_cases)
    case (1 x)
    then obtain j where "x = renewed ((cursor_of s1 + j) mod n)" "1 \<le> j" "j \<le> 8 * int k" by blast
    then show ?case by (auto simp: shift intro!: exI [of _ "j + 8"])
  next
    case (2 x)
    then obtain j where "x = renewed ((cursor_of s + j) mod n)" "9 \<le> j" "j \<le> 8 * int (Suc k)" by blast
    then show ?case by (auto simp: shift intro!: exI [of _ "j - 8"])
  qed
  moreover have "{renewed ((cursor_of s + j) mod n) | j. 1 \<le> j \<and> j \<le> 8 * int (Suc k)} =
      {renewed ((cursor_of s + j) mod n) | j. 1 \<le> j \<and> j \<le> 8} \<union>
      {renewed ((cursor_of s + j) mod n) | j. 9 \<le> j \<and> j \<le> 8 * int (Suc k)}"
    by auto (smt (verit, best))+
  ultimately show ?case using s1(1) s' first unfolding s1(4) by auto
qed

text \<open>
  The TTL walker reaches every stream: each maintenance call renews eight ids
  (it neither fails nor touches anything but its cursor and the renewals), and as
  soon as eight times the number of calls is at least the number of streams, every
  stream's registry entry has been renewed, wherever the cursor stood.
\<close>

theorem walker_reaches_all:
  assumes "walker_ok n s" and "n \<le> 8 * int k"
  shows "\<exists>s'. walks k s = (Inr s' :: (factory_error, 'w factory) res) \<and>
     (\<forall>i. 0 \<le> i \<and> i < n \<longrightarrow> renewed i \<in> set (fa_ttl s'))"
proof -
  obtain s' where s': "walks k s = (Inr s' :: (factory_error, 'w factory) res)"
    "set (fa_ttl s') = set (fa_ttl s) \<union> {renewed ((cursor_of s + j) mod n) | j. 1 \<le> j \<and> j \<le> 8 * int k}"
    using walks_eq [OF assms(1)] by blast
  have cur: "0 \<le> cursor_of s" "cursor_of s < n"
    using assms(1) by (auto simp: walker_ok_def cursor_of_def split: option.splits)
  have "renewed i \<in> set (fa_ttl s')" if i: "0 \<le> i" "i < n" for i
  proof -
    let ?j = "if cursor_of s < i then i - cursor_of s else i - cursor_of s + n"
    have j: "1 \<le> ?j" "?j \<le> 8 * int k" and m: "(cursor_of s + ?j) mod n = i" using i cur assms(2) by auto
    have "renewed i = renewed ((cursor_of s + ?j) mod n)" by (simp only: m)
    then show ?thesis unfolding s'(2) using j by blast
  qed
  then show ?thesis using s'(1) by blast
qed

theorem walker_reaches_all_witness:
  "\<exists>s'. walks 2 (sample_factory\<lparr>fk_StreamCount := Some 12, fk_StreamAddr := (\<lambda>i. Some ''S''), fk_LastBumpedId := Some 5\<rparr>) =
       (Inr s' :: (factory_error, ledger factory) res) \<and>
     renewed 3 \<in> set (fa_ttl s')"
proof -
  let ?s = "sample_factory\<lparr>fk_StreamCount := Some 12, fk_StreamAddr := (\<lambda>i. Some ''S''), fk_LastBumpedId := Some 5\<rparr>"
  have "walker_ok 12 ?s" by (simp add: walker_ok_def int_bounds)
  then obtain s' where "walks 2 ?s = (Inr s' :: (factory_error, ledger factory) res)"
    "\<forall>i. 0 \<le> i \<and> i < 12 \<longrightarrow> renewed i \<in> set (fa_ttl s')"
    using walker_reaches_all [of 12 ?s 2] by auto
  then show ?thesis by (intro exI [of _ s'] conjI) simp_all
qed

end
