(* ===== verification/Factory_Migration.thy ===== *)
theory Factory_Migration
  imports Factory_Index_Correct
begin

text \<open>
  The incremental migration of an index comes to an end: every call of the migration
  moves a known number of entries, so after enough calls the old layout is gone and the
  paged one holds the same list.
\<close>

section \<open>How far one call gets\<close>

definition remaining :: "index_slot \<Rightarrow> nat" where
  "remaining s = (case ix_legacy s of None \<Rightarrow> 0
     | Some es \<Rightarrow> length es - (case ix_cursor s of Some c \<Rightarrow> c | None \<Rightarrow> 0))"

lemma write_page_frame: "write_page p xs s = Inr s' \<Longrightarrow> ix_legacy s' = ix_legacy s \<and> ix_cursor s' = ix_cursor s"
  by (auto simp: write_page_def extend_ttl_def and_then_eq_Inr)

lemma migrate_pages_cursor:
  assumes "migrate_pages es lc cap c m s = (Inr (c', s') :: ('e, _) res)" and "c \<le> lc" and "lc + 100 \<le> U32_MAX"
  shows "c' = min lc (c + 100 * (cap - m)) \<and> ix_legacy s' = ix_legacy s"
  using assms
proof (induction es lc cap c m s rule: migrate_pages.induct)
  case (1 es lc cap c m s)
  show ?case
  proof (cases "c < lc \<and> m < cap")
    case False
    then show ?thesis using "1.prems" by (auto simp: migrate_pages.simps [of es lc cap c m s])
  next
    case True
    let ?stop = "min (u32_saturating_add c PAGE_SIZE) lc"
    have stop: "?stop = min (c + 100) lc" using True "1.prems"(3) by (simp add: u32_saturating_add_def)
    obtain page s1 where cp: "copy_entries es ?stop c [] = (Inr page :: ('e, _) res)"
      and w: "write_page (c div PAGE_SIZE) page s = (Inr s1 :: ('e, _) res)"
      and rest: "migrate_pages es lc cap ?stop (Suc m) s1 = (Inr (c', s') :: ('e, _) res)"
      using "1.prems"(1) True by (auto simp: migrate_pages.simps [of es lc cap c m s] and_then_eq_Inr Let_def)
    have "c' = min lc (?stop + 100 * (cap - Suc m)) \<and> ix_legacy s' = ix_legacy s1"
      using "1.IH" [OF True refl refl rest] "1.prems"(3) by simp
    moreover have "cap - m = Suc (cap - Suc m)" using True by linarith
    ultimately show ?thesis using write_page_frame [OF w] stop by auto
  qed
qed

lemma extend_ttl_frame:
  "extend_ttl k s = Inr s' \<Longrightarrow> ix_legacy s' = ix_legacy s \<and> ix_cursor s' = ix_cursor s"
  by (auto simp: extend_ttl_def and_then_eq_Inr)

lemma migrate_finish_frame:
  assumes "migrate_finish lc n (c, s) = Inr (r, s')"
  shows "(if lc \<le> c then ix_legacy s' = None \<and> ix_cursor s' = None else ix_legacy s' = ix_legacy s \<and> ix_cursor s' = Some c)"
proof (cases "lc \<le> c")
  case True
  then show ?thesis using assms by (auto simp: migrate_finish_def and_then_eq_Inr)
next
  case False
  then show ?thesis using assms by (auto simp: migrate_finish_def and_then_eq_Inr dest!: extend_ttl_frame)
qed

text \<open>Under the representation invariant the recorded number of old entries is their number.\<close>

lemma legacy_facts:
  assumes "index_rep s xs" and "ix_legacy s = Some es"
  shows "(case ix_legacy_count s of Some n \<Rightarrow> n | None \<Rightarrow> length es) = length es" and "length es \<le> length xs"
    and "(case ix_cursor s of Some n \<Rightarrow> n | None \<Rightarrow> 0) \<le> length es"
  using assms by (auto simp: index_rep_def split: option.splits if_splits)

lemma migrate_progress:
  assumes "index_rep s xs" and "length xs + 100 \<le> U32_MAX" and "migrate_legacy_index k s = (Inr (r, s') :: ('e, _) res)" and "0 < k"
  shows "remaining s' = remaining s - 100 * min k MAX_MIGRATION_PAGES" and "remaining s' = 0 \<Longrightarrow> ix_legacy s' = None"
    and "remaining s = 0 \<Longrightarrow> ix_legacy s' = None"
proof -
  have "remaining s' = remaining s - 100 * min k MAX_MIGRATION_PAGES \<and> (remaining s' = 0 \<longrightarrow> ix_legacy s' = None)"
  proof (cases "ix_legacy s")
    case None
    then have "s' = s" using assms(3) by (simp add: migrate_legacy_index_def)
    then show ?thesis using None by (simp add: remaining_def)
  next
    case (Some es)
    let ?c = "case ix_cursor s of Some n \<Rightarrow> n | None \<Rightarrow> 0" and ?cap = "min k MAX_MIGRATION_PAGES"
    note lf = legacy_facts [OF assms(1) Some]
    have rem: "remaining s = length es - ?c" using Some by (simp add: remaining_def)
    show ?thesis
    proof (cases "length es \<le> ?c")
      case True
      then have "ix_legacy s' = None" using assms(3) Some lf(1) by (auto simp: migrate_legacy_index_def Let_def)
      then show ?thesis using True rem by (simp add: remaining_def)
    next
      case False
      have cap: "?cap \<noteq> 0" using assms(4) by (simp add: MAX_MIGRATION_PAGES_def)
      obtain c1 s1 n where m: "migrate_pages es (length es) ?cap ?c 0 s = (Inr (c1, s1) :: ('e, _) res)"
        and f: "migrate_finish (length es) n (c1, s1) = (Inr (r, s') :: ('e, _) res)"
        using assms(3) False cap unfolding migrate_legacy_index_def Some option.case Let_def lf(1) migrate_finish_def [symmetric]
        by (auto simp: and_then_eq_Inr)
      have c1: "c1 = min (length es) (?c + 100 * ?cap)" "ix_legacy s1 = Some es"
        using migrate_pages_cursor [OF m] lf(2,3) assms(2) Some by simp_all
      show ?thesis
      proof (cases "length es \<le> c1")
        case True
        then have "ix_legacy s' = None" using migrate_finish_frame [OF f] by simp
        then show ?thesis using True c1(1) rem by (simp add: remaining_def)
      next
        case False
        then have "ix_legacy s' = Some es" "ix_cursor s' = Some c1" using migrate_finish_frame [OF f] c1(2) by simp_all
        then have "remaining s' = length es - c1" "length es - c1 \<noteq> 0" using False by (simp_all add: remaining_def)
        then show ?thesis using c1(1) rem by simp
      qed
    qed
  qed
  then show "remaining s' = remaining s - 100 * min k MAX_MIGRATION_PAGES" and "remaining s' = 0 \<Longrightarrow> ix_legacy s' = None"
    and "remaining s = 0 \<Longrightarrow> ix_legacy s' = None" by simp_all
qed

section \<open>Repeated calls\<close>

fun migrate_times :: "nat \<Rightarrow> nat \<Rightarrow> index_slot \<Rightarrow> ('e, index_slot) res" where
  "migrate_times k 0 s = Inr s"
| "migrate_times k (Suc n) s = and_then (migrate_index k s) (\<lambda>(_, s1). migrate_times k n s1)"

lemma migrate_times_ends:
  assumes "index_rep s xs" and "length xs + 100 \<le> U32_MAX" and "0 < k" and "remaining s \<le> 100 * min k MAX_MIGRATION_PAGES * Suc n"
  shows "\<exists>s'. migrate_times k (Suc n) s = (Inr s' :: ('e, _) res) \<and> ix_legacy s' = None \<and> index_rep s' xs"
  using assms(1,4)
proof (induction n arbitrary: s)
  case (0 s)
  obtain s1 where m: "migrate_legacy_index k s = (Inr (length xs, s1) :: ('e, _) res)" and r: "index_rep s1 xs"
    using migrate_legacy_index_rep [OF 0(1) assms(2), where ?'a = 'e] by blast
  have "ix_legacy s1 = None" using migrate_progress [OF 0(1) assms(2) m assms(3)] 0(2) by simp
  then show ?case using m r by (simp add: migrate_index_def)
next
  case (Suc n s)
  obtain s1 where m: "migrate_legacy_index k s = (Inr (length xs, s1) :: ('e, _) res)" and r: "index_rep s1 xs"
    using migrate_legacy_index_rep [OF Suc.prems(1) assms(2), where ?'a = 'e] by blast
  have "remaining s1 \<le> 100 * min k MAX_MIGRATION_PAGES * Suc n"
    using migrate_progress(1) [OF Suc.prems(1) assms(2) m assms(3)] Suc.prems(2) by simp
  from Suc.IH [OF r this] show ?case using m by (simp add: migrate_index_def)
qed

text \<open>
  C40.  The migration of an index from the old layout terminates: whatever list the index
  represents and however far it has been migrated, calls that may move \<open>k\<close> pages of 100
  entries each (at most 20 a call, whatever is asked) all succeed, and after as many as
  cover the length of the list, but at least one, the old vector and the cursor are gone
  and the index still represents the same list.
\<close>

theorem migration_terminates:
  assumes "index_rep s xs" and "length xs + 100 \<le> U32_MAX" and "0 < k" and "0 < n" and "length xs \<le> 100 * min k 20 * n"
  shows "\<exists>s'. migrate_times k n s = (Inr s' :: ('e, index_slot) res) \<and> ix_legacy s' = None \<and> ix_cursor s' = None \<and>
     index_rep s' xs \<and> migrate_index k s' = (Inr (length xs, s') :: ('e, nat \<times> index_slot) res)"
proof -
  obtain m where n: "n = Suc m" using assms(4) by (cases n) simp_all
  have "remaining s \<le> length xs"
    using legacy_facts(2) [OF assms(1)] by (auto simp: remaining_def split: option.split)
  then have "remaining s \<le> 100 * min k MAX_MIGRATION_PAGES * Suc m"
    using assms(5) by (simp add: n MAX_MIGRATION_PAGES_def)
  from migrate_times_ends [OF assms(1-3) this, where ?'e = 'e] obtain s' where s': "migrate_times k n s = (Inr s' :: ('e, index_slot) res)"
    "ix_legacy s' = None" "index_rep s' xs" by (auto simp: n)
  moreover have "ix_cursor s' = None" "(case ix_count s' of Some n \<Rightarrow> n | None \<Rightarrow> 0) = length xs"
    using s'(2,3) by (auto simp: index_rep_def split: option.splits if_splits)
  ultimately show ?thesis by (intro exI [of _ s']) (simp add: migrate_index_def migrate_legacy_index_def)
qed

theorem migration_terminates_witness:
  "\<exists>s'. migrate_times 1 3 (empty_index\<lparr>ix_legacy := Some [1 .. 250]\<rparr>) = (Inr s' :: (unit, index_slot) res) \<and> ix_legacy s' = None \<and>
     index_rep s' [1 .. 250]"
proof -
  have "index_rep (empty_index\<lparr>ix_legacy := Some [1 .. 250]\<rparr>) [1 .. 250]" by (simp add: index_rep_def empty_index_def)
  from migration_terminates [OF this, of 1 3, where ?'e = unit] show ?thesis by (auto simp: U32_MAX_def)
qed

end
