(* ===== verification/Common_Rbac.thy ===== *)
theory Common_Rbac
  imports Host
begin

text \<open>
  \<^verbatim>\<open>contracts/common/src/rbac.rs\<close>: role-based access control, shared by the
  governor and the oracle.

  The keys a contract passes (\<^verbatim>\<open>Role(RoleKey)\<close>, \<^verbatim>\<open>AdminCount\<close>,
  \<^verbatim>\<open>RoleMembers(role)\<close>) are the fields of one record over an arbitrary type \<open>'r\<close>
  of roles.  A role entry is a \<^verbatim>\<open>RoleAssignment\<close>, the only type the contracts
  write there.  The fallback of \<^verbatim>\<open>has_role\<close> for boolean entries is dead code: it is
  reached when the typed read finds nothing, and that read aborts, rather than
  finding nothing, when the entry is a boolean; so an absent typed read is an
  absent entry and the fallback returns \<^verbatim>\<open>false\<close>.
\<close>

datatype rbac_error = NotAuthorized | LastAdmin

datatype role_entry = Assignment (expires_at: "int option")

record role_revoked_event =
  rr_account :: address
  rr_role :: string
  rr_revoked_by :: "address option"
  rr_revoked_at :: int

record 'r rbac =
  role_entries :: "'r \<times> address \<Rightarrow> role_entry option"
  admin_counter :: "int option"
  member_lists :: "'r \<Rightarrow> address list option"
  revocations :: "role_revoked_event list"

section \<open>Operations\<close>

definition typed_assignment :: "role_entry option \<Rightarrow> int option option" where
  "typed_assignment x = (case x of Some (Assignment ex) \<Rightarrow> Some ex | None \<Rightarrow> None)"

definition has_role :: "int \<Rightarrow> 'r rbac \<Rightarrow> 'r \<Rightarrow> address \<Rightarrow> bool" where
  "has_role now s r a = (case typed_assignment (role_entries s (r, a)) of
      Some (Some ex) \<Rightarrow> now < ex
    | Some None \<Rightarrow> True
    | None \<Rightarrow> False)"

definition admin_count :: "'r rbac \<Rightarrow> int" where
  "admin_count s = (case admin_counter s of Some n \<Rightarrow> n | None \<Rightarrow> 0)"

definition role_members :: "'r rbac \<Rightarrow> 'r \<Rightarrow> address list" where
  "role_members s r = (case member_lists s r of Some xs \<Rightarrow> xs | None \<Rightarrow> [])"

definition grant_with_expiration ::
  "int \<Rightarrow> 'r \<Rightarrow> bool \<Rightarrow> address \<Rightarrow> int option \<Rightarrow> 'r rbac \<Rightarrow> ('e, bool \<times> 'r rbac) res" where
  "grant_with_expiration now r is_admin a expiry s =
     (let was_active = has_role now s r a;
          assignment_exists = (role_entries s (r, a) \<noteq> None);
          s1 = s\<lparr>role_entries := (role_entries s)((r, a) := Some (Assignment expiry))\<rparr>
      in if was_active \<or> assignment_exists then Inr (\<not> was_active, s1) else
      and_then (if is_admin
                then and_then (plain_u32 (admin_count s1 + 1)) (\<lambda>n. Inr (s1\<lparr>admin_counter := Some n\<rparr>))
                else Inr s1) (\<lambda>s2.
      Inr (True, s2\<lparr>member_lists := (member_lists s2)(r := Some (role_members s2 r @ [a]))\<rparr>)))"

definition grant :: "int \<Rightarrow> 'r \<Rightarrow> bool \<Rightarrow> address \<Rightarrow> 'r rbac \<Rightarrow> ('e, bool \<times> 'r rbac) res" where
  "grant now r is_admin a s = grant_with_expiration now r is_admin a None s"

definition has_expired_assignment :: "int \<Rightarrow> 'r rbac \<Rightarrow> 'r \<Rightarrow> address \<Rightarrow> bool" where
  "has_expired_assignment now s r a = (case typed_assignment (role_entries s (r, a)) of
      Some (Some ex) \<Rightarrow> ex \<le> now | _ \<Rightarrow> False)"

text \<open>The admin counter after a removal, or the refusal to remove the last admin.\<close>

definition revoked_admin_count ::
  "bool \<Rightarrow> bool \<Rightarrow> bool \<Rightarrow> 'r rbac \<Rightarrow> (rbac_error, 'r rbac) res" where
  "revoked_admin_count is_admin is_active expired s =
     (if is_admin \<and> is_active then
        (let count = admin_count s in
         if count \<le> 1 then Inl (Err LastAdmin) else Inr (s\<lparr>admin_counter := Some (count - 1)\<rparr>))
      else if is_admin \<and> expired then
        Inr (s\<lparr>admin_counter := Some (sat_u32 (admin_count s - 1))\<rparr>)
      else Inr s)"

definition revoke_with_event ::
  "int \<Rightarrow> 'r \<Rightarrow> bool \<Rightarrow> address \<Rightarrow> address option \<Rightarrow> string \<Rightarrow> 'r rbac \<Rightarrow>
     (rbac_error, bool \<times> 'r rbac) res" where
  "revoke_with_event now r is_admin a revoked_by role_name s =
     (let is_active = has_role now s r a;
          expired = has_expired_assignment now s r a
      in if \<not> is_active \<and> \<not> expired then Inr (False, s) else
      and_then (revoked_admin_count is_admin is_active expired s) (\<lambda>s1.
      let s2 = s1\<lparr>role_entries := (role_entries s1)((r, a) := None)\<rparr>;
          updated = filter (\<lambda>m. m \<noteq> a) (role_members s2 r);
          ev = \<lparr>rr_account = a, rr_role = role_name, rr_revoked_by = revoked_by, rr_revoked_at = now\<rparr>
      in Inr (True, s2\<lparr>member_lists := (member_lists s2)(r := Some updated),
                       revocations := revocations s2 @ [ev]\<rparr>)))"

definition revoke ::
  "int \<Rightarrow> 'r \<Rightarrow> bool \<Rightarrow> address \<Rightarrow> 'r rbac \<Rightarrow> (rbac_error, bool \<times> 'r rbac) res" where
  "revoke now r is_admin a s = revoke_with_event now r is_admin a None [] s"

definition require_role_or_admin ::
  "'w env \<Rightarrow> address \<Rightarrow> 'r \<Rightarrow> 'r \<Rightarrow> 'r rbac \<Rightarrow> (rbac_error, unit) res" where
  "require_role_or_admin e caller r admin s =
     and_then (require_auth e caller) (\<lambda>_.
     if has_role (timestamp e) s admin caller \<or> has_role (timestamp e) s r caller
     then Inr () else Inl (Err NotAuthorized))"

definition require_role :: "'w env \<Rightarrow> address \<Rightarrow> 'r \<Rightarrow> 'r rbac \<Rightarrow> (rbac_error, unit) res" where
  "require_role e caller r s =
     and_then (require_auth e caller) (\<lambda>_.
     if has_role (timestamp e) s r caller then Inr () else Inl (Err NotAuthorized))"

section \<open>Well-formed role stores\<close>

text \<open>
  Each role's member list enumerates, once each, exactly the accounts with an
  entry for that role, and the admin counter counts the list of \<open>admin\<close>.
\<close>

definition rbac_ok :: "'r \<Rightarrow> 'r rbac \<Rightarrow> bool" where
  "rbac_ok admin s \<longleftrightarrow>
     (\<forall>r. distinct (role_members s r) \<and>
          set (role_members s r) = {a. role_entries s (r, a) \<noteq> None}) \<and>
     admin_count s = int (length (role_members s admin)) \<and> admin_count s \<le> u32_max"

lemma role_members_upd [simp]:
  "role_members (s\<lparr>role_entries := x\<rparr>) r = role_members s r"
  "role_members (s\<lparr>admin_counter := y\<rparr>) r = role_members s r"
  "role_members (s\<lparr>revocations := z\<rparr>) r = role_members s r"
  "role_members (s\<lparr>member_lists := (member_lists x')(q := Some xs)\<rparr>) r =
     (if r = q then xs else role_members x' r)"
  by (simp_all add: role_members_def)

lemma admin_count_upd [simp]:
  "admin_count (s\<lparr>role_entries := x\<rparr>) = admin_count s"
  "admin_count (s\<lparr>member_lists := y\<rparr>) = admin_count s"
  "admin_count (s\<lparr>revocations := z\<rparr>) = admin_count s"
  "admin_count (s\<lparr>admin_counter := Some n\<rparr>) = n"
  by (simp_all add: admin_count_def)

lemma has_role_present: "has_role now s r a \<Longrightarrow> role_entries s (r, a) \<noteq> None"
  by (auto simp: has_role_def typed_assignment_def split: option.splits)

lemma expired_present: "has_expired_assignment now s r a \<Longrightarrow> role_entries s (r, a) \<noteq> None"
  by (auto simp: has_expired_assignment_def typed_assignment_def split: option.splits)

lemma grant_ok:
  assumes "rbac_ok admin s" and "grant_with_expiration now r (r = admin) a ex s = Inr (b, s')"
  shows "rbac_ok admin s'"
proof (cases "role_entries s (r, a) = None")
  case True
  then have "\<not> has_role now s r a" using has_role_present [of now s r a] by auto
  moreover have "a \<notin> set (role_members s r)" using assms(1) True by (auto simp: rbac_ok_def)
  ultimately show ?thesis
    using assms True
    by (auto simp: grant_with_expiration_def rbac_ok_def Let_def res_simps range_simps split: if_splits)
next
  case False
  then show ?thesis
    using assms by (auto simp: grant_with_expiration_def rbac_ok_def Let_def split: if_splits)
qed

lemma revoked_admin_count_frame:
  assumes "revoked_admin_count adm act expd s = Inr s1"
  shows "role_members s1 q = role_members s q" and "role_entries s1 = role_entries s"
    and "0 < admin_count s \<Longrightarrow> admin_count s \<le> u32_max \<Longrightarrow> act \<or> expd \<Longrightarrow>
      admin_count s1 = admin_count s - (if adm then 1 else 0)"
  using assms
  by (auto simp: revoked_admin_count_def Let_def sat_u32_def split: if_splits)

lemma revoke_success:
  assumes "revoke_with_event now r adm a rb nm s = Inr (True, s')"
  obtains s1 where "revoked_admin_count adm (has_role now s r a) (has_expired_assignment now s r a) s = Inr s1"
    and "has_role now s r a \<or> has_expired_assignment now s r a"
    and "\<And>q. role_members s' q = (if q = r then filter (\<lambda>m. m \<noteq> a) (role_members s r) else role_members s q)"
    and "role_entries s' = (role_entries s)((r, a) := None)"
    and "admin_count s' = admin_count s1"
  using assms
  by (auto simp: revoke_with_event_def Let_def res_simps revoked_admin_count_frame split: if_splits)

lemma revoke_noop:
  "revoke_with_event now r adm a rb nm s = Inr (False, s') \<Longrightarrow>
     s' = s \<and> \<not> has_role now s r a \<and> \<not> has_expired_assignment now s r a"
  by (auto simp: revoke_with_event_def Let_def res_simps split: if_splits)

lemma revoke_ok:
  assumes ok: "rbac_ok admin s"
    and rv: "revoke_with_event now r (r = admin) a rb nm s = Inr (b, s')"
  shows "rbac_ok admin s'"
proof (cases b)
  case False
  then show ?thesis using ok rv by (auto dest: revoke_noop)
next
  case True
  then have rv': "revoke_with_event now r (r = admin) a rb nm s = Inr (True, s')" using rv by simp
  obtain s1 where rc: "revoked_admin_count (r = admin) (has_role now s r a) (has_expired_assignment now s r a) s = Inr s1"
    and pres: "has_role now s r a \<or> has_expired_assignment now s r a"
    and mem: "\<And>q. role_members s' q = (if q = r then filter (\<lambda>m. m \<noteq> a) (role_members s r) else role_members s q)"
    and ent: "role_entries s' = (role_entries s)((r, a) := None)"
    and cnt: "admin_count s' = admin_count s1"
    using revoke_success [OF rv'] by blast
  have "role_entries s (r, a) \<noteq> None"
    using pres has_role_present [of now s r a] expired_present [of now s r a] by auto
  then have a: "a \<in> set (role_members s r)" and d: "distinct (role_members s r)"
    using ok by (auto simp: rbac_ok_def)
  then have pos: "0 < length (role_members s r)" by auto
  have len: "length (filter (\<lambda>m. m \<noteq> a) (role_members s r)) = length (role_members s r) - 1"
    by (rule filter_neq_distinct_length [OF d a])
  have "admin_count s' = int (length (role_members s' admin))"
  proof (cases "r = admin")
    case True
    then show ?thesis
      using cnt len pos ok revoked_admin_count_frame(3) [OF rc _ _ pres] mem
      by (simp add: rbac_ok_def of_nat_diff Suc_le_eq)
  next
    case False
    then show ?thesis
      using cnt ok mem rc by (simp add: rbac_ok_def revoked_admin_count_def)
  qed
  moreover have "admin_count s' \<le> u32_max"
    using cnt ok rc
    by (auto simp: rbac_ok_def revoked_admin_count_def Let_def sat_u32_def int_bounds split: if_splits)
  ultimately show ?thesis
    using ok unfolding rbac_ok_def by (auto simp: mem ent)
qed

section \<open>The interface: an access matrix\<close>

datatype 'r role_op = Grant int 'r address "int option" | Revoke int 'r address

text \<open>The abstract matrix: an optional expiry per role and account.\<close>

type_synonym 'r acl = "'r \<times> address \<Rightarrow> int option option"

fun acl_step :: "'r role_op \<Rightarrow> 'r acl \<Rightarrow> 'r acl" where
  "acl_step (Grant now r a ex) m = m((r, a) := Some ex)"
| "acl_step (Revoke now r a) m = m((r, a) := None)"

definition acl_holds :: "int \<Rightarrow> 'r acl \<Rightarrow> 'r \<Rightarrow> address \<Rightarrow> bool" where
  "acl_holds t m r a = (case m (r, a) of
      None \<Rightarrow> False | Some None \<Rightarrow> True | Some (Some ex) \<Rightarrow> t < ex)"

locale role_registry =
  fixes valid :: "'s \<Rightarrow> bool"
    and grant_op :: "int \<Rightarrow> 'r \<Rightarrow> address \<Rightarrow> int option \<Rightarrow> 's \<Rightarrow> 's option"
    and revoke_op :: "int \<Rightarrow> 'r \<Rightarrow> address \<Rightarrow> 's \<Rightarrow> 's option"
    and holds :: "int \<Rightarrow> 's \<Rightarrow> 'r \<Rightarrow> address \<Rightarrow> bool"
  assumes grant_valid: "valid s \<Longrightarrow> grant_op now r a ex s = Some s' \<Longrightarrow> valid s'"
    and revoke_valid: "valid s \<Longrightarrow> revoke_op now r a s = Some s' \<Longrightarrow> valid s'"
    and grant_holds: "grant_op now r a ex s = Some s' \<Longrightarrow>
      holds t s' q c = (if (q, c) = (r, a) then (case ex of None \<Rightarrow> True | Some x \<Rightarrow> t < x) else holds t s q c)"
    and revoke_holds: "revoke_op now r a s = Some s' \<Longrightarrow>
      holds t s' q c \<longleftrightarrow> (q, c) \<noteq> (r, a) \<and> holds t s q c"
begin

fun exec :: "'r role_op \<Rightarrow> 's \<Rightarrow> 's option" where
  "exec (Grant now r a ex) s = grant_op now r a ex s"
| "exec (Revoke now r a) s = revoke_op now r a s"

text \<open>A history of committed operations.\<close>

fun history :: "'r role_op list \<Rightarrow> 's \<Rightarrow> 's option" where
  "history [] s = Some s"
| "history (op # ops) s = Option.bind (exec op s) (history ops)"

lemma exec_valid: "valid s \<Longrightarrow> exec op s = Some s' \<Longrightarrow> valid s'"
  by (cases op) (auto intro: grant_valid revoke_valid)

lemma history_valid: "valid s \<Longrightarrow> history ops s = Some s' \<Longrightarrow> valid s'"
  by (induction ops arbitrary: s) (auto simp: bind_eq_Some_conv intro: exec_valid)

lemma exec_refines:
  assumes "exec op s = Some s'" and "\<And>t r a. holds t s r a = acl_holds t m r a"
  shows "holds t s' r a = acl_holds t (acl_step op m) r a"
  using assms by (cases op) (auto simp: acl_holds_def grant_holds revoke_holds split: option.splits)

lemma history_refines:
  assumes "history ops s = Some s'" and "\<And>t r a. holds t s r a = acl_holds t m r a"
  shows "holds t s' r a = acl_holds t (fold acl_step ops m) r a"
  using assms
proof (induction ops arbitrary: s m)
  case (Cons op ops)
  then obtain s1 where "exec op s = Some s1" and "history ops s1 = Some s'"
    by (auto simp: bind_eq_Some_conv)
  then show ?case using Cons.IH [of s1 "acl_step op m"] exec_refines Cons.prems(2) by simp
qed simp

end

section \<open>The role store implements the interface\<close>

definition grant_opt ::
  "'r \<Rightarrow> int \<Rightarrow> 'r \<Rightarrow> address \<Rightarrow> int option \<Rightarrow> 'r rbac \<Rightarrow> 'r rbac option" where
  "grant_opt admin now r a ex s =
     (case (grant_with_expiration now r (r = admin) a ex s :: (rbac_error, bool \<times> 'r rbac) res) of
        Inr (b, s') \<Rightarrow> Some s' | Inl f \<Rightarrow> None)"

definition revoke_opt :: "'r \<Rightarrow> int \<Rightarrow> 'r \<Rightarrow> address \<Rightarrow> 'r rbac \<Rightarrow> 'r rbac option" where
  "revoke_opt admin now r a s =
     (case revoke now r (r = admin) a s of Inr (b, s') \<Rightarrow> Some s' | Inl f \<Rightarrow> None)"

lemma grant_opt_Some:
  "grant_opt admin now r a ex s = Some s' \<longleftrightarrow>
     (\<exists>b. (grant_with_expiration now r (r = admin) a ex s :: (rbac_error, _) res) = Inr (b, s'))"
  by (auto simp: grant_opt_def split: sum.splits)

lemma revoke_opt_Some:
  "revoke_opt admin now r a s = Some s' \<longleftrightarrow> (\<exists>b. revoke now r (r = admin) a s = Inr (b, s'))"
  by (auto simp: revoke_opt_def split: sum.splits)

lemma has_role_entry:
  "has_role t s r a = (case role_entries s (r, a) of
      None \<Rightarrow> False | Some (Assignment None) \<Rightarrow> True
    | Some (Assignment (Some ex)) \<Rightarrow> t < ex)"
  by (auto simp: has_role_def typed_assignment_def split: option.splits role_entry.splits)

lemma grant_entries:
  "grant_with_expiration now r adm a ex s = Inr (b, s') \<Longrightarrow>
     role_entries s' = (role_entries s)((r, a) := Some (Assignment ex))"
  by (auto simp: grant_with_expiration_def Let_def res_simps split: if_splits)

lemma inactive_forever:
  "\<not> has_role now s r a \<Longrightarrow> \<not> has_expired_assignment now s r a \<Longrightarrow> \<not> has_role t s r a"
  by (auto simp: has_role_def has_expired_assignment_def split: option.splits)

lemma has_role_grant:
  assumes "grant_with_expiration now r adm a ex s = Inr (b, s')"
  shows "has_role t s' q c =
    (if (q, c) = (r, a) then (case ex of None \<Rightarrow> True | Some x \<Rightarrow> t < x) else has_role t s q c)"
  by (auto simp: has_role_entry grant_entries [OF assms] split: option.splits)

lemma has_role_revoke:
  assumes rv: "revoke_with_event now r adm a rb nm s = Inr (b, s')"
  shows "has_role t s' q c \<longleftrightarrow> (q, c) \<noteq> (r, a) \<and> has_role t s q c"
proof (cases b)
  case True
  then have "revoke_with_event now r adm a rb nm s = Inr (True, s')" using rv by simp
  then have "role_entries s' = (role_entries s)((r, a) := None)"
    by (rule revoke_success)
  then show ?thesis by (auto simp: has_role_entry)
next
  case False
  then show ?thesis
    using revoke_noop [of now r adm a rb nm s s'] inactive_forever [of now s r a t] rv by auto
qed

interpretation roles: role_registry "rbac_ok admin" "grant_opt admin" "revoke_opt admin" has_role
  for admin :: 'r
proof (unfold_locales, goal_cases)
  case (1 s now r a ex s')
  then show ?case by (auto simp: grant_opt_Some intro: grant_ok)
next
  case (2 s now r a s')
  then show ?case by (auto simp: revoke_opt_Some revoke_def intro: revoke_ok)
next
  case (3 now r a ex s s' t q c)
  then show ?case by (auto simp: grant_opt_Some has_role_grant)
next
  case (4 now r a s s' t q c)
  then show ?case by (auto simp: revoke_opt_Some revoke_def has_role_revoke)
qed

section \<open>The last administrator\<close>

definition active_admins :: "int \<Rightarrow> 'r \<Rightarrow> 'r rbac \<Rightarrow> address list" where
  "active_admins now admin s = filter (has_role now s admin) (role_members s admin)"

lemma active_admins_iff:
  "rbac_ok admin s \<Longrightarrow> a \<in> set (active_admins now admin s) \<longleftrightarrow> has_role now s admin a"
  using has_role_present [of now s admin a] by (auto simp: active_admins_def rbac_ok_def)

text \<open>Revoking one of several unexpired admins leaves one.\<close>

lemma revoke_keeps_admin:
  assumes "rbac_ok admin s"
    and unexpired: "\<And>a. role_entries s (admin, a) \<noteq> None \<Longrightarrow> has_role now s admin a"
    and "active_admins now admin s \<noteq> []"
    and "revoke now r (r = admin) a s = Inr (b, s')"
  shows "active_admins now admin s' \<noteq> []"
proof -
  have ok': "rbac_ok admin s'" using assms(1,4) revoke_ok by (auto simp: revoke_def)
  have hr: "has_role now s' admin c \<longleftrightarrow> (admin, c) \<noteq> (r, a) \<and> has_role now s admin c" for c
    using assms(4) unfolding revoke_def by (rule has_role_revoke)
  have "\<exists>c. has_role now s' admin c"
  proof (cases "r = admin \<and> has_role now s admin a")
    case True
    then have "1 < admin_count s"
      using assms(4) by (auto simp: revoke_def revoke_with_event_def revoked_admin_count_def Let_def
          res_simps split: if_splits)
    then have "1 < length (role_members s admin)" and "distinct (role_members s admin)"
      using assms(1) by (auto simp: rbac_ok_def)
    then have "\<not> set (role_members s admin) \<subseteq> {a}"
      using card_mono [of "{a}" "set (role_members s admin)"] by (auto simp: distinct_card)
    then obtain c where c: "c \<in> set (role_members s admin)" and "c \<noteq> a" by blast
    have "role_entries s (admin, c) \<noteq> None" using assms(1) c by (simp add: rbac_ok_def)
    then have "has_role now s' admin c" using unexpired hr \<open>c \<noteq> a\<close> by simp
    then show ?thesis ..
  next
    case False
    obtain c where "c \<in> set (active_admins now admin s)"
      using assms(3) by (meson list.set_sel(1))
    then have "has_role now s admin c" using active_admins_iff [OF assms(1)] by simp
    then have "has_role now s' admin c" using False hr by auto
    then show ?thesis ..
  qed
  then show ?thesis using active_admins_iff [OF ok', of _ now] by (metis empty_iff empty_set)
qed

section \<open>Histories of role changes\<close>

definition rbac_empty :: "'r rbac" where
  "rbac_empty = \<lparr>role_entries = (\<lambda>_. None), admin_counter = None,
                 member_lists = (\<lambda>_. None), revocations = []\<rparr>"

fun rbac_exec :: "'r \<Rightarrow> 'r role_op \<Rightarrow> 'r rbac \<Rightarrow> 'r rbac option" where
  "rbac_exec admin (Grant now r a ex) s = grant_opt admin now r a ex s"
| "rbac_exec admin (Revoke now r a) s = revoke_opt admin now r a s"

fun rbac_history :: "'r \<Rightarrow> 'r role_op list \<Rightarrow> 'r rbac \<Rightarrow> 'r rbac option" where
  "rbac_history admin [] s = Some s"
| "rbac_history admin (op # ops) s = Option.bind (rbac_exec admin op s) (rbac_history admin ops)"

lemma rbac_history_roles: "rbac_history admin ops s = roles.history admin ops s"
proof (induction ops arbitrary: s)
  case (Cons op ops)
  have "rbac_exec admin op s = roles.exec admin op s" by (cases op) simp_all
  then show ?case using Cons by (auto intro: arg_cong [where f = "Option.bind _"])
qed simp

lemma rbac_empty_ok: "rbac_ok admin rbac_empty"
  by (simp add: rbac_ok_def rbac_empty_def role_members_def admin_count_def int_bounds)

lemmas role_eval = grant_opt_def revoke_opt_def revoke_def grant_with_expiration_def
  revoke_with_event_def revoked_admin_count_def has_role_entry has_expired_assignment_def
  typed_assignment_def plain_u32_def in_u32_def admin_count_def int_bounds Let_def

text \<open>
  The access matrix as the documentation of \<^verbatim>\<open>grant\<close> has it: granting a role the account
  holds is a no-op, otherwise the grant records its expiry; a revocation clears the pair.
  The code agrees as long as a grant of a held role repeats the recorded expiry.
\<close>

fun matrix_step :: "'r role_op \<Rightarrow> 'r acl \<Rightarrow> 'r acl" where
  "matrix_step (Grant now r a ex) m = (if acl_holds now m r a then m else m((r, a) := Some ex))"
| "matrix_step (Revoke now r a) m = m((r, a) := None)"

fun keeps_expiries :: "'r role_op list \<Rightarrow> 'r acl \<Rightarrow> bool" where
  "keeps_expiries [] m = True"
| "keeps_expiries (Grant now r a ex # ops) m =
     ((acl_holds now m r a \<longrightarrow> m (r, a) = Some ex) \<and> keeps_expiries ops (matrix_step (Grant now r a ex) m))"
| "keeps_expiries (Revoke now r a # ops) m = keeps_expiries ops (matrix_step (Revoke now r a) m)"

lemma acl_matrix: "keeps_expiries ops m \<Longrightarrow> fold acl_step ops m = fold matrix_step ops m"
proof (induction ops m rule: keeps_expiries.induct)
  case (2 now r a ex ops m)
  then have "m((r, a) \<mapsto> ex) = matrix_step (Grant now r a ex) m" by (auto simp: fun_upd_idem)
  then show ?case using 2 by (simp del: matrix_step.simps)
qed simp_all

text \<open>Where nothing recorded has expired, the assigned accounts are the holders.\<close>

lemma assigned_holds:
  assumes "\<And>t. has_role t s r a = acl_holds t m r a" and "\<And>x. m (r, a) = Some (Some x) \<Longrightarrow> t < x"
  shows "role_entries s (r, a) \<noteq> None \<longleftrightarrow> acl_holds t m r a"
proof
  assume "role_entries s (r, a) \<noteq> None"
  then obtain ex where "role_entries s (r, a) = Some (Assignment ex)" by (metis not_None_eq role_entry.exhaust)
  then have "has_role (case ex of None \<Rightarrow> t | Some x \<Rightarrow> x - 1) s r a" by (simp add: has_role_entry split: option.split)
  then have "m (r, a) \<noteq> None" by (auto simp: assms(1) acl_holds_def split: option.splits)
  then show "acl_holds t m r a" using assms(2) by (auto simp: acl_holds_def split: option.split)
next
  assume "acl_holds t m r a"
  then show "role_entries s (r, a) \<noteq> None" using assms(1) [of t] has_role_present by metis
qed

text \<open>
  C31.  The role store implements the documented access matrix: after any history of
  committed grants and revocations from the empty store in which no grant changes the
  expiry of a role the account holds at the time, an account holds a role at time
  \<open>t\<close> exactly when the matrix (granting a held role is a no-op, otherwise the grant
  records its expiry, a revocation clears it) says so; the member list of a role has no
  duplicates and every holder is on it; and at a time when no recorded grant has
  expired, the members are exactly the holders and the admin counter is the number of
  accounts that hold Admin.  (A grant that does change the expiry of a held role is no
  no-op: \<open>regrant_replaces_expiry\<close>.)
\<close>

theorem rbac_refines_matrix:
  assumes "rbac_history admin ops rbac_empty = Some s" and "keeps_expiries ops (\<lambda>_. None)"
    and "m = fold matrix_step ops (\<lambda>_. None)"
  shows "(\<forall>t r a. has_role t s r a = acl_holds t m r a) \<and>
     (\<forall>r. distinct (role_members s r)) \<and> (\<forall>t r a. has_role t s r a \<longrightarrow> a \<in> set (role_members s r)) \<and>
     (\<forall>t. (\<forall>r a x. m (r, a) = Some (Some x) \<longrightarrow> t < x) \<longrightarrow>
        (\<forall>r. set (role_members s r) = {a. acl_holds t m r a}) \<and> admin_count s = int (card {a. acl_holds t m admin a}))"
proof -
  have h: "roles.history admin ops rbac_empty = Some s"
    using assms(1) by (simp add: rbac_history_roles)
  have holds: "has_role t s r a = acl_holds t m r a" for t r a
    unfolding assms(3) acl_matrix [OF assms(2), symmetric]
    by (rule roles.history_refines [OF h]) (simp add: has_role_entry rbac_empty_def acl_holds_def)
  have ok: "rbac_ok admin s" by (rule roles.history_valid [OF rbac_empty_ok h])
  have members: "distinct (role_members s r)" "set (role_members s r) = {a. role_entries s (r, a) \<noteq> None}" for r
    using ok by (simp_all add: rbac_ok_def)
  have exact: "set (role_members s r) = {a. acl_holds t m r a}" if "\<forall>r a x. m (r, a) = Some (Some x) \<longrightarrow> t < x" for t r
    using assigned_holds [OF holds] that members(2) by blast
  have "admin_count s = int (card (set (role_members s admin)))"
    using ok distinct_card [OF members(1)] by (simp add: rbac_ok_def)
  moreover have "a \<in> set (role_members s r)" if "has_role t s r a" for t r a
    using has_role_present [OF that] members(2) by simp
  ultimately show ?thesis using holds members(1) exact by simp
qed

theorem rbac_refines_matrix_witness:
  "\<exists>s. rbac_history ''Admin'' [Grant 5 ''Admin'' ''alice'' None, Grant 5 ''Feeder'' ''bob'' (Some 9),
        Grant 6 ''Admin'' ''alice'' None, Revoke 7 ''Feeder'' ''bob''] rbac_empty = Some s \<and>
      has_role 7 s ''Admin'' ''alice'' \<and> \<not> has_role 7 s ''Feeder'' ''bob''"
proof -
  let ?ops = "[Grant 5 ''Admin'' ''alice'' None, Grant 5 ''Feeder'' ''bob'' (Some 9),
        Grant 6 ''Admin'' ''alice'' None, Revoke 7 ''Feeder'' ''bob'']"
  obtain s where s: "rbac_history ''Admin'' ?ops rbac_empty = Some s"
    by (simp add: role_eval rbac_empty_def)
  then show ?thesis
    using rbac_refines_matrix [OF s _ refl] by (simp add: acl_holds_def)
qed

text \<open>
  A second grant replaces the expiry of a role that is held: alice's unlimited role
  ends at time 9 after it is granted to her again until then.
\<close>

theorem regrant_replaces_expiry:
  "\<exists>s. rbac_history ''Admin'' [Grant 5 ''Admin'' ''alice'' None, Grant 6 ''Admin'' ''alice'' (Some 9)] rbac_empty = Some s \<and>
     has_role 8 s ''Admin'' ''alice'' \<and> \<not> has_role 9 s ''Admin'' ''alice''"
  by (simp add: role_eval rbac_empty_def)

text \<open>
  The last-admin guard: as long as no admin assignment has expired, a
  committed revocation of any role leaves at least one account holding Admin.
\<close>

theorem last_admin_kept:
  assumes "rbac_ok admin s"
    and "\<forall>a. role_entries s (admin, a) \<noteq> None \<longrightarrow> has_role now s admin a"
    and "active_admins now admin s \<noteq> []"
    and "revoke now r (r = admin) a s = Inr (b, s')"
  shows "active_admins now admin s' \<noteq> []"
  by (rule revoke_keeps_admin [OF assms(1) _ assms(3,4)]) (use assms(2) in blast)

text \<open>Two admins, alice without expiry and bob until time 10.\<close>

definition two_admins :: "string rbac" where
  "two_admins = \<lparr>
     role_entries = (\<lambda>_. None)((''Admin'', ''alice'') := Some (Assignment None),
                               (''Admin'', ''bob'') := Some (Assignment (Some 10))),
     admin_counter = Some 2,
     member_lists = (\<lambda>_. None)(''Admin'' := Some [''alice'', ''bob'']),
     revocations = []\<rparr>"

lemma two_admins_ok: "rbac_ok ''Admin'' two_admins"
  by (auto simp: rbac_ok_def two_admins_def role_members_def admin_count_def int_bounds)

lemma two_admins_revoke_alice:
  "\<exists>s'. revoke now ''Admin'' True ''alice'' two_admins = Inr (True, s')"
  by (simp add: revoke_def revoke_with_event_def revoked_admin_count_def has_role_entry
      two_admins_def admin_count_def Let_def)

theorem last_admin_kept_witness:
  "\<exists>s'. revoke 5 ''Admin'' True ''alice'' two_admins = Inr (True, s') \<and>
     active_admins 5 ''Admin'' s' \<noteq> []"
proof -
  obtain s' where s': "revoke 5 ''Admin'' (''Admin'' = ''Admin'') ''alice'' two_admins = Inr (True, s')"
    using two_admins_revoke_alice [of 5] by auto
  have "active_admins 5 ''Admin'' s' \<noteq> []"
    by (rule last_admin_kept [OF two_admins_ok _ _ s'])
       (auto simp: has_role_entry two_admins_def active_admins_def role_members_def)
  then show ?thesis using s' by auto
qed

text \<open>
  The guard counts expired assignments: once bob's assignment has expired,
  alice (the only account that still holds Admin) can be revoked although no
  admin remains, so the guard alone does not keep governance alive.
\<close>

theorem last_admin_guard_counts_expired:
  "\<exists>s'. active_admins 10 ''Admin'' two_admins = [''alice''] \<and>
     revoke 10 ''Admin'' True ''alice'' two_admins = Inr (True, s') \<and>
     active_admins t ''Admin'' s' = (if t < 10 then [''bob''] else [])"
  by (simp add: revoke_def revoke_with_event_def revoked_admin_count_def has_role_entry
      two_admins_def admin_count_def active_admins_def role_members_def Let_def)

end
