(* ===== verification/Vault.thy ===== *)
theory Vault
  imports Stream_Admin
begin

text \<open>
  \<^verbatim>\<open>contracts/token-vault/src\<close>: \<^verbatim>\<open>TokenVault\<close>, a custodial vault with an owner, a
  delegated operator, deposit limits, several tokens, a two-step change of owner
  and a timelocked migration to cold storage.

  The state is the record \<open>vault\<close>: a field per storage key, the token ledgers, the
  stream contracts the vault can call, the events and the TTL calls.  The codes
  \<open>TokenNotApproved\<close> and \<open>VaultBalanceChanged\<close> are used by \<^verbatim>\<open>lib.rs\<close> and its tests but
  missing from \<^verbatim>\<open>errors.rs\<close>; the model has them.
\<close>

section \<open>Types\<close>

datatype vault_error =
    InvalidAmount | ArithmeticOverflow | LimitExceeded | NotAuthorized | ContractPaused | AlreadyPaused
  | NotPaused | NotInitialized | AlreadyInitialized | InvalidParam | NoPendingOwner | NotPendingOwner
  | DepositTransferFailed | WithdrawTransferFailed | InvalidWasmHash | PendingOwnerExpired | InvalidToken
  | TimelockNotExpired | NoMigrationProposed | ReentrancyDetected | DepositExceedsMax | InvalidStreamBatch
  | StreamCallFailed | TokenNotApproved | VaultBalanceChanged

record deposit_spec =
  ds_from :: address
  ds_amount :: int

record vault_balance_snapshot =
  bs_ledger :: int
  bs_expected_balance :: int

record emergency_migration =
  em_destination :: address
  em_proposed_at :: int
  em_executable_at :: int

text \<open>The keys that are renewed: the credits per token and account, and the limits per token.\<close>

datatype vault_key = VkTokenAccountBalance address address | VkTokenMaxLimit address

datatype vault_event =
    EvVaultInit address address int
  | EvDeposited address int int
  | EvTokenDeposited address int int int
  | EvVaultWithdrawn address address int int bool
  | EvLimitSet address int int
  | EvOperatorLimitSet address int int
  | EvVaultOperatorSet address address
  | EvVaultOperatorRevoked address
  | EvVaultPaused address int
  | EvVaultUnpaused address int
  | EvVaultUpgraded address int
  | EvOwnerProposed address address
  | EvOwnerAccepted address address
  | EvOwnerProposalTtl address int int
  | EvMigrationInitiated address address int
  | EvMigrationExecuted address address int
  | EvMigrationCancelled address
  | EvKeptAlive int
  | EvVaultDepositFailed address address int int
  | EvTokenApproval address bool
  | EvVaultKeysRefreshed int

record 'w vault =
  vk_Owner :: "address option"
  vk_Token :: "address option"
  vk_MaxLimit :: "int option"
  vk_Operator :: "address option"
  vk_OperatorWithdrawLimit :: "int option"
  vk_Paused :: pause_slot
  vk_PendingOwner :: "address option"
  vk_PendingOwnerProposer :: "address option"
  vk_PendingOwnerProposedAt :: "int option"
  vk_OwnerProposalTtl :: "int option"
  vk_TokenAccountBalance :: "address \<Rightarrow> address \<Rightarrow> int option"
  vk_TokenMaxLimit :: "address \<Rightarrow> int option"
  vk_EmergencyMigration :: "emergency_migration option"
  vk_ReentrancyLock :: "bool option"
  vk_ApprovedToken :: "address \<Rightarrow> bool option"
  vk_BalanceSnapshot :: "address \<Rightarrow> vault_balance_snapshot option"
  vk_TrackedVaultKeys :: "vault_key list option"
  va_code :: wasm_hash
  va_world :: 'w
  va_streams :: "address \<Rightarrow> 'w stream option"
  va_events :: "vault_event list"
  va_ttl :: "vault_key ttl_call list"

definition fresh_vault :: "wasm_hash \<Rightarrow> 'w \<Rightarrow> (address \<Rightarrow> 'w stream option) \<Rightarrow> 'w vault" where
  "fresh_vault code w streams = \<lparr>vk_Owner = None, vk_Token = None, vk_MaxLimit = None, vk_Operator = None,
     vk_OperatorWithdrawLimit = None, vk_Paused = None, vk_PendingOwner = None, vk_PendingOwnerProposer = None,
     vk_PendingOwnerProposedAt = None, vk_OwnerProposalTtl = None, vk_TokenAccountBalance = (\<lambda>_ _. None),
     vk_TokenMaxLimit = (\<lambda>_. None), vk_EmergencyMigration = None, vk_ReentrancyLock = None,
     vk_ApprovedToken = (\<lambda>_. None), vk_BalanceSnapshot = (\<lambda>_. None), vk_TrackedVaultKeys = None,
     va_code = code, va_world = w, va_streams = streams, va_events = [], va_ttl = []\<rparr>"

definition OWNER_PROPOSAL_TTL_SECONDS :: int where "OWNER_PROPOSAL_TTL_SECONDS = 7 * 24 * 60 * 60"
definition EMERGENCY_MIGRATION_TIMELOCK_SECONDS :: int where "EMERGENCY_MIGRATION_TIMELOCK_SECONDS = 48 * 60 * 60"
definition MAX_VAULT_DEPOSIT :: int where "MAX_VAULT_DEPOSIT = 1000000000000000000000000000000"
definition MAX_STREAM_BATCH_WITHDRAWALS :: int where "MAX_STREAM_BATCH_WITHDRAWALS = 10"

section \<open>Storage helpers\<close>

fun vk_present :: "'w vault \<Rightarrow> vault_key \<Rightarrow> bool" where
  "vk_present s (VkTokenAccountBalance t a) = (vk_TokenAccountBalance s t a \<noteq> None)"
| "vk_present s (VkTokenMaxLimit t) = (vk_TokenMaxLimit s t \<noteq> None)"

definition vault_renew :: "vault_key \<Rightarrow> 'w vault \<Rightarrow> (vault_error, 'w vault) res" where
  "vault_renew k s = and_then (bump_persistent (vk_present s) k (va_ttl s)) (\<lambda>l. Inr (s\<lparr>va_ttl := l\<rparr>))"

definition vault_bump :: "'w vault \<Rightarrow> 'w vault" where
  "vault_bump s = s\<lparr>va_ttl := bump_instance (va_ttl s)\<rparr>"

definition vault_emit :: "vault_event \<Rightarrow> 'w vault \<Rightarrow> 'w vault" where
  "vault_emit ev s = s\<lparr>va_events := va_events s @ [ev]\<rparr>"

definition tracked_vault_keys :: "'w vault \<Rightarrow> vault_key list" where
  "tracked_vault_keys s = (case vk_TrackedVaultKeys s of Some ks \<Rightarrow> ks | None \<Rightarrow> [])"

definition track_vault_key :: "vault_key \<Rightarrow> 'w vault \<Rightarrow> 'w vault" where
  "track_vault_key k s =
     (let ks = tracked_vault_keys s in
      if k \<in> set ks then s else s\<lparr>vk_TrackedVaultKeys := Some (ks @ [k])\<rparr>)"

definition get_token_account_balance :: "address \<Rightarrow> address \<Rightarrow> 'w vault \<Rightarrow> int" where
  "get_token_account_balance tok account s = (case vk_TokenAccountBalance s tok account of Some b \<Rightarrow> b | None \<Rightarrow> 0)"

definition set_token_account_balance ::
  "address \<Rightarrow> address \<Rightarrow> int \<Rightarrow> 'w vault \<Rightarrow> (vault_error, 'w vault) res" where
  "set_token_account_balance tok account b s =
     and_then (vault_renew (VkTokenAccountBalance tok account)
       (s\<lparr>vk_TokenAccountBalance := (vk_TokenAccountBalance s)(tok := (vk_TokenAccountBalance s tok)(account \<mapsto> b))\<rparr>)) (\<lambda>s1.
     Inr (track_vault_key (VkTokenAccountBalance tok account) s1))"

definition store_token_max_limit :: "address \<Rightarrow> int \<Rightarrow> 'w vault \<Rightarrow> (vault_error, 'w vault) res" where
  "store_token_max_limit tok limit s =
     and_then (vault_renew (VkTokenMaxLimit tok) (s\<lparr>vk_TokenMaxLimit := (vk_TokenMaxLimit s)(tok \<mapsto> limit)\<rparr>)) (\<lambda>s1.
     Inr (track_vault_key (VkTokenMaxLimit tok) s1))"

definition is_token_approved :: "address \<Rightarrow> 'w vault \<Rightarrow> bool" where
  "is_token_approved tok s = (case vk_ApprovedToken s tok of Some b \<Rightarrow> b | None \<Rightarrow> False)"

definition set_token_approved :: "address \<Rightarrow> bool \<Rightarrow> 'w vault \<Rightarrow> 'w vault" where
  "set_token_approved tok allowed s = s\<lparr>vk_ApprovedToken := (vk_ApprovedToken s)(tok \<mapsto> allowed)\<rparr>"

definition check_vault_balance :: "'w env \<Rightarrow> address \<Rightarrow> int \<Rightarrow> 'w vault \<Rightarrow> bool" where
  "check_vault_balance e tok b s = (case vk_BalanceSnapshot s tok of
      Some snap \<Rightarrow> (if bs_ledger snap = sequence e then bs_expected_balance snap = b else True)
    | None \<Rightarrow> True)"

definition record_vault_balance :: "'w env \<Rightarrow> address \<Rightarrow> int \<Rightarrow> 'w vault \<Rightarrow> 'w vault" where
  "record_vault_balance e tok b s =
     s\<lparr>vk_BalanceSnapshot := (vk_BalanceSnapshot s)(tok \<mapsto> \<lparr>bs_ledger = sequence e, bs_expected_balance = b\<rparr>)\<rparr>"

definition vault_is_paused :: "'w env \<Rightarrow> 'w vault \<Rightarrow> bool \<times> 'w vault" where
  "vault_is_paused e s = (let (p, slot) = is_paused (timestamp e) (vk_Paused s) in (p, s\<lparr>vk_Paused := slot\<rparr>))"

definition vault_set_paused :: "'w env \<Rightarrow> bool \<Rightarrow> 'w vault \<Rightarrow> (vault_error, 'w vault) res" where
  "vault_set_paused e p s =
     and_then (ignore_err (vk_Paused s) (set_paused (timestamp e) p (vk_Paused s))) (\<lambda>slot. Inr (s\<lparr>vk_Paused := slot\<rparr>))"

section \<open>Shared checks\<close>

text \<open>The lock: taken in temporary storage, removed at the end of the body.\<close>

definition vault_lock :: "'w vault \<Rightarrow> (vault_error, 'w vault) res" where
  "vault_lock s =
     (if (case vk_ReentrancyLock s of Some b \<Rightarrow> b | None \<Rightarrow> False) then Inl (Err ReentrancyDetected)
      else Inr (s\<lparr>vk_ReentrancyLock := Some True\<rparr>))"

definition vault_unlock :: "'w vault \<Rightarrow> 'w vault" where
  "vault_unlock s = s\<lparr>vk_ReentrancyLock := None\<rparr>"

definition non_reentrant ::
  "('w vault \<Rightarrow> (vault_error, 'a \<times> 'w vault) res) \<Rightarrow> 'w vault \<Rightarrow> (vault_error, 'a \<times> 'w vault) res" where
  "non_reentrant body s =
     and_then (vault_lock s) (\<lambda>s1. and_then (body s1) (\<lambda>(r, s2). Inr (r, vault_unlock s2)))"

definition validate_sep41_token :: "'w env \<Rightarrow> address \<Rightarrow> 'w vault \<Rightarrow> (vault_error, unit) res" where
  "validate_sep41_token e tok s =
     (if is_zero_address tok then Inl (Err InvalidToken) else
      and_then (balance_call e (va_world s) tok (contract_address e)) (\<lambda>_. Inr ()))"

definition token_client :: "'w vault \<Rightarrow> (vault_error, address) res" where
  "token_client s = ok_or (vk_Token s) (Err NotInitialized)"

definition vault_balance :: "'w env \<Rightarrow> 'w vault \<Rightarrow> (vault_error, int) res" where
  "vault_balance e s =
     and_then (token_client s) (\<lambda>tok. balance_call e (va_world s) tok (contract_address e))"

definition withdraw_cap :: "address \<Rightarrow> address \<Rightarrow> 'w vault \<Rightarrow> (vault_error, int) res" where
  "withdraw_cap caller owner s =
     (if caller = owner then Inr i128_max else
      if vk_Operator s \<noteq> Some caller then Inl (Err NotAuthorized) else
      ok_or (vk_OperatorWithdrawLimit s) (Err LimitExceeded))"

definition require_owner_or_operator ::
  "'w env \<Rightarrow> address \<Rightarrow> address \<Rightarrow> 'w vault \<Rightarrow> (vault_error, unit) res" where
  "require_owner_or_operator e caller owner s =
     (let is_owner = (caller = owner);
          is_op = (case vk_Operator s of Some op \<Rightarrow> caller = op | None \<Rightarrow> False)
      in if is_owner \<or> is_op then require_auth e caller else Inl (Err NotAuthorized))"

text \<open>The check in front of every owner-only call.\<close>

definition require_owner :: "'w env \<Rightarrow> address \<Rightarrow> 'w vault \<Rightarrow> (vault_error, unit) res" where
  "require_owner e caller s =
     and_then (ok_or (vk_Owner s) (Err NotInitialized)) (\<lambda>owner.
     if caller \<noteq> owner then Inl (Err NotAuthorized) else require_auth e caller)"

definition vault_assert_not_paused :: "'w env \<Rightarrow> 'w vault \<Rightarrow> (vault_error, 'w vault) res" where
  "vault_assert_not_paused e s =
     and_then (map_err (\<lambda>_. ContractPaused) (require_not_paused (timestamp e) (vk_Paused s))) (\<lambda>slot.
     Inr (s\<lparr>vk_Paused := slot\<rparr>))"

definition vault_transfer ::
  "'w env \<Rightarrow> address \<Rightarrow> address \<Rightarrow> address \<Rightarrow> int \<Rightarrow> 'w vault \<Rightarrow> (vault_error, 'w vault) res" where
  "vault_transfer e tok src dst amt s =
     and_then (transfer_call e (va_world s) tok src dst amt) (\<lambda>w. Inr (s\<lparr>va_world := w\<rparr>))"

end
