(* ===== verification/Vault_Ops.thy ===== *)
theory Vault_Ops
  imports Vault
begin

text \<open>
  The entry points of \<^verbatim>\<open>TokenVault\<close> (\<^verbatim>\<open>contracts/token-vault/src/lib.rs\<close>), in the
  order of the source, and the helper of \<^verbatim>\<open>ttl.rs\<close>.  The stream contracts the vault
  calls in \<^verbatim>\<open>vault_batch_withdraw\<close> run the code of \<^verbatim>\<open>contracts/stream\<close>; a call of an
  address without a stream fails.  That function compares the result of
  \<^verbatim>\<open>try_recipient\<close> with an address, which Rust does not accept; the model compares
  the address inside.
\<close>

section \<open>Withdrawals from the default token\<close>

fun sum_payouts :: "(address \<times> int) list \<Rightarrow> int \<Rightarrow> (vault_error, int) res" where
  "sum_payouts [] tot = Inr tot"
| "sum_payouts ((_, amount) # ps) tot =
     (if amount \<le> 0 then Inl (Err InvalidAmount) else
      and_then (ok_or (checked_i128 (tot + amount)) (Err ArithmeticOverflow)) (\<lambda>tot'.
      sum_payouts ps tot'))"

fun pay_each ::
  "'w env \<Rightarrow> address \<Rightarrow> address \<Rightarrow> bool \<Rightarrow> (address \<times> int) list \<Rightarrow> int \<Rightarrow> 'w vault \<Rightarrow> (vault_error, 'w vault) res" where
  "pay_each e tok caller by_operator [] expected s = Inr s"
| "pay_each e tok caller by_operator ((to, amount) # ps) expected s =
     and_then (ok_or (checked_i128 (expected - amount)) (Err ArithmeticOverflow)) (\<lambda>expected'.
     and_then (vault_transfer e tok (contract_address e) to amount s) (\<lambda>s1.
     and_then (vault_balance e s1) (\<lambda>new_balance.
     if new_balance \<noteq> expected' then Inl (Err WithdrawTransferFailed) else
     let s2 = vault_emit (EvVaultWithdrawn caller to amount new_balance by_operator)
                (record_vault_balance e tok new_balance s1)
     in pay_each e tok caller by_operator ps expected' s2)))"

definition withdraw_payouts_body ::
  "'w env \<Rightarrow> address \<Rightarrow> (address \<times> int) list \<Rightarrow> 'w vault \<Rightarrow> (vault_error, unit \<times> 'w vault) res" where
  "withdraw_payouts_body e caller payouts s0 =
     and_then (vault_assert_not_paused e s0) (\<lambda>s1.
     and_then (ok_or (vk_Owner s1) (Err NotInitialized)) (\<lambda>owner.
     and_then (require_owner_or_operator e caller owner s1) (\<lambda>_.
     if payouts = [] then Inl (Err InvalidAmount) else
     and_then (ok_or (vk_Token s1) (Err NotInitialized)) (\<lambda>tok.
     and_then (validate_sep41_token e tok s1) (\<lambda>_.
     and_then (sum_payouts payouts 0) (\<lambda>tot.
     and_then (withdraw_cap caller owner s1) (\<lambda>cap.
     if cap < tot then Inl (Err LimitExceeded) else
     and_then (vault_balance e s1) (\<lambda>balance.
     if balance < tot then Inl (Err LimitExceeded) else
     and_then (pay_each e tok caller (caller \<noteq> owner) payouts balance s1) (\<lambda>s2.
     Inr ((), vault_bump s2))))))))))"

definition withdraw_payouts ::
  "'w env \<Rightarrow> address \<Rightarrow> (address \<times> int) list \<Rightarrow> 'w vault \<Rightarrow> (vault_error, unit \<times> 'w vault) res" where
  "withdraw_payouts e caller payouts = non_reentrant (withdraw_payouts_body e caller payouts)"

definition vault_withdraw ::
  "'w env \<Rightarrow> address \<Rightarrow> address \<Rightarrow> int \<Rightarrow> 'w vault \<Rightarrow> (vault_error, unit \<times> 'w vault) res" where
  "vault_withdraw e caller to amount = withdraw_payouts e caller [(to, amount)]"

definition withdraw_batch ::
  "'w env \<Rightarrow> address \<Rightarrow> (address \<times> int) list \<Rightarrow> 'w vault \<Rightarrow> (vault_error, unit \<times> 'w vault) res" where
  "withdraw_batch e caller payouts = withdraw_payouts e caller payouts"

section \<open>Set-up and deposits\<close>

definition vault_initialize ::
  "'w env \<Rightarrow> address \<Rightarrow> address \<Rightarrow> int \<Rightarrow> 'w vault \<Rightarrow> (vault_error, 'w vault) res" where
  "vault_initialize e owner tok max_limit s =
     and_then (require_auth e owner) (\<lambda>_.
     if max_limit \<le> 0 then Inl (Err InvalidAmount) else
     and_then (validate_sep41_token e tok s) (\<lambda>_.
     if vk_Owner s \<noteq> None then Inl (Err AlreadyInitialized) else
     let s1 = (set_token_approved tok True ((vault_bump s)\<lparr>vk_Owner := Some owner, vk_Token := Some tok\<rparr>))
                \<lparr>vk_MaxLimit := Some max_limit, vk_OwnerProposalTtl := Some OWNER_PROPOSAL_TTL_SECONDS\<rparr>
     in Inr (vault_emit (EvVaultInit owner tok max_limit) s1)))"

definition deposit_body ::
  "'w env \<Rightarrow> address \<Rightarrow> int \<Rightarrow> 'w vault \<Rightarrow> (vault_error, unit \<times> 'w vault) res" where
  "deposit_body e src amount s0 =
     and_then (vault_assert_not_paused e s0) (\<lambda>s1.
     and_then (ok_or (vk_Owner s1) (Err NotInitialized)) (\<lambda>owner.
     and_then (require_owner_or_operator e src owner s1) (\<lambda>_.
     if amount \<le> 0 then Inl (Err InvalidAmount) else
     if MAX_VAULT_DEPOSIT < amount then Inl (Err DepositExceedsMax) else
     and_then (vault_balance e s1) (\<lambda>balance.
     and_then (ok_or (vk_Token s1) (Err NotInitialized)) (\<lambda>tok.
     if \<not> is_token_approved tok s1 then Inl (Err TokenNotApproved) else
     and_then (ok_or (vk_MaxLimit s1) (Err NotInitialized)) (\<lambda>limit.
     and_then (ok_or (checked_i128 (balance + amount)) (Err ArithmeticOverflow)) (\<lambda>expected.
     if limit < expected then Inl (Err LimitExceeded) else
     if \<not> check_vault_balance e tok balance s1 then Inl (Err VaultBalanceChanged) else
     and_then (vault_transfer e tok src (contract_address e) amount s1) (\<lambda>s2.
     and_then (balance_call e (va_world s2) tok (contract_address e)) (\<lambda>new_balance.
     if limit < new_balance then Inl (Err LimitExceeded) else
     if new_balance \<noteq> expected then Inl (Err DepositTransferFailed) else
     and_then (case checked_i128 (get_token_account_balance tok src s2 + amount) of
                 Some b \<Rightarrow> set_token_account_balance tok src b s2 | None \<Rightarrow> Inr s2) (\<lambda>s3.
     Inr ((), vault_emit (EvDeposited src amount new_balance)
            (vault_bump (record_vault_balance e tok new_balance s3)))))))))))))"

definition vault_deposit ::
  "'w env \<Rightarrow> address \<Rightarrow> int \<Rightarrow> 'w vault \<Rightarrow> (vault_error, unit \<times> 'w vault) res" where
  "vault_deposit e src amount = non_reentrant (deposit_body e src amount)"

definition deposit_with_fee ::
  "'w env \<Rightarrow> address \<Rightarrow> int \<Rightarrow> int \<Rightarrow> 'w vault \<Rightarrow> (vault_error, unit \<times> 'w vault) res" where
  "deposit_with_fee e src gross_amount fee_amount s =
     (if fee_amount < 0 \<or> gross_amount \<le> 0 \<or> gross_amount \<le> fee_amount then Inl (Err InvalidAmount) else
      if MAX_VAULT_DEPOSIT < gross_amount then Inl (Err DepositExceedsMax) else
      and_then (ok_or (checked_i128 (gross_amount - fee_amount)) (Err ArithmeticOverflow)) (\<lambda>net_amount.
      and_then (vault_deposit e src net_amount s) (\<lambda>(_, s1).
      Inr ((), vault_emit (EvTokenDeposited src gross_amount fee_amount net_amount) s1))))"

fun sum_deposits :: "'w env \<Rightarrow> deposit_spec list \<Rightarrow> int \<Rightarrow> (vault_error, int) res" where
  "sum_deposits e [] tot = Inr tot"
| "sum_deposits e (d # ds) tot =
     (if ds_amount d \<le> 0 then Inl (Err InvalidAmount) else
      if MAX_VAULT_DEPOSIT < ds_amount d then Inl (Err DepositExceedsMax) else
      and_then (require_auth e (ds_from d)) (\<lambda>_.
      and_then (ok_or (checked_i128 (tot + ds_amount d)) (Err ArithmeticOverflow)) (\<lambda>tot'.
      sum_deposits e ds tot')))"

fun collect_deposits ::
  "'w env \<Rightarrow> address \<Rightarrow> deposit_spec list \<Rightarrow> 'w vault \<Rightarrow> (vault_error, 'w vault) res" where
  "collect_deposits e tok [] s = Inr s"
| "collect_deposits e tok (d # ds) s =
     and_then (vault_transfer e tok (ds_from d) (contract_address e) (ds_amount d) s) (\<lambda>s1.
     and_then (balance_call e (va_world s1) tok (contract_address e)) (\<lambda>current_balance.
     collect_deposits e tok ds (vault_emit (EvDeposited (ds_from d) (ds_amount d) current_balance) s1)))"

definition batch_deposit_body ::
  "'w env \<Rightarrow> deposit_spec list \<Rightarrow> 'w vault \<Rightarrow> (vault_error, unit \<times> 'w vault) res" where
  "batch_deposit_body e deposits s0 =
     and_then (vault_assert_not_paused e s0) (\<lambda>s1.
     if deposits = [] then Inl (Err InvalidAmount) else
     and_then (ok_or (vk_Owner s1) (Err NotInitialized)) (\<lambda>_.
     and_then (ok_or (vk_MaxLimit s1) (Err NotInitialized)) (\<lambda>limit.
     and_then (sum_deposits e deposits 0) (\<lambda>total_deposit.
     and_then (vault_balance e s1) (\<lambda>balance.
     and_then (ok_or (vk_Token s1) (Err NotInitialized)) (\<lambda>tok.
     if \<not> is_token_approved tok s1 then Inl (Err TokenNotApproved) else
     and_then (ok_or (checked_i128 (balance + total_deposit)) (Err ArithmeticOverflow)) (\<lambda>expected.
     if limit < expected then Inl (Err LimitExceeded) else
     if \<not> check_vault_balance e tok balance s1 then Inl (Err VaultBalanceChanged) else
     and_then (collect_deposits e tok deposits s1) (\<lambda>s2.
     and_then (balance_call e (va_world s2) tok (contract_address e)) (\<lambda>final_balance.
     if limit < final_balance then Inl (Err LimitExceeded) else
     if final_balance \<noteq> expected then Inl (Err DepositTransferFailed) else
     Inr ((), vault_bump (record_vault_balance e tok final_balance s2)))))))))))"

definition batch_deposit ::
  "'w env \<Rightarrow> deposit_spec list \<Rightarrow> 'w vault \<Rightarrow> (vault_error, unit \<times> 'w vault) res" where
  "batch_deposit e deposits = non_reentrant (batch_deposit_body e deposits)"

section \<open>Withdrawing from streams\<close>

definition view_stream ::
  "'w env \<Rightarrow> address \<Rightarrow> ('w env \<Rightarrow> 'w stream \<Rightarrow> (stream_error, 'a) res) \<Rightarrow> 'w vault \<Rightarrow> (vault_error, 'a) res" where
  "view_stream e addr view s = (case va_streams s addr of
      None \<Rightarrow> Inl (Err StreamCallFailed)
    | Some st \<Rightarrow> (case view (e\<lparr>contract_address := addr\<rparr>) (st\<lparr>st_world := va_world s\<rparr>) of
        Inl _ \<Rightarrow> Inl (Err StreamCallFailed)
      | Inr r \<Rightarrow> Inr r))"

definition call_stream ::
  "'w env \<Rightarrow> address \<Rightarrow> ('w env \<Rightarrow> 'w stream \<Rightarrow> (stream_error, 'a \<times> 'w stream) res) \<Rightarrow> 'w vault \<Rightarrow>
   (vault_error, 'a \<times> 'w vault) res" where
  "call_stream e addr call s = (case va_streams s addr of
      None \<Rightarrow> Inl (Err StreamCallFailed)
    | Some st \<Rightarrow> (case call (e\<lparr>contract_address := addr\<rparr>) (st\<lparr>st_world := va_world s\<rparr>) of
        Inl _ \<Rightarrow> Inl (Err StreamCallFailed)
      | Inr (r, st') \<Rightarrow> Inr (r, s\<lparr>va_world := st_world st', va_streams := (va_streams s)(addr \<mapsto> st')\<rparr>)))"

definition stream_recipient :: "'w stream \<Rightarrow> (stream_error, address) res" where
  "stream_recipient s = and_then (load s) (\<lambda>info. Inr (si_recipient info))"

fun plan_withdrawals ::
  "'w env \<Rightarrow> address \<Rightarrow> address list \<Rightarrow> address list \<Rightarrow> (address \<times> int) list \<Rightarrow> int \<Rightarrow> 'w vault \<Rightarrow>
   (vault_error, (address \<times> int) list \<times> int) res" where
  "plan_withdrawals e recipient previous [] payouts tot s = Inr (payouts, tot)"
| "plan_withdrawals e recipient previous (addr # addrs) payouts tot s =
     (if addr \<in> set previous then Inl (Err InvalidStreamBatch) else
      and_then (view_stream e addr (\<lambda>_. stream_recipient) s) (\<lambda>r.
      if r \<noteq> recipient then Inl (Err NotAuthorized) else
      and_then (view_stream e addr withdrawable s) (\<lambda>amount.
      if amount < 0 then Inl (Err InvalidAmount) else
      if 0 < amount then
        and_then (ok_or (checked_i128 (tot + amount)) (Err ArithmeticOverflow)) (\<lambda>tot'.
        plan_withdrawals e recipient (previous @ [addr]) addrs (payouts @ [(addr, amount)]) tot' s)
      else plan_withdrawals e recipient (previous @ [addr]) addrs payouts tot s)))"

fun withdraw_streams :: "'w env \<Rightarrow> (address \<times> int) list \<Rightarrow> 'w vault \<Rightarrow> (vault_error, 'w vault) res" where
  "withdraw_streams e [] s = Inr s"
| "withdraw_streams e ((addr, amount) # ps) s =
     and_then (call_stream e addr (\<lambda>e'. withdraw e' amount) s) (\<lambda>(_, s1). withdraw_streams e ps s1)"

definition vault_batch_withdraw ::
  "'w env \<Rightarrow> address list \<Rightarrow> address \<Rightarrow> 'w vault \<Rightarrow> (vault_error, int \<times> 'w vault) res" where
  "vault_batch_withdraw e stream_ids recipient s =
     (if stream_ids = [] \<or> MAX_STREAM_BATCH_WITHDRAWALS < int (length stream_ids) then Inl (Err InvalidStreamBatch) else
      and_then (vault_assert_not_paused e s) (\<lambda>s1.
      non_reentrant (\<lambda>s2.
        and_then (plan_withdrawals e recipient [] stream_ids [] 0 s2) (\<lambda>(payouts, tot).
        and_then (withdraw_streams e payouts s2) (\<lambda>s3.
        Inr (tot, s3)))) s1))"

section \<open>Limits, operator and ownership\<close>

definition set_operator_withdraw_limit ::
  "'w env \<Rightarrow> address \<Rightarrow> int \<Rightarrow> 'w vault \<Rightarrow> (vault_error, 'w vault) res" where
  "set_operator_withdraw_limit e caller new_limit s =
     and_then (vault_assert_not_paused e s) (\<lambda>s1.
     and_then (require_owner e caller s1) (\<lambda>_.
     if new_limit \<le> 0 then Inl (Err InvalidAmount) else
     let old_limit = (case vk_OperatorWithdrawLimit s1 of Some l \<Rightarrow> l | None \<Rightarrow> 0)
     in Inr (vault_emit (EvOperatorLimitSet caller old_limit new_limit)
          ((vault_bump s1)\<lparr>vk_OperatorWithdrawLimit := Some new_limit\<rparr>))))"

definition set_limit :: "'w env \<Rightarrow> address \<Rightarrow> int \<Rightarrow> 'w vault \<Rightarrow> (vault_error, 'w vault) res" where
  "set_limit e caller new_limit s =
     and_then (vault_assert_not_paused e s) (\<lambda>s1.
     and_then (ok_or (vk_Owner s1) (Err NotInitialized)) (\<lambda>owner.
     if new_limit \<le> 0 then Inl (Err InvalidAmount) else
     and_then (vault_balance e s1) (\<lambda>balance.
     if new_limit < balance then Inl (Err LimitExceeded) else
     and_then (ok_or (vk_MaxLimit s1) (Err ArithmeticOverflow)) (\<lambda>old_limit.
     and_then (if old_limit < new_limit
               then (if caller \<noteq> owner then Inl (Err NotAuthorized) else require_auth e caller)
               else require_owner_or_operator e caller owner s1) (\<lambda>_.
     Inr (vault_emit (EvLimitSet caller old_limit new_limit)
       ((vault_bump s1)\<lparr>vk_MaxLimit := Some new_limit\<rparr>)))))))"

definition vault_set_operator ::
  "'w env \<Rightarrow> address \<Rightarrow> address \<Rightarrow> 'w vault \<Rightarrow> (vault_error, 'w vault) res" where
  "vault_set_operator e caller operator s =
     and_then (require_owner e caller s) (\<lambda>_.
     Inr (vault_emit (EvVaultOperatorSet caller operator) ((vault_bump s)\<lparr>vk_Operator := Some operator\<rparr>)))"

definition vault_revoke_operator :: "'w env \<Rightarrow> address \<Rightarrow> 'w vault \<Rightarrow> (vault_error, 'w vault) res" where
  "vault_revoke_operator e caller s =
     and_then (require_owner e caller s) (\<lambda>_.
     Inr (vault_emit (EvVaultOperatorRevoked caller) ((vault_bump s)\<lparr>vk_Operator := None\<rparr>)))"

definition propose_owner ::
  "'w env \<Rightarrow> address \<Rightarrow> address \<Rightarrow> 'w vault \<Rightarrow> (vault_error, 'w vault) res" where
  "propose_owner e caller new_owner s =
     and_then (require_owner e caller s) (\<lambda>_.
     if is_zero_address new_owner then Inl (Err InvalidParam) else
     Inr (vault_emit (EvOwnerProposed caller new_owner)
       ((vault_bump s)\<lparr>vk_PendingOwner := Some new_owner, vk_PendingOwnerProposer := Some caller,
          vk_PendingOwnerProposedAt := Some (timestamp e)\<rparr>)))"

definition accept_owner :: "'w env \<Rightarrow> address \<Rightarrow> 'w vault \<Rightarrow> (vault_error, 'w vault) res" where
  "accept_owner e caller s =
     and_then (ok_or (vk_PendingOwner s) (Err NoPendingOwner)) (\<lambda>pending.
     if caller \<noteq> pending then Inl (Err NotPendingOwner) else
     and_then (require_auth e caller) (\<lambda>_.
     and_then (ok_or (vk_PendingOwnerProposedAt s) (Err PendingOwnerExpired)) (\<lambda>proposed_at.
     let proposal_ttl = (case vk_OwnerProposalTtl s of Some t \<Rightarrow> t | None \<Rightarrow> OWNER_PROPOSAL_TTL_SECONDS) in
     and_then (ok_or (checked_u64 (proposed_at + proposal_ttl)) (Err ArithmeticOverflow)) (\<lambda>expires_at.
     if expires_at \<le> timestamp e then Inl (Err PendingOwnerExpired) else
     and_then (ok_or (vk_PendingOwnerProposer s) (Err NoPendingOwner)) (\<lambda>proposer.
     Inr (vault_emit (EvOwnerAccepted caller proposer)
       ((vault_bump s)\<lparr>vk_Owner := Some caller, vk_PendingOwner := None, vk_PendingOwnerProposer := None,
          vk_PendingOwnerProposedAt := None\<rparr>)))))))"

definition effective_withdraw_limit ::
  "'w env \<Rightarrow> address \<Rightarrow> 'w vault \<Rightarrow> (vault_error, int \<times> 'w vault) res" where
  "effective_withdraw_limit e caller s =
     and_then (vault_assert_not_paused e s) (\<lambda>s1.
     and_then (ok_or (vk_Owner s1) (Err NotInitialized)) (\<lambda>owner.
     and_then (withdraw_cap caller owner s1) (\<lambda>cap.
     and_then (vault_balance e s1) (\<lambda>balance.
     Inr (min balance cap, s1)))))"

definition set_owner_proposal_ttl ::
  "'w env \<Rightarrow> address \<Rightarrow> int \<Rightarrow> 'w vault \<Rightarrow> (vault_error, 'w vault) res" where
  "set_owner_proposal_ttl e caller ttl_seconds s =
     and_then (require_owner e caller s) (\<lambda>_.
     if ttl_seconds = 0 then Inl (Err InvalidAmount) else
     let old_ttl = (case vk_OwnerProposalTtl s of Some t \<Rightarrow> t | None \<Rightarrow> OWNER_PROPOSAL_TTL_SECONDS)
     in Inr (vault_emit (EvOwnerProposalTtl caller old_ttl ttl_seconds)
          ((vault_bump s)\<lparr>vk_OwnerProposalTtl := Some ttl_seconds\<rparr>)))"

section \<open>Pause, keep-alive and upgrade\<close>

definition vault_pause :: "'w env \<Rightarrow> address \<Rightarrow> 'w vault \<Rightarrow> (vault_error, 'w vault) res" where
  "vault_pause e caller s =
     and_then (require_owner e caller s) (\<lambda>_.
     let (p, s1) = vault_is_paused e s in
     if p then Inl (Err AlreadyPaused) else
     and_then (vault_set_paused e True (vault_bump s1)) (\<lambda>s2.
     Inr (vault_emit (EvVaultPaused caller (timestamp e)) s2)))"

definition vault_unpause :: "'w env \<Rightarrow> address \<Rightarrow> 'w vault \<Rightarrow> (vault_error, 'w vault) res" where
  "vault_unpause e caller s =
     and_then (require_owner e caller s) (\<lambda>_.
     let (p, s1) = vault_is_paused e s in
     if \<not> p then Inl (Err NotPaused) else
     and_then (vault_set_paused e False (vault_bump s1)) (\<lambda>s2.
     Inr (vault_emit (EvVaultUnpaused caller (timestamp e)) s2)))"

fun renew_keys :: "vault_key list \<Rightarrow> int \<Rightarrow> 'w vault \<Rightarrow> (vault_error, int \<times> 'w vault) res" where
  "renew_keys [] refreshed s = Inr (refreshed, s)"
| "renew_keys (k # ks) refreshed s =
     (if vk_present s k then
        and_then (vault_renew k s) (\<lambda>s1.
        and_then (plain_u32 (refreshed + 1)) (\<lambda>refreshed'.
        renew_keys ks refreshed' s1))
      else renew_keys ks refreshed s)"

definition ttl_bump_all_vault_keys :: "'w vault \<Rightarrow> (vault_error, int \<times> 'w vault) res" where
  "ttl_bump_all_vault_keys s = renew_keys (tracked_vault_keys s) 0 s"

definition keep_alive :: "'w vault \<Rightarrow> (vault_error, 'w vault) res" where
  "keep_alive s =
     and_then (ttl_bump_all_vault_keys (vault_bump s)) (\<lambda>(_, s1).
     Inr (vault_emit (EvKeptAlive EXTEND_TTL_LEDGERS) s1))"

definition bump_all_vault_keys :: "'w vault \<Rightarrow> (vault_error, int \<times> 'w vault) res" where
  "bump_all_vault_keys s =
     and_then (ok_or (vk_Owner s) (Err NotInitialized)) (\<lambda>_.
     and_then (ttl_bump_all_vault_keys (vault_bump s)) (\<lambda>(count, s1).
     Inr (count, vault_emit (EvVaultKeysRefreshed count) s1)))"

definition vault_upgrade ::
  "'w env \<Rightarrow> address \<Rightarrow> wasm_hash \<Rightarrow> 'w vault \<Rightarrow> (vault_error, 'w vault) res" where
  "vault_upgrade e caller new_wasm_hash s =
     and_then (require_owner e caller s) (\<lambda>_.
     and_then (vault_assert_not_paused e s) (\<lambda>s1.
     if new_wasm_hash = replicate 32 0 then Inl (Err InvalidWasmHash) else
     Inr (vault_emit (EvVaultUpgraded caller (timestamp e)) ((vault_bump s1)\<lparr>va_code := new_wasm_hash\<rparr>))))"

section \<open>Several tokens\<close>

definition deposit_token_body ::
  "'w env \<Rightarrow> address \<Rightarrow> address \<Rightarrow> int \<Rightarrow> 'w vault \<Rightarrow> (vault_error, unit \<times> 'w vault) res" where
  "deposit_token_body e src tok amount s0 =
     and_then (vault_assert_not_paused e s0) (\<lambda>s1.
     and_then (ok_or (vk_Owner s1) (Err NotInitialized)) (\<lambda>owner.
     and_then (require_owner_or_operator e src owner s1) (\<lambda>_.
     if amount \<le> 0 then Inl (Err InvalidAmount) else
     if MAX_VAULT_DEPOSIT < amount then Inl (Err DepositExceedsMax) else
     if \<not> is_token_approved tok s1 then Inl (Err TokenNotApproved) else
     and_then (balance_call e (va_world s1) tok (contract_address e)) (\<lambda>before.
     if \<not> check_vault_balance e tok before s1 then Inl (Err VaultBalanceChanged) else
     and_then (case vk_TokenMaxLimit s1 tok of
         Some limit \<Rightarrow>
           and_then (balance_call e (va_world s1) tok (contract_address e)) (\<lambda>current.
           and_then (ok_or (checked_i128 (current + amount)) (Err ArithmeticOverflow)) (\<lambda>expected.
           if limit < expected then Inl (Err LimitExceeded) else Inr ()))
       | None \<Rightarrow> Inr ()) (\<lambda>_.
     and_then (vault_transfer e tok src (contract_address e) amount s1) (\<lambda>s2.
     and_then (balance_call e (va_world s2) tok (contract_address e)) (\<lambda>after.
     and_then (ok_or (checked_i128 (before + amount)) (Err ArithmeticOverflow)) (\<lambda>expected.
     if after \<noteq> expected then Inl (Err DepositTransferFailed) else
     let s3 = record_vault_balance e tok after s2 in
     and_then (ok_or (checked_i128 (get_token_account_balance tok src s3 + amount)) (Err ArithmeticOverflow)) (\<lambda>b.
     and_then (set_token_account_balance tok src b s3) (\<lambda>s4.
     and_then (balance_call e (va_world s4) tok (contract_address e)) (\<lambda>held.
     Inr ((), vault_emit (EvDeposited src amount held) (vault_bump s4)))))))))))))"

definition deposit_token ::
  "'w env \<Rightarrow> address \<Rightarrow> address \<Rightarrow> int \<Rightarrow> 'w vault \<Rightarrow> (vault_error, unit \<times> 'w vault) res" where
  "deposit_token e src tok amount = non_reentrant (deposit_token_body e src tok amount)"

definition withdraw_token_body ::
  "'w env \<Rightarrow> address \<Rightarrow> address \<Rightarrow> address \<Rightarrow> int \<Rightarrow> 'w vault \<Rightarrow> (vault_error, unit \<times> 'w vault) res" where
  "withdraw_token_body e caller tok to amount s0 =
     and_then (vault_assert_not_paused e s0) (\<lambda>s1.
     and_then (ok_or (vk_Owner s1) (Err NotInitialized)) (\<lambda>owner.
     and_then (require_owner_or_operator e caller owner s1) (\<lambda>_.
     if amount \<le> 0 then Inl (Err InvalidAmount) else
     and_then (withdraw_cap caller owner s1) (\<lambda>cap.
     if cap < amount then Inl (Err LimitExceeded) else
     and_then (balance_call e (va_world s1) tok (contract_address e)) (\<lambda>vault_bal.
     if vault_bal < amount then Inl (Err LimitExceeded) else
     let current = get_token_account_balance tok caller s1 in
     if caller \<noteq> owner \<and> current < amount then Inl (Err LimitExceeded) else
     and_then (vault_transfer e tok (contract_address e) to amount s1) (\<lambda>s2.
     and_then (if amount \<le> current
               then and_then (plain_i128 (current - amount)) (\<lambda>b. set_token_account_balance tok caller b s2)
               else Inr s2) (\<lambda>s3.
     and_then (balance_call e (va_world s3) tok (contract_address e)) (\<lambda>new_bal.
     and_then (ok_or (checked_i128 (vault_bal - amount)) (Err ArithmeticOverflow)) (\<lambda>expected.
     if new_bal \<noteq> expected then Inl (Err WithdrawTransferFailed) else
     Inr ((), vault_bump (vault_emit (EvVaultWithdrawn caller to amount new_bal (caller \<noteq> owner))
            (record_vault_balance e tok new_bal s3))))))))))))"

definition withdraw_token ::
  "'w env \<Rightarrow> address \<Rightarrow> address \<Rightarrow> address \<Rightarrow> int \<Rightarrow> 'w vault \<Rightarrow> (vault_error, unit \<times> 'w vault) res" where
  "withdraw_token e caller tok to amount = non_reentrant (withdraw_token_body e caller tok to amount)"

definition set_token_max_limit ::
  "'w env \<Rightarrow> address \<Rightarrow> address \<Rightarrow> int \<Rightarrow> 'w vault \<Rightarrow> (vault_error, 'w vault) res" where
  "set_token_max_limit e caller tok limit s =
     and_then (vault_assert_not_paused e s) (\<lambda>s1.
     and_then (ok_or (vk_Owner s1) (Err NotInitialized)) (\<lambda>owner.
     and_then (require_owner_or_operator e caller owner s1) (\<lambda>_.
     if limit \<le> 0 then Inl (Err InvalidAmount) else
     and_then (store_token_max_limit tok limit s1) (\<lambda>s2.
     Inr (vault_bump s2)))))"

text \<open>A probe of an address that traps is a trap of the query itself.\<close>

definition is_token_compliant :: "'w env \<Rightarrow> address \<Rightarrow> 'w vault \<Rightarrow> (vault_error, bool) res" where
  "is_token_compliant e tok s = (case validate_sep41_token e tok s of
      Inl (Err _) \<Rightarrow> Inr False
    | Inl f \<Rightarrow> Inl f
    | Inr _ \<Rightarrow> Inr True)"

definition approve_token ::
  "'w env \<Rightarrow> address \<Rightarrow> address \<Rightarrow> bool \<Rightarrow> 'w vault \<Rightarrow> (vault_error, 'w vault) res" where
  "approve_token e caller tok approved s =
     and_then (require_owner e caller s) (\<lambda>_.
     and_then (if approved then validate_sep41_token e tok s else Inr ()) (\<lambda>_.
     Inr (vault_emit (EvTokenApproval tok approved) (vault_bump (set_token_approved tok approved s)))))"

definition deposit_with_failure_report_body ::
  "'w env \<Rightarrow> address \<Rightarrow> int \<Rightarrow> 'w vault \<Rightarrow> (vault_error, bool \<times> 'w vault) res" where
  "deposit_with_failure_report_body e src amount s0 =
     and_then (vault_assert_not_paused e s0) (\<lambda>s1.
     and_then (ok_or (vk_Owner s1) (Err NotInitialized)) (\<lambda>owner.
     and_then (require_owner_or_operator e src owner s1) (\<lambda>_.
     if amount \<le> 0 then Inl (Err InvalidAmount) else
     if MAX_VAULT_DEPOSIT < amount then Inl (Err DepositExceedsMax) else
     and_then (ok_or (vk_Token s1) (Err NotInitialized)) (\<lambda>tok.
     if \<not> is_token_approved tok s1 then Inl (Err TokenNotApproved) else
     and_then (balance_call e (va_world s1) tok (contract_address e)) (\<lambda>before.
     and_then (ok_or (vk_MaxLimit s1) (Err NotInitialized)) (\<lambda>limit.
     and_then (ok_or (checked_i128 (before + amount)) (Err ArithmeticOverflow)) (\<lambda>expected.
     if limit < expected then Inl (Err LimitExceeded) else
     if \<not> check_vault_balance e tok before s1 then Inl (Err VaultBalanceChanged) else
     (case vault_transfer e tok src (contract_address e) amount s1 of
        Inl _ \<Rightarrow> Inr (False, vault_emit (EvVaultDepositFailed src tok amount 1) s1)
      | Inr s2 \<Rightarrow>
          and_then (balance_call e (va_world s2) tok (contract_address e)) (\<lambda>after.
          if after \<noteq> expected then Inl (Err DepositTransferFailed) else
          and_then (ok_or (checked_i128 (get_token_account_balance tok src s2 + amount)) (Err ArithmeticOverflow)) (\<lambda>b.
          and_then (set_token_account_balance tok src b s2) (\<lambda>s3.
          Inr (True, vault_emit (EvDeposited src amount after)
                 (vault_bump (record_vault_balance e tok after s3))))))))))))))"

definition deposit_with_failure_report ::
  "'w env \<Rightarrow> address \<Rightarrow> int \<Rightarrow> 'w vault \<Rightarrow> (vault_error, bool \<times> 'w vault) res" where
  "deposit_with_failure_report e src amount = non_reentrant (deposit_with_failure_report_body e src amount)"

section \<open>Emergency migration\<close>

definition initiate_emergency_migration ::
  "'w env \<Rightarrow> address \<Rightarrow> address \<Rightarrow> 'w vault \<Rightarrow> (vault_error, 'w vault) res" where
  "initiate_emergency_migration e caller destination s =
     and_then (require_owner e caller s) (\<lambda>_.
     if is_zero_address destination then Inl (Err InvalidParam) else
     and_then (ok_or (checked_u64 (timestamp e + EMERGENCY_MIGRATION_TIMELOCK_SECONDS)) (Err ArithmeticOverflow)) (\<lambda>executable_at.
     Inr (vault_emit (EvMigrationInitiated caller destination executable_at)
       ((vault_bump s)\<lparr>vk_EmergencyMigration := Some \<lparr>em_destination = destination, em_proposed_at = timestamp e,
          em_executable_at = executable_at\<rparr>\<rparr>))))"

definition execute_emergency_migration_body ::
  "'w env \<Rightarrow> address \<Rightarrow> 'w vault \<Rightarrow> (vault_error, int \<times> 'w vault) res" where
  "execute_emergency_migration_body e caller s =
     and_then (require_owner e caller s) (\<lambda>_.
     and_then (ok_or (vk_EmergencyMigration s) (Err NoMigrationProposed)) (\<lambda>migration.
     if timestamp e < em_executable_at migration then Inl (Err TimelockNotExpired) else
     and_then (token_client s) (\<lambda>tok.
     and_then (balance_call e (va_world s) tok (contract_address e)) (\<lambda>balance.
     and_then (if 0 < balance
               then vault_transfer e tok (contract_address e) (em_destination migration) balance s
               else Inr s) (\<lambda>s1.
     Inr (balance, vault_emit (EvMigrationExecuted caller (em_destination migration) balance)
       (vault_bump (s1\<lparr>vk_EmergencyMigration := None\<rparr>))))))))"

definition execute_emergency_migration ::
  "'w env \<Rightarrow> address \<Rightarrow> 'w vault \<Rightarrow> (vault_error, int \<times> 'w vault) res" where
  "execute_emergency_migration e caller = non_reentrant (execute_emergency_migration_body e caller)"

definition cancel_emergency_migration :: "'w env \<Rightarrow> address \<Rightarrow> 'w vault \<Rightarrow> (vault_error, 'w vault) res" where
  "cancel_emergency_migration e caller s =
     and_then (require_owner e caller s) (\<lambda>_.
     and_then (ok_or (vk_EmergencyMigration s) (Err NoMigrationProposed)) (\<lambda>_.
     Inr (vault_emit (EvMigrationCancelled caller) (vault_bump (s\<lparr>vk_EmergencyMigration := None\<rparr>)))))"

end
