(* ===== verification/Vault_History.thy ===== *)
theory Vault_History
  imports Vault_Ops
begin

text \<open>
  What holds of a vault over any history of calls: the invariant of its storage,
  the two-step change of owner, the timelock of the migration, and that the key
  index lists exactly the live entries.  Between two calls other contracts may
  change the token ledgers and the streams; a failed call leaves the vault as it was.
\<close>

section \<open>Calls and histories\<close>

datatype vault_call =
    VInitialize address address int
  | VDeposit address int
  | VDepositWithFee address int int
  | VBatchDeposit "deposit_spec list"
  | VWithdraw address address int
  | VWithdrawBatch address "(address \<times> int) list"
  | VBatchWithdrawStreams "address list" address
  | VSetOperatorWithdrawLimit address int
  | VSetLimit address int
  | VSetOperator address address
  | VRevokeOperator address
  | VProposeOwner address address
  | VAcceptOwner address
  | VEffectiveWithdrawLimit address
  | VSetOwnerProposalTtl address int
  | VPause address
  | VUnpause address
  | VKeepAlive
  | VUpgrade address wasm_hash
  | VDepositToken address address int
  | VWithdrawToken address address address int
  | VSetTokenMaxLimit address address int
  | VApproveToken address address bool
  | VBumpAllVaultKeys
  | VDepositWithFailureReport address int
  | VInitiateMigration address address
  | VExecuteMigration address
  | VCancelMigration address

definition drop_result :: "('e, 'a \<times> 's) res \<Rightarrow> ('e, 's) res" where
  "drop_result r = and_then r (\<lambda>(_, s). Inr s)"

fun vault_exec :: "'w env \<Rightarrow> vault_call \<Rightarrow> 'w vault \<Rightarrow> (vault_error, 'w vault) res" where
  "vault_exec e (VInitialize owner tok lim) s = vault_initialize e owner tok lim s"
| "vault_exec e (VDeposit src amt) s = drop_result (vault_deposit e src amt s)"
| "vault_exec e (VDepositWithFee src gross fee) s = drop_result (deposit_with_fee e src gross fee s)"
| "vault_exec e (VBatchDeposit ds) s = drop_result (batch_deposit e ds s)"
| "vault_exec e (VWithdraw caller to amt) s = drop_result (vault_withdraw e caller to amt s)"
| "vault_exec e (VWithdrawBatch caller ps) s = drop_result (withdraw_batch e caller ps s)"
| "vault_exec e (VBatchWithdrawStreams as r) s = drop_result (vault_batch_withdraw e as r s)"
| "vault_exec e (VSetOperatorWithdrawLimit caller l) s = set_operator_withdraw_limit e caller l s"
| "vault_exec e (VSetLimit caller l) s = set_limit e caller l s"
| "vault_exec e (VSetOperator caller op) s = vault_set_operator e caller op s"
| "vault_exec e (VRevokeOperator caller) s = vault_revoke_operator e caller s"
| "vault_exec e (VProposeOwner caller new) s = propose_owner e caller new s"
| "vault_exec e (VAcceptOwner caller) s = accept_owner e caller s"
| "vault_exec e (VEffectiveWithdrawLimit caller) s = drop_result (effective_withdraw_limit e caller s)"
| "vault_exec e (VSetOwnerProposalTtl caller t) s = set_owner_proposal_ttl e caller t s"
| "vault_exec e (VPause caller) s = vault_pause e caller s"
| "vault_exec e (VUnpause caller) s = vault_unpause e caller s"
| "vault_exec e VKeepAlive s = keep_alive s"
| "vault_exec e (VUpgrade caller h) s = vault_upgrade e caller h s"
| "vault_exec e (VDepositToken src tok amt) s = drop_result (deposit_token e src tok amt s)"
| "vault_exec e (VWithdrawToken caller tok to amt) s = drop_result (withdraw_token e caller tok to amt s)"
| "vault_exec e (VSetTokenMaxLimit caller tok l) s = set_token_max_limit e caller tok l s"
| "vault_exec e (VApproveToken caller tok b) s = approve_token e caller tok b s"
| "vault_exec e VBumpAllVaultKeys s = drop_result (bump_all_vault_keys s)"
| "vault_exec e (VDepositWithFailureReport src amt) s = drop_result (deposit_with_failure_report e src amt s)"
| "vault_exec e (VInitiateMigration caller d) s = initiate_emergency_migration e caller d s"
| "vault_exec e (VExecuteMigration caller) s = drop_result (execute_emergency_migration e caller s)"
| "vault_exec e (VCancelMigration caller) s = cancel_emergency_migration e caller s"

lemma drop_result_eq_Inr [res_simps]: "drop_result r = Inr s \<longleftrightarrow> (\<exists>x. r = Inr (x, s))"
  by (cases r) (auto simp: drop_result_def)

text \<open>An attempt: the environment of the call, the call, and the tokens and streams it finds.\<close>

record 'w attempt =
  at_env :: "'w env"
  at_call :: vault_call
  at_world :: 'w
  at_streams :: "address \<Rightarrow> 'w stream option"

definition vault_attempt :: "'w attempt \<Rightarrow> 'w vault \<Rightarrow> 'w vault" where
  "vault_attempt a s =
     (let s0 = s\<lparr>va_world := at_world a, va_streams := at_streams a\<rparr> in
      case vault_exec (at_env a) (at_call a) s0 of Inl _ \<Rightarrow> s0 | Inr s1 \<Rightarrow> s1)"

definition vault_after :: "'w attempt list \<Rightarrow> 'w vault \<Rightarrow> 'w vault" where
  "vault_after as s = fold vault_attempt as s"

lemma vault_after_simps [simp]:
  "vault_after [] s = s" "vault_after (as @ [a]) s = vault_attempt a (vault_after as s)"
  by (simp_all add: vault_after_def)

section \<open>What the calls keep\<close>

text \<open>The administrative part of the state.\<close>

definition admin :: "'w vault \<Rightarrow> address option \<times> address option \<times> int option \<times> address option \<times> int option \<times>
    address option \<times> address option \<times> int option \<times> int option \<times> emergency_migration option" where
  "admin s = (vk_Owner s, vk_Token s, vk_MaxLimit s, vk_Operator s, vk_OperatorWithdrawLimit s, vk_PendingOwner s,
     vk_PendingOwnerProposer s, vk_PendingOwnerProposedAt s, vk_OwnerProposalTtl s, vk_EmergencyMigration s)"

lemma admin_updates [simp]:
  "admin (s\<lparr>vk_Paused := p\<rparr>) = admin s" "admin (s\<lparr>vk_TokenAccountBalance := b\<rparr>) = admin s"
  "admin (s\<lparr>vk_TokenMaxLimit := m\<rparr>) = admin s" "admin (s\<lparr>vk_ReentrancyLock := l\<rparr>) = admin s"
  "admin (s\<lparr>vk_ApprovedToken := ap\<rparr>) = admin s" "admin (s\<lparr>vk_BalanceSnapshot := sn\<rparr>) = admin s"
  "admin (s\<lparr>vk_TrackedVaultKeys := ks\<rparr>) = admin s" "admin (s\<lparr>va_code := c\<rparr>) = admin s"
  "admin (s\<lparr>va_world := w\<rparr>) = admin s" "admin (s\<lparr>va_streams := st\<rparr>) = admin s"
  "admin (s\<lparr>va_events := ev\<rparr>) = admin s" "admin (s\<lparr>va_ttl := t\<rparr>) = admin s"
  by (simp_all add: admin_def)

lemma admin_eqD:
  assumes "admin s' = admin s"
  shows "vk_Owner s' = vk_Owner s" "vk_Token s' = vk_Token s" "vk_MaxLimit s' = vk_MaxLimit s"
    "vk_Operator s' = vk_Operator s" "vk_OperatorWithdrawLimit s' = vk_OperatorWithdrawLimit s"
    "vk_PendingOwner s' = vk_PendingOwner s" "vk_PendingOwnerProposer s' = vk_PendingOwnerProposer s"
    "vk_PendingOwnerProposedAt s' = vk_PendingOwnerProposedAt s" "vk_OwnerProposalTtl s' = vk_OwnerProposalTtl s"
    "vk_EmergencyMigration s' = vk_EmergencyMigration s"
  using assms by (simp_all add: admin_def)

text \<open>The key index lists the live entries, each once.\<close>

definition keys_ok :: "'w vault \<Rightarrow> bool" where
  "keys_ok s \<longleftrightarrow> distinct (tracked_vault_keys s) \<and> set (tracked_vault_keys s) = {k. vk_present s k}"

definition vault_kept :: "'w vault \<Rightarrow> 'w vault \<Rightarrow> bool" where
  "vault_kept s s' \<longleftrightarrow> admin s' = admin s \<and> vk_ReentrancyLock s' = vk_ReentrancyLock s \<and> (keys_ok s \<longrightarrow> keys_ok s')"

named_theorems vault_kept_intros "operations that keep the administrative state"

lemma vault_kept_refl [vault_kept_intros]: "vault_kept s s"
  by (simp add: vault_kept_def)

lemma vault_kept_trans: "vault_kept s1 s2 \<Longrightarrow> vault_kept s2 s3 \<Longrightarrow> vault_kept s1 s3"
  by (simp add: vault_kept_def)

lemma keys_ok_cong:
  assumes "vk_TokenAccountBalance s' = vk_TokenAccountBalance s" "vk_TokenMaxLimit s' = vk_TokenMaxLimit s"
    "vk_TrackedVaultKeys s' = vk_TrackedVaultKeys s"
  shows "keys_ok s' \<longleftrightarrow> keys_ok s"
proof -
  have "vk_present s' k = vk_present s k" for k using assms by (cases k) simp_all
  then show ?thesis using assms(3) by (simp add: keys_ok_def tracked_vault_keys_def)
qed

lemma keys_ok_updates:
  "keys_ok (s\<lparr>vk_Paused := p\<rparr>) \<longleftrightarrow> keys_ok s" "keys_ok (s\<lparr>vk_ApprovedToken := ap\<rparr>) \<longleftrightarrow> keys_ok s"
  "keys_ok (s\<lparr>vk_BalanceSnapshot := sn\<rparr>) \<longleftrightarrow> keys_ok s" "keys_ok (s\<lparr>va_code := c\<rparr>) \<longleftrightarrow> keys_ok s"
  "keys_ok (s\<lparr>va_world := w\<rparr>) \<longleftrightarrow> keys_ok s" "keys_ok (s\<lparr>va_streams := st\<rparr>) \<longleftrightarrow> keys_ok s"
  "keys_ok (s\<lparr>va_events := ev\<rparr>) \<longleftrightarrow> keys_ok s" "keys_ok (s\<lparr>va_ttl := t\<rparr>) \<longleftrightarrow> keys_ok s"
  "keys_ok (s\<lparr>vk_ReentrancyLock := l\<rparr>) \<longleftrightarrow> keys_ok s" "keys_ok (s\<lparr>vk_Owner := ow\<rparr>) \<longleftrightarrow> keys_ok s"
  "keys_ok (s\<lparr>vk_Token := tk\<rparr>) \<longleftrightarrow> keys_ok s" "keys_ok (s\<lparr>vk_MaxLimit := m\<rparr>) \<longleftrightarrow> keys_ok s"
  "keys_ok (s\<lparr>vk_Operator := op\<rparr>) \<longleftrightarrow> keys_ok s" "keys_ok (s\<lparr>vk_OperatorWithdrawLimit := ol\<rparr>) \<longleftrightarrow> keys_ok s"
  "keys_ok (s\<lparr>vk_PendingOwner := po\<rparr>) \<longleftrightarrow> keys_ok s" "keys_ok (s\<lparr>vk_PendingOwnerProposer := pp\<rparr>) \<longleftrightarrow> keys_ok s"
  "keys_ok (s\<lparr>vk_PendingOwnerProposedAt := pa\<rparr>) \<longleftrightarrow> keys_ok s" "keys_ok (s\<lparr>vk_OwnerProposalTtl := ot\<rparr>) \<longleftrightarrow> keys_ok s"
  "keys_ok (s\<lparr>vk_EmergencyMigration := em\<rparr>) \<longleftrightarrow> keys_ok s"
  by (rule keys_ok_cong; simp)+

lemma kept_vault_updates [vault_kept_intros]:
  "vault_kept s (s\<lparr>vk_Paused := p\<rparr>)" "vault_kept s (s\<lparr>vk_ApprovedToken := ap\<rparr>)"
  "vault_kept s (s\<lparr>vk_BalanceSnapshot := sn\<rparr>)" "vault_kept s (s\<lparr>va_code := c\<rparr>)"
  "vault_kept s (s\<lparr>va_world := w\<rparr>)" "vault_kept s (s\<lparr>va_streams := st\<rparr>)"
  "vault_kept s (s\<lparr>va_world := w, va_streams := st\<rparr>)"
  "vault_kept s (s\<lparr>va_events := ev\<rparr>)" "vault_kept s (s\<lparr>va_ttl := t\<rparr>)"
  by (simp_all add: vault_kept_def keys_ok_updates)

lemma kept_vault_helpers [vault_kept_intros]:
  "vault_kept s (vault_bump s)" "vault_kept s (vault_emit ev s)" "vault_kept s (set_token_approved tok b s)"
  "vault_kept s (record_vault_balance e tok n s)" "vault_set_paused e b s = Inr s' \<Longrightarrow> vault_kept s s'"
  by (auto simp: vault_bump_def vault_emit_def set_token_approved_def record_vault_balance_def vault_set_paused_def
      and_then_eq_Inr intro: vault_kept_intros)

lemma not_paused_kept [vault_kept_intros]: "vault_assert_not_paused e s = Inr s' \<Longrightarrow> vault_kept s s'"
  by (auto simp: vault_assert_not_paused_def res_simps intro: vault_kept_intros)

lemma vault_is_paused_kept [vault_kept_intros]: "vault_is_paused e s = (b, s') \<Longrightarrow> vault_kept s s'"
  by (auto simp: vault_is_paused_def split: prod.splits intro: vault_kept_intros)

lemma paused_write_kept:
  "vault_is_paused e s = (b, s1) \<Longrightarrow> vault_set_paused e b' (vault_bump s1) = Inr s' \<Longrightarrow> vault_kept s s'"
  using kept_vault_helpers(1) kept_vault_helpers(5) vault_is_paused_kept by (blast intro: vault_kept_trans)

lemma vault_transfer_kept [vault_kept_intros]: "vault_transfer e tok src dst amt s = Inr s' \<Longrightarrow> vault_kept s s'"
  by (auto simp: vault_transfer_def res_simps intro: vault_kept_intros)

lemma vault_renew_eq_Inr [res_simps]: "vault_renew k s = Inr s' \<longleftrightarrow> vk_present s k \<and>
    s' = s\<lparr>va_ttl := va_ttl s @ [ExtendPersistent k MIN_TTL_LEDGERS EXTEND_TTL_LEDGERS]\<rparr>"
  by (auto simp: vault_renew_def bump_persistent_def)

lemma vault_renew_kept [vault_kept_intros]: "vault_renew k s = Inr s' \<Longrightarrow> vault_kept s s'"
  by (auto simp: res_simps intro: vault_kept_intros)

text \<open>Writing an entry and tracking its key keeps the index exact.\<close>

lemma track_vault_key_ok:
  assumes "distinct (tracked_vault_keys s)" and "vk_present s k" and "\<And>j. j \<noteq> k \<Longrightarrow> vk_present s j \<longleftrightarrow> j \<in> set (tracked_vault_keys s)"
  shows "keys_ok (track_vault_key k s)"
proof (cases "k \<in> set (tracked_vault_keys s)")
  case True
  then have "vk_present s j \<longleftrightarrow> j \<in> set (tracked_vault_keys s)" for j using assms by (cases "j = k") auto
  then show ?thesis using True assms(1) by (auto simp: keys_ok_def track_vault_key_def Let_def)
next
  case False
  define s' where "s' = s\<lparr>vk_TrackedVaultKeys := Some (tracked_vault_keys s @ [k])\<rparr>"
  have "vk_present s' j = vk_present s j" for j by (cases j) (simp_all add: s'_def)
  moreover have "vk_present s j \<longleftrightarrow> j \<in> set (tracked_vault_keys s @ [k])" for j using assms by (cases "j = k") auto
  ultimately have "keys_ok s'"
    using False assms(1) by (auto simp: keys_ok_def s'_def tracked_vault_keys_def)
  then show ?thesis using False by (simp add: track_vault_key_def Let_def s'_def)
qed

lemma track_vault_key_admin [simp]:
  "admin (track_vault_key k s) = admin s" "vk_ReentrancyLock (track_vault_key k s) = vk_ReentrancyLock s"
  by (simp_all add: track_vault_key_def Let_def)

lemma set_token_account_balance_kept [vault_kept_intros]:
  assumes "set_token_account_balance tok account b s = Inr s'"
  shows "vault_kept s s'"
proof -
  define t where "t = s\<lparr>vk_TokenAccountBalance := (vk_TokenAccountBalance s)(tok := (vk_TokenAccountBalance s tok)(account \<mapsto> b)),
    va_ttl := va_ttl s @ [ExtendPersistent (VkTokenAccountBalance tok account) MIN_TTL_LEDGERS EXTEND_TTL_LEDGERS]\<rparr>"
  have s': "s' = track_vault_key (VkTokenAccountBalance tok account) t"
    using assms by (auto simp: set_token_account_balance_def res_simps t_def)
  have "keys_ok s'" if "keys_ok s"
  proof -
    have "vk_present t j = vk_present s j" if "j \<noteq> VkTokenAccountBalance tok account" for j
      using that by (cases j) (auto simp: t_def)
    then show ?thesis
      using that unfolding s' by (intro track_vault_key_ok) (auto simp: keys_ok_def t_def tracked_vault_keys_def)
  qed
  then show ?thesis by (simp add: vault_kept_def s' t_def)
qed

lemma store_token_max_limit_kept [vault_kept_intros]:
  assumes "store_token_max_limit tok l s = Inr s'"
  shows "vault_kept s s'"
proof -
  define t where "t = s\<lparr>vk_TokenMaxLimit := (vk_TokenMaxLimit s)(tok \<mapsto> l),
    va_ttl := va_ttl s @ [ExtendPersistent (VkTokenMaxLimit tok) MIN_TTL_LEDGERS EXTEND_TTL_LEDGERS]\<rparr>"
  have s': "s' = track_vault_key (VkTokenMaxLimit tok) t"
    using assms by (auto simp: store_token_max_limit_def res_simps t_def)
  have "keys_ok s'" if "keys_ok s"
  proof -
    have "vk_present t j = vk_present s j" if "j \<noteq> VkTokenMaxLimit tok" for j
      using that by (cases j) (auto simp: t_def)
    then show ?thesis
      using that unfolding s' by (intro track_vault_key_ok) (auto simp: keys_ok_def t_def tracked_vault_keys_def)
  qed
  then show ?thesis by (simp add: vault_kept_def s' t_def)
qed

text \<open>The loops.\<close>

lemma pay_each_kept [vault_kept_intros]: "pay_each e tok caller by_op ps b s = Inr s' \<Longrightarrow> vault_kept s s'"
proof (induction ps arbitrary: b s)
  case (Cons p ps)
  obtain to amt where p: "p = (to, amt)" by (cases p)
  obtain s1 nb where s1: "vault_transfer e tok (contract_address e) to amt s = Inr s1"
    and rest: "pay_each e tok caller by_op ps nb (vault_emit (EvVaultWithdrawn caller to amt nb by_op) (record_vault_balance e tok nb s1)) = Inr s'"
    using Cons.prems unfolding p pay_each.simps and_then_eq_Inr if_Inl_eq_Inr Let_def ok_or_eq_Inr by (auto simp: checked_eq_Some)
  show ?case
    by (rule vault_kept_trans [OF vault_transfer_kept [OF s1]]) (rule vault_kept_trans [OF _ Cons.IH [OF rest]],
      rule vault_kept_trans [OF kept_vault_helpers(4) kept_vault_helpers(2)])
qed (simp add: vault_kept_intros)

lemma collect_deposits_kept [vault_kept_intros]: "collect_deposits e tok ds s = Inr s' \<Longrightarrow> vault_kept s s'"
proof (induction ds arbitrary: s)
  case (Cons d ds)
  obtain s1 b where s1: "vault_transfer e tok (ds_from d) (contract_address e) (ds_amount d) s = Inr s1"
    and rest: "collect_deposits e tok ds (vault_emit (EvDeposited (ds_from d) (ds_amount d) b) s1) = Inr s'"
    using Cons.prems unfolding collect_deposits.simps and_then_eq_Inr by blast
  show ?case
    by (rule vault_kept_trans [OF vault_transfer_kept [OF s1]]) (rule vault_kept_trans [OF kept_vault_helpers(2) Cons.IH [OF rest]])
qed (simp add: vault_kept_intros)

lemma call_stream_success:
  assumes "call_stream e addr call s = Inr (r, s')"
  obtains st st' where "va_streams s addr = Some st"
    and "call (e\<lparr>contract_address := addr\<rparr>) (st\<lparr>st_world := va_world s\<rparr>) = Inr (r, st')"
    and "s' = s\<lparr>va_world := st_world st', va_streams := (va_streams s)(addr \<mapsto> st')\<rparr>"
  using assms by (auto simp: call_stream_def split: option.splits sum.splits)

lemma call_stream_kept [vault_kept_intros]: "call_stream e addr call s = Inr (r, s') \<Longrightarrow> vault_kept s s'"
  by (auto elim!: call_stream_success intro: vault_kept_intros)

lemma withdraw_streams_kept [vault_kept_intros]: "withdraw_streams e ps s = Inr s' \<Longrightarrow> vault_kept s s'"
proof (induction ps arbitrary: s)
  case (Cons p ps)
  obtain addr amt where p: "p = (addr, amt)" by (cases p)
  show ?case
    using Cons unfolding p withdraw_streams.simps and_then_eq_Inr
    by (auto intro: vault_kept_trans [OF call_stream_kept])
qed (simp add: vault_kept_intros)

lemma renew_keys_kept [vault_kept_intros]: "renew_keys ks n s = Inr (m, s') \<Longrightarrow> vault_kept s s'"
proof (induction ks arbitrary: n s)
  case (Cons k ks)
  then show ?case
    by (auto simp: res_simps split: if_splits intro: vault_kept_trans [OF kept_vault_updates(9)])
qed (simp add: vault_kept_intros)

text \<open>
  A call all of whose outcomes keep the administrative state.
\<close>

interpretation kept: frame_relation vault_kept
  by unfold_locales (rule vault_kept_refl, rule vault_kept_trans)

abbreviation keeps :: "'w vault \<Rightarrow> (vault_error, 'a \<times> 'w vault) res \<Rightarrow> bool" where
  "keeps \<equiv> kept.holds_after"

lemma vault_kept_helper_iff [simp]:
  "vault_kept s (vault_bump t) \<longleftrightarrow> vault_kept s t" "vault_kept s (vault_emit ev t) \<longleftrightarrow> vault_kept s t"
  "vault_kept s (record_vault_balance e tok n t) \<longleftrightarrow> vault_kept s t"
  "vault_kept s (set_token_approved tok b t) \<longleftrightarrow> vault_kept s t"
  "vault_kept s (t\<lparr>va_code := c\<rparr>) \<longleftrightarrow> vault_kept s t"
  by (simp_all add: vault_kept_def vault_bump_def vault_emit_def record_vault_balance_def set_token_approved_def
      keys_ok_updates)

lemma credit_kept: "(case c of Some b \<Rightarrow> set_token_account_balance tok a b s | None \<Rightarrow> Inr s) = Inr s' \<Longrightarrow> vault_kept s s'"
  by (auto intro: vault_kept_intros split: option.splits)

lemma debit_kept:
  "(if c then and_then r (\<lambda>b. set_token_account_balance tok a b s) else Inr s) = Inr s' \<Longrightarrow> vault_kept s s'"
  by (auto simp: and_then_eq_Inr intro: vault_kept_intros split: if_splits)

lemma record_kept: "set_token_account_balance tok a b (record_vault_balance e tok n s) = Inr s' \<Longrightarrow> vault_kept s s'"
  by (auto intro: vault_kept_intros vault_kept_trans [OF kept_vault_helpers(4)])

text \<open>The steps that return a new state, and those that only read.\<close>

lemma keeps_steps:
  fixes s :: "'w vault"
  shows
    "(\<And>s1. (vault_assert_not_paused e s) = Inr s1 \<Longrightarrow> keeps s1 (f s1)) \<Longrightarrow> keeps s (and_then (vault_assert_not_paused e s) f)"
    "(\<And>s1. (vault_transfer e tok src dst amt s) = Inr s1 \<Longrightarrow> keeps s1 (f s1)) \<Longrightarrow> keeps s (and_then (vault_transfer e tok src dst amt s) f)"
    "(\<And>s1. (set_token_account_balance tok a b s) = Inr s1 \<Longrightarrow> keeps s1 (f s1)) \<Longrightarrow> keeps s (and_then (set_token_account_balance tok a b s) f)"
    "(\<And>s1. (case c of Some b \<Rightarrow> set_token_account_balance tok a b s | None \<Rightarrow> Inr s) = Inr s1 \<Longrightarrow> keeps s1 (f s1)) \<Longrightarrow> keeps s (and_then (case c of Some b \<Rightarrow> set_token_account_balance tok a b s | None \<Rightarrow> Inr s) f)"
    "(\<And>s1. (if c' then and_then r (\<lambda>b. set_token_account_balance tok a b s) else Inr s) = Inr s1 \<Longrightarrow> keeps s1 (f s1)) \<Longrightarrow> keeps s (and_then (if c' then and_then r (\<lambda>b. set_token_account_balance tok a b s) else Inr s) f)"
    "(\<And>s1. (set_token_account_balance tok a b (record_vault_balance e tok n s)) = Inr s1 \<Longrightarrow> keeps s1 (f s1)) \<Longrightarrow> keeps s (and_then (set_token_account_balance tok a b (record_vault_balance e tok n s)) f)"
    "(\<And>s1. (pay_each e tok a c' ps n s) = Inr s1 \<Longrightarrow> keeps s1 (f s1)) \<Longrightarrow> keeps s (and_then (pay_each e tok a c' ps n s) f)"
    "(\<And>s1. (collect_deposits e tok ds s) = Inr s1 \<Longrightarrow> keeps s1 (f s1)) \<Longrightarrow> keeps s (and_then (collect_deposits e tok ds s) f)"
    "(\<And>s1. (withdraw_streams e ps s) = Inr s1 \<Longrightarrow> keeps s1 (f s1)) \<Longrightarrow> keeps s (and_then (withdraw_streams e ps s) f)"
  by (rule kept.after_state; fast intro: vault_kept_intros credit_kept debit_kept record_kept)+

lemmas keep_rules = kept.after_guard kept.after_done keeps_steps
  kept.after_read [where r = "ok_or x f" for x f] kept.after_read [where r = "vault_balance e t" for e t]
  kept.after_read [where r = "balance_call e w t a" for e w t a] kept.after_read [where r = "withdraw_cap c ow t" for c ow t]
  kept.after_read [where r = "require_owner_or_operator e c ow t" for e c ow t]
  kept.after_read [where r = "validate_sep41_token e tok t" for e tok t]
  kept.after_read [where r = "sum_payouts ps n" for ps n] kept.after_read [where r = "sum_deposits e ds n" for e ds n]
  kept.after_read [where r = "case_option r1 r2 o1" for r1 r2 o1]

lemma deposit_body_keeps: "keeps s (deposit_body e src amt s)"
  unfolding deposit_body_def by (intro keep_rules) (simp add: vault_kept_refl)

lemma batch_deposit_body_keeps: "keeps s (batch_deposit_body e ds s)"
  unfolding batch_deposit_body_def by (intro keep_rules) (simp add: vault_kept_refl)

lemma withdraw_payouts_body_keeps: "keeps s (withdraw_payouts_body e caller ps s)"
  unfolding withdraw_payouts_body_def by (intro keep_rules) (simp add: vault_kept_refl)

lemma deposit_token_body_keeps: "keeps s (deposit_token_body e src tok amt s)"
  unfolding deposit_token_body_def Let_def by (intro keep_rules) (simp add: vault_kept_refl)

lemma withdraw_token_body_keeps: "keeps s (withdraw_token_body e caller tok to amt s)"
  unfolding withdraw_token_body_def Let_def by (intro keep_rules) (simp add: vault_kept_refl)

lemma deposit_report_body_keeps: "keeps s (deposit_with_failure_report_body e src amt s)"
  unfolding deposit_with_failure_report_body_def
  by (intro keep_rules kept.after_try [OF _ vault_transfer_kept]) (simp_all add: vault_kept_refl)

lemma stream_batch_body_keeps:
  "keeps s (and_then (plan_withdrawals e recipient [] as [] 0 s) (\<lambda>(ps, n). and_then (withdraw_streams e ps s) (\<lambda>s3. Inr (n, s3))))"
  by (auto simp: kept.holds_after_def and_then_eq_Inr intro: vault_kept_intros)

section \<open>The lock\<close>

definition vault_lock_depth :: "'w vault \<Rightarrow> int" where
  "vault_lock_depth s = (if vk_ReentrancyLock s = Some True then 1 else 0)"

interpretation vault_guard: reentrancy_guard vault_lock_depth vault_lock vault_unlock 1
proof (unfold_locales, goal_cases)
  case (1 s s1)
  then show ?case by (auto simp: vault_lock_def vault_lock_depth_def split: if_splits)
next
  case (2 s)
  then show ?case by (auto simp: vault_lock_def vault_lock_depth_def split: if_splits option.splits)
next
  case (3 s)
  then show ?case by (auto simp: vault_unlock_def vault_lock_depth_def split: if_splits)
qed

lemma non_reentrant_guarded: "non_reentrant = vault_guard.guarded"
  by (intro ext) (simp add: non_reentrant_def vault_guard.guarded_def)

lemma non_reentrant_success:
  assumes "non_reentrant body s = Inr (r, s')"
  obtains s2 where "body (s\<lparr>vk_ReentrancyLock := Some True\<rparr>) = Inr (r, s2)" and "s' = vault_unlock s2"
  using assms unfolding non_reentrant_guarded
  by (rule vault_guard.guarded_success) (auto simp: vault_lock_def split: if_splits option.splits)

lemma non_reentrant_kept:
  assumes "non_reentrant body s = Inr (r, s')" and "vk_ReentrancyLock s = None" and "\<And>s. keeps s (body s)"
  shows "vault_kept s s'"
proof -
  obtain s2 where b: "body (s\<lparr>vk_ReentrancyLock := Some True\<rparr>) = Inr (r, s2)" and s': "s' = vault_unlock s2"
    using assms(1) by (rule non_reentrant_success)
  then have "vault_kept (s\<lparr>vk_ReentrancyLock := Some True\<rparr>) s2" using assms(3) by (auto simp: kept.holds_after_def)
  then show ?thesis using assms(2) by (simp add: vault_kept_def s' vault_unlock_def keys_ok_updates)
qed

section \<open>The invariant\<close>

definition admin_ok :: "'w vault \<Rightarrow> bool" where
  "admin_ok s \<longleftrightarrow>
     (vk_Owner s = None \<longrightarrow> vk_Token s = None \<and> vk_MaxLimit s = None \<and> vk_Operator s = None \<and>
        vk_OperatorWithdrawLimit s = None \<and> vk_PendingOwner s = None \<and> vk_EmergencyMigration s = None) \<and>
     (vk_Owner s \<noteq> None \<longrightarrow> vk_Token s \<noteq> None \<and> (\<exists>m > 0. vk_MaxLimit s = Some m)) \<and>
     (\<forall>l. vk_OperatorWithdrawLimit s = Some l \<longrightarrow> 0 < l) \<and>
     (vk_PendingOwnerProposer s = None \<longleftrightarrow> vk_PendingOwner s = None) \<and>
     (vk_PendingOwnerProposedAt s = None \<longleftrightarrow> vk_PendingOwner s = None) \<and>
     (\<forall>p. vk_PendingOwnerProposer s = Some p \<longrightarrow> vk_Owner s = Some p) \<and>
     (\<forall>m. vk_EmergencyMigration s = Some m \<longrightarrow>
        em_executable_at m = em_proposed_at m + EMERGENCY_MIGRATION_TIMELOCK_SECONDS)"

definition vault_ok :: "'w vault \<Rightarrow> bool" where
  "vault_ok s \<longleftrightarrow> admin_ok s \<and> keys_ok s \<and> vk_ReentrancyLock s = None"

lemma vault_ok_kept:
  assumes "vault_ok s" and "vault_kept s s'"
  shows "vault_ok s'"
  using assms admin_eqD [of s' s] by (simp add: vault_ok_def vault_kept_def admin_ok_def)

lemma fresh_vault_ok: "vault_ok (fresh_vault code w streams)"
proof -
  have "\<not> vk_present (fresh_vault code w streams) k" for k by (cases k) (simp_all add: fresh_vault_def)
  then show ?thesis
    by (simp add: vault_ok_def admin_ok_def keys_ok_def) (simp add: fresh_vault_def tracked_vault_keys_def)
qed

text \<open>The calls that move tokens, renew entries or set flags keep the administrative state.\<close>

fun administrative :: "vault_call \<Rightarrow> bool" where
  "administrative (VInitialize _ _ _) = True"
| "administrative (VSetOperatorWithdrawLimit _ _) = True"
| "administrative (VSetLimit _ _) = True"
| "administrative (VSetOperator _ _) = True"
| "administrative (VRevokeOperator _) = True"
| "administrative (VProposeOwner _ _) = True"
| "administrative (VAcceptOwner _) = True"
| "administrative (VSetOwnerProposalTtl _ _) = True"
| "administrative (VInitiateMigration _ _) = True"
| "administrative (VExecuteMigration _) = True"
| "administrative (VCancelMigration _) = True"
| "administrative _ = False"

lemma guarded_calls_kept:
  assumes "vk_ReentrancyLock s = None"
  shows "vault_deposit e src amt s = Inr (u, s') \<Longrightarrow> vault_kept s s'"
    and "batch_deposit e ds s = Inr (u, s') \<Longrightarrow> vault_kept s s'"
    and "withdraw_payouts e caller ps s = Inr (u, s') \<Longrightarrow> vault_kept s s'"
    and "deposit_token e src tok amt s = Inr (u, s') \<Longrightarrow> vault_kept s s'"
    and "withdraw_token e caller tok to amt s = Inr (u, s') \<Longrightarrow> vault_kept s s'"
    and "deposit_with_failure_report e src amt s = Inr (b, s') \<Longrightarrow> vault_kept s s'"
  using assms unfolding vault_deposit_def batch_deposit_def withdraw_payouts_def deposit_token_def withdraw_token_def
    deposit_with_failure_report_def
  by (blast intro: non_reentrant_kept deposit_body_keeps batch_deposit_body_keeps withdraw_payouts_body_keeps
      deposit_token_body_keeps withdraw_token_body_keeps deposit_report_body_keeps)+

lemma vault_batch_withdraw_kept:
  assumes "vault_batch_withdraw e as r s = Inr (n, s')" and "vk_ReentrancyLock s = None"
  shows "vault_kept s s'"
proof -
  obtain s1 where s1: "vault_assert_not_paused e s = Inr s1"
    and run: "non_reentrant (\<lambda>s2. and_then (plan_withdrawals e r [] as [] 0 s2) (\<lambda>(ps, n).
       and_then (withdraw_streams e ps s2) (\<lambda>s3. Inr (n, s3)))) s1 = Inr (n, s')"
    using assms(1) unfolding vault_batch_withdraw_def if_Inl_eq_Inr and_then_eq_Inr [where y = "(n, s')"] by blast
  have "vault_kept s s1" using s1 by (rule not_paused_kept)
  moreover have "vk_ReentrancyLock s1 = None" using \<open>vault_kept s s1\<close> assms(2) by (simp add: vault_kept_def)
  ultimately show ?thesis
    using non_reentrant_kept [OF run _ stream_batch_body_keeps] vault_kept_trans by blast
qed

lemma ordinary_kept:
  assumes "vault_exec e c s = Inr s'" and "\<not> administrative c" and "vk_ReentrancyLock s = None"
  shows "vault_kept s s'"
proof (cases c)
  case (VDepositWithFee src gross fee)
  then show ?thesis
    using assms(1) guarded_calls_kept(1) [OF assms(3)] by (auto simp: deposit_with_fee_def res_simps if_Inl_eq_Inr)
next
  case (VEffectiveWithdrawLimit caller)
  then show ?thesis
    using assms(1) by (auto simp: effective_withdraw_limit_def res_simps intro: vault_kept_intros)
next
  case (VPause caller)
  then show ?thesis
    using assms(1) by (auto simp: vault_pause_def and_then_eq_Inr if_Inl_eq_Inr Let_def split: prod.splits
        intro: paused_write_kept)
next
  case (VUnpause caller)
  then show ?thesis
    using assms(1) by (auto simp: vault_unpause_def and_then_eq_Inr if_Inl_eq_Inr Let_def split: prod.splits
        intro: paused_write_kept)
next
  case VKeepAlive
  then show ?thesis
    using assms(1) by (auto simp: keep_alive_def ttl_bump_all_vault_keys_def and_then_eq_Inr
        intro: vault_kept_trans [OF kept_vault_helpers(1) renew_keys_kept])
next
  case VBumpAllVaultKeys
  then show ?thesis
    using assms(1) by (auto simp: bump_all_vault_keys_def ttl_bump_all_vault_keys_def res_simps
        intro: vault_kept_trans [OF kept_vault_helpers(1) renew_keys_kept])
next
  case (VUpgrade caller h)
  then show ?thesis
    using assms(1) by (auto simp: vault_upgrade_def and_then_eq_Inr if_Inl_eq_Inr
        dest: not_paused_kept)
next
  case (VSetTokenMaxLimit caller tok l)
  then show ?thesis
    using assms(1) by (auto simp: set_token_max_limit_def and_then_eq_Inr if_Inl_eq_Inr
        intro: vault_kept_trans [OF not_paused_kept store_token_max_limit_kept])
next
  case (VApproveToken caller tok b)
  then show ?thesis
    using assms(1) by (auto simp: approve_token_def and_then_eq_Inr intro: vault_kept_intros)
next
  case (VBatchWithdrawStreams as r)
  then show ?thesis using assms vault_batch_withdraw_kept by (auto simp: drop_result_eq_Inr)
qed (use assms guarded_calls_kept [OF assms(3)] in
      \<open>auto simp: drop_result_eq_Inr vault_withdraw_def withdraw_batch_def\<close>)

text \<open>The administrative calls: what each requires and writes.\<close>

lemma require_owner_eq_Inr [res_simps]:
  "require_owner e c s = Inr u \<longleftrightarrow> vk_Owner s = Some c \<and> authorized e c"
  by (auto simp: require_owner_def and_then_eq_Inr ok_or_eq_Inr if_Inl_eq_Inr require_auth_eq_Inr)

lemma not_paused_success:
  assumes "vault_assert_not_paused e s = Inr s'"
  obtains p where "s' = s\<lparr>vk_Paused := p\<rparr>" and "\<not> fst (is_paused (timestamp e) (vk_Paused s))"
  using assms
  by (auto simp: vault_assert_not_paused_def require_not_paused_def require_not_paused_flag_def res_simps
      split: prod.splits if_splits)

text \<open>A state that agrees with another one on what the invariant and the history theorems read.\<close>

definition admin_like :: "'w vault \<Rightarrow> 'w vault \<Rightarrow> bool" where
  "admin_like t s' \<longleftrightarrow> admin s' = admin t \<and> vk_ReentrancyLock s' = vk_ReentrancyLock t \<and> (keys_ok s' \<longleftrightarrow> keys_ok t)"

lemmas admin_like_simps = admin_like_def vault_emit_def vault_bump_def set_token_approved_def keys_ok_updates

lemma vault_initialize_success:
  assumes "vault_initialize e owner tok limit s = Inr s'"
  shows "authorized e owner \<and> 0 < limit \<and> vk_Owner s = None \<and>
     admin_like (s\<lparr>vk_Owner := Some owner, vk_Token := Some tok, vk_MaxLimit := Some limit,
        vk_OwnerProposalTtl := Some OWNER_PROPOSAL_TTL_SECONDS\<rparr>) s'"
proof -
  have "authorized e owner" "0 < limit" "vk_Owner s = None" and
    s': "s' = vault_emit (EvVaultInit owner tok limit)
      ((set_token_approved tok True ((vault_bump s)\<lparr>vk_Owner := Some owner, vk_Token := Some tok\<rparr>))
         \<lparr>vk_MaxLimit := Some limit, vk_OwnerProposalTtl := Some OWNER_PROPOSAL_TTL_SECONDS\<rparr>)"
    using assms by (auto simp: vault_initialize_def and_then_eq_Inr if_Inl_eq_Inr require_auth_eq_Inr Let_def)
  then show ?thesis unfolding s' by (simp add: admin_like_simps admin_def)
qed

lemma set_operator_withdraw_limit_success:
  assumes "set_operator_withdraw_limit e caller l s = Inr s'"
  shows "vk_Owner s = Some caller \<and> authorized e caller \<and> 0 < l \<and>
     admin_like (s\<lparr>vk_OperatorWithdrawLimit := Some l\<rparr>) s'"
  using assms
  by (auto simp: set_operator_withdraw_limit_def and_then_eq_Inr if_Inl_eq_Inr require_owner_eq_Inr Let_def
      admin_like_simps admin_def elim!: not_paused_success)

lemma set_limit_success:
  assumes "set_limit e caller l s = Inr s'"
  shows "vk_Owner s \<noteq> None \<and> 0 < l \<and> authorized e caller \<and>
     (vk_Owner s = Some caller \<or> vk_Operator s = Some caller \<and> (\<forall>old. vk_MaxLimit s = Some old \<longrightarrow> l \<le> old)) \<and>
     admin_like (s\<lparr>vk_MaxLimit := Some l\<rparr>) s'"
proof -
  obtain s1 owner old u where s1: "vault_assert_not_paused e s = Inr s1" and o: "vk_Owner s1 = Some owner" and l: "\<not> l \<le> 0"
    and old: "vk_MaxLimit s1 = Some old"
    and chk: "(if old < l then (if caller \<noteq> owner then Inl (Err NotAuthorized) else require_auth e caller)
               else require_owner_or_operator e caller owner s1) = Inr u"
    and s': "s' = vault_emit (EvLimitSet caller old l) ((vault_bump s1)\<lparr>vk_MaxLimit := Some l\<rparr>)"
    using assms unfolding set_limit_def and_then_eq_Inr if_Inl_eq_Inr(1) [where y = s'] ok_or_eq_Inr sum.inject
    by blast
  from s1 obtain p where p: "s1 = s\<lparr>vk_Paused := p\<rparr>" by (rule not_paused_success)
  have "authorized e caller \<and> (owner = caller \<or> vk_Operator s = Some caller \<and> l \<le> old)"
    using chk p by (auto simp: require_owner_or_operator_def Let_def require_auth_def split: if_splits option.splits)
  then show ?thesis using o l old p by (auto simp: s' admin_like_simps admin_def)
qed

lemma operator_calls_success:
  "vault_set_operator e caller op s = Inr s' \<Longrightarrow>
     vk_Owner s = Some caller \<and> authorized e caller \<and> admin_like (s\<lparr>vk_Operator := Some op\<rparr>) s'"
  "vault_revoke_operator e caller s = Inr s' \<Longrightarrow>
     vk_Owner s = Some caller \<and> authorized e caller \<and> admin_like (s\<lparr>vk_Operator := None\<rparr>) s'"
  "set_owner_proposal_ttl e caller ttl s = Inr s' \<Longrightarrow>
     vk_Owner s = Some caller \<and> authorized e caller \<and> admin_like (s\<lparr>vk_OwnerProposalTtl := Some ttl\<rparr>) s'"
  by (auto simp: vault_set_operator_def vault_revoke_operator_def set_owner_proposal_ttl_def and_then_eq_Inr if_Inl_eq_Inr
      require_owner_eq_Inr Let_def admin_like_simps admin_def)

lemma propose_owner_success:
  assumes "propose_owner e caller new s = Inr s'"
  shows "vk_Owner s = Some caller \<and> authorized e caller \<and> admin_like (s\<lparr>vk_PendingOwner := Some new,
     vk_PendingOwnerProposer := Some caller, vk_PendingOwnerProposedAt := Some (timestamp e)\<rparr>) s'"
  using assms
  by (auto simp: propose_owner_def and_then_eq_Inr if_Inl_eq_Inr require_owner_eq_Inr admin_like_simps admin_def)

lemma accept_owner_success:
  assumes "accept_owner e caller s = Inr s'"
  shows "vk_PendingOwner s = Some caller \<and> authorized e caller \<and>
     (\<exists>at. vk_PendingOwnerProposedAt s = Some at \<and>
        timestamp e < at + (case vk_OwnerProposalTtl s of Some t \<Rightarrow> t | None \<Rightarrow> OWNER_PROPOSAL_TTL_SECONDS)) \<and>
     admin_like (s\<lparr>vk_Owner := Some caller, vk_PendingOwner := None, vk_PendingOwnerProposer := None,
       vk_PendingOwnerProposedAt := None\<rparr>) s'"
proof -
  obtain at ev where "vk_PendingOwner s = Some caller" "authorized e caller" "vk_PendingOwnerProposedAt s = Some at"
    and "\<not> at + (case vk_OwnerProposalTtl s of Some t \<Rightarrow> t | None \<Rightarrow> OWNER_PROPOSAL_TTL_SECONDS) \<le> timestamp e"
    and s': "s' = vault_emit ev ((vault_bump s)\<lparr>vk_Owner := Some caller, vk_PendingOwner := None,
       vk_PendingOwnerProposer := None, vk_PendingOwnerProposedAt := None\<rparr>)"
    using assms unfolding accept_owner_def and_then_eq_Inr if_Inl_eq_Inr ok_or_eq_Inr require_auth_eq_Inr Let_def
      checked_eq_Some by blast
  then show ?thesis by (auto simp: admin_like_simps admin_def)
qed

lemma migration_calls_success:
  "initiate_emergency_migration e caller d s = Inr s' \<Longrightarrow>
     vk_Owner s = Some caller \<and> authorized e caller \<and> admin_like (s\<lparr>vk_EmergencyMigration :=
       Some \<lparr>em_destination = d, em_proposed_at = timestamp e,
             em_executable_at = timestamp e + EMERGENCY_MIGRATION_TIMELOCK_SECONDS\<rparr>\<rparr>) s'"
  "cancel_emergency_migration e caller s = Inr s' \<Longrightarrow>
     vk_Owner s = Some caller \<and> authorized e caller \<and> admin_like (s\<lparr>vk_EmergencyMigration := None\<rparr>) s'"
  by (auto simp: initiate_emergency_migration_def cancel_emergency_migration_def and_then_eq_Inr if_Inl_eq_Inr
      ok_or_eq_Inr checked_eq_Some require_owner_eq_Inr admin_like_simps admin_def)

lemma execute_migration_success:
  assumes "execute_emergency_migration e caller s = Inr (b, s')"
  obtains m tok where "vk_Owner s = Some caller" and "authorized e caller" and "vk_EmergencyMigration s = Some m"
    and "em_executable_at m \<le> timestamp e" and "vk_Token s = Some tok"
    and "balance_call e (va_world s) tok (contract_address e) = (Inr b :: (vault_error, int) res)"
    and "if 0 < b then tok_transfer (tokens e) (va_world s) tok (contract_address e) (em_destination m) b = Some (va_world s')
         else va_world s' = va_world s"
    and "admin s' = admin (s\<lparr>vk_EmergencyMigration := None\<rparr>)" and "vk_ReentrancyLock s' = None"
    and "keys_ok s' \<longleftrightarrow> keys_ok s"
proof -
  let ?s = "s\<lparr>vk_ReentrancyLock := Some True\<rparr>"
  obtain s2 where run: "execute_emergency_migration_body e caller ?s = Inr (b, s2)" and s': "s' = vault_unlock s2"
    using assms unfolding execute_emergency_migration_def by (rule non_reentrant_success)
  obtain m tok s1 where "vk_Owner s = Some caller" "authorized e caller" "vk_EmergencyMigration s = Some m"
    "\<not> timestamp e < em_executable_at m" "vk_Token s = Some tok"
    "balance_call e (va_world s) tok (contract_address e) = (Inr b :: (vault_error, int) res)"
    and s1: "(if 0 < b then vault_transfer e tok (contract_address e) (em_destination m) b ?s else Inr ?s) = Inr s1"
    and s2: "s2 = vault_emit (EvMigrationExecuted caller (em_destination m) b) (vault_bump (s1\<lparr>vk_EmergencyMigration := None\<rparr>))"
    using run by (auto simp: execute_emergency_migration_body_def and_then_eq_Inr if_Inl_eq_Inr ok_or_eq_Inr
        require_owner_eq_Inr token_client_def)
  moreover from s1 obtain w where "s1 = ?s\<lparr>va_world := w\<rparr>"
    and "if 0 < b then tok_transfer (tokens e) (va_world s) tok (contract_address e) (em_destination m) b = Some w
         else w = va_world s"
    by (cases "0 < b") (auto simp: vault_transfer_def and_then_eq_Inr transfer_call_eq_Inr)
  ultimately show ?thesis
    by (intro that [of m tok]) (simp_all add: s' s2 vault_unlock_def admin_like_simps admin_def)
qed

lemmas admin_success = vault_initialize_success set_operator_withdraw_limit_success set_limit_success
  operator_calls_success propose_owner_success accept_owner_success migration_calls_success

lemma admin_like_eqD:
  assumes "admin_like t s'"
  shows "vk_Owner s' = vk_Owner t" "vk_Token s' = vk_Token t" "vk_MaxLimit s' = vk_MaxLimit t"
    "vk_Operator s' = vk_Operator t" "vk_OperatorWithdrawLimit s' = vk_OperatorWithdrawLimit t"
    "vk_PendingOwner s' = vk_PendingOwner t" "vk_PendingOwnerProposer s' = vk_PendingOwnerProposer t"
    "vk_PendingOwnerProposedAt s' = vk_PendingOwnerProposedAt t" "vk_OwnerProposalTtl s' = vk_OwnerProposalTtl t"
    "vk_EmergencyMigration s' = vk_EmergencyMigration t" "vk_ReentrancyLock s' = vk_ReentrancyLock t"
    "keys_ok s' \<longleftrightarrow> keys_ok t"
  using assms admin_eqD [of s' t] by (simp_all add: admin_like_def)

lemma admin_like_ok: "admin_ok t \<Longrightarrow> keys_ok t \<Longrightarrow> vk_ReentrancyLock t = None \<Longrightarrow> admin_like t s' \<Longrightarrow> vault_ok s'"
  using admin_like_eqD [of t s'] by (simp add: vault_ok_def admin_ok_def)

lemma vault_exec_ok:
  assumes "vault_ok s" and "vault_exec e c s = Inr s'"
  shows "vault_ok s'"
proof (cases "administrative c")
  case False
  have "vk_ReentrancyLock s = None" using assms(1) by (simp add: vault_ok_def)
  then show ?thesis using ordinary_kept [OF assms(2) False] vault_ok_kept [OF assms(1)] by blast
next
  case True
  have ok: "admin_ok s" "keys_ok s" "vk_ReentrancyLock s = None" using assms(1) by (simp_all add: vault_ok_def)
  show ?thesis
  proof (cases "\<exists>caller. c = VExecuteMigration caller")
    case True
    then obtain caller b where run: "execute_emergency_migration e caller s = Inr (b, s')"
      using assms(2) by (auto simp: drop_result_eq_Inr)
    then have "admin_like (s\<lparr>vk_EmergencyMigration := None\<rparr>) s'"
      by (rule execute_migration_success) (simp add: admin_like_def ok keys_ok_updates)
    then show ?thesis using ok by (intro admin_like_ok) (auto simp: admin_ok_def keys_ok_updates)
  next
    case False
    with True assms(2) ok show ?thesis
      by (cases c) (simp_all, (drule admin_success, elim conjE exE, rule admin_like_ok [rotated 3], assumption,
          (auto simp: admin_ok_def keys_ok_updates)[3])+)
  qed
qed

lemma vault_attempt_ok: "vault_ok s \<Longrightarrow> vault_ok (vault_attempt a s)"
  by (auto simp: vault_attempt_def Let_def intro: vault_ok_kept kept_vault_updates
      vault_exec_ok [OF vault_ok_kept [OF _ kept_vault_updates(7)]] split: sum.split)

definition vault_step :: "'w vault \<Rightarrow> 'w vault \<Rightarrow> bool" where
  "vault_step s s' \<longleftrightarrow> (\<exists>a. s' = vault_attempt a s)"

interpretation vault_run: transition_system "\<lambda>s. \<exists>code w st. s = fresh_vault code w st" vault_step vault_ok
  by unfold_locales (auto simp: fresh_vault_ok vault_step_def vault_attempt_ok)

lemma vault_after_steps: "vault_step\<^sup>*\<^sup>* s (vault_after as s)"
proof (induction "as" rule: rev_induct)
  case (snoc a "as")
  moreover have "vault_step (vault_after as s) (vault_after (as @ [a]) s)" by (auto simp: vault_step_def)
  ultimately show ?case by (rule rtranclp.rtrancl_into_rtrancl)
qed simp

lemma vault_reachable: "vault_ok (vault_after as (fresh_vault code w streams))"
  by (rule vault_run.reachable_inv [OF _ vault_after_steps]) blast

section \<open>Where pending decisions come from\<close>

text \<open>A slot that is empty at deployment and only filled by calls with \<open>Q\<close> was filled by such a call.\<close>

lemma slot_origin:
  assumes "slot s0 = None" and "vault_ok s0"
    and step: "\<And>a s x. vault_ok s \<Longrightarrow> slot (vault_attempt a s) = Some x \<Longrightarrow> slot s = Some x \<or> Q a s x"
    and "slot (vault_after as s0) = Some x"
  shows "\<exists>i < length as. Q (as ! i) (vault_after (take i as) s0) x"
  using assms(4)
proof (induction "as" rule: rev_induct)
  case Nil
  then show ?case using assms(1) by simp
next
  case (snoc a "as")
  have ok: "vault_ok (vault_after as s0)" using vault_run.run_inv [OF vault_after_steps assms(2)] .
  from snoc.prems have "slot (vault_attempt a (vault_after as s0)) = Some x" by simp
  from step [OF ok this] show ?case
  proof
    assume "slot (vault_after as s0) = Some x"
    then obtain i where "i < length as" "Q (as ! i) (vault_after (take i as) s0) x" using snoc.IH by blast
    then show ?thesis by (intro exI [of _ i]) (simp add: nth_append)
  next
    assume "Q a (vault_after as s0) x"
    then show ?thesis by (intro exI [of _ "length as"]) simp
  qed
qed

text \<open>An attempt either leaves the administrative state alone or is a committed administrative call.\<close>

lemma attempt_cases:
  assumes "vault_ok s"
  obtains "admin (vault_attempt a s) = admin s"
  | "administrative (at_call a)" and
    "vault_exec (at_env a) (at_call a) (s\<lparr>va_world := at_world a, va_streams := at_streams a\<rparr>) = Inr (vault_attempt a s)"
proof -
  let ?s = "s\<lparr>va_world := at_world a, va_streams := at_streams a\<rparr>"
  have lock: "vk_ReentrancyLock ?s = None" using assms by (simp add: vault_ok_def)
  show ?thesis
  proof (cases "vault_exec (at_env a) (at_call a) ?s")
    case (Inl f)
    then have "admin (vault_attempt a s) = admin s" by (simp add: vault_attempt_def)
    then show ?thesis by (rule that(1))
  next
    case (Inr s')
    then have s': "vault_attempt a s = s'" by (simp add: vault_attempt_def)
    show ?thesis
    proof (cases "administrative (at_call a)")
      case False
      then have "vault_kept ?s s'" using Inr lock ordinary_kept by blast
      then show ?thesis using that(1) s' by (simp add: vault_kept_def)
    qed (use that(2) Inr s' in simp)
  qed
qed

lemma execute_migration_admin:
  assumes "execute_emergency_migration e caller s = Inr (b, s')"
  shows "admin s' = admin (s\<lparr>vk_EmergencyMigration := None\<rparr>)"
  using assms by (rule execute_migration_success)

definition pending_transfer :: "'w vault \<Rightarrow> (address \<times> address option \<times> int option) option" where
  "pending_transfer s =
     map_option (\<lambda>p. (p, vk_PendingOwnerProposer s, vk_PendingOwnerProposedAt s)) (vk_PendingOwner s)"

definition proposes :: "'w attempt \<Rightarrow> 'w vault \<Rightarrow> address \<times> address option \<times> int option \<Rightarrow> bool" where
  "proposes a s x \<longleftrightarrow> (\<exists>owner new. x = (new, Some owner, Some (timestamp (at_env a))) \<and>
     at_call a = VProposeOwner owner new \<and> vk_Owner s = Some owner \<and> authorized (at_env a) owner)"

definition initiates :: "'w attempt \<Rightarrow> 'w vault \<Rightarrow> emergency_migration \<Rightarrow> bool" where
  "initiates a s m \<longleftrightarrow> (\<exists>owner. at_call a = VInitiateMigration owner (em_destination m) \<and>
     vk_Owner s = Some owner \<and> authorized (at_env a) owner \<and> em_proposed_at m = timestamp (at_env a))"

lemma pending_transfer_updates [simp]:
  "pending_transfer (s\<lparr>vk_Owner := o1\<rparr>) = pending_transfer s" "pending_transfer (s\<lparr>vk_Token := o1\<rparr>) = pending_transfer s"
  "pending_transfer (s\<lparr>vk_MaxLimit := n1\<rparr>) = pending_transfer s" "pending_transfer (s\<lparr>vk_Operator := o1\<rparr>) = pending_transfer s"
  "pending_transfer (s\<lparr>vk_OperatorWithdrawLimit := n1\<rparr>) = pending_transfer s"
  "pending_transfer (s\<lparr>vk_OwnerProposalTtl := n1\<rparr>) = pending_transfer s"
  "pending_transfer (s\<lparr>vk_EmergencyMigration := m1\<rparr>) = pending_transfer s"
  "pending_transfer (s\<lparr>va_world := w1\<rparr>) = pending_transfer s" "pending_transfer (s\<lparr>va_streams := s1\<rparr>) = pending_transfer s"
  "pending_transfer (s\<lparr>vk_PendingOwner := Some a, vk_PendingOwnerProposer := b, vk_PendingOwnerProposedAt := c\<rparr>) = Some (a, b, c)"
  "pending_transfer (s\<lparr>vk_PendingOwner := None, vk_PendingOwnerProposer := b, vk_PendingOwnerProposedAt := c\<rparr>) = None"
  by (simp_all add: pending_transfer_def)

lemma admin_slots:
  assumes "admin s' = admin t"
  shows "pending_transfer s' = pending_transfer t \<and> vk_EmergencyMigration s' = vk_EmergencyMigration t \<and> vk_Owner s' = vk_Owner t"
  using admin_eqD [OF assms] by (simp add: pending_transfer_def)

lemma admin_like_slots:
  "admin_like t s' \<Longrightarrow> pending_transfer s' = pending_transfer t \<and> vk_EmergencyMigration s' = vk_EmergencyMigration t \<and>
     vk_Owner s' = vk_Owner t"
  using admin_slots [of s' t] by (simp add: admin_like_def)

text \<open>What an attempt can do to the three decisions: owner, pending owner, pending migration.\<close>

lemma attempt_slots:
  assumes "vault_ok s"
  shows "pending_transfer (vault_attempt a s) = Some x \<Longrightarrow> pending_transfer s = Some x \<or> proposes a s x"
    and "vk_EmergencyMigration (vault_attempt a s) = Some m \<Longrightarrow> vk_EmergencyMigration s = Some m \<or> initiates a s m"
    and "vk_Owner s = Some owner \<Longrightarrow> vk_Owner (vault_attempt a s) \<noteq> Some owner \<Longrightarrow>
      \<exists>new. at_call a = VAcceptOwner new \<and>
        is_ok (accept_owner (at_env a) new (s\<lparr>va_world := at_world a, va_streams := at_streams a\<rparr>)) \<and>
        vk_Owner (vault_attempt a s) = Some new"
proof -
  let ?s = "s\<lparr>va_world := at_world a, va_streams := at_streams a\<rparr>" and ?t = "vault_attempt a s"
  have "(pending_transfer ?t = Some x \<longrightarrow> pending_transfer s = Some x \<or> proposes a s x) \<and>
      (vk_EmergencyMigration ?t = Some m \<longrightarrow> vk_EmergencyMigration s = Some m \<or> initiates a s m) \<and>
      (vk_Owner s = Some owner \<longrightarrow> vk_Owner ?t \<noteq> Some owner \<longrightarrow>
        (\<exists>new. at_call a = VAcceptOwner new \<and> is_ok (accept_owner (at_env a) new ?s) \<and> vk_Owner ?t = Some new))"
    using assms
  proof (cases rule: attempt_cases [of s a])
    case 1
    from admin_slots [OF this] show ?thesis by simp
  next
    case 2
    show ?thesis
    proof (cases "\<exists>caller. at_call a = VExecuteMigration caller")
      case True
      then obtain caller b where "execute_emergency_migration (at_env a) caller ?s = Inr (b, ?t)"
        using 2(2) by (auto simp: drop_result_eq_Inr)
      from admin_slots [OF execute_migration_admin [OF this]] show ?thesis by simp
    next
      case False
      with 2 show ?thesis
        by (cases "at_call a") (simp_all, (frule admin_success, elim conjE exE, drule admin_like_slots,
            (auto simp: proposes_def initiates_def)[1])+)
    qed
  qed
  then show "pending_transfer ?t = Some x \<Longrightarrow> pending_transfer s = Some x \<or> proposes a s x"
    and "vk_EmergencyMigration ?t = Some m \<Longrightarrow> vk_EmergencyMigration s = Some m \<or> initiates a s m"
    and "vk_Owner s = Some owner \<Longrightarrow> vk_Owner ?t \<noteq> Some owner \<Longrightarrow>
      \<exists>new. at_call a = VAcceptOwner new \<and> is_ok (accept_owner (at_env a) new ?s) \<and> vk_Owner ?t = Some new"
    by blast+
qed

section \<open>A sample vault\<close>

text \<open>A ledger on which the vault \<^verbatim>\<open>V\<close> holds 500 and the owner 1000 units of every token.\<close>

definition vault_ledger :: ledger where
  "vault_ledger = (\<lambda>t h. if h = ''own'' then 1000 else if h = ''V'' then 500 else 0)"

definition vault_env :: "int \<Rightarrow> ledger env" where
  "vault_env now = \<lparr>timestamp = now, sequence = now, contract_address = ''V'', authorized = (\<lambda>_. True), tokens = ledger_token\<rparr>"

definition attempt_at :: "int \<Rightarrow> vault_call \<Rightarrow> ledger attempt" where
  "attempt_at now c = \<lparr>at_env = vault_env now, at_call = c, at_world = vault_ledger, at_streams = (\<lambda>_. None)\<rparr>"

definition new_vault :: "ledger vault" where
  "new_vault = fresh_vault [] vault_ledger (\<lambda>_. None)"

lemma vault_env_sep41: "sep41 (vault_env now)"
  by (rule ledger_token_sep41) (simp add: vault_env_def)

lemma vault_env_simps [simp]:
  "timestamp (vault_env now) = now" "sequence (vault_env now) = now" "contract_address (vault_env now) = ''V''"
  "authorized (vault_env now) a" "tokens (vault_env now) = ledger_token"
  by (simp_all add: vault_env_def)

lemmas vault_eval = vault_attempt_def vault_after_def attempt_at_def new_vault_def fresh_vault_def Let_def
  vault_initialize_def validate_sep41_token_def is_zero_address_def zero_account_def zero_contract_def balance_call_def
  require_auth_def ledger_balance_def set_token_approved_def vault_bump_def vault_emit_def bump_instance_def
  propose_owner_def require_owner_def accept_owner_def checked_u64_def in_u64_def checked_i128_def in_i128_def int_bounds
  initiate_emergency_migration_def EMERGENCY_MIGRATION_TIMELOCK_SECONDS_def OWNER_PROPOSAL_TTL_SECONDS_def

text \<open>The vault after its initialisation.\<close>

definition open_vault :: "ledger vault" where
  "open_vault = new_vault\<lparr>vk_Owner := Some ''own'', vk_Token := Some ''T'', vk_MaxLimit := Some 5000,
     vk_OwnerProposalTtl := Some 604800, vk_ApprovedToken := [''T'' \<mapsto> True],
     va_events := [EvVaultInit ''own'' ''T'' 5000], va_ttl := [ExtendInstance 100000 200000]\<rparr>"

lemma vault_opens: "vault_attempt (attempt_at 10 (VInitialize ''own'' ''T'' 5000)) new_vault = open_vault"
  by (simp add: vault_eval open_vault_def fun_eq_iff)

end
