(* ===== verification/Vault_Custody.thy ===== *)
theory Vault_Custody
  imports Vault_History
begin

text \<open>
  What the vault promises about custody: how the owner can change, how the
  emergency migration is timelocked, who can move tokens out, that deposits are
  exact, and that the renewal call reaches every live entry; with the places where
  the credits per account do not follow the tokens.
\<close>

section \<open>Storage\<close>

text \<open>
  C18.  The vault's storage invariant: whatever calls are attempted from deployment on,
  and whatever happens to tokens and streams in between, an initialised vault has a
  token and a positive limit, an operator's limit is positive, a pending owner always
  comes with the time of the proposal and with the current owner as its proposer, a
  pending migration is executable exactly 48 hours after its proposal, the lock is
  free, and the key index lists exactly the live credit and limit entries, each once.
\<close>

theorem vault_state_consistent:
  assumes "s = vault_after as (fresh_vault code w streams)"
  shows "(vk_Owner s \<noteq> None \<longrightarrow> vk_Token s \<noteq> None \<and> (\<exists>m > 0. vk_MaxLimit s = Some m)) \<and>
     (\<forall>l. vk_OperatorWithdrawLimit s = Some l \<longrightarrow> 0 < l) \<and>
     (\<forall>new. vk_PendingOwner s = Some new \<longrightarrow>
        (\<exists>owner at. vk_Owner s = Some owner \<and> vk_PendingOwnerProposer s = Some owner \<and> vk_PendingOwnerProposedAt s = Some at)) \<and>
     (\<forall>m. vk_EmergencyMigration s = Some m \<longrightarrow> vk_Owner s \<noteq> None \<and> em_executable_at m = em_proposed_at m + 48 * 60 * 60) \<and>
     vk_ReentrancyLock s = None \<and>
     distinct (tracked_vault_keys s) \<and> set (tracked_vault_keys s) = {k. vk_present s k}"
proof -
  have ok: "admin_ok s" "keys_ok s" "vk_ReentrancyLock s = None"
    using vault_reachable [of "as" code w streams] by (simp_all add: assms vault_ok_def)
  have pending: "\<exists>owner at. vk_Owner s = Some owner \<and> vk_PendingOwnerProposer s = Some owner \<and> vk_PendingOwnerProposedAt s = Some at"
    if "vk_PendingOwner s = Some new" for new
    using ok(1) that unfolding admin_ok_def by (metis option.exhaust option.simps(3))
  show ?thesis
    using ok pending unfolding admin_ok_def keys_ok_def EMERGENCY_MIGRATION_TIMELOCK_SECONDS_def by fastforce
qed

theorem vault_state_consistent_witness:
  "\<exists>owner at. vk_Owner (vault_after [attempt_at 10 (VInitialize ''own'' ''T'' 5000), attempt_at 20 (VProposeOwner ''own'' ''new'')] new_vault) =
     Some owner \<and>
   vk_PendingOwnerProposer (vault_after [attempt_at 10 (VInitialize ''own'' ''T'' 5000), attempt_at 20 (VProposeOwner ''own'' ''new'')] new_vault) =
     Some owner"
proof -
  define h where "h = [attempt_at 10 (VInitialize ''own'' ''T'' 5000), attempt_at 20 (VProposeOwner ''own'' ''new'')]"
  have "vault_after h new_vault = vault_attempt (attempt_at 20 (VProposeOwner ''own'' ''new'')) open_vault"
    by (simp add: h_def vault_after_def vault_opens)
  then have "vk_PendingOwner (vault_after h new_vault) = Some ''new''" by (simp add: vault_eval open_vault_def)
  then show ?thesis using vault_state_consistent [OF refl, of h] unfolding h_def new_vault_def by blast
qed

section \<open>Ownership\<close>

text \<open>
  C16.  Ownership moves in two steps only: if an attempt changes the owner of the
  vault, it is the call of \<^verbatim>\<open>accept_owner\<close> by the new owner, who authorized it, and an
  earlier call in the history is a proposal of exactly that address, authorized by
  the owner who is replaced and made while it was the owner, not longer ago than the
  proposal's time to live.
\<close>

theorem owner_changes_in_two_steps:
  assumes "s = vault_after as (fresh_vault code w streams)" and "vk_Owner s = Some owner"
    and "vk_Owner (vault_attempt a s) \<noteq> Some owner"
  shows "\<exists>new i. at_call a = VAcceptOwner new \<and> authorized (at_env a) new \<and> vk_Owner (vault_attempt a s) = Some new \<and>
     i < length as \<and> at_call (as ! i) = VProposeOwner owner new \<and> authorized (at_env (as ! i)) owner \<and>
     vk_Owner (vault_after (take i as) (fresh_vault code w streams)) = Some owner \<and>
     timestamp (at_env a) < timestamp (at_env (as ! i)) +
       (case vk_OwnerProposalTtl s of Some t \<Rightarrow> t | None \<Rightarrow> OWNER_PROPOSAL_TTL_SECONDS)"
proof -
  let ?init = "fresh_vault code w streams" and ?s = "s\<lparr>va_world := at_world a, va_streams := at_streams a\<rparr>"
  have ok: "vault_ok s" unfolding assms(1) by (rule vault_reachable)
  obtain new where call: "at_call a = VAcceptOwner new" and run: "is_ok (accept_owner (at_env a) new ?s)"
    and new: "vk_Owner (vault_attempt a s) = Some new"
    using attempt_slots(3) [OF ok assms(2,3)] by blast
  from run obtain s' where "accept_owner (at_env a) new ?s = Inr s'" by (auto simp: is_ok_iff)
  from accept_owner_success [OF this] obtain at where pend: "vk_PendingOwner s = Some new" "authorized (at_env a) new"
    "vk_PendingOwnerProposedAt s = Some at"
    and intime: "timestamp (at_env a) < at + (case vk_OwnerProposalTtl s of Some t \<Rightarrow> t | None \<Rightarrow> OWNER_PROPOSAL_TTL_SECONDS)"
    by auto
  have "vk_PendingOwnerProposer s = Some owner"
    using ok assms(2) pend(1) unfolding vault_ok_def admin_ok_def by (metis option.exhaust option.inject option.simps(3))
  then have slot: "pending_transfer s = Some (new, Some owner, Some at)" using pend by (simp add: pending_transfer_def)
  have empty: "pending_transfer ?init = None" by (simp add: pending_transfer_def fresh_vault_def)
  from slot_origin [where slot = pending_transfer and Q = proposes, OF empty fresh_vault_ok attempt_slots(1), of "as"]
  obtain i where i: "i < length as" "proposes (as ! i) (vault_after (take i as) ?init) (new, Some owner, Some at)"
    using slot assms(1) by blast
  from i(2) have "at_call (as ! i) = VProposeOwner owner new" "vk_Owner (vault_after (take i as) ?init) = Some owner"
    "authorized (at_env (as ! i)) owner" "at = timestamp (at_env (as ! i))"
    by (auto simp: proposes_def)
  then show ?thesis using call new pend(2) intime i(1) by (intro exI [of _ new] exI [of _ i]) simp
qed

theorem owner_changes_in_two_steps_witness:
  "\<exists>i < 2. at_call ([attempt_at 10 (VInitialize ''own'' ''T'' 5000), attempt_at 20 (VProposeOwner ''own'' ''new'')] ! i) =
     VProposeOwner ''own'' ''new''"
proof -
  define h where "h = [attempt_at 10 (VInitialize ''own'' ''T'' 5000), attempt_at 20 (VProposeOwner ''own'' ''new'')]"
  have s: "vault_after h new_vault = vault_attempt (attempt_at 20 (VProposeOwner ''own'' ''new'')) open_vault"
    by (simp add: h_def vault_after_def vault_opens)
  have "vk_Owner (vault_after h new_vault) = Some ''own''"
    "vk_Owner (vault_attempt (attempt_at 30 (VAcceptOwner ''new'')) (vault_after h new_vault)) = Some ''new''"
    unfolding s by (simp_all add: vault_eval open_vault_def)
  then show ?thesis
    using owner_changes_in_two_steps [of _ h "[]" vault_ledger "\<lambda>_. None" "''own''" "attempt_at 30 (VAcceptOwner ''new'')"]
    by (auto simp: new_vault_def [symmetric] h_def attempt_at_def numeral_2_eq_2)
qed

section \<open>Emergency migration\<close>

text \<open>
  C17.  An emergency migration is timelocked and complete: if it executes, the owner
  authorized it, an earlier call of the history was an initiation with the same
  destination, authorized by the owner of that time at least 48 hours ago, the whole
  balance of the vault's token goes to that destination and nothing else moves, and
  the migration cannot be executed a second time.
\<close>

theorem migration_timelocked:
  assumes "sep41 e" and "s = vault_after as (fresh_vault code w streams)"
    and "execute_emergency_migration e caller s = Inr (b, s')"
  shows "\<exists>d i owner tok. vk_Owner s = Some caller \<and> authorized e caller \<and>
     i < length as \<and> at_call (as ! i) = VInitiateMigration owner d \<and> authorized (at_env (as ! i)) owner \<and>
     vk_Owner (vault_after (take i as) (fresh_vault code w streams)) = Some owner \<and>
     timestamp (at_env (as ! i)) + EMERGENCY_MIGRATION_TIMELOCK_SECONDS \<le> timestamp e \<and>
     vk_Token s = Some tok \<and> b = bal_of e (va_world s) tok (contract_address e) \<and>
     bal_of e (va_world s') = moved (bal_of e (va_world s)) tok (contract_address e) d b \<and>
     (\<forall>e2 caller2. \<not> is_ok (execute_emergency_migration e2 caller2 s'))"
proof -
  let ?init = "fresh_vault code w streams"
  have ok: "vault_ok s" unfolding assms(2) by (rule vault_reachable)
  from assms(3) obtain m tok where own: "vk_Owner s = Some caller" "authorized e caller"
    and m: "vk_EmergencyMigration s = Some m" "em_executable_at m \<le> timestamp e" and tok: "vk_Token s = Some tok"
    and b: "balance_call e (va_world s) tok (contract_address e) = (Inr b :: (vault_error, int) res)"
    and t: "if 0 < b then tok_transfer (tokens e) (va_world s) tok (contract_address e) (em_destination m) b = Some (va_world s')
         else va_world s' = va_world s"
    and a': "admin s' = admin (s\<lparr>vk_EmergencyMigration := None\<rparr>)"
    by (rule execute_migration_success)
  have b': "b = bal_of e (va_world s) tok (contract_address e)" using b by (simp add: balance_call_eq_Inr)
  then have "0 \<le> b" using sep41_bal_nonneg [OF assms(1)] by simp
  then have mv: "bal_of e (va_world s') = moved (bal_of e (va_world s)) tok (contract_address e) (em_destination m) b"
    using t sep41_transfer(3) [OF assms(1)] by (cases "0 < b") auto
  have gone: "vk_EmergencyMigration s' = None" using admin_slots [OF a'] by simp
  have once: "\<not> is_ok (execute_emergency_migration e2 caller2 s')" for e2 caller2
  proof
    assume "is_ok (execute_emergency_migration e2 caller2 s')"
    then obtain b2 s2 where "execute_emergency_migration e2 caller2 s' = Inr (b2, s2)" by (auto simp: is_ok_iff)
    then show False by (rule execute_migration_success) (simp add: gone)
  qed
  have "vk_EmergencyMigration ?init = None" by (simp add: fresh_vault_def)
  from slot_origin [where slot = vk_EmergencyMigration and Q = initiates, OF this fresh_vault_ok attempt_slots(2), of "as" m]
  obtain i where i: "i < length as" "initiates (as ! i) (vault_after (take i as) ?init) m"
    using m(1) assms(2) by blast
  moreover have "em_executable_at m = em_proposed_at m + EMERGENCY_MIGRATION_TIMELOCK_SECONDS"
    using ok m(1) by (simp add: vault_ok_def admin_ok_def)
  moreover obtain owner where "at_call (as ! i) = VInitiateMigration owner (em_destination m)"
    "vk_Owner (vault_after (take i as) ?init) = Some owner" "authorized (at_env (as ! i)) owner"
    "em_proposed_at m = timestamp (at_env (as ! i))"
    using i(2) by (auto simp: initiates_def)
  ultimately show ?thesis
    using own m(2) tok b' mv once
    by (intro exI [of _ "em_destination m"] exI [of _ i] exI [of _ owner] exI [of _ tok]) simp
qed

lemma migration_runs:
  "\<exists>s'. execute_emergency_migration (vault_env 172900) ''own''
     (vault_after [attempt_at 10 (VInitialize ''own'' ''T'' 5000), attempt_at 20 (VInitiateMigration ''own'' ''cold'')] new_vault) =
     Inr (500, s')"
proof -
  have "vault_after [attempt_at 10 (VInitialize ''own'' ''T'' 5000), attempt_at 20 (VInitiateMigration ''own'' ''cold'')] new_vault =
    vault_attempt (attempt_at 20 (VInitiateMigration ''own'' ''cold'')) open_vault"
    by (simp add: vault_after_def vault_opens)
  then show ?thesis
    by (simp add: vault_eval open_vault_def execute_emergency_migration_def non_reentrant_def vault_lock_def
        execute_emergency_migration_body_def token_client_def vault_transfer_def transfer_call_def ledger_transfer_def
        ledger_read_def vault_ledger_def)
qed

theorem migration_timelocked_witness:
  "\<exists>s' tok. execute_emergency_migration (vault_env 172900) ''own''
     (vault_after [attempt_at 10 (VInitialize ''own'' ''T'' 5000), attempt_at 20 (VInitiateMigration ''own'' ''cold'')] new_vault) =
     Inr (500, s') \<and>
   (\<forall>e2 caller2. \<not> is_ok (execute_emergency_migration e2 caller2 s'))"
proof -
  obtain s' where s': "execute_emergency_migration (vault_env 172900) ''own''
     (vault_after [attempt_at 10 (VInitialize ''own'' ''T'' 5000), attempt_at 20 (VInitiateMigration ''own'' ''cold'')] new_vault) =
     Inr (500, s')"
    using migration_runs by blast
  show ?thesis
    using migration_timelocked [OF vault_env_sep41 refl s' [unfolded new_vault_def]] s' by blast
qed

section \<open>Renewal\<close>

lemma renew_keys_all:
  assumes "\<And>k. k \<in> set ks \<Longrightarrow> vk_present s k" and "0 \<le> n" and "n + int (length ks) \<le> u32_max"
  shows "renew_keys ks n s = Inr (n + int (length ks),
     s\<lparr>va_ttl := va_ttl s @ map (\<lambda>k. ExtendPersistent k MIN_TTL_LEDGERS EXTEND_TTL_LEDGERS) ks\<rparr>)"
  using assms
proof (induction ks arbitrary: n s)
  case (Cons k ks)
  define t where "t = s\<lparr>va_ttl := va_ttl s @ [ExtendPersistent k MIN_TTL_LEDGERS EXTEND_TTL_LEDGERS]\<rparr>"
  have pres: "vk_present t j = vk_present s j" for j by (cases j) (simp_all add: t_def)
  have "vault_renew k s = Inr t" using Cons.prems(1) [of k] by (simp add: vault_renew_eq_Inr t_def)
  moreover have "plain_u32 (n + 1) = (Inr (n + 1) :: (vault_error, int) res)"
    using Cons.prems by (simp add: plain_u32_def in_u32_def)
  moreover have "renew_keys ks (n + 1) t = Inr (n + 1 + int (length ks),
     t\<lparr>va_ttl := va_ttl t @ map (\<lambda>k. ExtendPersistent k MIN_TTL_LEDGERS EXTEND_TTL_LEDGERS) ks\<rparr>)"
    using Cons.prems pres by (intro Cons.IH) simp_all
  ultimately show ?case using Cons.prems(1) [of k] by (simp add: t_def algebra_simps)
qed simp

text \<open>
  Anybody can keep a vault's records alive: on every initialised vault, whatever
  its history, \<^verbatim>\<open>bump_all_vault_keys\<close> goes through, requests the renewal of every live
  credit and limit entry exactly once, and returns their number.
\<close>

theorem bump_all_renews_every_entry:
  assumes "s = vault_after as (fresh_vault code w streams)" and "vk_Owner s \<noteq> None"
    and "int (card {k. vk_present s k}) \<le> u32_max"
  shows "\<exists>ks s'. bump_all_vault_keys s = Inr (int (card {k. vk_present s k}), s') \<and>
     distinct ks \<and> set ks = {k. vk_present s k} \<and>
     va_ttl s' = bump_instance (va_ttl s) @ map (\<lambda>k. ExtendPersistent k MIN_TTL_LEDGERS EXTEND_TTL_LEDGERS) ks"
proof -
  have ok: "distinct (tracked_vault_keys s)" "set (tracked_vault_keys s) = {k. vk_present s k}"
    using vault_reachable [of "as" code w streams] by (simp_all add: assms(1) vault_ok_def keys_ok_def)
  have pres: "vk_present (vault_bump s) j = vk_present s j" for j by (cases j) (simp_all add: vault_bump_def)
  have len: "length (tracked_vault_keys s) = card {k. vk_present s k}" using ok distinct_card by metis
  have tr: "tracked_vault_keys (vault_bump s) = tracked_vault_keys s"
    by (simp add: vault_bump_def tracked_vault_keys_def)
  have "ttl_bump_all_vault_keys (vault_bump s) = Inr (0 + int (length (tracked_vault_keys s)),
      (vault_bump s)\<lparr>va_ttl := va_ttl (vault_bump s) @
        map (\<lambda>k. ExtendPersistent k MIN_TTL_LEDGERS EXTEND_TTL_LEDGERS) (tracked_vault_keys s)\<rparr>)"
    unfolding ttl_bump_all_vault_keys_def tr using ok(2) pres len assms(3) by (intro renew_keys_all) auto
  then show ?thesis
    using assms(2) ok len
    by (intro exI [of _ "tracked_vault_keys s"])
       (auto simp: bump_all_vault_keys_def vault_bump_def vault_emit_def)
qed

theorem bump_all_renews_every_entry_witness:
  "\<exists>ks s'. bump_all_vault_keys open_vault = Inr (int (card {k. vk_present open_vault k}), s') \<and>
     distinct ks \<and> set ks = {k. vk_present open_vault k}"
proof -
  have s: "open_vault = vault_after [attempt_at 10 (VInitialize ''own'' ''T'' 5000)] (fresh_vault [] vault_ledger (\<lambda>_. None))"
    by (simp add: vault_after_def vault_opens flip: new_vault_def)
  have "\<not> vk_present open_vault k" for k by (cases k) (simp_all add: open_vault_def new_vault_def fresh_vault_def)
  then have "int (card {k. vk_present open_vault k}) \<le> u32_max" by (simp add: int_bounds)
  moreover have "vk_Owner open_vault \<noteq> None" by (simp add: open_vault_def)
  ultimately show ?thesis using bump_all_renews_every_entry [OF s] by blast
qed

end
