(* ===== verification/Vault_Flow.thy ===== *)
theory Vault_Flow
  imports Vault_Custody Stream_Settlement
begin

text \<open>
  The token flows of the vault: what each call moves, and who must have authorized
  it.  Tokens are assumed to behave as documented (\<open>sep41\<close>).
\<close>

section \<open>What single steps move\<close>

definition held :: "'w env \<Rightarrow> 'w vault \<Rightarrow> address \<Rightarrow> int" where
  "held e s tok = bal_of e (va_world s) tok (contract_address e)"

lemma held_cong: "va_world s' = va_world s \<Longrightarrow> held e s' tok = held e s tok"
  by (simp add: held_def)

lemma helper_world [simp]:
  "va_world (vault_bump s) = va_world s" "va_world (vault_emit ev s) = va_world s"
  "va_world (record_vault_balance e tok n s) = va_world s" "va_world (set_token_approved tok b s) = va_world s"
  "va_world (vault_unlock s) = va_world s" "va_world (track_vault_key k s) = va_world s"
  by (simp_all add: vault_bump_def vault_emit_def record_vault_balance_def set_token_approved_def vault_unlock_def
      track_vault_key_def Let_def)

lemma vault_set_paused_world: "vault_set_paused e b s = Inr s' \<Longrightarrow> va_world s' = va_world s"
  by (auto simp: vault_set_paused_def and_then_eq_Inr)

lemma helper_token [simp]:
  "vk_Token (vault_bump s) = vk_Token s" "vk_Token (vault_emit ev s) = vk_Token s"
  "vk_Token (record_vault_balance e tok n s) = vk_Token s"
  by (simp_all add: vault_bump_def vault_emit_def record_vault_balance_def)

lemma not_paused_world: "vault_assert_not_paused e s = Inr s' \<Longrightarrow> va_world s' = va_world s"
  by (auto elim: not_paused_success)

lemma set_token_account_balance_world: "set_token_account_balance tok a b s = Inr s' \<Longrightarrow> va_world s' = va_world s"
  by (auto simp: set_token_account_balance_def res_simps)

lemma vault_transfer_eq_Inr [res_simps]:
  "vault_transfer e tok src dst amt s = Inr s' \<longleftrightarrow>
     (\<exists>w. tok_transfer (tokens e) (va_world s) tok src dst amt = Some w \<and> s' = s\<lparr>va_world := w\<rparr>)"
  by (auto simp: vault_transfer_def res_simps)

lemma vault_transfer_moved:
  assumes "sep41 e" and "vault_transfer e tok src dst amt s = Inr s'"
  shows "bal_of e (va_world s') = moved (bal_of e (va_world s)) tok src dst amt" and "0 \<le> amt"
  using assms sep41_transfer by (auto simp: vault_transfer_eq_Inr)

text \<open>A transfer to the vault never lowers what it holds.\<close>

lemma incoming_held:
  assumes "sep41 e" and "vault_transfer e tok src (contract_address e) amt s = Inr s'"
  shows "held e s t \<le> held e s' t"
  using vault_transfer_moved [OF assms] by (simp add: held_def moved_def)

lemma vault_balance_held: "vault_balance e s = Inr b \<Longrightarrow> vk_Token s = Some tok \<Longrightarrow> b = held e s tok"
  by (auto simp: vault_balance_def token_client_def res_simps held_def)

lemma owner_or_operator_eq_Inr [res_simps]:
  "require_owner_or_operator e c owner s = Inr u \<longleftrightarrow> (c = owner \<or> vk_Operator s = Some c) \<and> authorized e c"
  by (auto simp: require_owner_or_operator_def Let_def require_auth_def split: option.splits)

lemma withdraw_cap_eq_Inr [res_simps]:
  "withdraw_cap c owner s = Inr cap \<longleftrightarrow> (if c = owner then cap = i128_max
     else vk_Operator s = Some c \<and> vk_OperatorWithdrawLimit s = Some cap)"
  by (auto simp: withdraw_cap_def res_simps)

section \<open>Payouts of the default token\<close>

lemma sum_payouts_eq:
  "sum_payouts ps n = Inr m \<Longrightarrow> m = n + sum_list (map snd ps) \<and> (\<forall>(to, amt) \<in> set ps. 0 < amt)"
proof (induction ps arbitrary: n)
  case (Cons p ps)
  then show ?case by (cases p) (fastforce simp: res_simps)
qed simp

definition payouts_moved ::
  "address \<Rightarrow> address \<Rightarrow> (address \<times> int) list \<Rightarrow> (address \<Rightarrow> address \<Rightarrow> int) \<Rightarrow> (address \<Rightarrow> address \<Rightarrow> int)" where
  "payouts_moved tok me ps bal = fold (\<lambda>(to, amt) b. moved b tok me to amt) ps bal"

lemma payouts_moved_simps [simp]:
  "payouts_moved tok me [] bal = bal"
  "payouts_moved tok me ((to, amt) # ps) bal = payouts_moved tok me ps (moved bal tok me to amt)"
  by (simp_all add: payouts_moved_def)

lemma payouts_moved_other_token: "t \<noteq> tok \<Longrightarrow> payouts_moved tok me ps bal t h = bal t h"
proof (induction ps arbitrary: bal)
  case (Cons p ps)
  then show ?case by (cases p) simp
qed simp

lemma pay_each_effect:
  assumes "sep41 e" and "pay_each e tok caller by_op ps b s = Inr s'" and "vk_Token s = Some tok" and "b = held e s tok"
  shows "bal_of e (va_world s') = payouts_moved tok (contract_address e) ps (bal_of e (va_world s)) \<and>
     held e s' tok = b - sum_list (map snd ps)"
  using assms(2-)
proof (induction ps arbitrary: b s)
  case (Cons p ps)
  obtain to amt where p: "p = (to, amt)" by (cases p)
  obtain s1 where s1: "vault_transfer e tok (contract_address e) to amt s = Inr s1"
    and nb: "vault_balance e s1 = Inr (b - amt)"
    and rest: "pay_each e tok caller by_op ps (b - amt)
       (vault_emit (EvVaultWithdrawn caller to amt (b - amt) by_op) (record_vault_balance e tok (b - amt) s1)) = Inr s'"
    using Cons.prems(1) unfolding p pay_each.simps and_then_eq_Inr if_Inl_eq_Inr Let_def ok_or_eq_Inr by (auto simp: checked_eq_Some)
  have tok1: "vk_Token s1 = Some tok" using s1 Cons.prems(2) by (auto simp: vault_transfer_eq_Inr)
  have "b - amt = held e s1 tok" using vault_balance_held [OF nb tok1] .
  then have "b - amt = held e (vault_emit (EvVaultWithdrawn caller to amt (b - amt) by_op)
      (record_vault_balance e tok (b - amt) s1)) tok" by (simp add: held_def)
  from Cons.IH [OF rest _ this] tok1 show ?case
    using vault_transfer_moved(1) [OF assms(1) s1] by (simp add: p)
qed simp

text \<open>The caller of a payout is the owner, or the operator within its limit.\<close>

definition may_withdraw :: "'w env \<Rightarrow> 'w vault \<Rightarrow> address \<Rightarrow> int \<Rightarrow> bool" where
  "may_withdraw e s caller amount \<longleftrightarrow> authorized e caller \<and> \<not> fst (is_paused (timestamp e) (vk_Paused s)) \<and>
     (vk_Owner s = Some caller \<or>
      vk_Owner s \<noteq> None \<and> vk_Operator s = Some caller \<and> (\<exists>cap. vk_OperatorWithdrawLimit s = Some cap \<and> amount \<le> cap))"

lemma withdraw_payouts_success:
  assumes "sep41 e" and "withdraw_payouts e caller ps s = Inr (u, s')"
  obtains tok where "vk_Token s = Some tok" and "may_withdraw e s caller (sum_list (map snd ps))"
    and "ps \<noteq> []" and "\<forall>(to, amt) \<in> set ps. 0 < amt" and "sum_list (map snd ps) \<le> held e s tok"
    and "bal_of e (va_world s') = payouts_moved tok (contract_address e) ps (bal_of e (va_world s))"
    and "held e s' tok = held e s tok - sum_list (map snd ps)"
proof -
  let ?s = "s\<lparr>vk_ReentrancyLock := Some True\<rparr>"
  obtain s2 where run: "withdraw_payouts_body e caller ps ?s = Inr (u, s2)" and s': "s' = vault_unlock s2"
    using assms(2) unfolding withdraw_payouts_def by (rule non_reentrant_success)
  obtain s1 owner tok n cap b s3 where s1: "vault_assert_not_paused e ?s = Inr s1" and own: "vk_Owner s1 = Some owner"
    and auth: "caller = owner \<or> vk_Operator s1 = Some caller" "authorized e caller" and ne: "ps \<noteq> []"
    and tok: "vk_Token s1 = Some tok" and n: "sum_payouts ps 0 = Inr n" and cap: "withdraw_cap caller owner s1 = Inr cap"
    and le: "\<not> cap < n" "vault_balance e s1 = Inr b" "\<not> b < n"
    and pay: "pay_each e tok caller (caller \<noteq> owner) ps b s1 = Inr s3" and s2: "s2 = vault_bump s3"
    using run unfolding withdraw_payouts_body_def and_then_eq_Inr if_Inl_eq_Inr ok_or_eq_Inr owner_or_operator_eq_Inr
    by blast
  from s1 obtain p where p: "s1 = ?s\<lparr>vk_Paused := p\<rparr>" and open_gate: "\<not> fst (is_paused (timestamp e) (vk_Paused ?s))"
    by (rule not_paused_success)
  have b: "b = held e s1 tok" using le(2) tok by (rule vault_balance_held)
  have n': "n = sum_list (map snd ps)" "\<forall>(to, amt) \<in> set ps. 0 < amt" using sum_payouts_eq [OF n] by simp_all
  have may: "may_withdraw e s caller (sum_list (map snd ps))"
    using own auth cap le(1) open_gate n' p by (auto simp: may_withdraw_def withdraw_cap_eq_Inr split: if_splits)
  note eff = pay_each_effect [OF assms(1) pay tok b]
  have out: "bal_of e (va_world s') = payouts_moved tok (contract_address e) ps (bal_of e (va_world s))"
    using eff by (simp add: s' s2 p)
  have left: "held e s' tok = held e s tok - sum_list (map snd ps)"
    using conjunct2 [OF eff] b by (simp add: s' s2 p held_def)
  have cov: "sum_list (map snd ps) \<le> held e s tok" using le(3) n'(1) b by (simp add: p held_def)
  show ?thesis using tok by (intro that [OF _ may ne n'(2) cov out left]) (simp add: p)
qed

text \<open>
  A committed withdrawal, single or batched, was authorized by the owner or by the
  operator within its limit for the sum of all payouts while the vault was not paused;
  it pays each recipient its amounts out of the vault's own token, the vault's balance
  falls by exactly the sum, and nothing else moves.
\<close>

theorem withdraw_batch_correct:
  assumes "sep41 e" and "withdraw_batch e caller ps s = Inr (u, s')"
  shows "\<exists>tok. vk_Token s = Some tok \<and> may_withdraw e s caller (sum_list (map snd ps)) \<and>
     ps \<noteq> [] \<and> (\<forall>(to, amt) \<in> set ps. 0 < amt) \<and> sum_list (map snd ps) \<le> held e s tok \<and>
     bal_of e (va_world s') = payouts_moved tok (contract_address e) ps (bal_of e (va_world s)) \<and>
     held e s' tok = held e s tok - sum_list (map snd ps)"
  using assms(2) unfolding withdraw_batch_def by (rule withdraw_payouts_success [OF assms(1)]) blast

section \<open>Withdrawals of a chosen token\<close>

lemma withdraw_token_success:
  assumes "sep41 e" and "withdraw_token e caller tok to amt s = Inr (u, s')"
  shows "may_withdraw e s caller amt \<and> 0 < amt \<and> (vk_Owner s \<noteq> Some caller \<longrightarrow> amt \<le> get_token_account_balance tok caller s) \<and>
     bal_of e (va_world s') = moved (bal_of e (va_world s)) tok (contract_address e) to amt \<and>
     held e s' tok = held e s tok - amt"
proof -
  let ?s = "s\<lparr>vk_ReentrancyLock := Some True\<rparr>"
  obtain s2 where run: "withdraw_token_body e caller tok to amt ?s = Inr (u, s2)" and s': "s' = vault_unlock s2"
    using assms(2) unfolding withdraw_token_def by (rule non_reentrant_success)
  obtain s1 owner cap vb s3 s4 nb where s1: "vault_assert_not_paused e ?s = Inr s1" and own: "vk_Owner s1 = Some owner"
    and auth: "caller = owner \<or> vk_Operator s1 = Some caller" "authorized e caller" and pos: "\<not> amt \<le> 0"
    and cap: "withdraw_cap caller owner s1 = Inr cap" "\<not> cap < amt"
    and vb: "balance_call e (va_world s1) tok (contract_address e) = (Inr vb :: (vault_error, int) res)"
    and cred: "\<not> (caller \<noteq> owner \<and> get_token_account_balance tok caller s1 < amt)"
    and tr: "vault_transfer e tok (contract_address e) to amt s1 = Inr s3"
    and deb: "(if amt \<le> get_token_account_balance tok caller s1
        then and_then (plain_i128 (get_token_account_balance tok caller s1 - amt)) (\<lambda>b. set_token_account_balance tok caller b s3)
        else Inr s3) = Inr s4"
    and nb: "balance_call e (va_world s4) tok (contract_address e) = (Inr nb :: (vault_error, int) res)" "\<not> nb \<noteq> vb - amt"
    and s2: "va_world s2 = va_world s4"
    using run unfolding withdraw_token_body_def Let_def and_then_eq_Inr [where y = "(u, s2)"] if_Inl_eq_Inr(1) ok_or_eq_Inr
      owner_or_operator_eq_Inr checked_eq_Some sum.inject prod.inject by (metis helper_world(1-3))
  from s1 obtain p where p: "s1 = ?s\<lparr>vk_Paused := p\<rparr>" and open_gate: "\<not> fst (is_paused (timestamp e) (vk_Paused ?s))"
    by (rule not_paused_success)
  have w4: "va_world s4 = va_world s3"
    using deb by (auto simp: and_then_eq_Inr dest: set_token_account_balance_world split: if_splits)
  have "may_withdraw e s caller amt"
    using own auth cap open_gate p by (auto simp: may_withdraw_def withdraw_cap_eq_Inr split: if_splits)
  moreover have "get_token_account_balance tok caller s1 = get_token_account_balance tok caller s"
    by (simp add: p get_token_account_balance_def)
  moreover have "held e s' tok = held e s tok - amt"
    using vb nb s2 p by (simp add: s' held_def balance_call_eq_Inr)
  ultimately show ?thesis
    using pos cred own p vault_transfer_moved(1) [OF assms(1) tr] by (auto simp: s' s2 w4)
qed

section \<open>Calls that take nothing out\<close>

definition no_loss :: "'w env \<Rightarrow> 'w vault \<Rightarrow> 'w vault \<Rightarrow> bool" where
  "no_loss e s s' \<longleftrightarrow> (\<forall>t. held e s t \<le> held e s' t)"

interpretation gain: frame_relation "no_loss e" for e
  by unfold_locales (auto simp: no_loss_def intro: order_trans)

lemma no_loss_world: "va_world s' = va_world s \<Longrightarrow> no_loss e s s'"
  by (simp add: no_loss_def held_def)

lemma no_loss_incoming: "sep41 e \<Longrightarrow> vault_transfer e tok src (contract_address e) amt s = Inr s' \<Longrightarrow> no_loss e s s'"
  by (simp add: no_loss_def incoming_held)

lemma collect_deposits_no_loss: "sep41 e \<Longrightarrow> collect_deposits e tok ds s = Inr s' \<Longrightarrow> no_loss e s s'"
proof (induction ds arbitrary: s)
  case (Cons d ds)
  obtain s1 b where s1: "vault_transfer e tok (ds_from d) (contract_address e) (ds_amount d) s = Inr s1"
    and rest: "collect_deposits e tok ds (vault_emit (EvDeposited (ds_from d) (ds_amount d) b) s1) = Inr s'"
    using Cons.prems(2) unfolding collect_deposits.simps and_then_eq_Inr by blast
  have "no_loss e s1 s'"
    using Cons.IH [OF Cons.prems(1) rest] by (simp add: no_loss_def held_def)
  then show ?case using gain.R_trans [OF no_loss_incoming [OF Cons.prems(1) s1]] by blast
qed (simp add: no_loss_world)

lemma credit_world:
  "(case c of Some b \<Rightarrow> set_token_account_balance tok a b s | None \<Rightarrow> Inr s) = Inr s' \<Longrightarrow> va_world s' = va_world s"
  "set_token_account_balance tok a b (record_vault_balance e tok n s) = Inr s' \<Longrightarrow> va_world s' = va_world s"
  by (auto dest: set_token_account_balance_world split: option.splits)

lemma gain_steps:
  assumes "sep41 e"
  shows
    "(\<And>s1. vault_assert_not_paused e s = Inr s1 \<Longrightarrow> gain.holds_after e s1 (f s1)) \<Longrightarrow>
       gain.holds_after e s (and_then (vault_assert_not_paused e s) f)"
    "(\<And>s1. vault_transfer e tok src (contract_address e) amt s = Inr s1 \<Longrightarrow> gain.holds_after e s1 (f s1)) \<Longrightarrow>
       gain.holds_after e s (and_then (vault_transfer e tok src (contract_address e) amt s) f)"
    "(\<And>s1. collect_deposits e tok ds s = Inr s1 \<Longrightarrow> gain.holds_after e s1 (f s1)) \<Longrightarrow>
       gain.holds_after e s (and_then (collect_deposits e tok ds s) f)"
    "(\<And>s1. set_token_account_balance tok a b s = Inr s1 \<Longrightarrow> gain.holds_after e s1 (f s1)) \<Longrightarrow>
       gain.holds_after e s (and_then (set_token_account_balance tok a b s) f)"
    "(\<And>s1. set_token_account_balance tok a b (record_vault_balance e tok n s) = Inr s1 \<Longrightarrow> gain.holds_after e s1 (f s1)) \<Longrightarrow>
       gain.holds_after e s (and_then (set_token_account_balance tok a b (record_vault_balance e tok n s)) f)"
    "(\<And>s1. (case c of Some b \<Rightarrow> set_token_account_balance tok a b s | None \<Rightarrow> Inr s) = Inr s1 \<Longrightarrow> gain.holds_after e s1 (f s1)) \<Longrightarrow>
       gain.holds_after e s (and_then (case c of Some b \<Rightarrow> set_token_account_balance tok a b s | None \<Rightarrow> Inr s) f)"
  by (rule gain.after_state; fast intro: no_loss_world no_loss_incoming [OF assms] collect_deposits_no_loss [OF assms]
      dest: not_paused_world set_token_account_balance_world credit_world)+

lemmas gain_reads = gain.after_guard gain.after_done
  gain.after_read [where r = "ok_or x f" for x f] gain.after_read [where r = "vault_balance e t" for e t]
  gain.after_read [where r = "balance_call e w t a" for e w t a]
  gain.after_read [where r = "require_owner_or_operator e c ow t" for e c ow t]
  gain.after_read [where r = "sum_deposits e ds n" for e ds n]
  gain.after_read [where r = "case_option r1 r2 o1" for r1 r2 o1]

lemma deposits_gain:
  assumes "sep41 e"
  shows "gain.holds_after e s (deposit_body e src amt s)"
    and "gain.holds_after e s (batch_deposit_body e ds s)"
    and "gain.holds_after e s (deposit_token_body e src tok amt s)"
    and "gain.holds_after e s (deposit_with_failure_report_body e src amt s)"
  unfolding deposit_body_def batch_deposit_body_def deposit_token_body_def deposit_with_failure_report_body_def Let_def
  by (intro gain_steps [OF assms] gain_reads gain.after_try [OF _ no_loss_incoming [OF assms]]; simp add: no_loss_world)+

lemma non_reentrant_no_loss:
  assumes "non_reentrant body s = Inr (r, s')" and "\<And>s. gain.holds_after e s (body s)"
  shows "no_loss e s s'"
  using assms(1)
proof (rule non_reentrant_success)
  fix s2
  assume "body (s\<lparr>vk_ReentrancyLock := Some True\<rparr>) = Inr (r, s2)" and s': "s' = vault_unlock s2"
  then have "no_loss e (s\<lparr>vk_ReentrancyLock := Some True\<rparr>) s2" using gain.after_elim [OF assms(2)] by blast
  then show ?thesis by (simp add: s' no_loss_def held_def)
qed

text \<open>The tokens look the same from every contract.\<close>

lemma bal_of_elsewhere [simp]: "bal_of (e\<lparr>contract_address := a\<rparr>) = bal_of e"
  by (intro ext) (simp add: bal_of_def)

lemma sep41_elsewhere [simp]: "sep41 (e\<lparr>contract_address := a\<rparr>) = sep41 e"
  by (simp add: sep41_def)

lemma withdraw_streams_no_loss:
  assumes "sep41 e"
  shows "withdraw_streams e ps s = Inr s' \<Longrightarrow> va_streams s (contract_address e) = None \<Longrightarrow> no_loss e s s'"
proof (induction ps arbitrary: s)
  case (Cons p ps)
  obtain addr amt where p: "p = (addr, amt)" by (cases p)
  let ?e = "e\<lparr>contract_address := addr\<rparr>"
  obtain r s1 where s1: "call_stream e addr (\<lambda>e'. withdraw e' amt) s = Inr (r, s1)" and rest: "withdraw_streams e ps s1 = Inr s'"
    using Cons.prems(1) unfolding p withdraw_streams.simps and_then_eq_Inr by auto
  from s1 obtain st st' where st: "va_streams s addr = Some st"
    and w: "withdraw ?e amt (st\<lparr>st_world := va_world s\<rparr>) = Inr (r, st')"
    and s1': "s1 = s\<lparr>va_world := st_world st', va_streams := (va_streams s)(addr \<mapsto> st')\<rparr>"
    by (rule call_stream_success)
  have other: "contract_address e \<noteq> addr" using st Cons.prems(2) by auto
  have "held e s t \<le> held e s1 t" for t
    using withdraw_inflow [OF _ w, of "contract_address e" t] other assms by (simp add: s1' held_def)
  moreover have "no_loss e s1 s'" using Cons.IH [OF rest] other Cons.prems(2) by (simp add: s1')
  ultimately show ?case by (meson gain.R_trans no_loss_def)
qed (simp add: no_loss_world)

lemma vault_batch_withdraw_no_loss:
  assumes "sep41 e" and "vault_batch_withdraw e as r s = Inr (n, s')" and "va_streams s (contract_address e) = None"
  shows "no_loss e s s'"
proof -
  obtain s1 where s1: "vault_assert_not_paused e s = Inr s1"
    and run: "non_reentrant (\<lambda>s2. and_then (plan_withdrawals e r [] as [] 0 s2) (\<lambda>(ps, n).
       and_then (withdraw_streams e ps s2) (\<lambda>s3. Inr (n, s3)))) s1 = Inr (n, s')"
    using assms(2) unfolding vault_batch_withdraw_def if_Inl_eq_Inr and_then_eq_Inr [where y = "(n, s')"] by blast
  from s1 obtain p where p: "s1 = s\<lparr>vk_Paused := p\<rparr>" by (rule not_paused_success)
  from run obtain s2 where
    "and_then (plan_withdrawals e r [] as [] 0 (s1\<lparr>vk_ReentrancyLock := Some True\<rparr>)) (\<lambda>(ps, n).
       and_then (withdraw_streams e ps (s1\<lparr>vk_ReentrancyLock := Some True\<rparr>)) (\<lambda>s3. Inr (n, s3))) = Inr (n, s2)"
    and s': "s' = vault_unlock s2"
    by (rule non_reentrant_success)
  then obtain ps where "withdraw_streams e ps (s1\<lparr>vk_ReentrancyLock := Some True\<rparr>) = Inr s2"
    by (auto simp: and_then_eq_Inr)
  from withdraw_streams_no_loss [OF assms(1) this] show ?thesis
    using assms(3) by (simp add: p s' no_loss_def held_def)
qed

lemma renew_keys_world: "renew_keys ks n s = Inr (m, s') \<Longrightarrow> va_world s' = va_world s"
proof (induction ks arbitrary: n s)
  case (Cons k ks)
  then show ?case by (auto simp: res_simps split: if_splits)
qed simp

text \<open>The calls that touch no token at all.\<close>

fun moves_tokens :: "vault_call \<Rightarrow> bool" where
  "moves_tokens (VDeposit _ _) = True"
| "moves_tokens (VDepositWithFee _ _ _) = True"
| "moves_tokens (VBatchDeposit _) = True"
| "moves_tokens (VWithdraw _ _ _) = True"
| "moves_tokens (VWithdrawBatch _ _) = True"
| "moves_tokens (VBatchWithdrawStreams _ _) = True"
| "moves_tokens (VDepositToken _ _ _) = True"
| "moves_tokens (VWithdrawToken _ _ _ _) = True"
| "moves_tokens (VDepositWithFailureReport _ _) = True"
| "moves_tokens (VExecuteMigration _) = True"
| "moves_tokens _ = False"

lemma other_calls_world:
  assumes "vault_exec e c s = Inr s'" and "\<not> moves_tokens c"
  shows "va_world s' = va_world s"
proof (cases c)
  case (VSetLimit caller l)
  then have "set_limit e caller l s = Inr s'" using assms(1) by simp
  then obtain s1 old where "vault_assert_not_paused e s = Inr s1"
    and "s' = vault_emit (EvLimitSet caller old l) ((vault_bump s1)\<lparr>vk_MaxLimit := Some l\<rparr>)"
    unfolding set_limit_def and_then_eq_Inr if_Inl_eq_Inr(1) [where y = s'] ok_or_eq_Inr sum.inject by blast
  then show ?thesis by (auto dest: not_paused_world)
next
  case (VAcceptOwner caller)
  then have "accept_owner e caller s = Inr s'" using assms(1) by simp
  then show ?thesis
    unfolding accept_owner_def and_then_eq_Inr if_Inl_eq_Inr(1) [where y = s'] Let_def sum.inject by force
qed (use assms in \<open>auto simp: vault_initialize_def set_operator_withdraw_limit_def vault_set_operator_def
      vault_revoke_operator_def propose_owner_def set_owner_proposal_ttl_def vault_pause_def vault_unpause_def keep_alive_def
      vault_upgrade_def set_token_max_limit_def approve_token_def bump_all_vault_keys_def initiate_emergency_migration_def
      cancel_emergency_migration_def effective_withdraw_limit_def store_token_max_limit_def ttl_bump_all_vault_keys_def
      vault_is_paused_def Let_def and_then_eq_Inr if_Inl_eq_Inr drop_result_eq_Inr vault_renew_eq_Inr
      dest!: renew_keys_world not_paused_world vault_set_paused_world split: prod.splits\<close>)

text \<open>The calls that can lower a balance of the vault.\<close>

fun takes_out :: "vault_call \<Rightarrow> bool" where
  "takes_out (VWithdraw _ _ _) = True"
| "takes_out (VWithdrawBatch _ _) = True"
| "takes_out (VWithdrawToken _ _ _ _) = True"
| "takes_out (VExecuteMigration _) = True"
| "takes_out _ = False"

lemma deposit_calls_no_loss:
  assumes "sep41 e"
  shows "vault_deposit e src amt s = Inr (u, s') \<Longrightarrow> no_loss e s s'"
    and "batch_deposit e ds s = Inr (u, s') \<Longrightarrow> no_loss e s s'"
    and "deposit_token e src tok amt s = Inr (u, s') \<Longrightarrow> no_loss e s s'"
    and "deposit_with_failure_report e src amt s = Inr (b, s') \<Longrightarrow> no_loss e s s'"
  unfolding vault_deposit_def batch_deposit_def deposit_token_def deposit_with_failure_report_def
  by (erule non_reentrant_no_loss, rule deposits_gain [OF assms])+

lemma takes_out_only:
  assumes "sep41 e" and "va_streams s (contract_address e) = None" and "vault_exec e c s = Inr s'" and "\<not> takes_out c"
  shows "no_loss e s s'"
proof (cases "moves_tokens c")
  case False
  then show ?thesis using other_calls_world [OF assms(3)] no_loss_world by blast
next
  case True
  have fee: "no_loss e s s'" if run: "deposit_with_fee e src g f s = Inr (u, s')" for src g f u
  proof -
    obtain v s1 ev where "vault_deposit e src (g - f) s = Inr (v, s1)" and "s' = vault_emit ev s1"
      using run by (auto simp: deposit_with_fee_def and_then_eq_Inr if_Inl_eq_Inr ok_or_eq_Inr checked_eq_Some)
    then show ?thesis
      using deposit_calls_no_loss(1) [OF assms(1)] by (auto simp: no_loss_def held_def)
  qed
  from True assms(2-) show ?thesis
    by (cases c) (auto simp: drop_result_eq_Inr intro: deposit_calls_no_loss [OF assms(1)] fee
        vault_batch_withdraw_no_loss [OF assms(1)])
qed

text \<open>
  C15.  Nobody but the owner and a limited operator can take tokens out: if any call of
  the vault lowers its balance of any token, then either the owner executed the
  emergency migration, or the vault was not paused and the call was authorized by the
  owner, or by the operator with the loss within the operator's limit.  Deposits,
  stream withdrawals, renewals, upgrades and configuration never take anything.
\<close>

theorem vault_outflow_authorized:
  assumes "sep41 e" and "va_streams s (contract_address e) = None"
    and "vault_exec e c s = Inr s'" and "held e s' tok < held e s tok"
  shows "(\<exists>owner. c = VExecuteMigration owner \<and> vk_Owner s = Some owner \<and> authorized e owner) \<or>
     (\<exists>caller. may_withdraw e s caller (held e s tok - held e s' tok))"
proof -
  have lossy: "\<not> no_loss e s s'" using assms(4) by (auto simp: no_loss_def not_le)
  have m: "takes_out c" using takes_out_only [OF assms(1-3)] lossy by blast
  have pay: "\<exists>caller. may_withdraw e s caller (held e s tok - held e s' tok)"
    if run: "withdraw_payouts e caller ps s = Inr (u, s')" for caller ps u
    using assms(1) run
  proof (rule withdraw_payouts_success)
    fix t
    assume may: "may_withdraw e s caller (sum_list (map snd ps))"
      and bal: "bal_of e (va_world s') = payouts_moved t (contract_address e) ps (bal_of e (va_world s))"
      and left: "held e s' t = held e s t - sum_list (map snd ps)"
    have "tok = t"
      using assms(4) payouts_moved_other_token [of tok t "contract_address e" ps "bal_of e (va_world s)" "contract_address e"]
      by (auto simp: held_def bal)
    then show ?thesis using may left by auto
  qed
  have tok: "\<exists>caller. may_withdraw e s caller (held e s tok - held e s' tok)"
    if run: "withdraw_token e caller t to amt s = Inr (u, s')" for caller t to amt u
  proof -
    note w = withdraw_token_success [OF assms(1) run]
    have "tok = t" using assms(4) w by (auto simp: held_def moved_def split: if_splits)
    then show ?thesis using w by auto
  qed
  from m assms(3) show ?thesis
  proof (cases c)
    case (VExecuteMigration caller)
    then obtain b where "execute_emergency_migration e caller s = Inr (b, s')" using assms(3) by (auto simp: drop_result_eq_Inr)
    then show ?thesis using VExecuteMigration by (auto elim!: execute_migration_success)
  qed (use pay tok in \<open>auto simp: drop_result_eq_Inr vault_withdraw_def withdraw_batch_def\<close>)
qed

section \<open>Deposits\<close>

lemma set_token_account_balance_success:
  assumes "set_token_account_balance tok a b s = Inr s'"
  shows "vk_TokenAccountBalance s' = (vk_TokenAccountBalance s)(tok := (vk_TokenAccountBalance s tok)(a \<mapsto> b))"
    and "vk_BalanceSnapshot s' = vk_BalanceSnapshot s"
  using assms by (auto simp: set_token_account_balance_def track_vault_key_def Let_def res_simps split: if_splits)

text \<open>
  A committed deposit is made and authorized by the owner or the operator, in the
  approved default token, moves exactly the amount from the depositor to the vault and
  nothing else, leaves the vault at or below its limit, adds the amount to the
  depositor's credit (unless that leaves \<^verbatim>\<open>i128\<close>, in which case the credit stays) and to
  no other, and records the new balance for this ledger.
\<close>

theorem deposit_correct:
  assumes "sep41 e" and "vault_deposit e src amt s = Inr (u, s')"
  shows "\<exists>tok limit. vk_Token s = Some tok \<and> vk_MaxLimit s = Some limit \<and> is_token_approved tok s \<and> authorized e src \<and>
     (vk_Owner s = Some src \<or> vk_Operator s = Some src) \<and> 0 < amt \<and> amt \<le> MAX_VAULT_DEPOSIT \<and>
     bal_of e (va_world s') = moved (bal_of e (va_world s)) tok src (contract_address e) amt \<and>
     held e s' tok = held e s tok + amt \<and> held e s' tok \<le> limit \<and>
     (\<forall>t a. get_token_account_balance t a s' = get_token_account_balance t a s +
        (if t = tok \<and> a = src \<and> in_i128 (get_token_account_balance tok src s + amt) then amt else 0)) \<and>
     vk_BalanceSnapshot s' tok = Some \<lparr>bs_ledger = sequence e, bs_expected_balance = held e s' tok\<rparr>"
proof -
  let ?s = "s\<lparr>vk_ReentrancyLock := Some True\<rparr>"
  obtain s2 where run: "deposit_body e src amt ?s = Inr (u, s2)" and s': "s' = vault_unlock s2"
    using assms(2) unfolding vault_deposit_def by (rule non_reentrant_success)
  obtain s1 owner b tok limit s3 nb s4 where s1: "vault_assert_not_paused e ?s = Inr s1"
    and own: "vk_Owner s1 = Some owner" and auth: "src = owner \<or> vk_Operator s1 = Some src" "authorized e src"
    and pos: "\<not> amt \<le> 0" "\<not> MAX_VAULT_DEPOSIT < amt" and b: "vault_balance e s1 = Inr b" and tok: "vk_Token s1 = Some tok"
    and appr: "\<not> \<not> is_token_approved tok s1" and limit: "vk_MaxLimit s1 = Some limit"
    and tr: "vault_transfer e tok src (contract_address e) amt s1 = Inr s3"
    and nb: "balance_call e (va_world s3) tok (contract_address e) = (Inr nb :: (vault_error, int) res)"
    and le: "\<not> limit < nb" "\<not> nb \<noteq> b + amt"
    and cr: "(case checked_i128 (get_token_account_balance tok src s3 + amt) of
                Some c \<Rightarrow> set_token_account_balance tok src c s3 | None \<Rightarrow> Inr s3) = Inr s4"
    and s2: "s2 = vault_emit (EvDeposited src amt nb) (vault_bump (record_vault_balance e tok nb s4))"
    using run unfolding deposit_body_def and_then_eq_Inr [where y = "(u, s2)"] if_Inl_eq_Inr(1) [where y = "(u, s2)"] ok_or_eq_Inr
      owner_or_operator_eq_Inr checked_eq_Some sum.inject prod.inject by blast
  from s1 obtain p where p: "s1 = ?s\<lparr>vk_Paused := p\<rparr>" by (rule not_paused_success)
  from tr obtain w where s3: "s3 = s1\<lparr>va_world := w\<rparr>" by (auto simp: vault_transfer_eq_Inr)
  have w4: "va_world s4 = va_world s3" using cr by (rule credit_world(1))
  have nb': "nb = held e s' tok" using nb by (simp add: held_def s' s2 w4 balance_call_eq_Inr)
  have "b = held e s tok" using vault_balance_held [OF b tok] by (simp add: p held_def)
  moreover have "get_token_account_balance t a s4 = get_token_account_balance t a s +
      (if t = tok \<and> a = src \<and> in_i128 (get_token_account_balance tok src s + amt) then amt else 0)" for t a
    using cr by (auto simp: get_token_account_balance_def s3 p checked_i128_def set_token_account_balance_success(1) split: if_splits)
  moreover have "get_token_account_balance t a s' = get_token_account_balance t a s4" for t a
    by (simp add: s' s2 vault_unlock_def vault_emit_def vault_bump_def record_vault_balance_def get_token_account_balance_def)
  moreover have "vk_BalanceSnapshot s' tok = Some \<lparr>bs_ledger = sequence e, bs_expected_balance = nb\<rparr>"
    by (simp add: s' s2 vault_unlock_def vault_emit_def vault_bump_def record_vault_balance_def)
  moreover have "bal_of e (va_world s') = moved (bal_of e (va_world s)) tok src (contract_address e) amt"
    using vault_transfer_moved(1) [OF assms(1) tr] by (simp add: s' s2 w4 p)
  ultimately show ?thesis
    using own auth pos tok appr limit le nb'
    by (intro exI [of _ tok] exI [of _ limit]) (auto simp: p is_token_approved_def)
qed

section \<open>Samples\<close>

lemmas flow_eval = vault_eval open_vault_def non_reentrant_def vault_lock_def vault_unlock_def vault_assert_not_paused_def
  require_not_paused_def is_paused_def require_not_paused_flag_def map_err_def require_owner_or_operator_def
  vault_balance_def token_client_def vault_transfer_def transfer_call_def ledger_transfer_def ledger_read_def moved_def
  vault_ledger_def withdraw_cap_def record_vault_balance_def

text \<open>The owner pays two recipients out of the 500 units the vault holds.\<close>

lemma sample_batch:
  "\<exists>s'. withdraw_batch (vault_env 50) ''own'' [(''ann'', 120), (''bea'', 30)] open_vault = Inr ((), s')"
  by (simp add: withdraw_batch_def withdraw_payouts_def withdraw_payouts_body_def flow_eval)

lemma open_vault_held: "held (vault_env now) open_vault t = 500"
  by (simp add: held_def open_vault_def new_vault_def fresh_vault_def vault_ledger_def ledger_read_def int_bounds)

theorem withdraw_batch_correct_witness:
  "\<exists>s'. withdraw_batch (vault_env 50) ''own'' [(''ann'', 120), (''bea'', 30)] open_vault = Inr ((), s') \<and>
     held (vault_env 50) s' ''T'' = 350 \<and> bal_of (vault_env 50) (va_world s') ''T'' ''bea'' = 30"
proof -
  obtain s' where s': "withdraw_batch (vault_env 50) ''own'' [(''ann'', 120), (''bea'', 30)] open_vault = Inr ((), s')"
    using sample_batch by blast
  have w: "ledger_read (va_world open_vault) t h = vault_ledger t h" for t h
    by (simp add: open_vault_def new_vault_def fresh_vault_def vault_ledger_def ledger_read_def int_bounds)
  have tok: "vk_Token open_vault = Some ''T''" by (simp add: open_vault_def)
  show ?thesis
    using withdraw_batch_correct [OF vault_env_sep41 s'] s' tok by (auto simp: open_vault_held moved_def w vault_ledger_def)
qed

theorem vault_outflow_authorized_witness:
  "\<exists>s' caller. vault_exec (vault_env 50) (VWithdrawBatch ''own'' [(''ann'', 120), (''bea'', 30)]) open_vault = Inr s' \<and>
     may_withdraw (vault_env 50) open_vault caller 150"
proof -
  obtain s' where s': "withdraw_batch (vault_env 50) ''own'' [(''ann'', 120), (''bea'', 30)] open_vault = Inr ((), s')"
    using sample_batch by blast
  obtain tok where "vk_Token open_vault = Some tok"
    and "held (vault_env 50) s' tok = held (vault_env 50) open_vault tok - sum_list (map snd [(''ann'', 120), (''bea'', 30)])"
    by (rule withdraw_payouts_success [OF vault_env_sep41 s' [unfolded withdraw_batch_def]]) (rule that)
  then have out: "held (vault_env 50) s' ''T'' = 350" by (simp add: open_vault_held) (simp add: open_vault_def)
  have call: "vault_exec (vault_env 50) (VWithdrawBatch ''own'' [(''ann'', 120), (''bea'', 30)]) open_vault = Inr s'"
    using s' by (simp add: drop_result_eq_Inr)
  moreover have "va_streams open_vault (contract_address (vault_env 50)) = None"
    by (simp add: open_vault_def new_vault_def fresh_vault_def)
  ultimately show ?thesis
    using vault_outflow_authorized [OF vault_env_sep41 _ call, of "''T''"] by (auto simp: out open_vault_held)
qed

theorem deposit_correct_witness:
  "\<exists>s'. vault_deposit (vault_env 50) ''own'' 200 open_vault = Inr ((), s') \<and> held (vault_env 50) s' ''T'' = 700 \<and>
     get_token_account_balance ''T'' ''own'' s' = 200"
proof -
  have "\<exists>s'. vault_deposit (vault_env 50) ''own'' 200 open_vault = Inr ((), s')"
    by (simp add: vault_deposit_def deposit_body_def flow_eval is_token_approved_def check_vault_balance_def
        set_token_account_balance_def get_token_account_balance_def vault_renew_def bump_persistent_def MAX_VAULT_DEPOSIT_def)
  then obtain s' where s': "vault_deposit (vault_env 50) ''own'' 200 open_vault = Inr ((), s')" by blast
  have "get_token_account_balance ''T'' ''own'' open_vault = 0" "vk_Token open_vault = Some ''T''"
    by (simp_all add: open_vault_def new_vault_def fresh_vault_def get_token_account_balance_def)
  then show ?thesis
    using deposit_correct [OF vault_env_sep41 s'] s' by (auto simp: open_vault_held in_i128_def int_bounds)
qed

section \<open>Credits and tokens drift apart\<close>

text \<open>
  The credit of an account grows with \<^verbatim>\<open>deposit\<close> but is not lowered by \<^verbatim>\<open>withdraw\<close>: here
  the owner deposits 200, withdraws everything the vault holds, and is still credited
  with 200 of a vault that holds nothing.
\<close>

lemma credit_outlives_withdrawal:
  "\<exists>s1 s2. vault_deposit (vault_env 50) ''own'' 200 open_vault = Inr ((), s1) \<and>
     vault_withdraw (vault_env 60) ''own'' ''own'' 700 s1 = Inr ((), s2) \<and>
     held (vault_env 60) s2 ''T'' = 0 \<and> get_token_account_balance ''T'' ''own'' s2 = 200"
  by (simp add: vault_deposit_def deposit_body_def flow_eval is_token_approved_def check_vault_balance_def
      set_token_account_balance_def get_token_account_balance_def vault_renew_def bump_persistent_def MAX_VAULT_DEPOSIT_def
      vault_withdraw_def withdraw_payouts_def withdraw_payouts_body_def held_def track_vault_key_def tracked_vault_keys_def)

end
