(* ===== verification/Governor.thy ===== *)
theory Governor
  imports Factory Common_Rbac
begin

text \<open>
  \<^verbatim>\<open>contracts/governor/src\<close>: \<^verbatim>\<open>DripGovernor\<close>, the protocol's parameter store with roles,
  a two-step change of the administrator, staked proposals with a timelock and a
  quorum, and the pause of the factory it controls.

  The state is the record \<open>governor\<close>: a field per storage key (the role keys are the
  store of \<open>Common_Rbac\<close>), the token ledgers, the factories at their addresses, the
  events and the TTL calls.  \<^verbatim>\<open>pause_factory\<close> and \<^verbatim>\<open>unpause_factory\<close> run the factory's
  own \<^verbatim>\<open>pause\<close> and \<^verbatim>\<open>unpause\<close>; the governor, being the direct invoker, is authorized there.

  What the proposals read of votes (tallies, abstentions, snapshots, checkpoints)
  is modelled here; casting them is the subject of \<open>Governor_Votes\<close>.
\<close>

section \<open>Types\<close>

datatype governor_error =
    NotAuthorized | InvalidParam | AlreadyInitialized | LastAdmin | NotInitialized | ContractPaused | AlreadyPaused
  | NotPaused | FactoryCallFailed | NoPendingAuthority | NotPendingAuthority | InvalidWasmHash | ProposalNotFound
  | ProposalExpired | ProposalNotPending | TimelockNotMet | QuorumNotMet | AlreadyVoted | InsufficientVotingWeight
  | AdminTransferAlreadyInProgress | ProposalStakeNotConfigured

datatype governor_role = Admin | FeeManager | RateManager | Pauser | Executor

datatype proposal_status = Pending | Executed | Cancelled | Active | Defeated

record balance_checkpoint =
  cp_ledger :: int
  cp_weight :: int

record vote_tally_snapshot =
  vs_proposal_id :: int
  vs_snapshot_ledger :: int
  vs_for_votes :: int
  vs_against_votes :: int
  vs_total_supply :: int

record vote_record =
  vr_for_votes :: int
  vr_against_votes :: int
  vr_abstain_votes :: int

record proposal =
  pr_author :: address
  pr_created_at :: int
  pr_snapshot_ledger :: int
  pr_execution_window_secs :: int
  pr_status :: proposal_status
  pr_for_votes :: int
  pr_against_votes :: int

record role_members_page =
  rp_members :: "address list"
  rp_total :: int

text \<open>The keys in persistent storage.\<close>

datatype governor_key = GkVoteRecord int | GkVoteCheckpoints address

datatype governor_event =
    EvGovInit address address address
  | EvGrantRole address governor_role address
  | EvRevokeRole address governor_role address
  | EvTransferAuthority address address
  | EvProposeAuthority address address
  | EvRevokeProposeAuthority address address
  | EvAcceptAuthority address address
  | EvSetFeeBps address int int
  | EvSetFeeRecipient address address address
  | EvSetMinDuration address int int
  | EvSetMaxRate address int int
  | EvSetMaxDuration address int int
  | EvSetForceCancelPause address int
  | EvGovPaused address int
  | EvGovUnpaused address int
  | EvGovFactoryPaused address int
  | EvGovFactoryUnpaused address int
  | EvGovUpgraded address int
  | EvSetMinQuorum address int int
  | EvProposalStake address address int
  | EvProposalCancelledByAdmin int address wasm_hash
  | EvVoteCast address int bool "string option"
  | EvVoteAbstain address int

record 'w governor =
  gk_FeeBps :: "int option"
  gk_FeeRecipient :: "address option"
  gk_MinDurationSeconds :: "int option"
  gk_MaxRatePerSecond :: "int option"
  gk_MaxDurationSeconds :: "int option"
  gk_FactoryAddress :: "address option"
  gk_ForceCancelPauseSecs :: "int option"
  gk_roles :: "governor_role rbac"
  gk_Paused :: pause_slot
  gk_PendingAuthority :: "address option"
  gk_PendingAuthorityProposer :: "address option"
  gk_Proposal :: "int \<Rightarrow> proposal option"
  gk_ProposalCounter :: "int option"
  gk_MinQuorumBps :: "int option"
  gk_ProposalStakeToken :: "address option"
  gk_MinProposalStake :: "int option"
  gk_ProposalStake :: "int \<Rightarrow> int option"
  gk_ProposalStakeTokenByProposal :: "int \<Rightarrow> address option"
  gk_GovernanceSupply :: "int option"
  gk_VoteCheckpoints :: "address \<Rightarrow> balance_checkpoint list option"
  gk_CheckpointingEnabled :: "bool option"
  gk_ProposalSnapshotLedger :: "int \<Rightarrow> int option"
  gk_ProposalVoteSnapshot :: "int \<Rightarrow> vote_tally_snapshot option"
  gk_VoterReceipt :: "int \<times> address \<Rightarrow> int option"
  gk_VotingPeriodLedgers :: "int option"
  gk_ProposalsByStatus :: "proposal_status \<Rightarrow> int list option"
  gk_VoteRecord :: "int \<Rightarrow> vote_record option"
  gk_ProposalAbstainVotes :: "int \<Rightarrow> int option"
  gv_code :: wasm_hash
  gv_world :: 'w
  gv_factories :: "address \<Rightarrow> 'w factory option"
  gv_events :: "governor_event list"
  gv_ttl :: "governor_key ttl_call list"

definition fresh_governor :: "wasm_hash \<Rightarrow> 'w \<Rightarrow> (address \<Rightarrow> 'w factory option) \<Rightarrow> 'w governor" where
  "fresh_governor code w fs = \<lparr>gk_FeeBps = None, gk_FeeRecipient = None, gk_MinDurationSeconds = None,
     gk_MaxRatePerSecond = None, gk_MaxDurationSeconds = None, gk_FactoryAddress = None, gk_ForceCancelPauseSecs = None,
     gk_roles = rbac_empty, gk_Paused = None, gk_PendingAuthority = None, gk_PendingAuthorityProposer = None,
     gk_Proposal = (\<lambda>_. None), gk_ProposalCounter = None, gk_MinQuorumBps = None, gk_ProposalStakeToken = None,
     gk_MinProposalStake = None, gk_ProposalStake = (\<lambda>_. None), gk_ProposalStakeTokenByProposal = (\<lambda>_. None),
     gk_GovernanceSupply = None, gk_VoteCheckpoints = (\<lambda>_. None), gk_CheckpointingEnabled = None,
     gk_ProposalSnapshotLedger = (\<lambda>_. None), gk_ProposalVoteSnapshot = (\<lambda>_. None),
     gk_VoterReceipt = (\<lambda>_. None), gk_VotingPeriodLedgers = None,
     gk_ProposalsByStatus = (\<lambda>_. None), gk_VoteRecord = (\<lambda>_. None), gk_ProposalAbstainVotes = (\<lambda>_. None),
     gv_code = code, gv_world = w, gv_factories = fs, gv_events = [], gv_ttl = []\<rparr>"

definition MIN_VOTING_PERIOD_LEDGERS :: int where "MIN_VOTING_PERIOD_LEDGERS = 17280"
definition MAX_ROLE_MEMBERS_PAGE_SIZE :: int where "MAX_ROLE_MEMBERS_PAGE_SIZE = 100"
definition MIN_EXECUTION_DELAY :: int where "MIN_EXECUTION_DELAY = 604800"

section \<open>Host calls\<close>

definition gov_bump :: "'w governor \<Rightarrow> 'w governor" where
  "gov_bump s = s\<lparr>gv_ttl := bump_instance (gv_ttl s)\<rparr>"

definition gov_emit :: "governor_event \<Rightarrow> 'w governor \<Rightarrow> 'w governor" where
  "gov_emit ev s = s\<lparr>gv_events := gv_events s @ [ev]\<rparr>"

fun gk_present :: "'w governor \<Rightarrow> governor_key \<Rightarrow> bool" where
  "gk_present s (GkVoteRecord i) = (gk_VoteRecord s i \<noteq> None)"
| "gk_present s (GkVoteCheckpoints a) = (gk_VoteCheckpoints s a \<noteq> None)"

definition gov_renew :: "governor_key \<Rightarrow> 'w governor \<Rightarrow> (governor_error, 'w governor) res" where
  "gov_renew k s = and_then (bump_persistent (gk_present s) k (gv_ttl s)) (\<lambda>l. Inr (s\<lparr>gv_ttl := l\<rparr>))"

section \<open>Configuration\<close>

definition config_load :: "'w governor \<Rightarrow> (governor_error, governor_config) res" where
  "config_load s =
     and_then (ok_or (gk_FeeRecipient s) (Err NotInitialized)) (\<lambda>fee_recipient.
     and_then (ok_or (gk_FactoryAddress s) (Err NotInitialized)) (\<lambda>factory_address.
     Inr \<lparr>gc_fee_bps = (case gk_FeeBps s of Some x \<Rightarrow> x | None \<Rightarrow> 30),
          gc_fee_recipient = fee_recipient,
          gc_min_duration_seconds = (case gk_MinDurationSeconds s of Some x \<Rightarrow> x | None \<Rightarrow> 3600),
          gc_max_duration_seconds = (case gk_MaxDurationSeconds s of Some x \<Rightarrow> x | None \<Rightarrow> 315360000),
          gc_max_rate_per_second = (case gk_MaxRatePerSecond s of Some x \<Rightarrow> x | None \<Rightarrow> 1000000000000000),
          gc_factory_address = factory_address,
          gc_force_cancel_pause_secs = (case gk_ForceCancelPauseSecs s of Some x \<Rightarrow> x | None \<Rightarrow> 2592000),
          gc_min_quorum_bps = (case gk_MinQuorumBps s of Some x \<Rightarrow> x | None \<Rightarrow> 0),
          gc_voting_period_ledgers = (case gk_VotingPeriodLedgers s of Some x \<Rightarrow> x | None \<Rightarrow> MIN_VOTING_PERIOD_LEDGERS),
          gc_proposal_stake_token = gk_ProposalStakeToken s,
          gc_min_proposal_stake = (case gk_MinProposalStake s of Some x \<Rightarrow> x | None \<Rightarrow> 0)\<rparr>))"

definition set_voting_period :: "int \<Rightarrow> 'w governor \<Rightarrow> (governor_error, 'w governor) res" where
  "set_voting_period n s =
     (if n < MIN_VOTING_PERIOD_LEDGERS then Inl (Err InvalidParam) else Inr (s\<lparr>gk_VotingPeriodLedgers := Some n\<rparr>))"

definition get_voting_period :: "'w governor \<Rightarrow> int" where
  "get_voting_period s = (case gk_VotingPeriodLedgers s of Some x \<Rightarrow> x | None \<Rightarrow> MIN_VOTING_PERIOD_LEDGERS)"

definition store_proposal_stake_config :: "address \<Rightarrow> int \<Rightarrow> 'w governor \<Rightarrow> (governor_error, 'w governor) res" where
  "store_proposal_stake_config tok min_stake s =
     (if min_stake \<le> 0 \<or> is_zero_address tok then Inl (Err InvalidParam) else
      Inr (s\<lparr>gk_ProposalStakeToken := Some tok, gk_MinProposalStake := Some min_stake\<rparr>))"

section \<open>Proposal storage\<close>

definition proposals_by_status :: "proposal_status \<Rightarrow> 'w governor \<Rightarrow> int list" where
  "proposals_by_status st s = (case gk_ProposalsByStatus s st of Some ids \<Rightarrow> ids | None \<Rightarrow> [])"

definition add_proposal_to_status_index :: "int \<Rightarrow> proposal_status \<Rightarrow> 'w governor \<Rightarrow> 'w governor" where
  "add_proposal_to_status_index i st s =
     (let ids = proposals_by_status st s in
      if i \<in> set ids then s else s\<lparr>gk_ProposalsByStatus := (gk_ProposalsByStatus s)(st \<mapsto> ids @ [i])\<rparr>)"

definition remove_proposal_from_status_index :: "int \<Rightarrow> proposal_status \<Rightarrow> 'w governor \<Rightarrow> 'w governor" where
  "remove_proposal_from_status_index i st s =
     s\<lparr>gk_ProposalsByStatus := (gk_ProposalsByStatus s)(st \<mapsto> filter (\<lambda>j. j \<noteq> i) (proposals_by_status st s))\<rparr>"

definition set_proposal_status :: "int \<Rightarrow> proposal_status \<Rightarrow> 'w governor \<Rightarrow> bool \<times> 'w governor" where
  "set_proposal_status i new_status s = (case gk_Proposal s i of
      None \<Rightarrow> (False, s)
    | Some p \<Rightarrow>
        (if pr_status p \<noteq> new_status then
           (let s1 = remove_proposal_from_status_index i (pr_status p) s;
                s2 = s1\<lparr>gk_Proposal := (gk_Proposal s1)(i \<mapsto> p\<lparr>pr_status := new_status\<rparr>)\<rparr>
            in (True, add_proposal_to_status_index i new_status s2))
         else (True, s)))"

definition get_abstain_votes :: "int \<Rightarrow> 'w governor \<Rightarrow> int" where
  "get_abstain_votes i s = (case gk_ProposalAbstainVotes s i of Some n \<Rightarrow> n | None \<Rightarrow> 0)"

definition add_abstain_votes :: "int \<Rightarrow> int \<Rightarrow> 'w governor \<Rightarrow> int \<times> 'w governor" where
  "add_abstain_votes i weight s =
     (let tot = sat_u64 (get_abstain_votes i s + weight)
      in (tot, s\<lparr>gk_ProposalAbstainVotes := (gk_ProposalAbstainVotes s)(i \<mapsto> tot)\<rparr>))"

definition archive_vote_record :: "int \<Rightarrow> proposal \<Rightarrow> 'w governor \<Rightarrow> (governor_error, 'w governor) res" where
  "archive_vote_record i p s =
     (if gk_VoteRecord s i \<noteq> None then Inr s else
      gov_renew (GkVoteRecord i) (s\<lparr>gk_VoteRecord := (gk_VoteRecord s)(i \<mapsto>
        \<lparr>vr_for_votes = pr_for_votes p, vr_against_votes = pr_against_votes p,
         vr_abstain_votes = get_abstain_votes i s\<rparr>)\<rparr>))"

definition get_vote_record :: "int \<Rightarrow> 'w governor \<Rightarrow> (governor_error, vote_record \<times> 'w governor) res" where
  "get_vote_record i s = (case gk_VoteRecord s i of
      None \<Rightarrow> Inl (Err ProposalNotFound)
    | Some r \<Rightarrow> and_then (gov_renew (GkVoteRecord i) s) (\<lambda>s1. Inr (r, s1)))"

definition record_checkpoint_at :: "address \<Rightarrow> int \<Rightarrow> int \<Rightarrow> 'w governor \<Rightarrow> (governor_error, 'w governor) res" where
  "record_checkpoint_at account ledger_seq weight s =
     (let s1 = s\<lparr>gk_CheckpointingEnabled := Some True\<rparr>;
          cps = (case gk_VoteCheckpoints s1 account of Some xs \<Rightarrow> xs | None \<Rightarrow> []);
          cp = \<lparr>cp_ledger = ledger_seq, cp_weight = weight\<rparr>;
          cps' = (if cps \<noteq> [] \<and> ledger_seq \<le> cp_ledger (last cps) then cps[length cps - 1 := cp] else cps @ [cp])
      in gov_renew (GkVoteCheckpoints account) (s1\<lparr>gk_VoteCheckpoints := (gk_VoteCheckpoints s1)(account \<mapsto> cps')\<rparr>))"

text \<open>The scan stops at the first checkpoint after the snapshot.\<close>

fun scan_checkpoints :: "int \<Rightarrow> balance_checkpoint list \<Rightarrow> int \<Rightarrow> int" where
  "scan_checkpoints snapshot [] matched = matched"
| "scan_checkpoints snapshot (cp # cps) matched =
     (if cp_ledger cp \<le> snapshot then scan_checkpoints snapshot cps (cp_weight cp) else matched)"

definition get_checkpoint_weight :: "address \<Rightarrow> int \<Rightarrow> 'w governor \<Rightarrow> int option" where
  "get_checkpoint_weight account snapshot s = (case gk_VoteCheckpoints s account of
      Some cps \<Rightarrow> Some (scan_checkpoints snapshot cps 0)
    | None \<Rightarrow> (if (case gk_CheckpointingEnabled s of Some b \<Rightarrow> b | None \<Rightarrow> False) then Some 0 else None))"

section \<open>Roles\<close>

definition gov_has_role :: "'w env \<Rightarrow> governor_role \<Rightarrow> address \<Rightarrow> 'w governor \<Rightarrow> bool" where
  "gov_has_role e r a s = has_role (timestamp e) (gk_roles s) r a"

definition gov_admin_count :: "'w governor \<Rightarrow> int" where
  "gov_admin_count s = admin_count (gk_roles s)"

definition gov_grant_with_expiration ::
  "'w env \<Rightarrow> governor_role \<Rightarrow> address \<Rightarrow> int option \<Rightarrow> 'w governor \<Rightarrow> (governor_error, bool \<times> 'w governor) res" where
  "gov_grant_with_expiration e r a expiry s =
     and_then (grant_with_expiration (timestamp e) r (r = Admin) a expiry (gk_roles s)) (\<lambda>(b, rs).
     Inr (b, s\<lparr>gk_roles := rs\<rparr>))"

definition gov_grant ::
  "'w env \<Rightarrow> governor_role \<Rightarrow> address \<Rightarrow> 'w governor \<Rightarrow> (governor_error, bool \<times> 'w governor) res" where
  "gov_grant e r a s =
     and_then (grant (timestamp e) r (r = Admin) a (gk_roles s)) (\<lambda>(b, rs). Inr (b, s\<lparr>gk_roles := rs\<rparr>))"

fun rbac_to_governor :: "rbac_error \<Rightarrow> governor_error" where
  "rbac_to_governor rbac_error.LastAdmin = LastAdmin"
| "rbac_to_governor rbac_error.NotAuthorized = NotAuthorized"

definition gov_revoke ::
  "'w env \<Rightarrow> governor_role \<Rightarrow> address \<Rightarrow> 'w governor \<Rightarrow> (governor_error, bool \<times> 'w governor) res" where
  "gov_revoke e r a s =
     and_then (map_err rbac_to_governor (revoke (timestamp e) r (r = Admin) a (gk_roles s))) (\<lambda>(b, rs).
     Inr (b, s\<lparr>gk_roles := rs\<rparr>))"

definition gov_require_role ::
  "'w env \<Rightarrow> address \<Rightarrow> governor_role \<Rightarrow> 'w governor \<Rightarrow> (governor_error, 'w governor) res" where
  "gov_require_role e caller r s =
     and_then (map_err (\<lambda>_. NotAuthorized) (require_role e caller r (gk_roles s))) (\<lambda>_. Inr (gov_bump s))"

definition gov_require_role_or_admin ::
  "'w env \<Rightarrow> address \<Rightarrow> governor_role \<Rightarrow> 'w governor \<Rightarrow> (governor_error, 'w governor) res" where
  "gov_require_role_or_admin e caller r s =
     and_then (map_err (\<lambda>_. NotAuthorized) (require_role_or_admin e caller r Admin (gk_roles s))) (\<lambda>_. Inr (gov_bump s))"

definition require_executor :: "'w env \<Rightarrow> address \<Rightarrow> 'w governor \<Rightarrow> (governor_error, 'w governor) res" where
  "require_executor e caller s = gov_require_role e caller Executor s"

definition require_emergency_responder :: "'w env \<Rightarrow> address \<Rightarrow> 'w governor \<Rightarrow> (governor_error, 'w governor) res" where
  "require_emergency_responder e caller s = gov_require_role_or_admin e caller Pauser s"

definition gov_role_members :: "'w env \<Rightarrow> governor_role \<Rightarrow> int \<Rightarrow> int \<Rightarrow> 'w governor \<Rightarrow> role_members_page" where
  "gov_role_members e r offset limit s =
     (let active = filter (\<lambda>a. gov_has_role e r a s) (role_members (gk_roles s) r);
          tot = int (length active);
          start = min offset tot;
          stop = min (sat_u32 (start + min limit MAX_ROLE_MEMBERS_PAGE_SIZE)) tot
      in \<lparr>rp_members = map (\<lambda>i. active ! nat i) [start .. stop - 1], rp_total = tot\<rparr>)"

definition propose_admin :: "'w env \<Rightarrow> address \<Rightarrow> address \<Rightarrow> 'w governor \<Rightarrow> (governor_error, 'w governor) res" where
  "propose_admin e proposer new_admin s =
     and_then (gov_require_role e proposer Admin s) (\<lambda>s1.
     if gk_PendingAuthority s1 \<noteq> None then Inl (Err AdminTransferAlreadyInProgress) else
     if gov_has_role e Admin new_admin s1 then Inl (Err InvalidParam) else
     Inr (gov_emit (EvProposeAuthority proposer new_admin)
       (s1\<lparr>gk_PendingAuthority := Some new_admin, gk_PendingAuthorityProposer := Some proposer\<rparr>)))"

definition claim_admin :: "'w env \<Rightarrow> address \<Rightarrow> 'w governor \<Rightarrow> (governor_error, 'w governor) res" where
  "claim_admin e claimer s =
     and_then (ok_or (gk_PendingAuthority s) (Err NoPendingAuthority)) (\<lambda>pending.
     if claimer \<noteq> pending then Inl (Err NotPendingAuthority) else
     and_then (require_auth e claimer) (\<lambda>_.
     let s1 = gov_bump s in
     and_then (ok_or (gk_PendingAuthorityProposer s1) (Err NoPendingAuthority)) (\<lambda>proposer.
     and_then (gov_grant e Admin claimer s1) (\<lambda>(_, s2).
     and_then (gov_revoke e Admin proposer s2) (\<lambda>(_, s3).
     Inr (gov_emit (EvAcceptAuthority claimer proposer)
       (s3\<lparr>gk_PendingAuthority := None, gk_PendingAuthorityProposer := None\<rparr>)))))))"

definition revoke_propose_admin :: "'w env \<Rightarrow> address \<Rightarrow> 'w governor \<Rightarrow> (governor_error, 'w governor) res" where
  "revoke_propose_admin e caller s =
     and_then (gov_require_role e caller Admin s) (\<lambda>s1.
     and_then (ok_or (gk_PendingAuthority s1) (Err NoPendingAuthority)) (\<lambda>pending.
     Inr (gov_emit (EvRevokeProposeAuthority caller pending)
       (s1\<lparr>gk_PendingAuthority := None, gk_PendingAuthorityProposer := None\<rparr>))))"

section \<open>Pause\<close>

definition gov_is_paused :: "'w env \<Rightarrow> 'w governor \<Rightarrow> bool \<times> 'w governor" where
  "gov_is_paused e s = (let (p, slot) = is_paused (timestamp e) (gk_Paused s) in (p, s\<lparr>gk_Paused := slot\<rparr>))"

definition gov_set_paused :: "'w env \<Rightarrow> bool \<Rightarrow> 'w governor \<Rightarrow> (governor_error, 'w governor) res" where
  "gov_set_paused e p s =
     and_then (ignore_err (gk_Paused s) (set_paused (timestamp e) p (gk_Paused s))) (\<lambda>slot. Inr (s\<lparr>gk_Paused := slot\<rparr>))"

definition gov_assert_not_paused :: "'w env \<Rightarrow> 'w governor \<Rightarrow> (governor_error, 'w governor) res" where
  "gov_assert_not_paused e s =
     and_then (map_err (\<lambda>_. ContractPaused) (require_not_paused (timestamp e) (gk_Paused s))) (\<lambda>slot.
     Inr (s\<lparr>gk_Paused := slot\<rparr>))"

definition governor_pause :: "'w env \<Rightarrow> address \<Rightarrow> 'w governor \<Rightarrow> (governor_error, 'w governor) res" where
  "governor_pause e caller s =
     and_then (gov_require_role_or_admin e caller Pauser s) (\<lambda>s1.
     let (p, s2) = gov_is_paused e s1 in
     if p then Inl (Err AlreadyPaused) else
     and_then (gov_set_paused e True s2) (\<lambda>s3.
     Inr (gov_emit (EvGovPaused caller (timestamp e)) s3)))"

definition governor_unpause :: "'w env \<Rightarrow> address \<Rightarrow> 'w governor \<Rightarrow> (governor_error, 'w governor) res" where
  "governor_unpause e caller s =
     and_then (gov_require_role_or_admin e caller Pauser s) (\<lambda>s1.
     let (p, s2) = gov_is_paused e s1 in
     if \<not> p then Inl (Err NotPaused) else
     and_then (gov_set_paused e False s2) (\<lambda>s3.
     Inr (gov_emit (EvGovUnpaused caller (timestamp e)) s3)))"

text \<open>
  A call of the factory at \<open>addr\<close>, with the governor as the direct invoker: every
  failure, a missing contract included, is one and the same error.
\<close>

definition invoke_factory ::
  "'w chain \<Rightarrow> address \<Rightarrow> ('w chain \<Rightarrow> 'w factory \<Rightarrow> (factory_error, 'w factory) res) \<Rightarrow> 'w governor \<Rightarrow>
   (governor_error, 'w governor) res" where
  "invoke_factory c addr call s =
     (let e = ch_env c;
          c' = c\<lparr>ch_env := e\<lparr>contract_address := addr, authorized := (\<lambda>a. authorized e a \<or> a = contract_address e)\<rparr>\<rparr>
      in case gv_factories s addr of
           None \<Rightarrow> Inl (Err FactoryCallFailed)
         | Some f \<Rightarrow> (case call c' (f\<lparr>fa_world := gv_world s\<rparr>) of
             Inl _ \<Rightarrow> Inl (Err FactoryCallFailed)
           | Inr f' \<Rightarrow> Inr (s\<lparr>gv_world := fa_world f', gv_factories := (gv_factories s)(addr \<mapsto> f')\<rparr>)))"

definition pause_factory :: "'w chain \<Rightarrow> address \<Rightarrow> 'w governor \<Rightarrow> (governor_error, 'w governor) res" where
  "pause_factory c caller s =
     and_then (gov_require_role_or_admin (ch_env c) caller Pauser s) (\<lambda>s1.
     and_then (ok_or (gk_FactoryAddress s1) (Err NotInitialized)) (\<lambda>factory.
     and_then (invoke_factory c factory factory_pause s1) (\<lambda>s2.
     Inr (gov_emit (EvGovFactoryPaused caller (timestamp (ch_env c))) s2))))"

definition unpause_factory :: "'w chain \<Rightarrow> address \<Rightarrow> 'w governor \<Rightarrow> (governor_error, 'w governor) res" where
  "unpause_factory c caller s =
     and_then (gov_require_role_or_admin (ch_env c) caller Pauser s) (\<lambda>s1.
     and_then (ok_or (gk_FactoryAddress s1) (Err NotInitialized)) (\<lambda>factory.
     and_then (invoke_factory c factory factory_unpause s1) (\<lambda>s2.
     Inr (gov_emit (EvGovFactoryUnpaused caller (timestamp (ch_env c))) s2))))"

end
