(* ===== verification/Governor_Ops.thy ===== *)
theory Governor_Ops
  imports Governor
begin

text \<open>
  The entry points of \<^verbatim>\<open>DripGovernor\<close> (\<^verbatim>\<open>contracts/governor/src/lib.rs\<close>), in the order of
  the source, apart from the pause calls of the theory before and the votes.
\<close>

section \<open>Initialisation and roles\<close>

definition governor_initialize ::
  "'w env \<Rightarrow> address \<Rightarrow> address \<Rightarrow> address \<Rightarrow> 'w governor \<Rightarrow> (governor_error, 'w governor) res" where
  "governor_initialize e authority fee_recipient factory_address s =
     (if gk_FactoryAddress s \<noteq> None then Inl (Err AlreadyInitialized) else
      let s1 = (gov_bump s)\<lparr>gk_FeeBps := Some 30, gk_FeeRecipient := Some fee_recipient,
                 gk_MinDurationSeconds := Some 3600, gk_MaxDurationSeconds := Some 315360000,
                 gk_MaxRatePerSecond := Some 1000000000000000, gk_FactoryAddress := Some factory_address,
                 gk_ForceCancelPauseSecs := Some 2592000, gk_MinQuorumBps := Some 0, gk_MinProposalStake := Some 0\<rparr> in
      and_then (gov_grant e Admin authority s1) (\<lambda>(_, s2).
      and_then (gov_grant e FeeManager authority s2) (\<lambda>(_, s3).
      and_then (gov_grant e RateManager authority s3) (\<lambda>(_, s4).
      and_then (gov_grant e Pauser authority s4) (\<lambda>(_, s5).
      Inr (gov_emit (EvGovInit authority fee_recipient factory_address) s5))))))"

text \<open>The event of a role change is published only when the change was new.\<close>

definition emit_if :: "bool \<Rightarrow> governor_event \<Rightarrow> 'w governor \<Rightarrow> 'w governor" where
  "emit_if b ev s = (if b then gov_emit ev s else s)"

definition grant_role_with_expiration ::
  "'w env \<Rightarrow> address \<Rightarrow> governor_role \<Rightarrow> address \<Rightarrow> int option \<Rightarrow> 'w governor \<Rightarrow> (governor_error, 'w governor) res" where
  "grant_role_with_expiration e caller r account expiry s =
     and_then (gov_require_role e caller Admin s) (\<lambda>s1.
     if (r = Admin \<and> expiry \<noteq> None) \<or> (case expiry of Some t \<Rightarrow> t \<le> timestamp e | None \<Rightarrow> False)
     then Inl (Err InvalidParam) else
     and_then (gov_grant_with_expiration e r account expiry s1) (\<lambda>(b, s2).
     Inr (emit_if b (EvGrantRole caller r account) s2)))"

definition grant_role ::
  "'w env \<Rightarrow> address \<Rightarrow> governor_role \<Rightarrow> address \<Rightarrow> 'w governor \<Rightarrow> (governor_error, 'w governor) res" where
  "grant_role e caller r account s =
     and_then (gov_require_role e caller Admin s) (\<lambda>s1.
     and_then (gov_grant e r account s1) (\<lambda>(b, s2).
     Inr (emit_if b (EvGrantRole caller r account) s2)))"

definition revoke_role ::
  "'w env \<Rightarrow> address \<Rightarrow> governor_role \<Rightarrow> address \<Rightarrow> 'w governor \<Rightarrow> (governor_error, 'w governor) res" where
  "revoke_role e caller r account s =
     and_then (gov_require_role e caller Admin s) (\<lambda>s1.
     and_then (gov_revoke e r account s1) (\<lambda>(b, s2).
     Inr (emit_if b (EvRevokeRole caller r account) s2)))"

fun grant_each ::
  "'w env \<Rightarrow> address \<Rightarrow> governor_role \<Rightarrow> address list \<Rightarrow> 'w governor \<Rightarrow> (governor_error, 'w governor) res" where
  "grant_each e caller r [] s = Inr s"
| "grant_each e caller r (account # rest) s =
     and_then (gov_grant e r account s) (\<lambda>(b, s1).
     grant_each e caller r rest (emit_if b (EvGrantRole caller r account) s1))"

fun revoke_each ::
  "'w env \<Rightarrow> address \<Rightarrow> governor_role \<Rightarrow> address list \<Rightarrow> 'w governor \<Rightarrow> (governor_error, 'w governor) res" where
  "revoke_each e caller r [] s = Inr s"
| "revoke_each e caller r (account # rest) s =
     and_then (gov_revoke e r account s) (\<lambda>(b, s1).
     revoke_each e caller r rest (emit_if b (EvRevokeRole caller r account) s1))"

definition grant_role_batch ::
  "'w env \<Rightarrow> address \<Rightarrow> governor_role \<Rightarrow> address list \<Rightarrow> 'w governor \<Rightarrow> (governor_error, 'w governor) res" where
  "grant_role_batch e caller r accounts s =
     and_then (gov_require_role e caller Admin s) (\<lambda>s1. grant_each e caller r accounts s1)"

definition revoke_role_batch ::
  "'w env \<Rightarrow> address \<Rightarrow> governor_role \<Rightarrow> address list \<Rightarrow> 'w governor \<Rightarrow> (governor_error, 'w governor) res" where
  "revoke_role_batch e caller r accounts s =
     and_then (gov_require_role e caller Admin s) (\<lambda>s1. revoke_each e caller r accounts s1)"

definition transfer_authority :: "'w env \<Rightarrow> address \<Rightarrow> address \<Rightarrow> 'w governor \<Rightarrow> (governor_error, 'w governor) res" where
  "transfer_authority e caller new_authority s =
     (if new_authority = caller \<or> is_zero_address new_authority \<or> gov_has_role e Admin new_authority s
      then Inl (Err InvalidParam) else
      and_then (gov_require_role e caller Admin s) (\<lambda>s1.
      and_then (gov_grant e Admin new_authority s1) (\<lambda>(_, s2).
      and_then (gov_revoke e Admin caller s2) (\<lambda>(_, s3).
      Inr (gov_emit (EvTransferAuthority caller new_authority) s3)))))"

definition propose_authority :: "'w env \<Rightarrow> address \<Rightarrow> address \<Rightarrow> 'w governor \<Rightarrow> (governor_error, 'w governor) res" where
  "propose_authority e caller new_authority s =
     (if is_zero_address new_authority \<or> gov_has_role e Admin new_authority s then Inl (Err InvalidParam) else
      and_then (gov_require_role e caller Admin s) (\<lambda>s1.
      if gk_PendingAuthority s1 \<noteq> None then Inl (Err AdminTransferAlreadyInProgress) else
      Inr (gov_emit (EvProposeAuthority caller new_authority)
        (s1\<lparr>gk_PendingAuthority := Some new_authority, gk_PendingAuthorityProposer := Some caller\<rparr>))))"

text \<open>
  \<^verbatim>\<open>revoke_propose_authority\<close> and \<^verbatim>\<open>accept_authority\<close> repeat the code of \<^verbatim>\<open>role.rs\<close> line by line.
\<close>

definition revoke_propose_authority :: "'w env \<Rightarrow> address \<Rightarrow> 'w governor \<Rightarrow> (governor_error, 'w governor) res" where
  "revoke_propose_authority e caller s =
     and_then (gov_require_role e caller Admin s) (\<lambda>s1.
     and_then (ok_or (gk_PendingAuthority s1) (Err NoPendingAuthority)) (\<lambda>pending.
     Inr (gov_emit (EvRevokeProposeAuthority caller pending)
       (s1\<lparr>gk_PendingAuthority := None, gk_PendingAuthorityProposer := None\<rparr>))))"

definition accept_authority :: "'w env \<Rightarrow> address \<Rightarrow> 'w governor \<Rightarrow> (governor_error, 'w governor) res" where
  "accept_authority e caller s =
     and_then (ok_or (gk_PendingAuthority s) (Err NoPendingAuthority)) (\<lambda>pending.
     if caller \<noteq> pending then Inl (Err NotPendingAuthority) else
     and_then (require_auth e caller) (\<lambda>_.
     let s1 = gov_bump s in
     and_then (ok_or (gk_PendingAuthorityProposer s1) (Err NoPendingAuthority)) (\<lambda>proposer.
     and_then (gov_grant e Admin caller s1) (\<lambda>(_, s2).
     and_then (gov_revoke e Admin proposer s2) (\<lambda>(_, s3).
     Inr (gov_emit (EvAcceptAuthority caller proposer)
       (s3\<lparr>gk_PendingAuthority := None, gk_PendingAuthorityProposer := None\<rparr>)))))))"

definition governor_upgrade :: "'w env \<Rightarrow> address \<Rightarrow> wasm_hash \<Rightarrow> 'w governor \<Rightarrow> (governor_error, 'w governor) res" where
  "governor_upgrade e caller new_wasm_hash s =
     and_then (gov_require_role e caller Admin s) (\<lambda>s1.
     and_then (gov_assert_not_paused e s1) (\<lambda>s2.
     if new_wasm_hash = replicate 32 0 then Inl (Err InvalidWasmHash) else
     Inr (gov_emit (EvGovUpgraded caller (timestamp e)) ((gov_bump s2)\<lparr>gv_code := new_wasm_hash\<rparr>))))"

section \<open>Parameters\<close>

definition set_fee_bps :: "'w env \<Rightarrow> address \<Rightarrow> int \<Rightarrow> 'w governor \<Rightarrow> (governor_error, 'w governor) res" where
  "set_fee_bps e caller fee_bps s =
     (if 10000 < fee_bps then Inl (Err InvalidParam) else
      and_then (gov_assert_not_paused e s) (\<lambda>s1.
      and_then (gov_require_role_or_admin e caller FeeManager s1) (\<lambda>s2.
      let old_fee_bps = (case gk_FeeBps s2 of Some x \<Rightarrow> x | None \<Rightarrow> 30) in
      Inr (gov_emit (EvSetFeeBps caller old_fee_bps fee_bps) (s2\<lparr>gk_FeeBps := Some fee_bps\<rparr>)))))"

definition set_fee_recipient :: "'w env \<Rightarrow> address \<Rightarrow> address \<Rightarrow> 'w governor \<Rightarrow> (governor_error, 'w governor) res" where
  "set_fee_recipient e caller recipient s =
     (if is_zero_address recipient then Inl (Err InvalidParam) else
      and_then (gov_assert_not_paused e s) (\<lambda>s1.
      and_then (gov_require_role_or_admin e caller FeeManager s1) (\<lambda>s2.
      and_then (ok_or (gk_FeeRecipient s2) (Err NotInitialized)) (\<lambda>old_recipient.
      Inr (gov_emit (EvSetFeeRecipient caller old_recipient recipient) (s2\<lparr>gk_FeeRecipient := Some recipient\<rparr>))))))"

definition set_min_duration :: "'w env \<Rightarrow> address \<Rightarrow> int \<Rightarrow> 'w governor \<Rightarrow> (governor_error, 'w governor) res" where
  "set_min_duration e caller seconds s =
     (if seconds = 0 then Inl (Err InvalidParam) else
      and_then (gov_assert_not_paused e s) (\<lambda>s1.
      and_then (gov_require_role_or_admin e caller RateManager s1) (\<lambda>s2.
      let old_min_duration = (case gk_MinDurationSeconds s2 of Some x \<Rightarrow> x | None \<Rightarrow> 3600);
          max_duration = (case gk_MaxDurationSeconds s2 of Some x \<Rightarrow> x | None \<Rightarrow> 315360000) in
      if max_duration < seconds then Inl (Err InvalidParam) else
      let max_rate = (case gk_MaxRatePerSecond s2 of Some x \<Rightarrow> x | None \<Rightarrow> 1000000000000000) in
      and_then (ok_or (checked_i128 (max_rate * seconds)) (Err InvalidParam)) (\<lambda>_.
      Inr (gov_emit (EvSetMinDuration caller old_min_duration seconds) (s2\<lparr>gk_MinDurationSeconds := Some seconds\<rparr>))))))"

definition set_max_rate :: "'w env \<Rightarrow> address \<Rightarrow> int \<Rightarrow> 'w governor \<Rightarrow> (governor_error, 'w governor) res" where
  "set_max_rate e caller max_rate s =
     (if max_rate \<le> 0 then Inl (Err InvalidParam) else
      and_then (gov_assert_not_paused e s) (\<lambda>s1.
      and_then (gov_require_role_or_admin e caller RateManager s1) (\<lambda>s2.
      let old_max_rate = (case gk_MaxRatePerSecond s2 of Some x \<Rightarrow> x | None \<Rightarrow> 1000000000000000);
          min_duration = (case gk_MinDurationSeconds s2 of Some x \<Rightarrow> x | None \<Rightarrow> 3600) in
      and_then (ok_or (checked_i128 (max_rate * min_duration)) (Err InvalidParam)) (\<lambda>_.
      Inr (gov_emit (EvSetMaxRate caller old_max_rate max_rate) (s2\<lparr>gk_MaxRatePerSecond := Some max_rate\<rparr>))))))"

definition set_max_duration :: "'w env \<Rightarrow> address \<Rightarrow> int \<Rightarrow> 'w governor \<Rightarrow> (governor_error, 'w governor) res" where
  "set_max_duration e caller seconds s =
     (if seconds = 0 then Inl (Err InvalidParam) else
      and_then (gov_assert_not_paused e s) (\<lambda>s1.
      and_then (gov_require_role_or_admin e caller RateManager s1) (\<lambda>s2.
      let old_max_duration = (case gk_MaxDurationSeconds s2 of Some x \<Rightarrow> x | None \<Rightarrow> 315360000);
          min_duration = (case gk_MinDurationSeconds s2 of Some x \<Rightarrow> x | None \<Rightarrow> 3600) in
      if seconds < min_duration then Inl (Err InvalidParam) else
      Inr (gov_emit (EvSetMaxDuration caller old_max_duration seconds) (s2\<lparr>gk_MaxDurationSeconds := Some seconds\<rparr>)))))"

definition set_force_cancel_pause_threshold ::
  "'w env \<Rightarrow> address \<Rightarrow> int \<Rightarrow> 'w governor \<Rightarrow> (governor_error, 'w governor) res" where
  "set_force_cancel_pause_threshold e caller seconds s =
     (if seconds = 0 then Inl (Err InvalidParam) else
      and_then (gov_assert_not_paused e s) (\<lambda>s1.
      and_then (gov_require_role_or_admin e caller RateManager s1) (\<lambda>s2.
      Inr (gov_emit (EvSetForceCancelPause caller seconds) (s2\<lparr>gk_ForceCancelPauseSecs := Some seconds\<rparr>)))))"

definition set_min_quorum_bps :: "'w env \<Rightarrow> address \<Rightarrow> int \<Rightarrow> 'w governor \<Rightarrow> (governor_error, 'w governor) res" where
  "set_min_quorum_bps e caller bps s =
     (if 10000 < bps then Inl (Err InvalidParam) else
      and_then (gov_assert_not_paused e s) (\<lambda>s1.
      and_then (gov_require_role_or_admin e caller Admin s1) (\<lambda>s2.
      let old_bps = (case gk_MinQuorumBps s2 of Some x \<Rightarrow> x | None \<Rightarrow> 0) in
      Inr (gov_emit (EvSetMinQuorum caller old_bps bps) (s2\<lparr>gk_MinQuorumBps := Some bps\<rparr>)))))"

definition set_governance_supply :: "'w env \<Rightarrow> address \<Rightarrow> int \<Rightarrow> 'w governor \<Rightarrow> (governor_error, 'w governor) res" where
  "set_governance_supply e caller supply s =
     (if supply = 0 then Inl (Err InvalidParam) else
      and_then (gov_assert_not_paused e s) (\<lambda>s1.
      and_then (gov_require_role_or_admin e caller Admin s1) (\<lambda>s2.
      Inr (s2\<lparr>gk_GovernanceSupply := Some supply\<rparr>))))"

definition governance_supply :: "'w governor \<Rightarrow> int" where
  "governance_supply s = (case gk_GovernanceSupply s of Some n \<Rightarrow> n
     | None \<Rightarrow> (case admin_counter (gk_roles s) of Some n \<Rightarrow> n | None \<Rightarrow> 1))"

definition set_proposal_stake_config ::
  "'w env \<Rightarrow> address \<Rightarrow> address \<Rightarrow> int \<Rightarrow> 'w governor \<Rightarrow> (governor_error, 'w governor) res" where
  "set_proposal_stake_config e caller tok min_stake s =
     and_then (gov_assert_not_paused e s) (\<lambda>s1.
     and_then (gov_require_role e caller Admin s1) (\<lambda>s2.
     and_then (store_proposal_stake_config tok min_stake s2) (\<lambda>s3.
     Inr (gov_emit (EvProposalStake caller tok min_stake) s3))))"

section \<open>Proposals\<close>

definition checkpoint_balance ::
  "'w env \<Rightarrow> address \<Rightarrow> address \<Rightarrow> int \<Rightarrow> 'w governor \<Rightarrow> (governor_error, 'w governor) res" where
  "checkpoint_balance e caller voter weight s =
     and_then (gov_require_role_or_admin e caller Admin s) (\<lambda>s1.
     record_checkpoint_at voter (sequence e) weight (gov_bump s1))"

definition get_prior_votes :: "address \<Rightarrow> int \<Rightarrow> 'w governor \<Rightarrow> int" where
  "get_prior_votes account ledger_seq s =
     (case get_checkpoint_weight account ledger_seq s of Some n \<Rightarrow> n | None \<Rightarrow> 0)"

definition gov_transfer ::
  "'w env \<Rightarrow> address \<Rightarrow> address \<Rightarrow> address \<Rightarrow> int \<Rightarrow> 'w governor \<Rightarrow> (governor_error, 'w governor) res" where
  "gov_transfer e tok src dst amt s =
     and_then (transfer_call e (gv_world s) tok src dst amt) (\<lambda>w. Inr (s\<lparr>gv_world := w\<rparr>))"

text \<open>The writes of \<^verbatim>\<open>propose\<close>, once the stake has been received.\<close>

definition new_proposal :: "'w env \<Rightarrow> address \<Rightarrow> int \<Rightarrow> proposal" where
  "new_proposal e caller execution_window_secs =
     \<lparr>pr_author = caller, pr_created_at = timestamp e, pr_snapshot_ledger = sequence e,
      pr_execution_window_secs = execution_window_secs, pr_status = Pending, pr_for_votes = 0, pr_against_votes = 0\<rparr>"

definition write_proposal ::
  "'w env \<Rightarrow> int \<Rightarrow> proposal \<Rightarrow> address \<Rightarrow> int \<Rightarrow> 'w governor \<Rightarrow> 'w governor" where
  "write_proposal e proposal_id p tok stake s =
     (let snap = \<lparr>vs_proposal_id = proposal_id, vs_snapshot_ledger = sequence e, vs_for_votes = 0, vs_against_votes = 0,
                  vs_total_supply = governance_supply s\<rparr>;
          s1 = s\<lparr>gk_Proposal := (gk_Proposal s)(proposal_id \<mapsto> p),
                 gk_ProposalAbstainVotes := (gk_ProposalAbstainVotes s)(proposal_id \<mapsto> 0),
                 gk_ProposalCounter := Some proposal_id,
                 gk_ProposalStake := (gk_ProposalStake s)(proposal_id \<mapsto> stake),
                 gk_ProposalStakeTokenByProposal := (gk_ProposalStakeTokenByProposal s)(proposal_id \<mapsto> tok)\<rparr>;
          s2 = add_proposal_to_status_index proposal_id Pending s1
      in s2\<lparr>gk_ProposalSnapshotLedger := (gk_ProposalSnapshotLedger s2)(proposal_id \<mapsto> sequence e),
            gk_ProposalVoteSnapshot := (gk_ProposalVoteSnapshot s2)(proposal_id \<mapsto> snap)\<rparr>)"

definition propose :: "'w env \<Rightarrow> address \<Rightarrow> int \<Rightarrow> 'w governor \<Rightarrow> (governor_error, int \<times> 'w governor) res" where
  "propose e caller execution_window_secs s =
     and_then (gov_require_role e caller Admin s) (\<lambda>s1.
     if execution_window_secs = 0 then Inl (Err InvalidParam) else
     and_then (config_load s1) (\<lambda>cfg.
     and_then (ok_or (case gc_proposal_stake_token cfg of
                 Some t \<Rightarrow> (if 0 < gc_min_proposal_stake cfg then Some t else None) | None \<Rightarrow> None)
               (Err ProposalStakeNotConfigured)) (\<lambda>tok.
     and_then (gov_transfer e tok caller (contract_address e) (gc_min_proposal_stake cfg) s1) (\<lambda>s2.
     let s3 = gov_bump s2;
         counter = (case gk_ProposalCounter s3 of Some n \<Rightarrow> n | None \<Rightarrow> 0) in
     and_then (plain_u64 (counter + 1)) (\<lambda>proposal_id.
     Inr (proposal_id, write_proposal e proposal_id (new_proposal e caller execution_window_secs) tok
       (gc_min_proposal_stake cfg) s3))))))"

definition refund_proposal_stake ::
  "'w env \<Rightarrow> int \<Rightarrow> address \<Rightarrow> 'w governor \<Rightarrow> (governor_error, 'w governor) res" where
  "refund_proposal_stake e i author s = (case gk_ProposalStake s i of
      None \<Rightarrow> Inr s
    | Some amount \<Rightarrow>
        and_then (ok_or (gk_ProposalStakeTokenByProposal s i) (Err ProposalStakeNotConfigured)) (\<lambda>tok.
        and_then (gov_transfer e tok (contract_address e) author amount s) (\<lambda>s1.
        Inr (s1\<lparr>gk_ProposalStake := (gk_ProposalStake s1)(i := None),
                gk_ProposalStakeTokenByProposal := (gk_ProposalStakeTokenByProposal s1)(i := None)\<rparr>))))"

text \<open>The quorum: total votes reach the rounded-down share of the supply at the snapshot.\<close>

definition quorum_threshold :: "int \<Rightarrow> int \<Rightarrow> int" where
  "quorum_threshold tot bps = (tot * bps div 10000) mod 2 ^ 64"

definition proposal_supply :: "int \<Rightarrow> 'w governor \<Rightarrow> int" where
  "proposal_supply i s = (case gk_ProposalVoteSnapshot s i of Some sn \<Rightarrow> vs_total_supply sn | None \<Rightarrow> governance_supply s)"

definition total_votes :: "int \<Rightarrow> proposal \<Rightarrow> 'w governor \<Rightarrow> int" where
  "total_votes i p s = sat_u64 (sat_u64 (pr_for_votes p + pr_against_votes p) + get_abstain_votes i s)"

definition execute_proposal :: "'w env \<Rightarrow> address \<Rightarrow> int \<Rightarrow> 'w governor \<Rightarrow> (governor_error, 'w governor) res" where
  "execute_proposal e executor i s0 =
     and_then (require_executor e executor s0) (\<lambda>s1.
     let s = gov_bump s1 in
     and_then (ok_or (gk_Proposal s i) (Err ProposalNotFound)) (\<lambda>p.
     if pr_status p \<noteq> Pending \<and> pr_status p \<noteq> Active then Inl (Err ProposalNotPending) else
     let elapsed = sat_u64 (timestamp e - pr_created_at p) in
     if elapsed < MIN_EXECUTION_DELAY then Inl (Err TimelockNotMet) else
     if sat_u64 (pr_execution_window_secs p + MIN_EXECUTION_DELAY) < elapsed then Inl (Err ProposalExpired) else
     and_then (config_load s) (\<lambda>cfg.
     if 0 < gc_min_quorum_bps cfg \<and>
        total_votes i p s < quorum_threshold (proposal_supply i s) (gc_min_quorum_bps cfg)
     then Inl (Err QuorumNotMet) else
     and_then (refund_proposal_stake e i (pr_author p) s) (\<lambda>s2.
     Inr (snd (set_proposal_status i Executed s2))))))"

definition cancel_proposal :: "address \<Rightarrow> int \<Rightarrow> 'w governor \<Rightarrow> (governor_error, 'w governor) res" where
  "cancel_proposal caller i s0 =
     (let s = gov_bump s0 in
      and_then (ok_or (gk_Proposal s i) (Err ProposalNotFound)) (\<lambda>p.
      if caller \<noteq> pr_author p then Inl (Err NotAuthorized) else
      if pr_status p \<noteq> Pending \<and> pr_status p \<noteq> Active then Inl (Err ProposalNotPending) else
      and_then (archive_vote_record i p s) (\<lambda>s1.
      Inr (snd (set_proposal_status i Cancelled s1)))))"

definition cancel_proposal_by_admin ::
  "'w env \<Rightarrow> address \<Rightarrow> int \<Rightarrow> wasm_hash \<Rightarrow> 'w governor \<Rightarrow> (governor_error, 'w governor) res" where
  "cancel_proposal_by_admin e caller i reason_hash s0 =
     and_then (gov_require_role e caller Admin s0) (\<lambda>s1.
     let s = gov_bump s1 in
     and_then (ok_or (gk_Proposal s i) (Err ProposalNotFound)) (\<lambda>p.
     if pr_status p \<noteq> Pending \<and> pr_status p \<noteq> Active then Inl (Err ProposalNotPending) else
     and_then (archive_vote_record i p s) (\<lambda>s2.
     Inr (gov_emit (EvProposalCancelledByAdmin i caller reason_hash) (snd (set_proposal_status i Cancelled s2))))))"

section \<open>Views\<close>

definition governor_config_view :: "'w governor \<Rightarrow> (governor_error, governor_config) res" where
  "governor_config_view s = config_load s"

definition gov_fee_recipient :: "'w governor \<Rightarrow> (governor_error, address) res" where
  "gov_fee_recipient s = and_then (config_load s) (\<lambda>cfg. Inr (gc_fee_recipient cfg))"

definition gov_fee_bps :: "'w governor \<Rightarrow> (governor_error, int) res" where
  "gov_fee_bps s = and_then (config_load s) (\<lambda>cfg. Inr (gc_fee_bps cfg))"

definition gov_min_duration :: "'w governor \<Rightarrow> (governor_error, int) res" where
  "gov_min_duration s = and_then (config_load s) (\<lambda>cfg. Inr (gc_min_duration_seconds cfg))"

definition gov_max_duration :: "'w governor \<Rightarrow> (governor_error, int) res" where
  "gov_max_duration s = and_then (config_load s) (\<lambda>cfg. Inr (gc_max_duration_seconds cfg))"

definition gov_max_rate :: "'w governor \<Rightarrow> (governor_error, int) res" where
  "gov_max_rate s = and_then (config_load s) (\<lambda>cfg. Inr (gc_max_rate_per_second cfg))"

definition gov_min_quorum_bps :: "'w governor \<Rightarrow> (governor_error, int) res" where
  "gov_min_quorum_bps s = and_then (config_load s) (\<lambda>cfg. Inr (gc_min_quorum_bps cfg))"

definition pending_admin :: "'w governor \<Rightarrow> address option" where
  "pending_admin s = gk_PendingAuthority s"

definition proposal_snapshot_ledger :: "int \<Rightarrow> 'w governor \<Rightarrow> (governor_error, int) res" where
  "proposal_snapshot_ledger i s = ok_or (gk_ProposalSnapshotLedger s i) (Err ProposalNotFound)"

definition get_proposal_snapshot :: "int \<Rightarrow> 'w governor \<Rightarrow> (governor_error, vote_tally_snapshot) res" where
  "get_proposal_snapshot i s = ok_or (gk_ProposalVoteSnapshot s i) (Err ProposalNotFound)"

definition get_proposal :: "int \<Rightarrow> 'w governor \<Rightarrow> (governor_error, proposal) res" where
  "get_proposal i s = ok_or (gk_Proposal s i) (Err ProposalNotFound)"

end
