(* ===== verification/Common_Admins.thy ===== *)
theory Common_Admins
  imports Common_Rbac
begin

text \<open>
  Role stores in which no administrator's assignment expires.  The governor and the
  oracle never grant their Admin role with an expiry, so in their stores an
  administrator remains until revoked, and the guard of \<^verbatim>\<open>revoke\<close> keeps the last one.
\<close>

definition standing :: "'r \<Rightarrow> 'r rbac \<Rightarrow> bool" where
  "standing admin rs \<longleftrightarrow> rbac_ok admin rs \<and> (\<forall>a x. role_entries rs (admin, a) = Some x \<longrightarrow> x = Assignment None)"

definition has_admin :: "'r \<Rightarrow> 'r rbac \<Rightarrow> bool" where
  "has_admin admin rs \<longleftrightarrow> (\<exists>a. role_entries rs (admin, a) \<noteq> None)"

lemma standing_empty: "standing admin rbac_empty"
  using rbac_empty_ok [of admin] by (simp add: standing_def) (simp add: rbac_empty_def)

lemma standing_admin_iff:
  assumes "standing admin rs"
  shows "has_role now rs admin a \<longleftrightarrow> role_entries rs (admin, a) \<noteq> None"
  using assms by (auto simp: standing_def has_role_def typed_assignment_def split: option.splits role_entry.splits)

lemma standing_grant:
  assumes "standing admin rs" and "grant_with_expiration now r (r = admin) a x rs = (Inr (b, rs') :: ('e, _) res)"
    and "r = admin \<longrightarrow> x = None"
  shows "standing admin rs'" and "has_admin admin rs \<Longrightarrow> has_admin admin rs'" and "r = admin \<Longrightarrow> has_admin admin rs'"
proof -
  have ent: "role_entries rs' = (role_entries rs)((r, a) := Some (Assignment x))" using assms(2) by (rule grant_entries)
  have "rbac_ok admin rs'" using assms(1,2) grant_ok by (auto simp: standing_def)
  then show "standing admin rs'" using assms(1,3) ent by (auto simp: standing_def)
  show "has_admin admin rs \<Longrightarrow> has_admin admin rs'" "r = admin \<Longrightarrow> has_admin admin rs'" by (auto simp: has_admin_def ent)
qed

lemma standing_revoke:
  assumes "standing admin rs" and "revoke now r (r = admin) a rs = Inr (b, rs')"
  shows "standing admin rs'" and "has_admin admin rs \<Longrightarrow> has_admin admin rs'"
proof -
  have ok: "rbac_ok admin rs" using assms(1) by (simp add: standing_def)
  have rb: "rbac_ok admin rs'" using ok assms(2) revoke_ok by (auto simp: revoke_def)
  have sub: "role_entries rs' q \<noteq> None \<Longrightarrow> role_entries rs' q = role_entries rs q" for q
    using assms(2) by (cases b) (auto simp: revoke_def dest!: revoke_noop elim!: revoke_success split: if_splits)
  show "standing admin rs'" using assms(1) rb sub unfolding standing_def by (metis option.distinct(1))
  show "has_admin admin rs'" if some: "has_admin admin rs"
  proof -
    obtain d where "role_entries rs (admin, d) \<noteq> None" using some by (auto simp: has_admin_def)
    then have "d \<in> set (active_admins now admin rs)"
      using standing_admin_iff [OF assms(1)] active_admins_iff [OF ok] by simp
    then have "active_admins now admin rs \<noteq> []" by auto
    then have "active_admins now admin rs' \<noteq> []"
      using revoke_keeps_admin [OF ok _ _ assms(2)] standing_admin_iff [OF assms(1)] by blast
    then obtain c where "c \<in> set (active_admins now admin rs')" by (meson list.set_sel(1))
    then have "has_role now rs' admin c" using active_admins_iff [OF rb] by simp
    then show ?thesis using has_role_present by (metis has_admin_def)
  qed
qed

text \<open>The counter is the number of accounts that hold the role, at every time.\<close>

lemma standing_count:
  assumes "standing admin rs"
  shows "admin_count rs = int (card {a. has_role now rs admin a})" and "finite {a. has_role now rs admin a}"
proof -
  have ok: "rbac_ok admin rs" using assms by (simp add: standing_def)
  have eq: "{a. has_role now rs admin a} = set (role_members rs admin)"
    using ok by (simp add: standing_admin_iff [OF assms] rbac_ok_def)
  show "admin_count rs = int (card {a. has_role now rs admin a})"
    unfolding eq using ok distinct_card [of "role_members rs admin"] by (metis rbac_ok_def)
  show "finite {a. has_role now rs admin a}" unfolding eq by simp
qed

lemma standing_has_admin:
  assumes "standing admin rs" and "has_admin admin rs"
  obtains a where "\<And>now. has_role now rs admin a" and "1 \<le> admin_count rs"
proof -
  obtain a where "role_entries rs (admin, a) \<noteq> None" using assms(2) by (auto simp: has_admin_def)
  then have has: "has_role now rs admin a" for now using standing_admin_iff [OF assms(1)] by simp
  then have "0 < card {b. has_role 0 rs admin b}" using standing_count(2) [OF assms(1)] by (auto simp: card_gt_0_iff)
  then have "1 \<le> admin_count rs" using standing_count(1) [OF assms(1), of 0] by simp
  then show thesis using that has by blast
qed

end
