(* ===== verification/Governor_History.thy ===== *)
theory Governor_History
  imports Governor_Ops Common_Admins
begin

text \<open>
  What holds of a governor over any history of calls: there is always an
  administrator, the parameters stay within their bounds, and the status index and
  the counter describe the stored proposals.
\<close>

section \<open>Calls and histories\<close>

datatype governor_call =
    GInitialize address address address
  | GPause address
  | GUnpause address
  | GPauseFactory address
  | GUnpauseFactory address
  | GGrantRoleWithExpiration address governor_role address "int option"
  | GGrantRole address governor_role address
  | GRevokeRole address governor_role address
  | GGrantRoleBatch address governor_role "address list"
  | GRevokeRoleBatch address governor_role "address list"
  | GTransferAuthority address address
  | GProposeAuthority address address
  | GRevokeProposeAuthority address
  | GAcceptAuthority address
  | GProposeAdmin address address
  | GClaimAdmin address
  | GRevokeProposeAdmin address
  | GUpgrade address wasm_hash
  | GSetFeeBps address int
  | GSetFeeRecipient address address
  | GSetMinDuration address int
  | GSetMaxRate address int
  | GSetMaxDuration address int
  | GSetForceCancelPause address int
  | GSetMinQuorum address int
  | GSetGovernanceSupply address int
  | GSetProposalStakeConfig address address int
  | GCheckpointBalance address address int
  | GPropose address int
  | GExecuteProposal address int
  | GCancelProposal address int
  | GCancelProposalByAdmin address int wasm_hash

definition drop_id :: "('e, 'a \<times> 's) res \<Rightarrow> ('e, 's) res" where
  "drop_id r = and_then r (\<lambda>(_, s). Inr s)"

fun governor_exec :: "'w chain \<Rightarrow> governor_call \<Rightarrow> 'w governor \<Rightarrow> (governor_error, 'w governor) res" where
  "governor_exec c (GInitialize a fr f) s = governor_initialize (ch_env c) a fr f s"
| "governor_exec c (GPause a) s = governor_pause (ch_env c) a s"
| "governor_exec c (GUnpause a) s = governor_unpause (ch_env c) a s"
| "governor_exec c (GPauseFactory a) s = pause_factory c a s"
| "governor_exec c (GUnpauseFactory a) s = unpause_factory c a s"
| "governor_exec c (GGrantRoleWithExpiration a r b x) s = grant_role_with_expiration (ch_env c) a r b x s"
| "governor_exec c (GGrantRole a r b) s = grant_role (ch_env c) a r b s"
| "governor_exec c (GRevokeRole a r b) s = revoke_role (ch_env c) a r b s"
| "governor_exec c (GGrantRoleBatch a r bs) s = grant_role_batch (ch_env c) a r bs s"
| "governor_exec c (GRevokeRoleBatch a r bs) s = revoke_role_batch (ch_env c) a r bs s"
| "governor_exec c (GTransferAuthority a b) s = transfer_authority (ch_env c) a b s"
| "governor_exec c (GProposeAuthority a b) s = propose_authority (ch_env c) a b s"
| "governor_exec c (GRevokeProposeAuthority a) s = revoke_propose_authority (ch_env c) a s"
| "governor_exec c (GAcceptAuthority a) s = accept_authority (ch_env c) a s"
| "governor_exec c (GProposeAdmin a b) s = propose_admin (ch_env c) a b s"
| "governor_exec c (GClaimAdmin a) s = claim_admin (ch_env c) a s"
| "governor_exec c (GRevokeProposeAdmin a) s = revoke_propose_admin (ch_env c) a s"
| "governor_exec c (GUpgrade a h) s = governor_upgrade (ch_env c) a h s"
| "governor_exec c (GSetFeeBps a n) s = set_fee_bps (ch_env c) a n s"
| "governor_exec c (GSetFeeRecipient a b) s = set_fee_recipient (ch_env c) a b s"
| "governor_exec c (GSetMinDuration a n) s = set_min_duration (ch_env c) a n s"
| "governor_exec c (GSetMaxRate a n) s = set_max_rate (ch_env c) a n s"
| "governor_exec c (GSetMaxDuration a n) s = set_max_duration (ch_env c) a n s"
| "governor_exec c (GSetForceCancelPause a n) s = set_force_cancel_pause_threshold (ch_env c) a n s"
| "governor_exec c (GSetMinQuorum a n) s = set_min_quorum_bps (ch_env c) a n s"
| "governor_exec c (GSetGovernanceSupply a n) s = set_governance_supply (ch_env c) a n s"
| "governor_exec c (GSetProposalStakeConfig a t n) s = set_proposal_stake_config (ch_env c) a t n s"
| "governor_exec c (GCheckpointBalance a v n) s = checkpoint_balance (ch_env c) a v n s"
| "governor_exec c (GPropose a n) s = drop_id (propose (ch_env c) a n s)"
| "governor_exec c (GExecuteProposal a i) s = execute_proposal (ch_env c) a i s"
| "governor_exec c (GCancelProposal a i) s = cancel_proposal a i s"
| "governor_exec c (GCancelProposalByAdmin a i h) s = cancel_proposal_by_admin (ch_env c) a i h s"

text \<open>The ranges of the argument types: \<^verbatim>\<open>u32\<close> and \<^verbatim>\<open>u64\<close> arguments are not negative.\<close>

fun args_ok :: "governor_call \<Rightarrow> bool" where
  "args_ok (GSetFeeBps _ n) = in_u32 n"
| "args_ok (GSetMinDuration _ n) = in_u64 n"
| "args_ok (GSetMaxDuration _ n) = in_u64 n"
| "args_ok (GSetMinQuorum _ n) = in_u32 n"
| "args_ok _ = True"

lemma drop_id_eq_Inr [res_simps]: "drop_id r = Inr s \<longleftrightarrow> (\<exists>x. r = Inr (x, s))"
  by (cases r) (auto simp: drop_id_def)

record 'w motion =
  mo_chain :: "'w chain"
  mo_call :: governor_call
  mo_world :: 'w
  mo_factories :: "address \<Rightarrow> 'w factory option"

definition governor_attempt :: "'w motion \<Rightarrow> 'w governor \<Rightarrow> 'w governor" where
  "governor_attempt m s =
     (let s0 = s\<lparr>gv_world := mo_world m, gv_factories := mo_factories m\<rparr> in
      case governor_exec (mo_chain m) (mo_call m) s0 of Inl _ \<Rightarrow> s0 | Inr s1 \<Rightarrow> s1)"

definition governor_after :: "'w motion list \<Rightarrow> 'w governor \<Rightarrow> 'w governor" where
  "governor_after ms s = fold governor_attempt ms s"

section \<open>Views of the state\<close>

definition role_view :: "'w governor \<Rightarrow> governor_role rbac \<times> address option" where
  "role_view s = (gk_roles s, gk_FactoryAddress s)"

definition param_view :: "'w governor \<Rightarrow> int \<times> int \<times> int \<times> int \<times> int" where
  "param_view s =
     (case gk_FeeBps s of Some x \<Rightarrow> x | None \<Rightarrow> 30,
      case gk_MinDurationSeconds s of Some x \<Rightarrow> x | None \<Rightarrow> 3600,
      case gk_MaxDurationSeconds s of Some x \<Rightarrow> x | None \<Rightarrow> 315360000,
      case gk_MaxRatePerSecond s of Some x \<Rightarrow> x | None \<Rightarrow> 1000000000000000,
      case gk_MinQuorumBps s of Some x \<Rightarrow> x | None \<Rightarrow> 0)"

definition proposal_view :: "'w governor \<Rightarrow> (int \<Rightarrow> proposal option) \<times> int \<times> (proposal_status \<Rightarrow> int list)" where
  "proposal_view s = (gk_Proposal s, case gk_ProposalCounter s of Some n \<Rightarrow> n | None \<Rightarrow> 0, \<lambda>st. proposals_by_status st s)"

text \<open>The part of the state in which a call leaves everything the three views see.\<close>

definition same_views :: "'w governor \<Rightarrow> 'w governor \<Rightarrow> bool" where
  "same_views s s' \<longleftrightarrow> role_view s' = role_view s \<and> param_view s' = param_view s \<and> proposal_view s' = proposal_view s"

lemmas view_defs = role_view_def param_view_def proposal_view_def proposals_by_status_def

lemma view_updates [simp]:
  "role_view (s\<lparr>gk_Paused := p\<rparr>) = role_view s" "param_view (s\<lparr>gk_Paused := p\<rparr>) = param_view s"
  "proposal_view (s\<lparr>gk_Paused := p\<rparr>) = proposal_view s"
  "role_view (s\<lparr>gv_world := w\<rparr>) = role_view s" "param_view (s\<lparr>gv_world := w\<rparr>) = param_view s"
  "proposal_view (s\<lparr>gv_world := w\<rparr>) = proposal_view s"
  "role_view (s\<lparr>gv_factories := f\<rparr>) = role_view s" "param_view (s\<lparr>gv_factories := f\<rparr>) = param_view s"
  "proposal_view (s\<lparr>gv_factories := f\<rparr>) = proposal_view s"
  "role_view (gov_emit ev s) = role_view s" "param_view (gov_emit ev s) = param_view s"
  "proposal_view (gov_emit ev s) = proposal_view s"
  "role_view (gov_bump s) = role_view s" "param_view (gov_bump s) = param_view s"
  "proposal_view (gov_bump s) = proposal_view s"
  "role_view (emit_if b ev s) = role_view s" "param_view (emit_if b ev s) = param_view s"
  "proposal_view (emit_if b ev s) = proposal_view s"
  by (simp_all add: view_defs gov_emit_def gov_bump_def emit_if_def)

lemma gov_set_paused_frame: "gov_set_paused e b s = Inr s' \<Longrightarrow> \<exists>slot. s' = s\<lparr>gk_Paused := slot\<rparr>"
  by (auto simp: gov_set_paused_def and_then_eq_Inr)

lemma gov_require_role_success:
  "gov_require_role e caller r s = Inr s' \<longleftrightarrow>
     authorized e caller \<and> gov_has_role e r caller s \<and> s' = gov_bump s"
  by (auto simp: gov_require_role_def require_role_def gov_has_role_def res_simps)

lemma gov_require_role_or_admin_success:
  "gov_require_role_or_admin e caller r s = Inr s' \<longleftrightarrow>
     authorized e caller \<and> (gov_has_role e Admin caller s \<or> gov_has_role e r caller s) \<and> s' = gov_bump s"
  by (auto simp: gov_require_role_or_admin_def require_role_or_admin_def gov_has_role_def res_simps)

lemma gov_not_paused_success:
  "gov_assert_not_paused e s = Inr s' \<Longrightarrow> \<exists>p. s' = s\<lparr>gk_Paused := p\<rparr>"
  by (auto simp: gov_assert_not_paused_def res_simps)

section \<open>Roles\<close>

definition roles_ok :: "'w governor \<Rightarrow> bool" where
  "roles_ok s \<longleftrightarrow> standing Admin (gk_roles s) \<and> (gk_FactoryAddress s \<noteq> None \<longrightarrow> has_admin Admin (gk_roles s))"

lemma roles_ok_view: "role_view s' = role_view s \<Longrightarrow> roles_ok s' \<longleftrightarrow> roles_ok s"
  by (simp add: roles_ok_def role_view_def)

lemma gov_grant_eq: "gov_grant e r a s = gov_grant_with_expiration e r a None s"
  by (simp add: gov_grant_def gov_grant_with_expiration_def grant_def)

lemma grant_roles_ok:
  assumes "gov_grant_with_expiration e r a x s = Inr (b, s')" and "r = Admin \<longrightarrow> x = None"
  shows "roles_ok s \<Longrightarrow> roles_ok s'" and "standing Admin (gk_roles s) \<Longrightarrow> r = Admin \<Longrightarrow> roles_ok s'"
    and "param_view s' = param_view s" and "proposal_view s' = proposal_view s"
proof -
  obtain rs where g: "grant_with_expiration (timestamp e) r (r = Admin) a x (gk_roles s) = (Inr (b, rs) :: (governor_error, _) res)"
    and s': "s' = s\<lparr>gk_roles := rs\<rparr>"
    using assms(1) by (auto simp: gov_grant_with_expiration_def and_then_eq_Inr)
  note st = standing_grant [OF _ g assms(2)]
  show "roles_ok s \<Longrightarrow> roles_ok s'" "standing Admin (gk_roles s) \<Longrightarrow> r = Admin \<Longrightarrow> roles_ok s'"
    using st by (auto simp: roles_ok_def s')
  show "param_view s' = param_view s" "proposal_view s' = proposal_view s"
    by (simp_all add: s' param_view_def proposal_view_def proposals_by_status_def)
qed

lemma revoke_roles_ok:
  assumes "gov_revoke e r a s = Inr (b, s')"
  shows "roles_ok s \<Longrightarrow> roles_ok s'" and "param_view s' = param_view s" and "proposal_view s' = proposal_view s"
proof -
  obtain rs where g: "revoke (timestamp e) r (r = Admin) a (gk_roles s) = Inr (b, rs)" and s': "s' = s\<lparr>gk_roles := rs\<rparr>"
    using assms by (auto simp: gov_revoke_def and_then_eq_Inr map_err_eq_Inr)
  show "roles_ok s \<Longrightarrow> roles_ok s'" using standing_revoke [OF _ g] by (auto simp: roles_ok_def s')
  show "param_view s' = param_view s" "proposal_view s' = proposal_view s"
    by (simp_all add: s' param_view_def proposal_view_def proposals_by_status_def)
qed

section \<open>Parameters and proposals\<close>

fun params_ok :: "int \<times> int \<times> int \<times> int \<times> int \<Rightarrow> bool" where
  "params_ok (fee, min_dur, max_dur, rate, quorum) \<longleftrightarrow>
     0 \<le> fee \<and> fee \<le> 10000 \<and> 0 < min_dur \<and> min_dur \<le> max_dur \<and> 0 < rate \<and> in_i128 (rate * min_dur) \<and>
     0 \<le> quorum \<and> quorum \<le> 10000"

fun proposals_ok :: "(int \<Rightarrow> proposal option) \<times> int \<times> (proposal_status \<Rightarrow> int list) \<Rightarrow> bool" where
  "proposals_ok (ps, n, idx) \<longleftrightarrow> 0 \<le> n \<and> (\<forall>i. ps i \<noteq> None \<longleftrightarrow> 1 \<le> i \<and> i \<le> n) \<and>
     (\<forall>st. distinct (idx st) \<and> set (idx st) = {i. \<exists>p. ps i = Some p \<and> pr_status p = st})"

definition governor_ok :: "'w governor \<Rightarrow> bool" where
  "governor_ok s \<longleftrightarrow> roles_ok s \<and> params_ok (param_view s) \<and> proposals_ok (proposal_view s)"

lemma governor_ok_view:
  "role_view s' = role_view s \<Longrightarrow> param_view s' = param_view s \<Longrightarrow> proposal_view s' = proposal_view s \<Longrightarrow>
     governor_ok s' \<longleftrightarrow> governor_ok s"
  using roles_ok_view [of s' s] by (simp add: governor_ok_def)

lemma governor_ok_simps [simp]:
  "governor_ok (gov_emit ev s) \<longleftrightarrow> governor_ok s" "governor_ok (gov_bump s) \<longleftrightarrow> governor_ok s"
  "governor_ok (emit_if b ev s) \<longleftrightarrow> governor_ok s"
  "governor_ok (s\<lparr>gk_Paused := p\<rparr>) \<longleftrightarrow> governor_ok s" "governor_ok (s\<lparr>gv_world := w\<rparr>) \<longleftrightarrow> governor_ok s"
  "governor_ok (s\<lparr>gv_factories := f\<rparr>) \<longleftrightarrow> governor_ok s" "governor_ok (s\<lparr>gv_code := k\<rparr>) \<longleftrightarrow> governor_ok s"
  "governor_ok (s\<lparr>gk_PendingAuthority := x\<rparr>) \<longleftrightarrow> governor_ok s"
  "governor_ok (s\<lparr>gk_PendingAuthorityProposer := x\<rparr>) \<longleftrightarrow> governor_ok s"
  "governor_ok (s\<lparr>gk_FeeRecipient := x\<rparr>) \<longleftrightarrow> governor_ok s"
  "governor_ok (s\<lparr>gk_ForceCancelPauseSecs := n\<rparr>) \<longleftrightarrow> governor_ok s"
  "governor_ok (s\<lparr>gk_GovernanceSupply := n\<rparr>) \<longleftrightarrow> governor_ok s"
  "governor_ok (s\<lparr>gk_ProposalStakeToken := x\<rparr>) \<longleftrightarrow> governor_ok s"
  "governor_ok (s\<lparr>gk_MinProposalStake := n\<rparr>) \<longleftrightarrow> governor_ok s"
  "governor_ok (s\<lparr>gk_ProposalStake := sk\<rparr>) \<longleftrightarrow> governor_ok s"
  "governor_ok (s\<lparr>gk_ProposalStakeTokenByProposal := st\<rparr>) \<longleftrightarrow> governor_ok s"
  "governor_ok (s\<lparr>gk_CheckpointingEnabled := ce\<rparr>) \<longleftrightarrow> governor_ok s"
  "governor_ok (s\<lparr>gk_VoteCheckpoints := vc\<rparr>) \<longleftrightarrow> governor_ok s"
  "governor_ok (s\<lparr>gk_VoteRecord := vr\<rparr>) \<longleftrightarrow> governor_ok s"
  "governor_ok (s\<lparr>gk_ProposalAbstainVotes := ab\<rparr>) \<longleftrightarrow> governor_ok s"
  "governor_ok (s\<lparr>gk_ProposalSnapshotLedger := sl\<rparr>) \<longleftrightarrow> governor_ok s"
  "governor_ok (s\<lparr>gk_ProposalVoteSnapshot := sn\<rparr>) \<longleftrightarrow> governor_ok s"
  "governor_ok (s\<lparr>gv_ttl := t\<rparr>) \<longleftrightarrow> governor_ok s"
  by (rule governor_ok_view; simp add: view_defs gov_emit_def gov_bump_def emit_if_def)+

text \<open>Writing one parameter.\<close>

lemma governor_ok_param:
  assumes "governor_ok t"
  shows "governor_ok (t\<lparr>gk_FeeBps := Some n\<rparr>) \<longleftrightarrow> 0 \<le> n \<and> n \<le> 10000"
    and "governor_ok (t\<lparr>gk_MinQuorumBps := Some n\<rparr>) \<longleftrightarrow> 0 \<le> n \<and> n \<le> 10000"
    and "governor_ok (t\<lparr>gk_MinDurationSeconds := Some n\<rparr>) \<longleftrightarrow> 0 < n \<and>
       n \<le> (case gk_MaxDurationSeconds t of Some x \<Rightarrow> x | None \<Rightarrow> 315360000) \<and>
       in_i128 ((case gk_MaxRatePerSecond t of Some x \<Rightarrow> x | None \<Rightarrow> 1000000000000000) * n)"
    and "governor_ok (t\<lparr>gk_MaxRatePerSecond := Some n\<rparr>) \<longleftrightarrow> 0 < n \<and>
       in_i128 (n * (case gk_MinDurationSeconds t of Some x \<Rightarrow> x | None \<Rightarrow> 3600))"
    and "governor_ok (t\<lparr>gk_MaxDurationSeconds := Some n\<rparr>) \<longleftrightarrow>
       (case gk_MinDurationSeconds t of Some x \<Rightarrow> x | None \<Rightarrow> 3600) \<le> n"
proof -
  have pv: "proposal_view (t\<lparr>gk_FeeBps := x\<rparr>) = proposal_view t" "proposal_view (t\<lparr>gk_MinQuorumBps := x\<rparr>) = proposal_view t"
    "proposal_view (t\<lparr>gk_MinDurationSeconds := x\<rparr>) = proposal_view t"
    "proposal_view (t\<lparr>gk_MaxRatePerSecond := x\<rparr>) = proposal_view t"
    "proposal_view (t\<lparr>gk_MaxDurationSeconds := x\<rparr>) = proposal_view t" for x
    by (simp_all add: proposal_view_def proposals_by_status_def)
  have rv: "roles_ok (t\<lparr>gk_FeeBps := x\<rparr>) = roles_ok t" "roles_ok (t\<lparr>gk_MinQuorumBps := x\<rparr>) = roles_ok t"
    "roles_ok (t\<lparr>gk_MinDurationSeconds := x\<rparr>) = roles_ok t" "roles_ok (t\<lparr>gk_MaxRatePerSecond := x\<rparr>) = roles_ok t"
    "roles_ok (t\<lparr>gk_MaxDurationSeconds := x\<rparr>) = roles_ok t" for x
    by (simp_all add: roles_ok_def)
  show "governor_ok (t\<lparr>gk_FeeBps := Some n\<rparr>) \<longleftrightarrow> 0 \<le> n \<and> n \<le> 10000"
    "governor_ok (t\<lparr>gk_MinQuorumBps := Some n\<rparr>) \<longleftrightarrow> 0 \<le> n \<and> n \<le> 10000"
    "governor_ok (t\<lparr>gk_MinDurationSeconds := Some n\<rparr>) \<longleftrightarrow> 0 < n \<and>
       n \<le> (case gk_MaxDurationSeconds t of Some x \<Rightarrow> x | None \<Rightarrow> 315360000) \<and>
       in_i128 ((case gk_MaxRatePerSecond t of Some x \<Rightarrow> x | None \<Rightarrow> 1000000000000000) * n)"
    "governor_ok (t\<lparr>gk_MaxRatePerSecond := Some n\<rparr>) \<longleftrightarrow> 0 < n \<and>
       in_i128 (n * (case gk_MinDurationSeconds t of Some x \<Rightarrow> x | None \<Rightarrow> 3600))"
    "governor_ok (t\<lparr>gk_MaxDurationSeconds := Some n\<rparr>) \<longleftrightarrow>
       (case gk_MinDurationSeconds t of Some x \<Rightarrow> x | None \<Rightarrow> 3600) \<le> n"
    using assms by (auto simp: governor_ok_def pv rv param_view_def)
qed

lemma gov_has_role_simps [simp]:
  "gov_has_role e r a (gov_bump s) = gov_has_role e r a s" "gov_has_role e r a (s\<lparr>gk_Paused := p\<rparr>) = gov_has_role e r a s"
  by (simp_all add: gov_has_role_def gov_bump_def)

text \<open>Role changes.\<close>

lemma grant_ok_gov:
  assumes "governor_ok s" and "gov_grant_with_expiration e r a x s = Inr (b, s')" and "r = Admin \<longrightarrow> x = None"
  shows "governor_ok s'"
  using assms(1) grant_roles_ok [OF assms(2,3)] by (simp add: governor_ok_def)

lemma revoke_ok_gov: "governor_ok s \<Longrightarrow> gov_revoke e r a s = Inr (b, s') \<Longrightarrow> governor_ok s'"
  using revoke_roles_ok [of e r a s b s'] by (simp add: governor_ok_def)

lemma grant_each_ok: "grant_each e caller r as s = Inr s' \<Longrightarrow> governor_ok s \<Longrightarrow> governor_ok s'"
proof (induction "as" arbitrary: s)
  case (Cons a "as")
  obtain b s1 where g: "gov_grant e r a s = Inr (b, s1)"
    and rest: "grant_each e caller r as (emit_if b (EvGrantRole caller r a) s1) = Inr s'"
    using Cons.prems(1) by (auto simp: and_then_eq_Inr)
  have "governor_ok s1" using grant_ok_gov [OF Cons.prems(2) g [unfolded gov_grant_eq]] by simp
  then show ?case using Cons.IH [OF rest] by simp
qed simp

lemma revoke_each_ok: "revoke_each e caller r as s = Inr s' \<Longrightarrow> governor_ok s \<Longrightarrow> governor_ok s'"
proof (induction "as" arbitrary: s)
  case (Cons a "as")
  obtain b s1 where g: "gov_revoke e r a s = Inr (b, s1)"
    and rest: "revoke_each e caller r as (emit_if b (EvRevokeRole caller r a) s1) = Inr s'"
    using Cons.prems(1) by (auto simp: and_then_eq_Inr)
  have "governor_ok s1" using revoke_ok_gov [OF Cons.prems(2) g] .
  then show ?case using Cons.IH [OF rest] by simp
qed simp

lemma role_calls_ok:
  assumes "governor_ok s"
  shows "grant_role_with_expiration e caller r a x s = Inr s' \<Longrightarrow> governor_ok s'"
    and "grant_role e caller r a s = Inr s' \<Longrightarrow> governor_ok s'"
    and "revoke_role e caller r a s = Inr s' \<Longrightarrow> governor_ok s'"
    and "grant_role_batch e caller r as s = Inr s' \<Longrightarrow> governor_ok s'"
    and "revoke_role_batch e caller r as s = Inr s' \<Longrightarrow> governor_ok s'"
    and "transfer_authority e caller a s = Inr s' \<Longrightarrow> governor_ok s'"
    and "accept_authority e caller s = Inr s' \<Longrightarrow> governor_ok s'"
    and "claim_admin e caller s = Inr s' \<Longrightarrow> governor_ok s'"
  using assms
  by (auto simp: grant_role_with_expiration_def grant_role_def revoke_role_def grant_role_batch_def revoke_role_batch_def
      transfer_authority_def accept_authority_def claim_admin_def gov_require_role_success gov_grant_eq and_then_eq_Inr
      if_Inl_eq_Inr Let_def
      dest!: grant_ok_gov [rotated] revoke_ok_gov [rotated] grant_each_ok revoke_each_ok)

lemma initialize_gov_ok:
  assumes "governor_ok s" and "governor_initialize e a fr f s = Inr s'"
  shows "governor_ok s'"
proof -
  define t where "t = (gov_bump s)\<lparr>gk_FeeBps := Some 30, gk_FeeRecipient := Some fr,
     gk_MinDurationSeconds := Some 3600, gk_MaxDurationSeconds := Some 315360000,
     gk_MaxRatePerSecond := Some 1000000000000000, gk_ForceCancelPauseSecs := Some 2592000, gk_MinQuorumBps := Some 0,
     gk_MinProposalStake := Some 0\<rparr>"
  have same: "(gov_bump s)\<lparr>gk_FeeBps := Some 30, gk_FeeRecipient := Some fr,
     gk_MinDurationSeconds := Some 3600, gk_MaxDurationSeconds := Some 315360000,
     gk_MaxRatePerSecond := Some 1000000000000000, gk_FactoryAddress := Some f, gk_ForceCancelPauseSecs := Some 2592000,
     gk_MinQuorumBps := Some 0, gk_MinProposalStake := Some 0\<rparr> = t\<lparr>gk_FactoryAddress := Some f\<rparr>"
    by (simp add: t_def)
  obtain b2 s2 b3 s3 b4 s4 b5 s5 where
    g: "gov_grant e Admin a (t\<lparr>gk_FactoryAddress := Some f\<rparr>) = Inr (b2, s2)" "gov_grant e FeeManager a s2 = Inr (b3, s3)"
      "gov_grant e RateManager a s3 = Inr (b4, s4)" "gov_grant e Pauser a s4 = Inr (b5, s5)"
    and s': "s' = gov_emit (EvGovInit a fr f) s5"
    using assms(2) unfolding governor_initialize_def if_Inl_eq_Inr Let_def same by (auto simp: and_then_eq_Inr)
  have "proposal_view t = proposal_view s" "roles_ok t = roles_ok s"
    by (simp_all add: t_def gov_bump_def proposal_view_def proposals_by_status_def roles_ok_def)
  moreover have "param_view t = (30, 3600, 315360000, 1000000000000000, 0)" by (simp add: t_def param_view_def)
  ultimately have ok: "governor_ok t" using assms(1) by (simp add: governor_ok_def in_i128_def int_bounds)
  let ?t = "t\<lparr>gk_FactoryAddress := Some f\<rparr>"
  have "standing Admin (gk_roles ?t)" using ok by (simp add: governor_ok_def roles_ok_def)
  moreover have "param_view ?t = param_view t" "proposal_view ?t = proposal_view t"
    by (simp_all add: param_view_def proposal_view_def proposals_by_status_def)
  ultimately have "governor_ok s2"
    using ok grant_roles_ok [OF g(1) [unfolded gov_grant_eq]] by (simp add: governor_ok_def)
  then show ?thesis using g(2-4) unfolding gov_grant_eq s' by (auto dest!: grant_ok_gov [rotated])
qed

text \<open>Parameter changes.\<close>

lemma gov_not_paused_ok: "gov_assert_not_paused e s = Inr s' \<Longrightarrow> governor_ok s' \<longleftrightarrow> governor_ok s"
  using gov_not_paused_success [of e s s'] by auto

lemma param_calls_ok:
  assumes "governor_ok s"
  shows "in_u32 n \<Longrightarrow> set_fee_bps e caller n s = Inr s' \<Longrightarrow> governor_ok s'"
    and "in_u64 n \<Longrightarrow> set_min_duration e caller n s = Inr s' \<Longrightarrow> governor_ok s'"
    and "set_max_rate e caller n s = Inr s' \<Longrightarrow> governor_ok s'"
    and "in_u64 n \<Longrightarrow> set_max_duration e caller n s = Inr s' \<Longrightarrow> governor_ok s'"
    and "in_u32 n \<Longrightarrow> set_min_quorum_bps e caller n s = Inr s' \<Longrightarrow> governor_ok s'"
proof -
  show "in_u32 n \<Longrightarrow> set_fee_bps e caller n s = Inr s' \<Longrightarrow> governor_ok s'"
    "in_u32 n \<Longrightarrow> set_min_quorum_bps e caller n s = Inr s' \<Longrightarrow> governor_ok s'"
    using assms by (auto simp: set_fee_bps_def set_min_quorum_bps_def and_then_eq_Inr if_Inl_eq_Inr Let_def
        gov_require_role_or_admin_success in_u32_def governor_ok_param gov_not_paused_ok)
  show "in_u64 n \<Longrightarrow> set_min_duration e caller n s = Inr s' \<Longrightarrow> governor_ok s'"
  proof -
    assume n: "in_u64 n" and run: "set_min_duration e caller n s = Inr s'"
    then obtain t ev where "governor_ok t" and b: "\<not> (case gk_MaxDurationSeconds t of Some x \<Rightarrow> x | None \<Rightarrow> 315360000) < n"
      "in_i128 ((case gk_MaxRatePerSecond t of Some x \<Rightarrow> x | None \<Rightarrow> 1000000000000000) * n)" "n \<noteq> 0"
      and "s' = gov_emit ev (t\<lparr>gk_MinDurationSeconds := Some n\<rparr>)"
      using assms unfolding set_min_duration_def and_then_eq_Inr if_Inl_eq_Inr Let_def ok_or_eq_Inr checked_eq_Some
        gov_require_role_or_admin_success by (metis gov_not_paused_ok governor_ok_simps(2) sum.inject(2))
    then show ?thesis using n by (simp add: governor_ok_param in_u64_def)
  qed
  show "set_max_rate e caller n s = Inr s' \<Longrightarrow> governor_ok s'"
  proof -
    assume run: "set_max_rate e caller n s = Inr s'"
    then obtain t ev where "governor_ok t"
      "in_i128 (n * (case gk_MinDurationSeconds t of Some x \<Rightarrow> x | None \<Rightarrow> 3600))" "\<not> n \<le> 0"
      and "s' = gov_emit ev (t\<lparr>gk_MaxRatePerSecond := Some n\<rparr>)"
      using assms unfolding set_max_rate_def and_then_eq_Inr if_Inl_eq_Inr Let_def ok_or_eq_Inr checked_eq_Some
        gov_require_role_or_admin_success by (metis gov_not_paused_ok governor_ok_simps(2) sum.inject(2))
    then show ?thesis by (simp add: governor_ok_param)
  qed
  show "in_u64 n \<Longrightarrow> set_max_duration e caller n s = Inr s' \<Longrightarrow> governor_ok s'"
  proof -
    assume n: "in_u64 n" and run: "set_max_duration e caller n s = Inr s'"
    then obtain t ev where "governor_ok t"
      "\<not> n < (case gk_MinDurationSeconds t of Some x \<Rightarrow> x | None \<Rightarrow> 3600)"
      and "s' = gov_emit ev (t\<lparr>gk_MaxDurationSeconds := Some n\<rparr>)"
      using assms unfolding set_max_duration_def and_then_eq_Inr if_Inl_eq_Inr Let_def
        gov_require_role_or_admin_success by (metis gov_not_paused_ok governor_ok_simps(2) sum.inject(2))
    then show ?thesis by (simp add: governor_ok_param)
  qed
qed

text \<open>Status changes and new proposals.\<close>

lemma set_status_frame:
  "role_view (snd (set_proposal_status i st s)) = role_view s" "param_view (snd (set_proposal_status i st s)) = param_view s"
  by (simp_all add: set_proposal_status_def add_proposal_to_status_index_def remove_proposal_from_status_index_def Let_def
      role_view_def param_view_def split: option.split)

definition moved_index :: "int \<Rightarrow> proposal_status \<Rightarrow> proposal_status \<Rightarrow> (proposal_status \<Rightarrow> int list) \<Rightarrow> (proposal_status \<Rightarrow> int list)" where
  "moved_index i old new idx = (let idx1 = idx(old := filter (\<lambda>j. j \<noteq> i) (idx old)) in
     if i \<in> set (idx1 new) then idx1 else idx1(new := idx1 new @ [i]))"

lemma set_status_view:
  assumes "gk_Proposal s i = Some p"
  shows "proposal_view (snd (set_proposal_status i st s)) =
     (if pr_status p = st then proposal_view s
      else ((gk_Proposal s)(i \<mapsto> p\<lparr>pr_status := st\<rparr>), case gk_ProposalCounter s of Some n \<Rightarrow> n | None \<Rightarrow> 0,
            moved_index i (pr_status p) st (\<lambda>st. proposals_by_status st s)))"
  using assms
  by (auto simp: set_proposal_status_def add_proposal_to_status_index_def remove_proposal_from_status_index_def Let_def
      proposal_view_def proposals_by_status_def moved_index_def fun_eq_iff)

lemma moved_index_ok:
  assumes "proposals_ok (ps, n, idx)" and "ps i = Some p" and "pr_status p \<noteq> st"
  shows "proposals_ok (ps(i \<mapsto> p\<lparr>pr_status := st\<rparr>), n, moved_index i (pr_status p) st idx)"
proof -
  have idx: "distinct (idx q)" "j \<in> set (idx q) \<longleftrightarrow> (\<exists>p. ps j = Some p \<and> pr_status p = q)" for q j
    using assms(1) by auto
  have "i \<notin> set (idx st)" using idx(2) [of i st] assms(2,3) by auto
  then have m: "moved_index i (pr_status p) st idx =
      idx(pr_status p := filter (\<lambda>j. j \<noteq> i) (idx (pr_status p)), st := idx st @ [i])"
    using assms(3) by (simp add: moved_index_def Let_def)
  have "distinct (moved_index i (pr_status p) st idx q)" for q
    using idx(1) \<open>i \<notin> set (idx st)\<close> by (simp add: m)
  moreover have "j \<in> set (moved_index i (pr_status p) st idx q) \<longleftrightarrow>
      (\<exists>r. (ps(i \<mapsto> p\<lparr>pr_status := st\<rparr>)) j = Some r \<and> pr_status r = q)" for j q
    using idx(2) assms(2,3) by (auto simp: m)
  ultimately show ?thesis using assms(1,2) by auto
qed

lemma set_status_ok:
  assumes "governor_ok s" and "gk_Proposal s i = Some p"
  shows "governor_ok (snd (set_proposal_status i st s))"
proof -
  have ok: "proposals_ok (proposal_view s)" using assms(1) by (simp add: governor_ok_def)
  then have "proposals_ok (proposal_view (snd (set_proposal_status i st s)))"
    unfolding set_status_view [OF assms(2)]
    using moved_index_ok [OF ok [unfolded proposal_view_def] assms(2)] by presburger
  then show ?thesis
    using assms(1) by (simp add: governor_ok_def set_status_frame roles_ok_view [OF set_status_frame(1)])
qed

lemma archive_success:
  assumes "archive_vote_record i p s = Inr s'"
  shows "governor_ok s' \<longleftrightarrow> governor_ok s" and "gk_Proposal s' = gk_Proposal s"
    and "gk_ProposalStake s' = gk_ProposalStake s" and "gk_ProposalCounter s' = gk_ProposalCounter s"
  using assms by (auto simp: archive_vote_record_def gov_renew_def and_then_eq_Inr split: if_splits)

lemma refund_success:
  assumes "refund_proposal_stake e i a s = Inr s'"
  shows "governor_ok s' \<longleftrightarrow> governor_ok s" and "gk_Proposal s' = gk_Proposal s"
    and "gk_ProposalCounter s' = gk_ProposalCounter s" and "gk_ProposalStake s' = (gk_ProposalStake s)(i := None)"
  using assms by (auto simp: refund_proposal_stake_def gov_transfer_def and_then_eq_Inr fun_eq_iff split: option.splits)

definition next_id :: "'w governor \<Rightarrow> int" where
  "next_id s = (case gk_ProposalCounter s of Some n \<Rightarrow> n | None \<Rightarrow> 0) + 1"

lemma config_load_fields:
  assumes "config_load s = Inr cfg"
  shows "gc_proposal_stake_token cfg = gk_ProposalStakeToken s"
    and "gc_min_proposal_stake cfg = (case gk_MinProposalStake s of Some x \<Rightarrow> x | None \<Rightarrow> 0)"
    and "gc_min_quorum_bps cfg = (case gk_MinQuorumBps s of Some x \<Rightarrow> x | None \<Rightarrow> 0)"
    and "gk_FeeRecipient s = Some (gc_fee_recipient cfg)" and "gk_FactoryAddress s = Some (gc_factory_address cfg)"
    and "param_view s = (gc_fee_bps cfg, gc_min_duration_seconds cfg, gc_max_duration_seconds cfg,
       gc_max_rate_per_second cfg, gc_min_quorum_bps cfg)"
  using assms by (auto simp: config_load_def and_then_eq_Inr ok_or_eq_Inr param_view_def)

lemma propose_success:
  assumes "propose e caller w s = Inr (i, s')"
  obtains stake tok wd where "authorized e caller" and "gov_has_role e Admin caller s" and "w \<noteq> 0" and "0 < stake"
    and "gk_ProposalStakeToken s = Some tok" and "gk_MinProposalStake s = Some stake"
    and "i = next_id s" and "in_u64 i"
    and "tok_transfer (tokens e) (gv_world s) tok caller (contract_address e) stake = Some wd"
    and "s' = write_proposal e i (new_proposal e caller w) tok stake (gov_bump ((gov_bump s)\<lparr>gv_world := wd\<rparr>))"
proof -
  obtain cfg tok wd where au: "authorized e caller" "gov_has_role e Admin caller s" "w \<noteq> 0"
    and cfg: "config_load (gov_bump s) = Inr cfg"
    and st: "(case gc_proposal_stake_token cfg of Some t \<Rightarrow> (if 0 < gc_min_proposal_stake cfg then Some t else None)
       | None \<Rightarrow> None) = Some tok"
    and tr: "tok_transfer (tokens e) (gv_world (gov_bump s)) tok caller (contract_address e) (gc_min_proposal_stake cfg) = Some wd"
    and id: "in_u64 i" "i = (case gk_ProposalCounter (gov_bump ((gov_bump s)\<lparr>gv_world := wd\<rparr>)) of Some n \<Rightarrow> n | None \<Rightarrow> 0) + 1"
    and s': "s' = write_proposal e i (new_proposal e caller w) tok (gc_min_proposal_stake cfg)
       (gov_bump ((gov_bump s)\<lparr>gv_world := wd\<rparr>))"
    using assms unfolding propose_def and_then_eq_Inr if_Inl_eq_Inr gov_require_role_success ok_or_eq_Inr gov_transfer_def
      transfer_call_eq_Inr plain_eq_Inr Let_def sum.inject prod.inject by blast
  have pos: "0 < gc_min_proposal_stake cfg" and tok: "gk_ProposalStakeToken s = Some tok"
    using st config_load_fields(1) [OF cfg] by (auto simp: gov_bump_def split: option.splits if_splits)
  then have "gk_MinProposalStake s = Some (gc_min_proposal_stake cfg)"
    using config_load_fields(2) [OF cfg] by (auto simp: gov_bump_def split: option.splits)
  moreover have "i = next_id s" using id(2) by (simp add: next_id_def gov_bump_def)
  moreover have "gv_world (gov_bump s) = gv_world s" by (simp add: gov_bump_def)
  ultimately show ?thesis using that au pos tok tr id(1) s' by simp
qed

lemma write_proposal_frame:
  "role_view (write_proposal e i p tok k s) = role_view s" "param_view (write_proposal e i p tok k s) = param_view s"
  by (simp_all add: write_proposal_def add_proposal_to_status_index_def Let_def role_view_def param_view_def)

lemma write_proposal_view:
  "proposal_view (write_proposal e i p tok k s) = ((gk_Proposal s)(i \<mapsto> p), i,
     \<lambda>st. if st = Pending \<and> i \<notin> set (proposals_by_status Pending s) then proposals_by_status Pending s @ [i]
          else proposals_by_status st s)"
  by (auto simp: write_proposal_def add_proposal_to_status_index_def Let_def proposal_view_def proposals_by_status_def
      fun_eq_iff split: option.splits)

lemma propose_ok:
  assumes "governor_ok s" and "propose e caller w s = Inr (i, s')"
  shows "governor_ok s'"
proof -
  obtain stake tok wd where i: "i = next_id s"
    and s': "s' = write_proposal e i (new_proposal e caller w) tok stake (gov_bump ((gov_bump s)\<lparr>gv_world := wd\<rparr>))"
    using assms(2) by (rule propose_success)
  define t where "t = gov_bump ((gov_bump s)\<lparr>gv_world := wd\<rparr>)"
  have ok: "governor_ok t" using assms(1) by (simp add: t_def)
  have it: "i = next_id t" by (simp add: i t_def next_id_def gov_bump_def)
  have pv: "proposals_ok (gk_Proposal t, i - 1, \<lambda>st. proposals_by_status st t)"
    using ok by (simp add: governor_ok_def proposal_view_def it next_id_def)
  have fresh: "gk_Proposal t i = None" using pv by (metis add.commute add_le_same_cancel1 diff_add_cancel not_one_le_zero
      proposals_ok.simps)
  have "i \<notin> set (proposals_by_status Pending t)" using pv fresh by auto
  then have "proposals_ok (proposal_view s')"
    using pv fresh unfolding s' t_def [symmetric] write_proposal_view by (auto simp: new_proposal_def)
  then show ?thesis
    using ok unfolding s' t_def [symmetric] by (simp add: governor_ok_def write_proposal_frame roles_ok_view [OF write_proposal_frame(1)])
qed

lemma execute_success:
  assumes "execute_proposal e a i s = Inr s'"
  obtains p s2 where "authorized e a" and "gov_has_role e Executor a s" and "gk_Proposal s i = Some p"
    and "pr_status p = Pending \<or> pr_status p = Active"
    and "MIN_EXECUTION_DELAY \<le> sat_u64 (timestamp e - pr_created_at p)"
    and "sat_u64 (timestamp e - pr_created_at p) \<le> sat_u64 (pr_execution_window_secs p + MIN_EXECUTION_DELAY)"
    and "refund_proposal_stake e i (pr_author p) (gov_bump (gov_bump s)) = Inr s2"
    and "s' = snd (set_proposal_status i Executed s2)"
    and "\<And>q. gk_MinQuorumBps s = Some q \<Longrightarrow> 0 < q \<Longrightarrow> quorum_threshold (proposal_supply i s) q \<le> total_votes i p s"
proof -
  obtain p cfg s2 where au: "authorized e a" "gov_has_role e Executor a s" "gk_Proposal (gov_bump (gov_bump s)) i = Some p"
    and st: "\<not> (pr_status p \<noteq> Pending \<and> pr_status p \<noteq> Active)"
    and time: "\<not> sat_u64 (timestamp e - pr_created_at p) < MIN_EXECUTION_DELAY"
      "\<not> sat_u64 (pr_execution_window_secs p + MIN_EXECUTION_DELAY) < sat_u64 (timestamp e - pr_created_at p)"
    and cfg: "config_load (gov_bump (gov_bump s)) = Inr cfg"
    and q: "\<not> (0 < gc_min_quorum_bps cfg \<and> total_votes i p (gov_bump (gov_bump s)) <
        quorum_threshold (proposal_supply i (gov_bump (gov_bump s))) (gc_min_quorum_bps cfg))"
    and run: "refund_proposal_stake e i (pr_author p) (gov_bump (gov_bump s)) = Inr s2"
      "s' = snd (set_proposal_status i Executed s2)"
    using assms unfolding execute_proposal_def require_executor_def Let_def and_then_eq_Inr if_Inl_eq_Inr
      gov_require_role_success ok_or_eq_Inr sum.inject by blast
  have same: "total_votes i p (gov_bump (gov_bump s)) = total_votes i p s" "gk_Proposal s i = Some p"
    "proposal_supply i (gov_bump (gov_bump s)) = proposal_supply i s" "gk_MinQuorumBps (gov_bump (gov_bump s)) = gk_MinQuorumBps s"
    using au(3) by (simp_all add: gov_bump_def total_votes_def get_abstain_votes_def proposal_supply_def governance_supply_def
        cong: option.case_cong)
  show ?thesis
    by (rule that [OF au(1,2) same(2) _ _ _ run])
      (use st time q config_load_fields(3) [OF cfg] same in auto)
qed

lemma cancel_success:
  assumes "cancel_proposal a i s = Inr s'"
  obtains p s2 where "gk_Proposal s i = Some p" and "a = pr_author p" and "pr_status p = Pending \<or> pr_status p = Active"
    and "archive_vote_record i p (gov_bump s) = Inr s2" and "s' = snd (set_proposal_status i Cancelled s2)"
proof -
  obtain p s2 where "gk_Proposal (gov_bump s) i = Some p" "a = pr_author p"
    "\<not> (pr_status p \<noteq> Pending \<and> pr_status p \<noteq> Active)"
    "archive_vote_record i p (gov_bump s) = Inr s2" "s' = snd (set_proposal_status i Cancelled s2)"
    using assms unfolding cancel_proposal_def Let_def and_then_eq_Inr if_Inl_eq_Inr ok_or_eq_Inr sum.inject by blast
  then show ?thesis by (intro that) (auto simp: gov_bump_def)
qed

lemma cancel_by_admin_success:
  assumes "cancel_proposal_by_admin e a i h s = Inr s'"
  obtains p s2 where "authorized e a" and "gov_has_role e Admin a s" and "gk_Proposal s i = Some p"
    and "pr_status p = Pending \<or> pr_status p = Active"
    and "archive_vote_record i p (gov_bump (gov_bump s)) = Inr s2"
    and "s' = gov_emit (EvProposalCancelledByAdmin i a h) (snd (set_proposal_status i Cancelled s2))"
proof -
  obtain p s2 where "authorized e a" "gov_has_role e Admin a s" "gk_Proposal (gov_bump (gov_bump s)) i = Some p"
    "\<not> (pr_status p \<noteq> Pending \<and> pr_status p \<noteq> Active)"
    "archive_vote_record i p (gov_bump (gov_bump s)) = Inr s2"
    "s' = gov_emit (EvProposalCancelledByAdmin i a h) (snd (set_proposal_status i Cancelled s2))"
    using assms unfolding cancel_proposal_by_admin_def Let_def and_then_eq_Inr if_Inl_eq_Inr ok_or_eq_Inr
      gov_require_role_success sum.inject by blast
  then show ?thesis by (intro that) (auto simp: gov_bump_def)
qed

lemma proposal_calls_ok:
  assumes "governor_ok s"
  shows "execute_proposal e a i s = Inr s' \<Longrightarrow> governor_ok s'"
    and "cancel_proposal a i s = Inr s' \<Longrightarrow> governor_ok s'"
    and "cancel_proposal_by_admin e a i h s = Inr s' \<Longrightarrow> governor_ok s'"
proof -
  show "governor_ok s'" if run: "execute_proposal e a i s = Inr s'"
  proof -
    obtain p s2 where p: "gk_Proposal s i = Some p" and r: "refund_proposal_stake e i (pr_author p) (gov_bump (gov_bump s)) = Inr s2"
      and s': "s' = snd (set_proposal_status i Executed s2)"
      using run by (rule execute_success) (rule that)
    have "gk_Proposal s2 i = Some p" "governor_ok s2" using refund_success [OF r] p assms by (simp_all add: gov_bump_def)
    then show ?thesis unfolding s' using set_status_ok by blast
  qed
  show "governor_ok s'" if run: "cancel_proposal a i s = Inr s'"
  proof -
    obtain p s2 where p: "gk_Proposal s i = Some p" and r: "archive_vote_record i p (gov_bump s) = Inr s2"
      and s': "s' = snd (set_proposal_status i Cancelled s2)"
      using run by (rule cancel_success) (rule that)
    have "gk_Proposal s2 i = Some p" "governor_ok s2" using archive_success [OF r] p assms by (simp_all add: gov_bump_def)
    then show ?thesis unfolding s' using set_status_ok by blast
  qed
  show "governor_ok s'" if run: "cancel_proposal_by_admin e a i h s = Inr s'"
  proof -
    obtain p s2 where p: "gk_Proposal s i = Some p" and r: "archive_vote_record i p (gov_bump (gov_bump s)) = Inr s2"
      and s': "s' = gov_emit (EvProposalCancelledByAdmin i a h) (snd (set_proposal_status i Cancelled s2))"
      using run by (rule cancel_by_admin_success) (rule that)
    have "gk_Proposal s2 i = Some p" "governor_ok s2" using archive_success [OF r] p assms by (simp_all add: gov_bump_def)
    then show ?thesis unfolding s' using set_status_ok by simp
  qed
qed

lemma invoke_factory_success:
  assumes "invoke_factory c addr call s = Inr s'"
  obtains f f' where "gv_factories s addr = Some f"
    and "call (c\<lparr>ch_env := (ch_env c)\<lparr>contract_address := addr,
          authorized := (\<lambda>a. authorized (ch_env c) a \<or> a = contract_address (ch_env c))\<rparr>\<rparr>) (f\<lparr>fa_world := gv_world s\<rparr>) = Inr f'"
    and "s' = s\<lparr>gv_world := fa_world f', gv_factories := (gv_factories s)(addr \<mapsto> f')\<rparr>"
  using assms that unfolding invoke_factory_def Let_def
  by (cases "gv_factories s addr") (auto split: sum.splits)

lemma invoke_factory_ok: "invoke_factory c addr call s = Inr s' \<Longrightarrow> governor_ok s' \<longleftrightarrow> governor_ok s"
  by (elim invoke_factory_success) simp

lemma other_calls_ok:
  assumes "governor_ok s"
  shows "governor_pause e a s = Inr s' \<Longrightarrow> governor_ok s'"
    and "governor_unpause e a s = Inr s' \<Longrightarrow> governor_ok s'"
    and "pause_factory c a s = Inr s' \<Longrightarrow> governor_ok s'"
    and "unpause_factory c a s = Inr s' \<Longrightarrow> governor_ok s'"
    and "propose_authority e a b s = Inr s' \<Longrightarrow> governor_ok s'"
    and "revoke_propose_authority e a s = Inr s' \<Longrightarrow> governor_ok s'"
    and "propose_admin e a b s = Inr s' \<Longrightarrow> governor_ok s'"
    and "revoke_propose_admin e a s = Inr s' \<Longrightarrow> governor_ok s'"
    and "governor_upgrade e a k s = Inr s' \<Longrightarrow> governor_ok s'"
    and "set_fee_recipient e a b s = Inr s' \<Longrightarrow> governor_ok s'"
    and "set_force_cancel_pause_threshold e a n s = Inr s' \<Longrightarrow> governor_ok s'"
    and "set_governance_supply e a n s = Inr s' \<Longrightarrow> governor_ok s'"
    and "set_proposal_stake_config e a b n s = Inr s' \<Longrightarrow> governor_ok s'"
    and "checkpoint_balance e a b n s = Inr s' \<Longrightarrow> governor_ok s'"
proof -
  show "governor_pause e a s = Inr s' \<Longrightarrow> governor_ok s'" "governor_unpause e a s = Inr s' \<Longrightarrow> governor_ok s'"
    using assms by (auto simp: governor_pause_def governor_unpause_def gov_is_paused_def and_then_eq_Inr if_Inl_eq_Inr
        gov_require_role_or_admin_success split: prod.splits dest!: gov_set_paused_frame)
  show "pause_factory c a s = Inr s' \<Longrightarrow> governor_ok s'" "unpause_factory c a s = Inr s' \<Longrightarrow> governor_ok s'"
    using assms by (auto simp: pause_factory_def unpause_factory_def and_then_eq_Inr gov_require_role_or_admin_success
        invoke_factory_ok)
  show "propose_authority e a b s = Inr s' \<Longrightarrow> governor_ok s'" "revoke_propose_authority e a s = Inr s' \<Longrightarrow> governor_ok s'"
    "propose_admin e a b s = Inr s' \<Longrightarrow> governor_ok s'" "revoke_propose_admin e a s = Inr s' \<Longrightarrow> governor_ok s'"
    using assms by (auto simp: propose_authority_def revoke_propose_authority_def propose_admin_def revoke_propose_admin_def
        and_then_eq_Inr if_Inl_eq_Inr gov_require_role_success)
  show "governor_upgrade e a k s = Inr s' \<Longrightarrow> governor_ok s'" "set_fee_recipient e a b s = Inr s' \<Longrightarrow> governor_ok s'"
    "set_force_cancel_pause_threshold e a n s = Inr s' \<Longrightarrow> governor_ok s'" "set_governance_supply e a n s = Inr s' \<Longrightarrow> governor_ok s'"
    "set_proposal_stake_config e a b n s = Inr s' \<Longrightarrow> governor_ok s'"
    using assms by (auto simp: governor_upgrade_def set_fee_recipient_def set_force_cancel_pause_threshold_def
        set_governance_supply_def set_proposal_stake_config_def store_proposal_stake_config_def and_then_eq_Inr if_Inl_eq_Inr
        gov_require_role_success gov_require_role_or_admin_success dest!: gov_not_paused_success)
  show "checkpoint_balance e a b n s = Inr s' \<Longrightarrow> governor_ok s'"
    using assms by (auto simp: checkpoint_balance_def record_checkpoint_at_def gov_renew_def and_then_eq_Inr Let_def
        gov_require_role_or_admin_success)
qed

section \<open>Every history\<close>

lemma governor_exec_ok:
  assumes "governor_ok s" and "args_ok call" and "governor_exec c call s = Inr s'"
  shows "governor_ok s'"
  using assms(2,3)
  by (cases call) (auto simp: drop_id_eq_Inr dest: role_calls_ok [OF assms(1)] param_calls_ok [OF assms(1)] initialize_gov_ok [OF assms(1)]
      proposal_calls_ok [OF assms(1)] other_calls_ok [OF assms(1)] propose_ok [OF assms(1)])

lemma fresh_governor_ok: "governor_ok (fresh_governor k w fs)"
  by (auto simp: governor_ok_def roles_ok_def fresh_governor_def param_view_def proposal_view_def proposals_by_status_def
      in_i128_def int_bounds standing_empty)

definition governor_step :: "'w governor \<Rightarrow> 'w governor \<Rightarrow> bool" where
  "governor_step s s' \<longleftrightarrow> (\<exists>m. args_ok (mo_call m) \<and> s' = governor_attempt m s)"

lemma governor_attempt_ok: "governor_ok s \<Longrightarrow> args_ok (mo_call m) \<Longrightarrow> governor_ok (governor_attempt m s)"
  by (auto simp: governor_attempt_def Let_def intro: governor_exec_ok [rotated 2] split: sum.split)

interpretation governor_run: transition_system "\<lambda>s. \<exists>k w fs. s = fresh_governor k w fs" governor_step governor_ok
  by unfold_locales (auto simp: fresh_governor_ok governor_step_def governor_attempt_ok)

lemma governor_after_steps: "\<forall>m \<in> set ms. args_ok (mo_call m) \<Longrightarrow> governor_step\<^sup>*\<^sup>* s (governor_after ms s)"
proof (induction ms arbitrary: s)
  case (Cons m ms)
  have "governor_step s (governor_attempt m s)" using Cons.prems by (auto simp: governor_step_def)
  moreover have "governor_step\<^sup>*\<^sup>* (governor_attempt m s) (governor_after ms (governor_attempt m s))" using Cons by simp
  ultimately show ?case by (simp add: governor_after_def converse_rtranclp_into_rtranclp)
qed (simp add: governor_after_def)

lemma governor_reachable:
  "\<forall>m \<in> set ms. args_ok (mo_call m) \<Longrightarrow> governor_ok (governor_after ms (fresh_governor k w fs))"
  by (rule governor_run.reachable_inv [OF _ governor_after_steps]) blast

end
