(* ===== verification/Governor_Rules.thy ===== *)
theory Governor_Rules
  imports Governor_History Factory_Create
begin

text \<open>
  The rules the governor enforces: it is never without an administrator, its
  parameters always suit the factory, a proposal is settled at most once and only
  within its window, past voting weights cannot be rewritten, and the factory
  obeys its pause.
\<close>

section \<open>Administrators\<close>

text \<open>
  C19.  Whatever calls are attempted of a governor from deployment on, once it is
  initialised there is an account that holds the admin role at every time, and the
  admin counter is the number of such accounts.
\<close>

theorem governor_never_adminless:
  assumes "\<forall>m \<in> set ms. args_ok (mo_call m)" and "s = governor_after ms (fresh_governor k w fs)"
    and "gk_FactoryAddress s \<noteq> None"
  shows "\<exists>a. (\<forall>now. has_role now (gk_roles s) Admin a) \<and>
     (\<forall>now. gov_admin_count s = int (card {b. has_role now (gk_roles s) Admin b})) \<and> 1 \<le> gov_admin_count s"
proof -
  have "roles_ok s" using governor_reachable [OF assms(1)] by (simp add: assms(2) governor_ok_def)
  then have st: "standing Admin (gk_roles s)" and "has_admin Admin (gk_roles s)" using assms(3) by (simp_all add: roles_ok_def)
  then obtain a where "\<And>now. has_role now (gk_roles s) Admin a" "1 \<le> admin_count (gk_roles s)"
    by (rule standing_has_admin) blast
  then show ?thesis using standing_count(1) [OF st] by (auto simp: gov_admin_count_def)
qed

section \<open>A sample governor\<close>

definition gov_env :: "int \<Rightarrow> ledger env" where
  "gov_env now = \<lparr>timestamp = now, sequence = now, contract_address = ''G'', authorized = (\<lambda>_. True), tokens = ledger_token\<rparr>"

definition gov_chain :: "int \<Rightarrow> ledger chain" where
  "gov_chain now = (sample_chain now)\<lparr>ch_env := gov_env now\<rparr>"

definition gov_ledger :: ledger where
  "gov_ledger = (\<lambda>t h. if h = ''adm'' then 1000 else 0)"

definition motion_at :: "int \<Rightarrow> governor_call \<Rightarrow> ledger motion" where
  "motion_at now call = \<lparr>mo_chain = gov_chain now, mo_call = call, mo_world = gov_ledger, mo_factories = (\<lambda>_. None)\<rparr>"

lemma gov_env_simps [simp]:
  "timestamp (gov_env now) = now" "sequence (gov_env now) = now" "contract_address (gov_env now) = ''G''"
  "authorized (gov_env now) a" "tokens (gov_env now) = ledger_token" "ch_env (gov_chain now) = gov_env now"
  by (simp_all add: gov_env_def gov_chain_def)

lemma motion_at_simps [simp]:
  "mo_chain (motion_at now call) = gov_chain now" "mo_call (motion_at now call) = call"
  "mo_world (motion_at now call) = gov_ledger" "mo_factories (motion_at now call) = (\<lambda>_. None)"
  by (simp_all add: motion_at_def)

lemmas role_eval = gov_grant_def gov_grant_with_expiration_def gov_revoke_def grant_def grant_with_expiration_def revoke_def
  revoke_with_event_def revoked_admin_count_def has_role_entry has_expired_assignment_def typed_assignment_def rbac_empty_def
  plain_u32_def in_u32_def admin_count_def gov_has_role_def role_members_def int_bounds Let_def map_err_def

lemmas gov_eval = governor_after_def governor_attempt_def governor_initialize_def fresh_governor_def gov_bump_def
  gov_emit_def emit_if_def grant_role_def revoke_role_def gov_require_role_def gov_require_role_or_admin_def require_role_def
  require_role_or_admin_def require_auth_def role_eval

text \<open>
  The administrator initialises the governor, appoints an executor, asks for a stake
  of 100 and proposes with a window of 1000 seconds.
\<close>

definition opened :: "ledger governor" where
  "opened = governor_after [motion_at 10 (GInitialize ''adm'' ''fees'' ''F''), motion_at 11 (GGrantRole ''adm'' Executor ''exe''),
     motion_at 12 (GSetProposalStakeConfig ''adm'' ''T'' 100), motion_at 20 (GPropose ''adm'' 1000)]
     (fresh_governor [] gov_ledger (\<lambda>_. None))"

definition opened_roles :: "governor_role rbac" where
  "opened_roles = \<lparr>role_entries = (\<lambda>_. None)((Admin, ''adm'') := Some (Assignment None), (FeeManager, ''adm'') := Some (Assignment None),
       (RateManager, ''adm'') := Some (Assignment None), (Pauser, ''adm'') := Some (Assignment None),
       (Executor, ''exe'') := Some (Assignment None)), admin_counter = Some 1,
     member_lists = (\<lambda>_. None)(Admin := Some [''adm''], FeeManager := Some [''adm''], RateManager := Some [''adm''],
       Pauser := Some [''adm''], Executor := Some [''exe'']), revocations = []\<rparr>"

lemma opened_fields:
  "gk_roles opened = opened_roles" "gk_Proposal opened = [1 \<mapsto> new_proposal (gov_env 20) ''adm'' 1000]"
  "gk_ProposalCounter opened = Some 1" "gk_ProposalStake opened = [1 \<mapsto> 100]"
  "gk_ProposalStakeTokenByProposal opened = [1 \<mapsto> ''T'']" "gk_ProposalsByStatus opened = [Pending \<mapsto> [1]]"
  "gk_MinQuorumBps opened = Some 0" "gk_FeeRecipient opened = Some ''fees''" "gk_FactoryAddress opened = Some ''F''"
  "gk_Paused opened = None" "gv_world opened = moved (ledger_read gov_ledger) ''T'' ''adm'' ''G'' 100"
  "gk_VoteRecord opened = (\<lambda>_. None)" "gk_VoteCheckpoints opened = (\<lambda>_. None)"
  by (simp_all add: opened_def gov_eval set_proposal_stake_config_def gov_assert_not_paused_def require_not_paused_def
      is_paused_def require_not_paused_flag_def store_proposal_stake_config_def is_zero_address_def zero_account_def
      zero_contract_def propose_def config_load_def gov_transfer_def transfer_call_def ledger_transfer_def ledger_read_def
      gov_ledger_def plain_u64_def in_u64_def write_proposal_def add_proposal_to_status_index_def proposals_by_status_def
      drop_id_def opened_roles_def fun_eq_iff)

theorem governor_never_adminless_witness:
  "\<exists>a. (\<forall>now. has_role now (gk_roles (governor_after [motion_at 10 (GInitialize ''adm'' ''fees'' ''F''),
       motion_at 20 (GRevokeRole ''adm'' Admin ''adm'')] (fresh_governor [] gov_ledger (\<lambda>_. None)))) Admin a)"
proof -
  let ?ms = "[motion_at 10 (GInitialize ''adm'' ''fees'' ''F''), motion_at 20 (GRevokeRole ''adm'' Admin ''adm'')]"
  have "gk_FactoryAddress (governor_after ?ms (fresh_governor [] gov_ledger (\<lambda>_. None))) \<noteq> None"
    by (simp add: gov_eval split: sum.split)
  from governor_never_adminless [OF _ refl this] show ?thesis by auto
qed

section \<open>Parameters and proposals\<close>

text \<open>
  C20.  Whatever calls are attempted of a governor, the configuration it reports has a
  fee of at most the whole deposit, a non-empty range of durations, a positive rate
  limit that over the least duration still fits 128 bits and a quorum of at most
  everybody; proposals are numbered without gaps from 1 to the counter; and the list
  kept for each status holds exactly the proposals in that status, each once.
\<close>

theorem governor_state_consistent:
  assumes "\<forall>m \<in> set ms. args_ok (mo_call m)" and "s = governor_after ms (fresh_governor k w fs)"
  shows "(\<forall>cfg. config_load s = Inr cfg \<longrightarrow>
       0 \<le> gc_fee_bps cfg \<and> gc_fee_bps cfg \<le> 10000 \<and>
       0 < gc_min_duration_seconds cfg \<and> gc_min_duration_seconds cfg \<le> gc_max_duration_seconds cfg \<and>
       0 < gc_max_rate_per_second cfg \<and> in_i128 (gc_max_rate_per_second cfg * gc_min_duration_seconds cfg) \<and>
       0 \<le> gc_min_quorum_bps cfg \<and> gc_min_quorum_bps cfg \<le> 10000) \<and>
     (\<forall>i. gk_Proposal s i \<noteq> None \<longleftrightarrow> 1 \<le> i \<and> i < next_id s) \<and>
     (\<forall>st. distinct (proposals_by_status st s) \<and>
       set (proposals_by_status st s) = {i. \<exists>p. gk_Proposal s i = Some p \<and> pr_status p = st})"
proof -
  have ok: "params_ok (param_view s)" "proposals_ok (proposal_view s)"
    using governor_reachable [OF assms(1)] by (simp_all add: assms(2) governor_ok_def)
  have "params_ok (gc_fee_bps cfg, gc_min_duration_seconds cfg, gc_max_duration_seconds cfg,
       gc_max_rate_per_second cfg, gc_min_quorum_bps cfg)" if "config_load s = Inr cfg" for cfg
    using ok(1) config_load_fields(6) [OF that] by simp
  moreover have "proposals_ok (gk_Proposal s, next_id s - 1, \<lambda>st. proposals_by_status st s)"
    using ok(2) by (simp add: proposal_view_def next_id_def)
  ultimately show ?thesis by simp
qed

theorem governor_state_consistent_witness: "gk_Proposal opened 1 \<noteq> None \<and> gk_Proposal opened 2 = None \<and> 1 \<in> set (proposals_by_status Pending opened)"
proof -
  have "next_id opened = 2" by (simp add: next_id_def opened_fields)
  then have "\<forall>i. gk_Proposal opened i \<noteq> None \<longleftrightarrow> 1 \<le> i \<and> i < 2"
    and idx: "set (proposals_by_status Pending opened) = {i. \<exists>p. gk_Proposal opened i = Some p \<and> pr_status p = Pending}"
    using governor_state_consistent [OF _ opened_def] by simp_all
  then show ?thesis using idx by (simp add: opened_fields new_proposal_def)
qed

section \<open>Execution\<close>

text \<open>The balances after the stake of proposal \<open>i\<close>, if any is held, has gone back to its author.\<close>

definition refunded :: "'w env \<Rightarrow> int \<Rightarrow> address \<Rightarrow> 'w governor \<Rightarrow> (address \<Rightarrow> address \<Rightarrow> int)" where
  "refunded e i author s = (case (gk_ProposalStake s i, gk_ProposalStakeTokenByProposal s i) of
      (Some amount, Some tok) \<Rightarrow> moved (bal_of e (gv_world s)) tok (contract_address e) author amount
    | _ \<Rightarrow> bal_of e (gv_world s))"

lemma refund_moves:
  assumes "refund_proposal_stake e i author s = Inr s'" and "sep41 e"
  shows "bal_of e (gv_world s') = refunded e i author s"
proof (cases "gk_ProposalStake s i")
  case (Some amount)
  then obtain tok wd where "gk_ProposalStakeTokenByProposal s i = Some tok"
    and tr: "tok_transfer (tokens e) (gv_world s) tok (contract_address e) author amount = Some wd" and "gv_world s' = wd"
    using assms(1) by (auto simp: refund_proposal_stake_def gov_transfer_def and_then_eq_Inr ok_or_eq_Inr transfer_call_eq_Inr)
  then show ?thesis using sep41_transfer(3) [OF assms(2) tr] Some by (simp add: refunded_def)
qed (use assms(1) in \<open>simp add: refund_proposal_stake_def refunded_def\<close>)

lemma set_status_fields:
  assumes "gk_Proposal s i = Some p"
  shows "gk_Proposal (snd (set_proposal_status i st s)) = (gk_Proposal s)(i \<mapsto> p\<lparr>pr_status := st\<rparr>)"
    and "gv_world (snd (set_proposal_status i st s)) = gv_world s"
    and "gk_ProposalStake (snd (set_proposal_status i st s)) = gk_ProposalStake s"
    and "gk_ProposalStakeTokenByProposal (snd (set_proposal_status i st s)) = gk_ProposalStakeTokenByProposal s"
    and "gk_roles (snd (set_proposal_status i st s)) = gk_roles s"
proof -
  have "p\<lparr>pr_status := pr_status p\<rparr> = p" by simp
  then show "gk_Proposal (snd (set_proposal_status i st s)) = (gk_Proposal s)(i \<mapsto> p\<lparr>pr_status := st\<rparr>)"
    using assms by (auto simp: set_proposal_status_def add_proposal_to_status_index_def remove_proposal_from_status_index_def
        Let_def fun_eq_iff)
qed (use assms in \<open>simp_all add: set_proposal_status_def add_proposal_to_status_index_def
    remove_proposal_from_status_index_def Let_def\<close>)

text \<open>
  C21.  A proposal is executed only by an account that holds the executor role and
  authorized the call, while it is pending or active, from seven days after its
  creation until its window after these has passed, and only if the votes cast reach
  the quorum of the supply recorded when it was made; its stake then goes back to its
  author, no other balance changes, it is recorded as executed, and no one can
  execute it again.
\<close>

theorem execute_proposal_correct:
  assumes "execute_proposal e executor i s = Inr s'" and "sep41 e" and "in_u64 (timestamp e)"
    and "\<forall>p. gk_Proposal s i = Some p \<longrightarrow> in_u64 (pr_created_at p) \<and> in_u64 (pr_execution_window_secs p)"
  shows "\<exists>p. gk_Proposal s i = Some p \<and> authorized e executor \<and> gov_has_role e Executor executor s \<and>
     (pr_status p = Pending \<or> pr_status p = Active) \<and>
     pr_created_at p + 604800 \<le> timestamp e \<and>
     timestamp e \<le> pr_created_at p + 604800 + pr_execution_window_secs p \<and>
     (\<forall>q. gk_MinQuorumBps s = Some q \<longrightarrow> 0 < q \<longrightarrow> quorum_threshold (proposal_supply i s) q \<le> total_votes i p s) \<and>
     gk_Proposal s' = (gk_Proposal s)(i \<mapsto> p\<lparr>pr_status := Executed\<rparr>) \<and>
     bal_of e (gv_world s') = refunded e i (pr_author p) s \<and> gk_ProposalStake s' i = None \<and>
     (\<forall>e2 x s2. execute_proposal e2 x i s' \<noteq> Inr s2)"
  using assms(1)
proof (rule execute_success)
  fix p s2
  assume au: "authorized e executor" "gov_has_role e Executor executor s"
    and p: "gk_Proposal s i = Some p" and st: "pr_status p = Pending \<or> pr_status p = Active"
    and early: "MIN_EXECUTION_DELAY \<le> sat_u64 (timestamp e - pr_created_at p)"
    and late: "sat_u64 (timestamp e - pr_created_at p) \<le> sat_u64 (pr_execution_window_secs p + MIN_EXECUTION_DELAY)"
    and r: "refund_proposal_stake e i (pr_author p) (gov_bump (gov_bump s)) = Inr s2"
    and s': "s' = snd (set_proposal_status i Executed s2)"
    and q: "\<And>q. gk_MinQuorumBps s = Some q \<Longrightarrow> 0 < q \<Longrightarrow> quorum_threshold (proposal_supply i s) q \<le> total_votes i p s"
  have range: "in_u64 (pr_created_at p)" "in_u64 (pr_execution_window_secs p)" using assms(4) p by auto
  have "pr_created_at p + 604800 \<le> timestamp e"
    using early assms(3) range(1) by (auto simp: sat_u64_def in_u64_def MIN_EXECUTION_DELAY_def int_bounds)
  moreover have "timestamp e \<le> pr_created_at p + 604800 + pr_execution_window_secs p"
    using early late assms(3) range by (auto simp: sat_u64_def in_u64_def MIN_EXECUTION_DELAY_def int_bounds)
  moreover have p2: "gk_Proposal s2 = gk_Proposal s" "gk_ProposalStake s2 i = None"
    using refund_success(2,4) [OF r] by (simp_all add: gov_bump_def)
  moreover have "bal_of e (gv_world s2) = refunded e i (pr_author p) s"
    using refund_moves [OF r assms(2)] by (simp add: refunded_def gov_bump_def cong: option.case_cong)
  moreover have "execute_proposal e2 x i s' \<noteq> Inr s3" for e2 x s3
    using p p2 by (auto elim!: execute_success simp: s' set_status_fields)
  ultimately show ?thesis
    using au p st q set_status_fields [of s2 i p Executed] by (intro exI [of _ p]) (simp add: s')
qed

theorem execute_proposal_correct_witness:
  "\<exists>s'. execute_proposal (gov_env 604830) ''exe'' 1 opened = Inr s' \<and>
     bal_of (gov_env 604830) (gv_world opened) ''T'' ''adm'' = 900 \<and>
     bal_of (gov_env 604830) (gv_world s') ''T'' ''adm'' = 1000 \<and> bal_of (gov_env 604830) (gv_world s') ''T'' ''G'' = 0"
proof -
  have role: "gov_has_role (gov_env 604830) Executor ''exe'' opened"
    by (simp add: gov_has_role_def has_role_entry opened_fields opened_roles_def)
  obtain s' where run: "execute_proposal (gov_env 604830) ''exe'' 1 opened = Inr s'"
    using role by (simp add: execute_proposal_def require_executor_def gov_require_role_def require_role_def gov_has_role_def
        require_auth_def map_err_def gov_bump_def opened_fields new_proposal_def sat_u64_def MIN_EXECUTION_DELAY_def int_bounds
        config_load_def refund_proposal_stake_def gov_transfer_def transfer_call_def ledger_transfer_def moved_def
        ledger_read_def gov_ledger_def Let_def)
  have "bal_of (gov_env 604830) (gv_world s') = refunded (gov_env 604830) 1 ''adm'' opened"
    using execute_proposal_correct [OF run ledger_token_sep41]
    by (auto simp: opened_fields new_proposal_def in_u64_def int_bounds simp del: ledger_bal_of)
  then have "bal_of (gov_env 604830) (gv_world s') = moved (bal_of (gov_env 604830) (gv_world opened)) ''T'' ''G'' ''adm'' 100"
    by (simp add: refunded_def opened_fields(4,5))
  moreover have "bal_of (gov_env 604830) (gv_world opened) ''T'' ''adm'' = 900" "bal_of (gov_env 604830) (gv_world opened) ''T'' ''G'' = 100"
    by (simp_all add: opened_fields moved_def ledger_read_def gov_ledger_def int_bounds)
  ultimately show ?thesis using run by (simp del: ledger_bal_of)
qed

section \<open>Settled proposals\<close>

definition closed_proposal :: "'w governor \<Rightarrow> int \<Rightarrow> proposal \<Rightarrow> bool" where
  "closed_proposal s i p \<longleftrightarrow> gk_Proposal s i = Some p \<and> pr_status p \<noteq> Pending \<and> pr_status p \<noteq> Active"

definition settled_kept :: "'w governor \<Rightarrow> 'w governor \<Rightarrow> bool" where
  "settled_kept s s' \<longleftrightarrow> (\<forall>i p. closed_proposal s i p \<longrightarrow> closed_proposal s' i p \<and> gk_ProposalStake s' i = gk_ProposalStake s i)"

text \<open>Calls that do not touch proposals.\<close>

definition stake_view :: "'w governor \<Rightarrow> (int \<Rightarrow> proposal option) \<times> (int \<Rightarrow> int option)" where
  "stake_view s = (gk_Proposal s, gk_ProposalStake s)"

lemma settled_kept_view: "stake_view s' = stake_view s \<Longrightarrow> settled_kept s s'"
  by (simp add: settled_kept_def closed_proposal_def stake_view_def)

lemma stake_view_simps [simp]:
  "stake_view (gov_emit ev s) = stake_view s" "stake_view (gov_bump s) = stake_view s" "stake_view (emit_if b ev s) = stake_view s"
  "stake_view (s\<lparr>gk_Paused := pz\<rparr>) = stake_view s"
  "stake_view (s\<lparr>gv_world := w\<rparr>) = stake_view s" "stake_view (s\<lparr>gv_factories := f\<rparr>) = stake_view s"
  by (simp_all add: stake_view_def gov_emit_def gov_bump_def emit_if_def)

lemma role_change_view:
  "gov_grant_with_expiration e r a x s = Inr (b, s') \<Longrightarrow> stake_view s' = stake_view s"
  "gov_revoke e r a s = Inr (b, s') \<Longrightarrow> stake_view s' = stake_view s"
  by (auto simp: gov_grant_with_expiration_def gov_revoke_def and_then_eq_Inr stake_view_def)

lemma role_batch_view:
  "grant_each e caller r as s = Inr s' \<Longrightarrow> stake_view s' = stake_view s"
  "revoke_each e caller r as s = Inr s' \<Longrightarrow> stake_view s' = stake_view s"
  by (induction "as" arbitrary: s) (auto simp: and_then_eq_Inr gov_grant_eq dest!: role_change_view)

lemma invoke_view: "invoke_factory c addr call s = Inr s' \<Longrightarrow> stake_view s' = stake_view s"
  by (elim invoke_factory_success) simp

lemma not_paused_view: "gov_assert_not_paused e s = Inr s' \<Longrightarrow> stake_view s' = stake_view s"
  by (auto dest!: gov_not_paused_success)

lemma role_calls_view:
  "grant_role_with_expiration e a r b x s = Inr s' \<Longrightarrow> stake_view s' = stake_view s"
  "grant_role e a r b s = Inr s' \<Longrightarrow> stake_view s' = stake_view s"
  "revoke_role e a r b s = Inr s' \<Longrightarrow> stake_view s' = stake_view s"
  "grant_role_batch e a r bs s = Inr s' \<Longrightarrow> stake_view s' = stake_view s"
  "revoke_role_batch e a r bs s = Inr s' \<Longrightarrow> stake_view s' = stake_view s"
  "transfer_authority e a b s = Inr s' \<Longrightarrow> stake_view s' = stake_view s"
  "propose_authority e a b s = Inr s' \<Longrightarrow> stake_view s' = stake_view s"
  "revoke_propose_authority e a s = Inr s' \<Longrightarrow> stake_view s' = stake_view s"
  "propose_admin e a b s = Inr s' \<Longrightarrow> stake_view s' = stake_view s"
  "revoke_propose_admin e a s = Inr s' \<Longrightarrow> stake_view s' = stake_view s"
  by (auto simp: grant_role_with_expiration_def grant_role_def revoke_role_def grant_role_batch_def revoke_role_batch_def
      transfer_authority_def propose_authority_def revoke_propose_authority_def propose_admin_def revoke_propose_admin_def
      gov_require_role_success gov_grant_eq and_then_eq_Inr if_Inl_eq_Inr dest!: role_change_view role_batch_view)
    (simp_all add: stake_view_def gov_emit_def gov_bump_def)

lemma accept_calls_view:
  "accept_authority e a s = Inr s' \<Longrightarrow> stake_view s' = stake_view s"
  "claim_admin e a s = Inr s' \<Longrightarrow> stake_view s' = stake_view s"
  "governor_initialize e a b d s = Inr s' \<Longrightarrow> stake_view s' = stake_view s"
  by (auto simp: accept_authority_def claim_admin_def governor_initialize_def Let_def gov_grant_eq and_then_eq_Inr if_Inl_eq_Inr
      dest!: role_change_view)
    (simp_all add: stake_view_def gov_emit_def gov_bump_def)

lemma param_calls_view:
  "set_fee_bps e a n s = Inr s' \<Longrightarrow> stake_view s' = stake_view s"
  "set_fee_recipient e a b s = Inr s' \<Longrightarrow> stake_view s' = stake_view s"
  "set_min_duration e a n s = Inr s' \<Longrightarrow> stake_view s' = stake_view s"
  "set_max_rate e a n s = Inr s' \<Longrightarrow> stake_view s' = stake_view s"
  "set_max_duration e a n s = Inr s' \<Longrightarrow> stake_view s' = stake_view s"
  "set_force_cancel_pause_threshold e a n s = Inr s' \<Longrightarrow> stake_view s' = stake_view s"
  "set_min_quorum_bps e a n s = Inr s' \<Longrightarrow> stake_view s' = stake_view s"
  "set_governance_supply e a n s = Inr s' \<Longrightarrow> stake_view s' = stake_view s"
  "set_proposal_stake_config e a b n s = Inr s' \<Longrightarrow> stake_view s' = stake_view s"
  "checkpoint_balance e a b n s = Inr s' \<Longrightarrow> stake_view s' = stake_view s"
  "governor_upgrade e a k s = Inr s' \<Longrightarrow> stake_view s' = stake_view s"
  by (auto simp: set_fee_bps_def set_fee_recipient_def set_min_duration_def set_max_rate_def set_max_duration_def
      set_force_cancel_pause_threshold_def set_min_quorum_bps_def set_governance_supply_def set_proposal_stake_config_def
      store_proposal_stake_config_def checkpoint_balance_def record_checkpoint_at_def gov_renew_def governor_upgrade_def
      gov_require_role_success gov_require_role_or_admin_success and_then_eq_Inr if_Inl_eq_Inr Let_def dest!: gov_not_paused_success)
    (simp_all add: stake_view_def gov_emit_def gov_bump_def)

lemma pause_calls_view:
  "governor_pause e a s = Inr s' \<Longrightarrow> stake_view s' = stake_view s"
  "governor_unpause e a s = Inr s' \<Longrightarrow> stake_view s' = stake_view s"
  "pause_factory c a s = Inr s' \<Longrightarrow> stake_view s' = stake_view s"
  "unpause_factory c a s = Inr s' \<Longrightarrow> stake_view s' = stake_view s"
  by (auto simp: governor_pause_def governor_unpause_def pause_factory_def unpause_factory_def gov_is_paused_def and_then_eq_Inr
      if_Inl_eq_Inr gov_require_role_or_admin_success split: prod.splits dest!: invoke_view gov_set_paused_frame)

text \<open>Calls on proposals touch an open proposal or make a new one.\<close>

lemma cancelled_fields:
  assumes "cancel_proposal a i s = Inr s' \<or> cancel_proposal_by_admin e a i h s = Inr s'"
  obtains p where "gk_Proposal s i = Some p" and "pr_status p = Pending \<or> pr_status p = Active"
    and "gk_Proposal s' = (gk_Proposal s)(i \<mapsto> p\<lparr>pr_status := Cancelled\<rparr>)" and "gk_ProposalStake s' = gk_ProposalStake s"
    and "gv_world s' = gv_world s"
proof -
  obtain p t s2 where p: "gk_Proposal s i = Some p" "pr_status p = Pending \<or> pr_status p = Active"
    and t: "archive_vote_record i p t = Inr s2" "gk_Proposal t = gk_Proposal s" "gk_ProposalStake t = gk_ProposalStake s"
      "gv_world t = gv_world s"
    and s': "gk_Proposal s' = gk_Proposal (snd (set_proposal_status i Cancelled s2))"
      "gk_ProposalStake s' = gk_ProposalStake (snd (set_proposal_status i Cancelled s2))"
      "gv_world s' = gv_world (snd (set_proposal_status i Cancelled s2))"
    using assms by (elim disjE cancel_success cancel_by_admin_success) (simp_all add: gov_bump_def gov_emit_def)
  have "gv_world s2 = gv_world s"
    using t(1,4) by (auto simp: archive_vote_record_def gov_renew_def and_then_eq_Inr split: if_splits)
  then show thesis
    using that p t(2,3) s' archive_success(2,3) [OF t(1)] set_status_fields [of s2 i p Cancelled] by simp
qed

lemma fresh_id: "governor_ok s \<Longrightarrow> gk_Proposal s (next_id s) = None"
  by (simp add: governor_ok_def proposal_view_def next_id_def) (metis add.commute not_None_eq zle_add1_eq_le order.irrefl)

lemma proposal_calls_kept:
  shows "governor_ok s \<Longrightarrow> propose e a w s = Inr (i, s') \<Longrightarrow> settled_kept s s'"
    and "execute_proposal e a i s = Inr s' \<Longrightarrow> settled_kept s s'"
    and "cancel_proposal a i s = Inr s' \<Longrightarrow> settled_kept s s'"
    and "cancel_proposal_by_admin e a i h s = Inr s' \<Longrightarrow> settled_kept s s'"
proof -
  show "settled_kept s s'" if ok: "governor_ok s" and run: "propose e a w s = Inr (i, s')"
  proof -
    obtain stake tok wd where i: "i = next_id s"
      and s': "s' = write_proposal e i (new_proposal e a w) tok stake (gov_bump ((gov_bump s)\<lparr>gv_world := wd\<rparr>))"
      using run by (rule propose_success)
    have "gk_Proposal s i = None"
      using fresh_id [OF ok] by (simp add: i)
    moreover have "gk_Proposal s' = (gk_Proposal s)(i \<mapsto> new_proposal e a w)" "gk_ProposalStake s' = (gk_ProposalStake s)(i \<mapsto> stake)"
      by (simp_all add: s' write_proposal_def add_proposal_to_status_index_def Let_def gov_bump_def)
    ultimately show ?thesis by (auto simp: settled_kept_def closed_proposal_def)
  qed
  show "settled_kept s s'" if run: "execute_proposal e a i s = Inr s'"
  proof -
    obtain p s2 where p: "gk_Proposal s i = Some p" "pr_status p = Pending \<or> pr_status p = Active"
      and r: "refund_proposal_stake e i (pr_author p) (gov_bump (gov_bump s)) = Inr s2"
      and s': "s' = snd (set_proposal_status i Executed s2)"
      using run by (rule execute_success) (rule that)
    have "gk_Proposal s2 = gk_Proposal s" "gk_ProposalStake s2 = (gk_ProposalStake s)(i := None)"
      using refund_success [OF r] by (simp_all add: gov_bump_def)
    then show ?thesis
      using p set_status_fields [of s2 i p Executed] by (auto simp: settled_kept_def closed_proposal_def s')
  qed
  have "settled_kept s s'" if run: "cancel_proposal a i s = Inr s' \<or> cancel_proposal_by_admin e a i h s = Inr s'"
    using run by (rule cancelled_fields) (auto simp: settled_kept_def closed_proposal_def)
  then show "cancel_proposal a i s = Inr s' \<Longrightarrow> settled_kept s s'" "cancel_proposal_by_admin e a i h s = Inr s' \<Longrightarrow> settled_kept s s'"
    by blast+
qed

lemmas stake_view_calls = role_calls_view accept_calls_view param_calls_view pause_calls_view

lemma governor_exec_kept:
  assumes "governor_ok s" and "governor_exec c call s = Inr s'"
  shows "settled_kept s s'"
  using assms(2) proposal_calls_kept(1) [OF assms(1)]
  by (cases call) (auto simp: drop_id_eq_Inr intro: settled_kept_view proposal_calls_kept dest: stake_view_calls)

interpretation settlement: frame_relation settled_kept
  unfolding settled_kept_def by unfold_locales (simp, metis)

lemma governor_step_kept:
  assumes "governor_ok s" and "governor_step s s'"
  shows "settled_kept s s'"
proof -
  obtain m where s': "s' = governor_attempt m s" using assms(2) by (auto simp: governor_step_def)
  define t where "t = s\<lparr>gv_world := mo_world m, gv_factories := mo_factories m\<rparr>"
  have "settled_kept s t" by (rule settled_kept_view) (simp add: t_def stake_view_def)
  moreover have "settled_kept t s1" if "governor_exec (mo_chain m) (mo_call m) t = Inr s1" for s1
    using governor_exec_kept [OF _ that] assms(1) by (simp add: t_def)
  ultimately show ?thesis
    unfolding s' governor_attempt_def Let_def t_def [symmetric]
    by (auto intro: settlement.R_trans split: sum.split)
qed

lemma governor_after_kept:
  assumes "governor_ok s" and "\<forall>m \<in> set ms. args_ok (mo_call m)"
  shows "settled_kept s (governor_after ms s)"
  by (rule governor_run.run_relation [OF governor_after_steps [OF assms(2)] assms(1)])
    (auto intro: settlement.R_refl settlement.R_trans governor_step_kept)

definition withdrawn_motions :: "ledger motion list" where
  "withdrawn_motions = [motion_at 10 (GInitialize ''adm'' ''fees'' ''F''), motion_at 11 (GGrantRole ''adm'' Executor ''exe''),
     motion_at 12 (GSetProposalStakeConfig ''adm'' ''T'' 100), motion_at 20 (GPropose ''adm'' 1000),
     motion_at 30 (GCancelProposal ''adm'' 1)]"

lemma withdrawn_fields:
  defines "s \<equiv> governor_after withdrawn_motions (fresh_governor [] gov_ledger (\<lambda>_. None))"
  shows "gk_Proposal s 1 = Some ((new_proposal (gov_env 20) ''adm'' 1000)\<lparr>pr_status := Cancelled\<rparr>)" and "gk_ProposalStake s 1 = Some 100"
proof -
  have "s = governor_attempt (motion_at 30 (GCancelProposal ''adm'' 1)) opened"
    by (simp add: s_def withdrawn_motions_def opened_def governor_after_def)
  then show "gk_Proposal s 1 = Some ((new_proposal (gov_env 20) ''adm'' 1000)\<lparr>pr_status := Cancelled\<rparr>)" "gk_ProposalStake s 1 = Some 100"
    by (simp_all add: governor_attempt_def cancel_proposal_def gov_bump_def opened_fields new_proposal_def archive_vote_record_def
        gov_renew_def bump_persistent_def set_proposal_status_def remove_proposal_from_status_index_def
        add_proposal_to_status_index_def proposals_by_status_def Let_def)
qed

text \<open>
  The stake of a cancelled proposal stays with the governor: its record remains through
  every later call, and no call pays it out.
\<close>

theorem cancelled_stake_stays:
  "gk_ProposalStake (governor_after [motion_at now (GExecuteProposal ''exe'' 1)]
     (governor_after withdrawn_motions (fresh_governor [] gov_ledger (\<lambda>_. None)))) 1 = Some 100"
proof -
  let ?s = "governor_after withdrawn_motions (fresh_governor [] gov_ledger (\<lambda>_. None))"
  have "governor_ok ?s" by (rule governor_reachable) (simp add: withdrawn_motions_def)
  then have "settled_kept ?s (governor_after [motion_at now (GExecuteProposal ''exe'' 1)] ?s)"
    by (rule governor_after_kept) simp
  then show ?thesis
    unfolding settled_kept_def using withdrawn_fields by (auto simp: closed_proposal_def dest: spec [of _ 1])
qed

section \<open>Voting weights\<close>

text \<open>The weight at a ledger: the last one recorded at or before it, zero before any.\<close>

definition weight_at :: "int \<Rightarrow> (int \<times> int) list \<Rightarrow> int" where
  "weight_at ledger recs = (let rs = filter (\<lambda>r. fst r \<le> ledger) recs in if rs = [] then 0 else snd (last rs))"

definition checkpoint_list :: "address \<Rightarrow> 'w governor \<Rightarrow> balance_checkpoint list" where
  "checkpoint_list a s = (case gk_VoteCheckpoints s a of Some cps \<Rightarrow> cps | None \<Rightarrow> [])"

text \<open>What the stored list and the records agree on: the weight at every ledger.\<close>

definition same_weights :: "balance_checkpoint list \<Rightarrow> (int \<times> int) list \<Rightarrow> bool" where
  "same_weights cps recs \<longleftrightarrow> sorted_wrt (<) (map cp_ledger cps) \<and>
     (\<forall>l. weight_at l (map (\<lambda>c. (cp_ledger c, cp_weight c)) cps) = weight_at l recs) \<and>
     (cps \<noteq> [] \<longrightarrow> recs \<noteq> [] \<and> cp_ledger (last cps) = fst (last recs)) \<and> (cps = [] \<longrightarrow> recs = [])"

lemma scan_weight:
  assumes "sorted_wrt (<) (map cp_ledger cps)"
  shows "scan_checkpoints l cps d =
     (let rs = filter (\<lambda>r. fst r \<le> l) (map (\<lambda>c. (cp_ledger c, cp_weight c)) cps) in if rs = [] then d else snd (last rs))"
  using assms
proof (induction l cps d rule: scan_checkpoints.induct)
  case (2 l cp cps d)
  show ?case
  proof (cases "cp_ledger cp \<le> l")
    case True
    then show ?thesis using 2 by (simp add: Let_def)
  next
    case False
    then have "\<forall>c \<in> set cps. l < cp_ledger c" using 2(2) by auto
    then have "filter (\<lambda>r. fst r \<le> l) (map (\<lambda>c. (cp_ledger c, cp_weight c)) cps) = []" by (auto simp: filter_empty_conv)
    then show ?thesis using False by (simp add: Let_def)
  qed
qed (simp add: Let_def)

lemma weight_at_snoc: "weight_at l (recs @ [(n, w)]) = (if n \<le> l then w else weight_at l recs)"
  by (simp add: weight_at_def Let_def)

lemma record_checkpoint_list:
  assumes "record_checkpoint_at a n w s = Inr s'"
  shows "checkpoint_list b s' = (if b = a then
     (if checkpoint_list a s \<noteq> [] \<and> n \<le> cp_ledger (last (checkpoint_list a s))
      then butlast (checkpoint_list a s) @ [\<lparr>cp_ledger = n, cp_weight = w\<rparr>]
      else checkpoint_list a s @ [\<lparr>cp_ledger = n, cp_weight = w\<rparr>]) else checkpoint_list b s)"
    and "gk_VoteCheckpoints s' a \<noteq> None"
proof -
  have upd: "xs[length xs - 1 := y] = butlast xs @ [y]" if "xs \<noteq> []" for xs :: "balance_checkpoint list" and y
    using that by (cases xs rule: rev_cases) simp_all
  show "checkpoint_list b s' = (if b = a then
     (if checkpoint_list a s \<noteq> [] \<and> n \<le> cp_ledger (last (checkpoint_list a s))
      then butlast (checkpoint_list a s) @ [\<lparr>cp_ledger = n, cp_weight = w\<rparr>]
      else checkpoint_list a s @ [\<lparr>cp_ledger = n, cp_weight = w\<rparr>]) else checkpoint_list b s)"
    using assms upd by (auto simp: record_checkpoint_at_def gov_renew_def Let_def and_then_eq_Inr checkpoint_list_def
        split: option.splits)
  show "gk_VoteCheckpoints s' a \<noteq> None"
    using assms by (auto simp: record_checkpoint_at_def gov_renew_def Let_def and_then_eq_Inr)
qed

lemma same_weights_record:
  assumes "same_weights cps recs" and "recs \<noteq> [] \<longrightarrow> fst (last recs) \<le> n"
  shows "same_weights (if cps \<noteq> [] \<and> n \<le> cp_ledger (last cps) then butlast cps @ [\<lparr>cp_ledger = n, cp_weight = w\<rparr>]
     else cps @ [\<lparr>cp_ledger = n, cp_weight = w\<rparr>]) (recs @ [(n, w)])"
proof (cases "cps \<noteq> [] \<and> n \<le> cp_ledger (last cps)")
  case True
  then obtain init c where cps: "cps = init @ [c]" by (meson rev_exhaust)
  have n: "cp_ledger c = n" using True assms cps by (auto simp: same_weights_def)
  have "weight_at l (map (\<lambda>c. (cp_ledger c, cp_weight c)) init) = weight_at l recs" if "\<not> n \<le> l" for l
  proof -
    have "weight_at l (map (\<lambda>c. (cp_ledger c, cp_weight c)) cps) = weight_at l recs" using assms(1) by (simp add: same_weights_def)
    then show ?thesis using that n by (simp add: cps weight_at_snoc)
  qed
  then show ?thesis using True assms(1) n by (auto simp: same_weights_def cps weight_at_snoc)
next
  case False
  then have "\<forall>c \<in> set cps. cp_ledger c < n"
    using assms(1) by (cases cps rule: rev_cases) (auto simp: same_weights_def sorted_wrt_append)
  then show ?thesis using False assms(1) by (auto simp: same_weights_def weight_at_snoc sorted_wrt_append)
qed

record 'w checkpoint =
  ck_env :: "'w env"
  ck_caller :: address
  ck_voter :: address
  ck_weight :: int

fun checkpoint_run :: "'w checkpoint list \<Rightarrow> 'w governor \<Rightarrow> (governor_error, 'w governor) res" where
  "checkpoint_run [] s = Inr s"
| "checkpoint_run (k # ks) s =
     and_then (checkpoint_balance (ck_env k) (ck_caller k) (ck_voter k) (ck_weight k) s) (checkpoint_run ks)"

definition weights_of :: "address \<Rightarrow> 'w checkpoint list \<Rightarrow> (int \<times> int) list" where
  "weights_of a ks = map (\<lambda>k. (sequence (ck_env k), ck_weight k)) (filter (\<lambda>k. ck_voter k = a) ks)"

lemma checkpoint_balance_success:
  assumes "checkpoint_balance e caller v w s = Inr s'"
  shows "authorized e caller" and "gov_has_role e Admin caller s"
    and "checkpoint_list a s' = (if a = v then
     (if checkpoint_list v s \<noteq> [] \<and> sequence e \<le> cp_ledger (last (checkpoint_list v s))
      then butlast (checkpoint_list v s) @ [\<lparr>cp_ledger = sequence e, cp_weight = w\<rparr>]
      else checkpoint_list v s @ [\<lparr>cp_ledger = sequence e, cp_weight = w\<rparr>]) else checkpoint_list a s)"
proof -
  have au: "authorized e caller" "gov_has_role e Admin caller s"
    and run: "record_checkpoint_at v (sequence e) w (gov_bump (gov_bump s)) = Inr s'"
    using assms by (auto simp: checkpoint_balance_def and_then_eq_Inr gov_require_role_or_admin_success)
  show "authorized e caller" "gov_has_role e Admin caller s" by (rule au)+
  show "checkpoint_list a s' = (if a = v then
     (if checkpoint_list v s \<noteq> [] \<and> sequence e \<le> cp_ledger (last (checkpoint_list v s))
      then butlast (checkpoint_list v s) @ [\<lparr>cp_ledger = sequence e, cp_weight = w\<rparr>]
      else checkpoint_list v s @ [\<lparr>cp_ledger = sequence e, cp_weight = w\<rparr>]) else checkpoint_list a s)"
    using record_checkpoint_list(1) [OF run, of a] by (simp add: checkpoint_list_def gov_bump_def)
qed

lemma checkpoint_run_append:
  "checkpoint_run (ks @ ls) s = and_then (checkpoint_run ks s) (checkpoint_run ls)"
  by (induction ks arbitrary: s) (simp_all add: and_then_def split: sum.split)

lemma checkpoint_run_weights:
  assumes "checkpoint_run ks s = Inr s'" and "gk_VoteCheckpoints s = (\<lambda>_. None)" and "sorted (map (\<lambda>k. sequence (ck_env k)) ks)"
  shows "same_weights (checkpoint_list a s') (weights_of a ks) \<and> (\<forall>k \<in> set ks. authorized (ck_env k) (ck_caller k))"
  using assms(1,3)
proof (induction ks arbitrary: s' rule: rev_induct)
  case Nil
  then show ?case using assms(2) by (simp add: weights_of_def same_weights_def checkpoint_list_def)
next
  case (snoc k ks)
  obtain t where t: "checkpoint_run ks s = Inr t"
    and k: "checkpoint_balance (ck_env k) (ck_caller k) (ck_voter k) (ck_weight k) t = Inr s'"
    using snoc.prems(1) by (auto simp: checkpoint_run_append and_then_eq_Inr)
  have IH: "same_weights (checkpoint_list a t) (weights_of a ks)" "\<forall>k \<in> set ks. authorized (ck_env k) (ck_caller k)"
    using snoc.IH [OF t] snoc.prems(2) by (simp_all add: sorted_append)
  have "fst (last (weights_of a ks)) \<le> sequence (ck_env k)" if "weights_of a ks \<noteq> []"
  proof -
    have "last (weights_of a ks) \<in> set (weights_of a ks)" using that by simp
    then show ?thesis using snoc.prems(2) by (auto simp: weights_of_def sorted_append)
  qed
  then show ?case
    using IH checkpoint_balance_success(1,3) [OF k] same_weights_record [OF IH(1), of "sequence (ck_env k)" "ck_weight k"]
    by (auto simp: weights_of_def)
qed

lemma prior_votes_scan: "get_prior_votes a l s = scan_checkpoints l (checkpoint_list a s) 0"
  by (auto simp: get_prior_votes_def get_checkpoint_weight_def checkpoint_list_def split: option.split)

text \<open>
  C23.  The voting weight of an account at a ledger is the last one an administrator
  recorded at or before that ledger, and zero before any record: a weight recorded
  after a proposal's snapshot never changes what the account had at the snapshot.
\<close>

theorem prior_votes_correct:
  assumes "checkpoint_run ks s = Inr s'" and "gk_VoteCheckpoints s = (\<lambda>_. None)" and "sorted (map (\<lambda>k. sequence (ck_env k)) ks)"
  shows "get_prior_votes a l s' = weight_at l (weights_of a ks) \<and> (\<forall>k \<in> set ks. authorized (ck_env k) (ck_caller k))"
  using checkpoint_run_weights [OF assms, of a]
  by (simp add: prior_votes_scan same_weights_def scan_weight weight_at_def)

definition sample_checkpoints :: "ledger checkpoint list" where
  "sample_checkpoints = [\<lparr>ck_env = gov_env 30, ck_caller = ''adm'', ck_voter = ''bob'', ck_weight = 5\<rparr>,
     \<lparr>ck_env = gov_env 40, ck_caller = ''adm'', ck_voter = ''bob'', ck_weight = 7\<rparr>,
     \<lparr>ck_env = gov_env 40, ck_caller = ''adm'', ck_voter = ''bob'', ck_weight = 9\<rparr>]"

theorem prior_votes_correct_witness:
  "\<exists>s'. checkpoint_run sample_checkpoints opened = Inr s' \<and> get_prior_votes ''bob'' 29 s' = 0 \<and>
     get_prior_votes ''bob'' 39 s' = 5 \<and> get_prior_votes ''bob'' 40 s' = 9"
proof -
  have "\<exists>s'. checkpoint_run sample_checkpoints opened = Inr s'"
    by (simp add: sample_checkpoints_def checkpoint_balance_def gov_require_role_or_admin_def require_role_or_admin_def
        require_auth_def has_role_entry opened_fields opened_roles_def map_err_def gov_bump_def record_checkpoint_at_def
        gov_renew_def bump_persistent_def Let_def)
  then obtain s' where s': "checkpoint_run sample_checkpoints opened = Inr s'" ..
  have "get_prior_votes ''bob'' l s' = weight_at l (weights_of ''bob'' sample_checkpoints)" for l
    using prior_votes_correct [OF s' opened_fields(13)] by (simp add: sample_checkpoints_def)
  then show ?thesis using s' by (simp add: weight_at_def weights_of_def sample_checkpoints_def)
qed

section \<open>The factory under the governor\<close>

lemma created_terms:
  assumes "create_stream c q desc s = Inr (stream_id, s')" and "chain_ok c"
    and "fk_StreamWasmHash s = Some h" and "ch_uploaded c h = Some drip_stream"
  obtains governor config addr where "fk_GovernorAddress s = Some governor" and "ch_governor c governor = Some config"
    and "sq_rate_per_sec q \<le> gc_max_rate_per_second config"
    and "0 < sq_end_time q \<longrightarrow> gc_min_duration_seconds config \<le> sq_end_time q - sq_start_time q \<and>
        sq_end_time q - sq_start_time q \<le> gc_max_duration_seconds config"
    and "bal_of (ch_env c) (fa_world s') = funded_by (contract_address (ch_env c)) config q addr (bal_of (ch_env c) (fa_world s))"
  using assms(1)
proof (rule create_stream_success)
  fix s1 now governor config
  assume s1: "factory_require_not_paused (ch_env c) s = Inr s1"
    and v: "validate_stream_request (ch_env c) q = Inr now" and gov: "fk_GovernorAddress s1 = Some governor"
    and cfg: "ch_governor c governor = Some config"
    and cr: "create_stream_with_config c config now q desc s1 = Inr (stream_id, s')"
  obtain slot where slot: "s1 = s\<lparr>fk_Paused := slot\<rparr>" by (rule require_not_paused_frame [OF s1])
  have ok: "sep41 (ch_env c)" "0 \<le> gc_fee_bps config" using assms(2) cfg by (auto simp: chain_ok_def env_ok_def in_u32_def)
  have h: "fk_StreamWasmHash s1 = Some h" using assms(3) by (simp add: slot)
  show thesis
    using cr ok validate_request_success(1) [OF v] h assms(4)
  proof (rule create_with_config_correct)
    fix addr
    assume "bal_of (ch_env c) (fa_world s') = funded_by (contract_address (ch_env c)) config q addr (bal_of (ch_env c) (fa_world s1))"
      and eb: "enforce_bounds config (sq_rate_per_sec q) (sq_start_time q) (sq_end_time q) now = Inr ()"
    then show thesis using bounds_enforced [OF eb] gov cfg by (intro that [of governor config addr]) (simp_all add: slot)
  qed
qed

text \<open>
  C24.  A stream created by a factory that asks a governor for its configuration: in
  whatever state calls have brought the governor, the fee is between nothing and the
  deposit, the sender is charged at most twice the deposit, and rate and duration lie
  within bounds that some stream can meet.
\<close>

theorem governed_creation_bounded:
  assumes "\<forall>m \<in> set ms. args_ok (mo_call m)" and "config_load (governor_after ms (fresh_governor k w fs)) = Inr config"
    and "fk_GovernorAddress f = Some g" and "ch_governor c g = Some config"
    and "create_stream c q desc f = Inr (stream_id, f')" and "chain_ok c" and "request_ok q"
    and "fk_StreamWasmHash f = Some h" and "ch_uploaded c h = Some drip_stream"
  shows "0 \<le> fee_of config (sq_deposit q) \<and> fee_of config (sq_deposit q) \<le> sq_deposit q \<and>
     bal_of (ch_env c) (fa_world f) (sq_token q) (sq_sender q) - 2 * sq_deposit q
       \<le> bal_of (ch_env c) (fa_world f') (sq_token q) (sq_sender q) \<and>
     gc_min_duration_seconds config \<le> gc_max_duration_seconds config \<and> 0 < gc_max_rate_per_second config \<and>
     sq_rate_per_sec q \<le> gc_max_rate_per_second config \<and>
     (0 < sq_end_time q \<longrightarrow> gc_min_duration_seconds config \<le> sq_end_time q - sq_start_time q \<and>
        sq_end_time q - sq_start_time q \<le> gc_max_duration_seconds config)"
proof -
  define s where "s = governor_after ms (fresh_governor k w fs)"
  have "params_ok (param_view s)" using governor_reachable [OF assms(1)] by (simp add: s_def governor_ok_def)
  then have par: "0 \<le> gc_fee_bps config" "gc_fee_bps config \<le> 10000" "0 < gc_max_rate_per_second config"
    "gc_min_duration_seconds config \<le> gc_max_duration_seconds config"
    using config_load_fields(6) [OF assms(2) [folded s_def]] by simp_all
  obtain addr where bounds: "sq_rate_per_sec q \<le> gc_max_rate_per_second config"
      "0 < sq_end_time q \<longrightarrow> gc_min_duration_seconds config \<le> sq_end_time q - sq_start_time q \<and>
        sq_end_time q - sq_start_time q \<le> gc_max_duration_seconds config"
    and bal: "bal_of (ch_env c) (fa_world f') = funded_by (contract_address (ch_env c)) config q addr (bal_of (ch_env c) (fa_world f))"
    using created_terms [OF assms(5,6,8,9)] assms(3,4) by (metis option.inject)
  have dep: "0 < sq_deposit q" using assms(5) by (rule create_stream_success) (rule validate_request_success(1))
  have fee: "0 \<le> fee_of config (sq_deposit q)" "fee_of config (sq_deposit q) \<le> sq_deposit q"
  proof -
    show "0 \<le> fee_of config (sq_deposit q)" using dep par(1) by (simp add: fee_of_def pos_imp_zdiv_nonneg_iff)
    have "sq_deposit q * gc_fee_bps config \<le> sq_deposit q * 10000" using dep par(2) by (intro mult_left_mono) auto
    then show "fee_of config (sq_deposit q) \<le> sq_deposit q" unfolding fee_of_def by linarith
  qed
  have "bal_of (ch_env c) (fa_world f) (sq_token q) (sq_sender q) - (sq_deposit q + fee_of config (sq_deposit q))
       \<le> bal_of (ch_env c) (fa_world f') (sq_token q) (sq_sender q)"
    using dep fee by (auto simp: bal funded_by_def Let_def moved_def)
  then show ?thesis using fee par bounds by auto
qed

text \<open>A creation under the sample governor, for a stream of the least duration it allows.\<close>

definition opened_config :: governor_config where
  "opened_config = \<lparr>gc_fee_bps = 30, gc_fee_recipient = ''fees'', gc_min_duration_seconds = 3600,
     gc_max_duration_seconds = 315360000, gc_max_rate_per_second = 1000000000000000, gc_factory_address = ''F'',
     gc_force_cancel_pause_secs = 2592000, gc_min_quorum_bps = 0, gc_voting_period_ledgers = 17280,
     gc_proposal_stake_token = Some ''T'', gc_min_proposal_stake = 100\<rparr>"

definition governed_chain :: "ledger chain" where
  "governed_chain = (sample_chain 50)\<lparr>ch_governor := (\<lambda>g. if g = ''gov'' then Some opened_config else None)\<rparr>"

definition governed_request :: stream_init_params where
  "governed_request = sample_request\<lparr>sq_rate_per_sec := 2, sq_end_time := 3700\<rparr>"

lemma opened_config_load: "config_load opened = Inr opened_config"
  by (simp add: opened_def gov_eval set_proposal_stake_config_def gov_assert_not_paused_def require_not_paused_def
      is_paused_def require_not_paused_flag_def store_proposal_stake_config_def is_zero_address_def zero_account_def
      zero_contract_def propose_def config_load_def gov_transfer_def transfer_call_def ledger_transfer_def ledger_read_def
      gov_ledger_def plain_u64_def in_u64_def write_proposal_def add_proposal_to_status_index_def proposals_by_status_def
      drop_id_def opened_config_def MIN_VOTING_PERIOD_LEDGERS_def)

theorem governed_creation_bounded_witness:
  "\<exists>s'. create_stream governed_chain governed_request None sample_factory = Inr (0, s') \<and>
     80000 \<le> bal_of (factory_env 50) (fa_world s') ''T'' ''alice''"
proof -
  obtain ix where ix: "append_index_entry (Suc 0) 0 empty_index = (Inr ix :: (factory_error, index_slot) res)"
    by (rule first_entry)
  have "\<exists>s'. create_stream governed_chain governed_request None sample_factory = Inr (0, s')"
    by (simp add: create_eval sample_eval ix ex_bool_eq governed_chain_def governed_request_def opened_config_def)
  then obtain s' where s': "create_stream governed_chain governed_request None sample_factory = Inr (0, s')" ..
  have c: "chain_ok governed_chain"
    using sample_chain_ok [of 50] by (auto simp: chain_ok_def governed_chain_def sample_chain_def opened_config_def in_u32_def int_bounds)
  have q: "request_ok governed_request"
    by (simp add: request_ok_def governed_request_def sample_request_def in_i128_def in_u64_def int_bounds)
  have h: "fk_StreamWasmHash sample_factory = Some sample_hash" "ch_uploaded governed_chain sample_hash = Some drip_stream"
    "fk_GovernorAddress sample_factory = Some ''gov''" "ch_governor governed_chain ''gov'' = Some opened_config"
    "ch_env governed_chain = factory_env 50" "fa_world sample_factory = rich_ledger"
    by (simp_all add: sample_factory_def governed_chain_def sample_chain_def fresh_factory_def)
  moreover have "bal_of (factory_env 50) rich_ledger ''T'' ''alice'' = 100000"
    by (simp add: factory_env_def rich_ledger_def ledger_read_def int_bounds)
  ultimately show ?thesis
    using governed_creation_bounded [OF _ opened_config_load [unfolded opened_def] h(3,4) s' c q h(1,2)] s' h(5,6)
    by (simp add: governed_request_def sample_request_def)
qed

lemma factory_pause_success:
  assumes "factory_pause c f = Inr f'"
  obtains slot where "set_paused (timestamp (ch_env c)) True slot = Inr (fk_Paused f')"
    and "\<exists>governor. fk_GovernorAddress f = Some governor \<and> authorized (ch_env c) governor"
proof -
  obtain governor t t' where au: "fk_GovernorAddress f = Some governor" "authorized (ch_env c) governor"
    and t': "factory_set_paused (ch_env c) True t = Inr t'"
    and f': "f' = emit (EvFactoryPaused governor (timestamp (ch_env c))) t'"
    using assms unfolding factory_pause_def and_then_eq_Inr ok_or_eq_Inr require_auth_eq_Inr
    by (cases "factory_is_paused (ch_env c) f") (auto simp: and_then_eq_Inr if_Inl_eq_Inr)
  then have "set_paused (timestamp (ch_env c)) True (fk_Paused t) = Inr (fk_Paused f')"
    by (auto simp: emit_def factory_set_paused_def and_then_eq_Inr set_paused_dropped)
  then show thesis using that au by blast
qed

text \<open>Every creating entry point of the factory passes the gate.\<close>

lemma shut_factory_refuses:
  assumes "factory_require_not_paused (ch_env c) f = Inl (Err factory_error.ContractPaused)"
  shows "\<not> is_ok (create_stream c q desc f)"
    and "authorized (ch_env c) (sq_sender q) \<Longrightarrow> create_stream c q desc f = Inl (Err factory_error.ContractPaused)"
    and "\<not> is_ok (batch_create_streams c qs f)" and "\<not> is_ok (batch_deploy_streams c qs f)"
    and "qs \<noteq> [] \<Longrightarrow> int (length qs) \<le> FACTORY_MAX_BATCH_SIZE \<Longrightarrow>
           batch_create_streams c qs f = Inl (Err factory_error.ContractPaused)"
    and "\<not> is_ok (create_batch_streams c sender rqs claw f)"
    and "rqs \<noteq> [] \<Longrightarrow> int (length rqs) \<le> FACTORY_MAX_BATCH_SIZE \<Longrightarrow> authorized (ch_env c) sender \<Longrightarrow>
           create_batch_streams c sender rqs claw f = Inl (Err factory_error.ContractPaused)"
  by (simp_all add: create_stream_def batch_create_streams_def batch_deploy_streams_def create_batch_streams_def
      require_auth_def assms)

text \<open>
  C25.  A committed \<^verbatim>\<open>pause_factory\<close> was asked for by an account that authorized it and
  holds Admin or Pauser, and it reaches the factory: as the call leaves it, the factory
  refuses every creation for the next fourteen days, through \<^verbatim>\<open>create_stream\<close>,
  \<^verbatim>\<open>batch_create_streams\<close>, \<^verbatim>\<open>batch_deploy_streams\<close> and \<^verbatim>\<open>create_batch_streams\<close> alike (with
  \<^verbatim>\<open>ContractPaused\<close> when the sender authorizes it and the batch has a permitted size),
  and after them its gate is open again.
\<close>

theorem pause_factory_stops_creation:
  assumes "pause_factory c caller s = Inr s'" and "0 \<le> timestamp (ch_env c)"
    and "timestamp (ch_env c) + DEFAULT_MAX_PAUSE_DURATION \<le> u64_max"
  shows "\<exists>addr f f'. gk_FactoryAddress s = Some addr \<and> gv_factories s addr = Some f \<and> gv_factories s' addr = Some f' \<and>
     authorized (ch_env c) caller \<and> (gov_has_role (ch_env c) Admin caller s \<or> gov_has_role (ch_env c) Pauser caller s) \<and>
     (\<forall>c2. timestamp (ch_env c2) < timestamp (ch_env c) + DEFAULT_MAX_PAUSE_DURATION \<longrightarrow>
        (\<forall>q desc. \<not> is_ok (create_stream c2 q desc f') \<and>
           (authorized (ch_env c2) (sq_sender q) \<longrightarrow> create_stream c2 q desc f' = Inl (Err factory_error.ContractPaused))) \<and>
        (\<forall>qs. \<not> is_ok (batch_create_streams c2 qs f') \<and> \<not> is_ok (batch_deploy_streams c2 qs f') \<and>
           (qs \<noteq> [] \<and> int (length qs) \<le> FACTORY_MAX_BATCH_SIZE \<longrightarrow>
              batch_create_streams c2 qs f' = Inl (Err factory_error.ContractPaused))) \<and>
        (\<forall>sender rqs claw. \<not> is_ok (create_batch_streams c2 sender rqs claw f') \<and>
           (rqs \<noteq> [] \<and> int (length rqs) \<le> FACTORY_MAX_BATCH_SIZE \<and> authorized (ch_env c2) sender \<longrightarrow>
              create_batch_streams c2 sender rqs claw f' = Inl (Err factory_error.ContractPaused)))) \<and>
     (\<forall>e2. timestamp (ch_env c) + DEFAULT_MAX_PAUSE_DURATION \<le> timestamp e2 \<longrightarrow> is_ok (factory_require_not_paused e2 f'))"
proof -
  obtain addr t where au: "authorized (ch_env c) caller" "gov_has_role (ch_env c) Admin caller s \<or> gov_has_role (ch_env c) Pauser caller s"
    and addr: "gk_FactoryAddress s = Some addr" and inv: "invoke_factory c addr factory_pause (gov_bump s) = Inr t"
    and s': "s' = gov_emit (EvGovFactoryPaused caller (timestamp (ch_env c))) t"
    using assms(1) by (auto simp: pause_factory_def and_then_eq_Inr gov_require_role_or_admin_success ok_or_eq_Inr gov_bump_def)
  from inv obtain f f' c' where f: "gv_factories s addr = Some f" and t: "gv_factories t addr = Some f'"
    and run: "factory_pause c' (f\<lparr>fa_world := gv_world (gov_bump s)\<rparr>) = Inr f'" and c': "timestamp (ch_env c') = timestamp (ch_env c)"
    by (rule invoke_factory_success) (simp add: gov_bump_def)
  obtain slot where slot: "set_paused (timestamp (ch_env c)) True slot = Inr (fk_Paused f')"
    using run unfolding c' [symmetric] by (rule factory_pause_success)
  have closed: "is_paused n (fk_Paused f') = (True, fk_Paused f')" if "n < timestamp (ch_env c) + DEFAULT_MAX_PAUSE_DURATION" for n
    using slot.write_closes [OF slot assms(2,3) that] .
  have shut: "factory_require_not_paused (ch_env c2) f' = Inl (Err factory_error.ContractPaused)"
    if "timestamp (ch_env c2) < timestamp (ch_env c) + DEFAULT_MAX_PAUSE_DURATION" for c2 :: "'a chain"
    using closed [OF that] by (simp add: factory_require_not_paused_def require_not_paused_def require_not_paused_flag_def map_err_def)
  have "is_ok (factory_require_not_paused e2 f')"
    if "timestamp (ch_env c) + DEFAULT_MAX_PAUSE_DURATION \<le> timestamp e2" for e2
    using slot.write_expires [OF slot assms(2,3) that]
    by (auto simp: factory_require_not_paused_def require_not_paused_def require_not_paused_flag_def map_err_def split: prod.split)
  then show ?thesis
    using au addr f t s' shut_factory_refuses [OF shut] by (intro exI [of _ addr] exI [of _ f] exI [of _ f']) (auto simp: gov_emit_def)
qed

text \<open>The sample factory under the sample governor.\<close>

definition governed :: "ledger governor" where
  "governed = opened\<lparr>gv_factories := [''F'' \<mapsto> sample_factory\<lparr>fk_GovernorAddress := Some ''G''\<rparr>]\<rparr>"

theorem pause_factory_stops_creation_witness:
  "\<exists>s' f'. pause_factory (gov_chain 50) ''adm'' governed = Inr s' \<and> gv_factories s' ''F'' = Some f' \<and>
     create_stream (sample_chain 60) sample_request None f' = Inl (Err factory_error.ContractPaused) \<and>
     batch_create_streams (sample_chain 60) [sample_request] f' = Inl (Err factory_error.ContractPaused)"
proof -
  have "\<exists>s'. pause_factory (gov_chain 50) ''adm'' governed = Inr s'"
    by (simp add: pause_factory_def gov_require_role_or_admin_def require_role_or_admin_def require_auth_def has_role_entry
        governed_def opened_fields opened_roles_def map_err_def gov_bump_def invoke_factory_def factory_pause_def
        factory_is_paused_def is_paused_def factory_set_paused_def set_paused_eq ignore_err_def bump_persistent_bucket_def sample_factory_def fresh_factory_def renew_instance_def Let_def)
  then obtain s' where s': "pause_factory (gov_chain 50) ''adm'' governed = Inr s'" ..
  have "authorized (ch_env (sample_chain 60)) a" "timestamp (ch_env (sample_chain 60)) = 60" for a
    by (simp_all add: sample_chain_def factory_env_def)
  then show ?thesis
    using pause_factory_stops_creation [OF s'] s'
    by (auto simp: governed_def opened_fields DEFAULT_MAX_PAUSE_DURATION_def FACTORY_MAX_BATCH_SIZE_def int_bounds)
qed

end
