(* ===== verification/Governor_Votes.thy ===== *)
theory Governor_Votes
  imports Governor_Rules
begin

text \<open>
  Voting in \<^verbatim>\<open>contracts/governor/src\<close>, as far as the code has it.  The entry points
  \<^verbatim>\<open>cast_vote\<close> and \<^verbatim>\<open>cast_vote_with_rationale\<close> hand over to a function \<^verbatim>\<open>cast_ballot\<close> that
  the crate does not define: it is a parameter here.  The statements that follow the
  second entry point and belong to no function (the end of a former body of it, which
  gives the stake back once enough votes are in) are a definition of their own, over
  the variables they use.  The storage functions voting rests on are complete.  With
  these statements in view, a settled proposal is shown to stay settled.
\<close>

section \<open>Storage\<close>

definition record_checkpoint :: "'w env \<Rightarrow> address \<Rightarrow> int \<Rightarrow> 'w governor \<Rightarrow> (governor_error, 'w governor) res" where
  "record_checkpoint e account weight s = record_checkpoint_at account (sequence e) weight s"

definition set_proposal_snapshot_ledger :: "int \<Rightarrow> int \<Rightarrow> 'w governor \<Rightarrow> 'w governor" where
  "set_proposal_snapshot_ledger i n s = s\<lparr>gk_ProposalSnapshotLedger := (gk_ProposalSnapshotLedger s)(i \<mapsto> n)\<rparr>"

definition get_proposal_snapshot_ledger :: "int \<Rightarrow> 'w governor \<Rightarrow> int option" where
  "get_proposal_snapshot_ledger i s = gk_ProposalSnapshotLedger s i"

definition save_vote_tally_snapshot :: "vote_tally_snapshot \<Rightarrow> 'w governor \<Rightarrow> 'w governor" where
  "save_vote_tally_snapshot sn s = s\<lparr>gk_ProposalVoteSnapshot := (gk_ProposalVoteSnapshot s)(vs_proposal_id sn \<mapsto> sn)\<rparr>"

definition get_vote_tally_snapshot :: "int \<Rightarrow> 'w governor \<Rightarrow> vote_tally_snapshot option" where
  "get_vote_tally_snapshot i s = gk_ProposalVoteSnapshot s i"

definition has_voted :: "int \<Rightarrow> address \<Rightarrow> 'w governor \<Rightarrow> bool" where
  "has_voted i voter s \<longleftrightarrow> gk_VoterReceipt s (i, voter) \<noteq> None"

definition record_voter_receipt :: "int \<Rightarrow> address \<Rightarrow> int \<Rightarrow> 'w governor \<Rightarrow> 'w governor" where
  "record_voter_receipt i voter weight s = s\<lparr>gk_VoterReceipt := (gk_VoterReceipt s)((i, voter) \<mapsto> weight)\<rparr>"

definition events_vote_cast :: "address \<Rightarrow> int \<Rightarrow> bool \<Rightarrow> string option \<Rightarrow> 'w governor \<Rightarrow> 'w governor" where
  "events_vote_cast voter i support rationale s = gov_emit (EvVoteCast voter i support rationale) s"

definition events_vote_abstain_cast :: "address \<Rightarrow> int \<Rightarrow> 'w governor \<Rightarrow> 'w governor" where
  "events_vote_abstain_cast voter i s = gov_emit (EvVoteAbstain voter i) s"

section \<open>Casting a vote\<close>

type_synonym 'w ballot =
  "'w env \<Rightarrow> address \<Rightarrow> int \<Rightarrow> bool option \<Rightarrow> string option \<Rightarrow> 'w governor \<Rightarrow> (governor_error, 'w governor) res"

definition cast_vote_with_rationale ::
  "'w ballot \<Rightarrow> 'w env \<Rightarrow> address \<Rightarrow> int \<Rightarrow> bool \<Rightarrow> string option \<Rightarrow> 'w governor \<Rightarrow> (governor_error, 'w governor) res" where
  "cast_vote_with_rationale cast_ballot e voter i support rationale s =
     cast_ballot e voter i (Some support) rationale s"

definition cast_vote ::
  "'w ballot \<Rightarrow> 'w env \<Rightarrow> address \<Rightarrow> int \<Rightarrow> bool \<Rightarrow> 'w governor \<Rightarrow> (governor_error, 'w governor) res" where
  "cast_vote cast_ballot e voter i support s = cast_vote_with_rationale cast_ballot e voter i support None s"

text \<open>The stranded statements, over the proposal, its snapshot and the ballot they refer to.\<close>

definition vote_epilogue ::
  "'w env \<Rightarrow> address \<Rightarrow> int \<Rightarrow> bool \<Rightarrow> string option \<Rightarrow> vote_tally_snapshot \<Rightarrow> proposal \<Rightarrow> 'w governor \<Rightarrow>
     (governor_error, 'w governor) res" where
  "vote_epilogue e voter i support rationale snapshot p s =
     and_then (config_load s) (\<lambda>cfg.
     and_then (if quorum_threshold (vs_total_supply snapshot) (gc_min_quorum_bps cfg)
                    \<le> sat_u64 (pr_for_votes p + pr_against_votes p)
               then refund_proposal_stake e i (pr_author p) s else Inr s) (\<lambda>s1.
     Inr (events_vote_cast voter i support rationale s1)))"

section \<open>What the functions keep\<close>

text \<open>A receipt is found again, and marks its voter on its proposal only.\<close>

lemma receipt_read_back:
  "has_voted j a (record_voter_receipt i voter weight s) \<longleftrightarrow> (j, a) = (i, voter) \<or> has_voted j a s"
  by (auto simp: has_voted_def record_voter_receipt_def)

text \<open>The snapshots of a new proposal are the ones the readers return.\<close>

lemma proposal_snapshots_read_back:
  "get_proposal_snapshot_ledger i (write_proposal e i p tok stake s) = Some (sequence e)"
  "\<exists>sn. get_vote_tally_snapshot i (write_proposal e i p tok stake s) = Some sn \<and> vs_total_supply sn = governance_supply s"
  by (simp_all add: write_proposal_def get_proposal_snapshot_ledger_def get_vote_tally_snapshot_def Let_def)

text \<open>
  The stranded statements touch no proposal and keep the governor's invariant; when
  the votes for and against reach the quorum of the snapshot, the stake goes back to
  the author and is gone, so that a later execution pays nothing; otherwise no token
  moves.
\<close>

lemma vote_epilogue_settles:
  assumes "governor_ok s" and "sep41 e" and "config_load s = Inr cfg"
    and "vote_epilogue e voter i support rationale snapshot p s = Inr s'"
  shows "governor_ok s' \<and> gk_Proposal s' = gk_Proposal s \<and>
     (if quorum_threshold (vs_total_supply snapshot) (gc_min_quorum_bps cfg) \<le> sat_u64 (pr_for_votes p + pr_against_votes p)
      then bal_of e (gv_world s') = refunded e i (pr_author p) s \<and> gk_ProposalStake s' = (gk_ProposalStake s)(i := None)
      else gv_world s' = gv_world s \<and> gk_ProposalStake s' = gk_ProposalStake s)"
proof (cases "quorum_threshold (vs_total_supply snapshot) (gc_min_quorum_bps cfg) \<le> sat_u64 (pr_for_votes p + pr_against_votes p)")
  case True
  then obtain s1 where r: "refund_proposal_stake e i (pr_author p) s = Inr s1"
    and s': "s' = events_vote_cast voter i support rationale s1"
    using assms(3,4) by (auto simp: vote_epilogue_def and_then_eq_Inr)
  then show ?thesis
    using True assms(1) refund_success [OF r] refund_moves [OF r assms(2)] by (simp add: events_vote_cast_def) (simp add: gov_emit_def)
next
  case False
  then have "s' = events_vote_cast voter i support rationale s"
    using assms(3,4) by (auto simp: vote_epilogue_def)
  then show ?thesis using False assms(1) by (simp add: events_vote_cast_def) (simp add: gov_emit_def)
qed

section \<open>Settled proposals\<close>

lemma vote_epilogue_proposals:
  assumes "vote_epilogue e voter i support rationale snapshot p s = Inr s'"
  shows "gk_Proposal s' = gk_Proposal s"
  using assms
  by (auto simp: vote_epilogue_def and_then_eq_Inr events_vote_cast_def gov_emit_def dest: refund_success split: if_splits)

text \<open>
  C22.  A proposal is settled once: whatever calls are attempted after it was executed or
  cancelled, to any entry point of the governor other than \<^verbatim>\<open>cast_vote\<close> and
  \<^verbatim>\<open>cast_vote_with_rationale\<close> (whose \<^verbatim>\<open>cast_ballot\<close> the crate does not define), its record
  and status are what they were, the author's own cancellation fails with
  \<^verbatim>\<open>ProposalNotPending\<close>, and nobody executes or cancels it.  The statements the crate
  has for a vote change no proposal either.
\<close>

theorem proposals_settle_once:
  fixes s :: "'w governor"
  assumes "\<forall>m \<in> set (before @ later). args_ok (mo_call m)" and "s = governor_after before (fresh_governor k w fs)"
    and "gk_Proposal s i = Some p" and "pr_status p \<noteq> Pending" and "pr_status p \<noteq> Active"
    and "s' = governor_after later s"
  shows "gk_Proposal s' i = Some p \<and>
     cancel_proposal (pr_author p) i s' = Inl (Err ProposalNotPending) \<and>
     (\<forall>e a s2. execute_proposal e a i s' \<noteq> Inr s2) \<and> (\<forall>a s2. cancel_proposal a i s' \<noteq> Inr s2) \<and>
     (\<forall>e a h s2. cancel_proposal_by_admin e a i h s' \<noteq> Inr s2) \<and>
     (\<forall>e voter j support rationale snapshot q s2.
        vote_epilogue e voter j support rationale snapshot q s' = Inr s2 \<longrightarrow> gk_Proposal s2 i = Some p)"
proof -
  have "governor_ok s" using governor_reachable [of before] assms(1,2) by simp
  then have "settled_kept s s'" using governor_after_kept [of s later] assms(1,6) by simp
  then have k: "gk_Proposal s' i = Some p"
    using assms(3-5) by (auto simp: settled_kept_def closed_proposal_def)
  moreover have "cancel_proposal (pr_author p) i s' = Inl (Err ProposalNotPending)"
    using k assms(4,5) by (simp add: cancel_proposal_def gov_bump_def Let_def)
  ultimately show ?thesis
    using assms(4,5) by (auto elim!: execute_success cancel_success cancel_by_admin_success dest!: vote_epilogue_proposals)
qed

theorem proposals_settle_once_witness:
  "\<forall>now. gk_Proposal (governor_after [motion_at now (GExecuteProposal ''exe'' 1)]
     (governor_after withdrawn_motions (fresh_governor [] gov_ledger (\<lambda>_. None)))) 1 =
       Some ((new_proposal (gov_env 20) ''adm'' 1000)\<lparr>pr_status := Cancelled\<rparr>)"
  using proposals_settle_once [OF _ refl withdrawn_fields(1) _ _ refl, of "[motion_at _ (GExecuteProposal ''exe'' 1)]"]
  by simp (simp add: withdrawn_motions_def)

end
