(* ===== verification/Oracle.thy ===== *)
theory Oracle
  imports Common_Admins Common_Pause Common_Ttl
begin

text \<open>
  \<^verbatim>\<open>contracts/oracle/src/lib.rs\<close>: \<^verbatim>\<open>TwapOracle\<close>, the price source: submissions of
  authorized feeders, a bounded history of their medians, time-weighted averages,
  external feeds with failover, and medians of reports per token pair.

  This theory has the data, the storage helpers and the price arithmetic; the entry
  points follow in \<open>Oracle_Ops\<close>.  The state is the record \<open>twap_oracle\<close>, a field per storage
  key (\<^verbatim>\<open>StellarAssetStalenessSecs\<close>, which no code uses, is left out).  An external
  oracle contract is a parameter: \<open>feeds\<close> gives what its two price endpoints answer, or
  nothing when the call fails or returns another type.  Such a contract cannot call
  back into the oracle, since the host refuses re-entry.
\<close>

section \<open>Types\<close>

datatype oracle_error =
    OracleStalePrice | OracleNotConfigured | InvalidPrice | OracleLocked | CalculationOverflow | NotAuthorized
  | AlreadyInitialized | NoPriceAvailable | ArithmeticOverflow | InvalidDecimals | ContractPaused | AlreadyPaused
  | NotPaused | LastAdmin | InvalidMaxStaleness | TooManySubmitters | PriceExceedsMaxPrice | SubmitTooSoon
  | InvalidMinSubmitters | InsufficientQuorum | InvalidWasmHash | PriceNotFound | TooManyPairReporters | StalePriceFeed
  | ExcessivePriceDeviation | PriceDeviationExceeded | FallbackOracleFailed | InvalidHeartbeatTimeout
  | InvalidObservationCount | OracleDeviationTooHigh | InvalidRoleExpiration

datatype oracle_role = Admin | PriceFeeder | Pauser

record asset_oracle_config =
  heartbeat_timeout_seconds :: int

record oracle_config =
  oc_decimals :: int
  oc_asset_peg :: int
  oc_max_staleness :: int
  oc_max_price :: int
  oc_min_submit_interval :: int
  oc_min_submitters :: int

record oracle_config_update =
  ou_decimals :: "int option"
  ou_asset_peg :: "int option"
  ou_max_staleness :: "int option"
  ou_max_price :: "int option"
  ou_min_submit_interval :: "int option"
  ou_min_submitters :: "int option"
  ou_quote_currency :: "string option"
  ou_max_deviation_bps :: "int option"

record price_data =
  pd_price :: int
  pd_updated_at :: int

record price_observation =
  po_price :: int
  po_timestamp :: int

record pair_price_data =
  pp_price :: int
  pp_updated_at :: int

record price_status =
  ps_fresh_submitter_count :: int
  ps_min_submitters :: int
  ps_newest_age :: int
  ps_oldest_fresh_age :: int
  ps_stale :: bool

text \<open>The keys in persistent storage.\<close>

datatype oracle_key =
    OkSubmission address
  | OkSubmitters
  | OkPairSubmission address address address
  | OkPairReporters address address
  | OkPairSymbolSubmission string string address
  | OkPairSymbolReporters string string
  | OkAssetOracleConfig address
  | OkPriceObservations

datatype oracle_event =
    EvOracleGrant address oracle_role address
  | EvOracleRevoke address oracle_role address
  | EvOraclePaused address int
  | EvOracleUnpaused address int
  | EvAdminTransferred address address
  | EvOracleUpgraded address int
  | EvPriceSubmitted address int int
  | EvOracleConfigured address oracle_config
  | EvQuoteCurrency address string

record twap_oracle =
  ok_Admin :: "address option"
  ok_Config :: "oracle_config option"
  ok_QuoteCurrency :: "string option"
  ok_Price :: "price_data option"
  ok_roles :: "oracle_role rbac"
  ok_Paused :: pause_slot
  ok_Submission :: "address \<Rightarrow> price_data option"
  ok_Submitters :: "address list option"
  ok_PairPrice :: "address \<times> address \<Rightarrow> int option"
  ok_PairSubmission :: "address \<times> address \<times> address \<Rightarrow> pair_price_data option"
  ok_PairReporters :: "address \<times> address \<Rightarrow> address list option"
  ok_PairPriceSymbol :: "string \<times> string \<Rightarrow> int option"
  ok_PairSymbolSubmission :: "string \<times> string \<times> address \<Rightarrow> pair_price_data option"
  ok_PairSymbolReporters :: "string \<times> string \<Rightarrow> address list option"
  ok_MaxStalenessSeconds :: "int option"
  ok_MaxDeviationBps :: "int option"
  ok_PrimaryOracle :: "address option"
  ok_FallbackOracle :: "address option"
  ok_AssetOracleConfig :: "address \<Rightarrow> asset_oracle_config option"
  ok_PriceObservations :: "price_observation list option"
  ok_Lock :: "int option"
  or_code :: wasm_hash
  or_events :: "oracle_event list"
  or_ttl :: "oracle_key ttl_call list"

definition fresh_oracle :: "wasm_hash \<Rightarrow> twap_oracle" where
  "fresh_oracle code = \<lparr>ok_Admin = None, ok_Config = None, ok_QuoteCurrency = None, ok_Price = None, ok_roles = rbac_empty,
     ok_Paused = None, ok_Submission = (\<lambda>_. None), ok_Submitters = None, ok_PairPrice = (\<lambda>_. None),
     ok_PairSubmission = (\<lambda>_. None), ok_PairReporters = (\<lambda>_. None), ok_PairPriceSymbol = (\<lambda>_. None),
     ok_PairSymbolSubmission = (\<lambda>_. None), ok_PairSymbolReporters = (\<lambda>_. None), ok_MaxStalenessSeconds = None,
     ok_MaxDeviationBps = None, ok_PrimaryOracle = None, ok_FallbackOracle = None, ok_AssetOracleConfig = (\<lambda>_. None),
     ok_PriceObservations = None, ok_Lock = None, or_code = code, or_events = [], or_ttl = []\<rparr>"

text \<open>What the two price endpoints of the contract at an address answer.\<close>

record feeds =
  fd_twap_price :: "address \<Rightarrow> int option"
  fd_latest_price :: "address \<Rightarrow> price_data option"

definition PRICE_PRECISION :: int where "PRICE_PRECISION = 100000000"
definition MAX_SUBMITTERS :: int where "MAX_SUBMITTERS = 32"
definition MAX_TWAP_OBSERVATIONS :: int where "MAX_TWAP_OBSERVATIONS = 32"
definition MAX_PAIR_REPORTERS :: int where "MAX_PAIR_REPORTERS = 5"
definition PAIR_REPORT_FRESHNESS_SECS :: int where "PAIR_REPORT_FRESHNESS_SECS = 15 * 60"
definition ORACLE_REENTRANCY_DEPTH :: int where "ORACLE_REENTRANCY_DEPTH = 1"

section \<open>Host calls\<close>

definition oracle_bump :: "twap_oracle \<Rightarrow> twap_oracle" where
  "oracle_bump s = s\<lparr>or_ttl := bump_instance (or_ttl s)\<rparr>"

definition oracle_emit :: "oracle_event \<Rightarrow> twap_oracle \<Rightarrow> twap_oracle" where
  "oracle_emit ev s = s\<lparr>or_events := or_events s @ [ev]\<rparr>"

fun ok_present :: "twap_oracle \<Rightarrow> oracle_key \<Rightarrow> bool" where
  "ok_present s (OkSubmission a) = (ok_Submission s a \<noteq> None)"
| "ok_present s OkSubmitters = (ok_Submitters s \<noteq> None)"
| "ok_present s (OkPairSubmission b q a) = (ok_PairSubmission s (b, q, a) \<noteq> None)"
| "ok_present s (OkPairReporters b q) = (ok_PairReporters s (b, q) \<noteq> None)"
| "ok_present s (OkPairSymbolSubmission b q a) = (ok_PairSymbolSubmission s (b, q, a) \<noteq> None)"
| "ok_present s (OkPairSymbolReporters b q) = (ok_PairSymbolReporters s (b, q) \<noteq> None)"
| "ok_present s (OkAssetOracleConfig t) = (ok_AssetOracleConfig s t \<noteq> None)"
| "ok_present s OkPriceObservations = (ok_PriceObservations s \<noteq> None)"

definition oracle_renew :: "oracle_key \<Rightarrow> twap_oracle \<Rightarrow> (oracle_error, twap_oracle) res" where
  "oracle_renew k s = and_then (bump_persistent (ok_present s) k (or_ttl s)) (\<lambda>l. Inr (s\<lparr>or_ttl := l\<rparr>))"

section \<open>Medians\<close>

text \<open>
  \<^verbatim>\<open>median\<close> and \<^verbatim>\<open>median_u128\<close> sort a copy in place, by the same insertion sort: the
  inner loop moves larger values one place to the right until \<open>key\<close> fits at \<open>j\<close>.
\<close>

fun shift_larger :: "int \<Rightarrow> nat \<Rightarrow> int list \<Rightarrow> nat \<times> int list" where
  "shift_larger key 0 xs = (0, xs)"
| "shift_larger key (Suc j) xs =
     (if key < xs ! j then shift_larger key j (xs[Suc j := xs ! j]) else (Suc j, xs))"

text \<open>The outer loop, for the \<open>k\<close> places from \<open>i\<close> on.\<close>

fun insert_from :: "nat \<Rightarrow> nat \<Rightarrow> int list \<Rightarrow> int list" where
  "insert_from i 0 xs = xs"
| "insert_from i (Suc k) xs =
     (let key = xs ! i; (j, ys) = shift_larger key i xs in insert_from (Suc i) k (ys[j := key]))"

definition insertion_sort :: "int list \<Rightarrow> int list" where
  "insertion_sort xs = insert_from 1 (length xs - 1) xs"

text \<open>On an empty list the index of the lower middle value underflows.\<close>

definition median :: "int list \<Rightarrow> (oracle_error, int) res" where
  "median prices =
     (let len = length prices; sorted = insertion_sort prices; mid = len div 2 in
      if len mod 2 = 0 then
        (if mid = 0 then Inl ArithPanic else
         let a = sorted ! (mid - 1); b = sorted ! mid in Inr (((a + b) div 2) mod 2 ^ 64))
      else Inr (sorted ! mid))"

definition median_u128 :: "int list \<Rightarrow> (oracle_error, int) res" where
  "median_u128 prices =
     (let len = length prices; sorted = insertion_sort prices; mid = len div 2 in
      if len mod 2 = 0 then
        (if mid = 0 then Inl ArithPanic else
         let a = sorted ! (mid - 1); b = sorted ! mid in
         Inr (sat_u128 (sat_u128 (a div 2 + b div 2) + (a mod 2 + b mod 2) div 2)))
      else Inr (sorted ! mid))"

section \<open>Roles\<close>

definition oracle_has_role :: "'w env \<Rightarrow> oracle_role \<Rightarrow> address \<Rightarrow> twap_oracle \<Rightarrow> bool" where
  "oracle_has_role e r a s = has_role (timestamp e) (ok_roles s) r a"

definition oracle_role_members :: "'w env \<Rightarrow> oracle_role \<Rightarrow> twap_oracle \<Rightarrow> address list" where
  "oracle_role_members e r s = filter (\<lambda>a. oracle_has_role e r a s) (role_members (ok_roles s) r)"

definition grant_role_with_expiration_inner ::
  "'w env \<Rightarrow> oracle_role \<Rightarrow> address \<Rightarrow> int option \<Rightarrow> twap_oracle \<Rightarrow> (oracle_error, bool \<times> twap_oracle) res" where
  "grant_role_with_expiration_inner e r a expiry s =
     and_then (grant_with_expiration (timestamp e) r (r = Admin) a expiry (ok_roles s)) (\<lambda>(b, rs).
     Inr (b, s\<lparr>ok_roles := rs\<rparr>))"

definition grant_role_inner ::
  "'w env \<Rightarrow> oracle_role \<Rightarrow> address \<Rightarrow> twap_oracle \<Rightarrow> (oracle_error, bool \<times> twap_oracle) res" where
  "grant_role_inner e r a s =
     and_then (grant (timestamp e) r (r = Admin) a (ok_roles s)) (\<lambda>(b, rs). Inr (b, s\<lparr>ok_roles := rs\<rparr>))"

definition submitters :: "twap_oracle \<Rightarrow> address list" where
  "submitters s = (case ok_Submitters s of Some xs \<Rightarrow> xs | None \<Rightarrow> [])"

text \<open>The most recent of the feeders' submissions, the first one among equals.\<close>

fun newest_submission :: "(address \<Rightarrow> price_data option) \<Rightarrow> address list \<Rightarrow> price_data option \<Rightarrow> price_data option" where
  "newest_submission sub [] latest = latest"
| "newest_submission sub (a # as) latest = newest_submission sub as
     (case sub a of
        None \<Rightarrow> latest
      | Some d \<Rightarrow> (case latest of
          None \<Rightarrow> Some d
        | Some cur \<Rightarrow> if pd_updated_at cur < pd_updated_at d then Some d else latest))"

definition remove_submitter :: "address \<Rightarrow> twap_oracle \<Rightarrow> (oracle_error, twap_oracle) res" where
  "remove_submitter account s =
     (let s1 = s\<lparr>ok_Submission := (ok_Submission s)(account := None)\<rparr>;
          updated = filter (\<lambda>a. a \<noteq> account) (submitters s1) in
      if account \<notin> set (submitters s1) then Inr s1 else
      if updated = [] then Inr (s1\<lparr>ok_Submitters := None, ok_Price := None\<rparr>) else
      and_then (oracle_renew OkSubmitters (s1\<lparr>ok_Submitters := Some updated\<rparr>)) (\<lambda>s2.
      Inr (s2\<lparr>ok_Price := newest_submission (ok_Submission s2) updated None\<rparr>)))"

fun rbac_to_oracle :: "rbac_error \<Rightarrow> oracle_error" where
  "rbac_to_oracle rbac_error.LastAdmin = LastAdmin"
| "rbac_to_oracle rbac_error.NotAuthorized = NotAuthorized"

definition revoke_role_inner ::
  "'w env \<Rightarrow> oracle_role \<Rightarrow> address \<Rightarrow> twap_oracle \<Rightarrow> (oracle_error, bool \<times> twap_oracle) res" where
  "revoke_role_inner e r a s =
     and_then (map_err rbac_to_oracle (revoke (timestamp e) r (r = Admin) a (ok_roles s))) (\<lambda>(removed, rs).
     let s1 = s\<lparr>ok_roles := rs\<rparr> in
     if removed \<and> r = PriceFeeder then and_then (remove_submitter a s1) (\<lambda>s2. Inr (removed, s2))
     else Inr (removed, s1))"

definition oracle_require_role :: "'w env \<Rightarrow> address \<Rightarrow> oracle_role \<Rightarrow> twap_oracle \<Rightarrow> (oracle_error, unit) res" where
  "oracle_require_role e caller r s =
     and_then (require_auth e caller) (\<lambda>_. if oracle_has_role e r caller s then Inr () else Inl (Err NotAuthorized))"

definition oracle_require_role_or_admin ::
  "'w env \<Rightarrow> address \<Rightarrow> oracle_role \<Rightarrow> twap_oracle \<Rightarrow> (oracle_error, unit) res" where
  "oracle_require_role_or_admin e caller r s =
     map_err (\<lambda>_. NotAuthorized) (require_role_or_admin e caller r Admin (ok_roles s))"

section \<open>Pause and guard\<close>

definition oracle_is_paused :: "'w env \<Rightarrow> twap_oracle \<Rightarrow> bool \<times> twap_oracle" where
  "oracle_is_paused e s = (let (p, slot) = is_paused (timestamp e) (ok_Paused s) in (p, s\<lparr>ok_Paused := slot\<rparr>))"

definition oracle_set_paused :: "'w env \<Rightarrow> bool \<Rightarrow> twap_oracle \<Rightarrow> (oracle_error, twap_oracle) res" where
  "oracle_set_paused e p s =
     and_then (ignore_err (ok_Paused s) (set_paused (timestamp e) p (ok_Paused s))) (\<lambda>slot. Inr (s\<lparr>ok_Paused := slot\<rparr>))"

definition oracle_require_not_paused :: "'w env \<Rightarrow> twap_oracle \<Rightarrow> (oracle_error, twap_oracle) res" where
  "oracle_require_not_paused e s =
     and_then (map_err (\<lambda>_. ContractPaused) (require_not_paused (timestamp e) (ok_Paused s))) (\<lambda>slot.
     Inr (s\<lparr>ok_Paused := slot\<rparr>))"

definition oracle_lock :: "twap_oracle \<Rightarrow> (oracle_error, twap_oracle) res" where
  "oracle_lock s =
     (let depth = (case ok_Lock s of Some n \<Rightarrow> n | None \<Rightarrow> 0) in
      if ORACLE_REENTRANCY_DEPTH \<le> depth then Inl (Err OracleLocked) else
      and_then (plain_u32 (depth + 1)) (\<lambda>n. Inr (s\<lparr>ok_Lock := Some n\<rparr>)))"

definition oracle_unlock :: "twap_oracle \<Rightarrow> twap_oracle" where
  "oracle_unlock s =
     (let d = (case ok_Lock s of Some n \<Rightarrow> n | None \<Rightarrow> 1) in if 0 < d then s\<lparr>ok_Lock := Some (d - 1)\<rparr> else s)"

definition oracle_with_guard ::
  "(twap_oracle \<Rightarrow> (oracle_error, 'a \<times> twap_oracle) res) \<Rightarrow> twap_oracle \<Rightarrow> (oracle_error, 'a \<times> twap_oracle) res" where
  "oracle_with_guard f s =
     and_then (oracle_lock s) (\<lambda>s1. and_then (f s1) (\<lambda>(r, s2). Inr (r, oracle_unlock s2)))"

section \<open>Price observations\<close>

definition add_submitter :: "address \<Rightarrow> twap_oracle \<Rightarrow> (oracle_error, twap_oracle) res" where
  "add_submitter account s =
     (if account \<in> set (submitters s) then oracle_renew OkSubmitters s else
      if MAX_SUBMITTERS \<le> int (length (submitters s)) then Inl (Err TooManySubmitters) else
      oracle_renew OkSubmitters (s\<lparr>ok_Submitters := Some (submitters s @ [account])\<rparr>))"

text \<open>The submissions that count: within the staleness limit and not zero.\<close>

definition is_fresh :: "int \<Rightarrow> int \<Rightarrow> price_data \<Rightarrow> bool" where
  "is_fresh now max_staleness d \<longleftrightarrow> sat_u64 (now - pd_updated_at d) \<le> max_staleness \<and> pd_price d \<noteq> 0"

fun fresh_prices :: "int \<Rightarrow> int \<Rightarrow> (address \<Rightarrow> price_data option) \<Rightarrow> address list \<Rightarrow> int list" where
  "fresh_prices now max_staleness sub [] = []"
| "fresh_prices now max_staleness sub (a # as) = (case sub a of
      Some d \<Rightarrow> (if is_fresh now max_staleness d then pd_price d # fresh_prices now max_staleness sub as
                else fresh_prices now max_staleness sub as)
    | None \<Rightarrow> fresh_prices now max_staleness sub as)"

definition current_submission_median :: "int \<Rightarrow> int \<Rightarrow> twap_oracle \<Rightarrow> (oracle_error, int) res" where
  "current_submission_median fallback_price now s = (case ok_Config s of
      None \<Rightarrow> Inr fallback_price
    | Some config \<Rightarrow>
        (let fresh = fresh_prices now (oc_max_staleness config) (ok_Submission s) (submitters s) in
         if fresh = [] then Inr fallback_price else median fresh))"

definition observations :: "twap_oracle \<Rightarrow> price_observation list" where
  "observations s = (case ok_PriceObservations s of Some xs \<Rightarrow> xs | None \<Rightarrow> [])"

definition record_price_observation :: "int \<Rightarrow> int \<Rightarrow> twap_oracle \<Rightarrow> (oracle_error, twap_oracle) res" where
  "record_price_observation price ts s =
     (let obs = observations s;
          ob = \<lparr>po_price = price, po_timestamp = ts\<rparr> in
      if obs \<noteq> [] \<and> ts < po_timestamp (last obs) then Inl (Err StalePriceFeed) else
      if obs \<noteq> [] \<and> po_timestamp (last obs) = ts
      then oracle_renew OkPriceObservations (s\<lparr>ok_PriceObservations := Some (obs[length obs - 1 := ob])\<rparr>) else
      let retained = (if int (length obs) = MAX_TWAP_OBSERVATIONS then tl obs else obs) in
      oracle_renew OkPriceObservations (s\<lparr>ok_PriceObservations := Some (retained @ [ob])\<rparr>))"

text \<open>
  The sum loop of \<^verbatim>\<open>calculate_twap\<close>: an observation counts until the next one, now, or
  the staleness limit, whichever comes first.
\<close>

definition valid_duration :: "int \<Rightarrow> int \<Rightarrow> price_observation \<Rightarrow> price_observation list \<Rightarrow> int" where
  "valid_duration now max_staleness ob rest =
     (let next_timestamp = (case rest of [] \<Rightarrow> now | nx # _ \<Rightarrow> po_timestamp nx);
          valid_until = min (min next_timestamp now) (sat_u64 (po_timestamp ob + max_staleness))
      in sat_u64 (valid_until - po_timestamp ob))"

fun twap_sums :: "int \<Rightarrow> int \<Rightarrow> price_observation list \<Rightarrow> int \<times> int \<Rightarrow> (oracle_error, int \<times> int) res" where
  "twap_sums now max_staleness [] acc = Inr acc"
| "twap_sums now max_staleness (ob # rest) (weighted, tot) =
     (let duration = valid_duration now max_staleness ob rest in
      and_then (ok_or (checked_u128 (po_price ob * duration)) (Err ArithmeticOverflow)) (\<lambda>x.
      and_then (ok_or (checked_u128 (weighted + x)) (Err ArithmeticOverflow)) (\<lambda>weighted'.
      and_then (ok_or (checked_u64 (tot + duration)) (Err ArithmeticOverflow)) (\<lambda>tot'.
      twap_sums now max_staleness rest (weighted', tot')))))"

definition calculate_twap :: "'w env \<Rightarrow> int \<Rightarrow> int \<Rightarrow> twap_oracle \<Rightarrow> (oracle_error, int) res" where
  "calculate_twap e observation_count max_staleness s =
     (let obs = observations s in
      if obs = [] then Inl (Err NoPriceAvailable) else
      and_then (twap_sums (timestamp e) max_staleness (drop (length obs - nat observation_count) obs) (0, 0))
        (\<lambda>(weighted, tot).
      if tot = 0 then Inl (Err NoPriceAvailable) else
      let price = weighted div tot in
      if u64_max < price then Inl (Err ArithmeticOverflow) else Inr price))"

text \<open>A failed average with no elapsed time falls back to the price itself.\<close>

definition or_instead :: "(oracle_error, int) res \<Rightarrow> (oracle_error, int) res \<Rightarrow> (oracle_error, int) res" where
  "or_instead r alternative = (case r of Inl (Err NoPriceAvailable) \<Rightarrow> alternative | _ \<Rightarrow> r)"

definition record_and_calculate_twap ::
  "'w env \<Rightarrow> int \<Rightarrow> int \<Rightarrow> int \<Rightarrow> int \<Rightarrow> twap_oracle \<Rightarrow> (oracle_error, int \<times> twap_oracle) res" where
  "record_and_calculate_twap e price ts observation_count max_staleness s =
     and_then (record_price_observation price ts s) (\<lambda>s1.
     and_then (or_instead (calculate_twap e observation_count max_staleness s1) (Inr price)) (\<lambda>twap.
     Inr (twap, s1)))"

section \<open>External feeds\<close>

definition query_oracle_feed ::
  "'w env \<Rightarrow> feeds \<Rightarrow> address \<Rightarrow> int \<Rightarrow> twap_oracle \<Rightarrow> (oracle_error, price_data) res" where
  "query_oracle_feed e fd feed max_staleness s = (case ok_Submission s feed of
      Some data \<Rightarrow>
        (if pd_price data = 0 then Inl (Err InvalidPrice) else
         if 0 < max_staleness \<and> max_staleness < sat_u64 (timestamp e - pd_updated_at data) then Inl (Err OracleStalePrice) else
         Inr data)
    | None \<Rightarrow>
        (if feed = contract_address e then Inl (Err NoPriceAvailable) else
         let latest = (case fd_latest_price fd feed of
               Some data \<Rightarrow>
                 (if 0 < pd_price data \<and>
                     (max_staleness = 0 \<or> sat_u64 (timestamp e - pd_updated_at data) \<le> max_staleness)
                  then Inr data else Inl (Err NoPriceAvailable))
             | None \<Rightarrow> Inl (Err NoPriceAvailable)) in
         case fd_twap_price fd feed of
           Some price \<Rightarrow> (if 0 < price then Inr \<lparr>pd_price = price, pd_updated_at = timestamp e\<rparr> else latest)
         | None \<Rightarrow> latest))"

text \<open>Every failure of a feed, whatever it is, leads to the next one.\<close>

definition resolve_oracle_with_failover ::
  "'w env \<Rightarrow> feeds \<Rightarrow> int \<Rightarrow> twap_oracle \<Rightarrow> (oracle_error, price_data) res" where
  "resolve_oracle_with_failover e fd max_staleness s =
     (let primary = (case ok_PrimaryOracle s of
            Some a \<Rightarrow> query_oracle_feed e fd a max_staleness s | None \<Rightarrow> Inl (Err NoPriceAvailable)) in
      case primary of Inr data \<Rightarrow> Inr data
      | Inl err \<Rightarrow> (case ok_FallbackOracle s of
          None \<Rightarrow> Inl err
        | Some a \<Rightarrow> (case query_oracle_feed e fd a max_staleness s of Inr data \<Rightarrow> Inr data | Inl _ \<Rightarrow> Inl err)))"

end
