(* ===== verification/Oracle_Ops.thy ===== *)
theory Oracle_Ops
  imports Oracle
begin

text \<open>
  The entry points of \<^verbatim>\<open>TwapOracle\<close> (\<^verbatim>\<open>contracts/oracle/src/lib.rs\<close>), in the order of
  the source.  A rejected price publishes an event and returns an error; the host
  discards the event with the rest of the failed call, so only the error is modelled.
\<close>

section \<open>Initialisation and roles\<close>

definition oracle_initialize :: "'w env \<Rightarrow> address \<Rightarrow> twap_oracle \<Rightarrow> (oracle_error, twap_oracle) res" where
  "oracle_initialize e admin s =
     (if ok_Admin s \<noteq> None then Inl (Err AlreadyInitialized) else
      and_then (grant_role_inner e Admin admin ((oracle_bump s)\<lparr>ok_Admin := Some admin\<rparr>)) (\<lambda>(_, s1). Inr s1))"

definition oracle_emit_if :: "bool \<Rightarrow> oracle_event \<Rightarrow> twap_oracle \<Rightarrow> twap_oracle" where
  "oracle_emit_if b ev s = (if b then oracle_emit ev s else s)"

definition oracle_grant_role_with_expiration ::
  "'w env \<Rightarrow> address \<Rightarrow> oracle_role \<Rightarrow> address \<Rightarrow> int option \<Rightarrow> twap_oracle \<Rightarrow> (oracle_error, twap_oracle) res" where
  "oracle_grant_role_with_expiration e caller r account expiry s =
     and_then (oracle_require_role_or_admin e caller Admin s) (\<lambda>_.
     if (r = Admin \<and> expiry \<noteq> None) \<or> (case expiry of Some t \<Rightarrow> t \<le> timestamp e | None \<Rightarrow> False)
     then Inl (Err InvalidRoleExpiration) else
     and_then (grant_role_with_expiration_inner e r account expiry (oracle_bump s)) (\<lambda>(b, s1).
     Inr (oracle_emit_if b (EvOracleGrant caller r account) s1)))"

definition oracle_grant_role ::
  "'w env \<Rightarrow> address \<Rightarrow> oracle_role \<Rightarrow> address \<Rightarrow> twap_oracle \<Rightarrow> (oracle_error, twap_oracle) res" where
  "oracle_grant_role e caller r account s =
     and_then (oracle_require_role_or_admin e caller Admin s) (\<lambda>_.
     and_then (grant_role_inner e r account (oracle_bump s)) (\<lambda>(b, s1).
     Inr (oracle_emit_if b (EvOracleGrant caller r account) s1)))"

definition oracle_revoke_role ::
  "'w env \<Rightarrow> address \<Rightarrow> oracle_role \<Rightarrow> address \<Rightarrow> twap_oracle \<Rightarrow> (oracle_error, twap_oracle) res" where
  "oracle_revoke_role e caller r account s =
     and_then (oracle_require_role_or_admin e caller Admin s) (\<lambda>_.
     and_then (revoke_role_inner e r account (oracle_bump s)) (\<lambda>(b, s1).
     Inr (oracle_emit_if b (EvOracleRevoke caller r account) s1)))"

definition purge_submitter :: "'w env \<Rightarrow> address \<Rightarrow> address \<Rightarrow> twap_oracle \<Rightarrow> (oracle_error, twap_oracle) res" where
  "purge_submitter e caller feeder s =
     and_then (oracle_require_role_or_admin e caller Admin s) (\<lambda>_. remove_submitter feeder (oracle_bump s))"

definition transfer_admin :: "'w env \<Rightarrow> address \<Rightarrow> address \<Rightarrow> twap_oracle \<Rightarrow> (oracle_error, twap_oracle) res" where
  "transfer_admin e caller new_admin s =
     and_then (oracle_require_role_or_admin e caller Admin s) (\<lambda>_.
     and_then (grant_role_inner e Admin new_admin (oracle_bump s)) (\<lambda>(_, s1).
     and_then (revoke_role_inner e Admin caller s1) (\<lambda>(_, s2).
     Inr (oracle_emit (EvAdminTransferred caller new_admin) s2))))"

section \<open>Configuration\<close>

definition drop_prices :: "twap_oracle \<Rightarrow> twap_oracle" where
  "drop_prices s = s\<lparr>ok_Price := None,
     ok_Submission := (\<lambda>a. if a \<in> set (submitters s) then None else ok_Submission s a),
     ok_Submitters := None, ok_PriceObservations := None\<rparr>"

definition store_oracle_config :: "address \<Rightarrow> oracle_config \<Rightarrow> twap_oracle \<Rightarrow> (oracle_error, twap_oracle) res" where
  "store_oracle_config caller config s =
     (if 19 < oc_decimals config then Inl (Err InvalidDecimals) else
      if oc_max_staleness config = 0 then Inl (Err InvalidMaxStaleness) else
      if oc_min_submitters config = 0 \<or> MAX_SUBMITTERS < oc_min_submitters config then Inl (Err InvalidMinSubmitters) else
      let s1 = oracle_bump s;
          s2 = (case ok_Config s1 of
                  Some old \<Rightarrow> (if oc_decimals old \<noteq> oc_decimals config \<or> oc_asset_peg old \<noteq> oc_asset_peg config
                              then drop_prices s1 else s1)
                | None \<Rightarrow> s1)
      in Inr (oracle_emit (EvOracleConfigured caller config) (s2\<lparr>ok_Config := Some config\<rparr>)))"

definition configure_oracle ::
  "'w env \<Rightarrow> address \<Rightarrow> oracle_config \<Rightarrow> twap_oracle \<Rightarrow> (oracle_error, twap_oracle) res" where
  "configure_oracle e caller config s =
     and_then (oracle_require_role_or_admin e caller Admin s) (\<lambda>_. store_oracle_config caller config s)"

definition read_config :: "twap_oracle \<Rightarrow> (oracle_error, oracle_config) res" where
  "read_config s = ok_or (ok_Config s) (Err OracleNotConfigured)"

definition updated_by :: "'a option \<Rightarrow> 'a \<Rightarrow> 'a" where
  "updated_by x old = (case x of Some v \<Rightarrow> v | None \<Rightarrow> old)"

definition merge_config :: "oracle_config_update \<Rightarrow> oracle_config \<Rightarrow> oracle_config" where
  "merge_config u config =
     \<lparr>oc_decimals = updated_by (ou_decimals u) (oc_decimals config),
      oc_asset_peg = updated_by (ou_asset_peg u) (oc_asset_peg config),
      oc_max_staleness = updated_by (ou_max_staleness u) (oc_max_staleness config),
      oc_max_price = updated_by (ou_max_price u) (oc_max_price config),
      oc_min_submit_interval = updated_by (ou_min_submit_interval u) (oc_min_submit_interval config),
      oc_min_submitters = updated_by (ou_min_submitters u) (oc_min_submitters config)\<rparr>"

definition update_oracle_config ::
  "'w env \<Rightarrow> address \<Rightarrow> oracle_config_update \<Rightarrow> twap_oracle \<Rightarrow> (oracle_error, twap_oracle) res" where
  "update_oracle_config e caller u s =
     and_then (oracle_require_role_or_admin e caller Admin s) (\<lambda>_.
     and_then (ok_or (ok_Config s) (Err OracleNotConfigured)) (\<lambda>config.
     and_then (store_oracle_config caller (merge_config u config) s) (\<lambda>s1.
     let s2 = (case ou_quote_currency u of
                 Some c \<Rightarrow> oracle_emit (EvQuoteCurrency caller c) (s1\<lparr>ok_QuoteCurrency := Some c\<rparr>) | None \<Rightarrow> s1)
     in Inr (case ou_max_deviation_bps u of Some d \<Rightarrow> s2\<lparr>ok_MaxDeviationBps := Some d\<rparr> | None \<Rightarrow> s2))))"

section \<open>Submissions\<close>

text \<open>The deviation from the last accepted price, in basis points.\<close>

definition last_price_deviation :: "int \<Rightarrow> twap_oracle \<Rightarrow> (oracle_error, int option) res" where
  "last_price_deviation price s = (case ok_Price s of
      Some last_price \<Rightarrow>
        (if 0 < pd_price last_price then
           and_then (ok_or (checked_u128 (\<bar>price - pd_price last_price\<bar> * 10000)) (Err ArithmeticOverflow)) (\<lambda>x.
           Inr (Some (x div pd_price last_price)))
         else Inr None)
    | None \<Rightarrow> Inr None)"

definition above :: "int option \<Rightarrow> int \<Rightarrow> bool" where
  "above x bound = (case x of Some d \<Rightarrow> bound < d | None \<Rightarrow> False)"

definition max_deviation_bps :: "twap_oracle \<Rightarrow> int" where
  "max_deviation_bps s = (case ok_MaxDeviationBps s of Some n \<Rightarrow> n | None \<Rightarrow> 0)"

text \<open>The checks that apply once the oracle is configured.\<close>

definition check_submission ::
  "'w env \<Rightarrow> address \<Rightarrow> int \<Rightarrow> int option \<Rightarrow> twap_oracle \<Rightarrow> (oracle_error, unit) res" where
  "check_submission e caller price deviation s = (case ok_Config s of
      None \<Rightarrow> Inr ()
    | Some config \<Rightarrow>
        (if oc_max_price config \<noteq> 0 \<and> oc_max_price config < price then Inl (Err PriceExceedsMaxPrice) else
         if 0 < max_deviation_bps s \<and> above deviation (max_deviation_bps s) then Inl (Err ExcessivePriceDeviation) else
         if 0 < oc_min_submit_interval config \<and>
            (case ok_Submission s caller of
               Some d \<Rightarrow> sat_u64 (timestamp e - pd_updated_at d) < oc_min_submit_interval config | None \<Rightarrow> False)
         then Inl (Err SubmitTooSoon) else Inr ()))"

definition submit_price :: "'w env \<Rightarrow> address \<Rightarrow> int \<Rightarrow> twap_oracle \<Rightarrow> (oracle_error, twap_oracle) res" where
  "submit_price e caller price s0 =
     and_then (oracle_require_not_paused e s0) (\<lambda>s.
     and_then (oracle_require_role e caller PriceFeeder s) (\<lambda>_.
     if price = 0 then Inl (Err InvalidPrice) else
     let now = timestamp e in
     and_then (last_price_deviation price s) (\<lambda>deviation.
     if above deviation 5000 then Inl (Err OracleDeviationTooHigh) else
     and_then (check_submission e caller price deviation s) (\<lambda>_.
     let d = \<lparr>pd_price = price, pd_updated_at = now\<rparr>;
         s1 = (oracle_bump s)\<lparr>ok_Price := Some d, ok_Submission := (ok_Submission s)(caller \<mapsto> d)\<rparr> in
     and_then (oracle_renew (OkSubmission caller) s1) (\<lambda>s2.
     and_then (add_submitter caller s2) (\<lambda>s3.
     and_then (current_submission_median price now s3) (\<lambda>aggregate.
     and_then (record_price_observation aggregate now s3) (\<lambda>s4.
     Inr (oracle_emit (EvPriceSubmitted caller price now) s4)))))))))"

section \<open>Reading prices\<close>

definition feeds_configured :: "twap_oracle \<Rightarrow> bool" where
  "feeds_configured s \<longleftrightarrow> ok_PrimaryOracle s \<noteq> None \<or> ok_FallbackOracle s \<noteq> None"

text \<open>An answer of a feed is recorded and averaged; otherwise the alternative applies.\<close>

definition from_feeds_or ::
  "'w env \<Rightarrow> feeds \<Rightarrow> int \<Rightarrow> int \<Rightarrow> twap_oracle \<Rightarrow> (oracle_error, int \<times> twap_oracle) res \<Rightarrow>
   (oracle_error, int \<times> twap_oracle) res" where
  "from_feeds_or e fd observation_count max_staleness s alternative =
     (case resolve_oracle_with_failover e fd max_staleness s of
        Inr d \<Rightarrow> record_and_calculate_twap e (pd_price d) (pd_updated_at d) observation_count max_staleness s
      | Inl _ \<Rightarrow> alternative)"

definition twap_of_submissions ::
  "'w env \<Rightarrow> feeds \<Rightarrow> int \<Rightarrow> oracle_config \<Rightarrow> twap_oracle \<Rightarrow> (oracle_error, int \<times> twap_oracle) res" where
  "twap_of_submissions e fd observation_count config s =
     (let fresh = fresh_prices (timestamp e) (oc_max_staleness config) (ok_Submission s) (submitters s);
          saw_any_submission = (\<exists>a \<in> set (submitters s). ok_Submission s a \<noteq> None) in
      if fresh = [] then
        from_feeds_or e fd observation_count (oc_max_staleness config) s
          (if saw_any_submission then Inl (Err OracleStalePrice) else Inl (Err NoPriceAvailable))
      else if int (length fresh) < oc_min_submitters config then
        from_feeds_or e fd observation_count (oc_max_staleness config) s (Inl (Err InsufficientQuorum))
      else
        and_then (or_instead (calculate_twap e observation_count (oc_max_staleness config) s) (median fresh)) (\<lambda>price.
        Inr (price, s)))"

definition get_twap_price_inner ::
  "'w env \<Rightarrow> feeds \<Rightarrow> int \<Rightarrow> twap_oracle \<Rightarrow> (oracle_error, int \<times> twap_oracle) res" where
  "get_twap_price_inner e fd observation_count s =
     (if observation_count = 0 \<or> MAX_TWAP_OBSERVATIONS < observation_count then Inl (Err InvalidObservationCount) else
      and_then (ok_or (ok_Config s) (Err OracleNotConfigured)) (\<lambda>config.
      let submitted = twap_of_submissions e fd observation_count config s in
      if feeds_configured s then from_feeds_or e fd observation_count (oc_max_staleness config) s submitted
      else submitted))"

definition get_twap_price :: "'w env \<Rightarrow> feeds \<Rightarrow> twap_oracle \<Rightarrow> (oracle_error, int \<times> twap_oracle) res" where
  "get_twap_price e fd s = oracle_with_guard (get_twap_price_inner e fd MAX_TWAP_OBSERVATIONS) s"

definition get_twap_price_for_observations ::
  "'w env \<Rightarrow> feeds \<Rightarrow> int \<Rightarrow> twap_oracle \<Rightarrow> (oracle_error, int \<times> twap_oracle) res" where
  "get_twap_price_for_observations e fd observation_count s =
     oracle_with_guard (get_twap_price_inner e fd observation_count) s"

section \<open>Feeds\<close>

definition admin_setting ::
  "'w env \<Rightarrow> address \<Rightarrow> (twap_oracle \<Rightarrow> twap_oracle) \<Rightarrow> twap_oracle \<Rightarrow> (oracle_error, twap_oracle) res" where
  "admin_setting e caller upd s =
     and_then (oracle_require_not_paused e s) (\<lambda>s1.
     and_then (oracle_require_role_or_admin e caller Admin s1) (\<lambda>_. Inr (upd (oracle_bump s1))))"

definition set_oracle_feeds ::
  "'w env \<Rightarrow> address \<Rightarrow> address \<Rightarrow> address option \<Rightarrow> twap_oracle \<Rightarrow> (oracle_error, twap_oracle) res" where
  "set_oracle_feeds e caller primary fallback s =
     admin_setting e caller (\<lambda>s. s\<lparr>ok_PrimaryOracle := Some primary, ok_FallbackOracle := fallback\<rparr>) s"

definition set_primary_oracle :: "'w env \<Rightarrow> address \<Rightarrow> address \<Rightarrow> twap_oracle \<Rightarrow> (oracle_error, twap_oracle) res" where
  "set_primary_oracle e caller primary s = admin_setting e caller (\<lambda>s. s\<lparr>ok_PrimaryOracle := Some primary\<rparr>) s"

definition set_fallback_oracle :: "'w env \<Rightarrow> address \<Rightarrow> address \<Rightarrow> twap_oracle \<Rightarrow> (oracle_error, twap_oracle) res" where
  "set_fallback_oracle e caller fallback s = admin_setting e caller (\<lambda>s. s\<lparr>ok_FallbackOracle := Some fallback\<rparr>) s"

definition max_staleness_seconds :: "twap_oracle \<Rightarrow> int" where
  "max_staleness_seconds s = (case ok_Config s of
      Some config \<Rightarrow> oc_max_staleness config
    | None \<Rightarrow> (case ok_MaxStalenessSeconds s of Some n \<Rightarrow> n | None \<Rightarrow> 0))"

definition get_price_with_fallback :: "'w env \<Rightarrow> feeds \<Rightarrow> twap_oracle \<Rightarrow> (oracle_error, int \<times> twap_oracle) res" where
  "get_price_with_fallback e fd s = oracle_with_guard (\<lambda>s1.
     if feeds_configured s1
     then and_then (resolve_oracle_with_failover e fd (max_staleness_seconds s1) s1) (\<lambda>d. Inr (pd_price d, s1))
     else get_twap_price_inner e fd MAX_TWAP_OBSERVATIONS s1) s"

section \<open>Health\<close>

definition min_submitters :: "twap_oracle \<Rightarrow> (oracle_error, int) res" where
  "min_submitters s = and_then (ok_or (ok_Config s) (Err OracleNotConfigured)) (\<lambda>config. Inr (oc_min_submitters config))"

text \<open>The loop of \<^verbatim>\<open>load_price_status\<close>: count, least and greatest age, whether anything was seen.\<close>

fun status_loop :: "int \<Rightarrow> int \<Rightarrow> (address \<Rightarrow> price_data option) \<Rightarrow> address list \<Rightarrow> int \<times> int \<times> int \<times> bool \<Rightarrow>
   (oracle_error, int \<times> int \<times> int \<times> bool) res" where
  "status_loop now max_staleness sub [] acc = Inr acc"
| "status_loop now max_staleness sub (a # as) (cnt, newest, oldest, saw) = (case sub a of
      None \<Rightarrow> status_loop now max_staleness sub as (cnt, newest, oldest, saw)
    | Some d \<Rightarrow>
        (let age = sat_u64 (now - pd_updated_at d) in
         if age \<le> max_staleness \<and> pd_price d \<noteq> 0 then
           and_then (plain_u32 (cnt + 1)) (\<lambda>cnt'.
           status_loop now max_staleness sub as
             (cnt', if cnt = 0 then age else min newest age, if cnt = 0 then age else max oldest age, True))
         else status_loop now max_staleness sub as (cnt, newest, oldest, True)))"

definition load_price_status :: "'w env \<Rightarrow> twap_oracle \<Rightarrow> (oracle_error, price_status) res" where
  "load_price_status e s =
     and_then (ok_or (ok_Config s) (Err OracleNotConfigured)) (\<lambda>config.
     and_then (status_loop (timestamp e) (oc_max_staleness config) (ok_Submission s) (submitters s) (0, 0, 0, False))
       (\<lambda>(cnt, newest, oldest, saw).
     if \<not> saw then Inl (Err NoPriceAvailable) else
     Inr \<lparr>ps_fresh_submitter_count = cnt, ps_min_submitters = oc_min_submitters config, ps_newest_age = newest,
          ps_oldest_fresh_age = oldest, ps_stale = (cnt = 0)\<rparr>))"

definition price_age :: "'w env \<Rightarrow> twap_oracle \<Rightarrow> (oracle_error, int) res" where
  "price_age e s = and_then (load_price_status e s) (\<lambda>st. Inr (ps_newest_age st))"

definition is_price_stale :: "'w env \<Rightarrow> twap_oracle \<Rightarrow> (oracle_error, bool) res" where
  "is_price_stale e s = and_then (load_price_status e s) (\<lambda>st. Inr (ps_stale st))"

definition latest_price :: "'w env \<Rightarrow> feeds \<Rightarrow> twap_oracle \<Rightarrow> (oracle_error, price_data) res" where
  "latest_price e fd s =
     (let max_staleness = max_staleness_seconds s;
          stored =
            and_then (ok_or (case newest_submission (ok_Submission s) (submitters s) None of
                 Some d \<Rightarrow> Some d | None \<Rightarrow> ok_Price s) (Err NoPriceAvailable)) (\<lambda>d.
            if 0 < max_staleness \<and> max_staleness < sat_u64 (timestamp e - pd_updated_at d)
            then Inl (Err StalePriceFeed) else Inr d)
      in if feeds_configured s
         then (case resolve_oracle_with_failover e fd max_staleness s of Inr d \<Rightarrow> Inr d | Inl _ \<Rightarrow> stored)
         else stored)"

definition set_max_staleness_seconds ::
  "'w env \<Rightarrow> address \<Rightarrow> int \<Rightarrow> twap_oracle \<Rightarrow> (oracle_error, twap_oracle) res" where
  "set_max_staleness_seconds e caller n s =
     and_then (oracle_require_not_paused e s) (\<lambda>s1.
     and_then (oracle_require_role_or_admin e caller Admin s1) (\<lambda>_.
     if n = 0 then Inl (Err InvalidMaxStaleness) else
     let s2 = (oracle_bump s1)\<lparr>ok_MaxStalenessSeconds := Some n\<rparr> in
     Inr (case ok_Config s2 of
            Some config \<Rightarrow> s2\<lparr>ok_Config := Some (config\<lparr>oc_max_staleness := n\<rparr>)\<rparr> | None \<Rightarrow> s2)))"

definition set_asset_oracle_config ::
  "'w env \<Rightarrow> address \<Rightarrow> address \<Rightarrow> asset_oracle_config \<Rightarrow> twap_oracle \<Rightarrow> (oracle_error, twap_oracle) res" where
  "set_asset_oracle_config e caller tok config s =
     and_then (oracle_require_not_paused e s) (\<lambda>s1.
     and_then (oracle_require_role_or_admin e caller Admin s1) (\<lambda>_.
     if heartbeat_timeout_seconds config = 0 then Inl (Err InvalidHeartbeatTimeout) else
     oracle_renew (OkAssetOracleConfig tok)
       ((oracle_bump s1)\<lparr>ok_AssetOracleConfig := (ok_AssetOracleConfig s1)(tok \<mapsto> config)\<rparr>)))"

definition set_max_deviation_bps :: "'w env \<Rightarrow> address \<Rightarrow> int \<Rightarrow> twap_oracle \<Rightarrow> (oracle_error, twap_oracle) res" where
  "set_max_deviation_bps e caller n s = admin_setting e caller (\<lambda>s. s\<lparr>ok_MaxDeviationBps := Some n\<rparr>) s"

section \<open>Payouts\<close>

definition calculate_fiat_stream_payout_inner ::
  "'w env \<Rightarrow> feeds \<Rightarrow> int \<Rightarrow> twap_oracle \<Rightarrow> (oracle_error, int \<times> twap_oracle) res" where
  "calculate_fiat_stream_payout_inner e fd token_amount s =
     and_then (get_twap_price_inner e fd MAX_TWAP_OBSERVATIONS s) (\<lambda>(current_price, s1).
     and_then (ok_or (ok_Config s1) (Err OracleNotConfigured)) (\<lambda>config.
     and_then (ok_or (checked_u128 (10 ^ nat (oc_decimals config))) (Err InvalidDecimals)) (\<lambda>precision.
     and_then (ok_or (checked_u128 (token_amount * current_price)) (Err ArithmeticOverflow)) (\<lambda>product.
     let value = product div precision in
     if u64_max < value then Inl (Err ArithmeticOverflow) else Inr (value, s1)))))"

definition calculate_fiat_stream_payout ::
  "'w env \<Rightarrow> feeds \<Rightarrow> int \<Rightarrow> twap_oracle \<Rightarrow> (oracle_error, int \<times> twap_oracle) res" where
  "calculate_fiat_stream_payout e fd token_amount s =
     oracle_with_guard (calculate_fiat_stream_payout_inner e fd token_amount) s"

end
