(* ===== verification/Oracle_Pairs.thy ===== *)
theory Oracle_Pairs
  imports Oracle_Ops
begin

text \<open>
  The rest of \<^verbatim>\<open>contracts/oracle/src/lib.rs\<close>: prices of token pairs and of symbol
  pairs, the pause and the upgrade.  The two kinds of pairs have the same code over
  keys of different types; what they share (the bounded list of reporters and the
  collection of fresh reports) is one definition here.
\<close>

section \<open>Reporters\<close>

definition is_authorized_pair_reporter :: "'w env \<Rightarrow> address \<Rightarrow> twap_oracle \<Rightarrow> bool" where
  "is_authorized_pair_reporter e reporter s \<longleftrightarrow>
     oracle_has_role e PriceFeeder reporter s \<or> oracle_has_role e Admin reporter s"

definition with_reporter :: "'w env \<Rightarrow> address list \<Rightarrow> address \<Rightarrow> twap_oracle \<Rightarrow> (oracle_error, address list) res" where
  "with_reporter e existing reporter s =
     (let active = filter (\<lambda>a. is_authorized_pair_reporter e a s) existing in
      if reporter \<in> set active then Inr active else
      if MAX_PAIR_REPORTERS \<le> int (length active) then Inl (Err TooManyPairReporters) else
      Inr (active @ [reporter]))"

definition add_pair_reporter ::
  "'w env \<Rightarrow> address \<Rightarrow> address \<Rightarrow> address \<Rightarrow> twap_oracle \<Rightarrow> (oracle_error, twap_oracle) res" where
  "add_pair_reporter e base quote reporter s =
     and_then (with_reporter e (case ok_PairReporters s (base, quote) of Some xs \<Rightarrow> xs | None \<Rightarrow> []) reporter s) (\<lambda>active.
     oracle_renew (OkPairReporters base quote)
       (s\<lparr>ok_PairReporters := (ok_PairReporters s)((base, quote) \<mapsto> active)\<rparr>))"

definition add_symbol_pair_reporter ::
  "'w env \<Rightarrow> string \<Rightarrow> string \<Rightarrow> address \<Rightarrow> twap_oracle \<Rightarrow> (oracle_error, twap_oracle) res" where
  "add_symbol_pair_reporter e base quote reporter s =
     and_then (with_reporter e (case ok_PairSymbolReporters s (base, quote) of Some xs \<Rightarrow> xs | None \<Rightarrow> []) reporter s) (\<lambda>active.
     oracle_renew (OkPairSymbolReporters base quote)
       (s\<lparr>ok_PairSymbolReporters := (ok_PairSymbolReporters s)((base, quote) \<mapsto> active)\<rparr>))"

section \<open>Reports\<close>

definition set_price ::
  "'w env \<Rightarrow> address \<Rightarrow> address \<Rightarrow> address \<Rightarrow> int \<Rightarrow> twap_oracle \<Rightarrow> (oracle_error, twap_oracle) res" where
  "set_price e caller base quote price s =
     and_then (oracle_require_not_paused e s) (\<lambda>s1.
     and_then (oracle_require_role_or_admin e caller PriceFeeder s1) (\<lambda>_.
     if price = 0 then Inl (Err InvalidPrice) else
     and_then (add_pair_reporter e base quote caller (oracle_bump s1)) (\<lambda>s2.
     let d = \<lparr>pp_price = price, pp_updated_at = timestamp e\<rparr> in
     and_then (oracle_renew (OkPairSubmission base quote caller)
       (s2\<lparr>ok_PairSubmission := (ok_PairSubmission s2)((base, quote, caller) \<mapsto> d)\<rparr>)) (\<lambda>s3.
     Inr (s3\<lparr>ok_PairPrice := (ok_PairPrice s3)((base, quote) \<mapsto> price)\<rparr>)))))"

definition set_price_symbol ::
  "'w env \<Rightarrow> address \<Rightarrow> string \<Rightarrow> string \<Rightarrow> int \<Rightarrow> twap_oracle \<Rightarrow> (oracle_error, twap_oracle) res" where
  "set_price_symbol e caller base quote price s =
     and_then (oracle_require_not_paused e s) (\<lambda>s1.
     and_then (oracle_require_role_or_admin e caller PriceFeeder s1) (\<lambda>_.
     if price = 0 then Inl (Err InvalidPrice) else
     and_then (add_symbol_pair_reporter e base quote caller (oracle_bump s1)) (\<lambda>s2.
     let d = \<lparr>pp_price = price, pp_updated_at = timestamp e\<rparr> in
     and_then (oracle_renew (OkPairSymbolSubmission base quote caller)
       (s2\<lparr>ok_PairSymbolSubmission := (ok_PairSymbolSubmission s2)((base, quote, caller) \<mapsto> d)\<rparr>)) (\<lambda>s3.
     Inr (s3\<lparr>ok_PairPriceSymbol := (ok_PairPriceSymbol s3)((base, quote) \<mapsto> price)\<rparr>)))))"

definition asset_heartbeat_secs :: "address \<Rightarrow> twap_oracle \<Rightarrow> int" where
  "asset_heartbeat_secs asset s = (case ok_AssetOracleConfig s asset of
      Some config \<Rightarrow> heartbeat_timeout_seconds config
    | None \<Rightarrow> (let global = max_staleness_seconds s in if 0 < global then global else PAIR_REPORT_FRESHNESS_SECS))"

text \<open>The fresh reports of the reporters that are still authorized, and whether any of these reported.\<close>

fun collect_reports ::
  "'w env \<Rightarrow> int \<Rightarrow> (address \<Rightarrow> pair_price_data option) \<Rightarrow> twap_oracle \<Rightarrow> address list \<Rightarrow> int list \<times> bool" where
  "collect_reports e heartbeat report s [] = ([], False)"
| "collect_reports e heartbeat report s (a # as) =
     (let (fresh, saw) = collect_reports e heartbeat report s as in
      if \<not> is_authorized_pair_reporter e a s then (fresh, saw) else
      (case report a of
         None \<Rightarrow> (fresh, saw)
       | Some d \<Rightarrow>
           (if sat_u64 (timestamp e - pp_updated_at d) \<le> heartbeat then pp_price d # fresh else fresh, True)))"

definition median_of_reports :: "int list \<times> bool \<Rightarrow> (oracle_error, int) res" where
  "median_of_reports r = (case r of (fresh, saw_authorized_submission) \<Rightarrow>
     if fresh = [] then (if saw_authorized_submission then Inl (Err OracleStalePrice) else Inl (Err PriceNotFound))
     else median_u128 fresh)"

definition aggregate_pair_price :: "'w env \<Rightarrow> address \<Rightarrow> address \<Rightarrow> twap_oracle \<Rightarrow> (oracle_error, int) res" where
  "aggregate_pair_price e base quote s =
     (let heartbeat = asset_heartbeat_secs base s;
          reporters = (case ok_PairReporters s (base, quote) of Some xs \<Rightarrow> xs | None \<Rightarrow> []) in
      if reporters = [] then ok_or (ok_PairPrice s (base, quote)) (Err PriceNotFound) else
      median_of_reports (collect_reports e heartbeat (\<lambda>a. ok_PairSubmission s (base, quote, a)) s reporters))"

definition aggregate_symbol_pair_price :: "'w env \<Rightarrow> string \<Rightarrow> string \<Rightarrow> twap_oracle \<Rightarrow> (oracle_error, int) res" where
  "aggregate_symbol_pair_price e base quote s =
     (let reporters = (case ok_PairSymbolReporters s (base, quote) of Some xs \<Rightarrow> xs | None \<Rightarrow> []) in
      if reporters = [] then ok_or (ok_PairPriceSymbol s (base, quote)) (Err PriceNotFound) else
      median_of_reports
        (collect_reports e PAIR_REPORT_FRESHNESS_SECS (\<lambda>a. ok_PairSymbolSubmission s (base, quote, a)) s reporters))"

definition get_price :: "'w env \<Rightarrow> address \<Rightarrow> address \<Rightarrow> twap_oracle \<Rightarrow> (oracle_error, int) res" where
  "get_price e base quote s = aggregate_pair_price e base quote s"

definition get_price_symbol :: "'w env \<Rightarrow> string \<Rightarrow> string \<Rightarrow> twap_oracle \<Rightarrow> (oracle_error, int) res" where
  "get_price_symbol e base quote s = aggregate_symbol_pair_price e base quote s"

text \<open>The direct price, or the reciprocal of the reverse one when the direct one is missing or stale.\<close>

definition direct_or_reciprocal ::
  "(oracle_error, int) res \<Rightarrow> (oracle_error, int) res \<Rightarrow> (oracle_error, int) res" where
  "direct_or_reciprocal direct reverse = (case direct of
      Inr price \<Rightarrow> Inr price
    | Inl f \<Rightarrow>
        (if f \<noteq> Err PriceNotFound \<and> f \<noteq> Err OracleStalePrice then Inl f else
         case reverse of
           Inr price \<Rightarrow>
             (if price = 0 then Inl (Err InvalidPrice) else
              and_then (ok_or (checked_u128 (PRICE_PRECISION * PRICE_PRECISION)) (Err ArithmeticOverflow)) (\<lambda>sq.
              Inr (sq div price)))
         | Inl (Err g) \<Rightarrow>
             (if f = Err OracleStalePrice \<or> g = OracleStalePrice then Inl (Err OracleStalePrice) else Inl (Err PriceNotFound))
         | Inl g \<Rightarrow> Inl g))"

definition get_price_inverted :: "'w env \<Rightarrow> address \<Rightarrow> address \<Rightarrow> twap_oracle \<Rightarrow> (oracle_error, int) res" where
  "get_price_inverted e base quote s =
     direct_or_reciprocal (aggregate_pair_price e base quote s) (aggregate_pair_price e quote base s)"

definition get_price_inverted_symbol :: "'w env \<Rightarrow> string \<Rightarrow> string \<Rightarrow> twap_oracle \<Rightarrow> (oracle_error, int) res" where
  "get_price_inverted_symbol e base quote s =
     direct_or_reciprocal (aggregate_symbol_pair_price e base quote s) (aggregate_symbol_pair_price e quote base s)"

section \<open>Pause and upgrade\<close>

definition oracle_pause :: "'w env \<Rightarrow> address \<Rightarrow> twap_oracle \<Rightarrow> (oracle_error, twap_oracle) res" where
  "oracle_pause e caller s =
     and_then (oracle_require_role_or_admin e caller Pauser s) (\<lambda>_.
     let (p, s1) = oracle_is_paused e s in
     if p then Inl (Err AlreadyPaused) else
     and_then (oracle_set_paused e True (oracle_bump s1)) (\<lambda>s2.
     Inr (oracle_emit (EvOraclePaused caller (timestamp e)) s2)))"

definition oracle_unpause :: "'w env \<Rightarrow> address \<Rightarrow> twap_oracle \<Rightarrow> (oracle_error, twap_oracle) res" where
  "oracle_unpause e caller s =
     and_then (oracle_require_role_or_admin e caller Pauser s) (\<lambda>_.
     let (p, s1) = oracle_is_paused e s in
     if \<not> p then Inl (Err NotPaused) else
     and_then (oracle_set_paused e False (oracle_bump s1)) (\<lambda>s2.
     Inr (oracle_emit (EvOracleUnpaused caller (timestamp e)) s2)))"

definition oracle_upgrade :: "'w env \<Rightarrow> address \<Rightarrow> wasm_hash \<Rightarrow> twap_oracle \<Rightarrow> (oracle_error, twap_oracle) res" where
  "oracle_upgrade e caller new_wasm_hash s =
     and_then (oracle_require_role e caller Admin s) (\<lambda>_.
     and_then (oracle_require_not_paused e s) (\<lambda>s1.
     if new_wasm_hash = replicate 32 0 then Inl (Err InvalidWasmHash) else
     Inr (oracle_emit (EvOracleUpgraded caller (timestamp e)) ((oracle_bump s1)\<lparr>or_code := new_wasm_hash\<rparr>))))"

section \<open>Views\<close>

definition quote_currency :: "twap_oracle \<Rightarrow> string option" where
  "quote_currency s = ok_QuoteCurrency s"

definition primary_oracle :: "twap_oracle \<Rightarrow> address option" where
  "primary_oracle s = ok_PrimaryOracle s"

definition fallback_oracle :: "twap_oracle \<Rightarrow> address option" where
  "fallback_oracle s = ok_FallbackOracle s"

definition price_status_view :: "'w env \<Rightarrow> twap_oracle \<Rightarrow> (oracle_error, price_status) res" where
  "price_status_view e s = load_price_status e s"

definition get_stored_price :: "'w env \<Rightarrow> feeds \<Rightarrow> twap_oracle \<Rightarrow> (oracle_error, price_data) res" where
  "get_stored_price e fd s = latest_price e fd s"

definition asset_oracle_config_view :: "address \<Rightarrow> twap_oracle \<Rightarrow> asset_oracle_config option" where
  "asset_oracle_config_view tok s = ok_AssetOracleConfig s tok"

definition oracle_is_paused_view :: "'w env \<Rightarrow> twap_oracle \<Rightarrow> bool \<times> twap_oracle" where
  "oracle_is_paused_view e s = oracle_is_paused e s"

end
