(* ===== verification/Oracle_Price.thy ===== *)
theory Oracle_Price
  imports Oracle_Pairs "HOL-Library.Multiset"
begin

text \<open>
  The price arithmetic of the oracle: the in-place insertion sort sorts, the two
  medians are the middle of the sorted prices and cannot be moved by a minority, and
  the time-weighted average is the average, over the seconds that have a valid price,
  of the price valid at that second.
\<close>

section \<open>Insertion sort\<close>

lemma insort_snoc:
  "sorted (ps @ [p]) \<Longrightarrow> insort (k :: int) (ps @ [p]) = (if k < p then insort k ps @ [p] else ps @ [p, k])"
proof -
  assume srt: "sorted (ps @ [p])"
  let ?r = "if k < p then insort k ps @ [p] else ps @ [p, k]"
  have "sort (k # ps @ [p]) = ?r"
  proof (rule properties_for_sort)
    show "mset ?r = mset (k # ps @ [p])" by simp
    show "sorted ?r" using srt by (auto simp: sorted_append sorted_insort set_insort_key)
  qed
  moreover have "sort (k # ps @ [p]) = insort k (ps @ [p])" using srt by (simp add: sorted_sort_id)
  ultimately show "insort k (ps @ [p]) = ?r" by simp
qed

lemma shift_larger_insort:
  assumes "sorted pre" and "shift_larger key (length pre) (pre @ z # post) = (j, ys)"
  shows "ys[j := key] = insort key pre @ post"
  using assms
proof (induction pre arbitrary: z post rule: rev_induct)
  case (snoc p pre)
  show ?case
  proof (cases "key < p")
    case True
    have "shift_larger key (length pre) (pre @ p # p # post) = (j, ys)"
      using snoc.prems(2) True by (simp add: nth_append list_update_append)
    from snoc.IH [OF _ this] show ?thesis
      using snoc.prems(1) True by (simp add: insort_snoc sorted_append)
  next
    case False
    then have "j = Suc (length pre)" "ys = (pre @ [p]) @ z # post" using snoc.prems(2) by (simp_all add: nth_append)
    then show ?thesis using snoc.prems(1) False by (simp add: insort_snoc list_update_append)
  qed
qed auto

lemma insert_from_sorts:
  "sorted pre \<Longrightarrow> sorted (insert_from (length pre) (length post) (pre @ post)) \<and>
     mset (insert_from (length pre) (length post) (pre @ post)) = mset (pre @ post)"
proof (induction post arbitrary: pre)
  case (Cons z post)
  obtain j ys where sh: "shift_larger z (length pre) (pre @ z # post) = (j, ys)" by fastforce
  have "ys[j := z] = insort z pre @ post" using shift_larger_insort [OF Cons.prems sh] .
  then have run: "insert_from (length pre) (length (z # post)) (pre @ z # post) =
      insert_from (length (insort z pre)) (length post) (insort z pre @ post)"
    using sh by simp
  have "sorted (insort z pre)" using Cons.prems by (simp add: sorted_insort)
  from Cons.IH [OF this] show ?case unfolding run by simp
qed simp

lemma insertion_sort_eq: "insertion_sort xs = sort xs"
proof (cases xs)
  case (Cons x rest)
  have "sorted (insertion_sort xs)" "mset (insertion_sort xs) = mset xs"
    using insert_from_sorts [of "[x]" rest] by (simp_all add: insertion_sort_def Cons)
  then show ?thesis by (metis properties_for_sort)
qed (simp add: insertion_sort_def)

section \<open>Medians\<close>

text \<open>The middle of a sorted list, the rounded-down mean of the two middle values for an even length.\<close>

definition middle :: "int list \<Rightarrow> int" where
  "middle xs = (let n = length xs in
     if odd n then xs ! (n div 2) else (xs ! (n div 2 - 1) + xs ! (n div 2)) div 2)"

lemma half_mean: "(a :: int) div 2 + b div 2 + (a mod 2 + b mod 2) div 2 = (a + b) div 2"
  by (simp add: div_add1_eq [of a b 2])

lemma mean_u64: "in_u64 a \<Longrightarrow> in_u64 b \<Longrightarrow> ((a + b) div 2) mod 2 ^ 64 = (a + b) div 2"
  unfolding in_u64_def int_bounds by (intro mod_pos_pos_trivial; simp; linarith)

lemma mean_u128:
  assumes "in_u128 a" and "in_u128 b"
  shows "sat_u128 (sat_u128 (a div 2 + b div 2) + (a mod 2 + b mod 2) div 2) = (a + b) div 2"
proof -
  have "sat_u128 (a div 2 + b div 2) = a div 2 + b div 2"
    using assms unfolding in_u128_def sat_u128_def int_bounds by (simp; linarith)
  moreover have "sat_u128 ((a + b) div 2) = (a + b) div 2"
    using assms unfolding in_u128_def sat_u128_def int_bounds by (simp; linarith)
  ultimately show ?thesis using half_mean [of a b] by simp
qed

lemma even_mod_2: "length xs mod 2 = (if odd (length xs) then 1 else 0)"
  by presburger

lemma half_index: "xs \<noteq> [] \<Longrightarrow> length xs div 2 < length xs \<and> length xs div 2 - 1 < length xs"
  by (simp add: less_imp_diff_less)

lemma median_eq:
  assumes "xs \<noteq> []" and "\<forall>x \<in> set xs. in_u64 x"
  shows "median xs = Inr (middle (sort xs))"
proof -
  let ?s = "sort xs" and ?m = "length xs div 2"
  have in_range: "in_u64 (?s ! i)" if "i < length xs" for i
    using assms(2) that by (metis length_sort nth_mem set_sort)
  have "?m < length xs" "?m - 1 < length xs" using half_index [OF assms(1)] by simp_all
  then have "in_u64 (?s ! (?m - 1))" "in_u64 (?s ! ?m)" by (auto intro: in_range)
  then have "((?s ! (?m - 1) + ?s ! ?m) div 2) mod 2 ^ 64 = (?s ! (?m - 1) + ?s ! ?m) div 2"
    by (rule mean_u64)
  moreover have "even (length xs) \<Longrightarrow> ?m \<noteq> 0" using assms(1) by (simp add: dvd_div_eq_0_iff)
  ultimately show ?thesis
    using even_mod_2 [of xs] by (cases "odd (length xs)") (simp_all add: median_def middle_def insertion_sort_eq Let_def)
qed

lemma median_u128_eq:
  assumes "xs \<noteq> []" and "\<forall>x \<in> set xs. in_u128 x"
  shows "median_u128 xs = Inr (middle (sort xs))"
proof -
  let ?s = "sort xs" and ?m = "length xs div 2"
  have in_range: "in_u128 (?s ! i)" if "i < length xs" for i
    using assms(2) that by (metis length_sort nth_mem set_sort)
  have "?m < length xs" "?m - 1 < length xs" using half_index [OF assms(1)] by simp_all
  then have "in_u128 (?s ! (?m - 1))" "in_u128 (?s ! ?m)" by (auto intro: in_range)
  then have "sat_u128 (sat_u128 (?s ! (?m - 1) div 2 + ?s ! ?m div 2) + (?s ! (?m - 1) mod 2 + ?s ! ?m mod 2) div 2) =
      (?s ! (?m - 1) + ?s ! ?m) div 2"
    by (rule mean_u128)
  moreover have "even (length xs) \<Longrightarrow> ?m \<noteq> 0" using assms(1) by (simp add: dvd_div_eq_0_iff)
  ultimately show ?thesis
    using even_mod_2 [of xs] by (cases "odd (length xs)") (simp_all add: median_u128_def middle_def insertion_sort_eq Let_def)
qed

text \<open>At least half of the values are on either side of the middle.\<close>

lemma filter_sort_length: "length (filter P (sort xs)) = length (filter P (xs :: int list))"
proof -
  have "mset (filter P (sort xs)) = mset (filter P xs)" by (simp add: mset_filter)
  then show ?thesis by (metis size_mset)
qed

lemma sorted_counts:
  assumes "sorted (ys :: int list)" and "i < length ys"
  shows "ys ! i \<le> m \<Longrightarrow> i + 1 \<le> length (filter (\<lambda>y. y \<le> m) ys)"
    and "m \<le> ys ! i \<Longrightarrow> length ys - i \<le> length (filter (\<lambda>y. m \<le> y) ys)"
proof -
  show "i + 1 \<le> length (filter (\<lambda>y. y \<le> m) ys)" if "ys ! i \<le> m"
  proof -
    have "\<forall>y \<in> set (take (i + 1) ys). y \<le> m"
      using assms that by (auto simp: in_set_conv_nth) (metis le_trans less_Suc_eq_le sorted_nth_mono order_trans)
    then have "filter (\<lambda>y. y \<le> m) (take (i + 1) ys) = take (i + 1) ys" by (rule filter_True)
    moreover have "filter (\<lambda>y. y \<le> m) ys = filter (\<lambda>y. y \<le> m) (take (i + 1) ys) @ filter (\<lambda>y. y \<le> m) (drop (i + 1) ys)"
      by (metis append_take_drop_id filter_append)
    ultimately show ?thesis using assms(2) by simp
  qed
  show "length ys - i \<le> length (filter (\<lambda>y. m \<le> y) ys)" if "m \<le> ys ! i"
  proof -
    have "\<forall>y \<in> set (drop i ys). m \<le> y"
      using assms that by (auto simp: in_set_conv_nth) (metis add.commute le_add1 less_diff_conv order_trans sorted_nth_mono)
    then have "filter (\<lambda>y. m \<le> y) (drop i ys) = drop i ys" by (rule filter_True)
    moreover have "filter (\<lambda>y. m \<le> y) ys = filter (\<lambda>y. m \<le> y) (take i ys) @ filter (\<lambda>y. m \<le> y) (drop i ys)"
      by (metis append_take_drop_id filter_append)
    ultimately show ?thesis by simp
  qed
qed

lemma middle_halves:
  assumes "xs \<noteq> []"
  shows "length xs \<le> 2 * length (filter (\<lambda>x. x \<le> middle (sort xs)) xs)"
    and "length xs \<le> 2 * length (filter (\<lambda>x. middle (sort xs) \<le> x) xs)"
proof -
  let ?s = "sort xs" and ?m = "length xs div 2"
  have len: "?m < length ?s" "?m - 1 < length ?s" using half_index [OF assms] by simp_all
  have mono: "?s ! (?m - 1) \<le> ?s ! ?m" using len by (intro sorted_nth_mono) auto
  have low: "\<exists>i. i < length ?s \<and> ?s ! i \<le> middle ?s \<and> length xs \<le> 2 * (i + 1)"
  proof (cases "odd (length xs)")
    case True
    then show ?thesis using len by (intro exI [of _ ?m]) (auto simp: middle_def Let_def)
  next
    case False
    then show ?thesis using len mono assms by (intro exI [of _ "?m - 1"]) (auto simp: middle_def Let_def elim!: evenE)
  qed
  have high: "middle ?s \<le> ?s ! ?m" using mono by (auto simp: middle_def Let_def)
  obtain i where "i < length ?s" "?s ! i \<le> middle ?s" "length xs \<le> 2 * (i + 1)" using low by blast
  then show "length xs \<le> 2 * length (filter (\<lambda>x. x \<le> middle (sort xs)) xs)"
    using sorted_counts(1) [of ?s i "middle ?s"] by (simp add: filter_sort_length)
  show "length xs \<le> 2 * length (filter (\<lambda>x. middle (sort xs) \<le> x) xs)"
    using sorted_counts(2) [of ?s ?m, OF _ len(1) high] by (simp add: filter_sort_length)
qed

text \<open>A majority of values within bounds keeps the middle within them.\<close>

lemma middle_robust:
  assumes "length xs < 2 * length (filter (\<lambda>x. lo \<le> x \<and> x \<le> hi) xs)"
  shows "lo \<le> middle (sort xs) \<and> middle (sort xs) \<le> hi"
proof -
  let ?m = "middle (sort xs)"
  have ne: "xs \<noteq> []" using assms by auto
  have split: "length (filter P xs) + length (filter (\<lambda>x. \<not> P x) xs) = length xs" for P
    by (rule sum_length_filter_compl)
  have sub: "length (filter P xs) \<le> length (filter Q xs)" if "\<And>x. P x \<Longrightarrow> Q x" for P Q
    using that by (induction xs) auto
  have "lo \<le> ?m"
  proof (rule ccontr)
    assume "\<not> lo \<le> ?m"
    then have "length (filter (\<lambda>x. x \<le> ?m) xs) \<le> length (filter (\<lambda>x. \<not> (lo \<le> x \<and> x \<le> hi)) xs)" by (intro sub) auto
    then show False using middle_halves(1) [OF ne] split [of "\<lambda>x. lo \<le> x \<and> x \<le> hi"] assms by linarith
  qed
  moreover have "?m \<le> hi"
  proof (rule ccontr)
    assume "\<not> ?m \<le> hi"
    then have "length (filter (\<lambda>x. ?m \<le> x) xs) \<le> length (filter (\<lambda>x. \<not> (lo \<le> x \<and> x \<le> hi)) xs)" by (intro sub) auto
    then show False using middle_halves(2) [OF ne] split [of "\<lambda>x. lo \<le> x \<and> x \<le> hi"] assms by linarith
  qed
  ultimately show ?thesis ..
qed

text \<open>
  C35.  On every non-empty list of prices of their width both medians return the
  middle of the sorted prices, for an even number the rounded-down mean of the two
  middle ones, with no overflow; and as long as more than half of the prices lie
  within some bounds, so does the result, whatever the others are.
\<close>

theorem median_correct:
  assumes "xs \<noteq> []"
  shows "((\<forall>x \<in> set xs. in_u64 x) \<longrightarrow> median xs = Inr (middle (sort xs))) \<and>
     ((\<forall>x \<in> set xs. in_u128 x) \<longrightarrow> median_u128 xs = Inr (middle (sort xs))) \<and>
     (\<forall>lo hi. length xs < 2 * length (filter (\<lambda>x. lo \<le> x \<and> x \<le> hi) xs) \<longrightarrow>
        lo \<le> middle (sort xs) \<and> middle (sort xs) \<le> hi)"
  using median_eq [OF assms] median_u128_eq [OF assms] middle_robust by blast

theorem median_correct_witness:
  "median [9, 1000000, 7, 8] = Inr 8 \<and> median_u128 [2 ^ 128 - 1, 3, 2 ^ 128 - 1] = Inr (2 ^ 128 - 1)"
proof -
  have "sort [9, 1000000, 7, 8 :: int] = [7, 8, 9, 1000000]"
    "sort [2 ^ 128 - 1, 3, 2 ^ 128 - 1 :: int] = [3, 2 ^ 128 - 1, 2 ^ 128 - 1]" by simp_all
  then show ?thesis
    using median_correct [of "[9, 1000000, 7, 8]"] median_correct [of "[2 ^ 128 - 1, 3, 2 ^ 128 - 1]"]
    by (simp add: middle_def Let_def in_u64_def in_u128_def int_bounds)
qed

end
