(* ===== verification/Oracle_Twap.thy ===== *)
theory Oracle_Twap
  imports Oracle_Price
begin

text \<open>
  What \<^verbatim>\<open>calculate_twap\<close> computes: the average price over the seconds before now at
  which some observation is valid.  An observation is valid from its timestamp until
  the next one, but not longer than the staleness limit.
\<close>

section \<open>The price at a second\<close>

definition price_at :: "int \<Rightarrow> price_observation list \<Rightarrow> int \<Rightarrow> int option" where
  "price_at max_staleness obs t =
     (let past = filter (\<lambda>ob. po_timestamp ob \<le> t) obs in
      if past \<noteq> [] \<and> t < po_timestamp (last past) + max_staleness then Some (po_price (last past)) else None)"

definition priced_seconds :: "int \<Rightarrow> int \<Rightarrow> price_observation list \<Rightarrow> int set" where
  "priced_seconds now max_staleness obs = {t. t < now \<and> price_at max_staleness obs t \<noteq> None}"

definition time_average :: "int \<Rightarrow> int \<Rightarrow> price_observation list \<Rightarrow> int" where
  "time_average now max_staleness obs =
     (\<Sum>t \<in> priced_seconds now max_staleness obs. the (price_at max_staleness obs t)) div
     int (card (priced_seconds now max_staleness obs))"

text \<open>What a history of observations satisfies: increasing times and prices of 64 bits.\<close>

definition obs_ok :: "price_observation list \<Rightarrow> bool" where
  "obs_ok obs \<longleftrightarrow> sorted_wrt (<) (map po_timestamp obs) \<and> (\<forall>ob \<in> set obs. in_u64 (po_timestamp ob) \<and> in_u64 (po_price ob))"

lemma obs_ok_Cons: "obs_ok (ob # rest) \<longleftrightarrow> in_u64 (po_timestamp ob) \<and> in_u64 (po_price ob) \<and>
    (\<forall>nx \<in> set rest. po_timestamp ob < po_timestamp nx) \<and> obs_ok rest"
  by (auto simp: obs_ok_def)

lemma obs_ok_drop: "obs_ok obs \<Longrightarrow> obs_ok (drop n obs)"
  by (auto simp: obs_ok_def drop_map [symmetric] sorted_wrt_drop dest: in_set_dropD)

definition next_time :: "int \<Rightarrow> price_observation list \<Rightarrow> int" where
  "next_time now rest = (case rest of [] \<Rightarrow> now | nx # _ \<Rightarrow> po_timestamp nx)"

lemma valid_duration_eq:
  assumes "in_u64 now" and "in_u64 max_staleness" and "in_u64 (po_timestamp ob)"
  shows "valid_duration now max_staleness ob rest =
     max 0 (min (min (next_time now rest) now) (po_timestamp ob + max_staleness) - po_timestamp ob)"
proof -
  have "min (min n now) (sat_u64 (po_timestamp ob + max_staleness)) = min (min n now) (po_timestamp ob + max_staleness)" for n
    using assms by (auto simp: sat_u64_def in_u64_def)
  moreover have "sat_u64 (min (min n now) x - po_timestamp ob) = max 0 (min (min n now) x - po_timestamp ob)" for n x
    using assms(1,3) by (auto simp: sat_u64_def in_u64_def)
  ultimately show ?thesis by (simp add: valid_duration_def next_time_def Let_def)
qed

lemma price_at_Cons:
  assumes "obs_ok (ob # rest)"
  shows "price_at ms (ob # rest) t =
     (if \<exists>nx \<in> set rest. po_timestamp nx \<le> t then price_at ms rest t
      else if po_timestamp ob \<le> t \<and> t < po_timestamp ob + ms then Some (po_price ob) else None)"
proof (cases "\<exists>nx \<in> set rest. po_timestamp nx \<le> t")
  case True
  then have "filter (\<lambda>ob. po_timestamp ob \<le> t) rest \<noteq> []" by (auto simp: filter_empty_conv)
  then show ?thesis using True by (simp add: price_at_def Let_def)
next
  case False
  then have "filter (\<lambda>ob. po_timestamp ob \<le> t) rest = []" by (auto simp: filter_empty_conv)
  then show ?thesis using False by (simp add: price_at_def Let_def)
qed

lemma price_at_late: "price_at ms rest t \<noteq> None \<Longrightarrow> \<exists>nx \<in> set rest. po_timestamp nx \<le> t"
  by (auto simp: price_at_def Let_def filter_empty_conv split: if_splits)

lemma before_next:
  assumes "obs_ok rest" and "t < now"
  shows "(\<exists>nx \<in> set rest. po_timestamp nx \<le> t) \<longleftrightarrow> next_time now rest \<le> t"
  using assms by (cases rest) (auto simp: next_time_def obs_ok_Cons)

lemma priced_Cons:
  assumes "obs_ok (ob # rest)" and "in_u64 now" and "in_u64 ms"
  defines "d \<equiv> valid_duration now ms ob rest"
  shows "priced_seconds now ms (ob # rest) = {po_timestamp ob ..< po_timestamp ob + d} \<union> priced_seconds now ms rest"
    and "{po_timestamp ob ..< po_timestamp ob + d} \<inter> priced_seconds now ms rest = {}"
    and "t \<in> {po_timestamp ob ..< po_timestamp ob + d} \<Longrightarrow> price_at ms (ob # rest) t = Some (po_price ob)"
    and "t \<in> priced_seconds now ms rest \<Longrightarrow> price_at ms (ob # rest) t = price_at ms rest t"
proof -
  have ok: "obs_ok rest" and ts: "in_u64 (po_timestamp ob)" using assms(1) by (auto simp: obs_ok_Cons)
  have d: "t < po_timestamp ob + d \<and> po_timestamp ob \<le> t \<longleftrightarrow>
      po_timestamp ob \<le> t \<and> t < next_time now rest \<and> t < now \<and> t < po_timestamp ob + ms" for t
    unfolding d_def valid_duration_eq [OF assms(2,3) ts] by auto
  have at: "price_at ms (ob # rest) t = (if next_time now rest \<le> t then price_at ms rest t
      else if po_timestamp ob \<le> t \<and> t < po_timestamp ob + ms then Some (po_price ob) else None)" if "t < now" for t
    using price_at_Cons [OF assms(1)] before_next [OF ok that] by simp
  have late: "next_time now rest \<le> t" if "t < now" "price_at ms rest t \<noteq> None" for t
    using before_next [OF ok that(1)] price_at_late [OF that(2)] by simp
  show "priced_seconds now ms (ob # rest) = {po_timestamp ob ..< po_timestamp ob + d} \<union> priced_seconds now ms rest"
  proof (intro set_eqI iffI)
    fix t assume "t \<in> priced_seconds now ms (ob # rest)"
    then have "t < now" "price_at ms (ob # rest) t \<noteq> None" by (simp_all add: priced_seconds_def)
    then show "t \<in> {po_timestamp ob ..< po_timestamp ob + d} \<union> priced_seconds now ms rest"
      using at [of t] d [of t] by (auto simp: priced_seconds_def split: if_splits)
  next
    fix t assume "t \<in> {po_timestamp ob ..< po_timestamp ob + d} \<union> priced_seconds now ms rest"
    then consider "po_timestamp ob \<le> t" "t < next_time now rest" "t < now" "t < po_timestamp ob + ms"
      | "t < now" "price_at ms rest t \<noteq> None" using d [of t] by (auto simp: priced_seconds_def)
    then show "t \<in> priced_seconds now ms (ob # rest)"
      using at [of t] late [of t] by cases (simp_all add: priced_seconds_def)
  qed
  show "{po_timestamp ob ..< po_timestamp ob + d} \<inter> priced_seconds now ms rest = {}"
  proof (rule equals0I)
    fix t assume "t \<in> {po_timestamp ob ..< po_timestamp ob + d} \<inter> priced_seconds now ms rest"
    then show False using d [of t] late [of t] by (simp add: priced_seconds_def)
  qed
  show "t \<in> {po_timestamp ob ..< po_timestamp ob + d} \<Longrightarrow> price_at ms (ob # rest) t = Some (po_price ob)"
    using d [of t] at [of t] by simp
  show "t \<in> priced_seconds now ms rest \<Longrightarrow> price_at ms (ob # rest) t = price_at ms rest t"
    using at [of t] late [of t] by (simp add: priced_seconds_def)
qed

lemma priced_bounded: "obs_ok obs \<Longrightarrow> priced_seconds now ms obs \<subseteq> {0 ..< now}"
  using price_at_late by (fastforce simp: priced_seconds_def obs_ok_def in_u64_def)

lemma priced_finite [simp]: "obs_ok obs \<Longrightarrow> finite (priced_seconds now ms obs)"
  by (rule finite_subset [OF priced_bounded]) simp_all

section \<open>The sums\<close>

definition price_sum :: "int \<Rightarrow> int \<Rightarrow> price_observation list \<Rightarrow> int" where
  "price_sum now ms obs = (\<Sum>t \<in> priced_seconds now ms obs. the (price_at ms obs t))"

lemma sums_Cons:
  assumes "obs_ok (ob # rest)" and "in_u64 now" and "in_u64 ms"
  shows "price_sum now ms (ob # rest) = po_price ob * valid_duration now ms ob rest + price_sum now ms rest"
    and "int (card (priced_seconds now ms (ob # rest))) = valid_duration now ms ob rest + int (card (priced_seconds now ms rest))"
proof -
  let ?d = "valid_duration now ms ob rest"
  let ?I = "{po_timestamp ob ..< po_timestamp ob + ?d}" and ?R = "priced_seconds now ms rest"
  note p = priced_Cons [OF assms]
  have ok: "obs_ok rest" using assms(1) by (simp add: obs_ok_Cons)
  have d: "0 \<le> ?d" by (simp add: valid_duration_def Let_def)
  have "price_sum now ms (ob # rest) = (\<Sum>t \<in> ?I. the (price_at ms (ob # rest) t)) + (\<Sum>t \<in> ?R. the (price_at ms (ob # rest) t))"
    unfolding price_sum_def p(1) using ok p(2) by (intro sum.union_disjoint) simp_all
  also have "(\<Sum>t \<in> ?I. the (price_at ms (ob # rest) t)) = (\<Sum>t \<in> ?I. po_price ob)"
    using p(3) by (intro sum.cong) simp_all
  also have "(\<Sum>t \<in> ?R. the (price_at ms (ob # rest) t)) = price_sum now ms rest"
    unfolding price_sum_def using p(4) by (intro sum.cong) simp_all
  finally show "price_sum now ms (ob # rest) = po_price ob * ?d + price_sum now ms rest" using d by simp
  have "card (priced_seconds now ms (ob # rest)) = card ?I + card ?R"
    unfolding p(1) using ok p(2) by (intro card_Un_disjoint) simp_all
  then show "int (card (priced_seconds now ms (ob # rest))) = ?d + int (card ?R)" using d by simp
qed

text \<open>With the averages bounded by 64 bits, no check of the loop fails.\<close>

lemma twap_sums_eq:
  assumes "obs_ok obs" and "in_u64 now" and "in_u64 ms" and "0 \<le> w" and "w \<le> u64_max * d" and "0 \<le> d"
    and "d + int (card (priced_seconds now ms obs)) \<le> u64_max"
  shows "twap_sums now ms obs (w, d) = Inr (w + price_sum now ms obs, d + int (card (priced_seconds now ms obs)))"
  using assms(1,4-7)
proof (induction obs arbitrary: w d)
  case Nil
  then show ?case by (simp add: price_sum_def priced_seconds_def price_at_def)
next
  case (Cons ob rest)
  let ?d = "valid_duration now ms ob rest"
  note sums = sums_Cons [OF Cons.prems(1) assms(2,3)]
  have ok: "obs_ok rest" and p: "0 \<le> po_price ob" "po_price ob \<le> u64_max"
    using Cons.prems(1) by (auto simp: obs_ok_Cons in_u64_def)
  have d: "0 \<le> ?d" by (simp add: valid_duration_def Let_def)
  have x: "0 \<le> po_price ob * ?d" "po_price ob * ?d \<le> u64_max * ?d" using p d by (simp_all add: mult_right_mono)
  have w': "w + po_price ob * ?d \<le> u64_max * (d + ?d)" using x(2) Cons.prems(3) by (simp add: algebra_simps)
  have tot: "d + ?d + int (card (priced_seconds now ms rest)) \<le> u64_max" using Cons.prems(5) sums(2) by linarith
  then have small: "d + ?d \<le> u64_max" by linarith
  have sq: "u64_max * (d + ?d) \<le> u64_max * u64_max" using small by (intro mult_left_mono) (auto simp: int_bounds)
  have "u64_max * u64_max \<le> u128_max" by (simp add: int_bounds)
  then have fits: "in_u128 (po_price ob * ?d)" "in_u128 (w + po_price ob * ?d)" "in_u64 (d + ?d)"
    using x w' sq d small Cons.prems(2,4) by (auto simp: in_u128_def in_u64_def)
  have "twap_sums now ms (ob # rest) (w, d) = twap_sums now ms rest (w + po_price ob * ?d, d + ?d)"
    using fits by (simp add: Let_def checked_u128_def checked_u64_def)
  also have "\<dots> = Inr (w + po_price ob * ?d + price_sum now ms rest, d + ?d + int (card (priced_seconds now ms rest)))"
    using Cons.IH [OF ok _ w' _ tot] Cons.prems(2,4) x(1) d by simp
  finally show ?case unfolding sums by (simp only: add.assoc)
qed

text \<open>Bounds of the observations bound the average.\<close>

lemma price_sum_bounds:
  assumes "\<forall>ob \<in> set obs. lo \<le> po_price ob \<and> po_price ob \<le> hi"
  shows "lo * int (card (priced_seconds now ms obs)) \<le> price_sum now ms obs"
    and "price_sum now ms obs \<le> hi * int (card (priced_seconds now ms obs))"
proof -
  have "lo \<le> the (price_at ms obs t) \<and> the (price_at ms obs t) \<le> hi" if "t \<in> priced_seconds now ms obs" for t
  proof -
    let ?past = "filter (\<lambda>ob. po_timestamp ob \<le> t) obs"
    have "?past \<noteq> []" "price_at ms obs t = Some (po_price (last ?past))"
      using that by (auto simp: priced_seconds_def price_at_def Let_def split: if_splits)
    moreover have "last ?past \<in> set obs" using last_in_set [OF \<open>?past \<noteq> []\<close>] by auto
    ultimately show ?thesis using assms by auto
  qed
  then show "lo * int (card (priced_seconds now ms obs)) \<le> price_sum now ms obs"
    "price_sum now ms obs \<le> hi * int (card (priced_seconds now ms obs))"
    unfolding price_sum_def using sum_bounded_below [of "priced_seconds now ms obs" lo] sum_bounded_above [of "priced_seconds now ms obs" _ hi]
    by (simp_all add: mult.commute)
qed

lemma average_bounds:
  assumes "obs_ok obs" and "priced_seconds now ms obs \<noteq> {}" and "\<forall>ob \<in> set obs. lo \<le> po_price ob \<and> po_price ob \<le> hi"
  shows "lo \<le> time_average now ms obs \<and> time_average now ms obs \<le> hi"
proof -
  have c: "0 < int (card (priced_seconds now ms obs))" using assms(1,2) by (simp add: card_gt_0_iff)
  show ?thesis
    unfolding time_average_def price_sum_def [symmetric]
    using price_sum_bounds [OF assms(3), of now ms] c
    by (metis mult.commute nonzero_mult_div_cancel_right order_less_irrefl zdiv_mono1)
qed

lemma calculate_twap_eq:
  fixes e :: "'w env"
  assumes "obs_ok (observations s)" and "in_u64 (timestamp e)" and "in_u64 ms"
    and used_def: "used = drop (length (observations s) - nat k) (observations s)"
  shows "calculate_twap e k ms s =
     (if priced_seconds (timestamp e) ms used = {} then Inl (Err NoPriceAvailable) else Inr (time_average (timestamp e) ms used))"
proof (cases "observations s = []")
  case True
  then have "priced_seconds (timestamp e) ms used = {}" by (simp add: used_def priced_seconds_def price_at_def)
  then show ?thesis using True by (simp add: calculate_twap_def)
next
  case False
  have ok: "obs_ok used" unfolding used_def using assms(1) by (rule obs_ok_drop)
  let ?T = "priced_seconds (timestamp e) ms used"
  have "card ?T \<le> card {0 ..< timestamp e}" using priced_bounded [OF ok] by (intro card_mono) simp_all
  then have "card ?T \<le> nat (timestamp e)" by simp
  then have c: "int (card ?T) \<le> u64_max" using assms(2) unfolding in_u64_def by linarith
  have sums: "twap_sums (timestamp e) ms used (0, 0) = Inr (price_sum (timestamp e) ms used, int (card ?T))"
    using twap_sums_eq [OF ok assms(2,3), of 0 0] c by simp
  have "\<forall>ob \<in> set used. 0 \<le> po_price ob \<and> po_price ob \<le> u64_max" using ok by (auto simp: obs_ok_def in_u64_def)
  then have "?T \<noteq> {} \<Longrightarrow> \<not> u64_max < time_average (timestamp e) ms used" using average_bounds [OF ok] by (metis not_less)
  moreover have "int (card ?T) = 0 \<longleftrightarrow> ?T = {}" using ok by simp
  ultimately show ?thesis
    using False sums by (simp add: calculate_twap_def Let_def used_def [symmetric] time_average_def price_sum_def [symmetric])
qed

text \<open>
  For every history of observations in order, \<^verbatim>\<open>calculate_twap\<close> returns the average
  price over all seconds before now at which one of the last \<open>k\<close> observations was
  valid, rounded down, and reports no price exactly when there is no such second; no
  intermediate sum overflows, and the result lies between the least and the greatest
  of the observations used.
\<close>

theorem twap_is_time_average:
  fixes e :: "'w env"
  assumes "obs_ok (observations s)" and "in_u64 (timestamp e)" and "in_u64 ms"
    and "used = drop (length (observations s) - nat k) (observations s)"
  shows "calculate_twap e k ms s =
       (if priced_seconds (timestamp e) ms used = {} then Inl (Err NoPriceAvailable)
        else Inr ((\<Sum>t \<in> priced_seconds (timestamp e) ms used. the (price_at ms used t)) div
                  int (card (priced_seconds (timestamp e) ms used)))) \<and>
     (\<forall>price lo hi. calculate_twap e k ms s = Inr price \<longrightarrow> (\<forall>ob \<in> set used. lo \<le> po_price ob \<and> po_price ob \<le> hi) \<longrightarrow>
        lo \<le> price \<and> price \<le> hi)"
proof -
  have ok: "obs_ok used" using obs_ok_drop [OF assms(1)] by (simp add: assms(4))
  note eq = calculate_twap_eq [OF assms]
  have "lo \<le> price \<and> price \<le> hi" if "calculate_twap e k ms s = Inr price" "\<forall>ob \<in> set used. lo \<le> po_price ob \<and> po_price ob \<le> hi" for price lo hi
    using that(1) average_bounds [OF ok _ that(2), of "timestamp e" ms] unfolding eq by (auto split: if_splits)
  then show ?thesis using eq unfolding time_average_def by blast
qed

definition two_prices :: twap_oracle where
  "two_prices = (fresh_oracle [])\<lparr>ok_PriceObservations :=
     Some [\<lparr>po_price = 10, po_timestamp = 100\<rparr>, \<lparr>po_price = 20, po_timestamp = 110\<rparr>]\<rparr>"

definition oracle_env :: "int \<Rightarrow> ledger env" where
  "oracle_env now = \<lparr>timestamp = now, sequence = now, contract_address = ''O'', authorized = (\<lambda>_. True), tokens = ledger_token\<rparr>"

lemma oracle_env_simps [simp]:
  "timestamp (oracle_env now) = now" "contract_address (oracle_env now) = ''O''" "authorized (oracle_env now) a"
  by (simp_all add: oracle_env_def)

theorem twap_is_time_average_witness:
  "calculate_twap (oracle_env 130) 32 15 two_prices = Inr 16 \<and>
   (\<Sum>t \<in> priced_seconds 130 15 (observations two_prices). the (price_at 15 (observations two_prices) t)) div
     int (card (priced_seconds 130 15 (observations two_prices))) = 16"
proof -
  have obs: "observations two_prices = [\<lparr>po_price = 10, po_timestamp = 100\<rparr>, \<lparr>po_price = 20, po_timestamp = 110\<rparr>]"
    by (simp add: observations_def two_prices_def)
  have run: "calculate_twap (oracle_env 130) 32 15 two_prices = Inr 16"
    by (simp add: calculate_twap_def obs valid_duration_def sat_u64_def checked_u128_def checked_u64_def in_u128_def in_u64_def
        int_bounds Let_def)
  have "obs_ok (observations two_prices)" by (simp add: obs obs_ok_def in_u64_def int_bounds)
  from twap_is_time_average [OF this, of "oracle_env 130" 15 "observations two_prices" 32] run show ?thesis
    by (simp add: in_u64_def int_bounds obs split: if_splits)
qed

end
