(* ===== verification/Oracle_History.thy ===== *)
theory Oracle_History
  imports Oracle_Twap
begin

text \<open>
  What holds of an oracle over any history of calls: there is always an
  administrator, the configuration is usable, the roster lists exactly the feeders
  with a submission, the history of observations is bounded and in order, and the
  guard is free between calls.
\<close>

section \<open>Calls\<close>

datatype oracle_call =
    OInitialize address
  | OGrantRoleWithExpiration address oracle_role address "int option"
  | OGrantRole address oracle_role address
  | ORevokeRole address oracle_role address
  | OPurgeSubmitter address address
  | OTransferAdmin address address
  | OConfigure address oracle_config
  | OUpdateConfig address oracle_config_update
  | OSubmitPrice address int
  | OGetTwapPrice
  | OGetTwapPriceFor int
  | OGetPriceWithFallback
  | OPayout int
  | OSetFeeds address address "address option"
  | OSetPrimary address address
  | OSetFallback address address
  | OSetMaxStaleness address int
  | OSetAssetConfig address address asset_oracle_config
  | OSetMaxDeviation address int
  | OSetPrice address address address int
  | OSetPriceSymbol address string string int
  | OPause address
  | OUnpause address
  | OUpgrade address wasm_hash

definition state_only :: "('e, 'a \<times> 's) res \<Rightarrow> ('e, 's) res" where
  "state_only r = and_then r (\<lambda>(_, s). Inr s)"

lemma state_only_eq_Inr [res_simps]: "state_only r = Inr s \<longleftrightarrow> (\<exists>x. r = Inr (x, s))"
  by (cases r) (auto simp: state_only_def)

fun oracle_exec :: "'w env \<Rightarrow> feeds \<Rightarrow> oracle_call \<Rightarrow> twap_oracle \<Rightarrow> (oracle_error, twap_oracle) res" where
  "oracle_exec e fd (OInitialize a) s = oracle_initialize e a s"
| "oracle_exec e fd (OGrantRoleWithExpiration a r b x) s = oracle_grant_role_with_expiration e a r b x s"
| "oracle_exec e fd (OGrantRole a r b) s = oracle_grant_role e a r b s"
| "oracle_exec e fd (ORevokeRole a r b) s = oracle_revoke_role e a r b s"
| "oracle_exec e fd (OPurgeSubmitter a b) s = purge_submitter e a b s"
| "oracle_exec e fd (OTransferAdmin a b) s = transfer_admin e a b s"
| "oracle_exec e fd (OConfigure a c) s = configure_oracle e a c s"
| "oracle_exec e fd (OUpdateConfig a u) s = update_oracle_config e a u s"
| "oracle_exec e fd (OSubmitPrice a p) s = submit_price e a p s"
| "oracle_exec e fd OGetTwapPrice s = state_only (get_twap_price e fd s)"
| "oracle_exec e fd (OGetTwapPriceFor n) s = state_only (get_twap_price_for_observations e fd n s)"
| "oracle_exec e fd OGetPriceWithFallback s = state_only (get_price_with_fallback e fd s)"
| "oracle_exec e fd (OPayout n) s = state_only (calculate_fiat_stream_payout e fd n s)"
| "oracle_exec e fd (OSetFeeds a p f) s = set_oracle_feeds e a p f s"
| "oracle_exec e fd (OSetPrimary a p) s = set_primary_oracle e a p s"
| "oracle_exec e fd (OSetFallback a f) s = set_fallback_oracle e a f s"
| "oracle_exec e fd (OSetMaxStaleness a n) s = set_max_staleness_seconds e a n s"
| "oracle_exec e fd (OSetAssetConfig a t c) s = set_asset_oracle_config e a t c s"
| "oracle_exec e fd (OSetMaxDeviation a n) s = set_max_deviation_bps e a n s"
| "oracle_exec e fd (OSetPrice a b q p) s = set_price e a b q p s"
| "oracle_exec e fd (OSetPriceSymbol a b q p) s = set_price_symbol e a b q p s"
| "oracle_exec e fd (OPause a) s = oracle_pause e a s"
| "oracle_exec e fd (OUnpause a) s = oracle_unpause e a s"
| "oracle_exec e fd (OUpgrade a h) s = oracle_upgrade e a h s"

section \<open>The invariant\<close>

definition price_ok :: "price_data \<Rightarrow> bool" where
  "price_ok d \<longleftrightarrow> 0 < pd_price d \<and> pd_price d \<le> u64_max \<and> in_u64 (pd_updated_at d)"

definition config_ok :: "oracle_config \<Rightarrow> bool" where
  "config_ok c \<longleftrightarrow> 0 \<le> oc_decimals c \<and> oc_decimals c \<le> 19 \<and> 0 < oc_max_staleness c \<and> oc_max_staleness c \<le> u64_max \<and>
     0 < oc_min_submitters c \<and> oc_min_submitters c \<le> MAX_SUBMITTERS"

definition feeders_ok :: "address list \<Rightarrow> (address \<Rightarrow> price_data option) \<Rightarrow> bool" where
  "feeders_ok roster sub \<longleftrightarrow> distinct roster \<and> int (length roster) \<le> MAX_SUBMITTERS \<and>
     (\<forall>a. sub a \<noteq> None \<longleftrightarrow> a \<in> set roster) \<and> (\<forall>a d. sub a = Some d \<longrightarrow> price_ok d)"

definition history_ok :: "price_observation list \<Rightarrow> bool" where
  "history_ok obs \<longleftrightarrow> obs_ok obs \<and> int (length obs) \<le> MAX_TWAP_OBSERVATIONS \<and> (\<forall>ob \<in> set obs. 0 < po_price ob)"

definition reporters_ok :: "('k \<Rightarrow> address list option) \<Rightarrow> bool" where
  "reporters_ok rep \<longleftrightarrow> (\<forall>k xs. rep k = Some xs \<longrightarrow> distinct xs \<and> int (length xs) \<le> MAX_PAIR_REPORTERS)"

definition reports_ok :: "('k \<Rightarrow> pair_price_data option) \<Rightarrow> bool" where
  "reports_ok rep \<longleftrightarrow> (\<forall>k d. rep k = Some d \<longrightarrow> 0 < pp_price d \<and> pp_price d \<le> u128_max)"

definition oracle_ok :: "twap_oracle \<Rightarrow> bool" where
  "oracle_ok s \<longleftrightarrow> standing Admin (ok_roles s) \<and> (ok_Admin s \<noteq> None \<longrightarrow> has_admin Admin (ok_roles s)) \<and>
     (\<forall>c. ok_Config s = Some c \<longrightarrow> config_ok c) \<and> (\<forall>d. ok_Price s = Some d \<longrightarrow> price_ok d) \<and>
     feeders_ok (submitters s) (ok_Submission s) \<and> history_ok (observations s) \<and>
     reporters_ok (ok_PairReporters s) \<and> reports_ok (ok_PairSubmission s) \<and>
     reporters_ok (ok_PairSymbolReporters s) \<and> reports_ok (ok_PairSymbolSubmission s)"

definition oracle_depth :: "twap_oracle \<Rightarrow> int" where
  "oracle_depth s = (case ok_Lock s of Some n \<Rightarrow> n | None \<Rightarrow> 0)"

lemma lists_update [simp]:
  "submitters (s\<lparr>ok_Submitters := Some xs\<rparr>) = xs" "submitters (s\<lparr>ok_Submitters := None\<rparr>) = []"
  "observations (s\<lparr>ok_PriceObservations := Some obs\<rparr>) = obs" "observations (s\<lparr>ok_PriceObservations := None\<rparr>) = []"
  by (simp_all add: submitters_def observations_def)

lemma oracle_ok_simps [simp]:
  "oracle_ok (s\<lparr>or_ttl := l\<rparr>) \<longleftrightarrow> oracle_ok s" "oracle_ok (s\<lparr>or_events := v\<rparr>) \<longleftrightarrow> oracle_ok s"
  "oracle_ok (s\<lparr>ok_Paused := p\<rparr>) \<longleftrightarrow> oracle_ok s" "oracle_ok (s\<lparr>or_code := k\<rparr>) \<longleftrightarrow> oracle_ok s"
  "oracle_ok (s\<lparr>ok_Lock := n\<rparr>) \<longleftrightarrow> oracle_ok s" "oracle_ok (s\<lparr>ok_QuoteCurrency := q\<rparr>) \<longleftrightarrow> oracle_ok s"
  "oracle_ok (s\<lparr>ok_PairPrice := pp\<rparr>) \<longleftrightarrow> oracle_ok s" "oracle_ok (s\<lparr>ok_PairPriceSymbol := ps\<rparr>) \<longleftrightarrow> oracle_ok s"
  "oracle_ok (s\<lparr>ok_MaxStalenessSeconds := ms\<rparr>) \<longleftrightarrow> oracle_ok s" "oracle_ok (s\<lparr>ok_MaxDeviationBps := md\<rparr>) \<longleftrightarrow> oracle_ok s"
  "oracle_ok (s\<lparr>ok_PrimaryOracle := a\<rparr>) \<longleftrightarrow> oracle_ok s" "oracle_ok (s\<lparr>ok_FallbackOracle := a\<rparr>) \<longleftrightarrow> oracle_ok s"
  "oracle_ok (s\<lparr>ok_AssetOracleConfig := ac\<rparr>) \<longleftrightarrow> oracle_ok s"
  "oracle_ok (oracle_bump s) \<longleftrightarrow> oracle_ok s" "oracle_ok (oracle_emit ev s) \<longleftrightarrow> oracle_ok s"
  "oracle_ok (oracle_emit_if b ev s) \<longleftrightarrow> oracle_ok s"
  "oracle_ok (oracle_unlock s) \<longleftrightarrow> oracle_ok s"
  by (simp_all add: oracle_ok_def submitters_def observations_def oracle_bump_def oracle_emit_def oracle_emit_if_def
      oracle_unlock_def Let_def)

lemma oracle_set_paused_frame: "oracle_set_paused e b s = Inr s' \<Longrightarrow> \<exists>slot. s' = s\<lparr>ok_Paused := slot\<rparr>"
  by (auto simp: oracle_set_paused_def and_then_eq_Inr)

lemma oracle_depth_simps [simp]:
  "oracle_depth (s\<lparr>or_ttl := l\<rparr>) = oracle_depth s" "oracle_depth (oracle_bump s) = oracle_depth s"
  "oracle_depth (oracle_emit ev s) = oracle_depth s" "oracle_depth (oracle_emit_if b ev s) = oracle_depth s"
  "oracle_depth (s\<lparr>ok_Paused := p\<rparr>) = oracle_depth s"
  "oracle_depth (s\<lparr>ok_Lock := n\<rparr>) = (case n of Some d \<Rightarrow> d | None \<Rightarrow> 0)"
  by (simp_all add: oracle_depth_def oracle_bump_def oracle_emit_def oracle_emit_if_def)

section \<open>Helpers\<close>

lemma oracle_renew_success: "oracle_renew k s = Inr s' \<longleftrightarrow> ok_present s k \<and> (\<exists>l. s' = s\<lparr>or_ttl := l\<rparr> \<and> bump_persistent (ok_present s) k (or_ttl s) = (Inr l :: (oracle_error, _) res))"
  by (auto simp: oracle_renew_def and_then_eq_Inr bump_persistent_def split: if_splits)

lemma oracle_renew_frame: "oracle_renew k s = Inr s' \<Longrightarrow> \<exists>l. s' = s\<lparr>or_ttl := l\<rparr>"
  by (auto simp: oracle_renew_success)

lemma not_paused_frame: "oracle_require_not_paused e s = Inr s' \<Longrightarrow> \<exists>p. s' = s\<lparr>ok_Paused := p\<rparr>"
  by (auto simp: oracle_require_not_paused_def and_then_eq_Inr)

lemma require_role_or_admin_success:
  "oracle_require_role_or_admin e caller r s = Inr u \<longleftrightarrow>
     authorized e caller \<and> (oracle_has_role e Admin caller s \<or> oracle_has_role e r caller s)"
  by (auto simp: oracle_require_role_or_admin_def require_role_or_admin_def oracle_has_role_def res_simps)

lemma oracle_require_role_success:
  "oracle_require_role e caller r s = Inr u \<longleftrightarrow> authorized e caller \<and> oracle_has_role e r caller s"
  by (auto simp: oracle_require_role_def res_simps)

interpretation oracle_guard: reentrancy_guard oracle_depth oracle_lock oracle_unlock ORACLE_REENTRANCY_DEPTH
  by unfold_locales
    (auto simp: oracle_depth_def oracle_lock_def oracle_unlock_def ORACLE_REENTRANCY_DEPTH_def Let_def plain_u32_def in_u32_def
      int_bounds split: option.splits if_splits)

lemma oracle_with_guard_eq: "oracle_with_guard f s = oracle_guard.guarded f s"
  by (simp add: oracle_with_guard_def oracle_guard.guarded_def)

lemma oracle_lock_frame: "oracle_lock s = Inr s' \<Longrightarrow> \<exists>n. s' = s\<lparr>ok_Lock := Some n\<rparr>"
  by (auto simp: oracle_lock_def Let_def and_then_eq_Inr split: if_splits)

lemma with_guard_ok:
  assumes "oracle_with_guard f s = Inr (r, s')" and "oracle_ok s" and "0 \<le> oracle_depth s"
    and "\<And>s1 s2 r. f s1 = Inr (r, s2) \<Longrightarrow> oracle_ok s1 \<Longrightarrow> oracle_ok s2"
    and "\<And>s1 s2 r. f s1 = Inr (r, s2) \<Longrightarrow> oracle_depth s2 = oracle_depth s1"
  shows "oracle_ok s' \<and> oracle_depth s' = oracle_depth s"
proof
  have g: "oracle_guard.guarded f s = Inr (r, s')" using assms(1) by (simp add: oracle_with_guard_eq)
  then obtain s1 s2 where "oracle_lock s = Inr s1" "f s1 = Inr (r, s2)" "s' = oracle_unlock s2"
    by (rule oracle_guard.guarded_success)
  then show "oracle_ok s'" using assms(2) assms(4) [of s1 r s2] oracle_lock_frame [of s s1] by auto
  show "oracle_depth s' = oracle_depth s" by (rule oracle_guard.guarded_balanced [OF g assms(3,5)])
qed

section \<open>Role changes\<close>

lemma grant_inner_ok:
  assumes "grant_role_with_expiration_inner e r a x s = Inr (b, s')" and "r = Admin \<longrightarrow> x = None" and "oracle_ok s"
  shows "oracle_ok s'" and "oracle_depth s' = oracle_depth s"
proof -
  obtain rs where g: "grant_with_expiration (timestamp e) r (r = Admin) a x (ok_roles s) = (Inr (b, rs) :: (oracle_error, _) res)"
    and s': "s' = s\<lparr>ok_roles := rs\<rparr>"
    using assms(1) by (auto simp: grant_role_with_expiration_inner_def and_then_eq_Inr)
  have "standing Admin (ok_roles s)" using assms(3) by (simp add: oracle_ok_def)
  from standing_grant [OF this g assms(2)] show "oracle_ok s'"
    using assms(3) by (auto simp: oracle_ok_def s' submitters_def observations_def)
  show "oracle_depth s' = oracle_depth s" by (simp add: s' oracle_depth_def)
qed

lemma grant_inner_eq: "grant_role_inner e r a s = grant_role_with_expiration_inner e r a None s"
  by (simp add: grant_role_inner_def grant_role_with_expiration_inner_def grant_def)

lemma newest_submission_ok:
  "(\<forall>a d. sub a = Some d \<longrightarrow> price_ok d) \<Longrightarrow> (\<forall>d. latest = Some d \<longrightarrow> price_ok d) \<Longrightarrow>
     newest_submission sub as latest = Some d \<Longrightarrow> price_ok d"
proof (induction "as" arbitrary: latest)
  case (Cons a "as")
  let ?next = "case sub a of None \<Rightarrow> latest | Some d \<Rightarrow> (case latest of None \<Rightarrow> Some d
      | Some cur \<Rightarrow> if pd_updated_at cur < pd_updated_at d then Some d else latest)"
  have "\<forall>d. ?next = Some d \<longrightarrow> price_ok d" using Cons.prems(1,2) by (auto split: option.splits if_splits)
  then show ?case using Cons.IH [of ?next] Cons.prems(1,3) by simp
qed simp

lemma feeders_remove:
  assumes "feeders_ok roster sub"
  shows "feeders_ok (filter (\<lambda>b. b \<noteq> a) roster) (sub(a := None))"
proof -
  have "int (length (filter (\<lambda>b. b \<noteq> a) roster)) \<le> int (length roster)" by (simp add: length_filter_le)
  then have "int (length (filter (\<lambda>b. b \<noteq> a) roster)) \<le> MAX_SUBMITTERS" using assms unfolding feeders_ok_def by linarith
  then show ?thesis using assms unfolding feeders_ok_def by (auto split: if_splits)
qed

lemma remove_submitter_ok:
  assumes "remove_submitter a s = Inr s'" and "oracle_ok s"
  shows "oracle_ok s'" and "oracle_depth s' = oracle_depth s"
proof -
  let ?s = "s\<lparr>ok_Submission := (ok_Submission s)(a := None)\<rparr>" and ?l = "filter (\<lambda>b. b \<noteq> a) (submitters s)"
  have sub: "submitters ?s = submitters s" by (simp add: submitters_def)
  have f: "feeders_ok ?l ((ok_Submission s)(a := None))" using assms(2) feeders_remove by (simp add: oracle_ok_def)
  consider "a \<notin> set (submitters s)" "s' = ?s" | "?l = []" "s' = ?s\<lparr>ok_Submitters := None, ok_Price := None\<rparr>"
    | l where "s' = ?s\<lparr>ok_Submitters := Some ?l, or_ttl := l, ok_Price := newest_submission ((ok_Submission s)(a := None)) ?l None\<rparr>"
    using assms(1) by (auto simp: remove_submitter_def Let_def sub and_then_eq_Inr oracle_renew_success split: if_splits)
  then show "oracle_ok s'"
  proof cases
    case 1
    then have "?l = submitters s" by (metis (mono_tags, lifting) filter_True)
    then show ?thesis using f assms(2) 1(2) by (simp add: oracle_ok_def sub) (simp add: observations_def)
  next
    case 2
    then show ?thesis using f assms(2) by (simp add: oracle_ok_def) (simp add: submitters_def observations_def)
  next
    case 3
    have "\<forall>a d. ((ok_Submission s)(a := None)) a = Some d \<longrightarrow> price_ok d" using f by (auto simp: feeders_ok_def)
    moreover have "price_ok d" if "newest_submission ((ok_Submission s)(a := None)) ?l None = Some d" for d
      using newest_submission_ok [OF _ _ that] f unfolding feeders_ok_def by blast
    ultimately show ?thesis using f assms(2) 3 by (simp add: oracle_ok_def) (simp add: submitters_def observations_def)
  qed
  then show "oracle_depth s' = oracle_depth s"
    using assms(1) by (auto simp: remove_submitter_def Let_def and_then_eq_Inr oracle_renew_success oracle_depth_def split: if_splits)
qed

lemma revoke_inner_ok:
  assumes "revoke_role_inner e r a s = Inr (b, s')" and "oracle_ok s"
  shows "oracle_ok s'" and "oracle_depth s' = oracle_depth s"
proof -
  obtain rs where g: "revoke (timestamp e) r (r = Admin) a (ok_roles s) = Inr (b, rs)"
    and s': "if b \<and> r = PriceFeeder then remove_submitter a (s\<lparr>ok_roles := rs\<rparr>) = Inr s' else s' = s\<lparr>ok_roles := rs\<rparr>"
    using assms(1) by (auto simp: revoke_role_inner_def and_then_eq_Inr map_err_eq_Inr Let_def split: if_splits)
  have "standing Admin (ok_roles s)" using assms(2) by (simp add: oracle_ok_def)
  from standing_revoke [OF this g] have ok: "oracle_ok (s\<lparr>ok_roles := rs\<rparr>)"
    using assms(2) by (auto simp: oracle_ok_def submitters_def observations_def)
  show "oracle_ok s'" using s' ok remove_submitter_ok(1) by (auto split: if_splits)
  have "oracle_depth (s\<lparr>ok_roles := rs\<rparr>) = oracle_depth s" by (simp add: oracle_depth_def)
  then show "oracle_depth s' = oracle_depth s" using s' remove_submitter_ok(2) [OF _ ok] by (auto split: if_splits)
qed

text \<open>What a call keeps: the invariant and the depth of the guard.\<close>

definition kept_by :: "(oracle_error, twap_oracle) res \<Rightarrow> twap_oracle \<Rightarrow> bool" where
  "kept_by r s \<longleftrightarrow> (\<forall>s'. r = Inr s' \<longrightarrow> oracle_ok s' \<and> oracle_depth s' = oracle_depth s)"

lemma kept_elim: "kept_by r s \<Longrightarrow> r = Inr s' \<Longrightarrow> oracle_ok s' \<and> oracle_depth s' = oracle_depth s"
  by (simp add: kept_by_def)

lemma role_calls_kept:
  assumes "oracle_ok s"
  shows "kept_by (oracle_grant_role_with_expiration e a r b x s) s" and "kept_by (oracle_grant_role e a r b s) s"
    and "kept_by (oracle_revoke_role e a r b s) s" and "kept_by (purge_submitter e a b s) s"
  using assms unfolding kept_by_def
  by (auto simp: oracle_grant_role_with_expiration_def oracle_grant_role_def oracle_revoke_role_def purge_submitter_def
      grant_inner_eq and_then_eq_Inr if_Inl_eq_Inr require_role_or_admin_success
      dest: grant_inner_ok revoke_inner_ok remove_submitter_ok)

lemma transfer_admin_kept:
  assumes "oracle_ok s"
  shows "kept_by (transfer_admin e a b s) s"
  unfolding kept_by_def
proof (intro allI impI)
  fix s' assume "transfer_admin e a b s = Inr s'"
  then obtain x s1 y s2 where g: "grant_role_with_expiration_inner e Admin b None (oracle_bump s) = Inr (x, s1)"
    and r: "revoke_role_inner e Admin a s1 = Inr (y, s2)" and s': "s' = oracle_emit (EvAdminTransferred a b) s2"
    by (auto simp: transfer_admin_def grant_inner_eq and_then_eq_Inr)
  have "oracle_ok s1" "oracle_depth s1 = oracle_depth s" using grant_inner_ok [OF g] assms by simp_all
  then show "oracle_ok s' \<and> oracle_depth s' = oracle_depth s" using revoke_inner_ok [OF r] by (simp add: s')
qed

lemma initialize_kept:
  assumes "oracle_ok s"
  shows "kept_by (oracle_initialize e a s) s"
  unfolding kept_by_def
proof (intro allI impI)
  fix s' assume run: "oracle_initialize e a s = Inr s'"
  let ?s = "oracle_bump s"
  obtain b where "grant_role_with_expiration_inner e Admin a None (?s\<lparr>ok_Admin := Some a\<rparr>) = Inr (b, s')"
    using run by (auto simp: oracle_initialize_def grant_inner_eq and_then_eq_Inr split: if_splits)
  then obtain rs where g: "grant_with_expiration (timestamp e) Admin True a None (ok_roles ?s) = (Inr (b, rs) :: (oracle_error, _) res)"
    and s': "s' = ?s\<lparr>ok_Admin := Some a, ok_roles := rs\<rparr>"
    by (auto simp: grant_role_with_expiration_inner_def and_then_eq_Inr)
  have "standing Admin (ok_roles ?s)" using assms by (simp add: oracle_ok_def oracle_bump_def)
  note st = standing_grant [OF this, of "timestamp e" Admin a None b rs, where ?'e = oracle_error]
  have "standing Admin rs" "has_admin Admin rs" using st(1,3) g by simp_all
  then show "oracle_ok s' \<and> oracle_depth s' = oracle_depth s"
    using assms by (simp add: oracle_ok_def s' oracle_depth_def submitters_def observations_def oracle_bump_def)
qed

section \<open>Configuration and settings\<close>

lemma drop_prices_ok: "oracle_ok s \<Longrightarrow> oracle_ok (drop_prices s)"
  by (auto simp: oracle_ok_def drop_prices_def feeders_ok_def history_ok_def obs_ok_def MAX_SUBMITTERS_def
      MAX_TWAP_OBSERVATIONS_def submitters_def observations_def)

definition typed_config :: "oracle_config \<Rightarrow> bool" where
  "typed_config c \<longleftrightarrow> in_u32 (oc_decimals c) \<and> in_u64 (oc_max_staleness c) \<and> in_u32 (oc_min_submitters c)"

lemma store_config_ok:
  assumes "store_oracle_config caller c s = Inr s'" and "typed_config c" and "oracle_ok s"
  shows "oracle_ok s'" and "oracle_depth s' = oracle_depth s" and "ok_Config s' = Some c"
proof -
  define t where "t = (case ok_Config s of Some old \<Rightarrow> (if oc_decimals old \<noteq> oc_decimals c \<or> oc_asset_peg old \<noteq> oc_asset_peg c
      then drop_prices (oracle_bump s) else oracle_bump s) | None \<Rightarrow> oracle_bump s)"
  have s': "s' = oracle_emit (EvOracleConfigured caller c) (t\<lparr>ok_Config := Some c\<rparr>)"
    and c: "config_ok c"
    using assms(1,2) by (auto simp: store_oracle_config_def Let_def t_def config_ok_def typed_config_def in_u32_def in_u64_def
        oracle_bump_def split: if_splits option.splits)
  have "oracle_ok t" using assms(3) drop_prices_ok [of "oracle_bump s"] by (auto simp: t_def split: option.split)
  then have "oracle_ok (t\<lparr>ok_Config := Some c\<rparr>)" using c by (simp add: oracle_ok_def) (simp add: submitters_def observations_def)
  then show "oracle_ok s'" by (simp add: s')
  show "oracle_depth s' = oracle_depth s"
    by (simp add: s') (simp add: oracle_depth_def t_def drop_prices_def oracle_bump_def split: option.split)
  show "ok_Config s' = Some c" by (simp add: s' oracle_emit_def)
qed

text \<open>The widths of the fields of an update.\<close>

definition typed_update :: "oracle_config_update \<Rightarrow> bool" where
  "typed_update u \<longleftrightarrow> (\<forall>x. ou_decimals u = Some x \<longrightarrow> in_u32 x) \<and> (\<forall>x. ou_max_staleness u = Some x \<longrightarrow> in_u64 x) \<and>
     (\<forall>x. ou_min_submitters u = Some x \<longrightarrow> in_u32 x)"

lemma config_typed: "config_ok c \<Longrightarrow> typed_config c"
  by (simp add: config_ok_def typed_config_def in_u32_def in_u64_def MAX_SUBMITTERS_def int_bounds)

lemma merge_typed: "typed_update u \<Longrightarrow> typed_config c \<Longrightarrow> typed_config (merge_config u c)"
  by (simp add: typed_update_def typed_config_def merge_config_def updated_by_def split: option.split)

lemma config_calls_kept:
  assumes "oracle_ok s"
  shows "typed_config c \<Longrightarrow> kept_by (configure_oracle e a c s) s"
    and "typed_update u \<Longrightarrow> kept_by (update_oracle_config e a u s) s"
proof -
  show "typed_config c \<Longrightarrow> kept_by (configure_oracle e a c s) s"
    using assms store_config_ok by (auto simp: kept_by_def configure_oracle_def and_then_eq_Inr)
  show "kept_by (update_oracle_config e a u s) s" if u: "typed_update u"
    unfolding kept_by_def
  proof (intro allI impI)
    fix s' assume "update_oracle_config e a u s = Inr s'"
    then obtain c s1 where c: "ok_Config s = Some c" and st: "store_oracle_config a (merge_config u c) s = Inr s1"
      and s': "oracle_ok s' = oracle_ok s1" "oracle_depth s' = oracle_depth s1"
      by (auto simp: update_oracle_config_def and_then_eq_Inr ok_or_eq_Inr Let_def oracle_depth_def oracle_emit_def split: option.splits)
    have "typed_config (merge_config u c)" using assms c u by (intro merge_typed config_typed) (auto simp: oracle_ok_def)
    then show "oracle_ok s' \<and> oracle_depth s' = oracle_depth s" using store_config_ok [OF st _ assms] s' by simp
  qed
qed

lemma setting_kept:
  assumes "oracle_ok s" and "\<And>t. oracle_ok t \<Longrightarrow> oracle_ok (upd t)" and "\<And>t. oracle_depth (upd t) = oracle_depth t"
  shows "kept_by (admin_setting e a upd s) s"
  using assms by (auto simp: kept_by_def admin_setting_def and_then_eq_Inr dest!: not_paused_frame)

lemma settings_kept:
  assumes "oracle_ok s"
  shows "kept_by (set_oracle_feeds e a p f s) s" and "kept_by (set_primary_oracle e a p s) s"
    and "kept_by (set_fallback_oracle e a p s) s" and "kept_by (set_max_deviation_bps e a n s) s"
    and "in_u64 n \<Longrightarrow> kept_by (set_max_staleness_seconds e a n s) s" and "kept_by (set_asset_oracle_config e a t ac s) s"
    and "kept_by (oracle_pause e a s) s" and "kept_by (oracle_unpause e a s) s" and "kept_by (oracle_upgrade e a h s) s"
proof -
  show "kept_by (set_oracle_feeds e a p f s) s" "kept_by (set_primary_oracle e a p s) s" "kept_by (set_fallback_oracle e a p s) s"
    "kept_by (set_max_deviation_bps e a n s) s"
    unfolding set_oracle_feeds_def set_primary_oracle_def set_fallback_oracle_def set_max_deviation_bps_def
    by (rule setting_kept [OF assms]; simp add: oracle_depth_def)+
  show "kept_by (set_asset_oracle_config e a t ac s) s" "kept_by (oracle_upgrade e a h s) s"
    using assms by (auto simp: kept_by_def set_asset_oracle_config_def oracle_upgrade_def and_then_eq_Inr if_Inl_eq_Inr
        oracle_depth_def oracle_bump_def oracle_emit_def dest!: not_paused_frame oracle_renew_frame)
  show "kept_by (oracle_pause e a s) s" "kept_by (oracle_unpause e a s) s"
    using assms by (auto simp: kept_by_def oracle_pause_def oracle_unpause_def oracle_is_paused_def and_then_eq_Inr if_Inl_eq_Inr
        split: prod.splits dest!: oracle_set_paused_frame)
  show "kept_by (set_max_staleness_seconds e a n s) s" if n: "in_u64 n"
    unfolding kept_by_def
  proof (intro allI impI)
    fix s' assume "set_max_staleness_seconds e a n s = Inr s'"
    then obtain p where n0: "n \<noteq> 0" and run: "s' = (let s2 = (oracle_bump (s\<lparr>ok_Paused := p\<rparr>))\<lparr>ok_MaxStalenessSeconds := Some n\<rparr> in
        case ok_Config s2 of Some config \<Rightarrow> s2\<lparr>ok_Config := Some (config\<lparr>oc_max_staleness := n\<rparr>)\<rparr> | None \<Rightarrow> s2)"
      unfolding set_max_staleness_seconds_def and_then_eq_Inr if_Inl_eq_Inr Let_def sum.inject by (auto dest!: not_paused_frame)
    define t where "t = (oracle_bump (s\<lparr>ok_Paused := p\<rparr>))\<lparr>ok_MaxStalenessSeconds := Some n\<rparr>"
    have t: "oracle_ok t" "oracle_depth t = oracle_depth s" "n \<noteq> 0"
      using assms n0 by (simp_all add: t_def oracle_depth_def oracle_bump_def)
    have s': "s' = (case ok_Config t of Some c \<Rightarrow> t\<lparr>ok_Config := Some (c\<lparr>oc_max_staleness := n\<rparr>)\<rparr> | None \<Rightarrow> t)"
      using run unfolding t_def [symmetric] Let_def .
    show "oracle_ok s' \<and> oracle_depth s' = oracle_depth s"
    proof (cases "ok_Config t")
      case (Some c)
      then have "config_ok (c\<lparr>oc_max_staleness := n\<rparr>)" using t(1,3) n by (simp add: oracle_ok_def config_ok_def in_u64_def)
      then show ?thesis using t s' Some by (simp add: oracle_ok_def oracle_depth_def) (simp add: submitters_def observations_def)
    qed (use t s' in simp)
  qed
qed

end
