(* ===== verification/Oracle_Reach.thy ===== *)
theory Oracle_Reach
  imports Oracle_History
begin

text \<open>
  The remaining entry points keep the invariant of \<open>Oracle_History\<close> (submissions, reads
  that record an answer of an external feed, pair reports), and with that the invariant
  holds in every state a history of calls reaches.
\<close>

section \<open>Submissions\<close>

lemma ex_unit: "(\<exists>x. P x) \<longleftrightarrow> P ()"
  by (metis old.unit.exhaust)

definition enrolled :: "address \<Rightarrow> address list \<Rightarrow> address list" where
  "enrolled a roster = (if a \<in> set roster then roster else roster @ [a])"

lemma add_submitter_success:
  "add_submitter a s = Inr s' \<Longrightarrow> \<exists>l. s' = s\<lparr>ok_Submitters := Some (enrolled a (submitters s)), or_ttl := l\<rparr> \<and>
     int (length (enrolled a (submitters s))) \<le> max MAX_SUBMITTERS (int (length (submitters s)))"
  unfolding add_submitter_def if_Inl_eq_Inr
proof (cases "a \<in> set (submitters s)")
  case True
  assume "(if a \<in> set (submitters s) then oracle_renew OkSubmitters s else
      if MAX_SUBMITTERS \<le> int (length (submitters s)) then Inl (Err TooManySubmitters) else
      oracle_renew OkSubmitters (s\<lparr>ok_Submitters := Some (submitters s @ [a])\<rparr>)) = Inr s'"
  then obtain l where s': "s' = s\<lparr>or_ttl := l\<rparr>" and p: "ok_Submitters s \<noteq> None" using True by (auto simp: oracle_renew_success)
  then have "s = s\<lparr>ok_Submitters := Some (submitters s)\<rparr>" by (auto simp: submitters_def)
  then have "s' = s\<lparr>ok_Submitters := Some (submitters s), or_ttl := l\<rparr>" using s' by metis
  then show ?thesis using True unfolding enrolled_def by auto
next
  case False
  assume "(if a \<in> set (submitters s) then oracle_renew OkSubmitters s else
      if MAX_SUBMITTERS \<le> int (length (submitters s)) then Inl (Err TooManySubmitters) else
      oracle_renew OkSubmitters (s\<lparr>ok_Submitters := Some (submitters s @ [a])\<rparr>)) = Inr s'"
  then show ?thesis using False by (auto simp: enrolled_def oracle_renew_success split: if_splits)
qed

lemma feeders_enrolled:
  "feeders_ok roster sub \<Longrightarrow> price_ok d \<Longrightarrow> int (length (enrolled a roster)) \<le> MAX_SUBMITTERS \<Longrightarrow>
     feeders_ok (enrolled a roster) (sub(a \<mapsto> d))"
  by (auto simp: feeders_ok_def enrolled_def split: if_splits)

lemma fresh_prices_mem:
  "x \<in> set (fresh_prices now ms sub as) \<longleftrightarrow> (\<exists>a \<in> set as. \<exists>d. sub a = Some d \<and> is_fresh now ms d \<and> x = pd_price d)"
  by (induction "as") (auto split: option.splits)

lemma fresh_prices_ok:
  "\<forall>a d. sub a = Some d \<longrightarrow> price_ok d \<Longrightarrow> x \<in> set (fresh_prices now ms sub as) \<Longrightarrow> 0 < x \<and> in_u64 x"
  by (auto simp: fresh_prices_mem price_ok_def in_u64_def intro: less_imp_le)

lemma median_positive:
  assumes "xs \<noteq> []" and "\<forall>x \<in> set xs. 0 < x \<and> in_u64 x"
  shows "\<exists>m. median xs = Inr m \<and> 0 < m \<and> in_u64 m"
proof -
  have "filter (\<lambda>x. 1 \<le> x \<and> x \<le> u64_max) xs = xs" using assms(2) by (intro filter_True) (auto simp: in_u64_def)
  then have "1 \<le> middle (sort xs) \<and> middle (sort xs) \<le> u64_max" using assms(1) by (intro middle_robust) simp
  then show ?thesis using median_eq [OF assms(1)] assms(2) by (auto simp: in_u64_def)
qed

lemma submission_median_ok:
  assumes "current_submission_median price now s = Inr m" and "\<forall>a d. ok_Submission s a = Some d \<longrightarrow> price_ok d"
    and "0 < price" and "in_u64 price"
  shows "0 < m \<and> in_u64 m"
proof -
  have "0 < m \<and> in_u64 m" if "median (fresh_prices now ms (ok_Submission s) (submitters s)) = Inr m"
    "fresh_prices now ms (ok_Submission s) (submitters s) \<noteq> []" for ms
    using median_positive [OF that(2)] that(1) fresh_prices_ok [OF assms(2)] by auto
  then show ?thesis using assms(1,3,4) by (auto simp: current_submission_median_def Let_def split: option.splits if_splits)
qed

section \<open>Recording an observation\<close>

text \<open>The history with a new observation, as a function on lists.\<close>

definition recorded :: "price_observation \<Rightarrow> price_observation list \<Rightarrow> price_observation list" where
  "recorded ob obs =
     (if obs \<noteq> [] \<and> po_timestamp (last obs) = po_timestamp ob then butlast obs @ [ob]
      else if int (length obs) = MAX_TWAP_OBSERVATIONS then tl obs @ [ob] else obs @ [ob])"

lemma update_last: "obs \<noteq> [] \<Longrightarrow> obs[length obs - Suc 0 := ob] = butlast obs @ [ob]"
  by (induction obs rule: rev_induct) (simp_all add: list_update_append)

lemma record_price_observation_success:
  "record_price_observation price ts s = Inr s' \<longleftrightarrow>
     (observations s \<noteq> [] \<longrightarrow> po_timestamp (last (observations s)) \<le> ts) \<and>
     oracle_renew OkPriceObservations
       (s\<lparr>ok_PriceObservations := Some (recorded \<lparr>po_price = price, po_timestamp = ts\<rparr> (observations s))\<rparr>) = Inr s'"
  by (auto simp: record_price_observation_def recorded_def Let_def update_last not_less)

lemma history_ok_parts:
  "history_ok obs \<longleftrightarrow> sorted_wrt (<) (map po_timestamp obs) \<and> int (length obs) \<le> MAX_TWAP_OBSERVATIONS \<and>
     (\<forall>ob \<in> set obs. in_u64 (po_timestamp ob) \<and> in_u64 (po_price ob) \<and> 0 < po_price ob)"
  by (auto simp: history_ok_def obs_ok_def)

lemma history_snoc:
  assumes "history_ok obs" and "int (length obs) < MAX_TWAP_OBSERVATIONS" and "\<forall>x \<in> set obs. po_timestamp x < po_timestamp ob"
    and "in_u64 (po_timestamp ob)" and "in_u64 (po_price ob)" and "0 < po_price ob"
  shows "history_ok (obs @ [ob])"
  using assms by (auto simp: history_ok_parts sorted_wrt_append)

lemma history_part:
  assumes "history_ok (xs @ obs @ ys)"
  shows "history_ok obs"
  using assms by (auto simp: history_ok_parts sorted_wrt_append)

lemma times_below_last:
  assumes "history_ok obs" and "obs \<noteq> []"
  shows "\<forall>x \<in> set (butlast obs). po_timestamp x < po_timestamp (last obs)"
proof -
  have "history_ok (butlast obs @ [last obs])" using assms by simp
  then show ?thesis by (auto simp: history_ok_parts sorted_wrt_append)
qed

lemma recorded_ok:
  assumes "history_ok obs" and "obs \<noteq> [] \<longrightarrow> po_timestamp (last obs) \<le> po_timestamp ob"
    and "in_u64 (po_timestamp ob)" "in_u64 (po_price ob)" "0 < po_price ob"
  shows "history_ok (recorded ob obs)"
proof -
  have len: "int (length obs) \<le> MAX_TWAP_OBSERVATIONS" using assms(1) by (simp add: history_ok_def)
  have below: "\<forall>x \<in> set obs. po_timestamp x < po_timestamp ob" if "obs = [] \<or> po_timestamp (last obs) < po_timestamp ob"
  proof
    fix x assume x: "x \<in> set obs"
    then have "x \<in> set (butlast obs) \<or> x = last obs" by (metis append_butlast_last_id empty_iff empty_set in_set_conv_decomp rotate1.simps(2) set_ConsD set_rotate1)
    then show "po_timestamp x < po_timestamp ob" using times_below_last [OF assms(1)] x that by fastforce
  qed
  consider "obs \<noteq> []" "po_timestamp (last obs) = po_timestamp ob" | "obs = [] \<or> po_timestamp (last obs) < po_timestamp ob"
    using assms(2) by linarith
  then show ?thesis
  proof cases
    case 1
    have "history_ok ([] @ butlast obs @ [last obs])" using assms(1) 1(1) by simp
    then have "history_ok (butlast obs)" by (rule history_part)
    moreover have "int (length (butlast obs)) < MAX_TWAP_OBSERVATIONS" using 1(1) len by (cases obs rule: rev_cases) simp_all
    ultimately have "history_ok (butlast obs @ [ob])"
      using times_below_last [OF assms(1) 1(1)] 1 assms(3-5) by (intro history_snoc) auto
    then show ?thesis using 1 by (simp add: recorded_def)
  next
    case 2
    then have rec: "recorded ob obs = (if int (length obs) = MAX_TWAP_OBSERVATIONS then tl obs @ [ob] else obs @ [ob])"
      by (auto simp: recorded_def)
    show ?thesis
    proof (cases "int (length obs) = MAX_TWAP_OBSERVATIONS")
      case True
      then obtain x rest where obs: "obs = x # rest" by (cases obs) (simp_all add: MAX_TWAP_OBSERVATIONS_def)
      have "history_ok ([x] @ rest @ [])" using assms(1) obs by simp
      then have "history_ok rest" by (rule history_part)
      then have "history_ok (rest @ [ob])" using below [OF 2] True obs assms(3-5) by (intro history_snoc) auto
      then show ?thesis using rec True obs by simp
    next
      case False
      then show ?thesis using rec below [OF 2] len assms(1,3-5) by (simp add: history_snoc)
    qed
  qed
qed

lemma record_price_observation_kept:
  assumes "record_price_observation price ts s = Inr s'" and "oracle_ok s" and "in_u64 ts" and "in_u64 price" and "0 < price"
  shows "oracle_ok s' \<and> oracle_depth s' = oracle_depth s"
proof -
  let ?obs = "recorded \<lparr>po_price = price, po_timestamp = ts\<rparr> (observations s)"
  obtain l where s': "s' = s\<lparr>ok_PriceObservations := Some ?obs, or_ttl := l\<rparr>"
    and le: "observations s \<noteq> [] \<longrightarrow> po_timestamp (last (observations s)) \<le> ts"
    using assms(1) by (auto simp: record_price_observation_success oracle_renew_success)
  have "history_ok ?obs" using assms le by (intro recorded_ok) (simp_all add: oracle_ok_def)
  moreover have "observations s' = ?obs" "submitters s' = submitters s" by (simp_all add: s' observations_def submitters_def)
  ultimately show ?thesis using assms(2) unfolding oracle_ok_def oracle_depth_def by (simp add: s')
qed

section \<open>Entry points\<close>

lemma submit_price_success:
  assumes "submit_price e caller price s0 = Inr s'"
  obtains p l l' m s4 where "oracle_require_not_paused e s0 = Inr (s0\<lparr>ok_Paused := p\<rparr>)"
    and "oracle_require_role e caller PriceFeeder (s0\<lparr>ok_Paused := p\<rparr>) = Inr ()" and "price \<noteq> 0"
    and "\<exists>dev. last_price_deviation price (s0\<lparr>ok_Paused := p\<rparr>) = Inr dev \<and> \<not> above dev 5000 \<and>
       check_submission e caller price dev (s0\<lparr>ok_Paused := p\<rparr>) = Inr ()"
    and "int (length (enrolled caller (submitters s0))) \<le> max MAX_SUBMITTERS (int (length (submitters s0)))"
    and "s4 = s0\<lparr>ok_Paused := p, ok_Price := Some \<lparr>pd_price = price, pd_updated_at = timestamp e\<rparr>,
       ok_Submission := (ok_Submission s0)(caller \<mapsto> \<lparr>pd_price = price, pd_updated_at = timestamp e\<rparr>),
       ok_Submitters := Some (enrolled caller (submitters s0)), or_ttl := l\<rparr>"
    and "current_submission_median price (timestamp e) s4 = Inr m"
    and "record_price_observation m (timestamp e) s4 = Inr l'"
    and "s' = oracle_emit (EvPriceSubmitted caller price (timestamp e)) l'"
proof -
  obtain s dev s2 s3 m s5 where np: "oracle_require_not_paused e s0 = Inr s" and r: "oracle_require_role e caller PriceFeeder s = Inr ()"
    and p: "price \<noteq> 0" and dev: "last_price_deviation price s = Inr dev" "\<not> above dev 5000" "check_submission e caller price dev s = Inr ()"
    and s2: "oracle_renew (OkSubmission caller) ((oracle_bump s)\<lparr>ok_Price := Some \<lparr>pd_price = price, pd_updated_at = timestamp e\<rparr>,
       ok_Submission := (ok_Submission s)(caller \<mapsto> \<lparr>pd_price = price, pd_updated_at = timestamp e\<rparr>)\<rparr>) = Inr s2"
    and s3: "add_submitter caller s2 = Inr s3" and m: "current_submission_median price (timestamp e) s3 = Inr m"
    and s5: "record_price_observation m (timestamp e) s3 = Inr s5"
    and s': "s' = oracle_emit (EvPriceSubmitted caller price (timestamp e)) s5"
    using assms unfolding submit_price_def and_then_eq_Inr if_Inl_eq_Inr Let_def sum.inject ex_unit by blast
  obtain pp where s: "s = s0\<lparr>ok_Paused := pp\<rparr>" using not_paused_frame [OF np] by blast
  obtain l2 where s2': "s2 = (oracle_bump s)\<lparr>ok_Price := Some \<lparr>pd_price = price, pd_updated_at = timestamp e\<rparr>,
       ok_Submission := (ok_Submission s)(caller \<mapsto> \<lparr>pd_price = price, pd_updated_at = timestamp e\<rparr>), or_ttl := l2\<rparr>"
    using oracle_renew_frame [OF s2] by blast
  have sub: "submitters s2 = submitters s0" by (simp add: s2' s submitters_def oracle_bump_def)
  obtain l3 where s3': "s3 = s2\<lparr>ok_Submitters := Some (enrolled caller (submitters s0)), or_ttl := l3\<rparr>"
    and len: "int (length (enrolled caller (submitters s0))) \<le> max MAX_SUBMITTERS (int (length (submitters s0)))"
    using add_submitter_success [OF s3] by (auto simp: sub)
  have "s3 = s0\<lparr>ok_Paused := pp, ok_Price := Some \<lparr>pd_price = price, pd_updated_at = timestamp e\<rparr>,
       ok_Submission := (ok_Submission s0)(caller \<mapsto> \<lparr>pd_price = price, pd_updated_at = timestamp e\<rparr>),
       ok_Submitters := Some (enrolled caller (submitters s0)), or_ttl := l3\<rparr>"
    by (simp add: s3' s2' s oracle_bump_def)
  then show ?thesis using that [of pp s3 l3 m s5] np r p dev len m s5 s' s by simp
qed

lemma submitted_ok:
  assumes "oracle_ok s" and "in_u64 now" and "in_u64 price" and "price \<noteq> 0"
    and "int (length (enrolled caller (submitters s))) \<le> max MAX_SUBMITTERS (int (length (submitters s)))"
    and s4: "s4 = s\<lparr>ok_Paused := p, ok_Price := Some \<lparr>pd_price = price, pd_updated_at = now\<rparr>,
       ok_Submission := (ok_Submission s)(caller \<mapsto> \<lparr>pd_price = price, pd_updated_at = now\<rparr>),
       ok_Submitters := Some (enrolled caller (submitters s)), or_ttl := l\<rparr>"
  shows "oracle_ok s4"
proof -
  let ?d = "\<lparr>pd_price = price, pd_updated_at = now\<rparr>"
  have d: "price_ok ?d" using assms(2-4) by (simp add: price_ok_def in_u64_def)
  have "int (length (submitters s)) \<le> MAX_SUBMITTERS" using assms(1) by (simp add: oracle_ok_def feeders_ok_def)
  then have "feeders_ok (enrolled caller (submitters s)) ((ok_Submission s)(caller \<mapsto> ?d))"
    using feeders_enrolled [OF _ d, of "submitters s" "ok_Submission s"] assms(1,5) by (simp add: oracle_ok_def)
  moreover have "submitters s4 = enrolled caller (submitters s)" "observations s4 = observations s"
    by (simp_all add: s4 observations_def submitters_def)
  ultimately show ?thesis using assms(1) d unfolding oracle_ok_def by (simp add: s4)
qed

lemma submit_price_kept:
  assumes "oracle_ok s" and "in_u64 (timestamp e)" and "in_u64 price"
  shows "kept_by (submit_price e caller price s) s"
  unfolding kept_by_def
proof (intro allI impI)
  fix s' assume run: "submit_price e caller price s = Inr s'"
  let ?d = "\<lparr>pd_price = price, pd_updated_at = timestamp e\<rparr>"
  obtain p l s5 m s4 where price: "price \<noteq> 0"
    and len: "int (length (enrolled caller (submitters s))) \<le> max MAX_SUBMITTERS (int (length (submitters s)))"
    and s4: "s4 = s\<lparr>ok_Paused := p, ok_Price := Some ?d, ok_Submission := (ok_Submission s)(caller \<mapsto> ?d),
       ok_Submitters := Some (enrolled caller (submitters s)), or_ttl := l\<rparr>"
    and m: "current_submission_median price (timestamp e) s4 = Inr m"
    and s5: "record_price_observation m (timestamp e) s4 = Inr s5"
    and s': "s' = oracle_emit (EvPriceSubmitted caller price (timestamp e)) s5"
    using run by (rule submit_price_success) (rule that)
  have pos: "0 < price" using assms(3) price by (simp add: in_u64_def)
  have ok4: "oracle_ok s4" by (rule submitted_ok [OF assms price len s4])
  then have "\<forall>a d. ok_Submission s4 a = Some d \<longrightarrow> price_ok d" by (simp add: oracle_ok_def feeders_ok_def)
  then have "0 < m \<and> in_u64 m" using submission_median_ok [OF m] pos assms(3) by blast
  then have "oracle_ok s5 \<and> oracle_depth s5 = oracle_depth s4"
    using record_price_observation_kept [OF s5 ok4 assms(2)] by simp
  moreover have "oracle_depth s4 = oracle_depth s" by (simp add: s4 oracle_depth_def)
  ultimately show "oracle_ok s' \<and> oracle_depth s' = oracle_depth s" by (simp add: s')
qed

text \<open>The widths of what an external contract answers.\<close>

definition typed_feeds :: "feeds \<Rightarrow> bool" where
  "typed_feeds fd \<longleftrightarrow> (\<forall>a p. fd_twap_price fd a = Some p \<longrightarrow> in_u64 p) \<and>
     (\<forall>a d. fd_latest_price fd a = Some d \<longrightarrow> in_u64 (pd_price d) \<and> in_u64 (pd_updated_at d))"

lemma query_feed_ok:
  assumes "query_oracle_feed e fd a ms s = Inr d" and "oracle_ok s" and "typed_feeds fd" and "in_u64 (timestamp e)"
  shows "price_ok d"
proof (cases "ok_Submission s a")
  case None
  then show ?thesis
    using assms(1,3,4) by (auto simp: query_oracle_feed_def Let_def typed_feeds_def price_ok_def in_u64_def split: if_splits option.splits)
next
  case (Some x)
  then have "price_ok x" using assms(2) by (simp add: oracle_ok_def feeders_ok_def)
  then show ?thesis using assms(1) Some by (simp add: query_oracle_feed_def if_Inl_eq_Inr)
qed

lemma resolve_success:
  "resolve_oracle_with_failover e fd ms s = Inr d \<Longrightarrow> \<exists>a. query_oracle_feed e fd a ms s = Inr d"
  by (auto simp: resolve_oracle_with_failover_def Let_def split: option.splits sum.splits)

lemma from_feeds_or_success:
  assumes "from_feeds_or e fd k ms s alt = Inr (p, s')"
  shows "alt = Inr (p, s') \<or> (\<exists>d. resolve_oracle_with_failover e fd ms s = Inr d \<and>
     record_and_calculate_twap e (pd_price d) (pd_updated_at d) k ms s = Inr (p, s'))"
  using assms by (auto simp: from_feeds_or_def split: sum.splits)

text \<open>A read leaves the state as it is, or records one answer of a feed.\<close>

definition only_records :: "'w env \<Rightarrow> feeds \<Rightarrow> twap_oracle \<Rightarrow> twap_oracle \<Rightarrow> bool" where
  "only_records e fd s s' \<longleftrightarrow> s' = s \<or> (\<exists>d ms. resolve_oracle_with_failover e fd ms s = Inr d \<and>
     record_price_observation (pd_price d) (pd_updated_at d) s = Inr s')"

lemma only_records_refl [simp]: "only_records e fd s s"
  by (simp add: only_records_def)

lemma from_feeds_records:
  "from_feeds_or e fd k ms s r = Inr (p, s') \<Longrightarrow> (r = Inr (p, s') \<Longrightarrow> only_records e fd s s') \<Longrightarrow> only_records e fd s s'"
  by (drule from_feeds_or_success) (auto simp: record_and_calculate_twap_def and_then_eq_Inr only_records_def)

lemma submissions_records: "twap_of_submissions e fd k c s = Inr (p, s') \<Longrightarrow> only_records e fd s s'"
  unfolding twap_of_submissions_def Let_def
  by (auto simp: and_then_eq_Inr split: if_splits elim!: from_feeds_records)

lemma twap_inner_records:
  assumes "get_twap_price_inner e fd k s = Inr (p, s')"
  shows "only_records e fd s s'"
proof -
  obtain c where "from_feeds_or e fd k (oc_max_staleness c) s (twap_of_submissions e fd k c s) = Inr (p, s') \<or>
      twap_of_submissions e fd k c s = Inr (p, s')"
    using assms by (auto simp: get_twap_price_inner_def and_then_eq_Inr Let_def split: if_splits)
  then show ?thesis using submissions_records from_feeds_records by metis
qed

lemma only_records_kept:
  assumes "only_records e fd s s'" and "oracle_ok s" and "typed_feeds fd" and "in_u64 (timestamp e)"
  shows "oracle_ok s'"
  using assms(1) unfolding only_records_def
proof
  assume "\<exists>d ms. resolve_oracle_with_failover e fd ms s = Inr d \<and> record_price_observation (pd_price d) (pd_updated_at d) s = Inr s'"
  then obtain d ms where "resolve_oracle_with_failover e fd ms s = Inr d"
    and rec: "record_price_observation (pd_price d) (pd_updated_at d) s = Inr s'" by blast
  then have "price_ok d" using resolve_success query_feed_ok [OF _ assms(2-4)] by blast
  then show ?thesis using record_price_observation_kept [OF rec assms(2)] by (simp add: price_ok_def in_u64_def)
qed (use assms(2) in simp)

lemma only_records_frame:
  "only_records e fd s s' \<Longrightarrow> \<exists>obs l. s' = s\<lparr>ok_PriceObservations := obs, or_ttl := l\<rparr>"
proof -
  assume "only_records e fd s s'"
  then consider "s' = s" | obs l where "s' = s\<lparr>ok_PriceObservations := obs, or_ttl := l\<rparr>"
    by (auto simp: only_records_def record_price_observation_success oracle_renew_success)
  then show ?thesis
  proof cases
    case 1
    then have "s' = s\<lparr>ok_PriceObservations := ok_PriceObservations s, or_ttl := or_ttl s\<rparr>" by simp
    then show ?thesis by blast
  qed blast
qed

lemma only_records_depth: "only_records e fd s s' \<Longrightarrow> oracle_depth s' = oracle_depth s"
  by (drule only_records_frame) (auto simp: oracle_depth_def)

lemma guarded_read_kept:
  assumes "oracle_ok s" and "0 \<le> oracle_depth s" and "typed_feeds fd" and "in_u64 (timestamp e)"
    and "\<And>s1 s2 r. f s1 = Inr (r, s2) \<Longrightarrow> only_records e fd s1 s2"
  shows "kept_by (state_only (oracle_with_guard f s)) s"
  using assms with_guard_ok [of f s] only_records_kept only_records_depth unfolding kept_by_def state_only_eq_Inr by metis

lemma reads_kept:
  assumes "oracle_ok s" and "0 \<le> oracle_depth s" and "typed_feeds fd" and "in_u64 (timestamp e)"
  shows "kept_by (state_only (get_twap_price e fd s)) s" and "kept_by (state_only (get_twap_price_for_observations e fd k s)) s"
    and "kept_by (state_only (get_price_with_fallback e fd s)) s" and "kept_by (state_only (calculate_fiat_stream_payout e fd n s)) s"
  unfolding get_twap_price_def get_twap_price_for_observations_def get_price_with_fallback_def calculate_fiat_stream_payout_def
     apply (rule guarded_read_kept [OF assms], erule twap_inner_records)
    apply (rule guarded_read_kept [OF assms], erule twap_inner_records)
   apply (rule guarded_read_kept [OF assms], auto simp: and_then_eq_Inr split: if_splits dest: twap_inner_records)[1]
  apply (rule guarded_read_kept [OF assms], auto simp: calculate_fiat_stream_payout_inner_def and_then_eq_Inr if_Inl_eq_Inr Let_def dest: twap_inner_records)[1]
  done

section \<open>Pair reports\<close>

lemma with_reporter_ok:
  assumes "with_reporter e existing a s = Inr active" and "distinct existing" and "int (length existing) \<le> MAX_PAIR_REPORTERS"
  shows "distinct active \<and> int (length active) \<le> MAX_PAIR_REPORTERS"
proof -
  let ?act = "filter (\<lambda>a. is_authorized_pair_reporter e a s) existing"
  have "int (length ?act) \<le> MAX_PAIR_REPORTERS" using assms(3) length_filter_le [of "\<lambda>a. is_authorized_pair_reporter e a s" existing] by linarith
  then show ?thesis using assms(1,2) by (auto simp: with_reporter_def Let_def split: if_splits)
qed

lemma reporters_update:
  assumes "with_reporter e (case rep k of Some xs \<Rightarrow> xs | None \<Rightarrow> []) a s = Inr active" and "reporters_ok rep"
  shows "reporters_ok (rep(k \<mapsto> active))"
proof -
  have "distinct active \<and> int (length active) \<le> MAX_PAIR_REPORTERS"
    by (rule with_reporter_ok [OF assms(1)]; use assms(2) in \<open>auto simp: reporters_ok_def MAX_PAIR_REPORTERS_def split: option.split\<close>)
  then show ?thesis using assms(2) by (simp add: reporters_ok_def)
qed

lemma reports_update: "reports_ok rep \<Longrightarrow> in_u128 p \<Longrightarrow> p \<noteq> 0 \<Longrightarrow> reports_ok (rep(k \<mapsto> \<lparr>pp_price = p, pp_updated_at = t\<rparr>))"
  by (simp add: reports_ok_def in_u128_def)

lemma set_price_kept:
  assumes "oracle_ok s" and "in_u128 price"
  shows "kept_by (set_price e caller base quote price s) s"
  unfolding kept_by_def
proof (intro allI impI)
  fix s' assume "set_price e caller base quote price s = Inr s'"
  then obtain s1 s2 s3 where np: "oracle_require_not_paused e s = Inr s1" and price: "price \<noteq> 0"
    and s2: "add_pair_reporter e base quote caller (oracle_bump s1) = Inr s2"
    and s3: "oracle_renew (OkPairSubmission base quote caller) (s2\<lparr>ok_PairSubmission :=
       (ok_PairSubmission s2)((base, quote, caller) \<mapsto> \<lparr>pp_price = price, pp_updated_at = timestamp e\<rparr>)\<rparr>) = Inr s3"
    and s': "s' = s3\<lparr>ok_PairPrice := (ok_PairPrice s3)((base, quote) \<mapsto> price)\<rparr>"
    unfolding set_price_def and_then_eq_Inr if_Inl_eq_Inr Let_def sum.inject by blast
  obtain p where s1: "s1 = s\<lparr>ok_Paused := p\<rparr>" using not_paused_frame [OF np] by blast
  obtain active l where w: "with_reporter e (case ok_PairReporters s (base, quote) of Some xs \<Rightarrow> xs | None \<Rightarrow> []) caller
      (oracle_bump s1) = Inr active"
    and s2': "s2 = s\<lparr>ok_Paused := p, ok_PairReporters := (ok_PairReporters s)((base, quote) \<mapsto> active), or_ttl := l\<rparr>"
    using s2 unfolding add_pair_reporter_def and_then_eq_Inr oracle_renew_success by (auto simp: s1 oracle_bump_def)
  obtain l' where s3': "s3 = s2\<lparr>ok_PairSubmission :=
       (ok_PairSubmission s2)((base, quote, caller) \<mapsto> \<lparr>pp_price = price, pp_updated_at = timestamp e\<rparr>), or_ttl := l'\<rparr>"
    using oracle_renew_frame [OF s3] by blast
  have s': "s' = s\<lparr>ok_Paused := p, ok_PairReporters := (ok_PairReporters s)((base, quote) \<mapsto> active),
      ok_PairSubmission := (ok_PairSubmission s)((base, quote, caller) \<mapsto> \<lparr>pp_price = price, pp_updated_at = timestamp e\<rparr>),
      ok_PairPrice := (ok_PairPrice s)((base, quote) \<mapsto> price), or_ttl := l'\<rparr>"
    by (simp add: s' s3' s2')
  have "submitters s' = submitters s" "observations s' = observations s" by (simp_all add: s' submitters_def observations_def)
  then show "oracle_ok s' \<and> oracle_depth s' = oracle_depth s"
    using assms price reporters_update [of e "ok_PairReporters s" "(base, quote)", OF w] unfolding oracle_ok_def oracle_depth_def by (simp add: s' reports_update)
qed

lemma set_price_symbol_kept:
  assumes "oracle_ok s" and "in_u128 price"
  shows "kept_by (set_price_symbol e caller base quote price s) s"
  unfolding kept_by_def
proof (intro allI impI)
  fix s' assume "set_price_symbol e caller base quote price s = Inr s'"
  then obtain s1 s2 s3 where np: "oracle_require_not_paused e s = Inr s1" and price: "price \<noteq> 0"
    and s2: "add_symbol_pair_reporter e base quote caller (oracle_bump s1) = Inr s2"
    and s3: "oracle_renew (OkPairSymbolSubmission base quote caller) (s2\<lparr>ok_PairSymbolSubmission :=
       (ok_PairSymbolSubmission s2)((base, quote, caller) \<mapsto> \<lparr>pp_price = price, pp_updated_at = timestamp e\<rparr>)\<rparr>) = Inr s3"
    and s': "s' = s3\<lparr>ok_PairPriceSymbol := (ok_PairPriceSymbol s3)((base, quote) \<mapsto> price)\<rparr>"
    unfolding set_price_symbol_def and_then_eq_Inr if_Inl_eq_Inr Let_def sum.inject by blast
  obtain p where s1: "s1 = s\<lparr>ok_Paused := p\<rparr>" using not_paused_frame [OF np] by blast
  obtain active l where w: "with_reporter e (case ok_PairSymbolReporters s (base, quote) of Some xs \<Rightarrow> xs | None \<Rightarrow> []) caller
      (oracle_bump s1) = Inr active"
    and s2': "s2 = s\<lparr>ok_Paused := p, ok_PairSymbolReporters := (ok_PairSymbolReporters s)((base, quote) \<mapsto> active), or_ttl := l\<rparr>"
    using s2 unfolding add_symbol_pair_reporter_def and_then_eq_Inr oracle_renew_success by (auto simp: s1 oracle_bump_def)
  obtain l' where s3': "s3 = s2\<lparr>ok_PairSymbolSubmission :=
       (ok_PairSymbolSubmission s2)((base, quote, caller) \<mapsto> \<lparr>pp_price = price, pp_updated_at = timestamp e\<rparr>), or_ttl := l'\<rparr>"
    using oracle_renew_frame [OF s3] by blast
  have s': "s' = s\<lparr>ok_Paused := p, ok_PairSymbolReporters := (ok_PairSymbolReporters s)((base, quote) \<mapsto> active),
      ok_PairSymbolSubmission := (ok_PairSymbolSubmission s)((base, quote, caller) \<mapsto> \<lparr>pp_price = price, pp_updated_at = timestamp e\<rparr>),
      ok_PairPriceSymbol := (ok_PairPriceSymbol s)((base, quote) \<mapsto> price), or_ttl := l'\<rparr>"
    by (simp add: s' s3' s2')
  have "submitters s' = submitters s" "observations s' = observations s" by (simp_all add: s' submitters_def observations_def)
  then show "oracle_ok s' \<and> oracle_depth s' = oracle_depth s"
    using assms price reporters_update [of e "ok_PairSymbolReporters s" "(base, quote)", OF w] unfolding oracle_ok_def oracle_depth_def by (simp add: s' reports_update)
qed

section \<open>Histories\<close>

text \<open>One attempted call, with its transaction's environment and what external contracts answer in it.\<close>

record 'w turn =
  tu_env :: "'w env"
  tu_feeds :: feeds
  tu_call :: oracle_call

fun call_typed :: "oracle_call \<Rightarrow> bool" where
  "call_typed (OConfigure a c) \<longleftrightarrow> typed_config c"
| "call_typed (OUpdateConfig a u) \<longleftrightarrow> typed_update u"
| "call_typed (OSubmitPrice a p) \<longleftrightarrow> in_u64 p"
| "call_typed (OSetMaxStaleness a n) \<longleftrightarrow> in_u64 n"
| "call_typed (OSetPrice a b q p) \<longleftrightarrow> in_u128 p"
| "call_typed (OSetPriceSymbol a b q p) \<longleftrightarrow> in_u128 p"
| "call_typed _ \<longleftrightarrow> True"

text \<open>Every value of a turn fits the type the source gives it.\<close>

definition turn_typed :: "'w turn \<Rightarrow> bool" where
  "turn_typed t \<longleftrightarrow> in_u64 (timestamp (tu_env t)) \<and> typed_feeds (tu_feeds t) \<and> call_typed (tu_call t)"

definition oracle_attempt :: "'w turn \<Rightarrow> twap_oracle \<Rightarrow> twap_oracle" where
  "oracle_attempt t s = (case oracle_exec (tu_env t) (tu_feeds t) (tu_call t) s of Inl _ \<Rightarrow> s | Inr s' \<Rightarrow> s')"

definition oracle_after :: "'w turn list \<Rightarrow> twap_oracle \<Rightarrow> twap_oracle" where
  "oracle_after ts s = fold oracle_attempt ts s"

lemma oracle_exec_kept:
  assumes "oracle_ok s" and "0 \<le> oracle_depth s" and "in_u64 (timestamp e)" and "typed_feeds fd" and "call_typed call"
  shows "kept_by (oracle_exec e fd call s) s"
  using assms(5) role_calls_kept [OF assms(1)] transfer_admin_kept [OF assms(1)] initialize_kept [OF assms(1)]
    config_calls_kept [OF assms(1)] settings_kept [OF assms(1)] submit_price_kept [OF assms(1,3)]
    reads_kept [OF assms(1,2,4,3)] set_price_kept [OF assms(1)] set_price_symbol_kept [OF assms(1)]
  by (cases call) simp_all

definition oracle_steady :: "twap_oracle \<Rightarrow> bool" where
  "oracle_steady s \<longleftrightarrow> oracle_ok s \<and> oracle_depth s = 0"

definition oracle_step :: "'w itself \<Rightarrow> twap_oracle \<Rightarrow> twap_oracle \<Rightarrow> bool" where
  "oracle_step w s s' \<longleftrightarrow> (\<exists>t :: 'w turn. turn_typed t \<and> s' = oracle_attempt t s)"

lemma oracle_attempt_steady: "oracle_steady s \<Longrightarrow> turn_typed t \<Longrightarrow> oracle_steady (oracle_attempt t s)"
  using oracle_exec_kept [of s "tu_env t" "tu_feeds t" "tu_call t"]
  by (auto simp: oracle_steady_def turn_typed_def oracle_attempt_def kept_by_def split: sum.split)

lemma fresh_oracle_steady: "oracle_steady (fresh_oracle k)"
  by (simp add: oracle_steady_def oracle_ok_def oracle_depth_def fresh_oracle_def standing_empty submitters_def observations_def
      feeders_ok_def history_ok_def obs_ok_def reporters_ok_def reports_ok_def MAX_SUBMITTERS_def MAX_TWAP_OBSERVATIONS_def)

interpretation oracle_run: transition_system "\<lambda>s. \<exists>k. s = fresh_oracle k" "oracle_step w" oracle_steady
  for w :: "'w itself"
  by unfold_locales (auto simp: fresh_oracle_steady oracle_step_def oracle_attempt_steady)

lemma oracle_after_steps:
  fixes ts :: "'w turn list"
  shows "\<forall>t \<in> set ts. turn_typed t \<Longrightarrow> (oracle_step TYPE('w))\<^sup>*\<^sup>* s (oracle_after ts s)"
proof (induction ts arbitrary: s)
  case (Cons t ts)
  have "oracle_step TYPE('w) s (oracle_attempt t s)" using Cons.prems by (auto simp: oracle_step_def)
  moreover have "(oracle_step TYPE('w))\<^sup>*\<^sup>* (oracle_attempt t s) (oracle_after ts (oracle_attempt t s))" using Cons by simp
  ultimately show ?case by (simp add: oracle_after_def converse_rtranclp_into_rtranclp)
qed (simp add: oracle_after_def)

lemma oracle_reachable: "\<forall>t \<in> set ts. turn_typed t \<Longrightarrow> oracle_steady (oracle_after ts (fresh_oracle k))"
  by (rule oracle_run.reachable_inv [OF _ oracle_after_steps]) blast

text \<open>
  C32.  Whatever calls are attempted of an oracle, by whomever and whatever external
  contracts answer: once initialised it has an administrator at every time and its
  counter counts exactly those; a stored configuration is within its limits; at most 32
  feeders are listed, each once, and exactly the listed ones have a submission, of a
  positive price; at most 32 observations are kept, in strictly increasing time and
  with positive prices; each pair has at most five reporters; and the reentrancy guard
  is free.
\<close>

theorem oracle_state_consistent:
  assumes "\<forall>t \<in> set ts. turn_typed t" and "s = oracle_after ts (fresh_oracle k)"
  shows "(ok_Admin s \<noteq> None \<longrightarrow> (\<exists>a. \<forall>now. has_role now (ok_roles s) Admin a)) \<and>
     (\<forall>now. admin_count (ok_roles s) = int (card {a. has_role now (ok_roles s) Admin a})) \<and>
     (\<forall>c. read_config s = Inr c \<longrightarrow> 0 \<le> oc_decimals c \<and> oc_decimals c \<le> 19 \<and> 0 < oc_max_staleness c \<and>
        1 \<le> oc_min_submitters c \<and> oc_min_submitters c \<le> 32) \<and>
     distinct (submitters s) \<and> length (submitters s) \<le> 32 \<and>
     (\<forall>a. a \<in> set (submitters s) \<longleftrightarrow> (\<exists>d. ok_Submission s a = Some d)) \<and>
     (\<forall>a d. ok_Submission s a = Some d \<longrightarrow> 0 < pd_price d \<and> pd_price d \<le> u64_max) \<and>
     length (observations s) \<le> 32 \<and> sorted_wrt (<) (map po_timestamp (observations s)) \<and>
     (\<forall>ob \<in> set (observations s). 0 < po_price ob \<and> po_price ob \<le> u64_max) \<and>
     (\<forall>pair xs. ok_PairReporters s pair = Some xs \<longrightarrow> distinct xs \<and> length xs \<le> 5) \<and>
     (\<forall>pair xs. ok_PairSymbolReporters s pair = Some xs \<longrightarrow> distinct xs \<and> length xs \<le> 5) \<and>
     is_ok (oracle_lock s)"
proof -
  have ok: "oracle_ok s" and depth: "oracle_depth s = 0"
    using oracle_reachable [OF assms(1)] by (simp_all add: assms(2) oracle_steady_def)
  have st: "standing Admin (ok_roles s)" using ok by (simp add: oracle_ok_def)
  have admins: "ok_Admin s \<noteq> None \<longrightarrow> (\<exists>a. \<forall>now. has_role now (ok_roles s) Admin a)"
    using standing_has_admin [OF st] ok unfolding oracle_ok_def by metis
  have lock: "is_ok (oracle_lock s)"
    using oracle_guard.acquire_free [of s] depth by (simp add: ORACLE_REENTRANCY_DEPTH_def)
  have cfg: "\<forall>c. read_config s = Inr c \<longrightarrow> config_ok c" using ok by (auto simp: read_config_def ok_or_eq_Inr oracle_ok_def)
  have fd: "feeders_ok (submitters s) (ok_Submission s)" and hist: "history_ok (observations s)"
    and rep: "reporters_ok (ok_PairReporters s)" "reporters_ok (ok_PairSymbolReporters s)"
    using ok by (simp_all add: oracle_ok_def)
  have cfg': "\<forall>c. read_config s = Inr c \<longrightarrow> 0 \<le> oc_decimals c \<and> oc_decimals c \<le> 19 \<and> 0 < oc_max_staleness c \<and>
      1 \<le> oc_min_submitters c \<and> oc_min_submitters c \<le> 32"
    using cfg by (auto simp: config_ok_def MAX_SUBMITTERS_def)
  have fd': "distinct (submitters s) \<and> length (submitters s) \<le> 32 \<and>
      (\<forall>a. a \<in> set (submitters s) \<longleftrightarrow> (\<exists>d. ok_Submission s a = Some d)) \<and>
      (\<forall>a d. ok_Submission s a = Some d \<longrightarrow> 0 < pd_price d \<and> pd_price d \<le> u64_max)"
    using fd by (auto simp: feeders_ok_def MAX_SUBMITTERS_def price_ok_def)
  have hist': "length (observations s) \<le> 32 \<and> sorted_wrt (<) (map po_timestamp (observations s)) \<and>
      (\<forall>ob \<in> set (observations s). 0 < po_price ob \<and> po_price ob \<le> u64_max)"
    using hist by (auto simp: history_ok_parts MAX_TWAP_OBSERVATIONS_def in_u64_def)
  have rep': "(\<forall>pair xs. ok_PairReporters s pair = Some xs \<longrightarrow> distinct xs \<and> length xs \<le> 5) \<and>
      (\<forall>pair xs. ok_PairSymbolReporters s pair = Some xs \<longrightarrow> distinct xs \<and> length xs \<le> 5)"
    using rep by (auto simp: reporters_ok_def MAX_PAIR_REPORTERS_def)
  show ?thesis using admins standing_count(1) [OF st] cfg' fd' hist' rep' lock by blast
qed

section \<open>A sample history\<close>

definition no_feeds :: feeds where
  "no_feeds = \<lparr>fd_twap_price = (\<lambda>_. None), fd_latest_price = (\<lambda>_. None)\<rparr>"

definition sample_config :: oracle_config where
  "sample_config = \<lparr>oc_decimals = 2, oc_asset_peg = 1, oc_max_staleness = 300, oc_max_price = 0, oc_min_submit_interval = 5,
     oc_min_submitters = 1\<rparr>"

definition turn_at :: "int \<Rightarrow> oracle_call \<Rightarrow> ledger turn" where
  "turn_at now call = \<lparr>tu_env = oracle_env now, tu_feeds = no_feeds, tu_call = call\<rparr>"

definition sample_turns :: "ledger turn list" where
  "sample_turns =
    [turn_at 100 (OInitialize ''A''), turn_at 100 (OGrantRole ''A'' PriceFeeder ''F''), turn_at 100 (OConfigure ''A'' sample_config),
     turn_at 110 (OSubmitPrice ''F'' 500), turn_at 120 (OSubmitPrice ''F'' 600)]"

definition priced :: twap_oracle where
  "priced = oracle_after sample_turns (fresh_oracle [])"

lemma sample_typed: "\<forall>t \<in> set sample_turns. turn_typed t"
  by (simp add: sample_turns_def turn_at_def turn_typed_def typed_feeds_def no_feeds_def typed_config_def sample_config_def
      in_u32_def in_u64_def int_bounds)

lemma priced_steady: "oracle_steady priced"
  unfolding priced_def by (rule oracle_reachable [OF sample_typed])

lemma priced_observations: "observations priced = [\<lparr>po_price = 500, po_timestamp = 110\<rparr>, \<lparr>po_price = 600, po_timestamp = 120\<rparr>]"
  by code_simp

lemma priced_fields: "submitters priced = [''F'']" "ok_Config priced = Some sample_config" "ok_PrimaryOracle priced = None"
  "ok_FallbackOracle priced = None" "ok_Submission priced ''F'' = Some \<lparr>pd_price = 600, pd_updated_at = 120\<rparr>"
  "ok_Price priced = Some \<lparr>pd_price = 600, pd_updated_at = 120\<rparr>" "ok_Admin priced = Some ''A''"
  by code_simp+

theorem oracle_state_consistent_witness:
  "(\<exists>a. \<forall>now. has_role now (ok_roles priced) Admin a) \<and> sorted_wrt (<) (map po_timestamp (observations priced)) \<and>
   observations priced \<noteq> [] \<and> is_ok (oracle_lock priced)"
  using oracle_state_consistent [OF sample_typed priced_def] by (simp add: priced_fields priced_observations)

end
