(* ===== verification/Oracle_Rules.thy ===== *)
theory Oracle_Rules
  imports Oracle_Reach
begin

text \<open>
  What the oracle's submissions and reads promise in every state a history reaches:
  which prices are accepted and what they change, what the time-weighted price is and
  when which error is reported, that the status agrees with it, and what a payout is.
\<close>

section \<open>Submitting a price\<close>

lemma div_le_iff:
  assumes "0 < (p :: int)"
  shows "x div p \<le> n \<longleftrightarrow> x < (n + 1) * p"
proof
  assume "x div p \<le> n"
  then have "p * (x div p) \<le> p * n" using assms by simp
  moreover have "x < p * (x div p) + p" using mult_div_mod_eq [of p x] pos_mod_bound [OF assms, of x] by linarith
  ultimately show "x < (n + 1) * p" by (simp add: algebra_simps)
next
  assume "x < (n + 1) * p"
  moreover have "p * (x div p) \<le> x" using mult_div_mod_eq [of p x] pos_mod_sign [OF assms, of x] by linarith
  ultimately have "p * (x div p) < p * (n + 1)" by (simp add: mult.commute)
  then show "x div p \<le> n" using assms by simp
qed

lemma deviation_checked:
  assumes "last_price_deviation price s = Inr dev" and "\<not> above dev n" and "ok_Price s = Some d" and "0 < pd_price d"
  shows "10000 * \<bar>price - pd_price d\<bar> < (n + 1) * pd_price d"
proof -
  have "\<bar>price - pd_price d\<bar> * 10000 div pd_price d \<le> n"
    using assms by (auto simp: last_price_deviation_def and_then_eq_Inr ok_or_eq_Inr checked_u128_eq above_def)
  then show ?thesis unfolding div_le_iff [OF assms(4)] by (simp add: mult.commute)
qed

lemma oracle_unpaused_success:
  "oracle_require_not_paused e s = Inr s' \<longleftrightarrow>
     \<not> fst (is_paused (timestamp e) (ok_Paused s)) \<and> s' = s\<lparr>ok_Paused := snd (is_paused (timestamp e) (ok_Paused s))\<rparr>"
  by (auto simp: oracle_require_not_paused_def require_not_paused_def require_not_paused_flag_def map_err_eq_Inr and_then_eq_Inr Let_def split: prod.splits if_splits)

lemma checks_frame [simp]:
  "last_price_deviation price (s\<lparr>ok_Paused := p\<rparr>) = last_price_deviation price s"
  "check_submission e a price dev (s\<lparr>ok_Paused := p\<rparr>) = check_submission e a price dev s"
  "oracle_has_role e r a (s\<lparr>ok_Paused := p\<rparr>) = oracle_has_role e r a s"
  by (auto simp: last_price_deviation_def check_submission_def max_deviation_bps_def oracle_has_role_def split: option.split)

lemma check_submission_success:
  "check_submission e a price dev s = Inr () \<longleftrightarrow> (\<forall>c. ok_Config s = Some c \<longrightarrow>
     (oc_max_price c \<noteq> 0 \<longrightarrow> price \<le> oc_max_price c) \<and> (0 < max_deviation_bps s \<longrightarrow> \<not> above dev (max_deviation_bps s)) \<and>
     (\<forall>d. ok_Submission s a = Some d \<longrightarrow> 0 < oc_min_submit_interval c \<longrightarrow>
        oc_min_submit_interval c \<le> sat_u64 (timestamp e - pd_updated_at d)))"
  by (auto simp: check_submission_def not_less split: option.splits)

lemma own_submission_fresh:
  assumes "sub a = Some \<lparr>pd_price = p, pd_updated_at = now\<rparr>" and "a \<in> set roster" and "p \<noteq> 0" and "0 \<le> ms"
  shows "fresh_prices now ms sub roster \<noteq> []"
proof -
  have "p \<in> set (fresh_prices now ms sub roster)"
    using assms unfolding fresh_prices_mem by (intro bexI [OF _ assms(2)] exI [of _ "\<lparr>pd_price = p, pd_updated_at = now\<rparr>"]) (simp add: is_fresh_def sat_u64_def int_bounds)
  then show ?thesis by auto
qed

text \<open>The price an accepted submission records: the middle of the fresh submissions, its own included.\<close>

definition consensus :: "int \<Rightarrow> int \<Rightarrow> twap_oracle \<Rightarrow> int" where
  "consensus price now s = (case ok_Config s of None \<Rightarrow> price
     | Some c \<Rightarrow> middle (sort (fresh_prices now (oc_max_staleness c) (ok_Submission s) (submitters s))))"

lemma submission_median_eq:
  assumes "oracle_ok s" and "ok_Submission s a = Some \<lparr>pd_price = price, pd_updated_at = now\<rparr>" and "price \<noteq> 0"
  shows "current_submission_median price now s = Inr (consensus price now s)"
proof (cases "ok_Config s")
  case (Some c)
  let ?f = "fresh_prices now (oc_max_staleness c) (ok_Submission s) (submitters s)"
  have fd: "feeders_ok (submitters s) (ok_Submission s)" using assms(1) by (simp add: oracle_ok_def)
  then have "a \<in> set (submitters s)" using assms(2) by (auto simp: feeders_ok_def)
  moreover have "0 \<le> oc_max_staleness c" using assms(1) Some by (simp add: oracle_ok_def config_ok_def)
  ultimately have ne: "?f \<noteq> []" using own_submission_fresh [of "ok_Submission s", OF assms(2)] assms(3) by blast
  have "\<forall>x \<in> set ?f. in_u64 x" using fd fresh_prices_ok [of "ok_Submission s"] by (auto simp: feeders_ok_def)
  then show ?thesis using median_eq [OF ne] ne Some by (simp add: current_submission_median_def consensus_def Let_def)
qed (simp add: current_submission_median_def consensus_def)

lemma submit_price_checked:
  assumes "submit_price e caller price s = Inr s'"
  shows "authorized e caller" and "has_role (timestamp e) (ok_roles s) PriceFeeder caller"
    and "\<not> fst (is_paused (timestamp e) (ok_Paused s))" and "price \<noteq> 0"
    and "\<exists>dev. last_price_deviation price s = Inr dev \<and> \<not> above dev 5000 \<and> check_submission e caller price dev s = Inr ()"
  by (rule submit_price_success [OF assms]; simp add: oracle_unpaused_success oracle_require_role_success oracle_has_role_def)+

lemma submit_price_effect:
  assumes "oracle_ok s" and "in_u64 (timestamp e)" and "in_u64 price" and "submit_price e caller price s = Inr s'"
  shows "s' = s\<lparr>ok_Paused := snd (is_paused (timestamp e) (ok_Paused s)),
        ok_Price := Some \<lparr>pd_price = price, pd_updated_at = timestamp e\<rparr>,
        ok_Submission := (ok_Submission s)(caller \<mapsto> \<lparr>pd_price = price, pd_updated_at = timestamp e\<rparr>),
        ok_Submitters := Some (if caller \<in> set (submitters s) then submitters s else submitters s @ [caller]),
        ok_PriceObservations := Some (recorded
          \<lparr>po_price = consensus price (timestamp e) s', po_timestamp = timestamp e\<rparr> (observations s)),
        or_events := or_events s @ [EvPriceSubmitted caller price (timestamp e)], or_ttl := or_ttl s'\<rparr>"
proof -
  obtain p l s5 m s4 where np: "oracle_require_not_paused e s = Inr (s\<lparr>ok_Paused := p\<rparr>)" and price: "price \<noteq> 0"
    and len: "int (length (enrolled caller (submitters s))) \<le> max MAX_SUBMITTERS (int (length (submitters s)))"
    and s4: "s4 = s\<lparr>ok_Paused := p, ok_Price := Some \<lparr>pd_price = price, pd_updated_at = timestamp e\<rparr>,
       ok_Submission := (ok_Submission s)(caller \<mapsto> \<lparr>pd_price = price, pd_updated_at = timestamp e\<rparr>),
       ok_Submitters := Some (enrolled caller (submitters s)), or_ttl := l\<rparr>"
    and m: "current_submission_median price (timestamp e) s4 = Inr m"
    and s5: "record_price_observation m (timestamp e) s4 = Inr s5"
    and s': "s' = oracle_emit (EvPriceSubmitted caller price (timestamp e)) s5"
    using assms(4) by (rule submit_price_success) (rule that)
  have ok4: "oracle_ok s4" by (rule submitted_ok [OF assms(1-3) price len s4])
  have "ok_Paused (s\<lparr>ok_Paused := p\<rparr>) = ok_Paused (s\<lparr>ok_Paused := snd (is_paused (timestamp e) (ok_Paused s))\<rparr>)"
    using np unfolding oracle_unpaused_success by simp
  then have p: "p = snd (is_paused (timestamp e) (ok_Paused s))" by simp
  have "ok_Submission s4 caller = Some \<lparr>pd_price = price, pd_updated_at = timestamp e\<rparr>" by (simp add: s4)
  then have m': "m = consensus price (timestamp e) s4" using submission_median_eq [OF ok4 _ price] m by simp
  have obs4: "observations s4 = observations s" by (simp add: s4 observations_def)
  obtain l5 where s5': "s5 = s4\<lparr>ok_PriceObservations := Some (recorded \<lparr>po_price = m, po_timestamp = timestamp e\<rparr> (observations s)), or_ttl := l5\<rparr>"
    using s5 unfolding record_price_observation_success oracle_renew_success obs4 by blast
  have "consensus price (timestamp e) s4 = consensus price (timestamp e) s'"
    by (simp add: consensus_def s' s5' oracle_emit_def submitters_def split: option.split)
  then show ?thesis using m' by (simp add: s' s5' s4 p oracle_emit_def enrolled_def)
qed

text \<open>
  C33.  In every reachable state, a price is accepted only while the oracle is not
  paused, from an account that authorizes the call and holds the feeder role; it is
  positive, and once the oracle is configured it stays within the configured ceiling,
  deviates from the last accepted price by no more than the configured basis points (to
  the next whole one) and comes no sooner than the configured interval after the
  feeder's previous one.  It becomes
  the last price and the feeder's submission, the feeder is listed, the middle of all
  fresh submissions is recorded as the observation of that second, and nothing else but
  the lazily cleared pause record, the event and the renewed storage changes.
\<close>

theorem submit_price_correct:
  fixes e :: "'w env"
  assumes "oracle_steady s" and "in_u64 (timestamp e)" and "in_u64 price" and "submit_price e caller price s = Inr s'"
  shows "authorized e caller \<and> has_role (timestamp e) (ok_roles s) PriceFeeder caller \<and>
     \<not> fst (is_paused (timestamp e) (ok_Paused s)) \<and> 0 < price \<and>
     (\<forall>c. ok_Config s = Some c \<longrightarrow>
        (oc_max_price c \<noteq> 0 \<longrightarrow> price \<le> oc_max_price c) \<and>
        (\<forall>n d. ok_MaxDeviationBps s = Some n \<longrightarrow> 0 < n \<longrightarrow> ok_Price s = Some d \<longrightarrow>
           10000 * \<bar>price - pd_price d\<bar> < (n + 1) * pd_price d) \<and>
        (\<forall>d. ok_Submission s caller = Some d \<longrightarrow> 0 < oc_min_submit_interval c \<longrightarrow>
           oc_min_submit_interval c \<le> sat_u64 (timestamp e - pd_updated_at d))) \<and>
     s' = s\<lparr>ok_Paused := snd (is_paused (timestamp e) (ok_Paused s)),
        ok_Price := Some \<lparr>pd_price = price, pd_updated_at = timestamp e\<rparr>,
        ok_Submission := (ok_Submission s)(caller \<mapsto> \<lparr>pd_price = price, pd_updated_at = timestamp e\<rparr>),
        ok_Submitters := Some (if caller \<in> set (submitters s) then submitters s else submitters s @ [caller]),
        ok_PriceObservations := Some (recorded
          \<lparr>po_price = consensus price (timestamp e) s', po_timestamp = timestamp e\<rparr> (observations s)),
        or_events := or_events s @ [EvPriceSubmitted caller price (timestamp e)], or_ttl := or_ttl s'\<rparr>"
proof -
  have ok: "oracle_ok s" using assms(1) by (simp add: oracle_steady_def)
  note checked = submit_price_checked [OF assms(4)]
  obtain dev where dev: "last_price_deviation price s = Inr dev" "\<not> above dev 5000" "check_submission e caller price dev s = Inr ()"
    using checked(5) by blast
  have pos: "\<forall>d. ok_Price s = Some d \<longrightarrow> 0 < pd_price d" using ok by (simp add: oracle_ok_def price_ok_def)
  have "\<forall>n d. ok_MaxDeviationBps s = Some n \<longrightarrow> 0 < n \<longrightarrow> ok_Price s = Some d \<longrightarrow>
      10000 * \<bar>price - pd_price d\<bar> < (n + 1) * pd_price d" if "ok_Config s = Some c" for c
    using dev(3) that pos deviation_checked [OF dev(1)] unfolding check_submission_success by (auto simp: max_deviation_bps_def)
  moreover have "0 < price" using checked(4) assms(3) by (simp add: in_u64_def)
  ultimately show ?thesis
    using checked(1-3) dev(3) submit_price_effect [OF ok assms(2-4)] unfolding check_submission_success by blast
qed

theorem submit_price_correct_witness:
  "\<exists>s'. submit_price (oracle_env 130) ''F'' 700 priced = Inr s' \<and>
     ok_Submission s' ''F'' = Some \<lparr>pd_price = 700, pd_updated_at = 130\<rparr> \<and> ok_roles s' = ok_roles priced \<and>
     or_events s' = or_events priced @ [EvPriceSubmitted ''F'' 700 130]"
proof -
  let ?r = "submit_price (oracle_env 130) ''F'' 700 priced"
  have "is_ok ?r" by code_simp
  then obtain s' where r: "?r = Inr s'" by (auto simp: is_ok_iff)
  have "in_u64 700" "in_u64 (timestamp (oracle_env 130))" by (simp_all add: in_u64_def int_bounds)
  note c = submit_price_correct [OF priced_steady this(2,1) r, THEN conjunct2, THEN conjunct2, THEN conjunct2, THEN conjunct2,
      THEN conjunct2]
  show ?thesis using r arg_cong [OF c, of ok_Submission] arg_cong [OF c, of ok_roles] arg_cong [OF c, of or_events] by simp
qed

text \<open>
  Beside the configured limit there is a fixed one: whatever the configuration, a price
  that deviates from the last accepted one by 50.01 percent or more is refused.  Unit
  tests of the crate disagree about it: one expects the refusal, twelve submit such
  prices and expect them to be accepted.
\<close>

theorem submit_price_hard_limit:
  assumes "oracle_ok s" and "ok_Price s = Some d" and "5001 * pd_price d \<le> 10000 * \<bar>price - pd_price d\<bar>"
  shows "submit_price e caller price s \<noteq> Inr s'"
proof
  assume r: "submit_price e caller price s = Inr s'"
  obtain dev where dev: "last_price_deviation price s = Inr dev" "\<not> above dev 5000" using submit_price_checked(5) [OF r] by blast
  have "0 < pd_price d" using assms(1,2) by (simp add: oracle_ok_def price_ok_def)
  then show False using deviation_checked [OF dev] assms(2,3) by fastforce
qed

section \<open>The time-weighted price\<close>

text \<open>Without configured feeds there is nothing to fall over to.\<close>

lemma no_feeds_alternative: "\<not> feeds_configured s \<Longrightarrow> from_feeds_or e fd k ms s alt = alt"
  by (simp add: from_feeds_or_def resolve_oracle_with_failover_def feeds_configured_def)

definition fresh_now :: "'w env \<Rightarrow> oracle_config \<Rightarrow> twap_oracle \<Rightarrow> int list" where
  "fresh_now e c s = fresh_prices (timestamp e) (oc_max_staleness c) (ok_Submission s) (submitters s)"

text \<open>The price an oracle with enough fresh submissions reports.\<close>

definition reported_price :: "'w env \<Rightarrow> oracle_config \<Rightarrow> twap_oracle \<Rightarrow> int" where
  "reported_price e c s =
     (if priced_seconds (timestamp e) (oc_max_staleness c) (observations s) = {} then middle (sort (fresh_now e c s))
      else time_average (timestamp e) (oc_max_staleness c) (observations s))"

lemma fresh_now_ok: "oracle_ok s \<Longrightarrow> p \<in> set (fresh_now e c s) \<Longrightarrow> 1 \<le> p \<and> p \<le> u64_max"
  using fresh_prices_ok [of "ok_Submission s" p] unfolding fresh_now_def oracle_ok_def feeders_ok_def in_u64_def
  by (metis add_0 zless_imp_add1_zle)

lemma average_of_submissions:
  fixes e :: "'w env"
  assumes "oracle_ok s" and "in_u64 (timestamp e)" and "ok_Config s = Some c" and "fresh_now e c s \<noteq> []"
  shows "or_instead (calculate_twap e MAX_TWAP_OBSERVATIONS (oc_max_staleness c) s) (median (fresh_now e c s)) = Inr (reported_price e c s)"
proof -
  have hist: "obs_ok (observations s)" "length (observations s) \<le> 32"
    using assms(1) by (auto simp: oracle_ok_def history_ok_def MAX_TWAP_OBSERVATIONS_def)
  have ms: "in_u64 (oc_max_staleness c)" using assms(1,3) by (simp add: oracle_ok_def config_ok_def in_u64_def)
  have all: "observations s = drop (length (observations s) - nat MAX_TWAP_OBSERVATIONS) (observations s)"
    using hist(2) by (simp add: MAX_TWAP_OBSERVATIONS_def)
  have "\<forall>x \<in> set (fresh_now e c s). in_u64 x" using fresh_now_ok [OF assms(1)] by (fastforce simp: in_u64_def)
  then have "median (fresh_now e c s) = Inr (middle (sort (fresh_now e c s)))" by (rule median_eq [OF assms(4)])
  then show ?thesis
    using calculate_twap_eq [OF hist(1) assms(2) ms all] by (simp add: or_instead_def reported_price_def)
qed

lemma twap_of_submissions_eq:
  fixes e :: "'w env"
  assumes "oracle_ok s" and "in_u64 (timestamp e)" and "ok_Config s = Some c" and "\<not> feeds_configured s"
  shows "twap_of_submissions e fd MAX_TWAP_OBSERVATIONS c s =
     (if submitters s = [] then Inl (Err NoPriceAvailable)
      else if fresh_now e c s = [] then Inl (Err OracleStalePrice)
      else if int (length (fresh_now e c s)) < oc_min_submitters c then Inl (Err InsufficientQuorum)
      else Inr (reported_price e c s, s))"
proof -
  have "(\<exists>a \<in> set (submitters s). ok_Submission s a \<noteq> None) \<longleftrightarrow> submitters s \<noteq> []"
    using assms(1) by (cases "submitters s") (auto simp: oracle_ok_def feeders_ok_def)
  moreover have "submitters s = [] \<Longrightarrow> fresh_now e c s = []" by (simp add: fresh_now_def)
  ultimately show ?thesis
    using average_of_submissions [OF assms(1-3)]
    by (simp add: twap_of_submissions_def no_feeds_alternative [OF assms(4)] fresh_now_def [symmetric] Let_def)
qed

lemma guard_run:
  assumes "oracle_depth s = 0"
  shows "oracle_with_guard f s = and_then (f (s\<lparr>ok_Lock := Some 1\<rparr>)) (\<lambda>(r, t). Inr (r, oracle_unlock t))"
  using assms by (auto simp: oracle_with_guard_def oracle_lock_def oracle_depth_def ORACLE_REENTRANCY_DEPTH_def plain_u32_def
      in_u32_def int_bounds Let_def split: option.splits)

lemma locked_frame [simp]:
  "fresh_now e c (s\<lparr>ok_Lock := n\<rparr>) = fresh_now e c s" "reported_price e c (s\<lparr>ok_Lock := n\<rparr>) = reported_price e c s"
  "submitters (s\<lparr>ok_Lock := n\<rparr>) = submitters s" "feeds_configured (s\<lparr>ok_Lock := n\<rparr>) = feeds_configured s"
  by (simp_all add: fresh_now_def reported_price_def submitters_def observations_def feeds_configured_def)

lemma unlocked [simp]: "oracle_unlock (s\<lparr>ok_Lock := Some 1\<rparr>) = s\<lparr>ok_Lock := Some 0\<rparr>"
  by (simp add: oracle_unlock_def)

lemma get_twap_price_eq:
  fixes e :: "'w env"
  assumes "oracle_steady s" and "in_u64 (timestamp e)" and "\<not> feeds_configured s"
  shows "get_twap_price e fd s = (case ok_Config s of
      None \<Rightarrow> Inl (Err OracleNotConfigured)
    | Some c \<Rightarrow>
        (if submitters s = [] then Inl (Err NoPriceAvailable)
         else if fresh_now e c s = [] then Inl (Err OracleStalePrice)
         else if int (length (fresh_now e c s)) < oc_min_submitters c then Inl (Err InsufficientQuorum)
         else Inr (reported_price e c s, s\<lparr>ok_Lock := Some 0\<rparr>)))"
proof -
  let ?s = "s\<lparr>ok_Lock := Some 1\<rparr>"
  have ok: "oracle_ok ?s" and d: "oracle_depth s = 0" using assms(1) by (simp_all add: oracle_steady_def)
  have nf: "\<not> feeds_configured ?s" using assms(3) by simp
  show ?thesis
  proof (cases "ok_Config s")
    case None
    then show ?thesis by (simp add: get_twap_price_def guard_run [OF d] get_twap_price_inner_def MAX_TWAP_OBSERVATIONS_def)
  next
    case (Some c)
    then have c: "ok_Config ?s = Some c" by simp
    then have "get_twap_price_inner e fd MAX_TWAP_OBSERVATIONS ?s = twap_of_submissions e fd MAX_TWAP_OBSERVATIONS c ?s"
      using nf by (simp add: get_twap_price_inner_def MAX_TWAP_OBSERVATIONS_def)
    then show ?thesis
      using Some unfolding get_twap_price_def guard_run [OF d] twap_of_submissions_eq [OF ok assms(2) c nf] by simp
  qed
qed

text \<open>Bounds of the observations and of the fresh submissions bound the reported price.\<close>

lemma reported_price_bounds:
  fixes e :: "'w env"
  assumes "oracle_ok s" and "\<forall>ob \<in> set (observations s). lo \<le> po_price ob \<and> po_price ob \<le> hi"
    and "\<forall>p \<in> set (fresh_now e c s). lo \<le> p \<and> p \<le> hi" and "fresh_now e c s \<noteq> []"
  shows "lo \<le> reported_price e c s \<and> reported_price e c s \<le> hi"
proof -
  have "filter (\<lambda>x. lo \<le> x \<and> x \<le> hi) (fresh_now e c s) = fresh_now e c s" using assms(3) by simp
  then have "lo \<le> middle (sort (fresh_now e c s)) \<and> middle (sort (fresh_now e c s)) \<le> hi"
    using assms(4) by (intro middle_robust) simp
  moreover have "obs_ok (observations s)" using assms(1) by (simp add: oracle_ok_def history_ok_def)
  ultimately show ?thesis using average_bounds [OF _ _ assms(2)] by (simp add: reported_price_def)
qed

text \<open>
  C34.  In every reachable state of an oracle without external feeds,
  \<^verbatim>\<open>get_twap_price\<close> fails exactly when there is no configuration, no submission, no
  fresh submission or fewer fresh ones than the quorum, each with its own error; in
  every other case it returns the average price over all seconds covered by a valid
  observation (the median of the fresh submissions when no second is covered) and
  changes nothing; and the price it returns is positive, fits 64 bits and lies between
  the least and the greatest of the stored observations and fresh submissions.
\<close>

theorem get_twap_price_correct:
  fixes e :: "'w env"
  assumes "oracle_steady s" and "in_u64 (timestamp e)" and "\<not> feeds_configured s"
  shows "get_twap_price e fd s = (case ok_Config s of
      None \<Rightarrow> Inl (Err OracleNotConfigured)
    | Some c \<Rightarrow>
        (let fresh = fresh_prices (timestamp e) (oc_max_staleness c) (ok_Submission s) (submitters s);
             seconds = priced_seconds (timestamp e) (oc_max_staleness c) (observations s) in
         if submitters s = [] then Inl (Err NoPriceAvailable)
         else if fresh = [] then Inl (Err OracleStalePrice)
         else if int (length fresh) < oc_min_submitters c then Inl (Err InsufficientQuorum)
         else Inr (if seconds = {} then middle (sort fresh)
                   else (\<Sum>t \<in> seconds. the (price_at (oc_max_staleness c) (observations s) t)) div int (card seconds),
                   s\<lparr>ok_Lock := Some 0\<rparr>))) \<and>
     (\<forall>price s'. get_twap_price e fd s = Inr (price, s') \<longrightarrow> 0 < price \<and> price \<le> u64_max \<and>
        (\<forall>lo hi c. ok_Config s = Some c \<longrightarrow> (\<forall>ob \<in> set (observations s). lo \<le> po_price ob \<and> po_price ob \<le> hi) \<longrightarrow>
           (\<forall>p \<in> set (fresh_prices (timestamp e) (oc_max_staleness c) (ok_Submission s) (submitters s)). lo \<le> p \<and> p \<le> hi) \<longrightarrow>
           lo \<le> price \<and> price \<le> hi))"
proof -
  note eq = get_twap_price_eq [OF assms]
  have ok: "oracle_ok s" using assms(1) by (simp add: oracle_steady_def)
  have bounds: "0 < price \<and> price \<le> u64_max \<and>
      (\<forall>lo hi c. ok_Config s = Some c \<longrightarrow> (\<forall>ob \<in> set (observations s). lo \<le> po_price ob \<and> po_price ob \<le> hi) \<longrightarrow>
         (\<forall>p \<in> set (fresh_prices (timestamp e) (oc_max_staleness c) (ok_Submission s) (submitters s)). lo \<le> p \<and> p \<le> hi) \<longrightarrow>
         lo \<le> price \<and> price \<le> hi)" if run: "get_twap_price e fd s = Inr (price, s')" for price s'
  proof -
    obtain c where c: "ok_Config s = Some c" "fresh_now e c s \<noteq> []" "price = reported_price e c s"
      using run unfolding eq by (auto split: option.splits if_splits)
    have "\<forall>ob \<in> set (observations s). 1 \<le> po_price ob \<and> po_price ob \<le> u64_max"
      using ok by (auto simp: oracle_ok_def history_ok_parts in_u64_def)
    moreover have "\<forall>p \<in> set (fresh_now e c s). 1 \<le> p \<and> p \<le> u64_max"
      using fresh_now_ok [OF ok] by blast
    ultimately have "1 \<le> price \<and> price \<le> u64_max" using reported_price_bounds [OF ok] c by blast
    then show ?thesis using reported_price_bounds [OF ok] c unfolding fresh_now_def by auto
  qed
  show ?thesis
    using eq bounds unfolding reported_price_def fresh_now_def time_average_def Let_def by blast
qed

theorem get_twap_price_correct_witness:
  "get_twap_price (oracle_env 130) no_feeds priced = Inr (550, priced\<lparr>ok_Lock := Some 0\<rparr>) \<and>
   get_twap_price (oracle_env 500) no_feeds priced = Inl (Err OracleStalePrice)"
proof -
  have now: "in_u64 (timestamp (oracle_env 130))" "in_u64 (timestamp (oracle_env 500))" by (simp_all add: in_u64_def int_bounds)
  have nf: "\<not> feeds_configured priced" by (simp add: feeds_configured_def priced_fields)
  have "case get_twap_price (oracle_env 130) no_feeds priced of Inr (p, _) \<Rightarrow> p = 550 | Inl _ \<Rightarrow> False" by code_simp
  then obtain t where t: "get_twap_price (oracle_env 130) no_feeds priced = Inr (550, t)" by (auto split: sum.splits prod.splits)
  then have "t = priced\<lparr>ok_Lock := Some 0\<rparr>"
    using get_twap_price_correct [OF priced_steady now(1) nf, of no_feeds, THEN conjunct1]
    by (auto simp: Let_def split: option.splits if_splits)
  moreover have "get_twap_price (oracle_env 500) no_feeds priced = Inl (Err OracleStalePrice)"
    using get_twap_price_correct [OF priced_steady now(2) nf, of no_feeds, THEN conjunct1]
    by (simp add: priced_fields sample_config_def is_fresh_def sat_u64_def int_bounds Let_def)
  ultimately show ?thesis using t by simp
qed

section \<open>Prices from feeds and payouts\<close>

lemma average_positive:
  fixes e :: "'w env"
  assumes "oracle_ok s" and "in_u64 (timestamp e)" and "in_u64 ms" and "calculate_twap e k ms s = Inr p"
  shows "0 < p \<and> p \<le> u64_max"
proof -
  let ?used = "drop (length (observations s) - nat k) (observations s)"
  have h: "obs_ok (observations s)" "\<forall>ob \<in> set (observations s). 1 \<le> po_price ob \<and> po_price ob \<le> u64_max"
    using assms(1) by (auto simp: oracle_ok_def history_ok_def obs_ok_def in_u64_def)
  have "p = time_average (timestamp e) ms ?used" "priced_seconds (timestamp e) ms ?used \<noteq> {}"
    using assms(4) unfolding calculate_twap_eq [OF h(1) assms(2,3) refl] by (auto split: if_splits)
  moreover have "\<forall>ob \<in> set ?used. 1 \<le> po_price ob \<and> po_price ob \<le> u64_max" using h(2) by (auto dest: in_set_dropD)
  ultimately have "1 \<le> p \<and> p \<le> u64_max" using average_bounds [OF obs_ok_drop [OF h(1)]] by blast
  then show ?thesis by simp
qed

lemma recorded_price_positive:
  fixes e :: "'w env"
  assumes "record_and_calculate_twap e price ts k ms s = Inr (p, s')" and "oracle_ok s" and "in_u64 (timestamp e)" and "in_u64 ms"
    and "in_u64 ts" and "in_u64 price" and "0 < price"
  shows "0 < p \<and> p \<le> u64_max"
proof -
  have rec: "record_price_observation price ts s = Inr s'"
    and p: "or_instead (calculate_twap e k ms s') (Inr price) = Inr p"
    using assms(1) by (auto simp: record_and_calculate_twap_def and_then_eq_Inr)
  have "oracle_ok s'" using record_price_observation_kept [OF rec assms(2,5-7)] by simp
  then show ?thesis
    using p average_positive [OF _ assms(3,4)] assms(6,7)
    by (auto simp: or_instead_def in_u64_def split: sum.splits failure.splits oracle_error.splits)
qed

lemma from_feeds_positive:
  fixes e :: "'w env"
  assumes "from_feeds_or e fd k ms s alt = Inr (p, s')" and "oracle_ok s" and "in_u64 (timestamp e)" and "typed_feeds fd"
    and "in_u64 ms" and "alt = Inr (p, s') \<Longrightarrow> 0 < p \<and> p \<le> u64_max"
  shows "0 < p \<and> p \<le> u64_max"
  using from_feeds_or_success [OF assms(1)]
proof
  assume "\<exists>d. resolve_oracle_with_failover e fd ms s = Inr d \<and>
     record_and_calculate_twap e (pd_price d) (pd_updated_at d) k ms s = Inr (p, s')"
  then obtain d where r: "resolve_oracle_with_failover e fd ms s = Inr d"
    and rec: "record_and_calculate_twap e (pd_price d) (pd_updated_at d) k ms s = Inr (p, s')" by blast
  obtain a where "query_oracle_feed e fd a ms s = Inr d" using resolve_success [OF r] by blast
  then have "price_ok d" by (rule query_feed_ok [OF _ assms(2,4,3)])
  then show ?thesis by (intro recorded_price_positive [OF rec assms(2,3,5)]) (simp_all add: price_ok_def in_u64_def)
qed (rule assms(6))

lemma twap_inner_positive:
  fixes e :: "'w env"
  assumes "get_twap_price_inner e fd k s = Inr (p, s')" and "oracle_ok s" and "in_u64 (timestamp e)" and "typed_feeds fd"
  shows "0 < p \<and> p \<le> u64_max"
proof -
  obtain c where c: "ok_Config s = Some c"
    and r: "from_feeds_or e fd k (oc_max_staleness c) s (twap_of_submissions e fd k c s) = Inr (p, s') \<or>
      twap_of_submissions e fd k c s = Inr (p, s')"
    using assms(1) by (auto simp: get_twap_price_inner_def and_then_eq_Inr ok_or_eq_Inr Let_def split: if_splits)
  have ms: "in_u64 (oc_max_staleness c)" using assms(2) c by (simp add: oracle_ok_def config_ok_def in_u64_def)
  note feeds = from_feeds_positive [OF _ assms(2-4) ms]
  have sub: "0 < p \<and> p \<le> u64_max" if run: "twap_of_submissions e fd k c s = Inr (p, s')"
  proof -
    let ?f = "fresh_now e c s"
    have "median ?f = Inr m \<Longrightarrow> 0 < m \<and> m \<le> u64_max" if "?f \<noteq> []" for m
      using median_positive [OF that] fresh_now_ok [OF assms(2)] by (fastforce simp: in_u64_def)
    then show ?thesis
      using run feeds average_positive [OF assms(2,3) ms]
      unfolding twap_of_submissions_def Let_def fresh_now_def [symmetric]
      by (auto simp: and_then_eq_Inr or_instead_def split: if_splits sum.splits failure.splits oracle_error.splits)
  qed
  then show ?thesis using r feeds by blast
qed

lemma power_of_ten_fits: "0 \<le> n \<Longrightarrow> n \<le> 19 \<Longrightarrow> in_u128 (10 ^ nat n)"
proof -
  assume "0 \<le> n" "n \<le> 19"
  then have "(10 :: int) ^ nat n \<le> 10 ^ 19" by (intro power_increasing) simp_all
  moreover have "(10 :: int) ^ 19 \<le> u128_max" by (simp add: int_bounds)
  ultimately show ?thesis by (simp add: in_u128_def)
qed

lemma product_fits: "in_u64 a \<Longrightarrow> 0 < p \<Longrightarrow> p \<le> u64_max \<Longrightarrow> in_u128 (a * p)"
proof -
  assume "in_u64 a" "0 < p" "p \<le> u64_max"
  then have "a * p \<le> u64_max * u64_max" by (intro mult_mono) (simp_all add: in_u64_def int_bounds)
  moreover have "u64_max * u64_max \<le> u128_max" by (simp add: int_bounds)
  ultimately show ?thesis using \<open>in_u64 a\<close> \<open>0 < p\<close> by (simp add: in_u128_def in_u64_def)
qed

lemma payout_inner_eq:
  fixes e :: "'w env"
  assumes "oracle_ok s" and "in_u64 (timestamp e)" and "typed_feeds fd" and "in_u64 amount"
  shows "calculate_fiat_stream_payout_inner e fd amount s =
     and_then (get_twap_price_inner e fd MAX_TWAP_OBSERVATIONS s) (\<lambda>(price, s1).
       let v = amount * price div 10 ^ nat (oc_decimals (the (ok_Config s))) in
       if u64_max < v then Inl (Err ArithmeticOverflow) else Inr (v, s1))"
proof (cases "get_twap_price_inner e fd MAX_TWAP_OBSERVATIONS s")
  case (Inr r)
  obtain price s1 where r: "r = (price, s1)" by fastforce
  note run = Inr [unfolded r]
  obtain c where c: "ok_Config s = Some c"
    using run by (auto simp: get_twap_price_inner_def and_then_eq_Inr ok_or_eq_Inr split: if_splits)
  have "ok_Config s1 = Some c" using only_records_frame [OF twap_inner_records [OF run]] c by auto
  moreover have "in_u128 (10 ^ nat (oc_decimals c))" using assms(1) c by (intro power_of_ten_fits) (simp_all add: oracle_ok_def config_ok_def)
  moreover have "in_u128 (amount * price)" using twap_inner_positive [OF run assms(1-3)] product_fits [OF assms(4)] by blast
  ultimately show ?thesis
    by (simp add: calculate_fiat_stream_payout_inner_def run c checked_u128_def)
qed (simp add: calculate_fiat_stream_payout_inner_def)

text \<open>
  C36.  In every reachable state, whatever feeds are configured and whatever they
  answer, \<^verbatim>\<open>calculate_fiat_stream_payout\<close> fails with the error of \<^verbatim>\<open>get_twap_price\<close> when
  that fails; otherwise the payout is the amount times that price (a positive one of 64
  bits) divided by ten to the configured decimals, rounded down, and the call fails
  with \<^verbatim>\<open>ArithmeticOverflow\<close> exactly when this value needs more than 64 bits: no
  intermediate result overflows and the decimals never do.
\<close>

theorem fiat_payout_exact:
  fixes e :: "'w env"
  assumes "oracle_steady s" and "in_u64 (timestamp e)" and "typed_feeds fd" and "in_u64 amount"
  shows "calculate_fiat_stream_payout e fd amount s = (case get_twap_price e fd s of
      Inl f \<Rightarrow> Inl f
    | Inr (price, s') \<Rightarrow>
        (let v = amount * price div 10 ^ nat (oc_decimals (the (ok_Config s))) in
         if u64_max < v then Inl (Err ArithmeticOverflow) else Inr (v, s'))) \<and>
     (\<forall>price s'. get_twap_price e fd s = Inr (price, s') \<longrightarrow> 0 < price \<and> price \<le> u64_max \<and> ok_Config s \<noteq> None)"
proof -
  let ?s = "s\<lparr>ok_Lock := Some 1\<rparr>"
  have ok: "oracle_ok ?s" and d: "oracle_depth s = 0" using assms(1) by (simp_all add: oracle_steady_def)
  have "0 < price \<and> price \<le> u64_max \<and> ok_Config s \<noteq> None" if run0: "get_twap_price e fd s = Inr (price, s')" for price s'
  proof -
    obtain t where run: "get_twap_price_inner e fd MAX_TWAP_OBSERVATIONS ?s = Inr (price, t)"
      using run0 unfolding get_twap_price_def guard_run [OF d] and_then_eq_Inr by (auto split: prod.splits)
    then have "ok_Config ?s \<noteq> None" by (auto simp: get_twap_price_inner_def and_then_eq_Inr ok_or_eq_Inr split: if_splits)
    then show ?thesis using twap_inner_positive [OF run ok assms(2,3)] by simp
  qed
  moreover have "calculate_fiat_stream_payout e fd amount s = (case get_twap_price e fd s of
      Inl f \<Rightarrow> Inl f | Inr (price, s') \<Rightarrow>
        (let v = amount * price div 10 ^ nat (oc_decimals (the (ok_Config s))) in
         if u64_max < v then Inl (Err ArithmeticOverflow) else Inr (v, s')))"
    unfolding calculate_fiat_stream_payout_def get_twap_price_def guard_run [OF d] payout_inner_eq [OF ok assms(2-4)]
    by (cases "get_twap_price_inner e fd MAX_TWAP_OBSERVATIONS ?s") (auto simp: Let_def)
  ultimately show ?thesis by blast
qed

theorem fiat_payout_exact_witness:
  "\<exists>s'. calculate_fiat_stream_payout (oracle_env 130) no_feeds 1001 priced = Inr (5505, s')"
proof -
  have w: "in_u64 (timestamp (oracle_env 130))" "typed_feeds no_feeds" "in_u64 1001"
    by (simp_all add: in_u64_def int_bounds typed_feeds_def no_feeds_def)
  have "case get_twap_price (oracle_env 130) no_feeds priced of Inr (p, _) \<Rightarrow> p = 550 | Inl _ \<Rightarrow> False" by code_simp
  then obtain t where "get_twap_price (oracle_env 130) no_feeds priced = Inr (550, t)" by (auto split: sum.splits prod.splits)
  then show ?thesis
    using fiat_payout_exact [OF priced_steady w] by (simp add: priced_fields sample_config_def int_bounds Let_def)
qed

end
