(* ===== verification/Oracle_Reads.thy ===== *)
theory Oracle_Reads
  imports Oracle_Rules
begin

text \<open>
  The oracle's other reads: the health of the feeders agrees with what a read returns,
  prices of pairs are medians of the fresh reports of authorized reporters, a reported
  price is read back, and stored configurations are.
\<close>

section \<open>Status\<close>

definition fresh_data :: "int \<Rightarrow> int \<Rightarrow> (address \<Rightarrow> price_data option) \<Rightarrow> address list \<Rightarrow> price_data list" where
  "fresh_data now ms sub as = filter (is_fresh now ms) (map (\<lambda>a. the (sub a)) (filter (\<lambda>a. sub a \<noteq> None) as))"

lemma fresh_prices_eq: "fresh_prices now ms sub as = map pd_price (fresh_data now ms sub as)"
  by (induction "as") (auto simp: fresh_data_def split: option.split)

definition ages :: "int \<Rightarrow> int \<Rightarrow> (address \<Rightarrow> price_data option) \<Rightarrow> address list \<Rightarrow> int list" where
  "ages now ms sub as = map (\<lambda>d. sat_u64 (now - pd_updated_at d)) (fresh_data now ms sub as)"

definition extremes :: "int \<Rightarrow> int \<Rightarrow> int \<Rightarrow> int list \<Rightarrow> int \<times> int" where
  "extremes cnt nw od xs =
     (if xs = [] then (nw, od) else if cnt = 0 then (Min (set xs), Max (set xs)) else (min nw (Min (set xs)), max od (Max (set xs))))"

lemma extremes_Cons:
  assumes "0 \<le> cnt"
  shows "extremes cnt nw od (x # xs) =
     extremes (cnt + 1) (if cnt = 0 then x else min nw x) (if cnt = 0 then x else max od x) xs"
  using assms by (cases "xs = []") (auto simp: extremes_def min.assoc max.assoc)

lemma status_loop_eq:
  assumes "0 \<le> cnt" and "cnt + int (length as) \<le> u32_max"
  shows "status_loop now ms sub as (cnt, nw, od, saw) =
     Inr (cnt + int (length (ages now ms sub as)), fst (extremes cnt nw od (ages now ms sub as)),
          snd (extremes cnt nw od (ages now ms sub as)), saw \<or> (\<exists>a \<in> set as. sub a \<noteq> None))"
  using assms
proof (induction "as" arbitrary: cnt nw od saw)
  case Nil
  then show ?case by (simp add: ages_def fresh_data_def extremes_def)
next
  case (Cons a "as")
  show ?case
  proof (cases "sub a")
    case None
    then show ?thesis using Cons by (simp add: ages_def fresh_data_def)
  next
    case (Some d)
    let ?x = "sat_u64 (now - pd_updated_at d)"
    show ?thesis
    proof (cases "is_fresh now ms d")
      case True
      have "ages now ms sub (a # as) = ?x # ages now ms sub as" using Some True by (simp add: ages_def fresh_data_def)
      moreover have "in_u32 (cnt + 1)" using Cons.prems by (simp add: in_u32_def)
      ultimately show ?thesis
        using Some True Cons.IH [of "cnt + 1"] Cons.prems extremes_Cons [OF Cons.prems(1)]
        by (simp add: is_fresh_def plain_u32_def Let_def)
    next
      case False
      have "ages now ms sub (a # as) = ages now ms sub as" using Some False by (simp add: ages_def fresh_data_def)
      then show ?thesis using Some False Cons.IH [of cnt] Cons.prems by (auto simp: is_fresh_def Let_def)
    qed
  qed
qed

lemma load_price_status_eq:
  fixes e :: "'w env"
  assumes "oracle_ok s"
  shows "load_price_status e s = (case ok_Config s of
      None \<Rightarrow> Inl (Err OracleNotConfigured)
    | Some c \<Rightarrow>
        (let xs = ages (timestamp e) (oc_max_staleness c) (ok_Submission s) (submitters s) in
         if submitters s = [] then Inl (Err NoPriceAvailable) else
         Inr \<lparr>ps_fresh_submitter_count = int (length xs), ps_min_submitters = oc_min_submitters c,
              ps_newest_age = (if xs = [] then 0 else Min (set xs)), ps_oldest_fresh_age = (if xs = [] then 0 else Max (set xs)),
              ps_stale = (xs = [])\<rparr>))"
proof (cases "ok_Config s")
  case (Some c)
  have fd: "feeders_ok (submitters s) (ok_Submission s)" using assms by (simp add: oracle_ok_def)
  then have "int (length (submitters s)) \<le> u32_max" by (simp add: feeders_ok_def MAX_SUBMITTERS_def int_bounds)
  moreover have "(\<exists>a \<in> set (submitters s). ok_Submission s a \<noteq> None) \<longleftrightarrow> submitters s \<noteq> []"
    using fd by (cases "submitters s") (auto simp: feeders_ok_def)
  ultimately show ?thesis
    using Some by (simp add: load_price_status_def status_loop_eq extremes_def Let_def)
qed (simp add: load_price_status_def)

text \<open>
  C39.  In every reachable state of an oracle without external feeds, the status and
  \<^verbatim>\<open>get_twap_price\<close> agree: where the status fails the price fails with the same error;
  the status says stale exactly when the price fails as stale; and the price is there
  exactly when the status counts at least the quorum of fresh feeders.  The reported
  newest and oldest ages are those of fresh submissions and bound all of them.
\<close>

theorem price_status_agrees:
  fixes e :: "'w env"
  assumes "oracle_steady s" and "in_u64 (timestamp e)" and "\<not> feeds_configured s"
  shows "(\<forall>f. load_price_status e s = Inl f \<longrightarrow> get_twap_price e fd s = Inl f) \<and>
     (\<forall>st. load_price_status e s = Inr st \<longrightarrow>
        (ps_stale st \<longleftrightarrow> get_twap_price e fd s = Inl (Err OracleStalePrice)) \<and>
        (is_ok (get_twap_price e fd s) \<longleftrightarrow> ps_min_submitters st \<le> ps_fresh_submitter_count st) \<and>
        (\<forall>c a d. ok_Config s = Some c \<longrightarrow> ok_Submission s a = Some d \<longrightarrow> is_fresh (timestamp e) (oc_max_staleness c) d \<longrightarrow>
           ps_newest_age st \<le> sat_u64 (timestamp e - pd_updated_at d) \<and>
           sat_u64 (timestamp e - pd_updated_at d) \<le> ps_oldest_fresh_age st \<and>
           ps_oldest_fresh_age st \<le> oc_max_staleness c))"
proof (cases "ok_Config s")
  case None
  then show ?thesis using assms by (simp add: get_twap_price_eq [OF assms] load_price_status_eq oracle_steady_def)
next
  case (Some c)
  have ok: "oracle_ok s" using assms(1) by (simp add: oracle_steady_def)
  let ?xs = "ages (timestamp e) (oc_max_staleness c) (ok_Submission s) (submitters s)"
  have min1: "0 < oc_min_submitters c" using ok Some by (simp add: oracle_ok_def config_ok_def)
  have len: "length (fresh_now e c s) = length ?xs" by (simp add: fresh_now_def fresh_prices_eq ages_def)
  then have empty: "fresh_now e c s = [] \<longleftrightarrow> ?xs = []" by (metis length_0_conv)
  note st = load_price_status_eq [OF ok, of e, unfolded Some option.case Let_def]
  note price = get_twap_price_eq [OF assms, of fd, unfolded Some option.case len empty]
  have "?xs \<noteq> [] \<and> Min (set ?xs) \<le> sat_u64 (timestamp e - pd_updated_at d) \<and>
      sat_u64 (timestamp e - pd_updated_at d) \<le> Max (set ?xs) \<and> Max (set ?xs) \<le> oc_max_staleness c"
    if "ok_Submission s a = Some d" "is_fresh (timestamp e) (oc_max_staleness c) d" for a d
  proof -
    have "a \<in> set (submitters s)" using ok that(1) by (auto simp: oracle_ok_def feeders_ok_def)
    then have "d \<in> set (fresh_data (timestamp e) (oc_max_staleness c) (ok_Submission s) (submitters s))"
      using that by (force simp: fresh_data_def)
    then have mem: "sat_u64 (timestamp e - pd_updated_at d) \<in> set ?xs" by (simp add: ages_def)
    moreover have "\<forall>x \<in> set ?xs. x \<le> oc_max_staleness c" by (auto simp: ages_def fresh_data_def is_fresh_def)
    ultimately show ?thesis by (metis List.finite_set Max_ge Max_in Min_le empty_iff empty_set)
  qed
  then show ?thesis using st price min1 Some by (auto simp: is_ok_iff split: if_splits)
qed

theorem price_status_agrees_witness:
  "\<exists>st. load_price_status (oracle_env 130) priced = Inr st \<and> \<not> ps_stale st \<and>
     ps_min_submitters st \<le> ps_fresh_submitter_count st \<and> is_ok (get_twap_price (oracle_env 130) no_feeds priced)"
proof -
  have now: "in_u64 (timestamp (oracle_env 130))" by (simp add: in_u64_def int_bounds)
  have nf: "\<not> feeds_configured priced" by (simp add: feeds_configured_def priced_fields)
  have "case load_price_status (oracle_env 130) priced of Inr st \<Rightarrow> \<not> ps_stale st \<and> ps_min_submitters st \<le> ps_fresh_submitter_count st
      | Inl _ \<Rightarrow> False" by code_simp
  then show ?thesis using price_status_agrees [OF priced_steady now nf, of no_feeds] by (auto split: sum.splits)
qed

section \<open>Pair prices\<close>

text \<open>The reporters that count: authorized now, and with a report within the heartbeat.\<close>

definition counted :: "'w env \<Rightarrow> int \<Rightarrow> (address \<Rightarrow> pair_price_data option) \<Rightarrow> twap_oracle \<Rightarrow> address list \<Rightarrow> address list" where
  "counted e heartbeat report s reporters = filter (\<lambda>a. is_authorized_pair_reporter e a s \<and>
     (\<exists>d. report a = Some d \<and> sat_u64 (timestamp e - pp_updated_at d) \<le> heartbeat)) reporters"

lemma collect_reports_eq:
  "collect_reports e hb report s as =
     (map (\<lambda>a. pp_price (the (report a))) (counted e hb report s as),
      \<exists>a \<in> set as. is_authorized_pair_reporter e a s \<and> report a \<noteq> None)"
  by (induction "as") (auto simp: counted_def split: option.splits prod.splits)

lemma median_of_reports_eq:
  fixes e :: "'w env" and hb :: int and s :: twap_oracle and rs :: "address list"
  assumes "\<forall>a d. report a = Some d \<longrightarrow> 0 < pp_price d \<and> pp_price d \<le> u128_max"
  defines "prices \<equiv> map (\<lambda>a. pp_price (the (report a))) (counted e hb report s rs)"
  shows "median_of_reports (collect_reports e hb report s rs) =
     (if prices = [] then
        (if \<exists>a \<in> set rs. is_authorized_pair_reporter e a s \<and> report a \<noteq> None then Inl (Err OracleStalePrice) else Inl (Err PriceNotFound))
      else Inr (middle (sort prices)))"
proof -
  have "\<forall>x \<in> set prices. in_u128 x"
    using assms(1) unfolding prices_def by (fastforce simp: counted_def in_u128_def)
  then have "prices \<noteq> [] \<Longrightarrow> median_u128 prices = Inr (middle (sort prices))" by (rule median_u128_eq [rotated])
  then show ?thesis by (simp add: median_of_reports_def collect_reports_eq prices_def [symmetric])
qed

lemma pair_reports_ok:
  assumes "oracle_ok s"
  shows "\<forall>a d. ok_PairSubmission s (b, q, a) = Some d \<longrightarrow> 0 < pp_price d \<and> pp_price d \<le> u128_max"
    and "\<forall>a d. ok_PairSymbolSubmission s (b', q', a) = Some d \<longrightarrow> 0 < pp_price d \<and> pp_price d \<le> u128_max"
  using assms by (auto simp: oracle_ok_def reports_ok_def)

lemma pair_reporters_ok:
  assumes "oracle_ok s"
  shows "ok_PairReporters s (b, q) = Some rs \<Longrightarrow> distinct rs \<and> length rs \<le> 5"
    and "ok_PairSymbolReporters s (b', q') = Some rs \<Longrightarrow> distinct rs \<and> length rs \<le> 5"
  using assms by (auto simp: oracle_ok_def reporters_ok_def MAX_PAIR_REPORTERS_def)

lemma sat_window: "0 \<le> n \<Longrightarrow> n < u64_max \<Longrightarrow> sat_u64 x \<le> n \<longleftrightarrow> x \<le> n"
  by (auto simp: sat_u64_def int_bounds)

text \<open>Without a heartbeat for the token and a global limit, the window is fifteen minutes.\<close>

definition no_staleness_limit :: "twap_oracle \<Rightarrow> bool" where
  "no_staleness_limit s \<longleftrightarrow> (case ok_Config s of
      Some c \<Rightarrow> oc_max_staleness c = 0 | None \<Rightarrow> ok_MaxStalenessSeconds s = None \<or> ok_MaxStalenessSeconds s = Some 0)"

lemma default_window:
  assumes "ok_AssetOracleConfig s base = None" and "no_staleness_limit s"
  shows "asset_heartbeat_secs base s = 900"
  using assms by (auto simp: asset_heartbeat_secs_def max_staleness_seconds_def no_staleness_limit_def PAIR_REPORT_FRESHNESS_SECS_def split: option.splits)

text \<open>The reporters whose reports count, and what a read of them returns.\<close>

lemma reports_read:
  fixes e :: "'w env"
  assumes "\<forall>a d. report a = Some d \<longrightarrow> 0 < pp_price d \<and> pp_price d \<le> u128_max" and "distinct rs \<and> length rs \<le> 5"
    and "used = filter (\<lambda>a. (has_role (timestamp e) (ok_roles s) PriceFeeder a \<or> has_role (timestamp e) (ok_roles s) Admin a) \<and>
       (\<exists>d. report a = Some d \<and> timestamp e - pp_updated_at d \<le> 900)) rs"
    and "prices = map (\<lambda>a. pp_price (the (report a))) used"
    and "r = median_of_reports (collect_reports e 900 report s rs)"
  shows "r = (if used = [] then
          (if \<exists>a \<in> set rs. (has_role (timestamp e) (ok_roles s) PriceFeeder a \<or> has_role (timestamp e) (ok_roles s) Admin a) \<and> report a \<noteq> None
           then Inl (Err OracleStalePrice) else Inl (Err PriceNotFound))
        else Inr (middle (sort prices)))"
    and "length used \<le> 5" and "distinct used"
    and "length prices < 2 * length (filter (\<lambda>x. lo \<le> x \<and> x \<le> hi) prices) \<Longrightarrow> \<exists>p. r = Inr p \<and> lo \<le> p \<and> p \<le> hi"
proof -
  have used: "used = counted e 900 report s rs"
    by (simp add: assms(3) counted_def is_authorized_pair_reporter_def oracle_has_role_def sat_window int_bounds)
  show eq: "r = (if used = [] then
        (if \<exists>a \<in> set rs. (has_role (timestamp e) (ok_roles s) PriceFeeder a \<or> has_role (timestamp e) (ok_roles s) Admin a) \<and> report a \<noteq> None
         then Inl (Err OracleStalePrice) else Inl (Err PriceNotFound))
      else Inr (middle (sort prices)))"
    using median_of_reports_eq [OF assms(1), of e 900 s rs]
    by (simp add: assms(4,5) used is_authorized_pair_reporter_def oracle_has_role_def)
  have "length used \<le> length rs" "distinct rs \<Longrightarrow> distinct used" by (simp_all add: assms(3))
  then show "length used \<le> 5" "distinct used" using assms(2) by simp_all
  show "\<exists>p. r = Inr p \<and> lo \<le> p \<and> p \<le> hi"
    if "length prices < 2 * length (filter (\<lambda>x. lo \<le> x \<and> x \<le> hi) prices)"
  proof -
    have "prices \<noteq> []" using that by auto
    then have "used \<noteq> []" by (simp add: assms(4))
    then show ?thesis using eq middle_robust [OF that] by simp
  qed
qed

text \<open>
  C37.  In every reachable state, the price of a pair with reporters is the median of the
  reports that are at most fifteen minutes old and whose authors are feeders or
  administrators at the time of the read, at most five of them; when none is that
  fresh the read fails as stale, when none of the reporters is authorized any more it
  finds nothing.  A majority of those reports within some bounds keeps the price within
  them.  This holds for every symbol pair, and for a token pair as long as no heartbeat
  is configured for its base token and no global staleness limit for the oracle: either
  of these replaces the fifteen minutes, contrary to what the documentation of
  \<^verbatim>\<open>get_price\<close> says.
\<close>

theorem pair_price_correct:
  fixes e :: "'w env"
  assumes "oracle_steady s" and "rs \<noteq> []"
    and "r = get_price_symbol e bs qs s \<and> ok_PairSymbolReporters s (bs, qs) = Some rs \<and>
         report = (\<lambda>a. ok_PairSymbolSubmission s (bs, qs, a)) \<or>
       r = get_price e base quote s \<and> ok_PairReporters s (base, quote) = Some rs \<and>
         report = (\<lambda>a. ok_PairSubmission s (base, quote, a)) \<and>
         ok_AssetOracleConfig s base = None \<and> no_staleness_limit s"
    and "used = filter (\<lambda>a. (has_role (timestamp e) (ok_roles s) PriceFeeder a \<or> has_role (timestamp e) (ok_roles s) Admin a) \<and>
       (\<exists>d. report a = Some d \<and> timestamp e - pp_updated_at d \<le> 15 * 60)) rs"
    and "prices = map (\<lambda>a. pp_price (the (report a))) used"
  shows "r = (if used = [] then
          (if \<exists>a \<in> set rs. (has_role (timestamp e) (ok_roles s) PriceFeeder a \<or> has_role (timestamp e) (ok_roles s) Admin a) \<and>
              report a \<noteq> None
           then Inl (Err OracleStalePrice) else Inl (Err PriceNotFound))
        else Inr (middle (sort prices))) \<and>
     length used \<le> 5 \<and> distinct used \<and>
     (\<forall>lo hi. length prices < 2 * length (filter (\<lambda>x. lo \<le> x \<and> x \<le> hi) prices) \<longrightarrow>
        (\<exists>p. r = Inr p \<and> lo \<le> p \<and> p \<le> hi))"
proof -
  have ok: "oracle_ok s" using assms(1) by (simp add: oracle_steady_def)
  have r: "r = median_of_reports (collect_reports e 900 report s rs)"
    using assms(2,3)
    by (auto simp: get_price_def aggregate_pair_price_def get_price_symbol_def aggregate_symbol_pair_price_def
        PAIR_REPORT_FRESHNESS_SECS_def default_window)
  have rep: "\<forall>a d. report a = Some d \<longrightarrow> 0 < pp_price d \<and> pp_price d \<le> u128_max" "distinct rs \<and> length rs \<le> 5"
    using assms(3) pair_reports_ok [OF ok] pair_reporters_ok [OF ok] by blast+
  have "used = filter (\<lambda>a. (has_role (timestamp e) (ok_roles s) PriceFeeder a \<or> has_role (timestamp e) (ok_roles s) Admin a) \<and>
       (\<exists>d. report a = Some d \<and> timestamp e - pp_updated_at d \<le> 900)) rs" by (simp add: assms(4))
  from reports_read [OF rep this assms(5) r] show ?thesis by blast
qed

text \<open>An oracle with an administrator and a feeder, no configuration, and two reports of a pair.\<close>

definition quoted_turns :: "ledger turn list" where
  "quoted_turns = [turn_at 100 (OInitialize ''A''), turn_at 100 (OGrantRole ''A'' PriceFeeder ''F''),
     turn_at 130 (OSetPrice ''A'' ''X'' ''Y'' 10), turn_at 140 (OSetPrice ''F'' ''X'' ''Y'' 20)]"

definition quoted :: twap_oracle where
  "quoted = oracle_after quoted_turns (fresh_oracle [])"

theorem pair_price_correct_witness:
  "get_price (oracle_env 1030) ''X'' ''Y'' quoted = Inr 15 \<and> get_price (oracle_env 1031) ''X'' ''Y'' quoted = Inr 20 \<and>
   get_price (oracle_env 1041) ''X'' ''Y'' quoted = Inl (Err OracleStalePrice)"
proof -
  have steady: "oracle_steady quoted"
    unfolding quoted_def
    by (intro oracle_reachable) (auto simp: quoted_turns_def turn_at_def turn_typed_def typed_feeds_def no_feeds_def in_u64_def in_u128_def int_bounds)
  have q: "ok_PairReporters quoted (''X'', ''Y'') = Some [''A'', ''F'']" "ok_AssetOracleConfig quoted ''X'' = None"
    "no_staleness_limit quoted"
    "ok_PairSubmission quoted (''X'', ''Y'', ''A'') = Some \<lparr>pp_price = 10, pp_updated_at = 130\<rparr>"
    "ok_PairSubmission quoted (''X'', ''Y'', ''F'') = Some \<lparr>pp_price = 20, pp_updated_at = 140\<rparr>" by code_simp+
  have roles: "has_role t (ok_roles quoted) Admin ''A''" "has_role t (ok_roles quoted) PriceFeeder ''F''" for t :: int
  proof -
    have "role_entries (ok_roles quoted) (Admin, ''A'') = Some (Assignment None)"
      "role_entries (ok_roles quoted) (PriceFeeder, ''F'') = Some (Assignment None)" by code_simp+
    then show "has_role t (ok_roles quoted) Admin ''A''" "has_role t (ok_roles quoted) PriceFeeder ''F''"
      by (simp_all add: has_role_entry)
  qed
  note c = pair_price_correct [OF steady _ disjI2 refl refl, of "[''A'', ''F'']" _ _ "''X''" "''Y''", THEN conjunct1]
  show ?thesis
    using c [of _ "oracle_env 1030"] c [of _ "oracle_env 1031"] c [of _ "oracle_env 1041"]
    by (simp add: q roles middle_def)
qed

section \<open>Reading back a reported price\<close>

lemma set_price_effect:
  assumes "set_price e caller base quote price s = Inr s'"
    and "ok_PairReporters s (base, quote) = None \<or> ok_PairReporters s (base, quote) = Some [caller]"
  shows "price \<noteq> 0" and "ok_PairReporters s' = (ok_PairReporters s)((base, quote) \<mapsto> [caller])"
    and "ok_PairSubmission s' = (ok_PairSubmission s)((base, quote, caller) \<mapsto> \<lparr>pp_price = price, pp_updated_at = timestamp e\<rparr>)"
    and "ok_PairPrice s' = (ok_PairPrice s)((base, quote) \<mapsto> price)"
    and "ok_AssetOracleConfig s' = ok_AssetOracleConfig s" and "no_staleness_limit s' = no_staleness_limit s"
proof -
  obtain s1 s2 s3 where np: "oracle_require_not_paused e s = Inr s1" and price: "price \<noteq> 0"
    and role: "oracle_require_role_or_admin e caller PriceFeeder s1 = Inr ()"
    and s2: "add_pair_reporter e base quote caller (oracle_bump s1) = Inr s2"
    and s3: "oracle_renew (OkPairSubmission base quote caller) (s2\<lparr>ok_PairSubmission :=
       (ok_PairSubmission s2)((base, quote, caller) \<mapsto> \<lparr>pp_price = price, pp_updated_at = timestamp e\<rparr>)\<rparr>) = Inr s3"
    and s': "s' = s3\<lparr>ok_PairPrice := (ok_PairPrice s3)((base, quote) \<mapsto> price)\<rparr>"
    using assms(1) unfolding set_price_def and_then_eq_Inr if_Inl_eq_Inr Let_def sum.inject ex_unit by blast
  obtain p where s1: "s1 = s\<lparr>ok_Paused := p\<rparr>" using not_paused_frame [OF np] by blast
  have auth: "is_authorized_pair_reporter e caller (oracle_bump s1)"
    using role unfolding require_role_or_admin_success by (auto simp: is_authorized_pair_reporter_def oracle_has_role_def oracle_bump_def)
  then have "with_reporter e (case ok_PairReporters (oracle_bump s1) (base, quote) of Some xs \<Rightarrow> xs | None \<Rightarrow> []) caller (oracle_bump s1) = Inr [caller]"
    using assms(2) by (auto simp: with_reporter_def s1 oracle_bump_def MAX_PAIR_REPORTERS_def)
  then obtain l where s2': "s2 = s1\<lparr>ok_PairReporters := (ok_PairReporters s)((base, quote) \<mapsto> [caller]), or_ttl := l\<rparr>"
    using s2 by (auto simp: add_pair_reporter_def oracle_renew_success s1 oracle_bump_def)
  obtain l' where s3': "s3 = s2\<lparr>ok_PairSubmission :=
       (ok_PairSubmission s2)((base, quote, caller) \<mapsto> \<lparr>pp_price = price, pp_updated_at = timestamp e\<rparr>), or_ttl := l'\<rparr>"
    using oracle_renew_frame [OF s3] by blast
  show "price \<noteq> 0" by (rule price)
  show "ok_PairReporters s' = (ok_PairReporters s)((base, quote) \<mapsto> [caller])"
    "ok_PairSubmission s' = (ok_PairSubmission s)((base, quote, caller) \<mapsto> \<lparr>pp_price = price, pp_updated_at = timestamp e\<rparr>)"
    "ok_PairPrice s' = (ok_PairPrice s)((base, quote) \<mapsto> price)"
    "ok_AssetOracleConfig s' = ok_AssetOracleConfig s" "no_staleness_limit s' = no_staleness_limit s"
    by (simp_all add: s' s3' s2' s1 no_staleness_limit_def split: option.split)
qed

lemma median_single: "median_u128 [p] = Inr p"
  by (simp add: median_u128_def insertion_sort_def)

text \<open>
  C38.  What the only reporter of a token pair reports is what a later read returns for
  fifteen minutes, as long as the reporter is authorized; after that the read fails as
  stale.  Read the other way round, a pair without a price of its own has the
  reciprocal, at eight decimals, for as long.  (For a base token without a heartbeat of
  its own, in an oracle without a global staleness limit; either would replace the
  fifteen minutes.)
\<close>

theorem reported_price_read_back:
  fixes e :: "'w env" and later :: "'v env"
  assumes "set_price e caller base quote price s = Inr s'" and "in_u64 (timestamp e)" and "in_u64 (timestamp later)" and "timestamp e \<le> timestamp later"
    and "ok_PairReporters s (base, quote) = None \<or> ok_PairReporters s (base, quote) = Some [caller]"
    and "is_authorized_pair_reporter later caller s'"
    and "ok_PairReporters s (quote, base) = None" and "ok_PairPrice s (quote, base) = None" and "base \<noteq> quote"
    and "ok_AssetOracleConfig s base = None" and "no_staleness_limit s"
  shows "get_price later base quote s' =
       (if timestamp later \<le> timestamp e + 15 * 60 then Inr price else Inl (Err OracleStalePrice)) \<and>
     get_price_inverted later quote base s' =
       (if timestamp later \<le> timestamp e + 15 * 60 then Inr (10 ^ 16 div price) else Inl (Err OracleStalePrice))"
proof -
  note eff = set_price_effect [OF assms(1,5)]
  have window: "asset_heartbeat_secs base s' = 900" using assms(10,11) by (simp add: default_window eff)
  have rev: "aggregate_pair_price later quote base s' = Inl (Err PriceNotFound)"
    using assms(7-9) by (simp add: aggregate_pair_price_def eff)
  have age: "sat_u64 (timestamp later - timestamp e) = timestamp later - timestamp e"
    using assms(2-4) by (auto simp: sat_u64_def in_u64_def)
  have dir: "get_price later base quote s' =
      (if timestamp later - timestamp e \<le> 900 then Inr price else Inl (Err OracleStalePrice))"
    using assms(6) by (simp add: get_price_def aggregate_pair_price_def eff(2,3) window median_of_reports_def median_single age)
  then have inv: "get_price_inverted later quote base s' =
      (if timestamp later - timestamp e \<le> 900 then Inr (10 ^ 16 div price) else Inl (Err OracleStalePrice))"
    using rev eff(1) by (simp add: get_price_inverted_def direct_or_reciprocal_def get_price_def PRICE_PRECISION_def checked_u128_def in_u128_def int_bounds)
  show ?thesis using dir inv by (simp add: algebra_simps)
qed

theorem reported_price_read_back_witness:
  "\<exists>s'. set_price (oracle_env 150) ''A'' ''V'' ''W'' 250000000 quoted = Inr s' \<and>
     get_price (oracle_env 1050) ''V'' ''W'' s' = Inr 250000000 \<and> get_price_inverted (oracle_env 1050) ''W'' ''V'' s' = Inr 40000000 \<and>
     get_price (oracle_env 1051) ''V'' ''W'' s' = Inl (Err OracleStalePrice)"
proof -
  let ?r = "set_price (oracle_env 150) ''A'' ''V'' ''W'' 250000000 quoted"
  have "is_ok ?r" by code_simp
  then obtain s' where r: "?r = Inr s'" by (auto simp: is_ok_iff)
  have "is_authorized_pair_reporter (oracle_env 1050) ''A'' (projr ?r) \<and>
      is_authorized_pair_reporter (oracle_env 1051) ''A'' (projr ?r)" by code_simp
  then have a: "is_authorized_pair_reporter (oracle_env 1050) ''A'' s'" "is_authorized_pair_reporter (oracle_env 1051) ''A'' s'"
    by (simp_all add: r)
  have n: "ok_PairReporters quoted (''V'', ''W'') = None" "ok_PairReporters quoted (''W'', ''V'') = None"
    "ok_PairPrice quoted (''W'', ''V'') = None" "ok_AssetOracleConfig quoted ''V'' = None" "no_staleness_limit quoted"
    by code_simp+
  note rb = reported_price_read_back [OF r _ _ _ disjI1 [OF n(1)] _ n(2,3) _ n(4,5)]
  show ?thesis using r rb [OF _ _ _ a(1)] rb [OF _ _ _ a(2)] by (simp add: in_u64_def int_bounds)
qed

section \<open>Configuration\<close>

lemma no_submissions_left:
  assumes "oracle_ok s"
  shows "ok_Submission (drop_prices s) = (\<lambda>_. None)"
  using assms by (auto simp: drop_prices_def oracle_ok_def feeders_ok_def fun_eq_iff)

definition no_update :: oracle_config_update where
  "no_update = \<lparr>ou_decimals = None, ou_asset_peg = None, ou_max_staleness = None, ou_max_price = None,
     ou_min_submit_interval = None, ou_min_submitters = None, ou_quote_currency = None, ou_max_deviation_bps = None\<rparr>"

lemma merge_no_update [simp]: "merge_config no_update c = c"
  by (simp add: merge_config_def no_update_def updated_by_def)

text \<open>
  A stored configuration is read back as it was given, and an update replaces
  exactly the fields it names.  When the scale of prices changes (the decimals or the
  peg), every submission, observation and the last price are gone, so that no later
  read mixes prices of two scales; when it does not, all of them are kept.
\<close>

theorem configuration_read_back:
  fixes e :: "'w env"
  assumes "oracle_steady s" and "configure_oracle e caller c s = Inr s'"
  shows "read_config s' = Inr c \<and> authorized e caller \<and> has_role (timestamp e) (ok_roles s) Admin caller \<and>
     (\<forall>old. ok_Config s = Some old \<longrightarrow> oc_decimals old \<noteq> oc_decimals c \<or> oc_asset_peg old \<noteq> oc_asset_peg c \<longrightarrow>
        submitters s' = [] \<and> (\<forall>a. ok_Submission s' a = None) \<and> observations s' = [] \<and> ok_Price s' = None) \<and>
     (\<forall>old. ok_Config s = Some old \<longrightarrow> oc_decimals old = oc_decimals c \<and> oc_asset_peg old = oc_asset_peg c \<longrightarrow>
        submitters s' = submitters s \<and> ok_Submission s' = ok_Submission s \<and> observations s' = observations s \<and> ok_Price s' = ok_Price s) \<and>
     (\<forall>(e' :: 'w env) caller' u s''. update_oracle_config e' caller' u s' = Inr s'' \<longrightarrow> read_config s'' = Inr (merge_config u c)) \<and>
     (\<forall>(e' :: 'w env) caller' s''. update_oracle_config e' caller' no_update s' = Inr s'' \<longrightarrow> read_config s'' = Inr c \<and>
        ok_Submission s'' = ok_Submission s' \<and> observations s'' = observations s' \<and> submitters s'' = submitters s')"
proof -
  let ?b = "oracle_bump s"
  have ok: "oracle_ok ?b" using assms(1) by (simp add: oracle_steady_def)
  have st: "store_oracle_config caller c s = Inr s'" and auth: "authorized e caller" "has_role (timestamp e) (ok_roles s) Admin caller"
    using assms(2) by (auto simp: configure_oracle_def and_then_eq_Inr require_role_or_admin_success oracle_has_role_def)
  have s': "s' = oracle_emit (EvOracleConfigured caller c) ((case ok_Config s of Some old \<Rightarrow>
      (if oc_decimals old \<noteq> oc_decimals c \<or> oc_asset_peg old \<noteq> oc_asset_peg c then drop_prices ?b else ?b) | None \<Rightarrow> ?b)\<lparr>ok_Config := Some c\<rparr>)"
    using st by (auto simp: store_oracle_config_def Let_def oracle_bump_def split: if_splits option.splits)
  have cfg: "ok_Config s' = Some c" by (simp add: s' oracle_emit_def)
  have dropped: "submitters s' = [] \<and> (\<forall>a. ok_Submission s' a = None) \<and> observations s' = [] \<and> ok_Price s' = None"
    if "ok_Config s = Some old" "oc_decimals old \<noteq> oc_decimals c \<or> oc_asset_peg old \<noteq> oc_asset_peg c" for old
    using that no_submissions_left [OF ok] by (simp add: s' oracle_emit_def submitters_def observations_def) (simp add: drop_prices_def)
  have kept: "submitters s' = submitters s \<and> ok_Submission s' = ok_Submission s \<and> observations s' = observations s \<and> ok_Price s' = ok_Price s"
    if "ok_Config s = Some old" "oc_decimals old = oc_decimals c \<and> oc_asset_peg old = oc_asset_peg c" for old
    using that by (simp add: s' oracle_emit_def submitters_def observations_def oracle_bump_def)
  have upd: "ok_Config s'' = Some (merge_config u c)" if "update_oracle_config e' caller' u s' = Inr s''" for e' :: "'w env" and caller' u s''
    using that by (auto simp: update_oracle_config_def and_then_eq_Inr ok_or_eq_Inr cfg Let_def store_oracle_config_def oracle_emit_def
        split: option.splits if_splits)
  have same: "ok_Submission s'' = ok_Submission s' \<and> observations s'' = observations s' \<and> submitters s'' = submitters s'"
    if "update_oracle_config e' caller' no_update s' = Inr s''" for e' :: "'w env" and caller' s''
    using that by (auto simp: update_oracle_config_def and_then_eq_Inr ok_or_eq_Inr cfg Let_def store_oracle_config_def oracle_emit_def
        oracle_bump_def submitters_def observations_def split: if_splits) (simp_all add: no_update_def)
  show ?thesis using cfg auth dropped kept upd same by (auto simp: read_config_def)
qed

theorem configuration_read_back_witness:
  "\<exists>s'. configure_oracle (oracle_env 130) ''A'' (sample_config\<lparr>oc_decimals := 4\<rparr>) priced = Inr s' \<and>
     read_config s' = Inr (sample_config\<lparr>oc_decimals := 4\<rparr>) \<and> observations s' = [] \<and> observations priced \<noteq> []"
proof -
  let ?r = "configure_oracle (oracle_env 130) ''A'' (sample_config\<lparr>oc_decimals := 4\<rparr>) priced"
  have "is_ok ?r" by code_simp
  then obtain s' where r: "?r = Inr s'" by (auto simp: is_ok_iff)
  then show ?thesis
    using configuration_read_back [OF priced_steady r] by (simp add: priced_fields priced_observations sample_config_def)
qed

section \<open>An older feed\<close>

definition overtaken :: twap_oracle where
  "overtaken = oracle_after
    [turn_at 100 (OInitialize ''A''), turn_at 100 (OGrantRole ''A'' PriceFeeder ''F''), turn_at 100 (OGrantRole ''A'' PriceFeeder ''P''),
     turn_at 100 (OConfigure ''A'' sample_config), turn_at 100 (OSetPrimary ''A'' ''P''),
     turn_at 110 (OSubmitPrice ''P'' 500), turn_at 120 (OSubmitPrice ''F'' 510)] (fresh_oracle [])"

text \<open>
  A primary feed that is one of the feeders can block the time-weighted price: ten
  seconds after another feeder submitted, both submissions are fresh and the quorum is
  met, yet \<^verbatim>\<open>get_twap_price\<close> fails with \<^verbatim>\<open>StalePriceFeed\<close>, because it first records the
  primary's older price and the history refuses to go back in time; the price is
  available again only after the primary submits.
\<close>

theorem older_primary_blocks_twap:
  "(case load_price_status (oracle_env 130) overtaken of
      Inr st \<Rightarrow> \<not> ps_stale st \<and> ps_min_submitters st \<le> ps_fresh_submitter_count st | Inl _ \<Rightarrow> False) \<and>
   (case get_twap_price (oracle_env 130) no_feeds overtaken of Inl f \<Rightarrow> f = Err StalePriceFeed | Inr _ \<Rightarrow> False) \<and>
   (case get_twap_price (oracle_env 130) no_feeds (oracle_attempt (turn_at 130 (OSubmitPrice ''P'' 505)) overtaken) of
      Inr (p, _) \<Rightarrow> 0 < p | Inl _ \<Rightarrow> False)"
  by code_simp

end
