(* ===== verification/Common_Tests.thy ===== *)
theory Common_Tests
  imports Common_Rbac Common_Pause Common_Ttl
begin

text \<open>
  The unit tests of the crate \<^verbatim>\<open>common\<close>, run on the model: one definition per test of
  \<^verbatim>\<open>pause.rs\<close>, \<^verbatim>\<open>rbac.rs\<close>, \<^verbatim>\<open>ttl.rs\<close> and \<^verbatim>\<open>lib.rs\<close>, with its calls and assertions in their
  order, and the theorem that the model passes it.  A test is a truth value; a call
  that must return hands its value and the new state to the rest of the test.

  Generated addresses are different strings, and a fresh environment has timestamp 0
  and, where the test asks for it, every authorization.
\<close>

section \<open>Running a test\<close>

text \<open>\<^verbatim>\<open>unwrap\<close> and \<^verbatim>\<open>assert!(r.is_ok())\<close>: the call returns, and the test goes on.\<close>

definition expect_ok :: "('e, 'a) res \<Rightarrow> ('a \<Rightarrow> bool) \<Rightarrow> bool" where
  "expect_ok r rest = (case r of Inr x \<Rightarrow> rest x | Inl _ \<Rightarrow> False)"

text \<open>\<^verbatim>\<open>assert_eq!(r, Err(e))\<close>.\<close>

definition fails_with :: "('e, 'a) res \<Rightarrow> 'e \<Rightarrow> bool" where
  "fails_with r err = (case r of Inl (Err e) \<Rightarrow> e = err | _ \<Rightarrow> False)"

definition test_env :: "ledger env" where
  "test_env = \<lparr>timestamp = 0, sequence = 0, contract_address = ''CDRIP'', authorized = (\<lambda>_. True), tokens = ledger_token\<rparr>"

text \<open>\<^verbatim>\<open>testutils.rs\<close>: time passes.\<close>

definition advance_ledger :: "'w env \<Rightarrow> int \<Rightarrow> int \<Rightarrow> 'w env" where
  "advance_ledger e ledgers seconds = e\<lparr>sequence := sequence e + ledgers, timestamp := timestamp e + seconds\<rparr>"

text \<open>
  For evaluation: an updated function is looked up, not unfolded, so that states stay
  small.
\<close>

declare fun_upd_apply [code]

lemma expect_ok_iff: "expect_ok r rest \<longleftrightarrow> (\<exists>x. r = Inr x \<and> rest x)"
  by (cases r) (auto simp: expect_ok_def)

lemma fails_with_iff: "fails_with r err \<longleftrightarrow> r = Inl (Err err)"
  by (auto simp: fails_with_def split: sum.splits failure.splits)

section \<open>Pause\<close>

definition test_unset_flag_reads_as_not_paused :: bool where
  "test_unset_flag_reads_as_not_paused =
     (\<not> fst (is_paused 0 None))"

definition test_set_paused_round_trips_and_clears :: bool where
  "test_set_paused_round_trips_and_clears =
     (expect_ok (set_paused 0 True None) (\<lambda>s1.
        let (p1, s2) = is_paused 0 s1 in p1 \<and>
        expect_ok (set_paused 0 False s2) (\<lambda>s3. \<not> fst (is_paused 0 s3))))"

definition test_require_not_paused_accepts_a_running_contract :: bool where
  "test_require_not_paused_accepts_a_running_contract =
     (is_ok (require_not_paused 0 None))"

definition test_require_not_paused_rejects_a_halted_contract :: bool where
  "test_require_not_paused_rejects_a_halted_contract =
     (expect_ok (set_paused 0 True None) (\<lambda>s1. fails_with (require_not_paused 0 s1) ContractPaused))"

definition test_flag_based_gate_matches_the_key_based_gate :: bool where
  "test_flag_based_gate_matches_the_key_based_gate =
     (expect_ok (set_paused 0 False None) (\<lambda>s1.
        is_ok (require_not_paused 0 s1) = is_ok (require_not_paused_flag False) \<and>
        expect_ok (set_paused 0 True s1) (\<lambda>s2.
        fails_with (require_not_paused 0 s2) ContractPaused \<and> fails_with (require_not_paused_flag True) ContractPaused)))"

definition test_gate_is_generic_over_the_flag_key :: bool where
  "test_gate_is_generic_over_the_flag_key =
     (let paused_key = None; stream_key = None in
      is_ok (require_not_paused 0 stream_key) \<and>
      expect_ok (set_paused 0 True stream_key) (\<lambda>s1.
      fails_with (require_not_paused 0 s1) ContractPaused \<and> \<not> fst (is_paused 0 paused_key)))"

definition test_pause_with_duration_automatically_unpauses_after_expiry :: bool where
  "test_pause_with_duration_automatically_unpauses_after_expiry =
     (expect_ok (set_paused_with_duration 1000 True (Some 3600) None) (\<lambda>s1.
        fst (is_paused 1000 s1) \<and> fails_with (require_not_paused 1000 s1) ContractPaused \<and>
        expect_ok (get_pause_state 1000 s1 :: (paused_error, _) res) (\<lambda>(st, s2).
        (case st of Some x \<Rightarrow> pst_paused x \<and> pst_paused_at x = 1000 \<and> pst_max_duration x = Some 3600 | None \<Rightarrow> False) \<and>
        (let (p, s3) = is_paused 4600 s2 in \<not> p \<and> is_ok (require_not_paused 4600 s3) \<and>
         expect_ok (get_pause_state 4600 s3 :: (paused_error, _) res) (\<lambda>(st, s4).
         case st of Some x \<Rightarrow> \<not> pst_paused x \<and> pst_unpaused_at x = Some 4600 | None \<Rightarrow> False)))))"

definition test_pause_without_explicit_duration_uses_fourteen_day_default :: bool where
  "test_pause_without_explicit_duration_uses_fourteen_day_default =
     (expect_ok (set_paused 1000 True None) (\<lambda>s1.
        expect_ok (get_pause_state 1000 s1 :: (paused_error, _) res) (\<lambda>(st, s2).
        (case st of Some x \<Rightarrow> pst_max_duration x = Some DEFAULT_MAX_PAUSE_DURATION | None \<Rightarrow> False) \<and>
        (let (p1, s3) = is_paused (1000 + DEFAULT_MAX_PAUSE_DURATION - 1) s2 in
         p1 \<and> \<not> fst (is_paused (1000 + DEFAULT_MAX_PAUSE_DURATION) s3)))))"

definition test_unpause_clears_duration_and_paused_state :: bool where
  "test_unpause_clears_duration_and_paused_state =
     (expect_ok (set_paused_with_duration 1000 True (Some 60) None) (\<lambda>s1.
        let (p1, s2) = is_paused 1000 s1 in p1 \<and>
        expect_ok (set_paused 1000 False s2) (\<lambda>s3.
        \<not> fst (is_paused 1000 s3) \<and> is_ok (require_not_paused 1000 s3) \<and>
        expect_ok (get_pause_state 1000 s3 :: (paused_error, _) res) (\<lambda>(st, s4).
        case st of Some x \<Rightarrow> \<not> pst_paused x \<and> pst_paused_at x = 0 \<and> pst_max_duration x = None | None \<Rightarrow> False))))"

definition test_unpause_cooldown_prevents_rapid_re_pause :: bool where
  "test_unpause_cooldown_prevents_rapid_re_pause =
     (let cooldown = Some 300 in
      expect_ok (set_paused_with_cooldown 1000 True None cooldown None) (\<lambda>s1.
      fst (is_paused 1000 s1) \<and>
      expect_ok (set_paused_with_cooldown 2000 False None cooldown s1) (\<lambda>s2.
      \<not> fst (is_paused 2000 s2) \<and>
      fails_with (set_paused_with_cooldown 2100 True None cooldown s2) ContractPaused \<and> \<not> fst (is_paused 2100 s2) \<and>
      fails_with (set_paused_with_cooldown 2300 True None cooldown s2) ContractPaused \<and>
      expect_ok (set_paused_with_cooldown 2301 True None cooldown s2) (\<lambda>s3. fst (is_paused 2301 s3)))))"

definition test_legacy_boolean_storage_compatibility :: bool where
  "test_legacy_boolean_storage_compatibility =
     (let (p1, s1) = is_paused 0 (Some (PauseFlag True)) in p1 \<and>
      expect_ok (get_pause_state 0 s1 :: (paused_error, _) res) (\<lambda>(st, s2).
      (case st of Some x \<Rightarrow> pst_max_duration x = Some DEFAULT_MAX_PAUSE_DURATION | None \<Rightarrow> False) \<and>
      fails_with (require_not_paused 0 s2) ContractPaused \<and>
      \<not> fst (is_paused DEFAULT_MAX_PAUSE_DURATION s2) \<and>
      (let s3 = Some (PauseFlag False) in
       \<not> fst (is_paused DEFAULT_MAX_PAUSE_DURATION s3) \<and> is_ok (require_not_paused DEFAULT_MAX_PAUSE_DURATION s3))))"

lemma pause_tests_pass:
  "test_unset_flag_reads_as_not_paused"
  "test_set_paused_round_trips_and_clears"
  "test_require_not_paused_accepts_a_running_contract"
  "test_require_not_paused_rejects_a_halted_contract"
  "test_flag_based_gate_matches_the_key_based_gate"
  "test_gate_is_generic_over_the_flag_key"
  "test_pause_with_duration_automatically_unpauses_after_expiry"
  "test_pause_without_explicit_duration_uses_fourteen_day_default"
  "test_unpause_clears_duration_and_paused_state"
  "test_unpause_cooldown_prevents_rapid_re_pause"
  "test_legacy_boolean_storage_compatibility"
  by code_simp+

section \<open>Roles\<close>

text \<open>The roles of the tests, and \<^verbatim>\<open>grant\<close> and \<^verbatim>\<open>revoke\<close> at the keys the tests pass.\<close>

datatype test_role = TestAdmin | TestOperator

definition grant_test_role ::
  "int \<Rightarrow> test_role \<Rightarrow> address \<Rightarrow> bool \<Rightarrow> test_role rbac \<Rightarrow> (rbac_error, bool \<times> test_role rbac) res" where
  "grant_test_role now r a is_admin s = grant now r is_admin a s"

definition revoke_test_role ::
  "int \<Rightarrow> test_role \<Rightarrow> address \<Rightarrow> bool \<Rightarrow> test_role rbac \<Rightarrow> (rbac_error, bool \<times> test_role rbac) res" where
  "revoke_test_role now r a is_admin s = revoke now r is_admin a s"

text \<open>The hook a role check runs when it succeeds sets a mark.\<close>

definition mark_success :: "(rbac_error, unit) res \<Rightarrow> bool \<Rightarrow> bool" where
  "mark_success r marked = (if is_ok r then True else marked)"

definition test_grant_with_expiration_expires_correctly :: bool where
  "test_grant_with_expiration_expires_correctly =
     (let guardian = ''guardian''; expiry = 0 + 100 in
      expect_ok (grant_with_expiration 0 TestOperator False guardian (Some expiry) rbac_empty :: (rbac_error, _) res) (\<lambda>(_, s1).
      has_role 0 s1 TestOperator guardian \<and>
      (let now = expiry + 1 in
       \<not> has_role now s1 TestOperator guardian \<and>
       (let renewed_until = expiry + 100 in
        expect_ok (grant_with_expiration now TestOperator False guardian (Some renewed_until) s1 :: (rbac_error, _) res) (\<lambda>(b, s2).
        b \<and> has_role now s2 TestOperator guardian \<and> length (role_members s2 TestOperator) = 1)))))"

definition test_has_role_is_false_before_any_grant :: bool where
  "test_has_role_is_false_before_any_grant =
     (\<not> has_role 0 rbac_empty TestOperator ''alice'')"

definition test_admin_count_is_zero_before_initialization :: bool where
  "test_admin_count_is_zero_before_initialization =
     (admin_count (rbac_empty :: test_role rbac) = 0)"

definition test_only_admin_grants_increment_the_admin_count :: bool where
  "test_only_admin_grants_increment_the_admin_count =
     (expect_ok (grant_test_role 0 TestOperator ''operator'' False rbac_empty) (\<lambda>(_, s1).
        admin_count s1 = 0 \<and>
        expect_ok (grant_test_role 0 TestAdmin ''admin'' True s1) (\<lambda>(_, s2).
        admin_count s2 = 1 \<and>
        expect_ok (grant_test_role 0 TestAdmin ''admin'' True s2) (\<lambda>(_, s3). admin_count s3 = 1))))"

definition test_grant_marks_membership_and_reports_the_transition :: bool where
  "test_grant_marks_membership_and_reports_the_transition =
     (expect_ok (grant_test_role 0 TestOperator ''alice'' False rbac_empty) (\<lambda>(b, s1).
        b \<and> has_role 0 s1 TestOperator ''alice''))"

definition test_grant_is_idempotent_and_does_not_duplicate_members :: bool where
  "test_grant_is_idempotent_and_does_not_duplicate_members =
     (expect_ok (grant_test_role 0 TestOperator ''alice'' False rbac_empty) (\<lambda>(b1, s1).
        expect_ok (grant_test_role 0 TestOperator ''alice'' False s1) (\<lambda>(b2, s2).
        b1 \<and> \<not> b2 \<and> role_members s2 TestOperator = [''alice''])))"

definition test_grant_appends_members_in_grant_order :: bool where
  "test_grant_appends_members_in_grant_order =
     (expect_ok (grant_test_role 0 TestOperator ''first'' False rbac_empty) (\<lambda>(_, s1).
        expect_ok (grant_test_role 0 TestOperator ''second'' False s1) (\<lambda>(_, s2).
        expect_ok (grant_test_role 0 TestOperator ''third'' False s2) (\<lambda>(_, s3).
        role_members s3 TestOperator = [''first'', ''second'', ''third'']))))"

definition test_revoke_of_a_role_that_is_not_held_reports_no_change :: bool where
  "test_revoke_of_a_role_that_is_not_held_reports_no_change =
     (expect_ok (revoke_test_role 0 TestOperator ''alice'' False rbac_empty) (\<lambda>(b, s1).
        \<not> b \<and> \<not> has_role 0 s1 TestOperator ''alice'' \<and> role_members s1 TestOperator = []))"

definition test_revoke_removes_the_role_and_only_that_member :: bool where
  "test_revoke_removes_the_role_and_only_that_member =
     (expect_ok (grant_test_role 0 TestOperator ''first'' False rbac_empty) (\<lambda>(_, s1).
        expect_ok (grant_test_role 0 TestOperator ''middle'' False s1) (\<lambda>(_, s2).
        expect_ok (grant_test_role 0 TestOperator ''last'' False s2) (\<lambda>(_, s3).
        expect_ok (revoke_test_role 0 TestOperator ''middle'' False s3) (\<lambda>(b, s4).
        b \<and> has_role 0 s4 TestOperator ''first'' \<and> \<not> has_role 0 s4 TestOperator ''middle'' \<and>
        has_role 0 s4 TestOperator ''last'' \<and> role_members s4 TestOperator = [''first'', ''last''])))))"

definition test_revoke_decrements_the_admin_count_while_another_admin_remains :: bool where
  "test_revoke_decrements_the_admin_count_while_another_admin_remains =
     (expect_ok (grant_test_role 0 TestAdmin ''first'' True rbac_empty) (\<lambda>(_, s1).
        expect_ok (grant_test_role 0 TestAdmin ''second'' True s1) (\<lambda>(_, s2).
        admin_count s2 = 2 \<and>
        expect_ok (revoke_test_role 0 TestAdmin ''second'' True s2) (\<lambda>(b, s3).
        b \<and> admin_count s3 = 1 \<and> has_role 0 s3 TestAdmin ''first''))))"

definition test_revoke_refuses_to_remove_the_last_admin :: bool where
  "test_revoke_refuses_to_remove_the_last_admin =
     (expect_ok (grant_test_role 0 TestAdmin ''only'' True rbac_empty) (\<lambda>(_, s1).
        fails_with (revoke_test_role 0 TestAdmin ''only'' True s1) LastAdmin \<and>
        has_role 0 s1 TestAdmin ''only'' \<and> admin_count s1 = 1 \<and> length (role_members s1 TestAdmin) = 1))"

definition test_role_members_is_empty_for_an_unset_role :: bool where
  "test_role_members_is_empty_for_an_unset_role =
     (role_members rbac_empty TestOperator = [])"

definition test_role_state_is_written_to_instance_storage :: bool where
  "test_role_state_is_written_to_instance_storage =
     (expect_ok (grant_test_role 0 TestOperator ''alice'' False rbac_empty) (\<lambda>(_, s1).
        role_entries s1 (TestOperator, ''alice'') \<noteq> None \<and> member_lists s1 TestOperator \<noteq> None \<and>
        admin_counter s1 = None \<and>
        expect_ok (grant_test_role 0 TestAdmin ''alice'' True s1) (\<lambda>(_, s2). admin_counter s2 \<noteq> None)))"

definition test_require_role_or_admin_accepts_a_role_holder :: bool where
  "test_require_role_or_admin_accepts_a_role_holder =
     (expect_ok (grant_test_role 0 TestOperator ''operator'' False rbac_empty) (\<lambda>(_, s1).
        is_ok (require_role_or_admin test_env ''operator'' TestOperator TestAdmin s1)))"

definition test_require_role_or_admin_accepts_an_admin_without_the_specific_role :: bool where
  "test_require_role_or_admin_accepts_an_admin_without_the_specific_role =
     (expect_ok (grant_test_role 0 TestAdmin ''admin'' True rbac_empty) (\<lambda>(_, s1).
        \<not> has_role 0 s1 TestOperator ''admin'' \<and>
        is_ok (require_role_or_admin test_env ''admin'' TestOperator TestAdmin s1)))"

definition test_require_role_or_admin_rejects_an_unrelated_caller :: bool where
  "test_require_role_or_admin_rejects_an_unrelated_caller =
     (fails_with (require_role_or_admin test_env ''stranger'' TestOperator TestAdmin rbac_empty) NotAuthorized)"

definition test_require_role_or_admin_invokes_on_success_only_when_authorized :: bool where
  "test_require_role_or_admin_invokes_on_success_only_when_authorized =
     (expect_ok (grant_test_role 0 TestOperator ''operator'' False rbac_empty) (\<lambda>(_, s1).
        let r1 = require_role_or_admin test_env ''operator'' TestOperator TestAdmin s1;
            r2 = require_role_or_admin test_env ''stranger'' TestOperator TestAdmin s1 in
        is_ok r1 \<and> mark_success r1 False \<and> fails_with r2 NotAuthorized \<and> \<not> mark_success r2 False))"

definition test_require_role_rejects_an_admin_that_lacks_the_exact_role :: bool where
  "test_require_role_rejects_an_admin_that_lacks_the_exact_role =
     (expect_ok (grant_test_role 0 TestAdmin ''admin'' True rbac_empty) (\<lambda>(_, s1).
        fails_with (require_role test_env ''admin'' TestOperator s1) NotAuthorized))"

definition test_require_role_accepts_the_exact_role_holder :: bool where
  "test_require_role_accepts_the_exact_role_holder =
     (expect_ok (grant_test_role 0 TestAdmin ''admin'' True rbac_empty) (\<lambda>(_, s1).
        is_ok (require_role test_env ''admin'' TestAdmin s1)))"

definition test_require_role_skips_on_success_when_the_exact_role_is_missing :: bool where
  "test_require_role_skips_on_success_when_the_exact_role_is_missing =
     (expect_ok (grant_test_role 0 TestAdmin ''admin'' True rbac_empty) (\<lambda>(_, s1).
        let r = require_role test_env ''admin'' TestOperator s1 in fails_with r NotAuthorized \<and> \<not> mark_success r False))"

definition test_require_role_invokes_on_success_for_the_exact_role :: bool where
  "test_require_role_invokes_on_success_for_the_exact_role =
     (expect_ok (grant_test_role 0 TestAdmin ''admin'' True rbac_empty) (\<lambda>(_, s1).
        let r = require_role test_env ''admin'' TestAdmin s1 in is_ok r \<and> mark_success r False))"

definition test_multi_admin_prevents_revocation_of_last_admin :: bool where
  "test_multi_admin_prevents_revocation_of_last_admin =
     (expect_ok (grant_test_role 0 TestAdmin ''a1'' True rbac_empty) (\<lambda>(_, s1).
        expect_ok (grant_test_role 0 TestAdmin ''a2'' True s1) (\<lambda>(_, s2).
        expect_ok (grant_test_role 0 TestAdmin ''a3'' True s2) (\<lambda>(_, s3).
        admin_count s3 = 3 \<and>
        expect_ok (revoke_test_role 0 TestAdmin ''a2'' True s3) (\<lambda>(b4, s4).
        b4 \<and> admin_count s4 = 2 \<and>
        expect_ok (revoke_test_role 0 TestAdmin ''a3'' True s4) (\<lambda>(b5, s5).
        b5 \<and> admin_count s5 = 1 \<and> fails_with (revoke_test_role 0 TestAdmin ''a1'' True s5) LastAdmin \<and>
        admin_count s5 = 1 \<and> has_role 0 s5 TestAdmin ''a1''))))))"

definition test_multi_admin_guards_preserve_members_list :: bool where
  "test_multi_admin_guards_preserve_members_list =
     (expect_ok (grant_test_role 0 TestAdmin ''a1'' True rbac_empty) (\<lambda>(_, s1).
        expect_ok (grant_test_role 0 TestAdmin ''a2'' True s1) (\<lambda>(_, s2).
        expect_ok (grant_test_role 0 TestAdmin ''a3'' True s2) (\<lambda>(_, s3).
        expect_ok (revoke_test_role 0 TestAdmin ''a2'' True s3) (\<lambda>(_, s4).
        role_members s4 TestAdmin = [''a1'', ''a3''])))))"

lemma rbac_tests_pass:
  "test_grant_with_expiration_expires_correctly"
  "test_has_role_is_false_before_any_grant"
  "test_admin_count_is_zero_before_initialization"
  "test_only_admin_grants_increment_the_admin_count"
  "test_grant_marks_membership_and_reports_the_transition"
  "test_grant_is_idempotent_and_does_not_duplicate_members"
  "test_grant_appends_members_in_grant_order"
  "test_revoke_of_a_role_that_is_not_held_reports_no_change"
  "test_revoke_removes_the_role_and_only_that_member"
  "test_revoke_decrements_the_admin_count_while_another_admin_remains"
  "test_revoke_refuses_to_remove_the_last_admin"
  "test_role_members_is_empty_for_an_unset_role"
  "test_role_state_is_written_to_instance_storage"
  "test_require_role_or_admin_accepts_a_role_holder"
  "test_require_role_or_admin_accepts_an_admin_without_the_specific_role"
  "test_require_role_or_admin_rejects_an_unrelated_caller"
  "test_require_role_or_admin_invokes_on_success_only_when_authorized"
  "test_require_role_rejects_an_admin_that_lacks_the_exact_role"
  "test_require_role_accepts_the_exact_role_holder"
  "test_require_role_skips_on_success_when_the_exact_role_is_missing"
  "test_require_role_invokes_on_success_for_the_exact_role"
  "test_multi_admin_prevents_revocation_of_last_admin"
  "test_multi_admin_guards_preserve_members_list"
  by code_simp+

section \<open>Storage renewal and the keeper pool\<close>

datatype test_key = PersistentEntry

definition empty_pool :: "ledger \<Rightarrow> (test_key, ledger) pool_state" where
  "empty_pool w = \<lparr>ps_pool = None, ps_world = w, ps_present = (\<lambda>_. True), ps_ttl = []\<rparr>"

definition minted :: "address \<Rightarrow> int \<Rightarrow> ledger" where
  "minted a n = (\<lambda>t h. if t = ''token'' \<and> h = a then n else 0)"

definition test_ensure_active_ttl_does_not_panic :: bool where
  "test_ensure_active_ttl_does_not_panic =
     (ensure_active_ttl (bump_instance ([] :: test_key ttl_call list)) =
         [ExtendInstance MIN_TTL_LEDGERS EXTEND_TTL_LEDGERS, ExtendInstance MIN_TTL_LEDGERS EXTEND_TTL_LEDGERS])"

definition test_macro_ensure_active_ttl :: bool where
  "test_macro_ensure_active_ttl =
     (bump_instance ([] :: test_key ttl_call list) = [ExtendInstance MIN_TTL_LEDGERS EXTEND_TTL_LEDGERS])"

definition test_keeper_reward_pool_pays_fixed_reward_per_bumped_key :: bool where
  "test_keeper_reward_pool_pays_fixed_reward_per_bumped_key =
     (expect_ok (configure_keeper_reward_pool DEFAULT_KEEPER_REWARD_PER_KEY (empty_pool (minted ''funder'' 5000000))) (\<lambda>(_, s1).
        expect_ok (fund_keeper_reward_pool test_env ''token'' ''funder'' 5000000 s1) (\<lambda>(_, s2).
        expect_ok (bump_persistent_with_reward test_env PersistentEntry ''token'' ''keeper'' s2) (\<lambda>(paid, s3).
        paid = DEFAULT_KEEPER_REWARD_PER_KEY \<and>
        (case read_keeper_reward_pool s3 of
           Some p \<Rightarrow> kr_balance p = 5000000 - DEFAULT_KEEPER_REWARD_PER_KEY | None \<Rightarrow> False) \<and>
        ledger_balance (ps_world s3) ''token'' ''keeper'' = Some DEFAULT_KEEPER_REWARD_PER_KEY))))"

definition test_keeper_reward_pool_rejects_a_bump_when_unfunded :: bool where
  "test_keeper_reward_pool_rejects_a_bump_when_unfunded =
     (expect_ok (configure_keeper_reward_pool DEFAULT_KEEPER_REWARD_PER_KEY (empty_pool (minted ''funder'' 0))) (\<lambda>(_, s1).
        fails_with (bump_persistent_with_reward test_env PersistentEntry ''token'' ''keeper'' s1) InsufficientPoolBalance))"

definition test_standardized_ttl_constants :: bool where
  "test_standardized_ttl_constants =
     (0 < min_ttl_ledgers TESTNET_TTL_CONFIG \<and> min_ttl_ledgers TESTNET_TTL_CONFIG < extend_ttl_ledgers TESTNET_TTL_CONFIG \<and>
      0 < min_ttl_ledgers MAINNET_TTL_CONFIG \<and> min_ttl_ledgers MAINNET_TTL_CONFIG < extend_ttl_ledgers MAINNET_TTL_CONFIG \<and>
      MIN_TTL_LEDGERS < EXTEND_TTL_LEDGERS)"

lemma ttl_tests_pass:
  "test_ensure_active_ttl_does_not_panic"
  "test_macro_ensure_active_ttl"
  "test_keeper_reward_pool_pays_fixed_reward_per_bumped_key"
  "test_keeper_reward_pool_rejects_a_bump_when_unfunded"
  "test_standardized_ttl_constants"
  by code_simp+

section \<open>Zero addresses\<close>

definition test_rejects_zero_ed25519_account :: bool where
  "test_rejects_zero_ed25519_account =
     (is_zero_address ''GAAAAAAAAAAAAAAAAAAAAAAAAAAAAAAAAAAAAAAAAAAAAAAAAAAAAWHF'')"

definition test_rejects_zero_contract_address :: bool where
  "test_rejects_zero_contract_address =
     (is_zero_address ''CAAAAAAAAAAAAAAAAAAAAAAAAAAAAAAAAAAAAAAAAAAAAAAAAAAABSC4'')"

definition test_accepts_generated_address :: bool where
  "test_accepts_generated_address =
     (\<not> is_zero_address ''GBRPYHIL2CI3FNQ4BXLFMNDLFJUNPU2HY3ZMFSHONUCEOASW7QC7OX2H'')"

definition test_deprecated_alias_matches_canonical :: bool where
  "test_deprecated_alias_matches_canonical =
     (is_zero_stellar_account ''GAAAAAAAAAAAAAAAAAAAAAAAAAAAAAAAAAAAAAAAAAAAAAAAAAAAAWHF'' \<and>
      \<not> is_zero_stellar_account ''GBRPYHIL2CI3FNQ4BXLFMNDLFJUNPU2HY3ZMFSHONUCEOASW7QC7OX2H'')"

lemma address_tests_pass:
  "test_rejects_zero_ed25519_account"
  "test_rejects_zero_contract_address"
  "test_accepts_generated_address"
  "test_deprecated_alias_matches_canonical"
  by code_simp+

end
