(* ===== verification/Contract_Tests.thy ===== *)
theory Contract_Tests
  imports Common_Tests Stream_Math Factory
begin

text \<open>
  The unit tests inside \<^verbatim>\<open>stream/src/math.rs\<close>, \<^verbatim>\<open>stream/src/ttl.rs\<close> and
  \<^verbatim>\<open>factory/src/governance.rs\<close>, run on the model, in the manner of \<open>Common_Tests\<close>.
  One of them does not hold of the code: it expects a product to saturate that fits
  into an \<^verbatim>\<open>i128\<close>.
\<close>

section \<open>Stream arithmetic\<close>

definition returns :: "('e, 'a) res \<Rightarrow> 'a \<Rightarrow> bool" where
  "returns r v = (case r of Inr x \<Rightarrow> x = v | Inl _ \<Rightarrow> False)"

definition test_calculate_streamed_amount_zero_elapsed_or_rate :: bool where
  "test_calculate_streamed_amount_zero_elapsed_or_rate =
     (returns (calculate_streamed_amount 0 100) 0 \<and> returns (calculate_streamed_amount 500 0) 0 \<and> returns (calculate_streamed_amount 0 0) 0)"

definition test_calculate_streamed_amount_normal_ranges :: bool where
  "test_calculate_streamed_amount_normal_ranges =
     (returns (calculate_streamed_amount 10 5) 50 \<and> returns (calculate_streamed_amount 1000000 3600) 3600000000)"

definition test_calculate_streamed_amount_maximum_boundary_conditions :: bool where
  "test_calculate_streamed_amount_maximum_boundary_conditions =
     (let half_max = i128_max div 2 in
      returns (calculate_streamed_amount i128_max 1) i128_max \<and> fails_with (calculate_streamed_amount i128_max 2) stream_error.ArithmeticOverflow \<and>
      returns (calculate_streamed_amount half_max 2) (half_max * 2) \<and> fails_with (calculate_streamed_amount half_max 3) stream_error.ArithmeticOverflow \<and>
      fails_with (calculate_streamed_amount i128_max u64_max) stream_error.ArithmeticOverflow)"

definition test_calculate_streamed_amount_fuzz_parameterized_ranges :: bool where
  "test_calculate_streamed_amount_fuzz_parameterized_ranges =
     (let rates = [1, 1000, 1000000000, 1000000000000000000, 2 ^ 60, 2 ^ 90, 2 ^ 120, i128_max];
          elapsed_samples = [1, 10, 60, 3600, 86400, 31536000, u32_max, u64_max] in
      list_all (\<lambda>rate. list_all (\<lambda>elapsed.
        let res = calculate_streamed_amount rate elapsed in
        (case checked_i128 (rate * elapsed) of
           Some expected \<Rightarrow> returns res expected
         | None \<Rightarrow> fails_with res stream_error.ArithmeticOverflow)) elapsed_samples) rates)"

definition test_rate_duration_saturating_zero_cases :: bool where
  "test_rate_duration_saturating_zero_cases =
     (rate_duration_saturating 0 100 = 0 \<and> rate_duration_saturating 500 0 = 0 \<and> rate_duration_saturating 0 0 = 0)"

definition test_rate_duration_saturating_normal_ranges :: bool where
  "test_rate_duration_saturating_normal_ranges =
     (rate_duration_saturating 10 5 = 50 \<and> rate_duration_saturating 1000000 3600 = 3600000000)"

definition test_rate_duration_saturating_overflow_behavior :: bool where
  "test_rate_duration_saturating_overflow_behavior =
     (rate_duration_saturating i128_max 2 = i128_max \<and> rate_duration_saturating i128_max u64_max = i128_max \<and>
      rate_duration_saturating 1000000000000 u64_max = i128_max)"

definition test_rate_duration_saturating_boundary :: bool where
  "test_rate_duration_saturating_boundary =
     (let half_max = i128_max div 2 in
      rate_duration_saturating i128_max 1 = i128_max \<and> rate_duration_saturating half_max 2 = sat_i128 (half_max * 2) \<and> rate_duration_saturating half_max 3 = i128_max)"

definition test_short_streams_keep_the_default_extend_target :: bool where
  "test_short_streams_keep_the_default_extend_target =
     (extend_to_for_remaining 0 = EXTEND_TTL_LEDGERS \<and> extend_to_for_remaining 60 = EXTEND_TTL_LEDGERS)"

definition test_longer_streams_scale_the_extend_target_and_clamp_at_the_host_max :: bool where
  "test_longer_streams_scale_the_extend_target_and_clamp_at_the_host_max =
     (extend_to_for_remaining 3600 < extend_to_for_remaining (30 * 24 * 60 * 60) \<and>
      extend_to_for_remaining (5 * 365 * 24 * 60 * 60) = MAX_TTL_LEDGERS \<and>
      extend_to_for_remaining u64_max \<le> MAX_TTL_LEDGERS)"

lemma stream_math_tests_pass:
  "test_calculate_streamed_amount_zero_elapsed_or_rate"
  "test_calculate_streamed_amount_normal_ranges"
  "test_calculate_streamed_amount_maximum_boundary_conditions"
  "test_calculate_streamed_amount_fuzz_parameterized_ranges"
  "test_rate_duration_saturating_zero_cases"
  "test_rate_duration_saturating_normal_ranges"
  "test_rate_duration_saturating_boundary"
  "test_short_streams_keep_the_default_extend_target"
  "test_longer_streams_scale_the_extend_target_and_clamp_at_the_host_max"
  by code_simp+

text \<open>
  The last assertion of this test is wrong: the product of \<^verbatim>\<open>10^12\<close> and the largest
  \<^verbatim>\<open>u64\<close> is below the largest \<^verbatim>\<open>i128\<close>, so the function returns it and does not saturate.
\<close>

lemma rate_duration_test_fails:
  "rate_duration_saturating 1000000000000 u64_max = 1000000000000 * u64_max"
  "\<not> test_rate_duration_saturating_overflow_behavior"
  by code_simp+

section \<open>Governor bounds\<close>

text \<open>
  The configuration of the tests.  Their literal leaves out the two fields of the
  proposal stake, which \<^verbatim>\<open>enforce_bounds\<close> does not read.
\<close>

definition bounds_config :: governor_config where
  "bounds_config = \<lparr>gc_fee_bps = 30, gc_fee_recipient = ''recipient'', gc_min_duration_seconds = 3600,
     gc_max_duration_seconds = 30 * 86400, gc_max_rate_per_second = 1000000, gc_factory_address = ''factory'',
     gc_force_cancel_pause_secs = 30 * 86400, gc_min_quorum_bps = 0, gc_voting_period_ledgers = 17280,
     gc_proposal_stake_token = None, gc_min_proposal_stake = 0\<rparr>"

definition NOW :: int where "NOW = 1700000000"
definition DAY :: int where "DAY = 86400"

definition test_open_ended_stream_far_in_the_future_is_rejected :: bool where
  "test_open_ended_stream_far_in_the_future_is_rejected =
     (let start = NOW + 100 * 365 * DAY in fails_with (enforce_bounds bounds_config 1 start 0 NOW) StartTimeTooFarInFuture)"

definition test_fixed_duration_stream_far_in_the_future_is_also_rejected :: bool where
  "test_fixed_duration_stream_far_in_the_future_is_also_rejected =
     (let start = NOW + 100 * 365 * DAY in fails_with (enforce_bounds bounds_config 1 start (start + DAY) NOW) StartTimeTooFarInFuture)"

definition test_start_exactly_at_the_ceiling_is_allowed :: bool where
  "test_start_exactly_at_the_ceiling_is_allowed =
     (let start = NOW + gc_max_duration_seconds bounds_config in is_ok (enforce_bounds bounds_config 1 start 0 NOW))"

definition test_start_one_second_past_the_ceiling_is_rejected :: bool where
  "test_start_one_second_past_the_ceiling_is_rejected =
     (let start = NOW + gc_max_duration_seconds bounds_config + 1 in
      fails_with (enforce_bounds bounds_config 1 start 0 NOW) StartTimeTooFarInFuture)"

definition test_immediate_start_is_unaffected :: bool where
  "test_immediate_start_is_unaffected =
     (is_ok (enforce_bounds bounds_config 1 NOW 0 NOW) \<and> is_ok (enforce_bounds bounds_config 1 NOW (NOW + DAY) NOW))"

definition test_a_start_time_already_in_the_past_does_not_underflow :: bool where
  "test_a_start_time_already_in_the_past_does_not_underflow =
     (is_ok (enforce_bounds bounds_config 1 (NOW - 5 * DAY) 0 NOW))"

definition test_rate_above_the_maximum_is_still_rejected :: bool where
  "test_rate_above_the_maximum_is_still_rejected =
     (fails_with (enforce_bounds bounds_config (gc_max_rate_per_second bounds_config + 1) NOW 0 NOW) RateExceedsMax)"

definition test_duration_bounds_still_apply_to_fixed_duration_streams :: bool where
  "test_duration_bounds_still_apply_to_fixed_duration_streams =
     (fails_with (enforce_bounds bounds_config 1 NOW (NOW + gc_min_duration_seconds bounds_config - 1) NOW) DurationTooShort \<and>
      fails_with (enforce_bounds bounds_config 1 NOW (NOW + gc_max_duration_seconds bounds_config + 1) NOW) DurationExceedsMax)"

definition test_end_before_start_still_reports_overflow :: bool where
  "test_end_before_start_still_reports_overflow =
     (fails_with (enforce_bounds bounds_config 1 (NOW + DAY) NOW NOW) factory_error.ArithmeticOverflow)"

lemma governance_tests_pass:
  "test_open_ended_stream_far_in_the_future_is_rejected"
  "test_fixed_duration_stream_far_in_the_future_is_also_rejected"
  "test_start_exactly_at_the_ceiling_is_allowed"
  "test_start_one_second_past_the_ceiling_is_rejected"
  "test_immediate_start_is_unaffected"
  "test_a_start_time_already_in_the_past_does_not_underflow"
  "test_rate_above_the_maximum_is_still_rejected"
  "test_duration_bounds_still_apply_to_fixed_duration_streams"
  "test_end_before_start_still_reports_overflow"
  by code_simp+

end
