(* ===== verification/Oracle_Tests.thy ===== *)
theory Oracle_Tests
  imports Common_Tests Oracle_Rules
begin

text \<open>
  The unit tests of \<^verbatim>\<open>oracle/src/lib.rs\<close>, run on the model.  A test is a script: the
  calls of its client, each of which must return or must fail with the error the test
  names, the reads with the values it expects, the changes of the ledger time.  The
  scripts follow the tests line by line; the theorems say which of them the code
  passes.

  Most pass.  The others were written for an oracle without the cap of fifty per cent
  on the move from the last accepted price, or for a clock that does not start at 0;
  for each of them the theorem is that it fails, and a comment says where.
\<close>

section \<open>Scripts\<close>

datatype oracle_step =
    At int
  | Does oracle_call
  | Refuses oracle_call oracle_error
  | Reads "ledger env \<Rightarrow> feeds \<Rightarrow> twap_oracle \<Rightarrow> (oracle_error, int \<times> twap_oracle) res" int
  | ReadFails "ledger env \<Rightarrow> feeds \<Rightarrow> twap_oracle \<Rightarrow> (oracle_error, int \<times> twap_oracle) res" oracle_error
  | Holds "ledger env \<Rightarrow> twap_oracle \<Rightarrow> bool"
  | Writes "twap_oracle \<Rightarrow> twap_oracle"

fun run_script :: "feeds \<Rightarrow> oracle_step list \<Rightarrow> ledger env \<Rightarrow> twap_oracle \<Rightarrow> bool" where
  "run_script fd [] e s = True"
| "run_script fd (At t # rest) e s = run_script fd rest (e\<lparr>timestamp := t\<rparr>) s"
| "run_script fd (Does c # rest) e s = (case oracle_exec e fd c s of Inr s1 \<Rightarrow> run_script fd rest e s1 | Inl _ \<Rightarrow> False)"
| "run_script fd (Refuses c err # rest) e s = (fails_with (oracle_exec e fd c s) err \<and> run_script fd rest e s)"
| "run_script fd (Reads f v # rest) e s =
     (case f e fd s of Inr (x, s1) \<Rightarrow> x = v \<and> run_script fd rest e s1 | Inl _ \<Rightarrow> False)"
| "run_script fd (ReadFails f err # rest) e s = (fails_with (f e fd s) err \<and> run_script fd rest e s)"
| "run_script fd (Holds p # rest) e s = (p e s \<and> run_script fd rest e s)"
| "run_script fd (Writes f # rest) e s = run_script fd rest e (f s)"

definition no_feeds :: feeds where
  "no_feeds = \<lparr>fd_twap_price = (\<lambda>_. None), fd_latest_price = (\<lambda>_. None)\<rparr>"

text \<open>
  \<^verbatim>\<open>setup\<close>: a registered oracle, all authorizations given.  In the scripts the address
  \<^verbatim>\<open>a\<close> is the administrator, \<^verbatim>\<open>f\<close> to \<^verbatim>\<open>k\<close> are feeders, \<^verbatim>\<open>p\<close> is a pauser, \<^verbatim>\<open>n\<close> a stranger, \<^verbatim>\<open>b\<close> and
  \<^verbatim>\<open>q\<close> (or \<^verbatim>\<open>x\<close> and \<^verbatim>\<open>u\<close>) are the two sides of a pair.
\<close>

definition script :: "oracle_step list \<Rightarrow> bool" where
  "script steps = run_script no_feeds steps test_env (fresh_oracle [])"

definition grant_admin_feeder :: oracle_step where
  "grant_admin_feeder = Does (OGrantRole ''a'' PriceFeeder ''a'')"

definition feeder :: "address \<Rightarrow> oracle_step" where
  "feeder a = Does (OGrantRole ''a'' PriceFeeder a)"

definition test_config :: "int \<Rightarrow> int \<Rightarrow> int \<Rightarrow> int \<Rightarrow> int \<Rightarrow> int \<Rightarrow> oracle_config" where
  "test_config decimals peg staleness max_price interval quorum =
     \<lparr>oc_decimals = decimals, oc_asset_peg = peg, oc_max_staleness = staleness, oc_max_price = max_price,
      oc_min_submit_interval = interval, oc_min_submitters = quorum\<rparr>"

definition configured :: "int \<Rightarrow> int \<Rightarrow> int \<Rightarrow> int \<Rightarrow> int \<Rightarrow> int \<Rightarrow> oracle_step" where
  "configured decimals peg staleness max_price interval quorum =
     Does (OConfigure ''a'' (test_config decimals peg staleness max_price interval quorum))"

text \<open>Reads that leave the state alone.\<close>

definition pure_read :: "(ledger env \<Rightarrow> twap_oracle \<Rightarrow> (oracle_error, int) res) \<Rightarrow> ledger env \<Rightarrow> feeds \<Rightarrow> twap_oracle \<Rightarrow>
    (oracle_error, int \<times> twap_oracle) res" where
  "pure_read f e fd s = and_then (f e s) (\<lambda>v. Inr (v, s))"

definition latest :: "ledger env \<Rightarrow> feeds \<Rightarrow> twap_oracle \<Rightarrow> (oracle_error, int \<times> twap_oracle) res" where
  "latest e fd s = and_then (latest_price e fd s) (\<lambda>d. Inr (pd_price d, s))"

definition stored :: "ledger env \<Rightarrow> feeds \<Rightarrow> twap_oracle \<Rightarrow> (oracle_error, int \<times> twap_oracle) res" where
  "stored e fd s = and_then (get_stored_price e fd s) (\<lambda>d. Inr (pd_price d, s))"

definition payout :: "int \<Rightarrow> ledger env \<Rightarrow> feeds \<Rightarrow> twap_oracle \<Rightarrow> (oracle_error, int \<times> twap_oracle) res" where
  "payout n e fd s = calculate_fiat_stream_payout e fd n s"

definition twap_over :: "int \<Rightarrow> ledger env \<Rightarrow> feeds \<Rightarrow> twap_oracle \<Rightarrow> (oracle_error, int \<times> twap_oracle) res" where
  "twap_over n e fd s = get_twap_price_for_observations e fd n s"

definition holds_role :: "oracle_role \<Rightarrow> address \<Rightarrow> ledger env \<Rightarrow> twap_oracle \<Rightarrow> bool" where
  "holds_role r a e s = oracle_has_role e r a s"

definition lacks_role :: "oracle_role \<Rightarrow> address \<Rightarrow> ledger env \<Rightarrow> twap_oracle \<Rightarrow> bool" where
  "lacks_role r a e s = (\<not> oracle_has_role e r a s)"

definition members_are :: "oracle_role \<Rightarrow> address list \<Rightarrow> ledger env \<Rightarrow> twap_oracle \<Rightarrow> bool" where
  "members_are r as e s = (oracle_role_members e r s = as)"

definition paused_is :: "bool \<Rightarrow> ledger env \<Rightarrow> twap_oracle \<Rightarrow> bool" where
  "paused_is b e s = (fst (oracle_is_paused_view e s) = b)"

definition stale_is :: "bool \<Rightarrow> ledger env \<Rightarrow> twap_oracle \<Rightarrow> bool" where
  "stale_is b e s = (case is_price_stale e s of Inr x \<Rightarrow> x = b | Inl _ \<Rightarrow> False)"

definition status_is :: "(price_status \<Rightarrow> bool) \<Rightarrow> ledger env \<Rightarrow> twap_oracle \<Rightarrow> bool" where
  "status_is p e s = (case price_status_view e s of Inr st \<Rightarrow> p st | Inl _ \<Rightarrow> False)"

definition status_fails :: "oracle_error \<Rightarrow> ledger env \<Rightarrow> twap_oracle \<Rightarrow> bool" where
  "status_fails err e s = fails_with (price_status_view e s) err"

definition instance_extended :: "ledger env \<Rightarrow> twap_oracle \<Rightarrow> bool" where
  "instance_extended e s =
     list_ex (\<lambda>c. case c of ExtendInstance t x \<Rightarrow> 100000 \<le> x | ExtendPersistent k t x \<Rightarrow> False) (or_ttl s)"

section \<open>Configuration and submissions\<close>

definition test_initialize_sets_admin_and_grants_role :: bool where
  "test_initialize_sets_admin_and_grants_role = script
     [Does (OInitialize ''a''), Holds (holds_role Admin ''a''), Refuses (OInitialize ''a'') AlreadyInitialized]"

definition test_configure_oracle_requires_admin_role :: bool where
  "test_configure_oracle_requires_admin_role = script
     [Does (OInitialize ''a''), configured 8 1 300 0 0 1,
      Refuses (OConfigure ''n'' (test_config 8 1 300 0 0 1)) NotAuthorized]"

definition test_configure_oracle_rejects_excessive_decimals :: bool where
  "test_configure_oracle_rejects_excessive_decimals = script
     [Does (OInitialize ''a''), Refuses (OConfigure ''a'' (test_config 39 1 300 0 0 1)) InvalidDecimals]"

definition test_configure_oracle_rejects_zero_max_staleness :: bool where
  "test_configure_oracle_rejects_zero_max_staleness = script
     [Does (OInitialize ''a''), Refuses (OConfigure ''a'' (test_config 8 1 0 0 0 1)) InvalidMaxStaleness]"

definition test_submit_price_requires_price_feeder_role :: bool where
  "test_submit_price_requires_price_feeder_role = script
     [Does (OInitialize ''a''), Refuses (OSubmitPrice ''n'' 100) NotAuthorized]"

definition test_submit_price_rejects_non_admin_non_feeder :: bool where
  "test_submit_price_rejects_non_admin_non_feeder = script
     [Does (OInitialize ''a''), Refuses (OSubmitPrice ''i'' 100) NotAuthorized, feeder ''i'',
      Does (OSubmitPrice ''i'' 100)]"

definition test_admin_without_price_feeder_role_cannot_submit_price :: bool where
  "test_admin_without_price_feeder_role_cannot_submit_price = script
     [Does (OInitialize ''a''), Refuses (OSubmitPrice ''a'' 100) NotAuthorized, feeder ''a'',
      Does (OSubmitPrice ''a'' 100)]"

definition test_price_feeder_can_submit_price :: bool where
  "test_price_feeder_can_submit_price = script
     [Does (OInitialize ''a''), feeder ''f'', Does (OSubmitPrice ''f'' 100)]"

definition test_submit_price_rejects_zero :: bool where
  "test_submit_price_rejects_zero = script
     [Does (OInitialize ''a''), grant_admin_feeder, Refuses (OSubmitPrice ''a'' 0) InvalidPrice]"

definition test_submit_price_rejects_price_above_max_price :: bool where
  "test_submit_price_rejects_price_above_max_price = script
     [Does (OInitialize ''a''), configured 8 1 300 1000000000000000000 0 1, feeder ''f'',
      Refuses (OSubmitPrice ''f'' 1000000000000000001) PriceExceedsMaxPrice,
      Refuses (OSubmitPrice ''f'' u64_max) PriceExceedsMaxPrice]"

definition test_submit_price_accepts_price_at_or_below_max_price :: bool where
  "test_submit_price_accepts_price_at_or_below_max_price = script
     [Does (OInitialize ''a''), grant_admin_feeder, configured 8 1 300 1000000000000000000 0 1,
      Does (OSubmitPrice ''a'' 1000000000000000000), Reads get_twap_price 1000000000000000000,
      Does (OSubmitPrice ''a'' 500000000), Reads get_twap_price 500000000]"

definition test_submit_price_accepts_any_price_when_max_price_is_zero :: bool where
  "test_submit_price_accepts_any_price_when_max_price_is_zero = script
     [Does (OInitialize ''a''), grant_admin_feeder, configured 0 1 300 0 0 1, Does (OSubmitPrice ''a'' u64_max),
      Reads get_twap_price u64_max]"

definition test_submit_price_without_config_has_no_ceiling :: bool where
  "test_submit_price_without_config_has_no_ceiling = script
     [Does (OInitialize ''a''), grant_admin_feeder, Does (OSubmitPrice ''a'' 100)]"

definition test_get_twap_price_requires_config :: bool where
  "test_get_twap_price_requires_config = script
     [ReadFails get_twap_price OracleNotConfigured]"

definition test_get_twap_price_requires_price_submission :: bool where
  "test_get_twap_price_requires_price_submission = script
     [Does (OInitialize ''a''), configured 8 1 300 0 0 1, ReadFails get_twap_price NoPriceAvailable]"

definition test_get_twap_price_handles_missing_heartbeat_after_network_partition :: bool where
  "test_get_twap_price_handles_missing_heartbeat_after_network_partition = script
     [Does (OInitialize ''a''), grant_admin_feeder, configured 8 1 60 0 0 1, Does (OSubmitPrice ''a'' 50000000),
      At (1000000 + 60), Reads get_twap_price 50000000, At (1000000 + 61), ReadFails get_twap_price OracleStalePrice]"

definition test_get_twap_price_returns_fresh_price :: bool where
  "test_get_twap_price_returns_fresh_price = script
     [Does (OInitialize ''a''), grant_admin_feeder, configured 8 1 300 0 0 1, Does (OSubmitPrice ''a'' 50000000),
      Reads get_twap_price 50000000]"

definition test_calculate_fiat_stream_payout_works :: bool where
  "test_calculate_fiat_stream_payout_works = script
     [Does (OInitialize ''a''), grant_admin_feeder, configured 8 1 300 0 0 1, Does (OSubmitPrice ''a'' 50000000),
      Reads (payout 100) 50]"

definition test_calculate_fiat_stream_payout_overflow :: bool where
  "test_calculate_fiat_stream_payout_overflow = script
     [Does (OInitialize ''a''), grant_admin_feeder, configured 0 1 300 0 0 1, Does (OSubmitPrice ''a'' u64_max),
      ReadFails (payout u64_max) ArithmeticOverflow]"

definition test_calculate_fiat_stream_payout_deadlocks_when_outer_lock_held :: bool where
  "test_calculate_fiat_stream_payout_deadlocks_when_outer_lock_held = script
     [Does (OInitialize ''a''), grant_admin_feeder, configured 8 1 300 0 0 1, Does (OSubmitPrice ''a'' 50000000),
      Reads (payout 100) 50, Writes (ok_Lock_update (\<lambda>_. Some 1)), ReadFails (payout 100) OracleLocked]"

lemma submission_tests_pass:
  "test_initialize_sets_admin_and_grants_role"
  "test_configure_oracle_requires_admin_role"
  "test_configure_oracle_rejects_excessive_decimals"
  "test_configure_oracle_rejects_zero_max_staleness"
  "test_submit_price_requires_price_feeder_role"
  "test_submit_price_rejects_non_admin_non_feeder"
  "test_admin_without_price_feeder_role_cannot_submit_price"
  "test_price_feeder_can_submit_price"
  "test_submit_price_rejects_zero"
  "test_submit_price_rejects_price_above_max_price"
  "test_submit_price_accepts_any_price_when_max_price_is_zero"
  "test_submit_price_without_config_has_no_ceiling"
  "test_get_twap_price_requires_config"
  "test_get_twap_price_requires_price_submission"
  "test_get_twap_price_returns_fresh_price"
  "test_calculate_fiat_stream_payout_works"
  "test_calculate_fiat_stream_payout_overflow"
  "test_calculate_fiat_stream_payout_deadlocks_when_outer_lock_held"
  by code_simp+

text \<open>Not passed:

  \<^item> \<^verbatim>\<open>submit_price_accepts_price_at_or_below_max_price\<close>: the second submission is a move of more than 50 per cent
  \<^item> \<^verbatim>\<open>get_twap_price_handles_missing_heartbeat_after_network_partition\<close>: the price is submitted at time 0, not at 1000000, and is stale at the first read
\<close>

lemma submission_tests_fail:
  "\<not> test_submit_price_accepts_price_at_or_below_max_price"
  "\<not> test_get_twap_price_handles_missing_heartbeat_after_network_partition"
  by code_simp+

section \<open>Roles and pause\<close>

definition test_admin_can_grant_and_revoke_price_feeder :: bool where
  "test_admin_can_grant_and_revoke_price_feeder = script
     [Does (OInitialize ''a''), feeder ''f'', Holds (holds_role PriceFeeder ''f''),
      Does (ORevokeRole ''a'' PriceFeeder ''f''), Holds (lacks_role PriceFeeder ''f'')]"

definition test_non_admin_cannot_grant_roles :: bool where
  "test_non_admin_cannot_grant_roles = script
     [Does (OInitialize ''a''), Refuses (OGrantRole ''n'' PriceFeeder ''o'') NotAuthorized]"

definition test_revoking_last_admin_is_rejected :: bool where
  "test_revoking_last_admin_is_rejected = script
     [Does (OInitialize ''a''), Refuses (ORevokeRole ''a'' Admin ''a'') LastAdmin, Holds (holds_role Admin ''a'')]"

definition test_admin_can_be_revoked_after_granting_second_admin :: bool where
  "test_admin_can_be_revoked_after_granting_second_admin = script
     [Does (OInitialize ''a''), Does (OGrantRole ''a'' Admin ''b''), Does (ORevokeRole ''a'' Admin ''a''),
      Holds (lacks_role Admin ''a''), Holds (holds_role Admin ''b'')]"

definition test_admin_can_pause_and_unpause :: bool where
  "test_admin_can_pause_and_unpause = script
     [Does (OInitialize ''a''), Holds (paused_is False), Does (OPause ''a''), Holds (paused_is True),
      Does (OUnpause ''a''), Holds (paused_is False)]"

definition test_pause_blocks_submit_price :: bool where
  "test_pause_blocks_submit_price = script
     [Does (OInitialize ''a''), grant_admin_feeder, configured 8 1 300 0 0 1, Does (OSubmitPrice ''a'' 50000000),
      Does (OPause ''a''), Refuses (OSubmitPrice ''a'' 100) ContractPaused]"

definition test_submit_price_works_after_unpause :: bool where
  "test_submit_price_works_after_unpause = script
     [Does (OInitialize ''a''), grant_admin_feeder, Does (OPause ''a''), Does (OUnpause ''a''),
      Does (OSubmitPrice ''a'' 100)]"

definition test_double_pause_is_rejected :: bool where
  "test_double_pause_is_rejected = script
     [Does (OInitialize ''a''), Does (OPause ''a''), Refuses (OPause ''a'') AlreadyPaused]"

definition test_unpause_when_not_paused_is_rejected :: bool where
  "test_unpause_when_not_paused_is_rejected = script
     [Does (OInitialize ''a''), Refuses (OUnpause ''a'') NotPaused]"

definition test_get_twap_price_works_while_paused :: bool where
  "test_get_twap_price_works_while_paused = script
     [Does (OInitialize ''a''), grant_admin_feeder, configured 8 1 300 0 0 1, Does (OSubmitPrice ''a'' 50000000),
      Does (OPause ''a''), Reads get_twap_price 50000000]"

definition test_pauser_can_pause_and_unpause_without_admin :: bool where
  "test_pauser_can_pause_and_unpause_without_admin = script
     [Does (OInitialize ''a''), Does (OGrantRole ''a'' Pauser ''p''), Holds (lacks_role Admin ''p''),
      Holds (paused_is False), Does (OPause ''p''), Holds (paused_is True), Does (OUnpause ''p''),
      Holds (paused_is False)]"

definition test_non_pauser_non_admin_cannot_pause :: bool where
  "test_non_pauser_non_admin_cannot_pause = script
     [Does (OInitialize ''a''), Refuses (OPause ''n'') NotAuthorized]"

definition test_non_pauser_non_admin_cannot_unpause :: bool where
  "test_non_pauser_non_admin_cannot_unpause = script
     [Does (OInitialize ''a''), Does (OPause ''a''), Refuses (OUnpause ''n'') NotAuthorized]"

definition test_price_feeder_cannot_pause :: bool where
  "test_price_feeder_cannot_pause = script
     [Does (OInitialize ''a''), feeder ''f'', Refuses (OPause ''f'') NotAuthorized]"

definition test_pauser_revoked_can_no_longer_pause :: bool where
  "test_pauser_revoked_can_no_longer_pause = script
     [Does (OInitialize ''a''), Does (OGrantRole ''a'' Pauser ''p''), Does (ORevokeRole ''a'' Pauser ''p''),
      Refuses (OPause ''p'') NotAuthorized]"

definition test_role_members_empty_before_any_grants :: bool where
  "test_role_members_empty_before_any_grants = script
     [Does (OInitialize ''a''), Holds (members_are PriceFeeder [])]"

definition test_role_members_tracks_admin_from_initialize :: bool where
  "test_role_members_tracks_admin_from_initialize = script
     [Does (OInitialize ''a''), Holds (members_are Admin [''a''])]"

definition test_role_members_grows_on_grant :: bool where
  "test_role_members_grows_on_grant = script
     [Does (OInitialize ''a''), feeder ''f'', feeder ''g'', Holds (members_are PriceFeeder [''f'', ''g''])]"

definition test_role_members_shrinks_on_revoke :: bool where
  "test_role_members_shrinks_on_revoke = script
     [Does (OInitialize ''a''), feeder ''f'', feeder ''g'', Does (ORevokeRole ''a'' PriceFeeder ''f''),
      Holds (members_are PriceFeeder [''g''])]"

definition test_role_members_admin_index_updated_on_transfer :: bool where
  "test_role_members_admin_index_updated_on_transfer = script
     [Does (OInitialize ''a''), Does (OTransferAdmin ''a'' ''b''), Holds (members_are Admin [''b''])]"

definition test_role_members_pauser_index_maintained :: bool where
  "test_role_members_pauser_index_maintained = script
     [Does (OInitialize ''a''), Does (OGrantRole ''a'' Pauser ''p''), Holds (members_are Pauser [''p'']),
      Does (ORevokeRole ''a'' Pauser ''p''), Holds (members_are Pauser [])]"

definition test_expiring_price_feeder_role_is_enforced_and_regrant_keeps_index_unique :: bool where
  "test_expiring_price_feeder_role_is_enforced_and_regrant_keeps_index_unique = script
     [Does (OInitialize ''a''), Does (OGrantRoleWithExpiration ''a'' PriceFeeder ''f'' (Some (0 + 100))),
      Holds (holds_role PriceFeeder ''f''), Holds (members_are PriceFeeder [''f'']), At 100,
      Holds (lacks_role PriceFeeder ''f''), Holds (members_are PriceFeeder []),
      Refuses (OSubmitPrice ''f'' 100) NotAuthorized,
      Does (OGrantRoleWithExpiration ''a'' PriceFeeder ''f'' (Some (100 + 100))),
      Holds (holds_role PriceFeeder ''f''), Holds (members_are PriceFeeder [''f''])]"

definition test_grant_is_idempotent_and_does_not_double_count_in_index :: bool where
  "test_grant_is_idempotent_and_does_not_double_count_in_index = script
     [Does (OInitialize ''a''), feeder ''f'', feeder ''f'', Holds (members_are PriceFeeder [''f''])]"

definition test_transfer_admin_moves_role_and_revokes_old :: bool where
  "test_transfer_admin_moves_role_and_revokes_old = script
     [Does (OInitialize ''a''), Does (OTransferAdmin ''a'' ''b''), Holds (holds_role Admin ''b''),
      Holds (lacks_role Admin ''a'')]"

definition test_transfer_admin_requires_admin_role :: bool where
  "test_transfer_admin_requires_admin_role = script
     [Does (OInitialize ''a''), Refuses (OTransferAdmin ''n'' ''b'') NotAuthorized]"

definition test_new_admin_can_act_immediately_after_transfer :: bool where
  "test_new_admin_can_act_immediately_after_transfer = script
     [Does (OInitialize ''a''), Does (OTransferAdmin ''a'' ''b''),
      Refuses (OConfigure ''a'' (test_config 8 1 300 0 0 1)) NotAuthorized,
      Does (OConfigure ''b'' (test_config 8 1 300 0 0 1))]"

lemma role_tests_pass:
  "test_admin_can_grant_and_revoke_price_feeder"
  "test_non_admin_cannot_grant_roles"
  "test_revoking_last_admin_is_rejected"
  "test_admin_can_be_revoked_after_granting_second_admin"
  "test_admin_can_pause_and_unpause"
  "test_pause_blocks_submit_price"
  "test_submit_price_works_after_unpause"
  "test_double_pause_is_rejected"
  "test_unpause_when_not_paused_is_rejected"
  "test_get_twap_price_works_while_paused"
  "test_pauser_can_pause_and_unpause_without_admin"
  "test_non_pauser_non_admin_cannot_pause"
  "test_non_pauser_non_admin_cannot_unpause"
  "test_price_feeder_cannot_pause"
  "test_pauser_revoked_can_no_longer_pause"
  "test_role_members_empty_before_any_grants"
  "test_role_members_tracks_admin_from_initialize"
  "test_role_members_grows_on_grant"
  "test_role_members_shrinks_on_revoke"
  "test_role_members_admin_index_updated_on_transfer"
  "test_role_members_pauser_index_maintained"
  "test_expiring_price_feeder_role_is_enforced_and_regrant_keeps_index_unique"
  "test_grant_is_idempotent_and_does_not_double_count_in_index"
  "test_transfer_admin_moves_role_and_revokes_old"
  "test_transfer_admin_requires_admin_role"
  "test_new_admin_can_act_immediately_after_transfer"
  by code_simp+

section \<open>Aggregation and staleness\<close>

definition test_get_twap_price_weights_the_recent_observation_window_by_time :: bool where
  "test_get_twap_price_weights_the_recent_observation_window_by_time = script
     [Does (OInitialize ''a''), grant_admin_feeder, configured 8 1 300 0 0 1, At 100, Does (OSubmitPrice ''a'' 100),
      At 110, Does (OSubmitPrice ''a'' 200), At 140, Reads get_twap_price 175, Reads (twap_over 1) 200,
      ReadFails (twap_over 0) InvalidObservationCount,
      ReadFails (twap_over (MAX_TWAP_OBSERVATIONS + 1)) InvalidObservationCount]"

definition test_get_twap_price_aggregates_median_across_feeders :: bool where
  "test_get_twap_price_aggregates_median_across_feeders = script
     [Does (OInitialize ''a''), grant_admin_feeder, configured 8 1 300 0 0 1, feeder ''g'', feeder ''h'',
      Does (OSubmitPrice ''a'' 10), Does (OSubmitPrice ''g'' 20), Does (OSubmitPrice ''h'' 30),
      Reads get_twap_price 20]"

definition test_get_twap_price_averages_middle_two_on_even_count :: bool where
  "test_get_twap_price_averages_middle_two_on_even_count = script
     [Does (OInitialize ''a''), grant_admin_feeder, configured 8 1 300 0 0 1, feeder ''g'',
      Does (OSubmitPrice ''a'' 10), Does (OSubmitPrice ''g'' 20), Reads get_twap_price 15]"

definition test_get_twap_price_ignores_stale_submitters_in_aggregate :: bool where
  "test_get_twap_price_ignores_stale_submitters_in_aggregate = script
     [Does (OInitialize ''a''), grant_admin_feeder, configured 8 1 60 0 0 1, feeder ''g'',
      Does (OSubmitPrice ''a'' 10), At (0 + 61), Does (OSubmitPrice ''g'' 20), Reads get_twap_price 20]"

definition test_get_twap_price_errors_stale_when_all_submitters_stale :: bool where
  "test_get_twap_price_errors_stale_when_all_submitters_stale = script
     [Does (OInitialize ''a''), grant_admin_feeder, configured 8 1 60 0 0 1, Does (OSubmitPrice ''a'' 10),
      At (0 + 61), ReadFails get_twap_price OracleStalePrice]"

definition test_price_age_reports_seconds_since_last_submission :: bool where
  "test_price_age_reports_seconds_since_last_submission = script
     [Does (OInitialize ''a''), grant_admin_feeder, configured 8 1 300 0 0 1, Does (OSubmitPrice ''a'' 50000000),
      Reads (pure_read price_age) 0, At (0 + 42), Reads (pure_read price_age) 42]"

definition test_price_age_requires_config :: bool where
  "test_price_age_requires_config = script
     [ReadFails (pure_read price_age) OracleNotConfigured]"

definition test_price_age_requires_price_submission :: bool where
  "test_price_age_requires_price_submission = script
     [Does (OInitialize ''a''), configured 8 1 300 0 0 1, ReadFails (pure_read price_age) NoPriceAvailable]"

definition test_is_price_stale_reflects_max_staleness_without_erroring :: bool where
  "test_is_price_stale_reflects_max_staleness_without_erroring = script
     [Does (OInitialize ''a''), grant_admin_feeder, configured 8 1 60 0 0 1, Does (OSubmitPrice ''a'' 50000000),
      Holds (stale_is False), At (0 + 61), Holds (stale_is True)]"

definition test_price_status_reports_config_required :: bool where
  "test_price_status_reports_config_required = script
     [Holds (status_fails OracleNotConfigured)]"

definition test_price_status_reports_no_price_available :: bool where
  "test_price_status_reports_no_price_available = script
     [Does (OInitialize ''a''), configured 8 1 300 0 0 1, Holds (status_fails NoPriceAvailable)]"

definition test_price_status_reports_quorum_and_age_spread_across_feeders :: bool where
  "test_price_status_reports_quorum_and_age_spread_across_feeders = script
     [Does (OInitialize ''a''), configured 8 1 300 0 0 1, feeder ''f'', feeder ''g'', feeder ''h'',
      Does (OSubmitPrice ''f'' 100000000), At (0 + 50), Does (OSubmitPrice ''g'' 200000000), At (0 + 100),
      Does (OSubmitPrice ''h'' 300000000),
      Holds (status_is (\<lambda>st. \<not> ps_stale st \<and> ps_fresh_submitter_count st = 3 \<and> ps_newest_age st = 0 \<and> ps_oldest_fresh_age st = 100)),
      Reads get_twap_price 125000000]"

definition test_price_status_exposes_single_feeder_lack_of_quorum :: bool where
  "test_price_status_exposes_single_feeder_lack_of_quorum = script
     [Does (OInitialize ''a''), configured 8 1 300 0 0 2, feeder ''f'', feeder ''g'',
      Does (OSubmitPrice ''f'' 100000000), Does (OSubmitPrice ''g'' 200000000), At (0 + 400),
      Holds (status_is (\<lambda>st. ps_stale st \<and> ps_fresh_submitter_count st = 0)),
      ReadFails get_twap_price OracleStalePrice, Does (OSubmitPrice ''g'' 250000000),
      Holds (status_is (\<lambda>st. \<not> ps_stale st \<and> ps_fresh_submitter_count st = 1 \<and> ps_min_submitters st = 2 \<and> ps_newest_age st = 0 \<and> ps_oldest_fresh_age st = 0)),
      ReadFails get_twap_price InsufficientQuorum, Does (OSubmitPrice ''f'' 240000000),
      Holds (status_is (\<lambda>st. ps_fresh_submitter_count st = 2)), Reads get_twap_price 150000000]"

definition test_is_price_stale_agrees_with_get_twap_price :: bool where
  "test_is_price_stale_agrees_with_get_twap_price = script
     [Does (OInitialize ''a''), configured 8 1 300 0 0 1, feeder ''f'', feeder ''g'',
      Does (OSubmitPrice ''f'' 100000000), Does (OSubmitPrice ''g'' 200000000), At (0 + 400), Holds (stale_is True),
      ReadFails get_twap_price OracleStalePrice, Does (OSubmitPrice ''g'' 250000000), Holds (stale_is False),
      Reads get_twap_price 150000000]"

lemma staleness_tests_pass:
  "test_get_twap_price_errors_stale_when_all_submitters_stale"
  "test_price_age_reports_seconds_since_last_submission"
  "test_price_age_requires_config"
  "test_price_age_requires_price_submission"
  "test_is_price_stale_reflects_max_staleness_without_erroring"
  "test_price_status_reports_config_required"
  "test_price_status_reports_no_price_available"
  by code_simp+

text \<open>Not passed:

  \<^item> \<^verbatim>\<open>get_twap_price_weights_the_recent_observation_window_by_time\<close>: from 100 to 200 is a move of 100 per cent
  \<^item> \<^verbatim>\<open>get_twap_price_aggregates_median_across_feeders\<close>: from 10 to 20
  \<^item> \<^verbatim>\<open>get_twap_price_averages_middle_two_on_even_count\<close>: from 10 to 20
  \<^item> \<^verbatim>\<open>get_twap_price_ignores_stale_submitters_in_aggregate\<close>: from 10 to 20
  \<^item> \<^verbatim>\<open>price_status_reports_quorum_and_age_spread_across_feeders\<close>: from 100 to 200
  \<^item> \<^verbatim>\<open>price_status_exposes_single_feeder_lack_of_quorum\<close>: from 100 to 200
  \<^item> \<^verbatim>\<open>is_price_stale_agrees_with_get_twap_price\<close>: from 100 to 200
\<close>

lemma staleness_tests_fail:
  "\<not> test_get_twap_price_weights_the_recent_observation_window_by_time"
  "\<not> test_get_twap_price_aggregates_median_across_feeders"
  "\<not> test_get_twap_price_averages_middle_two_on_even_count"
  "\<not> test_get_twap_price_ignores_stale_submitters_in_aggregate"
  "\<not> test_price_status_reports_quorum_and_age_spread_across_feeders"
  "\<not> test_price_status_exposes_single_feeder_lack_of_quorum"
  "\<not> test_is_price_stale_agrees_with_get_twap_price"
  by code_simp+

section \<open>Renewal, reconfiguration and revoked feeders\<close>

definition test_initialize_extends_instance_ttl :: bool where
  "test_initialize_extends_instance_ttl = script
     [Does (OInitialize ''a''), Holds instance_extended]"

definition test_configure_oracle_extends_instance_ttl :: bool where
  "test_configure_oracle_extends_instance_ttl = script
     [Does (OInitialize ''a''), configured 8 1 300 0 0 1, Holds instance_extended]"

definition test_submit_price_extends_instance_ttl :: bool where
  "test_submit_price_extends_instance_ttl = script
     [Does (OInitialize ''a''), grant_admin_feeder, Does (OSubmitPrice ''a'' 50000000), Holds instance_extended]"

definition test_configure_oracle_clears_price_when_decimals_change :: bool where
  "test_configure_oracle_clears_price_when_decimals_change = script
     [Does (OInitialize ''a''), grant_admin_feeder, configured 8 1 300 0 0 1, Does (OSubmitPrice ''a'' 50000000),
      Reads get_twap_price 50000000, configured 6 1 300 0 0 1, ReadFails get_twap_price NoPriceAvailable]"

definition test_configure_oracle_clears_price_when_asset_peg_changes :: bool where
  "test_configure_oracle_clears_price_when_asset_peg_changes = script
     [Does (OInitialize ''a''), grant_admin_feeder, configured 8 1 300 0 0 1, Does (OSubmitPrice ''a'' 50000000),
      Reads get_twap_price 50000000, configured 8 2 300 0 0 1, ReadFails get_twap_price NoPriceAvailable]"

definition test_configure_oracle_preserves_price_when_only_staleness_changes :: bool where
  "test_configure_oracle_preserves_price_when_only_staleness_changes = script
     [Does (OInitialize ''a''), grant_admin_feeder, configured 8 1 300 0 0 1, Does (OSubmitPrice ''a'' 50000000),
      Reads get_twap_price 50000000, configured 8 1 600 0 0 1, Reads get_twap_price 50000000]"

definition test_feeder_revocation_immediately_removes_submission_from_twap_median :: bool where
  "test_feeder_revocation_immediately_removes_submission_from_twap_median = script
     [Does (OInitialize ''a''), configured 8 1 300 0 0 1, feeder ''f'', feeder ''g'', feeder ''h'',
      Does (OSubmitPrice ''f'' 100000000), Does (OSubmitPrice ''g'' 200000000), Does (OSubmitPrice ''h'' 300000000),
      Reads get_twap_price 200000000, Does (ORevokeRole ''a'' PriceFeeder ''h''), Reads get_twap_price 150000000,
      Does (ORevokeRole ''a'' PriceFeeder ''f''), Reads get_twap_price 200000000]"

definition test_revoking_sole_feeder_leaves_no_price_available :: bool where
  "test_revoking_sole_feeder_leaves_no_price_available = script
     [Does (OInitialize ''a''), configured 8 1 300 0 0 1, feeder ''f'', Does (OSubmitPrice ''f'' 100000000),
      Reads get_twap_price 100000000, Does (ORevokeRole ''a'' PriceFeeder ''f''),
      ReadFails get_twap_price NoPriceAvailable]"

definition test_purge_submitter_removes_feeder_submission_and_requires_admin :: bool where
  "test_purge_submitter_removes_feeder_submission_and_requires_admin = script
     [Does (OInitialize ''a''), configured 8 1 300 0 0 1, feeder ''f'', feeder ''g'',
      Does (OSubmitPrice ''f'' 100000000), Does (OSubmitPrice ''g'' 200000000), Reads get_twap_price 150000000,
      Refuses (OPurgeSubmitter ''n'' ''g'') NotAuthorized, Does (OPurgeSubmitter ''a'' ''g''),
      Reads get_twap_price 200000000]"

definition test_revoked_feeder_re_granted_can_submit_fresh_price :: bool where
  "test_revoked_feeder_re_granted_can_submit_fresh_price = script
     [Does (OInitialize ''a''), configured 8 1 300 0 0 1, feeder ''f'', Does (OSubmitPrice ''f'' 100000000),
      Reads get_twap_price 100000000, Does (ORevokeRole ''a'' PriceFeeder ''f''),
      ReadFails get_twap_price NoPriceAvailable, feeder ''f'', Does (OSubmitPrice ''f'' 250000000),
      Reads get_twap_price 250000000]"

definition test_submit_price_rejected_before_min_submit_interval_elapses :: bool where
  "test_submit_price_rejected_before_min_submit_interval_elapses = script
     [Does (OInitialize ''a''), configured 8 1 300 0 60 1, feeder ''f'', Does (OSubmitPrice ''f'' 100000000),
      Refuses (OSubmitPrice ''f'' 100000000) SubmitTooSoon, At (0 + 59),
      Refuses (OSubmitPrice ''f'' 100000001) SubmitTooSoon]"

definition test_submit_price_allowed_after_min_submit_interval_elapses :: bool where
  "test_submit_price_allowed_after_min_submit_interval_elapses = script
     [Does (OInitialize ''a''), configured 8 1 300 0 60 1, feeder ''f'', Does (OSubmitPrice ''f'' 100000000),
      At (0 + 60), Does (OSubmitPrice ''f'' 200000000), Reads get_twap_price 100000000]"

definition test_submit_price_zero_interval_disables_rate_limiting :: bool where
  "test_submit_price_zero_interval_disables_rate_limiting = script
     [Does (OInitialize ''a''), configured 8 1 300 0 0 1, feeder ''f'', Does (OSubmitPrice ''f'' 100000000),
      Does (OSubmitPrice ''f'' 110000000), Does (OSubmitPrice ''f'' 120000000), Reads get_twap_price 120000000]"

definition test_min_submit_interval_is_per_feeder_not_global :: bool where
  "test_min_submit_interval_is_per_feeder_not_global = script
     [Does (OInitialize ''a''), configured 8 1 300 0 60 1, feeder ''f'', feeder ''g'',
      Does (OSubmitPrice ''f'' 100000000), Does (OSubmitPrice ''g'' 200000000),
      Refuses (OSubmitPrice ''f'' 100000001) SubmitTooSoon]"

definition test_first_submission_always_succeeds_regardless_of_interval :: bool where
  "test_first_submission_always_succeeds_regardless_of_interval = script
     [Does (OInitialize ''a''), configured 8 1 300 0 3600 1, feeder ''f'', Does (OSubmitPrice ''f'' 100000000)]"

lemma feeder_tests_pass:
  "test_initialize_extends_instance_ttl"
  "test_configure_oracle_extends_instance_ttl"
  "test_submit_price_extends_instance_ttl"
  "test_configure_oracle_clears_price_when_decimals_change"
  "test_configure_oracle_clears_price_when_asset_peg_changes"
  "test_configure_oracle_preserves_price_when_only_staleness_changes"
  "test_revoking_sole_feeder_leaves_no_price_available"
  "test_revoked_feeder_re_granted_can_submit_fresh_price"
  "test_submit_price_rejected_before_min_submit_interval_elapses"
  "test_submit_price_zero_interval_disables_rate_limiting"
  "test_first_submission_always_succeeds_regardless_of_interval"
  by code_simp+

text \<open>Not passed:

  \<^item> \<^verbatim>\<open>feeder_revocation_immediately_removes_submission_from_twap_median\<close>: from 100 to 200
  \<^item> \<^verbatim>\<open>purge_submitter_removes_feeder_submission_and_requires_admin\<close>: from 100 to 200
  \<^item> \<^verbatim>\<open>submit_price_allowed_after_min_submit_interval_elapses\<close>: from 100 to 200
  \<^item> \<^verbatim>\<open>min_submit_interval_is_per_feeder_not_global\<close>: from 100 to 200
\<close>

lemma feeder_tests_fail:
  "\<not> test_feeder_revocation_immediately_removes_submission_from_twap_median"
  "\<not> test_purge_submitter_removes_feeder_submission_and_requires_admin"
  "\<not> test_submit_price_allowed_after_min_submit_interval_elapses"
  "\<not> test_min_submit_interval_is_per_feeder_not_global"
  by code_simp+

section \<open>Pair prices\<close>

definition test_per_asset_heartbeat_timeout_overrides_global_freshness :: bool where
  "test_per_asset_heartbeat_timeout_overrides_global_freshness = script
     [Does (OInitialize ''a''), feeder ''f'',
      Does (OSetAssetConfig ''a'' ''b'' \<lparr>heartbeat_timeout_seconds = 60\<rparr>),
      Holds (\<lambda>e s. asset_oracle_config_view ''b'' s = Some \<lparr>heartbeat_timeout_seconds = 60\<rparr>),
      Does (OSetPrice ''f'' ''b'' ''q'' 100), At (0 + 60), Reads (pure_read (\<lambda>e. get_price e ''b'' ''q'')) 100,
      At (0 + 61), ReadFails (pure_read (\<lambda>e. get_price e ''b'' ''q'')) OracleStalePrice]"

definition test_asset_oracle_config_rejects_zero_heartbeat :: bool where
  "test_asset_oracle_config_rejects_zero_heartbeat = script
     [Does (OInitialize ''a''),
      Refuses (OSetAssetConfig ''a'' ''t'' \<lparr>heartbeat_timeout_seconds = 0\<rparr>) InvalidHeartbeatTimeout]"

definition test_pair_price_uses_median_of_fresh_authorized_reporters :: bool where
  "test_pair_price_uses_median_of_fresh_authorized_reporters = script
     [Does (OInitialize ''a''), feeder ''f'', feeder ''g'', feeder ''h'', Does (OSetPrice ''f'' ''b'' ''q'' 100),
      Does (OSetPrice ''g'' ''b'' ''q'' 300), Does (OSetPrice ''h'' ''b'' ''q'' 200),
      Reads (pure_read (\<lambda>e. get_price e ''b'' ''q'')) 200]"

definition test_pair_price_ignores_stale_reports_and_errors_when_all_are_stale :: bool where
  "test_pair_price_ignores_stale_reports_and_errors_when_all_are_stale = script
     [Does (OInitialize ''a''), feeder ''f'', feeder ''g'', At 1000000, Does (OSetPrice ''f'' ''b'' ''q'' 100),
      At 1000901, Does (OSetPrice ''g'' ''b'' ''q'' 250), Reads (pure_read (\<lambda>e. get_price e ''b'' ''q'')) 250,
      At 1001802, ReadFails (pure_read (\<lambda>e. get_price e ''b'' ''q'')) OracleStalePrice]"

definition test_pair_price_caps_active_reporters_at_five :: bool where
  "test_pair_price_caps_active_reporters_at_five = script
     [Does (OInitialize ''a''), feeder ''f'', feeder ''g'', feeder ''h'', feeder ''i'', feeder ''j'', feeder ''k'',
      Does (OSetPrice ''f'' ''b'' ''q'' 100), Does (OSetPrice ''g'' ''b'' ''q'' 100),
      Does (OSetPrice ''h'' ''b'' ''q'' 100), Does (OSetPrice ''i'' ''b'' ''q'' 100),
      Does (OSetPrice ''j'' ''b'' ''q'' 100), Refuses (OSetPrice ''k'' ''b'' ''q'' 100) TooManyPairReporters]"

definition test_symbol_pair_price_uses_the_same_median_policy :: bool where
  "test_symbol_pair_price_uses_the_same_median_policy = script
     [Does (OInitialize ''a''), feeder ''f'', feeder ''g'', feeder ''h'',
      Does (OSetPriceSymbol ''f'' ''x'' ''u'' 20000000), Does (OSetPriceSymbol ''g'' ''x'' ''u'' 21000000),
      Does (OSetPriceSymbol ''h'' ''x'' ''u'' 19000000),
      Reads (pure_read (\<lambda>e. get_price_symbol e ''x'' ''u'')) 20000000]"

definition test_get_price_returns_direct_price_or_price_not_found :: bool where
  "test_get_price_returns_direct_price_or_price_not_found = script
     [Does (OInitialize ''a''), ReadFails (pure_read (\<lambda>e. get_price e ''a'' ''b'')) PriceNotFound,
      Does (OSetPrice ''a'' ''a'' ''b'' 20000000), Reads (pure_read (\<lambda>e. get_price e ''a'' ''b'')) 20000000,
      ReadFails (pure_read (\<lambda>e. get_price e ''b'' ''a'')) PriceNotFound]"

definition test_get_price_inverted_calculates_reciprocal_when_direct_feed_absent :: bool where
  "test_get_price_inverted_calculates_reciprocal_when_direct_feed_absent = script
     [Does (OInitialize ''a''), ReadFails (pure_read (\<lambda>e. get_price_inverted e ''x'' ''u'')) PriceNotFound,
      Does (OSetPrice ''a'' ''x'' ''u'' 20000000), Reads (pure_read (\<lambda>e. get_price_inverted e ''x'' ''u'')) 20000000,
      Reads (pure_read (\<lambda>e. get_price_inverted e ''u'' ''x'')) 500000000]"

definition test_pair_price_symbols_direct_and_inverted :: bool where
  "test_pair_price_symbols_direct_and_inverted = script
     [Does (OInitialize ''a''), Does (OSetPriceSymbol ''a'' ''x'' ''u'' 20000000),
      Reads (pure_read (\<lambda>e. get_price_symbol e ''x'' ''u'')) 20000000,
      Reads (pure_read (\<lambda>e. get_price_inverted_symbol e ''x'' ''u'')) 20000000,
      ReadFails (pure_read (\<lambda>e. get_price_symbol e ''u'' ''x'')) PriceNotFound,
      Reads (pure_read (\<lambda>e. get_price_inverted_symbol e ''u'' ''x'')) 500000000]"

definition test_set_price_guards_auth_zero_and_pause :: bool where
  "test_set_price_guards_auth_zero_and_pause = script
     [Does (OInitialize ''a''), Refuses (OSetPrice ''n'' ''a'' ''b'' 100000000) NotAuthorized,
      Refuses (OSetPrice ''a'' ''a'' ''b'' 0) InvalidPrice, Does (OPause ''a''),
      Refuses (OSetPrice ''a'' ''a'' ''b'' 100000000) ContractPaused]"

lemma pair_tests_pass:
  "test_per_asset_heartbeat_timeout_overrides_global_freshness"
  "test_asset_oracle_config_rejects_zero_heartbeat"
  "test_pair_price_uses_median_of_fresh_authorized_reporters"
  "test_pair_price_ignores_stale_reports_and_errors_when_all_are_stale"
  "test_pair_price_caps_active_reporters_at_five"
  "test_symbol_pair_price_uses_the_same_median_policy"
  "test_get_price_returns_direct_price_or_price_not_found"
  "test_get_price_inverted_calculates_reciprocal_when_direct_feed_absent"
  "test_pair_price_symbols_direct_and_inverted"
  "test_set_price_guards_auth_zero_and_pause"
  by code_simp+

section \<open>Deviation, stored prices and failover\<close>

definition test_latest_price_enforces_staleness_threshold :: bool where
  "test_latest_price_enforces_staleness_threshold = script
     [Does (OInitialize ''a''), feeder ''f'', configured 8 1 300 1000000000 0 1, Does (OSubmitPrice ''f'' 50000000),
      Reads latest 50000000, At (0 + 300), Reads latest 50000000, At (0 + 301), ReadFails latest StalePriceFeed,
      ReadFails stored StalePriceFeed, Does (OSubmitPrice ''f'' 52000000), Reads latest 52000000]"

definition test_delayed_heartbeat_returns_stale_status_without_panicking :: bool where
  "test_delayed_heartbeat_returns_stale_status_without_panicking = script
     [Does (OInitialize ''a''), feeder ''f'', configured 8 1 300 0 0 1, Does (OSubmitPrice ''f'' 100000000),
      At (0 + 301), ReadFails get_twap_price OracleStalePrice, Holds (status_is (\<lambda>st. ps_stale st)),
      ReadFails latest StalePriceFeed]"

definition test_price_deviation_circuit_breaker :: bool where
  "test_price_deviation_circuit_breaker = script
     [Does (OInitialize ''a''), feeder ''f'', configured 8 1 300 1000000000 0 1, Does (OSubmitPrice ''f'' 100000000),
      Does (OSetMaxDeviation ''a'' 1000), Holds (\<lambda>e s. max_deviation_bps s = 1000),
      Does (OSubmitPrice ''f'' 105000000), Refuses (OSubmitPrice ''f'' 50000000) OracleDeviationTooHigh,
      Refuses (OSubmitPrice ''f'' 200000000) OracleDeviationTooHigh, Does (OSetMaxDeviation ''a'' 0),
      Does (OSubmitPrice ''f'' 80000000)]"

definition test_hard_oracle_deviation_limit_rejects_moves_over_fifty_percent :: bool where
  "test_hard_oracle_deviation_limit_rejects_moves_over_fifty_percent = script
     [Does (OInitialize ''a''), feeder ''f'', Does (OSubmitPrice ''f'' 100), Does (OSubmitPrice ''f'' 50),
      Refuses (OSubmitPrice ''f'' 76) OracleDeviationTooHigh]"

lemma deviation_tests_pass:
  "test_latest_price_enforces_staleness_threshold"
  "test_delayed_heartbeat_returns_stale_status_without_panicking"
  "test_price_deviation_circuit_breaker"
  "test_hard_oracle_deviation_limit_rejects_moves_over_fifty_percent"
  by code_simp+

text \<open>
  The failover test registers a second oracle as the fallback: what a call of it
  answers is read off its own state.
\<close>

definition feed_at :: "address \<Rightarrow> ledger env \<Rightarrow> twap_oracle \<Rightarrow> feeds" where
  "feed_at addr e s =
     \<lparr>fd_twap_price = (\<lambda>a. if a = addr then (case get_twap_price e no_feeds s of Inr (v, _) \<Rightarrow> Some v | Inl _ \<Rightarrow> None) else None),
      fd_latest_price = (\<lambda>a. if a = addr then (case latest_price e no_feeds s of Inr d \<Rightarrow> Some d | Inl _ \<Rightarrow> None) else None)\<rparr>"

definition fallback_state :: "(oracle_error, twap_oracle) res" where
  "fallback_state =
     and_then (oracle_initialize test_env ''a'' (fresh_oracle [])) (\<lambda>s1.
     and_then (configure_oracle test_env ''a'' (test_config 8 1 300 0 0 1) s1) (\<lambda>s2.
     and_then (oracle_grant_role test_env ''a'' PriceFeeder ''z'' s2) (\<lambda>s3.
     submit_price test_env ''z'' 250000000 s3)))"

definition test_fallback_oracle_feed_automatic_failover :: bool where
  "test_fallback_oracle_feed_automatic_failover =
     expect_ok fallback_state (\<lambda>fb. run_script (feed_at ''y'' test_env fb)
       [Does (OInitialize ''a''), configured 8 1 300 0 0 1, feeder ''f'', Does (OSetFeeds ''a'' ''f'' (Some ''y'')),
        Holds (\<lambda>e s. primary_oracle s = Some ''f'' \<and> fallback_oracle s = Some ''y''),
        Reads get_twap_price 250000000, Reads get_price_with_fallback 250000000,
        Does (OSubmitPrice ''f'' 300000000),
        Reads get_twap_price 300000000, Reads get_price_with_fallback 300000000] test_env (fresh_oracle []))"

lemma failover_test_passes: "test_fallback_oracle_feed_automatic_failover"
  by code_simp

end
