(* ===== verification/Spec2Isabelle.thy ===== *)
theory Spec2Isabelle
  imports Stream_Liveness Stream_Funding Stream_Keeper Batch Root_Batch Factory_Batch Factory_Migration Common_Rbac
    Common_Pause Vault_Flow Governor_Votes Oracle_Reads Contract_Tests Oracle_Tests
begin

text \<open>
  Verification of the StreamFi (Drip) payment-streaming contracts: the Soroban
  contracts under \<^verbatim>\<open>contracts/\<close>, written in Rust.


  \<^bold>\<open>The program.\<close>  A sender locks tokens in a \<^emph>\<open>stream\<close> contract, which releases them to a
  recipient second by second; the sender can pause, re-rate, top up, extend and cancel
  it.  Streams are deployed, funded, numbered and indexed by the \<^emph>\<open>factory\<close>, which asks
  the \<^emph>\<open>governor\<close> for the fee and the bounds a new stream must respect and can be paused
  by it.  The governor also keeps proposals with stakes and past voting weights.  The
  \<^emph>\<open>batch processor\<close> pays many accounts at once, the \<^emph>\<open>token vault\<close> holds tokens for an
  owner with an operator and can pay several streams' recipients, and the \<^emph>\<open>oracle\<close>
  aggregates submitted prices and converts amounts.  All of them share the crate
  \<^verbatim>\<open>common\<close>: roles, the emergency pause, storage renewal.  Tokens are separate contracts.


  \<^bold>\<open>How calls are modelled.\<close>  An entry point is a function from the environment of the
  transaction (\<open>env\<close>: time, ledger sequence, own address, who authorized, the token
  contracts), its arguments and the state of the contract to a result: \<open>Inr\<close> of the new
  state (with the returned value), or \<open>Inl\<close> of a failure (\<open>Prelude\<close>).  A failed call is
  rolled back by the host, with its events, so the failure carries no state.  Failures
  tell the contract's error codes, a missing authorization, an arithmetic overflow (the
  workspace is built with overflow checks) and a trap (of a called contract, or of a read
  of a stored value at another type) apart.  The state of a contract is a record with a
  field per storage key, of the type the code writes there; only the pause slot can hold
  values of an older format, and its typed read aborts on them, as in the host.  Renewals of storage only extend its
  life: they are logged, and a renewal of an absent entry traps.  \<^verbatim>\<open>i128\<close>, \<^verbatim>\<open>u64\<close> and the
  other integers are mathematical integers with their range written out at every
  operation: checked, saturating or plain (overflow aborts); the flags of a stream are a
  32-bit word.


  \<^bold>\<open>Parameters.\<close>  Code that is not part of the repository is an argument: the token
  contracts (\<open>token_iface\<close>, with the documented SEP-41 behaviour as the hypotheses \<open>sep41\<close>
  and, where a call must go through, \<open>sep41_live\<close>; \<open>Host\<close> gives a concrete ledger that
  satisfies both), uploaded code, SHA-256 and the derivation of addresses (the record
  \<open>chain\<close> of the factory), and the answers of external price contracts (\<open>feeds\<close>).  Other
  contracts may change tokens, streams and factories between two calls of a history;
  a contract cannot be re-entered.  Histories are of the modelled code as long as
  \<^verbatim>\<open>upgrade\<close> has not replaced it.


  \<^bold>\<open>The theories\<close>, with the files they model (below \<^verbatim>\<open>contracts/\<close>):

  \<^item> \<open>Prelude\<close>, \<open>Host\<close>: results, integers, the host and the tokens; the interfaces the
    components share, as locales: \<open>transition_system\<close> (an invariant along every run),
    \<open>reentrancy_guard\<close>, \<open>frame_relation\<close> (a relation followed through the body of a call).
  \<^item> \<open>Common_Ttl\<close>, \<open>Common_Pause\<close>, \<open>Common_Rbac\<close>, \<open>Common_Admins\<close>: \<^verbatim>\<open>common/src\<close>.  The pause
    slot implements a gate that opens by itself (\<open>pause_gate\<close>); the role store implements
    the documented access matrix with expiry times as long as no grant changes the expiry
    of a held role (\<open>role_registry\<close>); a store in which no
    administrator's role expires never loses the last one.
  \<^item> \<open>Stream_State\<close>, \<open>Stream_Events\<close>, \<open>Stream_Math\<close>, \<open>Stream_Ops\<close>, \<open>Stream_Admin\<close>:
    \<^verbatim>\<open>stream/src\<close> (\<^verbatim>\<open>storage.rs\<close> and \<^verbatim>\<open>state.rs\<close>, \<^verbatim>\<open>events.rs\<close>, \<^verbatim>\<open>math.rs\<close>, then \<^verbatim>\<open>lib.rs\<close>), a function
    per entry point.  \<open>Stream_Accrual\<close>: the released amount is the rate for every second
    that counts, what pausing and re-rating do to it.  \<open>Stream_Settlement\<close>, \<open>Stream_Safety\<close>: who is paid what by
    withdrawals, cancellations and clawbacks, who may call what, finality.
    \<open>Stream_Invariant\<close>: the invariant of every reachable state.  \<open>Stream_Liveness\<close>,
    \<open>Stream_Funding\<close>, \<open>Stream_Keeper\<close>: calls that must go through, solvency, the keeper pool.
  \<^item> \<open>Batch\<close>: \<^verbatim>\<open>batch-processor/src/lib.rs\<close> and what a batch pays.  \<open>Root_Batch\<close>: the counter
    of the repository's root crate (\<^verbatim>\<open>src/batch_transfer_processor.rs\<close>).
  \<^item> \<open>Factory_Index\<close> (\<^verbatim>\<open>factory/src/index.rs\<close>, \<^verbatim>\<open>query.rs\<close>) with \<open>Factory_Index_Correct\<close>
    (the paged index implements a list, at every stage of its migration: \<open>list_registry\<close>)
    and \<open>Factory_Migration\<close> (the migration ends); \<open>Factory\<close> (the other files of
    \<^verbatim>\<open>factory/src\<close>) with \<open>Factory_Registry\<close> (the registry implements the list of
    creations: \<open>growing_registry\<close>), \<open>Factory_Create\<close> and \<open>Factory_Batch\<close> (what creations
    and batches do).  The factory's state holds the states of its streams; deploying and
    cancelling run the stream's own functions.
  \<^item> \<open>Vault\<close>, \<open>Vault_Ops\<close>: \<^verbatim>\<open>token-vault/src\<close>; \<open>Vault_History\<close>, \<open>Vault_Custody\<close>, \<open>Vault_Flow\<close>:
    its storage invariant, the two-step change of owner, the timelock of the migration,
    and who can move tokens out.
  \<^item> \<open>Governor\<close>, \<open>Governor_Ops\<close>: \<^verbatim>\<open>governor/src\<close>; \<open>Governor_History\<close>, \<open>Governor_Rules\<close>: its
    invariant, the rules for proposals and voting weights, and, with the factory's
    functions, that its parameters suit the factory and its pause stops it.
    \<open>Governor_Votes\<close>: what the code has of casting votes, and that a settled proposal
    stays settled.
  \<^item> \<open>Oracle\<close>, \<open>Oracle_Ops\<close>, \<open>Oracle_Pairs\<close>: \<^verbatim>\<open>oracle/src/lib.rs\<close>; \<open>Oracle_Price\<close>,
    \<open>Oracle_Twap\<close>: the in-place sorts and medians are the middle of the sorted prices, the
    time-weighted average is the average over the priced seconds; \<open>Oracle_History\<close>,
    \<open>Oracle_Reach\<close>: the invariant over all histories; \<open>Oracle_Rules\<close>, \<open>Oracle_Reads\<close>: what a
    submission changes, what each read returns and with which error it fails.
  \<^item> \<open>Common_Tests\<close>, \<open>Contract_Tests\<close>, \<open>Oracle_Tests\<close>: the unit tests that the source files of
    \<^verbatim>\<open>common\<close>, \<^verbatim>\<open>stream\<close>, \<^verbatim>\<open>factory\<close> and \<^verbatim>\<open>oracle\<close> contain, each as a definition that is evaluated
    on the model.  They check the model against what its authors expect of the code: it
    passes every test but fourteen, and for those the theorems show that it is the test
    that does not fit the code.


  \<^bold>\<open>Histories.\<close>  For the stream, the factory, the vault, the governor and the oracle the
  entry points are collected in a datatype of calls and an executor; a history is a list
  of attempts, each with its own environment, of which the failed ones change nothing.
  Invariants are proved per entry point and lifted by an interpretation of
  \<open>transition_system\<close>.  Hypotheses on attempts only state the ranges of the argument
  types, and that time does not run backwards where it matters.


  \<^bold>\<open>Loops and bounds.\<close>  Every loop is a structural recursion or has a measure; no fuel is
  used.  Bounds in statements are those of the code: 32 feeders and observations, five
  reporters, pages of 100, batches as configured.  The index theorems ask for 100 places
  below the largest \<^verbatim>\<open>u32\<close>, since the code's page arithmetic saturates there.


  \<^bold>\<open>Where the code does not do what it says.\<close>  Some theorems state such behaviour by
  concrete execution: an overdrawn keeper pool, an emergency flag that stops nothing,
  pauses that count after a cliff, unpaid extensions, credits that outlive a withdrawal,
  a counter lowered by a foreign contract, a role guard that counts expired
  administrators, a grant that shortens a role that is held, the stake of a cancelled
  proposal that nobody gets back, and a primary price feed that blocks the average.
  Where the documentation and the code part, the properties are stated for the cases in
  which they agree, with the case left out named in the statement's text: a resume or a
  rate change under a cliff, a second grant with another expiry, the freshness window of
  token pairs with a heartbeat or a staleness limit, and reads with external feeds.


  \<^bold>\<open>Not modelled.\<close>  \<^verbatim>\<open>cast_vote\<close> and \<^verbatim>\<open>cast_vote_with_rationale\<close> of the governor call a
  function \<^verbatim>\<open>cast_ballot\<close> that does not exist: it is a parameter, and nothing is proved of
  casting a vote; the statements stranded behind them are a definition of their own.
  \<^verbatim>\<open>paginate_addresses\<close> and \<^verbatim>\<open>oracle/src/errors.rs\<close> are used by nothing.  The test files
  beside the contracts, the indexer, the front end, the database and the scripts are
  outside: they hold no contract state.  Ledger fees, and the expiry of storage that
  nobody renews, are the host's.
\<close>

end
